(* ===== verification/Prelude.thy ===== *)
theory Prelude
  imports Main "HOL-Library.List_Lexorder" "HOL-Library.Char_ord" "HOL-Library.AList"
    "HOL-Library.Multiset"
begin

text \<open>
  What every component of the model shares: the state-and-error monad in which the
  stateful Go code is written, its Hoare triples, the fragments of Go's \<^verbatim>\<open>strings\<close>,
  \<^verbatim>\<open>sort\<close> and \<^verbatim>\<open>time\<close> packages the source uses, and generic list lemmas.
\<close>

named_theorems wp \<open>introduction rules for Hoare triples of the state-and-error monad\<close>
named_theorems monad_simps \<open>unfolding rules of the state-and-error monad\<close>
named_theorems gostr \<open>facts about the modelled string functions\<close>

section \<open>Effects\<close>

text \<open>
  A Go function that touches the outside world \<open>'w\<close> and may return an error is a function
  \<open>'w \<Rightarrow> ('e + 'a) \<times> 'w\<close>: the error (or early error return) is \<open>Inl\<close>, and the world is
  threaded through on both paths because effects made before an error stay made.
\<close>

type_synonym ('w, 'e, 'a) act = "'w \<Rightarrow> ('e + 'a) \<times> 'w"

definition returnE :: "'a \<Rightarrow> ('w, 'e, 'a) act" where
  "returnE a = (\<lambda>w. (Inr a, w))"

definition throwE :: "'e \<Rightarrow> ('w, 'e, 'a) act" where
  "throwE e = (\<lambda>w. (Inl e, w))"

definition bindE :: "('w, 'e, 'a) act \<Rightarrow> ('a \<Rightarrow> ('w, 'e, 'b) act) \<Rightarrow> ('w, 'e, 'b) act" where
  "bindE m f = (\<lambda>w. case m w of (Inl e, w') \<Rightarrow> (Inl e, w') | (Inr a, w') \<Rightarrow> f a w')"

definition getE :: "('w \<Rightarrow> 'a) \<Rightarrow> ('w, 'e, 'a) act" where
  "getE f = (\<lambda>w. (Inr (f w), w))"

definition modifyE :: "('w \<Rightarrow> 'w) \<Rightarrow> ('w, 'e, unit) act" where
  "modifyE f = (\<lambda>w. (Inr (), f w))"

text \<open>\<^verbatim>\<open>defer f()\<close>: \<open>f\<close> runs on the world left by \<open>m\<close>, whether \<open>m\<close> failed or not.\<close>

definition finallyE :: "('w, 'e, 'a) act \<Rightarrow> ('w \<Rightarrow> 'w) \<Rightarrow> ('w, 'e, 'a) act" where
  "finallyE m f = (\<lambda>w. case m w of (r, w') \<Rightarrow> (r, f w'))"

lemma returnE_apply [simp, monad_simps]: "returnE a w = (Inr a, w)"
  by (simp add: returnE_def)

lemma throwE_apply [simp, monad_simps]: "throwE e w = (Inl e, w)"
  by (simp add: throwE_def)

lemma getE_apply [simp, monad_simps]: "getE f w = (Inr (f w), w)"
  by (simp add: getE_def)

lemma modifyE_apply [simp, monad_simps]: "modifyE f w = (Inr (), f w)"
  by (simp add: modifyE_def)

lemma bindE_apply [monad_simps]:
  "bindE m f w = (case m w of (Inl e, w') \<Rightarrow> (Inl e, w') | (Inr a, w') \<Rightarrow> f a w')"
  by (simp add: bindE_def)

lemma finallyE_apply [monad_simps]: "finallyE m f w = (case m w of (r, w') \<Rightarrow> (r, f w'))"
  by (simp add: finallyE_def)

lemma bindE_Inr: "m w = (Inr a, w') \<Longrightarrow> bindE m f w = f a w'"
  by (simp add: bindE_def)

lemma bindE_Inl: "m w = (Inl e, w') \<Longrightarrow> bindE m f w = (Inl e, w')"
  by (simp add: bindE_def)

lemma bindE_returnE [simp]: "bindE (returnE a) f = f a"
  by (simp add: bindE_def)

lemma bindE_throwE [simp]: "bindE (throwE e) f = throwE e"
  by (simp add: bindE_def fun_eq_iff)

lemma bindE_assoc: "bindE (bindE m f) g = bindE m (\<lambda>a. bindE (f a) g)"
  by (auto simp: bindE_def fun_eq_iff split: prod.split sum.split)

lemma bindE_Inr_E:
  assumes "bindE m f w = (Inr b, w')"
  obtains a w1 where "m w = (Inr a, w1)" and "f a w1 = (Inr b, w')"
  using assms by (auto simp: bindE_def split: prod.splits sum.splits)

subsection \<open>Hoare triples\<close>

text \<open>
  \<open>triple P m Q E\<close>: from a world satisfying \<open>P\<close>, a normal return satisfies \<open>Q\<close> and an error
  return satisfies \<open>E\<close>. Every function of the model is total, so this is total correctness.
\<close>

definition triple :: "('w \<Rightarrow> bool) \<Rightarrow> ('w, 'e, 'a) act \<Rightarrow> ('a \<Rightarrow> 'w \<Rightarrow> bool) \<Rightarrow> ('e \<Rightarrow> 'w \<Rightarrow> bool) \<Rightarrow> bool"
  where
  "triple P m Q E \<longleftrightarrow>
     (\<forall>w. P w \<longrightarrow> (case m w of (Inl e, w') \<Rightarrow> E e w' | (Inr a, w') \<Rightarrow> Q a w'))"

lemma tripleI:
  "(\<And>w a w'. P w \<Longrightarrow> m w = (Inr a, w') \<Longrightarrow> Q a w') \<Longrightarrow>
   (\<And>w e w'. P w \<Longrightarrow> m w = (Inl e, w') \<Longrightarrow> E e w') \<Longrightarrow> triple P m Q E"
  by (auto simp: triple_def split: prod.split sum.split)

lemma triple_Inr: "triple P m Q E \<Longrightarrow> P w \<Longrightarrow> m w = (Inr a, w') \<Longrightarrow> Q a w'"
  by (force simp: triple_def)

lemma triple_Inl: "triple P m Q E \<Longrightarrow> P w \<Longrightarrow> m w = (Inl e, w') \<Longrightarrow> E e w'"
  by (force simp: triple_def)

lemma triple_bind [wp]:
  "triple P m R E \<Longrightarrow> (\<And>a. triple (R a) (f a) Q E) \<Longrightarrow> triple P (bindE m f) Q E"
  by (fastforce simp: triple_def bindE_def split: prod.splits sum.splits)

lemma triple_return: "(\<And>w. P w \<Longrightarrow> Q a w) \<Longrightarrow> triple P (returnE a) Q E"
  by (simp add: triple_def)

lemma triple_throw: "(\<And>w. P w \<Longrightarrow> E e w) \<Longrightarrow> triple P (throwE e) Q E"
  by (simp add: triple_def)

lemma triple_if [wp]:
  "(b \<Longrightarrow> triple P m Q E) \<Longrightarrow> (\<not> b \<Longrightarrow> triple P m' Q E) \<Longrightarrow>
   triple P (if b then m else m') Q E"
  by simp

lemma triple_conseq:
  "triple P' m Q' E' \<Longrightarrow> (\<And>w. P w \<Longrightarrow> P' w) \<Longrightarrow> (\<And>a w. Q' a w \<Longrightarrow> Q a w) \<Longrightarrow>
   (\<And>e w. E' e w \<Longrightarrow> E e w) \<Longrightarrow> triple P m Q E"
  by (fastforce simp: triple_def split: prod.splits sum.splits)

lemma triple_pre: "triple P' m Q E \<Longrightarrow> (\<And>w. P w \<Longrightarrow> P' w) \<Longrightarrow> triple P m Q E"
  by (rule triple_conseq)

lemma triple_finally:
  "triple P m (\<lambda>a w. Q a (f w)) (\<lambda>e w. E e (f w)) \<Longrightarrow> triple P (finallyE m f) Q E"
  by (fastforce simp: triple_def finallyE_def split: prod.splits sum.splits)

lemma triple_fact: "(\<And>w. P w \<Longrightarrow> b) \<Longrightarrow> (b \<Longrightarrow> triple P m Q E) \<Longrightarrow> triple P m Q E"
  by (auto simp: triple_def)

lemma triple_bind_fact:
  "triple P m R E \<Longrightarrow> (\<And>a w. R a w \<Longrightarrow> F a) \<Longrightarrow> (\<And>a. F a \<Longrightarrow> triple (R a) (f a) Q E) \<Longrightarrow>
   triple P (bindE m f) Q E"
  by (erule triple_bind) (rule triple_fact)

lemma triple_each: "(\<And>w. P w \<Longrightarrow> triple ((=) w) m Q E) \<Longrightarrow> triple P m Q E"
  by (simp add: triple_def)

section \<open>Strings\<close>

text \<open>
  Go strings are byte sequences and so is \<^typ>\<open>string\<close>. The functions below follow
  \<^verbatim>\<open>strings.TrimSpace\<close>, \<^verbatim>\<open>strings.ToLower\<close>, \<^verbatim>\<open>strings.ToUpper\<close> and the rest on ASCII input; the
  identifiers the modelled code compares (stages, providers, resources) are ASCII.
\<close>

definition is_space :: "char \<Rightarrow> bool" where
  "is_space c \<longleftrightarrow> (let n = (of_char c :: nat) in n = 32 \<or> (9 \<le> n \<and> n \<le> 13))"

definition TrimSpace :: "string \<Rightarrow> string" where
  "TrimSpace s = rev (dropWhile is_space (rev (dropWhile is_space s)))"

definition lower_char :: "char \<Rightarrow> char" where
  "lower_char c = (let n = (of_char c :: nat) in if 65 \<le> n \<and> n \<le> 90 then char_of (n + 32) else c)"

definition upper_char :: "char \<Rightarrow> char" where
  "upper_char c = (let n = (of_char c :: nat) in if 97 \<le> n \<and> n \<le> 122 then char_of (n - 32) else c)"

definition ToLower :: "string \<Rightarrow> string" where
  "ToLower s = map lower_char s"

definition ToUpper :: "string \<Rightarrow> string" where
  "ToUpper s = map upper_char s"

definition EqualFold :: "string \<Rightarrow> string \<Rightarrow> bool" where
  "EqualFold s t \<longleftrightarrow> ToLower s = ToLower t"

fun HasPrefix :: "string \<Rightarrow> string \<Rightarrow> bool" where
  "HasPrefix s [] = True"
| "HasPrefix [] (p # ps) = False"
| "HasPrefix (c # cs) (p # ps) = (c = p \<and> HasPrefix cs ps)"

definition HasSuffix :: "string \<Rightarrow> string \<Rightarrow> bool" where
  "HasSuffix s p = HasPrefix (rev s) (rev p)"

definition TrimPrefix :: "string \<Rightarrow> string \<Rightarrow> string" where
  "TrimPrefix s p = (if HasPrefix s p then drop (length p) s else s)"

definition TrimSuffix :: "string \<Rightarrow> string \<Rightarrow> string" where
  "TrimSuffix s p = (if HasSuffix s p then take (length s - length p) s else s)"

fun Contains :: "string \<Rightarrow> string \<Rightarrow> bool" where
  "Contains s p = (HasPrefix s p \<or> (case s of [] \<Rightarrow> False | _ # cs \<Rightarrow> Contains cs p))"

text \<open>\<^verbatim>\<open>strings.ReplaceAll\<close> for one-byte patterns, the only ones the modelled code uses.\<close>

definition ReplaceAll1 :: "string \<Rightarrow> char \<Rightarrow> char \<Rightarrow> string" where
  "ReplaceAll1 s c d = map (\<lambda>x. if x = c then d else x) s"

declare Contains.simps [simp del]

lemma HasPrefix_iff [gostr]: "HasPrefix s p \<longleftrightarrow> (\<exists>t. s = p @ t)"
  by (induction s p rule: HasPrefix.induct) auto

lemma HasSuffix_iff [gostr]: "HasSuffix s p \<longleftrightarrow> (\<exists>t. s = t @ p)"
proof -
  have "HasSuffix s p \<longleftrightarrow> (\<exists>t. rev s = rev p @ t)"
    by (simp add: HasSuffix_def HasPrefix_iff)
  also have "\<dots> \<longleftrightarrow> (\<exists>t. s = t @ p)"
    by (metis rev_append rev_rev_ident)
  finally show ?thesis .
qed

lemma TrimSuffix_append [simp]: "TrimSuffix (s @ p) p = s"
  by (auto simp: TrimSuffix_def HasSuffix_iff)

lemma EqualFold_refl [simp]: "EqualFold s s"
  by (simp add: EqualFold_def)

lemma lower_char_idem [simp]: "lower_char (lower_char c) = lower_char c"
  by (auto simp: lower_char_def Let_def of_char_of)

lemma ToLower_idem [simp]: "ToLower (ToLower s) = ToLower s"
  by (simp add: ToLower_def)

lemma dropWhile_rev_dropWhile:
  "dropWhile p (rev (dropWhile p (rev (dropWhile p xs)))) =
   rev (dropWhile p (rev (dropWhile p xs)))"
proof (cases "dropWhile p (rev (dropWhile p xs))")
  case Nil
  show ?thesis by (simp only: Nil rev.simps dropWhile.simps)
next
  case (Cons y ys)
  define zs where "zs = dropWhile p xs"
  have "\<exists>z \<in> set (rev zs). \<not> p z"
    using Cons unfolding zs_def by (metis dropWhile_eq_Nil_conv list.distinct(1))
  then obtain z where z: "z \<in> set zs" "\<not> p z" by auto
  then obtain c cs where zs: "zs = c # cs" by (cases zs) auto
  have c: "\<not> p c" using zs unfolding zs_def by (metis dropWhile_eq_Cons_conv)
  have "dropWhile p (rev zs) = dropWhile p (rev cs @ [c])" by (simp add: zs)
  moreover have "\<exists>bs. dropWhile p (rev cs @ [c]) = bs @ [c]"
    using c by (simp add: dropWhile_append)
  ultimately obtain bs where bs: "dropWhile p (rev zs) = bs @ [c]" by auto
  have "dropWhile p (rev (bs @ [c])) = rev (bs @ [c])" using c by simp
  then show ?thesis by (simp add: bs zs_def [symmetric])
qed

lemma TrimSpace_idem [simp]: "TrimSpace (TrimSpace s) = TrimSpace s"
  by (simp add: TrimSpace_def dropWhile_rev_dropWhile)

lemma is_space_lower [simp]: "is_space (lower_char c) = is_space c"
  by (auto simp: is_space_def lower_char_def Let_def of_char_of)

lemma TrimSpace_ends: "s \<noteq> [] \<Longrightarrow> \<not> is_space (hd s) \<Longrightarrow> \<not> is_space (last s) \<Longrightarrow> TrimSpace s = s"
proof -
  assume "s \<noteq> []" "\<not> is_space (hd s)" "\<not> is_space (last s)"
  moreover from this have "dropWhile is_space s = s" "dropWhile is_space (rev s) = rev s"
    by (cases s, auto, cases "rev s", auto simp: last_rev hd_rev dest: arg_cong [where f = hd])
  ultimately show ?thesis by (simp add: TrimSpace_def)
qed

lemma trimmed_ends: "TrimSpace s = s \<Longrightarrow> s \<noteq> [] \<Longrightarrow> \<not> is_space (hd s) \<and> \<not> is_space (last s)"
proof -
  assume s: "TrimSpace s = s" "s \<noteq> []"
  let ?u = "dropWhile is_space s" and ?w = "\<lambda>u. dropWhile is_space (rev u)"
  have "length (?w ?u) = length s" using arg_cong [OF s(1), of length] by (simp add: TrimSpace_def)
  then have u: "length ?u = length s" using length_dropWhile_le [of is_space "rev ?u"] length_dropWhile_le [of is_space s] by simp
  then have "?u = s" by (metis append_self_conv2 length_0_conv length_append add_cancel_left_left takeWhile_dropWhile_id)
  moreover from this have "?w s = rev s" using s(1) by (metis TrimSpace_def rev_rev_ident)
  ultimately show ?thesis using s(2) hd_dropWhile [of is_space s] hd_dropWhile [of is_space "rev s"]
    by (metis dropWhile_eq_Nil_conv hd_rev rev_is_Nil_conv)
qed

lemma TrimSpace_ToLower: "TrimSpace (ToLower s) = ToLower (TrimSpace s)"
  by (simp add: TrimSpace_def ToLower_def dropWhile_map rev_map comp_def)

section \<open>Sorting\<close>

text \<open>
  \<^verbatim>\<open>sort.Slice\<close> with an arbitrary comparison: Go sorts slices of at most 12 elements by
  insertion from the right, which is stable, and that is the algorithm below. On longer
  slices Go may order elements that compare equal differently; the properties stated about
  sorted slices hold for every order of such ties.
\<close>

fun ins_rev :: "('a \<Rightarrow> 'a \<Rightarrow> bool) \<Rightarrow> 'a \<Rightarrow> 'a list \<Rightarrow> 'a list" where
  "ins_rev lt x [] = [x]"
| "ins_rev lt x (y # ys) = (if lt x y then y # ins_rev lt x ys else x # y # ys)"

definition sort_slice :: "('a \<Rightarrow> 'a \<Rightarrow> bool) \<Rightarrow> 'a list \<Rightarrow> 'a list" where
  "sort_slice lt xs = rev (foldl (\<lambda>acc x. ins_rev lt x acc) [] xs)"

lemma mset_ins_rev: "mset (ins_rev lt x ys) = add_mset x (mset ys)"
  by (induction ys) auto

lemma mset_foldl_ins_rev: "mset (foldl (\<lambda>acc x. ins_rev lt x acc) acc xs) = mset acc + mset xs"
  by (induction xs arbitrary: acc) (auto simp: mset_ins_rev)

lemma mset_sort_slice [simp]: "mset (sort_slice lt xs) = mset xs"
  by (simp add: sort_slice_def mset_foldl_ins_rev)

lemma set_sort_slice [simp]: "set (sort_slice lt xs) = set xs"
  by (metis mset_eq_setD mset_sort_slice)

lemma length_sort_slice [simp]: "length (sort_slice lt xs) = length xs"
  by (metis mset_sort_slice size_mset)

lemma sort_slice_Nil [simp]: "sort_slice lt [] = []"
  by (simp add: sort_slice_def)

lemma sort_slice_eq_Nil [simp]: "sort_slice lt xs = [] \<longleftrightarrow> xs = []"
  by (metis length_0_conv length_sort_slice)

text \<open>For a strict weak order the result is sorted: no later element is less than an earlier one.\<close>

definition weak_order :: "('a \<Rightarrow> 'a \<Rightarrow> bool) \<Rightarrow> bool" where
  "weak_order lt \<longleftrightarrow>
     (\<forall>x. \<not> lt x x) \<and> (\<forall>x y z. lt x y \<longrightarrow> lt y z \<longrightarrow> lt x z) \<and>
     (\<forall>x y z. lt x z \<longrightarrow> lt x y \<or> lt y z)"

lemma ins_rev_sorted:
  assumes "weak_order lt" and "sorted_wrt (\<lambda>a b. \<not> lt a b) ys"
  shows "sorted_wrt (\<lambda>a b. \<not> lt a b) (ins_rev lt x ys)"
  using assms(2)
proof (induction ys)
  case Nil
  then show ?case by simp
next
  case (Cons y ys)
  show ?case
  proof (cases "lt x y")
    case True
    have "set (ins_rev lt x ys) = insert x (set ys)"
      by (metis mset_ins_rev set_mset_add_mset_insert set_mset_mset)
    moreover have "\<not> lt y x"
      using True assms(1) by (auto simp: weak_order_def)
    ultimately show ?thesis using True Cons by auto
  next
    case False
    have "\<not> lt x z" if "z \<in> set ys" for z
    proof
      assume "lt x z"
      then have "lt x y \<or> lt y z" using assms(1) by (auto simp: weak_order_def)
      then show False using False Cons.prems that by auto
    qed
    then show ?thesis using False Cons.prems by auto
  qed
qed

lemma foldl_ins_rev_sorted:
  assumes "weak_order lt" and "sorted_wrt (\<lambda>a b. \<not> lt a b) acc"
  shows "sorted_wrt (\<lambda>a b. \<not> lt a b) (foldl (\<lambda>acc x. ins_rev lt x acc) acc xs)"
  using assms by (induction xs arbitrary: acc) (auto intro: ins_rev_sorted)

lemma sorted_sort_slice:
  "weak_order lt \<Longrightarrow> sorted_wrt (\<lambda>a b. \<not> lt b a) (sort_slice lt xs)"
  using foldl_ins_rev_sorted [of lt "[]" xs]
  by (simp add: sort_slice_def sorted_wrt_rev)

lemma sort_slice_hd_least:
  assumes "weak_order lt" and "x \<in> set xs"
  shows "\<not> lt x (hd (sort_slice lt xs))"
proof -
  from assms(2) have "x \<in> set (sort_slice lt xs)" by simp
  then obtain y ys where eq: "sort_slice lt xs = y # ys"
    by (cases "sort_slice lt xs") auto
  with sorted_sort_slice [OF assms(1), of xs] have "\<forall>z \<in> set ys. \<not> lt z y" by simp
  moreover have "\<not> lt y y" using assms(1) by (simp add: weak_order_def)
  ultimately show ?thesis
    using assms(2) eq set_sort_slice [of lt xs] by auto
qed

lemma weak_orderI_key:
  fixes f :: "'a \<Rightarrow> 'b::linorder" and g :: "'a \<Rightarrow> 'c::linorder"
  shows "weak_order (\<lambda>a b. if f a = f b then g a < g b else f a < f b)"
  by (auto simp: weak_order_def)

section \<open>Lists\<close>

text \<open>The index of the first element satisfying a predicate, as Go's search loops compute it.\<close>

fun find_index :: "('a \<Rightarrow> bool) \<Rightarrow> 'a list \<Rightarrow> nat option" where
  "find_index p [] = None"
| "find_index p (x # xs) = (if p x then Some 0 else map_option Suc (find_index p xs))"

lemma find_index_Some:
  "find_index p xs = Some i \<longleftrightarrow> i < length xs \<and> p (xs ! i) \<and> (\<forall>j < i. \<not> p (xs ! j))"
proof (induction xs arbitrary: i)
  case Nil
  then show ?case by simp
next
  case (Cons x xs)
  show ?case
  proof (cases i)
    case 0
    then show ?thesis by auto
  next
    case (Suc k)
    then show ?thesis using Cons.IH [of k] by (auto simp: All_less_Suc2)
  qed
qed

lemma find_index_None: "find_index p xs = None \<longleftrightarrow> (\<forall>x \<in> set xs. \<not> p x)"
  by (induction xs) auto

lemma find_index_bound: "find_index p xs = Some i \<Longrightarrow> i < length xs"
  by (simp add: find_index_Some)

lemma nth_list_update_If: "i < length xs \<Longrightarrow> (xs[i := x]) ! j = (if i = j then x else xs ! j)"
  by simp

text \<open>Go's integer division truncates towards zero.\<close>

definition tdiv :: "int \<Rightarrow> int \<Rightarrow> int" where
  "tdiv a b = sgn a * sgn b * (\<bar>a\<bar> div \<bar>b\<bar>)"

lemma tdiv_nonneg [simp]: "0 \<le> a \<Longrightarrow> 0 < b \<Longrightarrow> tdiv a b = a div b"
  by (cases "a = 0") (auto simp: tdiv_def sgn_if)

end
