(* ===== verification/Float64.thy ===== *)
theory Float64
  imports Prelude Complex_Main "HOL-Library.Word"
begin

text \<open>
  Go's \<^verbatim>\<open>float64\<close> arithmetic, exactly: a finite double is the rational it denotes, and each
  operation is the rational operation followed by rounding to 53 significant bits, ties to
  even, with gradual underflow at exponent \<open>-1074\<close>. Overflow to infinity is not modelled (the
  modelled code divides and multiplies small weights and adds costs). Also \<^verbatim>\<open>math.Round\<close> and
  the \<^verbatim>\<open>int64\<close> conversions used on durations.
\<close>

section \<open>Rounding to double precision\<close>

type_synonym f64 = rat

function bits :: "int \<Rightarrow> int" where
  "bits n = (if n \<le> 0 then 0 else 1 + bits (n div 2))"
  by pat_completeness auto
termination
  by (relation "measure nat") auto

declare bits.simps [simp del]

text \<open>\<open>2^k\<close> for a possibly negative exponent.\<close>

definition pow2 :: "int \<Rightarrow> rat" where
  "pow2 k = (if 0 \<le> k then 2 ^ nat k else 1 / 2 ^ nat (- k))"

definition round_half_even :: "rat \<Rightarrow> int" where
  "round_half_even x =
     (let f = \<lfloor>x\<rfloor>; d = x - of_int f
      in if d < 1/2 then f else if 1/2 < d then f + 1 else if even f then f else f + 1)"

text \<open>
  The exponent of the last place: \<open>2^52 \<le> x / 2^k < 2^53\<close> for a positive \<open>x = p/q\<close>, except in
  the subnormal range.
\<close>

definition ulp_exp :: "rat \<Rightarrow> int" where
  "ulp_exp x =
     (let (p, q) = quotient_of x;
          k0 = bits p - bits q - 53;
          k = (if x < pow2 (k0 + 53) then k0 else k0 + 1)
      in max k (-1074))"

definition rnd_pos :: "rat \<Rightarrow> f64" where
  "rnd_pos x = (let k = ulp_exp x in of_int (round_half_even (x / pow2 k)) * pow2 k)"

definition rnd :: "rat \<Rightarrow> f64" where
  "rnd x = (if x = 0 then 0 else if 0 < x then rnd_pos x else - rnd_pos (- x))"

definition f64_add :: "f64 \<Rightarrow> f64 \<Rightarrow> f64" where "f64_add a b = rnd (a + b)"
definition f64_mul :: "f64 \<Rightarrow> f64 \<Rightarrow> f64" where "f64_mul a b = rnd (a * b)"
definition f64_div :: "f64 \<Rightarrow> f64 \<Rightarrow> f64" where "f64_div a b = rnd (a / b)"
definition f64_of_int :: "int \<Rightarrow> f64" where "f64_of_int n = rnd (of_int n)"

text \<open>\<^verbatim>\<open>math.Round\<close>: half away from zero; the argument is a double, the result is exact.\<close>

definition math_Round :: "f64 \<Rightarrow> int" where
  "math_Round x = (if 0 \<le> x then \<lfloor>x + 1/2\<rfloor> else - \<lfloor>- x + 1/2\<rfloor>)"

text \<open>\<^verbatim>\<open>int(x)\<close> of a float truncates towards zero.\<close>

definition f64_to_int :: "f64 \<Rightarrow> int" where
  "f64_to_int x = (if 0 \<le> x then \<lfloor>x\<rfloor> else - \<lfloor>- x\<rfloor>)"

lemma round_half_even_bounds:
  "of_int (round_half_even x) \<le> x + 1/2 \<and> x - 1/2 \<le> of_int (round_half_even x)"
proof -
  have f: "of_int \<lfloor>x\<rfloor> \<le> x" "x < of_int \<lfloor>x\<rfloor> + 1"
    using floor_correct [of x] by simp_all
  consider "x - of_int \<lfloor>x\<rfloor> < 1/2" | "1/2 < x - of_int \<lfloor>x\<rfloor>" | "x - of_int \<lfloor>x\<rfloor> = 1/2"
    by linarith
  then show ?thesis
  proof cases
    case 1
    then have "round_half_even x = \<lfloor>x\<rfloor>" by (simp add: round_half_even_def Let_def)
    with 1 f show ?thesis by linarith
  next
    case 2
    then have "round_half_even x = \<lfloor>x\<rfloor> + 1" by (simp add: round_half_even_def Let_def)
    with 2 f show ?thesis by simp
  next
    case 3
    then have "round_half_even x \<in> {\<lfloor>x\<rfloor>, \<lfloor>x\<rfloor> + 1}" by (simp add: round_half_even_def Let_def)
    with 3 f show ?thesis by auto
  qed
qed

lemma round_half_even_of_int [simp]: "round_half_even (of_int n) = n"
  by (simp add: round_half_even_def)

lemma round_half_even_nonneg: "0 \<le> x \<Longrightarrow> 0 \<le> round_half_even x"
proof -
  assume "0 \<le> x"
  then have "0 \<le> \<lfloor>x\<rfloor>" by simp
  then show ?thesis by (auto simp: round_half_even_def Let_def)
qed

lemma pow2_pos [simp]: "0 < pow2 k"
  by (simp add: pow2_def)

lemma rnd_0 [simp]: "rnd 0 = 0"
  by (simp add: rnd_def)

lemma rnd_nonneg: "0 \<le> x \<Longrightarrow> 0 \<le> rnd x"
proof -
  assume "0 \<le> x"
  moreover have "0 \<le> rnd_pos x" if "0 < x"
  proof -
    have "0 \<le> round_half_even (x / pow2 (ulp_exp x))"
      using that by (intro round_half_even_nonneg) (simp add: less_imp_le)
    then show ?thesis by (simp add: rnd_pos_def Let_def less_imp_le)
  qed
  ultimately show ?thesis by (auto simp: rnd_def)
qed

text \<open>The rounding error is at most half a unit in the last place.\<close>

lemma rnd_pos_error: "\<bar>rnd_pos x - x\<bar> \<le> pow2 (ulp_exp x) / 2"
proof -
  define u where "u = pow2 (ulp_exp x)"
  define r where "r = (of_int (round_half_even (x / u)) :: rat)"
  have u: "0 < u" by (simp add: u_def)
  have "\<bar>r - x / u\<bar> \<le> 1/2"
    using round_half_even_bounds [of "x / u"] unfolding r_def by linarith
  then have "\<bar>r - x / u\<bar> * u \<le> 1/2 * u"
    using u by (intro mult_right_mono) auto
  moreover have "\<bar>r - x / u\<bar> * u = \<bar>r * u - x\<bar>"
  proof -
    have "\<bar>r - x / u\<bar> * u = \<bar>(r - x / u) * u\<bar>"
      using u by (simp add: abs_mult)
    also have "(r - x / u) * u = r * u - x"
      using u by (simp add: left_diff_distrib)
    finally show ?thesis .
  qed
  moreover have "rnd_pos x = r * u"
    by (simp add: rnd_pos_def r_def u_def Let_def)
  ultimately have "\<bar>rnd_pos x - x\<bar> \<le> 1/2 * u" by (simp only:)
  then show ?thesis by (simp only: u_def)
qed

section \<open>64-bit integers\<close>

type_synonym int64 = "64 word"

text \<open>\<^verbatim>\<open>time.Time.Sub\<close> saturates at the bounds of a signed 64-bit count of nanoseconds.\<close>

definition sat64 :: "int \<Rightarrow> int" where
  "sat64 n = max (- (2 ^ 63)) (min (2 ^ 63 - 1) n)"

lemma sat64_id: "- (2 ^ 63) \<le> n \<Longrightarrow> n < 2 ^ 63 \<Longrightarrow> sat64 n = n"
  by (simp add: sat64_def)

end
