(* ===== verification/Run_State.thy ===== *)
theory Run_State
  imports Float64
begin

text \<open>
  The durable records of \<^verbatim>\<open>platform/core/state/core/runs.go\<close> (workflow runs, steps, node runs,
  checkpoints), the files they live in, and the operations of that file on them: save, load,
  mark-cancel, list, cost summary and the terminal-status predicates.
\<close>

section \<open>Data\<close>

text \<open>
  A timestamp field is a string holding either nothing, an RFC3339 time in UTC written by
  \<^verbatim>\<open>Format(time.RFC3339)\<close> (whole seconds, here the Unix second), or text that does not parse.
\<close>

datatype stamp = NoStamp | Stamp int | Unparsed string

text \<open>\<^verbatim>\<open>t.UTC().Format(time.RFC3339)\<close> for an instant in nanoseconds drops the fraction.\<close>

definition fmt_time :: "int \<Rightarrow> stamp" where
  "fmt_time ns = Stamp (ns div 10 ^ 9)"

text \<open>\<^verbatim>\<open>time.Parse(time.RFC3339, s)\<close>: an error for anything that is not a time.\<close>

fun parse_time :: "stamp \<Rightarrow> int option" where
  "parse_time (Stamp s) = Some s"
| "parse_time NoStamp = None"
| "parse_time (Unparsed s) = None"

text \<open>Payloads of type \<^verbatim>\<open>any\<close>, as far as JSON carries them; a \<^verbatim>\<open>map[string]any\<close> may be nil.\<close>

datatype json = JNull | JBool bool | JNum f64 | JStr string | JArr "json list"
  | JObj "(string \<times> json) list"

type_synonym gomap = "(string \<times> json) list"

datatype run_status = RunUnset | RunStatusPending | RunStatusRunning | RunStatusPaused
  | RunStatusOK | RunStatusFailed | RunStatusCancelled | RunStatusTimedOut

datatype node_status = NodeUnset | NodeStatusRunning | NodeStatusOK | NodeStatusFailed

datatype step_status = StepUnset | StepStatusPending | StepStatusRunning | StepStatusPaused
  | StepStatusOK | StepStatusFailed | StepStatusCancelled | StepStatusTimedOut

fun run_status_str :: "run_status \<Rightarrow> string" where
  "run_status_str RunUnset = ''''"
| "run_status_str RunStatusPending = ''pending''"
| "run_status_str RunStatusRunning = ''running''"
| "run_status_str RunStatusPaused = ''paused''"
| "run_status_str RunStatusOK = ''ok''"
| "run_status_str RunStatusFailed = ''failed''"
| "run_status_str RunStatusCancelled = ''cancelled''"
| "run_status_str RunStatusTimedOut = ''timed_out''"

fun step_status_str :: "step_status \<Rightarrow> string" where
  "step_status_str StepUnset = ''''"
| "step_status_str StepStatusPending = ''pending''"
| "step_status_str StepStatusRunning = ''running''"
| "step_status_str StepStatusPaused = ''paused''"
| "step_status_str StepStatusOK = ''ok''"
| "step_status_str StepStatusFailed = ''failed''"
| "step_status_str StepStatusCancelled = ''cancelled''"
| "step_status_str StepStatusTimedOut = ''timed_out''"

record node_run =
  nr_NodeID :: string
  nr_NodeType :: string
  nr_Status :: node_status
  nr_StartedAt :: stamp
  nr_EndedAt :: stamp
  nr_DurationMs :: int
  nr_Error :: string
  nr_InputTokens :: int64
  nr_OutputTokens :: int64
  nr_EstimatedCostUSD :: f64

record step_run =
  sr_StepID :: string
  sr_Kind :: string
  sr_Input :: "gomap option"
  sr_Status :: step_status
  sr_AttemptCount :: int
  sr_MaxAttempts :: int
  sr_TimeoutMs :: int
  sr_BackoffMs :: int
  sr_StartedAt :: stamp
  sr_EndedAt :: stamp
  sr_DurationMs :: int
  sr_Error :: string
  sr_Output :: "gomap option"
  sr_Metadata :: "gomap option"

record ckpt =
  ck_CurrentStepID :: string
  ck_CurrentStatus :: string
  ck_UpdatedAt :: stamp
  ck_LastError :: string

record wf_run =
  run_RunID :: string
  run_Service :: string
  run_Stage :: string
  run_Provider :: string
  run_WorkflowName :: string
  run_WorkflowHash :: string
  run_Entrypoint :: string
  run_Status :: run_status
  run_StartedAt :: stamp
  run_EndedAt :: stamp
  run_UpdatedAt :: stamp
  run_DurationMs :: int
  run_CancelRequested :: bool
  run_ReplayFromStep :: string
  run_Checkpoint :: "ckpt option"
  run_Steps :: "step_run list"
  run_Nodes :: "node_run list"
  run_TotalInputTokens :: int64
  run_TotalOutputTokens :: int64
  run_EstimatedCostUSD :: f64

text \<open>
  \<^verbatim>\<open>omitempty\<close>: an empty map is not written, so it is read back as nil. Everything else in a
  run survives \<^verbatim>\<open>MarshalIndent\<close> followed by \<^verbatim>\<open>Unmarshal\<close>.
\<close>

definition norm_map :: "gomap option \<Rightarrow> gomap option" where
  "norm_map m = (if m = Some [] then None else m)"

definition norm_step :: "step_run \<Rightarrow> step_run" where
  "norm_step s = s\<lparr>sr_Input := norm_map (sr_Input s), sr_Output := norm_map (sr_Output s),
     sr_Metadata := norm_map (sr_Metadata s)\<rparr>"

definition norm_run :: "wf_run \<Rightarrow> wf_run" where
  "norm_run r = r\<lparr>run_Steps := map norm_step (run_Steps r)\<rparr>"

section \<open>The world: run files, clock, other goroutines\<close>

type_synonym run_key = "string \<times> string"

text \<open>
  \<open>runs\<close> is the directory tree \<^verbatim>\<open>.runfabric/runs\<close>: the file of stage \<open>s\<close> and run \<open>i\<close>
  (\<^verbatim>\<open>runPath(root, s, i)\<close>) under the key \<open>(s, i)\<close>, holding a run or bytes that do not parse.
  Every storage operation first consumes one element of \<open>ext\<close>, what the outside did since the
  last one: nothing, a complete cancel request for the run concerned by another goroutine (which
  does not take the run lock), or an I/O error of the operation. \<open>ticks\<close> counts clock readings,
  \<open>wall\<close> gives the time of each reading. \<open>held\<close> are the run locks taken; \<open>calls\<close> records
  the step executions (step id and attempt) handed to the handler.
\<close>

datatype run_file = RunFile wf_run | BadFile string

datatype ext_event = Quiet | CancelArrives stamp | IOFail

record world =
  runs :: "(run_key \<times> run_file) list"
  ext :: "ext_event list"
  ticks :: nat
  wall :: "nat \<Rightarrow> int"
  held :: "run_key list"
  calls :: "(string \<times> int) list"

datatype rt_error =
    StageRequired | ServiceRequired | KeyRequired | RunIdRequired | StepIdRequired | DecisionRequired
  | HandlerRequired | NotFound | IOError | UnmarshalError | VersionConflict string string
  | LockFailed string | LockBlocked
  | NoSuchStep string string
  | StepFailed string string | StepAborted string string | StepNotOK string step_status
  | IndexPanic

text \<open>A failed operation may hand back a run beside the error, as Go's two results do.\<close>

type_synonym rt_fail = "wf_run option \<times> rt_error"
type_synonym 'a rt_act = "(world, rt_fail, 'a) act"

abbreviation fail :: "rt_error \<Rightarrow> 'a rt_act" where
  "fail e \<equiv> throwE (None, e)"

definition time_Now :: "int rt_act" where
  "time_Now = (\<lambda>w. (Inr (wall w (ticks w)), w\<lparr>ticks := Suc (ticks w)\<rparr>))"

text \<open>The effect of a complete \<open>MarkWorkflowRunCancelRequested\<close> on the file of the run.\<close>

definition cancel_file :: "stamp \<Rightarrow> run_file \<Rightarrow> run_file" where
  "cancel_file t f = (case f of
     RunFile r \<Rightarrow> RunFile (r\<lparr>run_CancelRequested := True, run_UpdatedAt := t\<rparr>)
   | BadFile b \<Rightarrow> BadFile b)"

definition cancel_at :: "run_key \<Rightarrow> stamp \<Rightarrow> world \<Rightarrow> world" where
  "cancel_at k t w = (case map_of (runs w) k of
     None \<Rightarrow> w
   | Some f \<Rightarrow> w\<lparr>runs := AList.update k (cancel_file t f) (runs w)\<rparr>)"

definition storage :: "run_key \<Rightarrow> unit rt_act" where
  "storage k = (\<lambda>w. case ext w of
     [] \<Rightarrow> (Inr (), w)
   | Quiet # es \<Rightarrow> (Inr (), w\<lparr>ext := es\<rparr>)
   | CancelArrives t # es \<Rightarrow> (Inr (), cancel_at k t (w\<lparr>ext := es\<rparr>))
   | IOFail # es \<Rightarrow> (Inl (None, IOError), w\<lparr>ext := es\<rparr>))"

text \<open>
  A storage operation inside a critical section that cancel requests also take (the save lock
  of \<^verbatim>\<open>LocalRunStore\<close>): a pending cancel request stays pending.
\<close>

definition storage_locked :: "run_key \<Rightarrow> unit rt_act" where
  "storage_locked k = (\<lambda>w. case ext w of
     [] \<Rightarrow> (Inr (), w)
   | Quiet # es \<Rightarrow> (Inr (), w\<lparr>ext := es\<rparr>)
   | CancelArrives t # es \<Rightarrow> (Inr (), w)
   | IOFail # es \<Rightarrow> (Inl (None, IOError), w\<lparr>ext := es\<rparr>))"

section \<open>Operations\<close>

text \<open>
  \<^verbatim>\<open>SaveWorkflowRun\<close> stamps \<^verbatim>\<open>UpdatedAt\<close> on the caller's run before it writes; the result is
  the run the caller then holds. (A nil run does not arise from the modelled callers.)
\<close>

definition SaveWorkflowRun :: "wf_run \<Rightarrow> wf_run rt_act" where
  "SaveWorkflowRun run =
     (if run_RunID run = '''' then fail RunIdRequired
      else if run_Stage run = '''' then fail StageRequired
      else bindE time_Now (\<lambda>now.
        let run' = run\<lparr>run_UpdatedAt := fmt_time now\<rparr>; k = (run_Stage run, run_RunID run)
        in bindE (storage k) (\<lambda>_.
           bindE (modifyE (\<lambda>w. w\<lparr>runs := AList.update k (RunFile (norm_run run')) (runs w)\<rparr>)) (\<lambda>_.
           returnE run'))))"

definition read_run :: "run_key \<Rightarrow> rt_error \<Rightarrow> wf_run rt_act" where
  "read_run k absent = bindE (storage k) (\<lambda>_.
     bindE (getE (\<lambda>w. map_of (runs w) k)) (\<lambda>f. case f of
       None \<Rightarrow> fail absent
     | Some (BadFile b) \<Rightarrow> fail UnmarshalError
     | Some (RunFile r) \<Rightarrow> returnE r))"

definition LoadWorkflowRun :: "string \<Rightarrow> string \<Rightarrow> wf_run rt_act" where
  "LoadWorkflowRun stage runID =
     (if stage = '''' then fail StageRequired
      else if runID = '''' then fail RunIdRequired
      else read_run (stage, runID) NotFound)"

definition MarkWorkflowRunCancelRequested :: "string \<Rightarrow> string \<Rightarrow> wf_run rt_act" where
  "MarkWorkflowRunCancelRequested stage runID =
     bindE (LoadWorkflowRun stage runID) (\<lambda>run.
     SaveWorkflowRun (run\<lparr>run_CancelRequested := True\<rparr>))"

text \<open>\<^verbatim>\<open>time.Parse\<close> returns the zero time, 1 January of year 1, with its error.\<close>

definition started_time :: "wf_run \<Rightarrow> int" where
  "started_time r = (case parse_time (run_StartedAt r) of None \<Rightarrow> - 62135596800 | Some t \<Rightarrow> t)"

text \<open>
  The entries of a stage's directory, in the file-name order of \<^verbatim>\<open>os.ReadDir\<close>. A stage whose
  directory does not exist has no entry.
\<close>

definition stage_files :: "string \<Rightarrow> world \<Rightarrow> (string \<times> run_file) list" where
  "stage_files stage w =
     sort_key fst (map (\<lambda>(k, f). (snd k @ ''.json'', f)) (filter (\<lambda>(k, f). fst k = stage) (runs w)))"

fun parsed_runs :: "(string \<times> run_file) list \<Rightarrow> wf_run list" where
  "parsed_runs [] = []"
| "parsed_runs ((n, RunFile r) # fs) = r # parsed_runs fs"
| "parsed_runs ((n, BadFile b) # fs) = parsed_runs fs"

definition ListWorkflowRuns :: "string \<Rightarrow> int \<Rightarrow> world \<Rightarrow> wf_run list" where
  "ListWorkflowRuns stage limit w =
     (let limit' = (if limit \<le> 0 then 20 else nat limit);
          items = sort_slice (\<lambda>a b. started_time b < started_time a) (parsed_runs (stage_files stage w))
      in take limit' items)"

record cost_summary =
  cs_RunCount :: int
  cs_TotalInputTokens :: int64
  cs_TotalOutputTokens :: int64
  cs_EstimatedCostUSD :: f64

definition add_node_cost :: "cost_summary \<Rightarrow> node_run \<Rightarrow> cost_summary" where
  "add_node_cost s n = s\<lparr>
     cs_TotalInputTokens := cs_TotalInputTokens s + nr_InputTokens n,
     cs_TotalOutputTokens := cs_TotalOutputTokens s + nr_OutputTokens n,
     cs_EstimatedCostUSD := f64_add (cs_EstimatedCostUSD s) (nr_EstimatedCostUSD n)\<rparr>"

definition add_run_cost :: "cost_summary \<Rightarrow> wf_run \<Rightarrow> cost_summary" where
  "add_run_cost s r =
     (let s' = s\<lparr>cs_RunCount := cs_RunCount s + 1\<rparr>
      in if run_TotalInputTokens r \<noteq> 0 \<or> run_TotalOutputTokens r \<noteq> 0 \<or> run_EstimatedCostUSD r \<noteq> 0
         then s'\<lparr>
           cs_TotalInputTokens := cs_TotalInputTokens s' + run_TotalInputTokens r,
           cs_TotalOutputTokens := cs_TotalOutputTokens s' + run_TotalOutputTokens r,
           cs_EstimatedCostUSD := f64_add (cs_EstimatedCostUSD s') (run_EstimatedCostUSD r)\<rparr>
         else foldl add_node_cost s' (run_Nodes r))"

definition WorkflowCostFromRuns :: "wf_run list \<Rightarrow> cost_summary" where
  "WorkflowCostFromRuns rs = foldl add_run_cost
     \<lparr>cs_RunCount = 0, cs_TotalInputTokens = 0, cs_TotalOutputTokens = 0, cs_EstimatedCostUSD = 0\<rparr> rs"

definition IsWorkflowRunTerminal :: "run_status \<Rightarrow> bool" where
  "IsWorkflowRunTerminal s \<longleftrightarrow>
     s \<in> {RunStatusOK, RunStatusFailed, RunStatusCancelled, RunStatusTimedOut}"

definition IsWorkflowStepTerminal :: "step_status \<Rightarrow> bool" where
  "IsWorkflowStepTerminal s \<longleftrightarrow>
     s \<in> {StepStatusOK, StepStatusFailed, StepStatusCancelled, StepStatusTimedOut}"

section \<open>Lemmas\<close>

lemma norm_map_idem [simp]: "norm_map (norm_map m) = norm_map m"
  by (simp add: norm_map_def)

lemma norm_step_idem [simp]: "norm_step (norm_step s) = norm_step s"
  by (simp add: norm_step_def)

lemma norm_run_idem [simp]: "norm_run (norm_run r) = norm_run r"
  by (simp add: norm_run_def)

lemma norm_step_simps [simp]:
  "sr_StepID (norm_step s) = sr_StepID s" "sr_Status (norm_step s) = sr_Status s"
  "sr_AttemptCount (norm_step s) = sr_AttemptCount s" "sr_MaxAttempts (norm_step s) = sr_MaxAttempts s"
  "sr_Error (norm_step s) = sr_Error s" "sr_Kind (norm_step s) = sr_Kind s"
  "sr_StartedAt (norm_step s) = sr_StartedAt s" "sr_EndedAt (norm_step s) = sr_EndedAt s"
  by (simp_all add: norm_step_def)

lemma norm_run_simps [simp]:
  "run_RunID (norm_run r) = run_RunID r" "run_Stage (norm_run r) = run_Stage r"
  "run_Status (norm_run r) = run_Status r" "run_CancelRequested (norm_run r) = run_CancelRequested r"
  "run_ReplayFromStep (norm_run r) = run_ReplayFromStep r"
  "run_Steps (norm_run r) = map norm_step (run_Steps r)"
  "run_StartedAt (norm_run r) = run_StartedAt r"
  by (simp_all add: norm_run_def)

lemma norm_run_upd [simp]:
  "norm_run (r\<lparr>run_UpdatedAt := t\<rparr>) = (norm_run r)\<lparr>run_UpdatedAt := t\<rparr>"
  "norm_run (r\<lparr>run_CancelRequested := c\<rparr>) = (norm_run r)\<lparr>run_CancelRequested := c\<rparr>"
  by (simp_all add: norm_run_def)

lemma length_parsed_runs: "length (parsed_runs fs) \<le> length fs"
  by (induction fs rule: parsed_runs.induct) auto

lemma set_parsed_runs: "set (parsed_runs fs) = {r. \<exists>n. (n, RunFile r) \<in> set fs}"
  by (induction fs rule: parsed_runs.induct) auto

end
