(* ===== verification/Run_Store.thy ===== *)
theory Run_Store
  imports Run_State
begin

text \<open>
  The persistence interface of workflow runs. \<open>run_store\<close> is what the workflow runtime relies
  on: a load returns what is stored, a save stores what it was given (up to its own timestamp
  and the JSON normal form), and nothing else changes but for cancel requests of other
  goroutines. It is discharged for the two local backends of the repository: the state files of
  \<^verbatim>\<open>state/core/runs.go\<close> and \<^verbatim>\<open>LocalRunStore\<close> of \<^verbatim>\<open>state/runstore/local.go\<close>. The
  compare-and-swap of \<^verbatim>\<open>LocalRunStore.Save\<close> is proved separately.
\<close>

section \<open>LocalRunStore\<close>

text \<open>
  A version is the hex SHA-256 of the file's bytes; \<open>digest\<close> stands for that function of the
  file content. It never gives the empty string. Freedom from collisions is a hypothesis where
  it matters.
\<close>

type_synonym version = string

definition lrs_Load :: "(run_file \<Rightarrow> version) \<Rightarrow> string \<Rightarrow> string \<Rightarrow> (wf_run \<times> version) rt_act" where
  "lrs_Load digest stage runID =
     (if stage = '''' \<or> runID = '''' then fail KeyRequired
      else bindE (read_run (stage, runID) NotFound) (\<lambda>r. returnE (r, digest (RunFile r))))"

definition lrs_currentVersion :: "(run_file \<Rightarrow> version) \<Rightarrow> string \<Rightarrow> string \<Rightarrow> version rt_act" where
  "lrs_currentVersion digest stage runID =
     bindE (storage (stage, runID)) (\<lambda>_.
     getE (\<lambda>w. case map_of (runs w) (stage, runID) of None \<Rightarrow> '''' | Some f \<Rightarrow> digest f))"

definition lrs_write :: "(run_file \<Rightarrow> version) \<Rightarrow> wf_run \<Rightarrow> (version \<times> wf_run) rt_act" where
  "lrs_write digest run =
     bindE time_Now (\<lambda>now.
     let run' = run\<lparr>run_UpdatedAt := fmt_time now\<rparr>;
         f = RunFile (norm_run run');
         k = (run_Stage run, run_RunID run)
     in bindE (storage_locked k) (\<lambda>_.
        bindE (modifyE (\<lambda>w. w\<lparr>runs := AList.update k f (runs w)\<rparr>)) (\<lambda>_.
        returnE (digest f, run'))))"

definition short :: "version \<Rightarrow> string" where
  "short v = (if length v \<le> 12 then v else take 12 v)"

text \<open>
  The save lock makes the check and the write one step; a cancel request can land before it is
  taken (the first storage operation), not between check and write.
\<close>

definition lrs_Save :: "(run_file \<Rightarrow> version) \<Rightarrow> wf_run \<Rightarrow> version \<Rightarrow> (version \<times> wf_run) rt_act" where
  "lrs_Save digest run expected =
     (if run_RunID run = '''' \<or> run_Stage run = '''' then fail KeyRequired
      else if expected \<noteq> '''' then
        bindE (lrs_currentVersion digest (run_Stage run) (run_RunID run)) (\<lambda>cur.
        if cur \<noteq> expected then fail (VersionConflict (short expected) (short cur))
        else lrs_write digest run)
      else bindE (storage (run_Stage run, run_RunID run)) (\<lambda>_. lrs_write digest run))"

definition lrs_List :: "string \<Rightarrow> int \<Rightarrow> world \<Rightarrow> wf_run list" where
  "lrs_List stage limit w =
     (let limit' = (if limit \<le> 0 then 20 else nat limit);
          items = sort_slice (\<lambda>a b. started_time b < started_time a) (parsed_runs (stage_files stage w))
      in take limit' items)"

section \<open>Runs seen through a store\<close>

definition file_view :: "world \<Rightarrow> run_key \<Rightarrow> wf_run option" where
  "file_view w k = (case map_of (runs w) k of Some (RunFile r) \<Rightarrow> Some r | _ \<Rightarrow> None)"

text \<open>A stored run changes behind the caller's back only by a cancel request.\<close>

definition ext_upd :: "wf_run option \<Rightarrow> wf_run option \<Rightarrow> bool" where
  "ext_upd x y \<longleftrightarrow> y = x \<or>
     (\<exists>r t. x = Some r \<and> y = Some (r\<lparr>run_CancelRequested := True, run_UpdatedAt := t\<rparr>))"

lemma ext_upd_refl [simp, intro]: "ext_upd x x"
  by (simp add: ext_upd_def)

lemma ext_upd_trans: "ext_upd x y \<Longrightarrow> ext_upd y z \<Longrightarrow> ext_upd x z"
  unfolding ext_upd_def by fastforce

lemma ext_upd_None [simp]: "ext_upd None y \<longleftrightarrow> y = None"
  by (auto simp: ext_upd_def)

text \<open>
  A property of stored runs that neither a cancel request, nor the \<^verbatim>\<open>UpdatedAt\<close> stamp, nor the
  JSON normal form can break.
\<close>

definition stable :: "(run_key \<Rightarrow> wf_run \<Rightarrow> bool) \<Rightarrow> bool" where
  "stable P \<longleftrightarrow>
     (\<forall>k r t. P k r \<longrightarrow> P k (r\<lparr>run_UpdatedAt := t\<rparr>)) \<and>
     (\<forall>k r. P k r \<longrightarrow> P k (r\<lparr>run_CancelRequested := True\<rparr>)) \<and>
     (\<forall>k r. P k r \<longrightarrow> P k (norm_run r))"

lemma stableD:
  assumes "stable P" and "P k r"
  shows "P k (r\<lparr>run_UpdatedAt := t\<rparr>)" and "P k (r\<lparr>run_CancelRequested := True\<rparr>)"
    and "P k (norm_run r)"
  using assms unfolding stable_def by blast+

lemma stable_ext_upd: "stable P \<Longrightarrow> ext_upd (Some r) y \<Longrightarrow> P k r \<Longrightarrow> \<exists>r'. y = Some r' \<and> P k r'"
  unfolding ext_upd_def by (auto dest: stableD)

lemma ext_upd_Some_rev: "ext_upd x (Some r') \<Longrightarrow> \<exists>r. x = Some r"
  by (cases x) auto

section \<open>The interface\<close>

definition store_error :: "rt_fail \<Rightarrow> bool" where
  "store_error e \<longleftrightarrow> fst e = None \<and> snd e \<in>
     {StageRequired, RunIdRequired, KeyRequired, NotFound, IOError, UnmarshalError} \<union>
     {VersionConflict a b | a b. True}"

locale run_store =
  fixes ld :: "string \<Rightarrow> string \<Rightarrow> wf_run rt_act"
    and sv :: "wf_run \<Rightarrow> wf_run rt_act"
    and view :: "world \<Rightarrow> run_key \<Rightarrow> wf_run option"
  assumes ld_ok: "ld s i w = (Inr r, w') \<Longrightarrow> view w' (s, i) = Some r"
    and ld_frame: "ld s i w = (x, w') \<Longrightarrow> ext_upd (view w k) (view w' k)"
    and ld_err: "ld s i w = (Inl e, w') \<Longrightarrow> store_error e"
    and sv_ok: "sv r w = (Inr r', w') \<Longrightarrow>
        view w' (run_Stage r, run_RunID r) = Some (norm_run r') \<and>
        (\<exists>t. r' = r\<lparr>run_UpdatedAt := t\<rparr>)"
    and sv_frame: "sv r w = (x, w') \<Longrightarrow> k \<noteq> (run_Stage r, run_RunID r) \<Longrightarrow>
        ext_upd (view w k) (view w' k)"
    and sv_err: "sv r w = (Inl e, w') \<Longrightarrow> store_error e \<and> ext_upd (view w k) (view w' k)"
    and ghosts: "ld s i w = (x, w') \<Longrightarrow> calls w' = calls w \<and> held w' = held w"
      "sv r w = (y, w') \<Longrightarrow> calls w' = calls w \<and> held w' = held w"
    and view_runs: "view (w\<lparr>ticks := n\<rparr>) = view w" "view (w\<lparr>calls := c\<rparr>) = view w"
      "view (w\<lparr>held := h\<rparr>) = view w"
begin

definition all_runs :: "(run_key \<Rightarrow> wf_run \<Rightarrow> bool) \<Rightarrow> world \<Rightarrow> bool" where
  "all_runs P w \<longleftrightarrow> (\<forall>k r. view w k = Some r \<longrightarrow> P k r)"

lemma all_runs_ext:
  assumes "stable P" and "all_runs P w" and "\<And>k. ext_upd (view w k) (view w' k)"
  shows "all_runs P w'"
  unfolding all_runs_def
proof (intro allI impI)
  fix k r' assume r': "view w' k = Some r'"
  with assms(3) [of k] obtain r where r: "view w k = Some r" by (auto dest: ext_upd_Some_rev)
  with assms(2) have "P k r" unfolding all_runs_def by blast
  with stable_ext_upd [OF assms(1)] assms(3) [of k] r r' show "P k r'" by fastforce
qed

lemma ld_triple:
  assumes "stable P"
  shows "triple (all_runs P) (ld s i)
    (\<lambda>r w. all_runs P w \<and> view w (s, i) = Some r \<and> P (s, i) r)
    (\<lambda>e w. all_runs P w \<and> store_error e)"
proof (rule tripleI)
  fix w r w' assume "all_runs P w" and eq: "ld s i w = (Inr r, w')"
  with assms have "all_runs P w'" by (blast intro: all_runs_ext ld_frame)
  then show "all_runs P w' \<and> view w' (s, i) = Some r \<and> P (s, i) r"
    using ld_ok [OF eq] by (simp add: all_runs_def)
next
  fix w e w' assume "all_runs P w" and eq: "ld s i w = (Inl e, w')"
  with assms show "all_runs P w' \<and> store_error e"
    by (blast intro: all_runs_ext ld_frame ld_err)
qed

text \<open>A save replaces one run: what holds of the others and of the new one holds afterwards.\<close>

lemma sv_replace:
  assumes P: "stable P" and Q: "stable Q" and r: "P (run_Stage r, run_RunID r) r"
    and others: "\<And>k q. k \<noteq> (run_Stage r, run_RunID r) \<Longrightarrow> Q k q \<Longrightarrow> P k q"
  shows "triple (all_runs Q) (sv r)
    (\<lambda>r' w. all_runs P w \<and> P (run_Stage r, run_RunID r) r' \<and>
       view w (run_Stage r, run_RunID r) = Some (norm_run r') \<and>
       (\<exists>t. r' = r\<lparr>run_UpdatedAt := t\<rparr>))
    (\<lambda>e w. all_runs Q w \<and> store_error e)"
proof (rule tripleI)
  fix w r' w' assume inv: "all_runs Q w" and eq: "sv r w = (Inr r', w')"
  let ?k = "(run_Stage r, run_RunID r)"
  from sv_ok [OF eq] obtain t where v: "view w' ?k = Some (norm_run r')"
    and r': "r' = r\<lparr>run_UpdatedAt := t\<rparr>" by blast
  from r have Pr': "P ?k r'" by (simp add: r' stableD [OF P])
  have "P k q" if q: "view w' k = Some q" for k q
  proof (cases "k = ?k")
    case True
    then show ?thesis using q v stableD(3) [OF P Pr'] by simp
  next
    case False
    with sv_frame [OF eq] have e: "ext_upd (view w k) (view w' k)" by simp
    with q obtain p where p: "view w k = Some p" by (auto dest: ext_upd_Some_rev)
    with inv have "P k p" using others False unfolding all_runs_def by blast
    with stable_ext_upd [OF P] e p q show ?thesis by fastforce
  qed
  then have "all_runs P w'" by (simp add: all_runs_def)
  with Pr' v r' show "all_runs P w' \<and> P ?k r' \<and> view w' ?k = Some (norm_run r') \<and>
      (\<exists>t. r' = r\<lparr>run_UpdatedAt := t\<rparr>)" by blast
next
  fix w e w' assume "all_runs Q w" and "sv r w = (Inl e, w')"
  with Q sv_err show "all_runs Q w' \<and> store_error e" by (meson all_runs_ext)
qed

lemma sv_triple:
  assumes "stable P" and "P (run_Stage r, run_RunID r) r"
  shows "triple (all_runs P) (sv r)
    (\<lambda>r' w. all_runs P w \<and> P (run_Stage r, run_RunID r) r' \<and>
       view w (run_Stage r, run_RunID r) = Some (norm_run r') \<and>
       (\<exists>t. r' = r\<lparr>run_UpdatedAt := t\<rparr>))
    (\<lambda>e w. all_runs P w \<and> store_error e)"
  by (rule sv_replace [OF assms(1) assms(1) assms(2)])

end

section \<open>Both local backends implement it\<close>

lemma storage_cases:
  assumes "storage k w = (x, w')"
  obtains (ok) es where "x = Inr ()" "w' = w\<lparr>ext := es\<rparr>"
  | (cancel) t es where "x = Inr ()" "w' = cancel_at k t (w\<lparr>ext := es\<rparr>)"
  | (err) es where "x = Inl (None, IOError)" "w' = w\<lparr>ext := es\<rparr>"
proof (cases "ext w")
  case Nil
  with assms ok [of "[]"] show ?thesis by (simp add: storage_def)
next
  case (Cons e es)
  with assms ok cancel err show ?thesis
    by (cases e) (auto simp: storage_def)
qed

lemma cancel_at_frame [simp]:
  "calls (cancel_at k t w) = calls w" "held (cancel_at k t w) = held w"
  "ticks (cancel_at k t w) = ticks w" "wall (cancel_at k t w) = wall w"
  "ext (cancel_at k t w) = ext w"
  by (simp_all add: cancel_at_def split: option.split)

lemma file_view_cancel_at: "ext_upd (file_view w k') (file_view (cancel_at k t w) k')"
  by (auto simp: file_view_def cancel_at_def cancel_file_def ext_upd_def update_conv'
      split: option.splits run_file.splits if_splits)

lemma file_view_world [simp]:
  "file_view (w\<lparr>ext := es\<rparr>) = file_view w" "file_view (w\<lparr>ticks := n\<rparr>) = file_view w"
  "file_view (w\<lparr>calls := c\<rparr>) = file_view w" "file_view (w\<lparr>held := h\<rparr>) = file_view w"
  by (simp_all add: file_view_def fun_eq_iff)

lemma file_view_write [simp]:
  "file_view (w\<lparr>runs := AList.update k (RunFile r) (runs w)\<rparr>) = (file_view w)(k \<mapsto> r)"
  by (auto simp: file_view_def fun_eq_iff update_conv')

lemma storage_frame:
  assumes "storage k w = (x, w')"
  shows "ext_upd (file_view w k') (file_view w' k')" "calls w' = calls w" "held w' = held w"
    "x = Inl e \<Longrightarrow> e = (None, IOError)"
  using assms by (auto elim!: storage_cases intro: file_view_cancel_at
      simp: file_view_cancel_at [of "w\<lparr>ext := es\<rparr>" for es, simplified])

lemma storage_locked_frame:
  assumes "storage_locked k w = (x, w')"
  shows "file_view w' = file_view w" "calls w' = calls w" "held w' = held w"
    "x = Inl e \<Longrightarrow> e = (None, IOError)"
  using assms by (auto simp: storage_locked_def split: list.splits ext_event.splits)

lemma read_run_ok:
  assumes "read_run k a w = (Inr r, w')" shows "file_view w' k = Some r"
  using assms by (auto simp: read_run_def monad_simps file_view_def
      split: prod.splits sum.splits option.splits run_file.splits)

lemma read_run_frame:
  assumes "read_run k a w = (x, w')"
  shows "ext_upd (file_view w k') (file_view w' k')" "calls w' = calls w" "held w' = held w"
    "x = Inl e \<Longrightarrow> e \<in> {(None, a), (None, UnmarshalError), (None, IOError)}"
  using assms by (auto simp: read_run_def monad_simps
      split: prod.splits sum.splits option.splits run_file.splits dest: storage_frame)

abbreviation tick :: "world \<Rightarrow> world" where
  "tick w \<equiv> w\<lparr>ticks := Suc (ticks w)\<rparr>"

lemma time_Now_apply [monad_simps]: "time_Now w = (Inr (wall w (ticks w)), tick w)"
  by (simp add: time_Now_def)

abbreviation write_run :: "wf_run \<Rightarrow> world \<Rightarrow> world" where
  "write_run r w \<equiv>
     w\<lparr>runs := AList.update (run_Stage r, run_RunID r) (RunFile (norm_run r)) (runs w)\<rparr>"

lemma SaveWorkflowRun_apply:
  "SaveWorkflowRun r w =
     (if run_RunID r = '''' then (Inl (None, RunIdRequired), w)
      else if run_Stage r = '''' then (Inl (None, StageRequired), w)
      else case storage (run_Stage r, run_RunID r) (tick w) of
        (Inl e, w1) \<Rightarrow> (Inl e, w1)
      | (Inr _, w1) \<Rightarrow>
          (Inr (r\<lparr>run_UpdatedAt := fmt_time (wall w (ticks w))\<rparr>),
           write_run (r\<lparr>run_UpdatedAt := fmt_time (wall w (ticks w))\<rparr>) w1))"
  by (simp add: SaveWorkflowRun_def monad_simps Let_def split: prod.split sum.split)

lemma SaveWorkflowRun_cases:
  assumes eq: "SaveWorkflowRun r w = (x, w')"
  obtains (invalid) e where "x = Inl (None, e)" "w' = w" "e \<in> {RunIdRequired, StageRequired}"
  | (io) e where "x = Inl e" "storage (run_Stage r, run_RunID r) (tick w) = (Inl e, w')"
  | (written) r' w1 where "x = Inr r'" "r' = r\<lparr>run_UpdatedAt := fmt_time (wall w (ticks w))\<rparr>"
      "storage (run_Stage r, run_RunID r) (tick w) = (Inr (), w1)" "w' = write_run r' w1"
proof (cases "run_RunID r = '''' \<or> run_Stage r = ''''")
  case True
  with eq show ?thesis by (auto simp: SaveWorkflowRun_apply intro: invalid split: if_splits)
next
  case False
  obtain y w1 where st: "storage (run_Stage r, run_RunID r) (tick w) = (y, w1)" by fastforce
  show ?thesis
  proof (cases y)
    case (Inl e)
    with False eq st have "x = Inl e" "w' = w1" by (simp_all add: SaveWorkflowRun_apply)
    with st Inl show ?thesis by (simp add: io)
  next
    case (Inr u)
    with False eq st have "x = Inr (r\<lparr>run_UpdatedAt := fmt_time (wall w (ticks w))\<rparr>)"
      "w' = write_run (r\<lparr>run_UpdatedAt := fmt_time (wall w (ticks w))\<rparr>) w1"
      by (simp_all add: SaveWorkflowRun_apply)
    with st Inr show ?thesis by (simp add: written)
  qed
qed

lemma SaveWorkflowRun_ok:
  assumes "SaveWorkflowRun r w = (Inr r', w')"
  shows "file_view w' (run_Stage r, run_RunID r) = Some (norm_run r') \<and>
    (\<exists>t. r' = r\<lparr>run_UpdatedAt := t\<rparr>)"
  using assms by (cases rule: SaveWorkflowRun_cases) auto

lemma SaveWorkflowRun_frame:
  assumes "SaveWorkflowRun r w = (x, w')"
  shows "k \<noteq> (run_Stage r, run_RunID r) \<Longrightarrow> ext_upd (file_view w k) (file_view w' k)"
    and "calls w' = calls w" and "held w' = held w"
    and "x = Inl e \<Longrightarrow> store_error e \<and> ext_upd (file_view w k) (file_view w' k)"
  using assms
  by (cases rule: SaveWorkflowRun_cases;
      fastforce dest: storage_frame(1) [where k' = k] storage_frame(2-4) simp: store_error_def)+

lemma LoadWorkflowRun_frame:
  assumes "LoadWorkflowRun s i w = (x, w')"
  shows "ext_upd (file_view w k) (file_view w' k)" and "calls w' = calls w" and "held w' = held w"
    and "x = Inl e \<Longrightarrow> store_error e"
  using assms by (auto simp: LoadWorkflowRun_def store_error_def split: if_splits
      dest: read_run_frame(1) [where k' = k] read_run_frame(2-4))

lemma LoadWorkflowRun_ok:
  "LoadWorkflowRun s i w = (Inr r, w') \<Longrightarrow> file_view w' (s, i) = Some r"
  by (auto simp: LoadWorkflowRun_def split: if_splits dest: read_run_ok)

interpretation files: run_store LoadWorkflowRun SaveWorkflowRun file_view
proof (standard, goal_cases)
  case 1 then show ?case by (rule LoadWorkflowRun_ok)
next
  case 2 then show ?case by (rule LoadWorkflowRun_frame)
next
  case 3 then show ?case using LoadWorkflowRun_frame(4) by blast
next
  case 4 then show ?case by (rule SaveWorkflowRun_ok)
next
  case 5 then show ?case by (rule SaveWorkflowRun_frame)
next
  case 6 then show ?case using SaveWorkflowRun_frame(4) by blast
next
  case 7 then show ?case by (simp add: LoadWorkflowRun_frame(2,3))
next
  case 8 then show ?case by (simp add: SaveWorkflowRun_frame(2,3))
qed simp_all

text \<open>\<^verbatim>\<open>LocalRunStore\<close> as the runtime uses it: unconditional saves, the version dropped.\<close>

definition local_load :: "(run_file \<Rightarrow> version) \<Rightarrow> string \<Rightarrow> string \<Rightarrow> wf_run rt_act" where
  "local_load digest s i = bindE (lrs_Load digest s i) (\<lambda>(r, v). returnE r)"

definition local_save :: "(run_file \<Rightarrow> version) \<Rightarrow> wf_run \<Rightarrow> wf_run rt_act" where
  "local_save digest r = bindE (lrs_Save digest r '''') (\<lambda>(v, r'). returnE r')"

lemma local_load_read:
  "local_load digest s i =
     (if s = '''' \<or> i = '''' then fail KeyRequired else read_run (s, i) NotFound)"
  by (auto simp: local_load_def lrs_Load_def bindE_def fun_eq_iff returnE_def throwE_def
      split: prod.splits sum.splits)

lemma local_save_cases:
  assumes eq: "local_save digest r w = (x, w')"
  obtains (invalid) "x = Inl (None, KeyRequired)" "w' = w"
  | (io) e where "x = Inl e" "storage (run_Stage r, run_RunID r) w = (Inl e, w')"
  | (io2) e w1 where "x = Inl e" "storage (run_Stage r, run_RunID r) w = (Inr (), w1)"
      "storage_locked (run_Stage r, run_RunID r) (tick w1) = (Inl e, w')"
  | (written) r' w1 w2 where "x = Inr r'" "r' = r\<lparr>run_UpdatedAt := fmt_time (wall w1 (ticks w1))\<rparr>"
      "storage (run_Stage r, run_RunID r) w = (Inr (), w1)"
      "storage_locked (run_Stage r, run_RunID r) (tick w1) = (Inr (), w2)" "w' = write_run r' w2"
proof (cases "run_RunID r = '''' \<or> run_Stage r = ''''")
  case True
  with eq show ?thesis by (auto simp: local_save_def lrs_Save_def intro: invalid)
next
  case False
  obtain y w1 where st: "storage (run_Stage r, run_RunID r) w = (y, w1)" by fastforce
  obtain z w2 where st2: "storage_locked (run_Stage r, run_RunID r) (tick w1) = (z, w2)" by fastforce
  note defs = local_save_def lrs_Save_def lrs_write_def monad_simps Let_def
  show ?thesis
  proof (cases y)
    case (Inl e)
    with False eq st have "x = Inl e" "w' = w1" by (simp_all add: defs)
    with st Inl show ?thesis by (simp add: io)
  next
    case (Inr u)
    show ?thesis
    proof (cases z)
      case (Inl e)
      with False eq st st2 Inr have "x = Inl e" "w' = w2" by (simp_all add: defs)
      with st st2 Inl Inr show ?thesis by (simp add: io2)
    next
      case (Inr u')
      with False eq st st2 \<open>y = Inr u\<close>
      have "x = Inr (r\<lparr>run_UpdatedAt := fmt_time (wall w1 (ticks w1))\<rparr>)"
        "w' = write_run (r\<lparr>run_UpdatedAt := fmt_time (wall w1 (ticks w1))\<rparr>) w2"
        by (simp_all add: defs)
      with st st2 Inr \<open>y = Inr u\<close> show ?thesis by (simp add: written)
    qed
  qed
qed

lemma local_save_frame:
  assumes "local_save digest r w = (x, w')"
  shows "k \<noteq> (run_Stage r, run_RunID r) \<Longrightarrow> ext_upd (file_view w k) (file_view w' k)"
    and "calls w' = calls w" and "held w' = held w"
    and "x = Inl e \<Longrightarrow> store_error e \<and> ext_upd (file_view w k) (file_view w' k)"
  using assms
  by (cases rule: local_save_cases;
      fastforce dest: storage_frame(1) [where k' = k] storage_frame(2-4) storage_locked_frame
        simp: store_error_def)+

interpretation local_store: run_store "local_load digest" "local_save digest" file_view
  for digest
proof (standard, goal_cases)
  case 1 then show ?case by (auto simp: local_load_read split: if_splits dest: read_run_ok)
next
  case 2 then show ?case
    by (auto simp: local_load_read split: if_splits intro: read_run_frame(1))
next
  case 3 then show ?case
    by (auto simp: local_load_read store_error_def split: if_splits dest!: read_run_frame(4))
next
  case 4 then show ?case by (cases rule: local_save_cases) auto
next
  case 5 then show ?case by (rule local_save_frame(1))
next
  case 6 then show ?case using local_save_frame(4) by blast
next
  case 7 then show ?case
    by (auto simp: local_load_read split: if_splits dest: read_run_frame(2,3))
next
  case 8 then show ?case by (simp add: local_save_frame(2,3))
qed simp_all

end
