(* ===== verification/Workflow_Runtime.thy ===== *)
theory Workflow_Runtime
  imports Run_Store
begin

text \<open>
  \<^verbatim>\<open>platform/workflow/runtime/workflow_runtime.go\<close>: durable execution of a workflow run. Every
  function keeps the order of the source's reads, writes, clock readings and early returns; the
  step handler, the context and the distributed locker are parameters.
\<close>

section \<open>Parameters of the runtime\<close>

datatype ctx_err = DeadlineExceeded | Canceled

fun ctx_err_str :: "ctx_err \<Rightarrow> string" where
  "ctx_err_str DeadlineExceeded = ''context deadline exceeded''"
| "ctx_err_str Canceled = ''context canceled''"

record step_result =
  res_Output :: "gomap option"
  res_Metadata :: "gomap option"
  res_Pause :: bool
  res_PauseReason :: string

text \<open>
  One handler execution: its (possibly nil) result, its error text, and the error of the
  execution context \<^verbatim>\<open>execCtx.Err()\<close> read when it returns.
\<close>

record handler_reply =
  hr_res :: "step_result option"
  hr_err :: "string option"
  hr_ctxerr :: "ctx_err option"

record store_ops =
  so_Load :: "string \<Rightarrow> string \<Rightarrow> (wf_run \<times> version) rt_act"
  so_Save :: "wf_run \<Rightarrow> version \<Rightarrow> (version \<times> wf_run) rt_act"

text \<open>
  \<open>Handler\<close> is given the number of executions so far, so it may answer differently each time.
  \<open>Locker\<close> is the outcome of each attempt to take the distributed lock (an error text, or
  acquired), by the clock. \<open>RandID\<close> stands for \<^verbatim>\<open>crypto/rand\<close>. The context of a call is a function
  \<open>ctx\<close> from the clock to its error.
\<close>

record runtime =
  Handler :: "(nat \<Rightarrow> wf_run \<Rightarrow> step_run \<Rightarrow> handler_reply) option"
  NowF :: "(nat \<Rightarrow> int) option"
  Locker :: "(nat \<Rightarrow> string option) option"
  Store :: "store_ops option"
  RandID :: "nat \<Rightarrow> string"

type_synonym ctxt = "nat \<Rightarrow> ctx_err option"

record step_spec =
  sp_ID :: string
  sp_Kind :: string
  sp_Input :: "gomap option"
  sp_MaxAttempts :: int
  sp_Timeout :: int
  sp_Backoff :: int

record run_spec =
  rs_RunID :: string
  rs_Service :: string
  rs_Stage :: string
  rs_Provider :: string
  rs_WorkflowName :: string
  rs_WorkflowHash :: string
  rs_Entrypoint :: string
  rs_Steps :: "step_spec list"

section \<open>Clock, checkpoints, storage\<close>

definition nowUTC :: "runtime \<Rightarrow> int rt_act" where
  "nowUTC rt = (case NowF rt of
     None \<Rightarrow> time_Now
   | Some f \<Rightarrow> (\<lambda>w. (Inr (f (ticks w)), w\<lparr>ticks := Suc (ticks w)\<rparr>)))"

definition checkpoint :: "int \<Rightarrow> string \<Rightarrow> string \<Rightarrow> string \<Rightarrow> ckpt option" where
  "checkpoint now stepID status lastErr =
     Some \<lparr>ck_CurrentStepID = stepID, ck_CurrentStatus = status, ck_UpdatedAt = fmt_time now,
       ck_LastError = lastErr\<rparr>"

definition durationMs :: "stamp \<Rightarrow> stamp \<Rightarrow> int" where
  "durationMs startedAt endedAt = (case (parse_time startedAt, parse_time endedAt) of
     (Some s, Some e) \<Rightarrow> tdiv (sat64 ((e - s) * 10 ^ 9)) (10 ^ 6)
   | _ \<Rightarrow> 0)"

definition loadRun :: "runtime \<Rightarrow> string \<Rightarrow> string \<Rightarrow> wf_run rt_act" where
  "loadRun rt stage runID = (case Store rt of
     None \<Rightarrow> LoadWorkflowRun stage runID
   | Some ops \<Rightarrow> bindE (so_Load ops stage runID) (\<lambda>(run, _). returnE run))"

definition saveRun :: "runtime \<Rightarrow> wf_run \<Rightarrow> wf_run rt_act" where
  "saveRun rt run = (case Store rt of
     None \<Rightarrow> SaveWorkflowRun run
   | Some ops \<Rightarrow> bindE (so_Save ops run '''') (\<lambda>(_, run'). returnE run'))"

definition markCancelRequested :: "runtime \<Rightarrow> string \<Rightarrow> string \<Rightarrow> wf_run rt_act" where
  "markCancelRequested rt stage runID = (case Store rt of
     None \<Rightarrow> MarkWorkflowRunCancelRequested stage runID
   | Some ops \<Rightarrow>
       bindE (so_Load ops stage runID) (\<lambda>(run, _).
       bindE (so_Save ops (run\<lparr>run_CancelRequested := True\<rparr>) '''') (\<lambda>(_, run').
       returnE run')))"

text \<open>
  \<^verbatim>\<open>acquireRunLock\<close>. The in-process lock is not reentrant: taking it while it is held blocks,
  which is the outcome \<open>LockBlocked\<close>. A distributed lock may fail with an error.
\<close>

definition acquireRunLock :: "runtime \<Rightarrow> string \<Rightarrow> string \<Rightarrow> unit rt_act" where
  "acquireRunLock rt stage runID = (\<lambda>w. case Locker rt of
     Some lock \<Rightarrow> (case lock (ticks w) of
         Some e \<Rightarrow> (Inl (None, LockFailed e), w)
       | None \<Rightarrow> (Inr (), w\<lparr>held := (stage, runID) # held w\<rparr>))
   | None \<Rightarrow>
       if (stage, runID) \<in> set (held w) then (Inl (None, LockBlocked), w)
       else (Inr (), w\<lparr>held := (stage, runID) # held w\<rparr>))"

definition releaseRunLock :: "string \<Rightarrow> string \<Rightarrow> world \<Rightarrow> world" where
  "releaseRunLock stage runID w = w\<lparr>held := remove1 (stage, runID) (held w)\<rparr>"

definition withRunLock :: "runtime \<Rightarrow> string \<Rightarrow> string \<Rightarrow> 'a rt_act \<Rightarrow> 'a rt_act" where
  "withRunLock rt stage runID m =
     bindE (acquireRunLock rt stage runID) (\<lambda>_. finallyE m (releaseRunLock stage runID))"

section \<open>Creating a run\<close>

definition new_step :: "step_spec \<Rightarrow> step_run" where
  "new_step s = \<lparr>sr_StepID = sp_ID s, sr_Kind = sp_Kind s, sr_Input = sp_Input s,
     sr_Status = StepStatusPending, sr_AttemptCount = 0,
     sr_MaxAttempts = (if sp_MaxAttempts s \<le> 0 then 1 else sp_MaxAttempts s),
     sr_TimeoutMs = tdiv (sp_Timeout s) (10 ^ 6), sr_BackoffMs = tdiv (sp_Backoff s) (10 ^ 6),
     sr_StartedAt = NoStamp, sr_EndedAt = NoStamp, sr_DurationMs = 0, sr_Error = '''',
     sr_Output = None, sr_Metadata = None\<rparr>"

definition new_run :: "run_spec \<Rightarrow> string \<Rightarrow> int \<Rightarrow> wf_run" where
  "new_run spec runID now = \<lparr>run_RunID = runID, run_Service = rs_Service spec,
     run_Stage = rs_Stage spec, run_Provider = rs_Provider spec,
     run_WorkflowName = rs_WorkflowName spec, run_WorkflowHash = rs_WorkflowHash spec,
     run_Entrypoint = rs_Entrypoint spec, run_Status = RunStatusRunning,
     run_StartedAt = fmt_time now, run_EndedAt = NoStamp, run_UpdatedAt = NoStamp,
     run_DurationMs = 0, run_CancelRequested = False, run_ReplayFromStep = '''',
     run_Checkpoint = checkpoint now '''' (run_status_str RunStatusRunning) '''',
     run_Steps = map new_step (rs_Steps spec), run_Nodes = [], run_TotalInputTokens = 0,
     run_TotalOutputTokens = 0, run_EstimatedCostUSD = 0\<rparr>"

definition CreateRun :: "runtime \<Rightarrow> run_spec \<Rightarrow> wf_run rt_act" where
  "CreateRun rt spec =
     (if rs_Stage spec = '''' then fail StageRequired
      else if rs_Service spec = '''' then fail ServiceRequired
      else bindE (if rs_RunID spec = '''' then getE (\<lambda>w. RandID rt (ticks w))
                  else returnE (rs_RunID spec)) (\<lambda>runID.
        bindE (nowUTC rt) (\<lambda>started.
        let run = new_run spec runID started in
        if \<exists>s \<in> set (rs_Steps spec). sp_ID s = '''' then fail StepIdRequired
        else bindE
          (if run_Steps run = [] then
             bindE (nowUTC rt) (\<lambda>now. returnE (run\<lparr>run_Status := RunStatusOK,
               run_EndedAt := fmt_time now,
               run_DurationMs := durationMs (run_StartedAt run) (fmt_time now)\<rparr>))
           else returnE run) (saveRun rt))))"

section \<open>Executing a step\<close>

definition upd_step :: "nat \<Rightarrow> (step_run \<Rightarrow> step_run) \<Rightarrow> wf_run \<Rightarrow> wf_run" where
  "upd_step idx f run = run\<lparr>run_Steps := (run_Steps run)[idx := f (run_Steps run ! idx)]\<rparr>"

text \<open>\<^verbatim>\<open>&run.Steps[idx]\<close> panics when the reloaded run has fewer steps.\<close>

definition check_idx :: "nat \<Rightarrow> wf_run \<Rightarrow> unit rt_act" where
  "check_idx idx run = (if idx < length (run_Steps run) then returnE () else fail IndexPanic)"

text \<open>The loop body of \<^verbatim>\<open>markCancelled\<close> for one step, given the clock reading it may make.\<close>

definition cancel_step :: "int \<Rightarrow> step_run \<Rightarrow> step_run" where
  "cancel_step now s =
     (let ended = (if sr_EndedAt s = NoStamp then fmt_time now else sr_EndedAt s)
      in s\<lparr>sr_Status := StepStatusCancelled, sr_EndedAt := ended,
           sr_DurationMs := (if sr_StartedAt s \<noteq> NoStamp then durationMs (sr_StartedAt s) ended
                             else sr_DurationMs s),
           sr_Error := (if sr_Error s = '''' then ''cancel requested'' else sr_Error s)\<rparr>)"

fun cancel_steps :: "runtime \<Rightarrow> step_run list \<Rightarrow> step_run list rt_act" where
  "cancel_steps rt [] = returnE []"
| "cancel_steps rt (s # ss) =
     bindE (if IsWorkflowStepTerminal (sr_Status s) then returnE s
            else if sr_EndedAt s = NoStamp then bindE (nowUTC rt) (\<lambda>now. returnE (cancel_step now s))
            else returnE (cancel_step 0 s)) (\<lambda>s'.
     bindE (cancel_steps rt ss) (\<lambda>ss'. returnE (s' # ss')))"

definition markCancelled :: "runtime \<Rightarrow> wf_run \<Rightarrow> nat \<Rightarrow> wf_run rt_act" where
  "markCancelled rt run fromIdx =
     bindE (cancel_steps rt (drop fromIdx (run_Steps run))) (\<lambda>ss.
     bindE (nowUTC rt) (\<lambda>ended.
     bindE (nowUTC rt) (\<lambda>now.
     saveRun rt (run\<lparr>run_Steps := take fromIdx (run_Steps run) @ ss,
       run_Status := RunStatusCancelled, run_EndedAt := fmt_time ended,
       run_DurationMs := durationMs (run_StartedAt run) (fmt_time ended),
       run_Checkpoint :=
         checkpoint now '''' (run_status_str RunStatusCancelled) ''cancel requested''\<rparr>))))"

text \<open>Start of an attempt: the step and the run are marked running and saved.\<close>

definition begin_attempt :: "runtime \<Rightarrow> wf_run \<Rightarrow> nat \<Rightarrow> int \<Rightarrow> int \<Rightarrow> wf_run rt_act" where
  "begin_attempt rt run idx maxAttempts attempt =
     bindE (check_idx idx run) (\<lambda>_.
     let s = run_Steps run ! idx in
     bindE (if sr_StartedAt s = NoStamp then bindE (nowUTC rt) (\<lambda>t. returnE (fmt_time t))
            else returnE (sr_StartedAt s)) (\<lambda>started.
     let run1 = upd_step idx (\<lambda>s. s\<lparr>sr_MaxAttempts := maxAttempts, sr_AttemptCount := attempt,
           sr_Status := StepStatusRunning, sr_StartedAt := started, sr_EndedAt := NoStamp,
           sr_DurationMs := 0, sr_Error := ''''\<rparr>) run in
     bindE (nowUTC rt) (\<lambda>now.
     saveRun rt (run1\<lparr>run_Status := RunStatusRunning,
       run_Checkpoint :=
         checkpoint now (sr_StepID s) (step_status_str StepStatusRunning) ''''\<rparr>))))"

text \<open>\<^verbatim>\<open>r.Handler.ExecuteStep(execCtx, run, *step)\<close> and the error of \<^verbatim>\<open>execCtx\<close>.\<close>

definition call_handler :: "(nat \<Rightarrow> wf_run \<Rightarrow> step_run \<Rightarrow> handler_reply) \<Rightarrow> wf_run \<Rightarrow> nat \<Rightarrow> handler_reply rt_act"
  where
  "call_handler h run idx = (\<lambda>w. let s = run_Steps run ! idx in
     (Inr (h (length (calls w)) run s),
      w\<lparr>calls := calls w @ [(sr_StepID s, sr_AttemptCount s)]\<rparr>))"

text \<open>A successful attempt: paused when the handler asks for it, otherwise OK.\<close>

definition finish_ok :: "runtime \<Rightarrow> wf_run \<Rightarrow> nat \<Rightarrow> step_result option \<Rightarrow> wf_run rt_act" where
  "finish_ok rt run idx res = (let sid = sr_StepID (run_Steps run ! idx) in case res of
     Some rs \<Rightarrow>
       if res_Pause rs then
         bindE (nowUTC rt) (\<lambda>now.
         saveRun rt ((upd_step idx (\<lambda>s. s\<lparr>sr_Status := StepStatusPaused,
             sr_Error := res_PauseReason rs, sr_Output := res_Output rs,
             sr_Metadata := res_Metadata rs\<rparr>) run)\<lparr>run_Status := RunStatusPaused,
           run_Checkpoint :=
             checkpoint now sid (step_status_str StepStatusPaused) (res_PauseReason rs)\<rparr>))
       else
         bindE (nowUTC rt) (\<lambda>now.
         saveRun rt ((upd_step idx (\<lambda>s. s\<lparr>sr_Status := StepStatusOK, sr_Error := '''',
             sr_Output := res_Output rs, sr_Metadata := res_Metadata rs\<rparr>) run)\<lparr>
           run_Checkpoint := checkpoint now sid (step_status_str StepStatusOK) ''''\<rparr>))
   | None \<Rightarrow>
       bindE (nowUTC rt) (\<lambda>now.
       saveRun rt ((upd_step idx (\<lambda>s. s\<lparr>sr_Status := StepStatusOK, sr_Error := '''',
           sr_Output := None, sr_Metadata := None\<rparr>) run)\<lparr>
         run_Checkpoint := checkpoint now sid (step_status_str StepStatusOK) ''''\<rparr>)))"

text \<open>The run could not be completed because its context ended during an attempt or its backoff.\<close>

definition abort_step :: "runtime \<Rightarrow> wf_run \<Rightarrow> nat \<Rightarrow> ctx_err \<Rightarrow> wf_run rt_act" where
  "abort_step rt run idx ce =
     (let sid = sr_StepID (run_Steps run ! idx);
          (sst, rst) = (if ce = DeadlineExceeded then (StepStatusTimedOut, RunStatusTimedOut)
                        else (StepStatusCancelled, RunStatusCancelled))
      in bindE (nowUTC rt) (\<lambda>ended.
         bindE (nowUTC rt) (\<lambda>now.
         bindE (saveRun rt ((upd_step idx (\<lambda>s. s\<lparr>sr_Status := sst, sr_Error := ctx_err_str ce\<rparr>) run)\<lparr>
             run_Status := rst, run_EndedAt := fmt_time ended,
             run_DurationMs := durationMs (run_StartedAt run) (fmt_time ended),
             run_Checkpoint := checkpoint now sid (step_status_str sst) (ctx_err_str ce)\<rparr>)) (\<lambda>run'.
         throwE (Some run', StepAborted sid (ctx_err_str ce))))))"

definition fail_status :: "step_status \<Rightarrow> run_status" where
  "fail_status s = (if s = StepStatusTimedOut then RunStatusTimedOut else RunStatusFailed)"

text \<open>The last attempt failed: the run ends failed or timed out.\<close>

definition exhaust_step :: "runtime \<Rightarrow> wf_run \<Rightarrow> nat \<Rightarrow> string \<Rightarrow> wf_run rt_act" where
  "exhaust_step rt run idx err =
     (let s = run_Steps run ! idx in
      bindE (nowUTC rt) (\<lambda>ended.
      bindE (saveRun rt (run\<lparr>run_Status := fail_status (sr_Status s), run_EndedAt := fmt_time ended,
          run_DurationMs := durationMs (run_StartedAt run) (fmt_time ended)\<rparr>)) (\<lambda>run'.
      throwE (Some run', StepFailed (sr_StepID s) err))))"

text \<open>
  The text of the error that failed an attempt, and the status it leaves: the handler's error
  wins over the context's; a context deadline makes the step timed out either way.
\<close>

definition attempt_error :: "handler_reply \<Rightarrow> string" where
  "attempt_error rep = (case hr_err rep of Some e \<Rightarrow> e
     | None \<Rightarrow> (case hr_ctxerr rep of Some ce \<Rightarrow> ctx_err_str ce | None \<Rightarrow> ''step execution failed''))"

definition attempt_status :: "handler_reply \<Rightarrow> step_status" where
  "attempt_status rep =
     (if hr_ctxerr rep = Some DeadlineExceeded then StepStatusTimedOut else StepStatusFailed)"

definition record_failure :: "runtime \<Rightarrow> wf_run \<Rightarrow> nat \<Rightarrow> handler_reply \<Rightarrow> wf_run rt_act" where
  "record_failure rt run idx rep =
     bindE (nowUTC rt) (\<lambda>now.
     saveRun rt ((upd_step idx (\<lambda>s. s\<lparr>sr_Status := attempt_status rep,
         sr_Error := attempt_error rep\<rparr>) run)\<lparr>run_Checkpoint :=
       checkpoint now (sr_StepID (run_Steps run ! idx)) (step_status_str (attempt_status rep))
         (attempt_error rep)\<rparr>))"

text \<open>Between two attempts the step is pending again.\<close>

definition reset_pending :: "runtime \<Rightarrow> wf_run \<Rightarrow> nat \<Rightarrow> wf_run rt_act" where
  "reset_pending rt run idx =
     (let s = run_Steps run ! idx in
      bindE (nowUTC rt) (\<lambda>now.
      saveRun rt ((upd_step idx (\<lambda>s. s\<lparr>sr_Status := StepStatusPending\<rparr>) run)\<lparr>run_Checkpoint :=
        checkpoint now (sr_StepID s) (step_status_str StepStatusPending) (sr_Error s)\<rparr>)))"

text \<open>
  No attempt was left before the step started (a crash between the last failure and the end of
  the run): a step that is failed or timed out ends the run, any other is left to the caller.
\<close>

definition reconcile_exhausted :: "runtime \<Rightarrow> wf_run \<Rightarrow> nat \<Rightarrow> wf_run rt_act" where
  "reconcile_exhausted rt run idx =
     (let s = run_Steps run ! idx in
      if sr_Status s = StepStatusFailed \<or> sr_Status s = StepStatusTimedOut then
        bindE (nowUTC rt) (\<lambda>ended.
        bindE (nowUTC rt) (\<lambda>now.
        bindE (saveRun rt (run\<lparr>run_Status := fail_status (sr_Status s), run_EndedAt := fmt_time ended,
            run_DurationMs := durationMs (run_StartedAt run) (fmt_time ended),
            run_Checkpoint :=
              checkpoint now (sr_StepID s) (step_status_str (sr_Status s)) (sr_Error s)\<rparr>)) (\<lambda>run'.
        throwE (Some run', StepFailed (sr_StepID s) (sr_Error s)))))
      else returnE run)"

text \<open>
  What follows a failed attempt: the next attempt unless it was the last one or the context is
  done. In this and the next two definitions \<open>Inr run\<close> ends \<^verbatim>\<open>executeStep\<close> normally and
  \<open>Inl run\<close> asks for the next attempt. The context is polled by the clock at that point.
\<close>

definition retry_or_fail ::
  "runtime \<Rightarrow> ctxt \<Rightarrow> wf_run \<Rightarrow> nat \<Rightarrow> int \<Rightarrow> int \<Rightarrow> string \<Rightarrow> (wf_run + wf_run) rt_act" where
  "retry_or_fail rt ctx run idx maxAttempts attempt err =
     (if attempt < maxAttempts then
        bindE (reset_pending rt run idx) (\<lambda>run'.
        bindE (getE (\<lambda>w. ctx (ticks w))) (\<lambda>ce. case ce of
          Some e \<Rightarrow> bindE (abort_step rt run' idx e) (\<lambda>r. returnE (Inr r))
        | None \<Rightarrow> returnE (Inl run')))
      else
        bindE (exhaust_step rt run idx err) (\<lambda>r. returnE (Inr r)))"

text \<open>After the handler returned: the run is reloaded, the attempt is timed and recorded.\<close>

definition stamp_end :: "nat \<Rightarrow> stamp \<Rightarrow> wf_run \<Rightarrow> wf_run" where
  "stamp_end idx ended = upd_step idx (\<lambda>s. s\<lparr>sr_EndedAt := ended,
     sr_DurationMs := durationMs (sr_StartedAt s) ended\<rparr>)"

definition settle_attempt ::
  "runtime \<Rightarrow> ctxt \<Rightarrow> wf_run \<Rightarrow> nat \<Rightarrow> int \<Rightarrow> int \<Rightarrow> handler_reply \<Rightarrow> (wf_run + wf_run) rt_act" where
  "settle_attempt rt ctx run idx maxAttempts attempt rep =
     bindE (loadRun rt (run_Stage run) (run_RunID run)) (\<lambda>run2.
     bindE (check_idx idx run2) (\<lambda>_.
     bindE (nowUTC rt) (\<lambda>ended.
     let run3 = stamp_end idx (fmt_time ended) run2 in
     if hr_err rep = None \<and> hr_ctxerr rep = None then
       bindE (finish_ok rt run3 idx (hr_res rep)) (\<lambda>r. returnE (Inr r))
     else
       bindE (record_failure rt run3 idx rep) (\<lambda>run4.
       retry_or_fail rt ctx run4 idx maxAttempts attempt (attempt_error rep)))))"

definition attempt_step ::
  "runtime \<Rightarrow> (nat \<Rightarrow> wf_run \<Rightarrow> step_run \<Rightarrow> handler_reply) \<Rightarrow> ctxt \<Rightarrow> wf_run \<Rightarrow> nat \<Rightarrow> int \<Rightarrow> int \<Rightarrow>
   (wf_run + wf_run) rt_act" where
  "attempt_step rt h ctx run idx maxAttempts attempt =
     bindE (loadRun rt (run_Stage run) (run_RunID run)) (\<lambda>latest.
     if run_CancelRequested latest then bindE (markCancelled rt latest idx) (\<lambda>r. returnE (Inr r))
     else
       bindE (begin_attempt rt latest idx maxAttempts attempt) (\<lambda>run1.
       bindE (call_handler h run1 idx) (\<lambda>rep.
       settle_attempt rt ctx run1 idx maxAttempts attempt rep)))"

text \<open>The attempt loop of \<^verbatim>\<open>executeStep\<close>.\<close>

function attempt_loop ::
  "runtime \<Rightarrow> (nat \<Rightarrow> wf_run \<Rightarrow> step_run \<Rightarrow> handler_reply) \<Rightarrow> ctxt \<Rightarrow> wf_run \<Rightarrow> nat \<Rightarrow> int \<Rightarrow> int \<Rightarrow>
   wf_run rt_act" where
  "attempt_loop rt h ctx run idx maxAttempts attempt =
     (if attempt \<le> maxAttempts then
        bindE (attempt_step rt h ctx run idx maxAttempts attempt) (\<lambda>x. case x of
          Inr r \<Rightarrow> returnE r
        | Inl r \<Rightarrow> attempt_loop rt h ctx r idx maxAttempts (attempt + 1))
      else reconcile_exhausted rt run idx)"
  by pat_completeness auto
termination
  by (relation "measure (\<lambda>(rt, h, ctx, run, idx, m, a). nat (m + 1 - a))") auto

declare attempt_loop.simps [simp del]

definition executeStep ::
  "runtime \<Rightarrow> (nat \<Rightarrow> wf_run \<Rightarrow> step_run \<Rightarrow> handler_reply) \<Rightarrow> ctxt \<Rightarrow> wf_run \<Rightarrow> nat \<Rightarrow> wf_run rt_act" where
  "executeStep rt h ctx run idx =
     bindE (check_idx idx run) (\<lambda>_.
     let s = run_Steps run ! idx;
         maxAttempts = (if sr_MaxAttempts s \<le> 0 then 1 else sr_MaxAttempts s)
     in attempt_loop rt h ctx run idx maxAttempts (sr_AttemptCount s + 1))"

section \<open>Resuming, replaying, cancelling, approving\<close>

definition firstUnsuccessfulStep :: "wf_run \<Rightarrow> step_run option" where
  "firstUnsuccessfulStep run = find (\<lambda>s. sr_Status s \<noteq> StepStatusOK) (run_Steps run)"

text \<open>The end of \<^verbatim>\<open>resumeRunLocked\<close>: OK only when every step is OK.\<close>

definition finish_run :: "runtime \<Rightarrow> wf_run \<Rightarrow> wf_run rt_act" where
  "finish_run rt run = (case firstUnsuccessfulStep run of
     Some s \<Rightarrow>
       bindE (nowUTC rt) (\<lambda>ended.
       let reason = (if sr_Error s = '''' then ''step '' @ sr_StepID s @ '' did not complete (status ''
             @ step_status_str (sr_Status s) @ '')'' else sr_Error s) in
       bindE (nowUTC rt) (\<lambda>now.
       bindE (saveRun rt (run\<lparr>run_ReplayFromStep := '''', run_Status := fail_status (sr_Status s),
           run_EndedAt := fmt_time ended,
           run_DurationMs := durationMs (run_StartedAt run) (fmt_time ended),
           run_Checkpoint := checkpoint now (sr_StepID s) (step_status_str (sr_Status s)) reason\<rparr>)) (\<lambda>run'.
       throwE (Some run', StepNotOK (sr_StepID s) (sr_Status s)))))
   | None \<Rightarrow>
       bindE (nowUTC rt) (\<lambda>ended.
       bindE (nowUTC rt) (\<lambda>now.
       saveRun rt (run\<lparr>run_ReplayFromStep := '''', run_Status := RunStatusOK,
         run_EndedAt := fmt_time ended,
         run_DurationMs := durationMs (run_StartedAt run) (fmt_time ended),
         run_Checkpoint := checkpoint now '''' (run_status_str RunStatusOK) ''''\<rparr>))))"

text \<open>\<^verbatim>\<open>step.Input["approvalDecision"].(string)\<close>: empty unless the entry is a string.\<close>

definition approval_decision :: "step_run \<Rightarrow> string" where
  "approval_decision s = (case sr_Input s of None \<Rightarrow> ''''
     | Some m \<Rightarrow> (case map_of m ''approvalDecision'' of Some (JStr d) \<Rightarrow> d | _ \<Rightarrow> ''''))"

definition pause_run :: "runtime \<Rightarrow> wf_run \<Rightarrow> nat \<Rightarrow> wf_run rt_act" where
  "pause_run rt run idx =
     bindE (nowUTC rt) (\<lambda>now.
     saveRun rt (run\<lparr>run_Status := RunStatusPaused,
       run_Checkpoint := checkpoint now (sr_StepID (run_Steps run ! idx))
         (step_status_str StepStatusPaused) ''awaiting human approval''\<rparr>))"

text \<open>
  Recovery of the step's durable status before it runs again: a paused step with a decision
  and a step left running by a crash become pending; the interrupted attempt is not counted.
\<close>

definition recover_step :: "runtime \<Rightarrow> wf_run \<Rightarrow> nat \<Rightarrow> wf_run rt_act" where
  "recover_step rt run idx =
     (let s = run_Steps run ! idx in
      bindE (if sr_Status s = StepStatusPaused then
               bindE (nowUTC rt) (\<lambda>now.
               saveRun rt ((upd_step idx (\<lambda>s. s\<lparr>sr_Status := StepStatusPending\<rparr>) run)\<lparr>
                 run_Checkpoint := checkpoint now (sr_StepID s)
                   (step_status_str StepStatusPending) ''approval decision received''\<rparr>))
             else returnE run) (\<lambda>run1.
      if sr_Status s = StepStatusRunning then
        bindE (nowUTC rt) (\<lambda>now.
        saveRun rt ((upd_step idx (\<lambda>s. s\<lparr>sr_Status := StepStatusPending,
            sr_AttemptCount := (if sr_AttemptCount s > 0 then sr_AttemptCount s - 1
                                else sr_AttemptCount s)\<rparr>) run1)\<lparr>
          run_Checkpoint := checkpoint now (sr_StepID s)
            (step_status_str StepStatusPending) ''resumed after restart''\<rparr>))
      else returnE run1))"

fun resume_steps ::
  "runtime \<Rightarrow> (nat \<Rightarrow> wf_run \<Rightarrow> step_run \<Rightarrow> handler_reply) \<Rightarrow> ctxt \<Rightarrow> nat option \<Rightarrow> wf_run \<Rightarrow> nat list \<Rightarrow>
   wf_run rt_act" where
  "resume_steps rt h ctx replay run [] = finish_run rt run"
| "resume_steps rt h ctx replay run (idx # rest) =
     bindE (check_idx idx run) (\<lambda>_.
     let s = run_Steps run ! idx in
     if (case replay of None \<Rightarrow> False | Some k \<Rightarrow> idx < k) then resume_steps rt h ctx replay run rest
     else if replay = None \<and> sr_Status s = StepStatusOK then resume_steps rt h ctx replay run rest
     else if sr_Status s = StepStatusPaused \<and> approval_decision s = '''' then pause_run rt run idx
     else
       bindE (recover_step rt run idx) (\<lambda>run1.
       if run_CancelRequested run1 then markCancelled rt run1 idx
       else bindE (executeStep rt h ctx run1 idx) (\<lambda>run2.
         if run_Status run2 = RunStatusPaused then returnE run2
         else resume_steps rt h ctx replay run2 rest)))"

definition replay_start :: "wf_run \<Rightarrow> nat option" where
  "replay_start run = (if run_ReplayFromStep run = '''' then None
     else find_index (\<lambda>s. sr_StepID s = run_ReplayFromStep run) (run_Steps run))"

text \<open>An unstarted run is marked running before its steps are.\<close>

definition start_run :: "runtime \<Rightarrow> wf_run \<Rightarrow> wf_run rt_act" where
  "start_run rt run =
     (if run_Status run = RunUnset \<or> run_Status run = RunStatusPending then
        bindE (if run_StartedAt run = NoStamp then bindE (nowUTC rt) (\<lambda>t. returnE (fmt_time t))
               else returnE (run_StartedAt run)) (\<lambda>started.
        saveRun rt (run\<lparr>run_Status := RunStatusRunning, run_StartedAt := started\<rparr>))
      else returnE run)"

definition resumeRunLocked :: "runtime \<Rightarrow> ctxt \<Rightarrow> string \<Rightarrow> string \<Rightarrow> wf_run rt_act" where
  "resumeRunLocked rt ctx stage runID = (case Handler rt of
     None \<Rightarrow> fail HandlerRequired
   | Some h \<Rightarrow>
       bindE (loadRun rt stage runID) (\<lambda>run.
       if IsWorkflowRunTerminal (run_Status run) \<and> run_ReplayFromStep run = '''' then returnE run
       else
         bindE (start_run rt run) (\<lambda>run1.
         resume_steps rt h ctx (replay_start run1) run1 [0..<length (run_Steps run1)])))"

definition ResumeRun :: "runtime \<Rightarrow> ctxt \<Rightarrow> string \<Rightarrow> string \<Rightarrow> wf_run rt_act" where
  "ResumeRun rt ctx stage runID = withRunLock rt stage runID (resumeRunLocked rt ctx stage runID)"

definition StartRun :: "runtime \<Rightarrow> ctxt \<Rightarrow> run_spec \<Rightarrow> wf_run rt_act" where
  "StartRun rt ctx spec =
     bindE (CreateRun rt spec) (\<lambda>run. ResumeRun rt ctx (run_Stage run) (run_RunID run))"

definition CancelRun :: "runtime \<Rightarrow> string \<Rightarrow> string \<Rightarrow> wf_run rt_act" where
  "CancelRun rt stage runID = markCancelRequested rt stage runID"

definition reset_step :: "step_run \<Rightarrow> step_run" where
  "reset_step s = s\<lparr>sr_Status := StepStatusPending, sr_AttemptCount := 0, sr_StartedAt := NoStamp,
     sr_EndedAt := NoStamp, sr_DurationMs := 0, sr_Error := '''', sr_Output := None,
     sr_Metadata := None\<rparr>"

definition replayed :: "wf_run \<Rightarrow> nat \<Rightarrow> string \<Rightarrow> ckpt option \<Rightarrow> wf_run" where
  "replayed run k stepID c = run\<lparr>
     run_Steps := take k (run_Steps run) @ map reset_step (drop k (run_Steps run)),
     run_ReplayFromStep := stepID, run_CancelRequested := False,
     run_Status := RunStatusRunning, run_EndedAt := NoStamp, run_DurationMs := 0,
     run_Checkpoint := c\<rparr>"

definition ReplayRunFromStep :: "runtime \<Rightarrow> ctxt \<Rightarrow> string \<Rightarrow> string \<Rightarrow> string \<Rightarrow> wf_run rt_act" where
  "ReplayRunFromStep rt ctx stage runID stepID =
     (if stepID = '''' then fail StepIdRequired
      else withRunLock rt stage runID
        (bindE (loadRun rt stage runID) (\<lambda>run.
         case find_index (\<lambda>s. sr_StepID s = stepID) (run_Steps run) of
           None \<Rightarrow> fail (NoSuchStep stepID runID)
         | Some k \<Rightarrow>
             bindE (nowUTC rt) (\<lambda>now.
             bindE (saveRun rt (replayed run k stepID
                 (checkpoint now stepID (step_status_str StepStatusPending) ''''))) (\<lambda>_.
             resumeRunLocked rt ctx stage runID)))))"

definition set_approval :: "string \<Rightarrow> string \<Rightarrow> step_run \<Rightarrow> step_run" where
  "set_approval decision reviewer s =
     (let m = (case sr_Input s of None \<Rightarrow> [] | Some m \<Rightarrow> m);
          m1 = AList.update ''approvalDecision'' (JStr decision) m;
          m2 = (if reviewer \<noteq> '''' then AList.update ''approvalReviewer'' (JStr reviewer) m1 else m1)
      in s\<lparr>sr_Input := Some m2, sr_AttemptCount := 0,
           sr_Status := (if sr_Status s = StepStatusPaused then StepStatusPending else sr_Status s)\<rparr>)"

definition ResolveApproval ::
  "runtime \<Rightarrow> string \<Rightarrow> string \<Rightarrow> string \<Rightarrow> string \<Rightarrow> string \<Rightarrow> wf_run rt_act" where
  "ResolveApproval rt stage runID stepID decision reviewer =
     withRunLock rt stage runID
       (bindE (loadRun rt stage runID) (\<lambda>run.
        if decision = '''' then fail DecisionRequired
        else case find_index (\<lambda>s. sr_StepID s = stepID) (run_Steps run) of
          None \<Rightarrow> fail (NoSuchStep stepID runID)
        | Some k \<Rightarrow>
            bindE (nowUTC rt) (\<lambda>now.
            saveRun rt ((upd_step k (set_approval decision reviewer) run)\<lparr>
              run_Status := RunStatusRunning,
              run_Checkpoint := checkpoint now stepID (step_status_str StepStatusPending) ''''\<rparr>))))"

end
