(* ===== verification/Runtime_Invariant.thy ===== *)
theory Runtime_Invariant
  imports Workflow_Runtime
begin

text \<open>
  The invariant of stored workflow runs and its preservation by every operation of the runtime,
  for every store that meets the contract \<open>run_store\<close>. The locale \<open>durable_runtime\<close> says that
  the store a runtime uses meets it; it is interpreted for the two local backends.
\<close>

section \<open>The invariant\<close>

text \<open>
  A stored run sits under its own key, a run marked OK has only OK steps and no pending replay,
  and no step has more attempts than it may. For the run \<open>k0\<close> under consideration also: its
  step ids are \<open>ids\<close>, its first \<open>n\<close> steps are \<open>pre\<close> (up to the JSON normal form), and its
  status lies in \<open>S\<close>.
\<close>

definition attempts_ok :: "step_run \<Rightarrow> bool" where
  "attempts_ok s \<longleftrightarrow> sr_AttemptCount s \<le> max 1 (sr_MaxAttempts s)"

definition ok_consistent :: "wf_run \<Rightarrow> bool" where
  "ok_consistent r \<longleftrightarrow> (run_Status r = RunStatusOK \<longrightarrow>
     (\<forall>s \<in> set (run_Steps r). sr_Status s = StepStatusOK) \<and> run_ReplayFromStep r = '''')"

definition good_entry :: "run_key \<Rightarrow> wf_run \<Rightarrow> bool" where
  "good_entry k r \<longleftrightarrow> k = (run_Stage r, run_RunID r) \<and> ok_consistent r \<and>
     (\<forall>s \<in> set (run_Steps r). attempts_ok s)"

definition run_inv ::
  "run_status set \<Rightarrow> run_key \<Rightarrow> string list \<Rightarrow> nat \<Rightarrow> step_run list \<Rightarrow> run_key \<Rightarrow> wf_run \<Rightarrow> bool" where
  "run_inv S k0 ids n pre k r \<longleftrightarrow>
     good_entry k r \<and>
     (k = k0 \<longrightarrow> map sr_StepID (run_Steps r) = ids \<and>
        map norm_step (take n (run_Steps r)) = pre \<and> run_Status r \<in> S)"

abbreviation active :: "run_status set" where
  "active \<equiv> - {RunStatusOK}"

lemmas run_inv_defs = run_inv_def good_entry_def

lemma attempts_ok_norm [simp]: "attempts_ok (norm_step s) = attempts_ok s"
  by (simp add: attempts_ok_def)

lemma ok_consistent_simps [simp]:
  "ok_consistent (r\<lparr>run_UpdatedAt := t\<rparr>) = ok_consistent r"
  "ok_consistent (r\<lparr>run_CancelRequested := c\<rparr>) = ok_consistent r"
  "ok_consistent (norm_run r) = ok_consistent r"
  by (simp_all add: ok_consistent_def)

lemma ok_consistent_not_ok [simp]: "run_Status r \<noteq> RunStatusOK \<Longrightarrow> ok_consistent r"
  by (simp add: ok_consistent_def)

lemma stable_run_inv [simp]: "stable (run_inv S k0 ids n pre)"
  by (auto simp: stable_def run_inv_defs take_map o_def)

lemma run_inv_key: "run_inv S k0 ids n pre k r \<Longrightarrow> (run_Stage r, run_RunID r) = k"
  by (simp add: run_inv_defs)

lemma run_inv_mono: "S \<subseteq> S' \<Longrightarrow> run_inv S k0 ids n pre k r \<Longrightarrow> run_inv S' k0 ids n pre k r"
  by (auto simp: run_inv_defs)

lemma run_inv_len: "run_inv S k0 ids n pre k0 r \<Longrightarrow> length (run_Steps r) = length ids"
  by (auto simp: run_inv_defs)

text \<open>Changing fields of the run other than its steps and identity.\<close>

lemma run_inv_same_steps:
  assumes "run_inv active k0 ids n pre k0 r" and "run_Steps r' = run_Steps r"
    and "run_Stage r' = run_Stage r" and "run_RunID r' = run_RunID r"
    and "run_Status r' \<noteq> RunStatusOK"
  shows "run_inv active k0 ids n pre k0 r'"
  using assms by (simp add: run_inv_defs)

text \<open>Updating one step at or after position \<open>n\<close>.\<close>

lemma run_inv_upd_step:
  assumes inv: "run_inv active k0 ids n pre k0 r" and idx: "n \<le> idx" "idx < length ids"
    and id: "sr_StepID (f (run_Steps r ! idx)) = sr_StepID (run_Steps r ! idx)"
    and att: "attempts_ok (f (run_Steps r ! idx))"
    and r': "run_Steps r' = (run_Steps r)[idx := f (run_Steps r ! idx)]"
      "run_Stage r' = run_Stage r" "run_RunID r' = run_RunID r" "run_Status r' \<noteq> RunStatusOK"
  shows "run_inv active k0 ids n pre k0 r'"
proof -
  from inv have ids: "map sr_StepID (run_Steps r) = ids" and len: "length (run_Steps r) = length ids"
    and atts: "\<forall>s \<in> set (run_Steps r). attempts_ok s" by (auto simp: run_inv_defs)
  have "map sr_StepID (run_Steps r') =
      (map sr_StepID (run_Steps r))[idx := sr_StepID (run_Steps r ! idx)]"
    by (simp add: r' map_update id)
  also have "\<dots> = ids"
    using ids idx len by (metis list_update_id nth_map)
  finally have "map sr_StepID (run_Steps r') = ids" .
  moreover have "take n (run_Steps r') = take n (run_Steps r)"
    using idx by (simp add: r')
  moreover have "\<forall>s \<in> set (run_Steps r'). attempts_ok s"
    using atts att set_update_subset_insert [of "run_Steps r"] by (fastforce simp: r')
  ultimately show ?thesis using inv r'(2-4) by (simp add: run_inv_defs)
qed

lemma run_inv_step:
  assumes "run_inv S k0 ids n pre k0 r" and "idx < length ids"
  shows "attempts_ok (run_Steps r ! idx)"
  using assms run_inv_len [OF assms(1)] by (simp add: run_inv_defs)

section \<open>Runtimes over a store that meets the contract\<close>

locale durable_runtime = run_store "loadRun rt" "saveRun rt" view
  for rt :: runtime and view :: "world \<Rightarrow> run_key \<Rightarrow> wf_run option"
begin

lemma all_runs_ticks [simp]: "all_runs P (w\<lparr>ticks := t\<rparr>) = all_runs P w"
  by (simp add: all_runs_def view_runs)

lemma all_runs_calls [simp]: "all_runs P (w\<lparr>calls := c\<rparr>) = all_runs P w"
  by (simp add: all_runs_def view_runs)

lemma all_runs_held [simp]: "all_runs P (w\<lparr>held := h\<rparr>) = all_runs P w"
  by (simp add: all_runs_def view_runs)

lemma all_runs_mono: "(\<And>k r. P k r \<Longrightarrow> Q k r) \<Longrightarrow> all_runs P w \<Longrightarrow> all_runs Q w"
  by (auto simp: all_runs_def)

text \<open>The stored run of key \<open>k\<close> is \<open>r\<close>, up to the JSON normal form.\<close>

definition stored :: "run_key \<Rightarrow> wf_run \<Rightarrow> world \<Rightarrow> bool" where
  "stored k r w \<longleftrightarrow> map_option norm_run (view w k) = Some (norm_run r)"

lemma storedI: "view w k = Some (norm_run r) \<Longrightarrow> stored k r w" "view w k = Some r \<Longrightarrow> stored k r w"
  by (simp_all add: stored_def)

lemma storedD: "stored k r w \<Longrightarrow> map_option norm_run (view w k) = Some (norm_run r)"
  by (simp add: stored_def)

text \<open>Errors of an operation on the run \<open>k0\<close>: no panic, and a returned run is the stored one.\<close>

definition good_err :: "(run_key \<Rightarrow> wf_run \<Rightarrow> bool) \<Rightarrow> run_key \<Rightarrow> rt_fail \<Rightarrow> world \<Rightarrow> bool" where
  "good_err P k0 e w \<longleftrightarrow> snd e \<noteq> IndexPanic \<and> snd e \<noteq> LockBlocked \<and>
     (\<forall>r. fst e = Some r \<longrightarrow> P k0 r \<and> stored k0 r w)"

lemma good_err_store: "store_error e \<Longrightarrow> good_err P k0 e w"
  by (auto simp: good_err_def store_error_def)

abbreviation saved :: "(run_key \<Rightarrow> wf_run \<Rightarrow> bool) \<Rightarrow> run_key \<Rightarrow> wf_run \<Rightarrow> world \<Rightarrow> bool" where
  "saved P k0 r w \<equiv> all_runs P w \<and> P k0 r \<and> stored k0 r w"

abbreviation failed :: "(run_key \<Rightarrow> wf_run \<Rightarrow> bool) \<Rightarrow> run_key \<Rightarrow> rt_fail \<Rightarrow> world \<Rightarrow> bool" where
  "failed P k0 e w \<equiv> all_runs P w \<and> good_err P k0 e w"

lemma now_triple: "triple (all_runs P) (nowUTC rt) (\<lambda>_. all_runs P) E"
  by (auto simp: triple_def nowUTC_def time_Now_def split: option.split)

lemma save_triple:
  assumes "stable P" and "P k0 r" and "(run_Stage r, run_RunID r) = k0"
  shows "triple (all_runs P) (saveRun rt r) (saved P k0) (failed P k0)"
proof -
  have "P (run_Stage r, run_RunID r) r" using assms(2,3) by simp
  from sv_triple [OF assms(1) this] show ?thesis
    by (rule triple_conseq) (simp_all add: assms(3) good_err_store storedI)
qed

lemma load_triple:
  assumes "stable P"
  shows "triple (all_runs P) (loadRun rt s i)
    (\<lambda>r w. all_runs P w \<and> view w (s, i) = Some r \<and> P (s, i) r) (failed P k0)"
  by (rule triple_conseq [OF ld_triple [OF assms]]) (simp_all add: good_err_store)

text \<open>Bind after a clock reading, and bind after a fact about the returned run.\<close>

lemma now_bind:
  "(\<And>t. triple (all_runs P) (f t) Q E) \<Longrightarrow> triple (all_runs P) (bindE (nowUTC rt) f) Q E"
  by (rule triple_bind [OF now_triple])

lemma saved_bind:
  assumes "triple (all_runs P) m (saved P k0) E" and "\<And>r. P k0 r \<Longrightarrow> triple (all_runs P) (f r) Q E"
  shows "triple (all_runs P) (bindE m f) Q E"
proof (rule triple_bind [OF assms(1)])
  fix a
  show "triple (saved P k0 a) (f a) Q E"
    by (rule triple_fact [of _ "P k0 a"], simp, rule triple_pre [OF assms(2)], simp_all)
qed

lemma load_bind:
  assumes "stable P" and "\<And>r. P (s, i) r \<Longrightarrow> triple (all_runs P) (f r) Q (failed P k0)"
  shows "triple (all_runs P) (bindE (loadRun rt s i) f) Q (failed P k0)"
proof (rule triple_bind [OF load_triple [OF assms(1)]])
  fix a
  show "triple (\<lambda>w. all_runs P w \<and> view w (s, i) = Some a \<and> P (s, i) a) (f a) Q (failed P k0)"
    by (rule triple_fact [of _ "P (s, i) a"], simp, rule triple_pre [OF assms(2)], simp_all)
qed

lemma return_bind: "triple P (f a) Q E \<Longrightarrow> triple P (bindE (returnE a) f) Q E"
  by simp

lemma if_now_bind:
  "(\<And>t. triple (all_runs P) (f t) Q E) \<Longrightarrow>
   triple (all_runs P) (bindE (if b then bindE (nowUTC rt) (\<lambda>t. returnE (g t)) else returnE x) f) Q E"
  by (simp add: bindE_assoc now_bind)

lemma check_idx_bind:
  assumes "run_inv S k0 ids n pre k0 r" and "idx < length ids"
    and "triple P (f ()) Q E"
  shows "triple P (bindE (check_idx idx r) f) Q E"
  using assms run_inv_len [OF assms(1)] by (simp add: check_idx_def)

lemma throw_saved:
  assumes "triple (all_runs P) m (saved P k0) (failed P k0)" and "e \<noteq> IndexPanic" "e \<noteq> LockBlocked"
  shows "triple (all_runs P) (bindE m (\<lambda>r. throwE (Some r, e))) Q (failed P k0)"
  by (rule triple_bind [OF assms(1)]) (simp add: triple_def good_err_def assms(2,3))

lemma return_saved:
  assumes "triple (all_runs P) m (saved P k0) (failed P k0)"
  shows "triple (all_runs P) (bindE m (\<lambda>r. returnE (g r)))
    (\<lambda>x w. \<exists>r. x = g r \<and> saved P k0 r w) (failed P k0)"
  by (rule triple_bind [OF assms]) (auto simp: triple_def)

section \<open>Every operation keeps the invariant\<close>

text \<open>What \<^verbatim>\<open>markCancelled\<close> does to one step.\<close>

lemma cancel_step_facts [simp]:
  "sr_StepID (cancel_step t s) = sr_StepID s" "attempts_ok (cancel_step t s) = attempts_ok s"
  "sr_Status (cancel_step t s) = StepStatusCancelled"
  by (simp_all add: cancel_step_def attempts_ok_def Let_def)

end

definition cancelled_from :: "step_run \<Rightarrow> step_run \<Rightarrow> bool" where
  "cancelled_from s s' \<longleftrightarrow>
     (if IsWorkflowStepTerminal (sr_Status s) then s' = s else \<exists>t. s' = cancel_step t s)"

context durable_runtime
begin

lemma cancel_steps_triple:
  "triple (all_runs P) (cancel_steps rt ss)
     (\<lambda>ss' w. all_runs P w \<and> list_all2 cancelled_from ss ss') E"
proof (induction ss)
  case Nil
  then show ?case by (simp add: triple_def)
next
  case (Cons s ss)
  have tail: "triple (all_runs P) (bindE (cancel_steps rt ss) (\<lambda>ss'. returnE (s' # ss')))
      (\<lambda>ss' w. all_runs P w \<and> list_all2 cancelled_from (s # ss) ss') E"
    if "cancelled_from s s'" for s'
    by (rule triple_bind [OF Cons.IH]) (simp add: triple_def that)
  have c: "cancelled_from s (cancel_step t s)" if "\<not> IsWorkflowStepTerminal (sr_Status s)" for t
    using that by (auto simp: cancelled_from_def)
  have d: "cancelled_from s s" if "IsWorkflowStepTerminal (sr_Status s)"
    using that by (simp add: cancelled_from_def)
  show ?case
    by (auto simp: bindE_assoc intro!: now_bind tail c d)
qed

lemma list_all2_cancelled:
  assumes "list_all2 cancelled_from ss ss'"
  shows "map sr_StepID ss' = map sr_StepID ss"
    and "\<forall>s \<in> set ss. attempts_ok s \<Longrightarrow> \<forall>s \<in> set ss'. attempts_ok s"
    and "\<forall>s \<in> set ss'. IsWorkflowStepTerminal (sr_Status s)"
  using assms
proof (induction rule: list_all2_induct)
  case (Cons x xs y ys)
  { case 1 show ?case using Cons by (auto simp: cancelled_from_def split: if_splits) }
  { case 2 then show ?case using Cons by (auto simp: cancelled_from_def split: if_splits) }
  { case 3 show ?case using Cons
      by (auto simp: cancelled_from_def IsWorkflowStepTerminal_def split: if_splits) }
qed simp_all

lemma markCancelled_inv:
  assumes inv: "run_inv active k0 ids n pre k0 run" and "n \<le> idx" "idx \<le> length ids"
  shows "triple (all_runs (run_inv active k0 ids n pre)) (markCancelled rt run idx)
    (saved (run_inv active k0 ids n pre) k0) (failed (run_inv active k0 ids n pre) k0)"
  unfolding markCancelled_def
proof (rule triple_bind [OF cancel_steps_triple], rule triple_fact, (elim conjE, assumption))
  fix ss' assume ss': "list_all2 cancelled_from (drop idx (run_Steps run)) ss'"
  from inv have ids: "map sr_StepID (run_Steps run) = ids" by (simp add: run_inv_defs)
  have len: "length (run_Steps run) = length ids" using ids by auto
  have "map sr_StepID (take idx (run_Steps run) @ ss') =
      map sr_StepID (take idx (run_Steps run) @ drop idx (run_Steps run))"
    using list_all2_cancelled(1) [OF ss'] by (simp only: map_append)
  then have "map sr_StepID (take idx (run_Steps run) @ ss') = ids"
    by (simp only: append_take_drop_id ids)
  moreover have "take n (take idx (run_Steps run) @ ss') = take n (run_Steps run)"
    using assms(2,3) len by (simp add: min_absorb1)
  moreover have "\<forall>s \<in> set (take idx (run_Steps run) @ ss'). attempts_ok s"
    using inv list_all2_cancelled(2) [OF ss']
    by (auto simp: run_inv_defs dest!: in_set_takeD in_set_dropD)
  ultimately have inv': "run_inv active k0 ids n pre k0 r'"
    if "run_Steps r' = take idx (run_Steps run) @ ss'" "run_Stage r' = run_Stage run"
      "run_RunID r' = run_RunID run" "run_Status r' = RunStatusCancelled" for r'
    using inv that by (simp add: run_inv_defs)
  show "triple (\<lambda>w. all_runs (run_inv active k0 ids n pre) w \<and>
       list_all2 cancelled_from (drop idx (run_Steps run)) ss')
     (bindE (nowUTC rt) (\<lambda>ended. bindE (nowUTC rt) (\<lambda>now.
       saveRun rt (run\<lparr>run_Steps := take idx (run_Steps run) @ ss',
       run_Status := RunStatusCancelled, run_EndedAt := fmt_time ended,
       run_DurationMs := durationMs (run_StartedAt run) (fmt_time ended),
       run_Checkpoint :=
         checkpoint now '''' (run_status_str RunStatusCancelled) ''cancel requested''\<rparr>))))
     (saved (run_inv active k0 ids n pre) k0) (failed (run_inv active k0 ids n pre) k0)"
    by (rule triple_pre [of "all_runs (run_inv active k0 ids n pre)"],
        intro now_bind save_triple stable_run_inv inv', simp_all add: run_inv_key [OF inv])
qed

end

end
