(* ===== verification/Runtime_Safety.thy ===== *)
theory Runtime_Safety
  imports Runtime_Invariant
begin

text \<open>
  Preservation of the run invariant by step execution, resume, replay, approval and creation,
  proved once for every store in the context \<open>durable_runtime\<close>, then the interpretations for
  the local backends.
\<close>

context durable_runtime
begin

lemma active_status: "run_inv active k0 ids n pre k0 r \<Longrightarrow> run_Status r \<noteq> RunStatusOK"
  by (simp add: run_inv_defs)

lemma save_upd:
  assumes inv: "run_inv active k0 ids n pre k0 run" and idx: "n \<le> idx" "idx < length ids"
    and "sr_StepID (f (run_Steps run ! idx)) = sr_StepID (run_Steps run ! idx)"
    and "attempts_ok (f (run_Steps run ! idx))"
    and "run_Steps r' = (run_Steps run)[idx := f (run_Steps run ! idx)]"
    and "run_Stage r' = run_Stage run" and "run_RunID r' = run_RunID run"
    and "run_Status r' \<noteq> RunStatusOK"
  shows "triple (all_runs (run_inv active k0 ids n pre)) (saveRun rt r')
    (saved (run_inv active k0 ids n pre) k0) (failed (run_inv active k0 ids n pre) k0)"
  by (rule save_triple [OF stable_run_inv run_inv_upd_step [where f = f, OF assms]])
    (simp add: assms(7,8) run_inv_key [OF inv])

lemma save_same:
  assumes inv: "run_inv active k0 ids n pre k0 run" and "run_Steps r' = run_Steps run"
    and "run_Stage r' = run_Stage run" and "run_RunID r' = run_RunID run"
    and "run_Status r' \<noteq> RunStatusOK"
  shows "triple (all_runs (run_inv active k0 ids n pre)) (saveRun rt r')
    (saved (run_inv active k0 ids n pre) k0) (failed (run_inv active k0 ids n pre) k0)"
  by (rule save_triple [OF stable_run_inv run_inv_same_steps [OF assms]])
    (simp add: assms(3,4) run_inv_key [OF inv])

lemma begin_attempt_inv:
  assumes inv: "run_inv active k0 ids n pre k0 run" and idx: "n \<le> idx" "idx < length ids"
    and att: "attempt \<le> maxA" "1 \<le> maxA"
  shows "triple (all_runs (run_inv active k0 ids n pre)) (begin_attempt rt run idx maxA attempt)
    (saved (run_inv active k0 ids n pre) k0) (failed (run_inv active k0 ids n pre) k0)"
proof -
  have f: "attempts_ok (s\<lparr>sr_MaxAttempts := maxA, sr_AttemptCount := attempt,
      sr_Status := st, sr_StartedAt := a, sr_EndedAt := b, sr_DurationMs := c, sr_Error := d\<rparr>)"
    for s st a b c d
    using att by (simp add: attempts_ok_def)
  show ?thesis
    unfolding begin_attempt_def Let_def
    by (intro check_idx_bind [OF inv idx(2)] if_now_bind now_bind,
        rule save_upd [OF inv idx, where f = "\<lambda>s. s\<lparr>sr_MaxAttempts := maxA,
          sr_AttemptCount := attempt, sr_Status := StepStatusRunning, sr_StartedAt := _,
          sr_EndedAt := NoStamp, sr_DurationMs := 0, sr_Error := ''''\<rparr>"])
      (simp_all add: upd_step_def f)
qed

lemma finish_ok_inv:
  assumes inv: "run_inv active k0 ids n pre k0 run" and idx: "n \<le> idx" "idx < length ids"
  shows "triple (all_runs (run_inv active k0 ids n pre)) (finish_ok rt run idx res)
    (saved (run_inv active k0 ids n pre) k0) (failed (run_inv active k0 ids n pre) k0)"
proof -
  note att = run_inv_step [OF inv idx(2)]
  have save: "triple (all_runs (run_inv active k0 ids n pre)) (saveRun rt r')
      (saved (run_inv active k0 ids n pre) k0) (failed (run_inv active k0 ids n pre) k0)"
    if "run_Steps r' = (run_Steps run)[idx := (run_Steps run ! idx)\<lparr>sr_Status := st,
         sr_Error := e, sr_Output := out, sr_Metadata := m\<rparr>]"
      "run_Stage r' = run_Stage run" "run_RunID r' = run_RunID run" "run_Status r' \<noteq> RunStatusOK"
    for r' st e out m
    by (rule save_upd [OF inv idx, where f = "\<lambda>s. s\<lparr>sr_Status := st, sr_Error := e,
         sr_Output := out, sr_Metadata := m\<rparr>"])
      (use that att in \<open>simp_all add: attempts_ok_def\<close>)
  show ?thesis
    unfolding finish_ok_def Let_def
    by (cases res) (auto intro!: now_bind save simp: upd_step_def active_status [OF inv])
qed

lemma record_failure_inv:
  assumes inv: "run_inv active k0 ids n pre k0 run" and idx: "n \<le> idx" "idx < length ids"
  shows "triple (all_runs (run_inv active k0 ids n pre)) (record_failure rt run idx rep)
    (saved (run_inv active k0 ids n pre) k0) (failed (run_inv active k0 ids n pre) k0)"
  unfolding record_failure_def
  by (intro now_bind, rule save_upd [OF inv idx, where f = "\<lambda>s. s\<lparr>sr_Status := attempt_status rep,
        sr_Error := attempt_error rep\<rparr>"])
    (use run_inv_step [OF inv idx(2)] active_status [OF inv] in
      \<open>simp_all add: upd_step_def attempts_ok_def\<close>)

lemma reset_pending_inv:
  assumes inv: "run_inv active k0 ids n pre k0 run" and idx: "n \<le> idx" "idx < length ids"
  shows "triple (all_runs (run_inv active k0 ids n pre)) (reset_pending rt run idx)
    (saved (run_inv active k0 ids n pre) k0) (failed (run_inv active k0 ids n pre) k0)"
  unfolding reset_pending_def Let_def
  by (intro now_bind, rule save_upd [OF inv idx, where f = "\<lambda>s. s\<lparr>sr_Status := StepStatusPending\<rparr>"])
    (use run_inv_step [OF inv idx(2)] active_status [OF inv] in
      \<open>simp_all add: upd_step_def attempts_ok_def\<close>)

lemma abort_step_inv:
  assumes inv: "run_inv active k0 ids n pre k0 run" and idx: "n \<le> idx" "idx < length ids"
  shows "triple (all_runs (run_inv active k0 ids n pre)) (abort_step rt run idx ce)
    Q (failed (run_inv active k0 ids n pre) k0)"
  unfolding abort_step_def Let_def
  by (auto intro!: now_bind throw_saved
      save_upd [OF inv idx, where f = "\<lambda>s. s\<lparr>sr_Status := _, sr_Error := ctx_err_str ce\<rparr>"]
      simp: upd_step_def attempts_ok_def run_inv_step [OF inv idx(2), unfolded attempts_ok_def])

lemma fail_status_not_ok [simp]: "fail_status s \<noteq> RunStatusOK"
  by (simp add: fail_status_def)

lemma exhaust_step_inv:
  assumes inv: "run_inv active k0 ids n pre k0 run"
  shows "triple (all_runs (run_inv active k0 ids n pre)) (exhaust_step rt run idx e)
    Q (failed (run_inv active k0 ids n pre) k0)"
  unfolding exhaust_step_def Let_def
  by (intro now_bind throw_saved save_same [OF inv]) simp_all

lemma reconcile_inv:
  assumes inv: "run_inv active k0 ids n pre k0 run"
    and Q: "\<And>w. all_runs (run_inv active k0 ids n pre) w \<Longrightarrow> R w \<Longrightarrow> Q run w"
  shows "triple (\<lambda>w. all_runs (run_inv active k0 ids n pre) w \<and> R w) (reconcile_exhausted rt run idx)
    Q (failed (run_inv active k0 ids n pre) k0)"
proof -
  have core: "triple (all_runs (run_inv active k0 ids n pre))
      (bindE (nowUTC rt) (\<lambda>ended.
        bindE (nowUTC rt) (\<lambda>now.
        bindE (saveRun rt (run\<lparr>run_Status := fail_status st, run_EndedAt := fmt_time ended,
            run_DurationMs := durationMs (run_StartedAt run) (fmt_time ended),
            run_Checkpoint := checkpoint now a b c\<rparr>)) (\<lambda>run'.
        throwE (Some run', StepFailed d e)))))
      Q (failed (run_inv active k0 ids n pre) k0)" for st a b c d e
    by (intro now_bind throw_saved save_same [OF inv]) simp_all
  show ?thesis
    unfolding reconcile_exhausted_def Let_def
    by (rule triple_if, rule triple_pre [OF core], simp, rule triple_return, rule Q, simp_all)
qed

lemma reload_bind:
  assumes inv: "run_inv active k0 ids n pre k0 run"
    and f: "\<And>r. run_inv active k0 ids n pre k0 r \<Longrightarrow>
      triple (all_runs (run_inv active k0 ids n pre)) (f r) Q (failed (run_inv active k0 ids n pre) k0)"
  shows "triple (all_runs (run_inv active k0 ids n pre))
    (bindE (loadRun rt (run_Stage run) (run_RunID run)) f) Q (failed (run_inv active k0 ids n pre) k0)"
  using load_bind [OF stable_run_inv, of active k0 ids n pre "run_Stage run" "run_RunID run" f Q]
    f by (simp add: run_inv_key [OF inv])

lemma calls_bind:
  "(\<And>rep. triple (all_runs P) (f rep) Q E) \<Longrightarrow> triple (all_runs P) (bindE (call_handler h run idx) f) Q E"
  by (rule triple_bind [of _ _ "\<lambda>_. all_runs P"]) (simp_all add: triple_def call_handler_def Let_def)

lemma poll_bind:
  "(\<And>x. triple P (f x) Q E) \<Longrightarrow> triple P (bindE (getE g) f) Q E"
  by (rule triple_bind [of _ _ "\<lambda>_. P"]) (simp_all add: triple_def)

lemma stamp_end_inv:
  assumes inv: "run_inv active k0 ids n pre k0 run" and idx: "n \<le> idx" "idx < length ids"
  shows "run_inv active k0 ids n pre k0 (stamp_end idx t run)"
  by (rule run_inv_upd_step [where f = "\<lambda>s. s\<lparr>sr_EndedAt := t,
        sr_DurationMs := durationMs (sr_StartedAt s) t\<rparr>", OF inv idx])
    (use run_inv_step [OF inv idx(2)] active_status [OF inv] in
      \<open>simp_all add: stamp_end_def upd_step_def attempts_ok_def\<close>)

abbreviation attempted ::
  "(run_key \<Rightarrow> wf_run \<Rightarrow> bool) \<Rightarrow> run_key \<Rightarrow> wf_run + wf_run \<Rightarrow> world \<Rightarrow> bool" where
  "attempted P k0 x w \<equiv> saved P k0 (case x of Inl r \<Rightarrow> r | Inr r \<Rightarrow> r) w"

lemma return_attempt:
  assumes "triple (all_runs P) m (saved P k0) (failed P k0)"
  shows "triple (all_runs P) (bindE m (\<lambda>r. returnE (Inr r))) (attempted P k0) (failed P k0)"
  by (rule triple_bind [OF assms]) (simp add: triple_def)

lemma never_return:
  assumes "triple P m (\<lambda>_ _. False) E"
  shows "triple P (bindE m f) Q E"
  by (rule triple_bind [OF assms]) (simp add: triple_def)

lemma retry_or_fail_inv:
  assumes inv: "run_inv active k0 ids n pre k0 run" and idx: "n \<le> idx" "idx < length ids"
  shows "triple (all_runs (run_inv active k0 ids n pre)) (retry_or_fail rt ctx run idx maxA attempt err)
    (attempted (run_inv active k0 ids n pre) k0) (failed (run_inv active k0 ids n pre) k0)"
  unfolding retry_or_fail_def
proof (rule triple_if)
  show "triple (all_runs (run_inv active k0 ids n pre))
     (bindE (reset_pending rt run idx) (\<lambda>run'.
        bindE (getE (\<lambda>w. ctx (ticks w))) (\<lambda>ce. case ce of
          Some e \<Rightarrow> bindE (abort_step rt run' idx e) (\<lambda>r. returnE (Inr r))
        | None \<Rightarrow> returnE (Inl run'))))
     (attempted (run_inv active k0 ids n pre) k0) (failed (run_inv active k0 ids n pre) k0)"
  proof (rule triple_bind [OF reset_pending_inv [OF inv idx]], rule triple_fact, (elim conjE, assumption),
      rule poll_bind)
    fix run' ce assume inv': "run_inv active k0 ids n pre k0 run'"
    show "triple (saved (run_inv active k0 ids n pre) k0 run') (case ce of
          Some e \<Rightarrow> bindE (abort_step rt run' idx e) (\<lambda>r. returnE (Inr r))
        | None \<Rightarrow> returnE (Inl run'))
       (attempted (run_inv active k0 ids n pre) k0) (failed (run_inv active k0 ids n pre) k0)"
      by (cases ce) (auto intro!: triple_return
          intro: triple_pre [OF never_return [OF abort_step_inv [OF inv' idx]]])
  qed
  show "triple (all_runs (run_inv active k0 ids n pre))
     (bindE (exhaust_step rt run idx err) (\<lambda>r. returnE (Inr r)))
     (attempted (run_inv active k0 ids n pre) k0) (failed (run_inv active k0 ids n pre) k0)"
    by (rule never_return [OF exhaust_step_inv [OF inv]])
qed

lemma settle_attempt_inv:
  assumes inv: "run_inv active k0 ids n pre k0 run" and idx: "n \<le> idx" "idx < length ids"
  shows "triple (all_runs (run_inv active k0 ids n pre))
    (settle_attempt rt ctx run idx maxA attempt rep)
    (attempted (run_inv active k0 ids n pre) k0) (failed (run_inv active k0 ids n pre) k0)"
  unfolding settle_attempt_def Let_def
  by (intro reload_bind [OF inv] triple_if now_bind check_idx_bind [OF _ idx(2)],
      assumption, rule return_attempt, rule finish_ok_inv [OF stamp_end_inv], use idx in simp_all)
    (rule saved_bind [OF record_failure_inv [OF stamp_end_inv] retry_or_fail_inv],
      use idx in simp_all)

lemma attempt_step_inv:
  assumes inv: "run_inv active k0 ids n pre k0 run" and idx: "n \<le> idx" "idx < length ids"
    and att: "attempt \<le> maxA" "1 \<le> maxA"
  shows "triple (all_runs (run_inv active k0 ids n pre)) (attempt_step rt h ctx run idx maxA attempt)
    (attempted (run_inv active k0 ids n pre) k0) (failed (run_inv active k0 ids n pre) k0)"
  unfolding attempt_step_def
  by (intro reload_bind [OF inv] triple_if saved_bind [OF begin_attempt_inv [OF _ idx att]] calls_bind
        settle_attempt_inv [OF _ idx] return_attempt markCancelled_inv) (use idx in simp_all)

lemma attempt_loop_inv:
  assumes "run_inv active k0 ids n pre k0 run" and idx: "n \<le> idx" "idx < length ids"
    and maxA: "1 \<le> maxA"
  shows "triple (saved (run_inv active k0 ids n pre) k0 run) (attempt_loop rt h ctx run idx maxA attempt)
    (saved (run_inv active k0 ids n pre) k0) (failed (run_inv active k0 ids n pre) k0)"
  using assms(1)
proof (induction "nat (maxA + 1 - attempt)" arbitrary: run attempt rule: less_induct)
  case less
  let ?P = "run_inv active k0 ids n pre"
  have next_attempt: "triple (attempted ?P k0 x)
      (case x of Inr r \<Rightarrow> returnE r | Inl r \<Rightarrow> attempt_loop rt h ctx r idx maxA (attempt + 1))
      (saved ?P k0) (failed ?P k0)" if "attempt \<le> maxA" for x
  proof (cases x)
    case (Inl r)
    show ?thesis
      by (rule triple_fact [of _ "?P k0 r"], use Inl that less.hyps in simp_all)
  qed (simp add: triple_return)
  show ?case
    by (subst attempt_loop.simps, rule triple_if, rule triple_bind [OF triple_pre [OF
          attempt_step_inv [OF less.prems idx _ maxA]] next_attempt], simp_all)
      (rule triple_pre [OF reconcile_inv [OF less.prems,
          where R = "\<lambda>w. run_inv active k0 ids n pre k0 run \<and> stored k0 run w"]], simp_all)
qed

lemma executeStep_inv:
  assumes inv: "run_inv active k0 ids n pre k0 run" and idx: "n \<le> idx" "idx < length ids"
  shows "triple (saved (run_inv active k0 ids n pre) k0 run) (executeStep rt h ctx run idx)
    (saved (run_inv active k0 ids n pre) k0) (failed (run_inv active k0 ids n pre) k0)"
  unfolding executeStep_def Let_def
  by (rule check_idx_bind [OF inv idx(2)], rule attempt_loop_inv [OF inv idx]) simp

lemma pause_run_inv:
  assumes inv: "run_inv active k0 ids n pre k0 run"
  shows "triple (all_runs (run_inv active k0 ids n pre)) (pause_run rt run idx)
    (saved (run_inv active k0 ids n pre) k0) (failed (run_inv active k0 ids n pre) k0)"
  unfolding pause_run_def by (intro now_bind save_same [OF inv]) simp_all

lemma recover_step_inv:
  assumes inv: "run_inv active k0 ids n pre k0 run" and idx: "n \<le> idx" "idx < length ids"
  shows "triple (saved (run_inv active k0 ids n pre) k0 run) (recover_step rt run idx)
    (saved (run_inv active k0 ids n pre) k0) (failed (run_inv active k0 ids n pre) k0)"
proof -
  let ?P = "run_inv active k0 ids n pre"
  have paused: "triple (all_runs ?P)
      (bindE (nowUTC rt) (\<lambda>now. saveRun rt ((upd_step idx (\<lambda>s. s\<lparr>sr_Status := StepStatusPending\<rparr>) run)\<lparr>
         run_Checkpoint := checkpoint now a b c\<rparr>))) (saved ?P k0) (failed ?P k0)" for a b c
    by (intro now_bind, rule save_upd [OF inv idx, where f = "\<lambda>s. s\<lparr>sr_Status := StepStatusPending\<rparr>"])
      (use run_inv_step [OF inv idx(2)] active_status [OF inv] in
        \<open>simp_all add: upd_step_def attempts_ok_def\<close>)
  have running: "triple (all_runs ?P)
      (bindE (nowUTC rt) (\<lambda>now. saveRun rt ((upd_step idx (\<lambda>s. s\<lparr>sr_Status := StepStatusPending,
         sr_AttemptCount := (if sr_AttemptCount s > 0 then sr_AttemptCount s - 1
                             else sr_AttemptCount s)\<rparr>) r)\<lparr>
         run_Checkpoint := checkpoint now a b c\<rparr>))) (saved ?P k0) (failed ?P k0)"
    if r: "?P k0 r" for r a b c
    by (intro now_bind, rule save_upd [OF r idx, where f = "\<lambda>s. s\<lparr>sr_Status := StepStatusPending,
         sr_AttemptCount := (if sr_AttemptCount s > 0 then sr_AttemptCount s - 1
                             else sr_AttemptCount s)\<rparr>"])
      (use run_inv_step [OF r idx(2)] active_status [OF r] in
        \<open>simp_all add: upd_step_def attempts_ok_def\<close>)
  have first: "triple (saved ?P k0 run)
      (if b then bindE (nowUTC rt) (\<lambda>now. saveRun rt ((upd_step idx
           (\<lambda>s. s\<lparr>sr_Status := StepStatusPending\<rparr>) run)\<lparr>
         run_Checkpoint := checkpoint now a c d\<rparr>)) else returnE run) (saved ?P k0) (failed ?P k0)"
    for b a c d
    by (rule triple_if, rule triple_pre [OF paused], simp, rule triple_return, simp)
  show ?thesis
    unfolding recover_step_def Let_def
  proof (rule triple_bind [OF first], rule triple_fact, (elim conjE, assumption))
    fix r assume r: "?P k0 r"
    show "triple (saved ?P k0 r)
      (if sr_Status (run_Steps run ! idx) = StepStatusRunning then
        bindE (nowUTC rt) (\<lambda>now.
        saveRun rt ((upd_step idx (\<lambda>s. s\<lparr>sr_Status := StepStatusPending,
            sr_AttemptCount := (if sr_AttemptCount s > 0 then sr_AttemptCount s - 1
                                else sr_AttemptCount s)\<rparr>) r)\<lparr>
          run_Checkpoint := checkpoint now (sr_StepID (run_Steps run ! idx))
            (step_status_str StepStatusPending) ''resumed after restart''\<rparr>))
      else returnE r) (saved ?P k0) (failed ?P k0)"
      by (rule triple_if, rule triple_pre [OF running [OF r]], simp, rule triple_return, simp)
  qed
qed

text \<open>A run that is not OK: the invariant for active runs, and back to that for all runs.\<close>

abbreviation final_inv :: "run_key \<Rightarrow> string list \<Rightarrow> nat \<Rightarrow> step_run list \<Rightarrow> run_key \<Rightarrow> wf_run \<Rightarrow> bool" where
  "final_inv \<equiv> run_inv UNIV"

lemma active_final:
  "all_runs (run_inv active k0 ids n pre) w \<Longrightarrow> all_runs (final_inv k0 ids n pre) w"
  "run_inv active k0 ids n pre k r \<Longrightarrow> final_inv k0 ids n pre k r"
  by (erule all_runs_mono [rotated], erule run_inv_mono [OF subset_UNIV], erule run_inv_mono [OF subset_UNIV])

lemma good_err_final:
  "good_err (run_inv active k0 ids n pre) k0 e w \<Longrightarrow> good_err (final_inv k0 ids n pre) k0 e w"
  unfolding good_err_def by (auto intro: active_final)

lemma finalize:
  assumes "triple P m (saved (run_inv active k0 ids n pre) k0) (failed (run_inv active k0 ids n pre) k0)"
  shows "triple P m (saved (final_inv k0 ids n pre) k0) (failed (final_inv k0 ids n pre) k0)"
  by (rule triple_conseq [OF assms]) (simp_all add: active_final good_err_final)

lemma finalize_err:
  assumes "triple P m Q (failed (run_inv active k0 ids n pre) k0)"
  shows "triple P m Q (failed (final_inv k0 ids n pre) k0)"
  by (rule triple_conseq [OF assms]) (simp_all add: active_final good_err_final)

lemma finish_run_inv:
  assumes inv: "run_inv active k0 ids n pre k0 run"
  shows "triple (all_runs (run_inv active k0 ids n pre)) (finish_run rt run)
    (saved (final_inv k0 ids n pre) k0) (failed (final_inv k0 ids n pre) k0)"
proof (cases "firstUnsuccessfulStep run")
  case (Some s)
  then show ?thesis unfolding finish_run_def Let_def
    by (simp only: option.case)
      (intro finalize_err now_bind throw_saved save_same [OF inv], simp_all)
next
  case None
  then have ok: "\<forall>s \<in> set (run_Steps run). sr_Status s = StepStatusOK"
    by (auto simp: firstUnsuccessfulStep_def find_None_iff)
  have ok_inv: "final_inv k0 ids n pre k0 (run\<lparr>run_ReplayFromStep := '''', run_Status := RunStatusOK,
      run_EndedAt := a, run_DurationMs := b, run_Checkpoint := c\<rparr>)" for a b c
    using inv ok by (simp add: run_inv_defs ok_consistent_def)
  show ?thesis unfolding finish_run_def None option.case
    by (rule triple_pre [of "all_runs (final_inv k0 ids n pre)"], intro now_bind save_triple)
      (simp_all add: ok_inv active_final run_inv_key [OF inv])
qed

lemma resume_steps_inv:
  assumes "run_inv active k0 ids n pre k0 run"
    and "\<forall>idx \<in> set idxs. idx < length ids \<and> (n \<le> idx \<or> (case replay of None \<Rightarrow> False | Some k \<Rightarrow> idx < k))"
  shows "triple (saved (run_inv active k0 ids n pre) k0 run) (resume_steps rt h ctx replay run idxs)
    (saved (final_inv k0 ids n pre) k0) (failed (final_inv k0 ids n pre) k0)"
  using assms
proof (induction idxs arbitrary: run)
  case Nil
  then show ?case by (auto intro: triple_pre [OF finish_run_inv])
next
  case (Cons idx idxs)
  let ?P = "run_inv active k0 ids n pre"
  from Cons.prems have len: "idx < length ids" by simp
  have rest: "triple (saved ?P k0 r) (resume_steps rt h ctx replay r idxs)
      (saved (final_inv k0 ids n pre) k0) (failed (final_inv k0 ids n pre) k0)" if "?P k0 r" for r
    using Cons.IH [OF that] Cons.prems by simp
  have run: "triple (saved ?P k0 run)
      (bindE (recover_step rt run idx) (\<lambda>run1.
       if run_CancelRequested run1 then markCancelled rt run1 idx
       else bindE (executeStep rt h ctx run1 idx) (\<lambda>run2.
         if run_Status run2 = RunStatusPaused then returnE run2
         else resume_steps rt h ctx replay run2 idxs)))
      (saved (final_inv k0 ids n pre) k0) (failed (final_inv k0 ids n pre) k0)"
    if idx: "n \<le> idx"
  proof (rule triple_bind [OF finalize_err [OF recover_step_inv [OF Cons.prems(1) idx len]]],
      rule triple_fact, (elim conjE, assumption), rule triple_if)
    fix run1 assume run1: "?P k0 run1"
    show "triple (saved ?P k0 run1) (markCancelled rt run1 idx)
       (saved (final_inv k0 ids n pre) k0) (failed (final_inv k0 ids n pre) k0)"
      by (rule triple_pre [OF finalize [OF markCancelled_inv [OF run1]]]) (use idx len in auto)
    have more: "triple (saved ?P k0 run2)
      (if run_Status run2 = RunStatusPaused then returnE run2
       else resume_steps rt h ctx replay run2 idxs)
      (saved (final_inv k0 ids n pre) k0) (failed (final_inv k0 ids n pre) k0)" for run2
      by (rule triple_fact [of _ "?P k0 run2"], simp, rule triple_if, rule finalize,
          rule triple_return, simp, rule rest)
    show "triple (saved ?P k0 run1)
      (bindE (executeStep rt h ctx run1 idx) (\<lambda>run2.
         if run_Status run2 = RunStatusPaused then returnE run2
         else resume_steps rt h ctx replay run2 idxs))
      (saved (final_inv k0 ids n pre) k0) (failed (final_inv k0 ids n pre) k0)"
      by (rule triple_bind [OF finalize_err [OF executeStep_inv [OF run1 idx len]] more])
  qed
  show ?case
    unfolding resume_steps.simps Let_def
  proof (rule check_idx_bind [OF Cons.prems(1) len], intro triple_if rest [OF Cons.prems(1)] run)
    show "triple (saved ?P k0 run) (pause_run rt run idx)
       (saved (final_inv k0 ids n pre) k0) (failed (final_inv k0 ids n pre) k0)"
      by (rule triple_pre [OF finalize [OF pause_run_inv [OF Cons.prems(1)]]]) simp
  qed (use Cons.prems in auto)
qed

text \<open>A replay keeps the steps before the one it starts from.\<close>

abbreviation keeps :: "run_key \<Rightarrow> string list \<Rightarrow> nat \<Rightarrow> step_run list \<Rightarrow> run_key \<Rightarrow> wf_run \<Rightarrow> bool" where
  "keeps k0 ids n pre k r \<equiv> final_inv k0 ids n pre k r \<and>
     (k = k0 \<longrightarrow> n \<le> (case replay_start r of None \<Rightarrow> 0 | Some i \<Rightarrow> i))"

lemma find_index_map: "find_index p (map f xs) = find_index (p \<circ> f) xs"
  by (induction xs) (simp_all add: o_def)

lemma replay_start_simps [simp]:
  "replay_start (r\<lparr>run_UpdatedAt := t\<rparr>) = replay_start r"
  "replay_start (r\<lparr>run_CancelRequested := c\<rparr>) = replay_start r"
  "replay_start (norm_run r) = replay_start r"
  by (simp_all add: replay_start_def find_index_map o_def)

lemma stable_keeps: "stable (keeps k0 ids n pre)"
  using stable_run_inv [of UNIV k0 ids n pre] unfolding stable_def by simp

abbreviation act_keeps ::
  "run_key \<Rightarrow> string list \<Rightarrow> nat \<Rightarrow> step_run list \<Rightarrow> run_key \<Rightarrow> wf_run \<Rightarrow> bool" where
  "act_keeps k0 ids n pre k r \<equiv> run_inv active k0 ids n pre k r \<and>
     (k = k0 \<longrightarrow> n \<le> (case replay_start r of None \<Rightarrow> 0 | Some i \<Rightarrow> i))"

lemma stable_act_keeps: "stable (act_keeps k0 ids n pre)"
  using stable_run_inv [of active k0 ids n pre] unfolding stable_def by simp

lemma act_keeps_active: "all_runs (act_keeps k0 ids n pre) w \<Longrightarrow> all_runs (run_inv active k0 ids n pre) w"
  by (erule all_runs_mono [rotated]) simp

lemma all_keeps_active:
  assumes "all_runs (keeps k0 ids n pre) w" and "stored k0 r w" and "run_Status r \<noteq> RunStatusOK"
  shows "all_runs (act_keeps k0 ids n pre) w"
  unfolding all_runs_def
proof (intro allI impI)
  fix k q assume q: "view w k = Some q"
  with assms(1) have inv: "keeps k0 ids n pre k q" unfolding all_runs_def by blast
  moreover have "run_Status q \<noteq> RunStatusOK" if "k = k0"
  proof -
    have "norm_run q = norm_run r" using assms(2) q that by (simp add: stored_def)
    then have "run_Status (norm_run q) = run_Status (norm_run r)" by simp
    with assms(3) show ?thesis by simp
  qed
  ultimately show "act_keeps k0 ids n pre k q" by (auto simp: run_inv_defs)
qed

lemma resume_from:
  assumes run: "act_keeps k0 ids n pre k0 run"
  shows "triple (saved (act_keeps k0 ids n pre) k0 run)
    (resume_steps rt h ctx (replay_start run) run [0..<length (run_Steps run)])
    (saved (final_inv k0 ids n pre) k0) (failed (final_inv k0 ids n pre) k0)"
proof (rule triple_pre [OF resume_steps_inv])
  show "run_inv active k0 ids n pre k0 run" using run by simp
  show "\<forall>idx \<in> set [0..<length (run_Steps run)].
      idx < length ids \<and> (n \<le> idx \<or> (case replay_start run of None \<Rightarrow> False | Some k \<Rightarrow> idx < k))"
    using run run_inv_len [of active k0 ids n pre run] by (auto split: option.splits)
qed (use act_keeps_active run in blast)

lemma keeps_final:
  "all_runs (keeps k0 ids n pre) w \<Longrightarrow> all_runs (final_inv k0 ids n pre) w"
  "all_runs (act_keeps k0 ids n pre) w \<Longrightarrow> all_runs (final_inv k0 ids n pre) w"
  by (erule all_runs_mono [rotated], simp) (erule all_runs_mono [rotated], simp add: active_final)

lemma failed_final:
  "failed (keeps k0 ids n pre) k0 e w \<Longrightarrow> failed (final_inv k0 ids n pre) k0 e w"
  "failed (act_keeps k0 ids n pre) k0 e w \<Longrightarrow> failed (final_inv k0 ids n pre) k0 e w"
  by (simp_all add: keeps_final) (auto simp: good_err_def active_final)

text \<open>Starting an unstarted run leaves its steps and its replay point alone.\<close>

lemma start_run_inv:
  assumes run: "act_keeps k0 ids n pre k0 run"
  shows "triple (saved (act_keeps k0 ids n pre) k0 run) (start_run rt run)
    (saved (act_keeps k0 ids n pre) k0) (failed (final_inv k0 ids n pre) k0)"
proof -
  have "replay_start (run\<lparr>run_Status := RunStatusRunning, run_StartedAt := t\<rparr>) = replay_start run" for t
    by (simp add: replay_start_def)
  then have "act_keeps k0 ids n pre k0 (run\<lparr>run_Status := RunStatusRunning, run_StartedAt := t\<rparr>)" for t
    using run by (simp add: run_inv_defs)
  then have save: "triple (all_runs (act_keeps k0 ids n pre))
      (saveRun rt (run\<lparr>run_Status := RunStatusRunning, run_StartedAt := t\<rparr>))
      (saved (act_keeps k0 ids n pre) k0) (failed (final_inv k0 ids n pre) k0)" for t
    by (intro triple_conseq [OF save_triple [OF stable_act_keeps] _ _ failed_final(2)])
      (use run run_inv_key [of active k0 ids n pre k0 run] in simp_all)
  show ?thesis
    unfolding start_run_def
    by (rule triple_if, rule triple_pre [OF if_now_bind [OF save]], simp, rule triple_return, simp)
qed

theorem resumeRunLocked_inv:
  "triple (all_runs (keeps (stage, runID) ids n pre)) (resumeRunLocked rt ctx stage runID)
    (saved (final_inv (stage, runID) ids n pre) (stage, runID))
    (failed (final_inv (stage, runID) ids n pre) (stage, runID))"
proof (cases "Handler rt")
  case None
  then show ?thesis
    by (simp add: resumeRunLocked_def triple_def good_err_def keeps_final)
next
  case (Some h)
  let ?k0 = "(stage, runID)"
  let ?K = "keeps ?k0 ids n pre" and ?A = "act_keeps ?k0 ids n pre" and ?F = "final_inv ?k0 ids n pre"
  have load: "triple (all_runs ?K) (loadRun rt stage runID)
      (\<lambda>r w. all_runs ?K w \<and> view w ?k0 = Some r \<and> ?K ?k0 r) (failed ?F ?k0)"
    by (rule triple_conseq [OF load_triple [OF stable_keeps [of ?k0 ids n pre]] _ _ failed_final(1)])
      simp_all
  have resume: "triple (saved ?A ?k0 r)
      (bindE (start_run rt r) (\<lambda>run1.
         resume_steps rt h ctx (replay_start run1) run1 [0..<length (run_Steps run1)]))
      (saved ?F ?k0) (failed ?F ?k0)" if "?A ?k0 r" for r
    by (rule triple_bind [OF start_run_inv [OF that]], rule triple_fact, (elim conjE, rule conjI),
        assumption, assumption, rule resume_from) simp
  have branch: "triple (\<lambda>w. all_runs ?K w \<and> view w ?k0 = Some r \<and> ?K ?k0 r)
      (if IsWorkflowRunTerminal (run_Status r) \<and> run_ReplayFromStep r = '''' then returnE r
       else bindE (start_run rt r) (\<lambda>run1.
         resume_steps rt h ctx (replay_start run1) run1 [0..<length (run_Steps run1)]))
      (saved ?F ?k0) (failed ?F ?k0)" if r: "?K ?k0 r" for r
  proof (rule triple_if)
    show "triple (\<lambda>w. all_runs ?K w \<and> view w ?k0 = Some r \<and> ?K ?k0 r) (returnE r)
       (saved ?F ?k0) (failed ?F ?k0)"
      by (rule triple_return) (auto intro: keeps_final storedI)
    assume "\<not> (IsWorkflowRunTerminal (run_Status r) \<and> run_ReplayFromStep r = '''')"
    with r have not_ok: "run_Status r \<noteq> RunStatusOK"
      by (auto simp: run_inv_defs ok_consistent_def IsWorkflowRunTerminal_def)
    with r have "?A ?k0 r" by (simp add: run_inv_defs)
    then show "triple (\<lambda>w. all_runs ?K w \<and> view w ?k0 = Some r \<and> ?K ?k0 r)
      (bindE (start_run rt r) (\<lambda>run1.
         resume_steps rt h ctx (replay_start run1) run1 [0..<length (run_Steps run1)]))
      (saved ?F ?k0) (failed ?F ?k0)"
      using not_ok all_keeps_active [of ?k0 ids n pre _ r]
      by (intro triple_pre [OF resume]) (simp_all add: storedI)
  qed
  show ?thesis
    unfolding resumeRunLocked_def Some option.case
    by (rule triple_bind_fact [where F = "?K ?k0", OF load _ branch]) simp
qed

end

end
