(* ===== verification/Runtime_Results.thy ===== *)
theory Runtime_Results
  imports Runtime_Safety
begin

text \<open>
  Results of the runtime's operations beside the invariant of the stored runs: which operations
  execute steps and how often, that every operation gives back the locks it took, the status a
  run is returned with, and the invariant for the operations a caller sees.
\<close>

section \<open>Ghost state: executions and locks\<close>

definition quiet :: "'a rt_act \<Rightarrow> bool" where
  "quiet m \<longleftrightarrow> (\<forall>w x w'. m w = (x, w') \<longrightarrow> calls w' = calls w \<and> held w' = held w)"

text \<open>\<open>numbered a b m\<close>: \<open>m\<close> executes the handler for attempts \<open>a, a + 1, \<dots>\<close>, none beyond \<open>b\<close>.\<close>

definition numbered :: "int \<Rightarrow> int \<Rightarrow> 'a rt_act \<Rightarrow> bool" where
  "numbered a b m \<longleftrightarrow> (\<forall>w x w'. m w = (x, w') \<longrightarrow> held w' = held w \<and>
     (\<exists>cs c. calls w' = calls w @ cs \<and> map snd cs = [a..c] \<and> c \<le> b))"

lemma quiet_bind: "quiet m \<Longrightarrow> (\<And>a. quiet (f a)) \<Longrightarrow> quiet (bindE m f)"
  by (fastforce simp: quiet_def bindE_def split: prod.splits sum.splits)

lemma quiet_basic [simp]: "quiet (returnE a)" "quiet (throwE e)" "quiet (getE g)"
    "quiet (Pair (Inr a))"
  by (simp_all add: quiet_def)

lemma quiet_if: "(b \<Longrightarrow> quiet m) \<Longrightarrow> (\<not> b \<Longrightarrow> quiet m') \<Longrightarrow> quiet (if b then m else m')"
  by simp

lemma quiet_option:
  "(x = None \<Longrightarrow> quiet m) \<Longrightarrow> (\<And>y. x = Some y \<Longrightarrow> quiet (f y)) \<Longrightarrow>
   quiet (case x of None \<Rightarrow> m | Some y \<Rightarrow> f y)"
  by (cases x) simp_all

lemma quiet_now: "quiet (nowUTC rt)"
  by (auto simp: quiet_def nowUTC_def time_Now_def split: option.split)

lemma quiet_check: "quiet (check_idx idx run)"
  by (simp add: check_idx_def)

lemma numbered_quiet: "quiet m \<Longrightarrow> a \<le> b + 1 \<Longrightarrow> numbered a b m"
  unfolding quiet_def numbered_def
  by (intro allI impI conjI exI [of _ "[]"] exI [of _ "a - 1"]) auto

lemma numbered_bind_result:
  assumes "quiet m" and "\<And>w x w'. m w = (Inr x, w') \<Longrightarrow> numbered a b (f x)" and "a \<le> b + 1"
  shows "numbered a b (bindE m f)"
  unfolding numbered_def
proof (intro allI impI)
  fix w x w' assume eq: "bindE m f w = (x, w')"
  obtain y w1 where y: "m w = (y, w1)" by fastforce
  with assms(1) have q: "calls w1 = calls w" "held w1 = held w" by (auto simp: quiet_def)
  show "held w' = held w \<and> (\<exists>cs c. calls w' = calls w @ cs \<and> map snd cs = [a..c] \<and> c \<le> b)"
  proof (cases y)
    case (Inl e)
    with eq y q assms(3) show ?thesis
      by (intro conjI exI [of _ "[]"] exI [of _ "a - 1"]) (auto simp: bindE_def)
  next
    case (Inr z)
    with eq y have "f z w1 = (x, w')" by (simp add: bindE_def)
    with assms(2) [of w z w1] y Inr have "held w' = held w1 \<and>
        (\<exists>cs c. calls w' = calls w1 @ cs \<and> map snd cs = [a..c] \<and> c \<le> b)"
      unfolding numbered_def by blast
    then show ?thesis by (simp only: q)
  qed
qed

lemma numbered_quiet_bind:
  "quiet m \<Longrightarrow> (\<And>x. numbered a b (f x)) \<Longrightarrow> a \<le> b + 1 \<Longrightarrow> numbered a b (bindE m f)"
  by (rule numbered_bind_result)

lemmas quiet_intros = quiet_bind quiet_if quiet_option quiet_now quiet_check quiet_basic

definition same_locks :: "'a rt_act \<Rightarrow> bool" where
  "same_locks m \<longleftrightarrow> (\<forall>w x w'. m w = (x, w') \<longrightarrow> held w' = held w)"

lemma same_locks_bind: "same_locks m \<Longrightarrow> (\<And>a. same_locks (f a)) \<Longrightarrow> same_locks (bindE m f)"
  by (fastforce simp: same_locks_def bindE_def split: prod.splits sum.splits)

lemma same_locks_quiet: "quiet m \<Longrightarrow> same_locks m"
  unfolding quiet_def same_locks_def by blast

lemma same_locks_if: "(b \<Longrightarrow> same_locks m) \<Longrightarrow> (\<not> b \<Longrightarrow> same_locks m') \<Longrightarrow> same_locks (if b then m else m')"
  by simp

lemma same_locks_option:
  "(x = None \<Longrightarrow> same_locks m) \<Longrightarrow> (\<And>y. x = Some y \<Longrightarrow> same_locks (f y)) \<Longrightarrow>
   same_locks (case x of None \<Rightarrow> m | Some y \<Rightarrow> f y)"
  by (cases x) simp_all

section \<open>Result statuses\<close>

definition ended :: "run_status set" where
  "ended = {RunStatusFailed, RunStatusCancelled, RunStatusTimedOut}"

text \<open>A returned run has a status in \<open>S\<close>; a run returned with an error has failed.\<close>

definition status_in :: "run_status set \<Rightarrow> wf_run rt_act \<Rightarrow> bool" where
  "status_in S m \<longleftrightarrow> triple (\<lambda>_. True) m (\<lambda>r _. run_Status r \<in> S)
     (\<lambda>e _. \<forall>r. fst e = Some r \<longrightarrow> run_Status r \<in> ended)"

definition err_status :: "'a rt_act \<Rightarrow> bool" where
  "err_status m \<longleftrightarrow> triple (\<lambda>_. True) m (\<lambda>_ _. True)
     (\<lambda>e _. \<forall>r. fst e = Some r \<longrightarrow> run_Status r \<in> ended)"

lemma err_status_bind: "err_status m \<Longrightarrow> (\<And>a. err_status (f a)) \<Longrightarrow> err_status (bindE m f)"
  unfolding err_status_def by (rule triple_bind)

lemma status_in_bind: "err_status m \<Longrightarrow> (\<And>a. status_in S (f a)) \<Longrightarrow> status_in S (bindE m f)"
  unfolding err_status_def status_in_def by (rule triple_bind)

lemma status_in_err: "status_in S m \<Longrightarrow> err_status m"
  unfolding err_status_def status_in_def by (rule triple_conseq) auto

lemma err_status_basic [simp]: "err_status (returnE a)" "err_status (fail e)" "err_status (getE g)"
  by (simp_all add: err_status_def triple_def)

lemma status_in_return [simp]: "status_in S (returnE r) \<longleftrightarrow> run_Status r \<in> S"
  by (simp add: status_in_def triple_def)

lemma status_in_fail [simp]: "status_in S (fail e)"
  by (simp add: status_in_def triple_def)

lemma err_status_if: "(b \<Longrightarrow> err_status m) \<Longrightarrow> (\<not> b \<Longrightarrow> err_status m') \<Longrightarrow> err_status (if b then m else m')"
  by simp

lemma status_in_if: "(b \<Longrightarrow> status_in S m) \<Longrightarrow> (\<not> b \<Longrightarrow> status_in S m') \<Longrightarrow> status_in S (if b then m else m')"
  by simp

lemma err_status_now: "err_status (nowUTC rt)"
  by (auto simp: err_status_def triple_def nowUTC_def time_Now_def split: option.split)

lemma err_status_check: "err_status (check_idx idx run)"
  by (simp add: check_idx_def)

lemma err_status_calls: "err_status (call_handler h run idx)"
  by (simp add: err_status_def triple_def call_handler_def Let_def)

lemma status_in_throw:
  assumes "status_in ended m"
  shows "status_in S (bindE m (\<lambda>r. throwE (Some r, e)))"
  unfolding status_in_def
  by (rule triple_bind [OF assms [unfolded status_in_def]]) (simp add: triple_def)

lemmas err_status_intros = err_status_bind err_status_if err_status_now err_status_check
  err_status_calls err_status_basic

context durable_runtime
begin

lemma quiet_load: "quiet (loadRun rt s i)" and quiet_save: "quiet (saveRun rt r)"
  using ghosts by (auto simp: quiet_def)

lemma quiet_cancel_steps: "quiet (cancel_steps rt ss)"
  by (induction ss) (auto intro!: quiet_intros)

lemmas quiet_ops = quiet_intros quiet_load quiet_save quiet_cancel_steps

lemma quiet_parts:
  "quiet (markCancelled rt run idx)" "quiet (begin_attempt rt run idx m a)"
  "quiet (finish_ok rt run idx res)" "quiet (abort_step rt run idx ce)"
  "quiet (exhaust_step rt run idx e)" "quiet (record_failure rt run idx rep)"
  "quiet (reset_pending rt run idx)" "quiet (reconcile_exhausted rt run idx)"
  "quiet (finish_run rt run)" "quiet (pause_run rt run idx)" "quiet (recover_step rt run idx)"
  "quiet (start_run rt run)"
  by (auto simp: markCancelled_def begin_attempt_def finish_ok_def abort_step_def exhaust_step_def
      record_failure_def reset_pending_def reconcile_exhausted_def finish_run_def pause_run_def
      recover_step_def start_run_def Let_def intro!: quiet_ops split: option.split)

lemma quiet_settle: "quiet (settle_attempt rt ctx run idx m a rep)"
  unfolding settle_attempt_def retry_or_fail_def Let_def
  by (intro quiet_ops quiet_parts)

lemma save_status: "status_in {run_Status r} (saveRun rt r)"
  unfolding status_in_def
proof (rule tripleI)
  fix w a w' assume "saveRun rt r w = (Inr a, w')"
  then obtain t where "a = r\<lparr>run_UpdatedAt := t\<rparr>" using sv_ok by blast
  then show "run_Status a \<in> {run_Status r}" by simp
next
  fix w e w' assume "saveRun rt r w = (Inl e, w')"
  then show "\<forall>r. fst e = Some r \<longrightarrow> run_Status r \<in> ended"
    using sv_err by (simp add: store_error_def)
qed

lemma save_status_in: "run_Status r \<in> S \<Longrightarrow> status_in S (saveRun rt r)"
  using save_status [of r] unfolding status_in_def by (rule triple_conseq) auto

lemma load_status: "err_status (loadRun rt s i)"
  unfolding err_status_def by (rule tripleI) (use ld_err in \<open>auto simp: store_error_def\<close>)

text \<open>The attempt recorded for an execution is the one \<open>begin_attempt\<close> stored.\<close>

lemma begin_attempt_result:
  assumes "begin_attempt rt run idx m a w = (Inr r, w')"
  shows "sr_AttemptCount (run_Steps r ! idx) = a"
proof -
  from assms obtain st now w1 where idx: "idx < length (run_Steps run)"
    and "saveRun rt ((upd_step idx (\<lambda>s. s\<lparr>sr_MaxAttempts := m, sr_AttemptCount := a,
      sr_Status := StepStatusRunning, sr_StartedAt := st, sr_EndedAt := NoStamp, sr_DurationMs := 0,
      sr_Error := ''''\<rparr>) run)\<lparr>run_Status := RunStatusRunning, run_Checkpoint := now\<rparr>) w1 = (Inr r, w')"
    unfolding begin_attempt_def Let_def
    by (fastforce elim!: bindE_Inr_E simp: check_idx_def split: if_splits)
  from sv_ok [OF this(2)] idx show ?thesis by (auto simp: upd_step_def)
qed

lemma numbered_call:
  assumes "sr_AttemptCount (run_Steps run ! idx) = a" and "a \<le> b" and "\<And>rep. quiet (f rep)"
  shows "numbered a b (bindE (call_handler h run idx) f)"
  unfolding numbered_def
proof (intro allI impI)
  fix w x w' assume "bindE (call_handler h run idx) f w = (x, w')"
  then obtain rep where f: "f rep (w\<lparr>calls := calls w @ [(sr_StepID (run_Steps run ! idx), a)]\<rparr>) = (x, w')"
    using assms(1) by (auto simp: bindE_def call_handler_def Let_def)
  have "calls w' = calls w @ [(sr_StepID (run_Steps run ! idx), a)]" "held w' = held w"
    using assms(3) [of rep] f by (auto simp: quiet_def)
  then show "held w' = held w \<and> (\<exists>cs c. calls w' = calls w @ cs \<and> map snd cs = [a..c] \<and> c \<le> b)"
    using assms(2) by (intro conjI exI [of _ "[(sr_StepID (run_Steps run ! idx), a)]"] exI [of _ a]) auto
qed

lemma numbered_attempt_step:
  assumes "a \<le> m"
  shows "numbered a a (attempt_step rt h ctx run idx m a)"
  unfolding attempt_step_def
proof (rule numbered_quiet_bind [OF quiet_load])
  fix latest
  have "numbered a a (bindE (begin_attempt rt latest idx m a) (\<lambda>run1.
      bindE (call_handler h run1 idx) (settle_attempt rt ctx run1 idx m a)))"
    by (rule numbered_bind_result [OF quiet_parts(2) numbered_call])
      (simp_all add: begin_attempt_result quiet_settle)
  then show "numbered a a (if run_CancelRequested latest
      then bindE (markCancelled rt latest idx) (\<lambda>r. returnE (Inr r))
      else bindE (begin_attempt rt latest idx m a) (\<lambda>run1.
        bindE (call_handler h run1 idx) (settle_attempt rt ctx run1 idx m a)))"
    by (simp add: numbered_quiet quiet_bind quiet_parts)
qed simp

text \<open>An attempt that asks for another one has executed the handler.\<close>

lemma attempt_step_retry:
  assumes "attempt_step rt h ctx run idx m a w = (Inr (Inl r), w')"
  shows "\<exists>c. calls w' = calls w @ [(c, a)]"
proof -
  from assms obtain latest w1 where l: "loadRun rt (run_Stage run) (run_RunID run) w = (Inr latest, w1)"
    and c: "\<not> run_CancelRequested latest"
    and k: "bindE (begin_attempt rt latest idx m a) (\<lambda>run1.
        bindE (call_handler h run1 idx) (settle_attempt rt ctx run1 idx m a)) w1 = (Inr (Inl r), w')"
    unfolding attempt_step_def
    by (elim bindE_Inr_E) (auto elim!: bindE_Inr_E split: if_splits)
  from k obtain run1 w2 rep w3 where b: "begin_attempt rt latest idx m a w1 = (Inr run1, w2)"
    and h: "call_handler h run1 idx w2 = (Inr rep, w3)"
    and s: "settle_attempt rt ctx run1 idx m a rep w3 = (Inr (Inl r), w')"
    by (elim bindE_Inr_E)
  have "calls w1 = calls w" using quiet_load l unfolding quiet_def by blast
  moreover have "calls w2 = calls w1" using quiet_parts(2) b unfolding quiet_def by blast
  moreover have "calls w3 = calls w2 @ [(sr_StepID (run_Steps run1 ! idx), a)]"
    using h begin_attempt_result [OF b] by (auto simp: call_handler_def Let_def)
  moreover have "calls w' = calls w3" using quiet_settle s unfolding quiet_def by blast
  ultimately show ?thesis by simp
qed

lemma numbered_attempt_loop: "numbered a m (attempt_loop rt h ctx run idx m a)" if "a \<le> m + 1"
  using that
proof (induction "nat (m + 1 - a)" arbitrary: run a rule: less_induct)
  case less
  show ?case
  proof (cases "a \<le> m")
    case False
    then show ?thesis
      by (subst attempt_loop.simps) (simp add: numbered_quiet quiet_parts less.prems)
  next
    case True
    show ?thesis
      unfolding numbered_def
    proof (intro allI impI)
      fix w x w' assume eq: "attempt_loop rt h ctx run idx m a w = (x, w')"
      obtain y w1 where y: "attempt_step rt h ctx run idx m a w = (y, w1)" by fastforce
      have one: "held w1 = held w \<and> (\<exists>cs c. calls w1 = calls w @ cs \<and> map snd cs = [a..c] \<and> c \<le> a)"
        using numbered_attempt_step [OF True] y unfolding numbered_def by blast
      show "held w' = held w \<and> (\<exists>cs c. calls w' = calls w @ cs \<and> map snd cs = [a..c] \<and> c \<le> m)"
      proof (cases "\<exists>r. y = Inr (Inl r)")
        case True
        then obtain r where r: "y = Inr (Inl r)" by blast
        with eq y \<open>a \<le> m\<close> have "attempt_loop rt h ctx r idx m (a + 1) w1 = (x, w')"
          by (subst (asm) attempt_loop.simps) (simp add: bindE_def)
        moreover have "numbered (a + 1) m (attempt_loop rt h ctx r idx m (a + 1))"
          using less.hyps [of "a + 1"] \<open>a \<le> m\<close> by simp
        ultimately obtain cs c where "held w' = held w1" "calls w' = calls w1 @ cs"
          "map snd cs = [a + 1..c]" "c \<le> m" unfolding numbered_def by blast
        moreover obtain sid where "calls w1 = calls w @ [(sid, a)]"
          using attempt_step_retry y r by blast
        ultimately show ?thesis
          using one \<open>a \<le> m\<close>
          by (intro conjI exI [of _ "(sid, a) # cs"] exI [of _ "max a c"])
            (auto simp: upto_rec1 max_def)
      next
        case False
        with eq y \<open>a \<le> m\<close> have "w' = w1"
          by (subst (asm) attempt_loop.simps)
            (auto simp: bindE_def split: sum.splits)
        then show ?thesis using one \<open>a \<le> m\<close> by (meson order_trans)
      qed
    qed
  qed
qed

theorem executeStep_numbered:
  assumes "attempts_ok (run_Steps run ! idx)"
  shows "numbered (sr_AttemptCount (run_Steps run ! idx) + 1)
    (max 1 (sr_MaxAttempts (run_Steps run ! idx))) (executeStep rt h ctx run idx)"
proof -
  let ?s = "run_Steps run ! idx"
  have m: "(if sr_MaxAttempts ?s \<le> 0 then 1 else sr_MaxAttempts ?s) = max 1 (sr_MaxAttempts ?s)"
    by simp
  show ?thesis
    unfolding executeStep_def Let_def m
    by (rule numbered_quiet_bind [OF quiet_check numbered_attempt_loop])
      (use assms in \<open>simp_all add: attempts_ok_def\<close>)
qed

text \<open>Locks: every part of a resume leaves them as they are.\<close>

lemma executeStep_held: "executeStep rt h ctx run idx w = (x, w') \<Longrightarrow> held w' = held w"
proof -
  have loop: "attempt_loop rt h ctx r idx m a w = (x, w') \<Longrightarrow> held w' = held w" for r m a
  proof (cases "a \<le> m + 1")
    case True
    show "attempt_loop rt h ctx r idx m a w = (x, w') \<Longrightarrow> held w' = held w"
      using numbered_attempt_loop [OF True] unfolding numbered_def by blast
  next
    case False
    then show "attempt_loop rt h ctx r idx m a w = (x, w') \<Longrightarrow> held w' = held w"
      using quiet_parts(8) unfolding quiet_def by (subst (asm) attempt_loop.simps) auto
  qed
  show "executeStep rt h ctx run idx w = (x, w') \<Longrightarrow> held w' = held w"
    by (auto simp: executeStep_def Let_def bindE_def check_idx_def intro: loop split: if_splits)
qed

lemma same_locks_execute: "same_locks (executeStep rt h ctx run idx)"
  using executeStep_held unfolding same_locks_def by blast

lemma same_locks_resume_steps: "same_locks (resume_steps rt h ctx replay run idxs)"
proof (induction idxs arbitrary: run)
  case Nil
  then show ?case by (simp add: same_locks_quiet quiet_parts)
next
  case (Cons idx idxs)
  show ?case
    unfolding resume_steps.simps Let_def
    by (intro same_locks_bind same_locks_if same_locks_execute Cons.IH
        same_locks_quiet [OF quiet_check] same_locks_quiet [OF quiet_parts(10)]
        same_locks_quiet [OF quiet_parts(11)] same_locks_quiet [OF quiet_parts(1)]
        same_locks_quiet [OF quiet_basic(1)])
qed

lemma same_locks_resume: "same_locks (resumeRunLocked rt ctx stage runID)"
  unfolding resumeRunLocked_def
  by (cases "Handler rt", simp add: same_locks_quiet, simp only: option.case,
      intro same_locks_bind same_locks_if same_locks_resume_steps same_locks_quiet [OF quiet_parts(12)]
      same_locks_quiet [OF quiet_load] same_locks_quiet [OF quiet_basic(1)])

text \<open>Statuses of the returned runs.\<close>

lemma cancel_steps_status: "err_status (cancel_steps rt ss)"
proof (induction ss)
  case Nil
  then show ?case by (simp add: err_status_def triple_def)
next
  case (Cons s ss)
  then show ?case by (auto intro!: err_status_intros)
qed

lemma err_status_save: "err_status (saveRun rt r)"
  using status_in_err [OF save_status] .

lemmas err_status_ops = err_status_intros err_status_save load_status cancel_steps_status

lemma markCancelled_status: "status_in {RunStatusCancelled} (markCancelled rt run idx)"
  unfolding markCancelled_def
  by (intro status_in_bind err_status_ops save_status_in) simp

lemma err_status_parts:
  "err_status (markCancelled rt run idx)" "err_status (begin_attempt rt run idx m a)"
  "err_status (finish_ok rt run idx res)" "err_status (record_failure rt run idx rep)"
  "err_status (reset_pending rt run idx)" "err_status (recover_step rt run idx)"
  "err_status (start_run rt run)"
  using status_in_err [OF markCancelled_status]
  by (auto simp: begin_attempt_def finish_ok_def record_failure_def reset_pending_def
      recover_step_def start_run_def Let_def intro!: err_status_ops split: option.split)

lemma abort_step_status: "status_in S (abort_step rt run idx ce)"
  unfolding abort_step_def Let_def
  by (cases ce) (auto intro!: status_in_bind err_status_ops status_in_throw save_status_in
      simp: ended_def)

lemma fail_status_ended: "fail_status s \<in> ended"
  by (simp add: fail_status_def ended_def)

lemma exhaust_step_status: "status_in S (exhaust_step rt run idx e)"
  unfolding exhaust_step_def Let_def
  by (intro status_in_bind err_status_ops status_in_throw save_status_in) (simp add: fail_status_ended)

lemma reconcile_status: "err_status (reconcile_exhausted rt run idx)"
  unfolding reconcile_exhausted_def Let_def
  by (intro err_status_if status_in_err [where S = UNIV] status_in_bind err_status_ops status_in_throw
      save_status_in) (simp_all add: fail_status_ended)

lemma err_status_option:
  "(x = None \<Longrightarrow> err_status m) \<Longrightarrow> (\<And>y. x = Some y \<Longrightarrow> err_status (f y)) \<Longrightarrow>
   err_status (case x of None \<Rightarrow> m | Some y \<Rightarrow> f y)"
  by (cases x) simp_all

lemma attempt_step_err: "err_status (attempt_step rt h ctx run idx m a)"
  unfolding attempt_step_def settle_attempt_def retry_or_fail_def Let_def
  by (intro err_status_ops err_status_parts err_status_option
      status_in_err [OF abort_step_status] status_in_err [OF exhaust_step_status])

lemma attempt_loop_err: "err_status (attempt_loop rt h ctx run idx m a)"
proof (induction "nat (m + 1 - a)" arbitrary: run a rule: less_induct)
  case less
  have "err_status (case x of Inr r \<Rightarrow> returnE r | Inl r \<Rightarrow> attempt_loop rt h ctx r idx m (a + 1))"
    if "a \<le> m" for x
    using that by (cases x) (simp_all add: less.hyps)
  then show ?case
    by (subst attempt_loop.simps) (intro err_status_if err_status_bind attempt_step_err reconcile_status)
qed

lemma executeStep_err: "err_status (executeStep rt h ctx run idx)"
  unfolding executeStep_def Let_def by (intro err_status_ops attempt_loop_err)

lemma finish_run_status: "status_in {RunStatusOK} (finish_run rt run)"
  unfolding finish_run_def Let_def
  by (cases "firstUnsuccessfulStep run")
    (auto intro!: status_in_bind err_status_ops status_in_throw save_status_in simp: fail_status_ended)

lemma status_in_mono: "status_in S m \<Longrightarrow> S \<subseteq> T \<Longrightarrow> status_in T m"
  unfolding status_in_def by (erule triple_conseq) auto

lemma resume_steps_status:
  "status_in {RunStatusOK, RunStatusPaused, RunStatusCancelled} (resume_steps rt h ctx replay run idxs)"
proof (induction idxs arbitrary: run)
  case Nil
  then show ?case by (auto intro: status_in_mono [OF finish_run_status])
next
  case (Cons idx idxs)
  have pause: "status_in {RunStatusOK, RunStatusPaused, RunStatusCancelled} (pause_run rt run idx)"
    unfolding pause_run_def by (intro status_in_bind err_status_ops save_status_in) simp
  show ?case
    unfolding resume_steps.simps Let_def
    by (intro status_in_bind status_in_if err_status_ops err_status_parts executeStep_err Cons.IH pause
        status_in_mono [OF markCancelled_status]) simp_all
qed

theorem resumeRunLocked_status:
  "status_in {r. IsWorkflowRunTerminal r \<or> r = RunStatusPaused} (resumeRunLocked rt ctx stage runID)"
  unfolding resumeRunLocked_def
  by (cases "Handler rt")
    (auto intro!: status_in_bind load_status err_status_parts status_in_mono [OF resume_steps_status]
      simp: IsWorkflowRunTerminal_def)

end

end
