(* ===== verification/Runtime_Calls.thy ===== *)
theory Runtime_Calls
  imports Runtime_Results
begin

text \<open>
  The operations a caller of the workflow runtime sees: create, resume, start, cancel, replay
  and approval. Their contracts are proved for every store in \<open>durable_runtime\<close>; that locale is
  then interpreted for the two local backends of the repository.
\<close>

context durable_runtime
begin

lemma stable_good_entry: "stable good_entry"
  by (auto simp: stable_def good_entry_def)

lemma final_good: "run_inv S k0 ids n pre k r \<Longrightarrow> good_entry k r"
  by (simp add: run_inv_def)

lemma all_good: "all_runs (run_inv S k0 ids n pre) w \<Longrightarrow> all_runs good_entry w"
  by (erule all_runs_mono [rotated]) (rule final_good)

lemma saved_good: "saved (run_inv S k0 ids n pre) k0 r w \<Longrightarrow> saved good_entry k0 r w"
  by (elim conjE, intro conjI, erule all_good, erule final_good)

lemma failed_good: "failed (run_inv S k0 ids n pre) k0 e w \<Longrightarrow> failed good_entry k0 e w"
  by (elim conjE, intro conjI, erule all_good) (simp add: good_err_def run_inv_def)

text \<open>The invariant of all runs gives the one for a particular run.\<close>

lemma good_keeps:
  assumes "all_runs good_entry w" and "view w k0 = Some r"
  shows "all_runs (run_inv UNIV k0 (map sr_StepID (run_Steps r)) n
    (map norm_step (take n (run_Steps r)))) w"
  using assms by (auto simp: all_runs_def run_inv_def)

lemma good_absent:
  assumes "all_runs good_entry w" and "view w k0 = None"
  shows "all_runs (run_inv UNIV k0 ids n pre) w"
  using assms by (auto simp: all_runs_def run_inv_def)

lemma stored_held [simp]: "stored k r (w\<lparr>held := h\<rparr>) = stored k r w"
  by (simp add: stored_def view_runs)

lemma good_err_held [simp]: "good_err P k e (w\<lparr>held := h\<rparr>) = good_err P k e w"
  by (simp add: good_err_def)

text \<open>An operation under the run lock.\<close>

lemma withRunLock_triple:
  assumes m: "triple (all_runs P) m (saved Q (stage, runID)) (failed Q (stage, runID))"
    and PQ: "\<And>w. all_runs P w \<Longrightarrow> all_runs Q w"
  shows "triple (\<lambda>w. all_runs P w \<and> (Locker rt = None \<longrightarrow> (stage, runID) \<notin> set (held w)))
    (withRunLock rt stage runID m) (saved Q (stage, runID)) (failed Q (stage, runID))"
  unfolding withRunLock_def
proof (rule triple_bind [of _ _ "\<lambda>_. all_runs P"])
  show "triple (\<lambda>w. all_runs P w \<and> (Locker rt = None \<longrightarrow> (stage, runID) \<notin> set (held w)))
      (acquireRunLock rt stage runID) (\<lambda>_. all_runs P) (failed Q (stage, runID))"
    by (auto simp: triple_def acquireRunLock_def good_err_def PQ split: option.split)
  show "triple (all_runs P) (finallyE m (releaseRunLock stage runID))
      (saved Q (stage, runID)) (failed Q (stage, runID))" for u
    by (rule triple_finally, rule triple_conseq [OF m]) (simp_all add: releaseRunLock_def)
qed

lemma withRunLock_locks:
  assumes "same_locks m"
  shows "same_locks (withRunLock rt stage runID m)"
  unfolding same_locks_def
proof (intro allI impI)
  fix w x w' assume "withRunLock rt stage runID m w = (x, w')"
  then show "held w' = held w"
    using assms by (fastforce simp: withRunLock_def bindE_def finallyE_def releaseRunLock_def
        acquireRunLock_def same_locks_def split: prod.splits sum.splits option.splits if_splits)
qed

theorem ResumeRun_good:
  "triple (\<lambda>w. all_runs good_entry w \<and> (Locker rt = None \<longrightarrow> (stage, runID) \<notin> set (held w)))
    (ResumeRun rt ctx stage runID) (saved good_entry (stage, runID)) (failed good_entry (stage, runID))"
  unfolding ResumeRun_def
proof (rule withRunLock_triple)
  show "triple (all_runs good_entry) (resumeRunLocked rt ctx stage runID)
     (saved good_entry (stage, runID)) (failed good_entry (stage, runID))"
  proof (rule triple_each)
    fix w assume good: "all_runs good_entry w"
    obtain ids where inv: "all_runs (run_inv UNIV (stage, runID) ids 0 []) w"
      using good_keeps [OF good, of "(stage, runID)" _ 0] good_absent [OF good]
      by (cases "view w (stage, runID)") auto
    show "triple ((=) w) (resumeRunLocked rt ctx stage runID)
       (saved good_entry (stage, runID)) (failed good_entry (stage, runID))"
      by (rule triple_conseq [OF resumeRunLocked_inv [of stage runID ids 0 "[]" ctx]])
        (use inv in simp, erule saved_good, erule failed_good)
  qed
qed simp

theorem ResumeRun_locks: "same_locks (ResumeRun rt ctx stage runID)"
  unfolding ResumeRun_def by (intro withRunLock_locks same_locks_resume)

lemma save_good:
  assumes "good_entry (run_Stage r, run_RunID r) r"
  shows "triple (all_runs good_entry) (saveRun rt r)
    (saved good_entry (run_Stage r, run_RunID r)) (failed good_entry (run_Stage r, run_RunID r))"
  by (rule save_triple [OF stable_good_entry assms]) simp

text \<open>Creation.\<close>

lemma new_run_good:
  "good_entry (run_Stage (new_run spec i t), run_RunID (new_run spec i t)) (new_run spec i t)"
  by (auto simp: good_entry_def new_run_def new_step_def attempts_ok_def ok_consistent_def)

theorem CreateRun_good:
  "triple (all_runs good_entry) (CreateRun rt spec)
    (\<lambda>r w. saved good_entry (run_Stage r, run_RunID r) r w)
    (\<lambda>e w. all_runs good_entry w \<and> fst e = None)"
proof -
  have fin: "good_entry k ((new_run spec i t)\<lparr>run_Status := RunStatusOK, run_EndedAt := a,
      run_DurationMs := d\<rparr>)"
    if "run_Steps (new_run spec i t) = []" "k = (rs_Stage spec, i)" for i t a d k
    using that by (auto simp: good_entry_def new_run_def ok_consistent_def)
  have save: "triple (all_runs good_entry) (saveRun rt r)
      (\<lambda>r w. saved good_entry (run_Stage r, run_RunID r) r w)
      (\<lambda>e w. all_runs good_entry w \<and> fst e = None)"
    if "good_entry (run_Stage r, run_RunID r) r" for r
    using sv_triple [OF stable_good_entry that]
    by (rule triple_conseq) (auto simp: storedI store_error_def)
  have rest: "triple (all_runs good_entry)
      (bindE (nowUTC rt) (\<lambda>started.
        let run = new_run spec i started in
        if \<exists>s \<in> set (rs_Steps spec). sp_ID s = '''' then fail StepIdRequired
        else bindE
          (if run_Steps run = [] then
             bindE (nowUTC rt) (\<lambda>now. returnE (run\<lparr>run_Status := RunStatusOK,
               run_EndedAt := fmt_time now,
               run_DurationMs := durationMs (run_StartedAt run) (fmt_time now)\<rparr>))
           else returnE run) (saveRun rt)))
      (\<lambda>r w. saved good_entry (run_Stage r, run_RunID r) r w)
      (\<lambda>e w. all_runs good_entry w \<and> fst e = None)" for i
    unfolding Let_def
  proof (rule now_bind, rule triple_if, rule triple_throw, simp)
    fix t
    let ?run = "new_run spec i t"
    show "triple (all_runs good_entry) (bindE
        (if run_Steps ?run = [] then
           bindE (nowUTC rt) (\<lambda>now. returnE (?run\<lparr>run_Status := RunStatusOK,
             run_EndedAt := fmt_time now,
             run_DurationMs := durationMs (run_StartedAt ?run) (fmt_time now)\<rparr>))
         else returnE ?run) (saveRun rt))
      (\<lambda>r w. saved good_entry (run_Stage r, run_RunID r) r w)
      (\<lambda>e w. all_runs good_entry w \<and> fst e = None)"
    proof (cases "run_Steps ?run = []")
      case True
      have "good_entry (run_Stage ?run, run_RunID ?run) (?run\<lparr>run_Status := RunStatusOK,
          run_EndedAt := a, run_DurationMs := d\<rparr>)" for a d
        by (rule fin [OF True]) (simp add: new_run_def)
      with True show ?thesis
        by (simp only: simp_thms if_True bindE_assoc bindE_returnE) (intro now_bind save, simp)
    next
      case False
      then show ?thesis by (simp only: simp_thms if_False bindE_returnE) (rule save, rule new_run_good)
    qed
  qed
  show ?thesis
    unfolding CreateRun_def
    by (intro triple_if triple_throw)
      (simp_all add: triple_bind [of _ _ "\<lambda>_. all_runs good_entry"] triple_return poll_bind rest)
qed

text \<open>Cancelling is a load followed by a save.\<close>

lemma markCancelRequested_eq:
  "markCancelRequested rt stage runID =
     bindE (loadRun rt stage runID) (\<lambda>run. saveRun rt (run\<lparr>run_CancelRequested := True\<rparr>))"
  by (cases "Store rt")
    (auto simp: markCancelRequested_def loadRun_def saveRun_def MarkWorkflowRunCancelRequested_def
      bindE_assoc fun_eq_iff bindE_def split: prod.split sum.split)

theorem CancelRun_good:
  "triple (all_runs good_entry) (CancelRun rt stage runID)
    (\<lambda>r w. saved good_entry (stage, runID) r w \<and> run_CancelRequested r)
    (failed good_entry (stage, runID))"
  unfolding CancelRun_def markCancelRequested_eq
proof (rule triple_bind_fact [OF load_triple [OF stable_good_entry]])
  fix r assume r: "good_entry (stage, runID) r"
  then have k: "(run_Stage r, run_RunID r) = (stage, runID)" by (simp add: good_entry_def)
  have "good_entry (stage, runID) (r\<lparr>run_CancelRequested := True\<rparr>)"
    using r by (simp add: good_entry_def)
  then have "triple (all_runs good_entry) (saveRun rt (r\<lparr>run_CancelRequested := True\<rparr>))
     (\<lambda>r w. saved good_entry (stage, runID) r w \<and> run_CancelRequested r)
     (failed good_entry (stage, runID))"
    using k by (intro triple_conseq [OF sv_triple [OF stable_good_entry]])
      (auto simp: storedI good_err_store)
  then show "triple (\<lambda>w. all_runs good_entry w \<and> view w (stage, runID) = Some r \<and> good_entry (stage, runID) r)
     (saveRun rt (r\<lparr>run_CancelRequested := True\<rparr>))
     (\<lambda>r w. saved good_entry (stage, runID) r w \<and> run_CancelRequested r)
     (failed good_entry (stage, runID))"
    by (rule triple_pre) simp
qed simp

text \<open>Approval: the step gets its decision and a fresh set of attempts, the run runs again.\<close>

lemma set_approval_facts:
  "sr_StepID (set_approval d v s) = sr_StepID s" "attempts_ok (set_approval d v s)"
  by (auto simp: set_approval_def Let_def attempts_ok_def)

lemma find_index_steps:
  assumes "find_index p (run_Steps r) = Some k"
  shows "k < length (run_Steps r)"
  using find_index_bound [OF assms] .

theorem ResolveApproval_good:
  "triple (\<lambda>w. all_runs good_entry w \<and> (Locker rt = None \<longrightarrow> (stage, runID) \<notin> set (held w)))
    (ResolveApproval rt stage runID stepID decision reviewer)
    (saved good_entry (stage, runID)) (failed good_entry (stage, runID))"
  unfolding ResolveApproval_def
proof (rule withRunLock_triple, rule triple_bind_fact [OF load_triple [OF stable_good_entry]])
  fix r assume r: "good_entry (stage, runID) r"
  then have k: "(run_Stage r, run_RunID r) = (stage, runID)" by (simp add: good_entry_def)
  have fails: "triple (all_runs good_entry) (fail e) (saved good_entry (stage, runID))
      (failed good_entry (stage, runID))" if "e \<noteq> IndexPanic" "e \<noteq> LockBlocked" for e
    using that by (simp add: triple_def good_err_def)
  have "good_entry (stage, runID) ((upd_step i (set_approval decision reviewer) r)\<lparr>
      run_Status := RunStatusRunning, run_Checkpoint := c\<rparr>)"
    if "find_index p (run_Steps r) = Some i" for p i c
    using r find_index_steps [OF that] set_approval_facts(2) [of decision reviewer]
    by (auto simp: good_entry_def upd_step_def dest!: subsetD [OF set_update_subset_insert])
  then have save: "triple (all_runs good_entry)
      (saveRun rt ((upd_step i (set_approval decision reviewer) r)\<lparr>
         run_Status := RunStatusRunning, run_Checkpoint := c\<rparr>))
      (saved good_entry (stage, runID)) (failed good_entry (stage, runID))"
    if "find_index p (run_Steps r) = Some i" for p i c
    using that k by (intro save_triple stable_good_entry) (simp_all add: upd_step_def)
  have "triple (all_runs good_entry)
     (if decision = '''' then fail DecisionRequired
      else case find_index (\<lambda>s. sr_StepID s = stepID) (run_Steps r) of
        None \<Rightarrow> fail (NoSuchStep stepID runID)
      | Some k \<Rightarrow>
          bindE (nowUTC rt) (\<lambda>now.
          saveRun rt ((upd_step k (set_approval decision reviewer) r)\<lparr>
            run_Status := RunStatusRunning,
            run_Checkpoint := checkpoint now stepID (step_status_str StepStatusPending) ''''\<rparr>)))
     (saved good_entry (stage, runID)) (failed good_entry (stage, runID))"
    by (auto intro!: fails now_bind save split: option.split)
  then show "triple (\<lambda>w. all_runs good_entry w \<and> view w (stage, runID) = Some r \<and> good_entry (stage, runID) r)
     (if decision = '''' then fail DecisionRequired
      else case find_index (\<lambda>s. sr_StepID s = stepID) (run_Steps r) of
        None \<Rightarrow> fail (NoSuchStep stepID runID)
      | Some k \<Rightarrow>
          bindE (nowUTC rt) (\<lambda>now.
          saveRun rt ((upd_step k (set_approval decision reviewer) r)\<lparr>
            run_Status := RunStatusRunning,
            run_Checkpoint := checkpoint now stepID (step_status_str StepStatusPending) ''''\<rparr>)))
     (saved good_entry (stage, runID)) (failed good_entry (stage, runID))"
    by (rule triple_pre) simp
qed simp_all

text \<open>Replay: the steps from the given one start afresh, those before it are kept.\<close>

lemma reset_step_facts [simp]:
  "sr_StepID (reset_step s) = sr_StepID s" "attempts_ok (reset_step s)"
  by (simp_all add: reset_step_def attempts_ok_def)

lemma find_index_cong_map:
  "map f xs = map f ys \<Longrightarrow> find_index (\<lambda>x. f x = a) xs = find_index (\<lambda>x. f x = a) ys"
  using find_index_map [of "\<lambda>y. y = a" f xs] find_index_map [of "\<lambda>y. y = a" f ys]
  by (simp add: o_def)

lemma replayed_keeps:
  assumes r: "run_inv UNIV k0 ids n pre k0 r" and k: "find_index (\<lambda>s. sr_StepID s = stepID) (run_Steps r) = Some n"
    and "stepID \<noteq> ''''"
  shows "keeps k0 ids n pre k0 (replayed r n stepID c)"
proof -
  let ?r = "replayed r n stepID c"
  have n: "n < length (run_Steps r)" using find_index_steps [OF k] .
  have "map sr_StepID (run_Steps ?r) = map sr_StepID (take n (run_Steps r) @ drop n (run_Steps r))"
    by (simp add: replayed_def o_def del: append_take_drop_id)
  then have ids: "map sr_StepID (run_Steps ?r) = map sr_StepID (run_Steps r)"
    by (simp only: append_take_drop_id)
  have "replay_start ?r = find_index (\<lambda>s. sr_StepID s = stepID) (run_Steps ?r)"
    using assms(3) by (simp add: replay_start_def replayed_def)
  also have "\<dots> = Some n" using find_index_cong_map [OF ids, of stepID] k by simp
  finally have "replay_start ?r = Some n" .
  moreover have "take n (run_Steps ?r) = take n (run_Steps r)"
    using n by (simp add: replayed_def)
  moreover have "\<forall>s \<in> set (run_Steps ?r). attempts_ok s"
    using r by (auto simp: replayed_def run_inv_defs dest: in_set_takeD)
  moreover have "run_Stage ?r = run_Stage r" "run_RunID ?r = run_RunID r"
    "run_Status ?r = RunStatusRunning" by (simp_all add: replayed_def)
  ultimately show ?thesis using r ids by (simp add: run_inv_defs)
qed

lemma replay_save:
  assumes r: "final_inv k0 ids n pre k0 r"
    and k: "find_index (\<lambda>s. sr_StepID s = stepID) (run_Steps r) = Some n" and "stepID \<noteq> ''''"
  shows "triple (all_runs (final_inv k0 ids n pre)) (saveRun rt (replayed r n stepID c))
    (\<lambda>_. all_runs (keeps k0 ids n pre)) (failed (final_inv k0 ids n pre) k0)"
proof -
  let ?r = "replayed r n stepID c"
  have kr: "keeps k0 ids n pre k0 ?r" by (rule replayed_keeps [OF r k assms(3)])
  then have key: "(run_Stage ?r, run_RunID ?r) = k0" using run_inv_key by blast
  show ?thesis
    by (rule triple_conseq [OF sv_replace [OF stable_keeps [of k0 ids n pre] stable_run_inv [of UNIV k0 ids n pre]]])
      (use kr key in \<open>simp_all add: good_err_store\<close>)
qed

theorem ReplayRun_good:
  "triple (\<lambda>w. all_runs good_entry w \<and> (Locker rt = None \<longrightarrow> (stage, runID) \<notin> set (held w)))
    (ReplayRunFromStep rt ctx stage runID stepID)
    (saved good_entry (stage, runID)) (failed good_entry (stage, runID))"
proof (cases "stepID = ''''")
  case True
  then show ?thesis by (simp add: ReplayRunFromStep_def triple_def good_err_def)
next
  case False
  let ?k0 = "(stage, runID)"
  have found: "triple (\<lambda>w. all_runs good_entry w \<and> view w ?k0 = Some r \<and> good_entry ?k0 r)
      (bindE (nowUTC rt) (\<lambda>now.
         bindE (saveRun rt (replayed r n stepID
           (checkpoint now stepID (step_status_str StepStatusPending) ''''))) (\<lambda>_.
         resumeRunLocked rt ctx stage runID)))
      (saved good_entry ?k0) (failed good_entry ?k0)"
    if r: "good_entry ?k0 r" and n: "find_index (\<lambda>s. sr_StepID s = stepID) (run_Steps r) = Some n" for r n
  proof -
    let ?F = "final_inv ?k0 (map sr_StepID (run_Steps r)) n (map norm_step (take n (run_Steps r)))"
    have "?F ?k0 r" using r by (simp add: run_inv_def)
    from replay_save [OF this n False]
    have "triple (all_runs ?F) (bindE (nowUTC rt) (\<lambda>now.
         bindE (saveRun rt (replayed r n stepID
           (checkpoint now stepID (step_status_str StepStatusPending) ''''))) (\<lambda>_.
         resumeRunLocked rt ctx stage runID))) (saved ?F ?k0) (failed ?F ?k0)"
      by (intro now_bind triple_bind [OF _ resumeRunLocked_inv])
    then show ?thesis
      by (rule triple_conseq) (use good_keeps in blast, erule saved_good, erule failed_good)
  qed
  have body: "triple (\<lambda>w. all_runs good_entry w \<and> view w ?k0 = Some r \<and> good_entry ?k0 r)
      (case find_index (\<lambda>s. sr_StepID s = stepID) (run_Steps r) of
         None \<Rightarrow> fail (NoSuchStep stepID runID)
       | Some k \<Rightarrow>
           bindE (nowUTC rt) (\<lambda>now.
           bindE (saveRun rt (replayed r k stepID
             (checkpoint now stepID (step_status_str StepStatusPending) ''''))) (\<lambda>_.
           resumeRunLocked rt ctx stage runID)))
      (saved good_entry ?k0) (failed good_entry ?k0)" if "good_entry ?k0 r" for r
    using found [OF that]
    by (cases "find_index (\<lambda>s. sr_StepID s = stepID) (run_Steps r)")
      (simp_all add: triple_def good_err_def)
  show ?thesis
    unfolding ReplayRunFromStep_def if_not_P [OF False]
    by (rule withRunLock_triple [OF triple_bind_fact [OF load_triple [OF stable_good_entry] _ body]]) simp_all
qed

theorem ReplayRun_keeps:
  assumes k: "find_index (\<lambda>s. sr_StepID s = stepID) (run_Steps r0) = Some n" and "stepID \<noteq> ''''"
    and ids: "ids = map sr_StepID (run_Steps r0)"
    and pre: "pre = map norm_step (take n (run_Steps r0))"
  shows "triple (\<lambda>w. (all_runs good_entry w \<and> view w (stage, runID) = Some r0) \<and>
      (Locker rt = None \<longrightarrow> (stage, runID) \<notin> set (held w)))
    (ReplayRunFromStep rt ctx stage runID stepID)
    (saved (final_inv (stage, runID) ids n pre) (stage, runID))
    (failed (final_inv (stage, runID) ids n pre) (stage, runID))"
proof -
  let ?k0 = "(stage, runID)"
  let ?F = "final_inv ?k0 ids n pre"
  have idx: "find_index (\<lambda>s. sr_StepID s = stepID) (run_Steps r) = Some n" if "?F ?k0 r" for r
    using that find_index_cong_map [of sr_StepID "run_Steps r" "run_Steps r0" stepID] k ids
    by (simp add: run_inv_defs)
  note save = replay_save [OF _ idx assms(2)]
  have body: "triple (all_runs ?F) (bindE (loadRun rt stage runID) (\<lambda>run.
         case find_index (\<lambda>s. sr_StepID s = stepID) (run_Steps run) of
           None \<Rightarrow> fail (NoSuchStep stepID runID)
         | Some k \<Rightarrow>
             bindE (nowUTC rt) (\<lambda>now.
             bindE (saveRun rt (replayed run k stepID
               (checkpoint now stepID (step_status_str StepStatusPending) ''''))) (\<lambda>_.
             resumeRunLocked rt ctx stage runID))))
     (saved ?F ?k0) (failed ?F ?k0)"
    by (rule load_bind, simp) (simp only: idx option.case, rule now_bind,
        rule triple_bind [OF save resumeRunLocked_inv], assumption+)
  have start: "all_runs ?F w" if "all_runs good_entry w \<and> view w ?k0 = Some r0" for w
    using good_keeps [of w ?k0 r0 n] that by (simp add: ids pre)
  show ?thesis
    unfolding ReplayRunFromStep_def using assms(2)
    by (simp only: if_False) (rule triple_pre [OF withRunLock_triple [OF body]], simp, use start in blast)
qed

theorem ReplayRun_locks: "same_locks (ReplayRunFromStep rt ctx stage runID stepID)"
  unfolding ReplayRunFromStep_def
  by (intro same_locks_if withRunLock_locks same_locks_quiet [OF quiet_basic(2)] same_locks_bind
      same_locks_quiet [OF quiet_load] same_locks_option same_locks_quiet [OF quiet_save]
      same_locks_quiet [OF quiet_now] same_locks_resume)

theorem ResolveApproval_locks:
  "same_locks (ResolveApproval rt stage runID stepID decision reviewer)"
  unfolding ResolveApproval_def
  by (intro withRunLock_locks same_locks_quiet quiet_ops)

lemma CreateRun_quiet: "quiet (CreateRun rt spec)"
  unfolding CreateRun_def Let_def by (intro quiet_ops)

theorem ResumeRun_status:
  "status_in {r. IsWorkflowRunTerminal r \<or> r = RunStatusPaused} (ResumeRun rt ctx stage runID)"
  unfolding ResumeRun_def withRunLock_def
proof (rule status_in_bind)
  show "err_status (acquireRunLock rt stage runID)"
    by (auto simp: err_status_def triple_def acquireRunLock_def split: option.split)
  show "status_in {r. IsWorkflowRunTerminal r \<or> r = RunStatusPaused}
      (finallyE (resumeRunLocked rt ctx stage runID) (releaseRunLock stage runID))" for u
    using resumeRunLocked_status [of ctx stage runID] unfolding status_in_def
    by (intro triple_finally)
qed

end

section \<open>The local backends\<close>

text \<open>
  \<open>Files\<close> is the default store of the runtime, the run files of \<^verbatim>\<open>state/core/runs.go\<close>;
  \<open>LocalStore digest\<close> is \<^verbatim>\<open>LocalRunStore\<close>, the \<^verbatim>\<open>WorkflowRunStore\<close> configured for a local
  workspace.
\<close>

datatype backend = Files | LocalStore "run_file \<Rightarrow> version"

fun with_backend :: "backend \<Rightarrow> runtime \<Rightarrow> runtime" where
  "with_backend Files rt = rt\<lparr>Store := None\<rparr>"
| "with_backend (LocalStore digest) rt =
     rt\<lparr>Store := Some \<lparr>so_Load = lrs_Load digest, so_Save = lrs_Save digest\<rparr>\<rparr>"

lemma with_backend_fields [simp]:
  "Handler (with_backend b rt) = Handler rt" "NowF (with_backend b rt) = NowF rt"
  "Locker (with_backend b rt) = Locker rt" "RandID (with_backend b rt) = RandID rt"
  by (cases b; simp)+

lemma loadRun_backend:
  "loadRun (with_backend Files rt) = LoadWorkflowRun"
  "loadRun (with_backend (LocalStore digest) rt) = local_load digest"
  by (simp_all add: loadRun_def local_load_def fun_eq_iff)

lemma saveRun_backend:
  "saveRun (with_backend Files rt) = SaveWorkflowRun"
  "saveRun (with_backend (LocalStore digest) rt) = local_save digest"
  by (simp_all add: saveRun_def local_save_def fun_eq_iff)

interpretation local: durable_runtime "with_backend b rt" file_view for b rt
  unfolding durable_runtime_def
  by (cases b; simp only: loadRun_backend saveRun_backend)
    (rule files.run_store_axioms local_store.run_store_axioms)+

text \<open>The invariant of a store, as a computation on its files.\<close>

definition store_ok :: "world \<Rightarrow> bool" where
  "store_ok w \<longleftrightarrow> (\<forall>k \<in> fst ` set (runs w). case file_view w k of
     None \<Rightarrow> True | Some r \<Rightarrow> good_entry k r)"

lemma store_ok_all_runs: "store_ok w \<longleftrightarrow> files.all_runs good_entry w"
proof -
  have "k \<in> fst ` set (runs w)" if "file_view w k = Some r" for k r
    using that by (auto simp: file_view_def map_of_eq_None_iff intro: rev_image_eqI
        dest!: map_of_SomeD split: option.splits)
  then have "store_ok w \<longleftrightarrow> (\<forall>k. case file_view w k of None \<Rightarrow> True | Some r \<Rightarrow> good_entry k r)"
    unfolding store_ok_def by (metis option.case(1) option.exhaust)
  then show ?thesis
    unfolding files.all_runs_def by (simp split: option.split)
qed

end
