(* ===== verification/Runtime_Claims.thy ===== *)
theory Runtime_Claims
  imports Runtime_Calls
begin

text \<open>
  What the workflow runtime promises on the local backends, each promise with a concrete run on
  which its hypotheses hold.
\<close>

section \<open>A concrete runtime\<close>

definition ok_reply :: handler_reply where
  "ok_reply = \<lparr>hr_res = None, hr_err = None, hr_ctxerr = None\<rparr>"

definition err_reply :: handler_reply where
  "err_reply = \<lparr>hr_res = None, hr_err = Some ''boom'', hr_ctxerr = None\<rparr>"

text \<open>A runtime whose handler fails its first \<open>n\<close> executions.\<close>

definition demo_rt :: "nat \<Rightarrow> runtime" where
  "demo_rt n = \<lparr>Handler = Some (\<lambda>i run s. if i < n then err_reply else ok_reply), NowF = None,
     Locker = None, Store = None, RandID = (\<lambda>_. ''r'')\<rparr>"

definition no_ctx :: ctxt where
  "no_ctx t = None"

definition empty_world :: world where
  "empty_world = \<lparr>runs = [], ext = [], ticks = 0, wall = (\<lambda>n. int n * 10 ^ 9), held = [], calls = []\<rparr>"

definition demo_spec :: run_spec where
  "demo_spec = \<lparr>rs_RunID = ''r'', rs_Service = ''svc'', rs_Stage = ''dev'', rs_Provider = ''aws'',
     rs_WorkflowName = ''wf'', rs_WorkflowHash = '''', rs_Entrypoint = ''main'',
     rs_Steps = [\<lparr>sp_ID = ''a'', sp_Kind = ''code'', sp_Input = None, sp_MaxAttempts = 2,
                   sp_Timeout = 0, sp_Backoff = 0\<rparr>,
                 \<lparr>sp_ID = ''b'', sp_Kind = ''code'', sp_Input = None, sp_MaxAttempts = 1,
                   sp_Timeout = 0, sp_Backoff = 0\<rparr>]\<rparr>"

definition created :: world where
  "created = snd (CreateRun (with_backend Files (demo_rt 0)) demo_spec empty_world)"

text \<open>Evaluation: the definitions whose values the concrete runs need.\<close>

lemma created_resume:
  "calls (snd (ResumeRun (with_backend Files (demo_rt 1)) no_ctx ''dev'' ''r'' created)) =
     [(''a'', 1), (''a'', 2), (''b'', 1)]"
  by code_simp

lemma created_ok: "store_ok created"
  by code_simp

section \<open>Sequences of calls\<close>

text \<open>The calls of the runtime's callers, and worlds reachable by them while other goroutines act.\<close>

datatype rt_call = CallCreate run_spec | CallStart run_spec | CallResume string string
  | CallCancel string string | CallReplay string string string
  | CallApprove string string string string string

fun exec_call :: "runtime \<Rightarrow> ctxt \<Rightarrow> rt_call \<Rightarrow> wf_run rt_act" where
  "exec_call rt ctx (CallCreate spec) = CreateRun rt spec"
| "exec_call rt ctx (CallStart spec) = StartRun rt ctx spec"
| "exec_call rt ctx (CallResume stage i) = ResumeRun rt ctx stage i"
| "exec_call rt ctx (CallCancel stage i) = CancelRun rt stage i"
| "exec_call rt ctx (CallReplay stage i sid) = ReplayRunFromStep rt ctx stage i sid"
| "exec_call rt ctx (CallApprove stage i sid d v) = ResolveApproval rt stage i sid d v"

inductive reach :: "runtime \<Rightarrow> world \<Rightarrow> world \<Rightarrow> bool" for rt w0 where
  start: "reach rt w0 w0"
| call: "reach rt w0 w \<Longrightarrow> exec_call rt ctx c (w\<lparr>ext := es\<rparr>) = (x, w') \<Longrightarrow> reach rt w0 w'"

inductive_cases reachE: "reach rt w0 w"

context durable_runtime
begin

lemma locks_back: "triple P m Q E \<Longrightarrow> same_locks m \<Longrightarrow> P w \<Longrightarrow> m w = (x, w') \<Longrightarrow>
    held w' = held w \<and> (case x of Inl e \<Rightarrow> E e w' | Inr a \<Rightarrow> Q a w')"
  by (auto simp: triple_def same_locks_def)

abbreviation goodE :: "rt_fail \<Rightarrow> world \<Rightarrow> bool" where
  "goodE e w \<equiv> all_runs good_entry w"

lemma start_good:
  "triple (\<lambda>w. all_runs good_entry w \<and> held w = []) (StartRun rt ctx spec)
    (\<lambda>_. all_runs good_entry) goodE"
  unfolding StartRun_def
proof (rule triple_bind [of _ _ "\<lambda>_ w. all_runs good_entry w \<and> held w = []"])
  have "triple (\<lambda>w. held w = []) (CreateRun rt spec) (\<lambda>_ w. held w = []) (\<lambda>_ _. True)"
    using CreateRun_quiet unfolding quiet_def by (intro tripleI) simp_all
  then show "triple (\<lambda>w. all_runs good_entry w \<and> held w = []) (CreateRun rt spec)
      (\<lambda>_ w. all_runs good_entry w \<and> held w = []) goodE"
    using CreateRun_good [of spec] unfolding triple_def by (fastforce split: prod.splits sum.splits)
  show "triple (\<lambda>w. all_runs good_entry w \<and> held w = [])
      (ResumeRun rt ctx (run_Stage a) (run_RunID a)) (\<lambda>_. all_runs good_entry) goodE" for a
    by (rule triple_conseq [OF ResumeRun_good]) simp_all
qed

lemma call_good:
  "triple (\<lambda>w. all_runs good_entry w \<and> held w = []) (exec_call rt ctx c) (\<lambda>_. all_runs good_entry) goodE"
  by (cases c) (auto intro: start_good triple_conseq [OF CreateRun_good] triple_conseq [OF ResumeRun_good]
    triple_conseq [OF CancelRun_good] triple_conseq [OF ResolveApproval_good]
    triple_conseq [OF ReplayRun_good])

lemma call_locks: "same_locks (exec_call rt ctx c)"
proof (cases c)
  case (CallCancel stage i)
  then show ?thesis
    by (simp add: CancelRun_def markCancelRequested_eq)
      (intro same_locks_quiet quiet_bind quiet_load quiet_save)
qed (auto simp: StartRun_def intro!: same_locks_bind ResumeRun_locks ReplayRun_locks
  ResolveApproval_locks same_locks_quiet [OF CreateRun_quiet])

end

section \<open>The promises\<close>

text \<open>
  C1. Whatever sequence of calls is made on a runtime over a local backend, and whatever cancel
  requests and I/O errors arrive meanwhile, every stored run stays under its own key, a stored
  run is OK only if all its steps are OK and no replay is pending, no step has more attempts
  than it may, and every call has given back the run locks it took.
\<close>

theorem runtime_reach_invariant:
  assumes "reach (with_backend b rt) w0 w" and "store_ok w0" and "held w0 = []"
  shows "store_ok w \<and> held w = []"
  using assms(1)
proof (induction rule: reach.induct)
  case start
  then show ?case using assms(2,3) by simp
next
  case (call w ctx c es x w')
  then have "files.all_runs good_entry (w\<lparr>ext := es\<rparr>) \<and> held (w\<lparr>ext := es\<rparr>) = []"
    by (simp add: store_ok_all_runs files.all_runs_def)
  from local.locks_back [OF local.call_good local.call_locks this call.hyps(2)]
  show ?case using call.IH by (cases x) (simp_all add: store_ok_all_runs)
qed

theorem runtime_reach_invariant_witness:
  "store_ok (snd (ResumeRun (with_backend Files (demo_rt 1)) no_ctx ''dev'' ''r''
     (created\<lparr>ext := [Quiet, IOFail]\<rparr>))) \<and>
   held (snd (ResumeRun (with_backend Files (demo_rt 1)) no_ctx ''dev'' ''r''
     (created\<lparr>ext := [Quiet, IOFail]\<rparr>))) = []"
proof (rule runtime_reach_invariant)
  show "reach (with_backend Files (demo_rt 1)) created
     (snd (ResumeRun (with_backend Files (demo_rt 1)) no_ctx ''dev'' ''r'' (created\<lparr>ext := [Quiet, IOFail]\<rparr>)))"
    by (rule reach.call [OF reach.start, where ctx = no_ctx and es = "[Quiet, IOFail]"
        and c = "CallResume ''dev'' ''r''"]) (simp only: exec_call.simps, rule surjective_pairing)
  show "store_ok created" by code_simp
  show "held created = []" by code_simp
qed

text \<open>
  C16. A resume that returns a run without error returns the run that is stored, in a terminal or
  paused state; if it reports OK then every step of the run is OK.
\<close>

theorem ResumeRun_result:
  assumes "store_ok w" and "Locker rt = None \<longrightarrow> (stage, i) \<notin> set (held w)"
    and "ResumeRun (with_backend b rt) ctx stage i w = (Inr r, w')"
  shows "map_option norm_run (file_view w' (stage, i)) = Some (norm_run r) \<and>
    (IsWorkflowRunTerminal (run_Status r) \<or> run_Status r = RunStatusPaused) \<and>
    (run_Status r = RunStatusOK \<longrightarrow> (\<forall>s \<in> set (run_Steps r). sr_Status s = StepStatusOK))"
proof -
  have "local.saved good_entry (stage, i) r w'"
    using triple_Inr [OF local.ResumeRun_good _ assms(3)] assms(1,2) by (simp add: store_ok_all_runs)
  then have good: "good_entry (stage, i) r" and "local.stored (stage, i) r w'" by simp_all
  from local.storedD [OF this(2)]
  have st: "map_option norm_run (file_view w' (stage, i)) = Some (norm_run r)" .
  have "run_Status r \<in> {r. IsWorkflowRunTerminal r \<or> r = RunStatusPaused}"
    using triple_Inr [OF local.ResumeRun_status [unfolded status_in_def] _ assms(3)] by simp
  with st good show ?thesis by (simp add: good_entry_def ok_consistent_def)
qed

theorem ResumeRun_result_witness:
  "case ResumeRun (with_backend Files (demo_rt 1)) no_ctx ''dev'' ''r'' created of
     (Inr r, w') \<Rightarrow> run_Status r = RunStatusOK \<and> (\<forall>s \<in> set (run_Steps r). sr_Status s = StepStatusOK)
   | _ \<Rightarrow> False"
proof -
  let ?m = "ResumeRun (with_backend Files (demo_rt 1)) no_ctx ''dev'' ''r''"
  have run: "case ?m created of (Inr r, w') \<Rightarrow> run_Status r = RunStatusOK | _ \<Rightarrow> False" by code_simp
  then obtain r w' where eq: "?m created = (Inr r, w')" and ok: "run_Status r = RunStatusOK"
    by (auto split: prod.splits sum.splits)
  have "store_ok created" "held created = []" by code_simp+
  with ResumeRun_result [OF _ _ eq] ok show ?thesis by (simp only: eq prod.case sum.case) simp
qed

text \<open>
  C39. A resume never panics on a step index and never waits for a lock it holds itself; a run it
  returns beside an error is the stored one and has failed, timed out or been cancelled.
\<close>

theorem ResumeRun_error:
  assumes "store_ok w" and "Locker rt = None \<longrightarrow> (stage, i) \<notin> set (held w)"
    and "ResumeRun (with_backend b rt) ctx stage i w = (Inl (ro, e), w')"
  shows "e \<noteq> IndexPanic \<and> e \<noteq> LockBlocked \<and> (case ro of None \<Rightarrow> True | Some r \<Rightarrow>
    map_option norm_run (file_view w' (stage, i)) = Some (norm_run r) \<and>
    run_Status r \<in> {RunStatusFailed, RunStatusTimedOut, RunStatusCancelled})"
proof -
  have "local.failed good_entry (stage, i) (ro, e) w'"
    using triple_Inl [OF local.ResumeRun_good _ assms(3)] assms(1,2) by (simp add: store_ok_all_runs)
  then have "e \<noteq> IndexPanic" "e \<noteq> LockBlocked"
    and st: "\<forall>r. ro = Some r \<longrightarrow> map_option norm_run (file_view w' (stage, i)) = Some (norm_run r)"
    by (auto simp: local.good_err_def dest: local.storedD)
  moreover have "\<forall>r. ro = Some r \<longrightarrow> run_Status r \<in> ended"
    using triple_Inl [OF local.ResumeRun_status [unfolded status_in_def] _ assms(3)] by simp
  ultimately show ?thesis by (auto simp: ended_def split: option.split)
qed

theorem ResumeRun_error_witness:
  "case ResumeRun (with_backend Files (demo_rt 5)) no_ctx ''dev'' ''r'' created of
     (Inl (Some r, e), w') \<Rightarrow> e \<noteq> IndexPanic \<and>
        run_Status r \<in> {RunStatusFailed, RunStatusTimedOut, RunStatusCancelled}
   | _ \<Rightarrow> False"
proof -
  let ?m = "ResumeRun (with_backend Files (demo_rt 5)) no_ctx ''dev'' ''r''"
  have "case ?m created of (Inl (Some r, e), w') \<Rightarrow> True | _ \<Rightarrow> False" by code_simp
  then obtain r e w' where eq: "?m created = (Inl (Some r, e), w')"
    by (auto split: prod.splits sum.splits option.splits)
  have "store_ok created" "held created = []" by code_simp+
  with ResumeRun_error [OF _ _ eq] show ?thesis
    by (simp only: eq prod.case sum.case option.case) simp
qed

text \<open>
  C15. Executing a step hands it to the handler for the attempts that follow its attempt count, in
  order and each once, and never beyond its maximum (at least one): a resumed step does not get
  more attempts than it was given.
\<close>

theorem executeStep_attempts:
  assumes "attempts_ok (run_Steps run ! idx)"
    and "executeStep (with_backend b rt) h ctx run idx w = (x, w')"
  shows "\<exists>cs last. calls w' = calls w @ cs \<and>
    map snd cs = [sr_AttemptCount (run_Steps run ! idx) + 1..last] \<and>
    last \<le> max 1 (sr_MaxAttempts (run_Steps run ! idx))"
  using local.executeStep_numbered [OF assms(1), of b rt h ctx] assms(2) unfolding numbered_def by blast

definition demo_handler :: "nat \<Rightarrow> nat \<Rightarrow> wf_run \<Rightarrow> step_run \<Rightarrow> handler_reply" where
  "demo_handler n i run s = (if i < n then err_reply else ok_reply)"

theorem executeStep_attempts_witness:
  "\<exists>cs last. calls (snd (executeStep (with_backend Files (demo_rt 5)) (demo_handler 5) no_ctx
       (new_run demo_spec ''r'' 0) 0 created)) = calls created @ cs \<and>
     map snd cs = [0 + 1..last] \<and> last \<le> max 1 2"
proof -
  have s: "attempts_ok (run_Steps (new_run demo_spec ''r'' 0) ! 0)"
    "sr_AttemptCount (run_Steps (new_run demo_spec ''r'' 0) ! 0) = 0"
    "sr_MaxAttempts (run_Steps (new_run demo_spec ''r'' 0) ! 0) = 2" by code_simp+
  from executeStep_attempts [OF s(1) surjective_pairing] show ?thesis by (simp only: s)
qed

text \<open>
  Resuming a run that has ended (and is not to be replayed) executes no step and leaves every
  stored run as it is, but for cancel requests of others.
\<close>

theorem ResumeRun_terminal:
  assumes "file_view w (stage, i) = Some r" and "IsWorkflowRunTerminal (run_Status r)"
    and "run_ReplayFromStep r = ''''"
    and "ResumeRun (with_backend b rt) ctx stage i w = (x, w')"
  shows "calls w' = calls w \<and> ext_upd (file_view w k) (file_view w' k) \<and>
    (case x of Inl e \<Rightarrow> fst e = None
     | Inr r' \<Rightarrow> run_Steps r' = run_Steps r \<and> run_Status r' = run_Status r)"
proof -
  let ?rt = "with_backend b rt"
  obtain y w1 where acq: "acquireRunLock ?rt stage i w = (y, w1)" by fastforce
  then have w1: "calls w1 = calls w" "file_view w1 = file_view w" "\<And>e. y = Inl e \<Longrightarrow> fst e = None"
    by (auto simp: acquireRunLock_def split: option.splits if_splits)
  obtain z w2 where body: "resumeRunLocked ?rt ctx stage i w1 = (z, w2)" by fastforce
  have z: "calls w2 = calls w1 \<and> ext_upd (file_view w1 k) (file_view w2 k) \<and>
      (case z of Inl e \<Rightarrow> fst e = None
       | Inr r' \<Rightarrow> run_Steps r' = run_Steps r \<and> run_Status r' = run_Status r)"
  proof (cases "Handler rt")
    case None
    with body show ?thesis by (auto simp: resumeRunLocked_def)
  next
    case (Some h)
    obtain l w3 where ld: "loadRun ?rt stage i w1 = (l, w3)" by fastforce
    note fr = local.ld_frame [OF ld, of k] local.ghosts(1) [OF ld]
    show ?thesis
    proof (cases l)
      case (Inl e)
      with body Some ld have "z = Inl e" "w2 = w3" by (simp_all add: resumeRunLocked_def bindE_def)
      with fr local.ld_err [of b rt stage i w1 e w3] ld Inl show ?thesis by (simp add: store_error_def)
    next
      case (Inr r')
      have "ext_upd (Some r) (Some r')"
        using local.ld_frame [OF ld, of "(stage, i)"] local.ld_ok [of b rt stage i w1 r' w3] ld Inr
          assms(1) w1(2) by simp
      then have r': "run_Steps r' = run_Steps r" "run_Status r' = run_Status r"
        "run_ReplayFromStep r' = ''''" using assms(3) by (auto simp: ext_upd_def)
      with body Some ld Inr assms(2) have "z = Inr r'" "w2 = w3"
        by (simp_all add: resumeRunLocked_def bindE_def)
      with fr r' show ?thesis by simp
    qed
  qed
  show ?thesis
  proof (cases y)
    case (Inl e)
    with assms(4) acq have "x = Inl e" "w' = w1" by (simp_all add: ResumeRun_def withRunLock_def bindE_def)
    with w1 Inl show ?thesis by simp
  next
    case (Inr u)
    with assms(4) acq body have "x = z" "w' = releaseRunLock stage i w2"
      by (simp_all add: ResumeRun_def withRunLock_def bindE_def finallyE_def)
    with z w1 show ?thesis by (simp add: releaseRunLock_def)
  qed
qed

definition finished :: world where
  "finished = snd (ResumeRun (with_backend Files (demo_rt 0)) no_ctx ''dev'' ''r'' created)"

theorem ResumeRun_terminal_witness:
  "calls (snd (ResumeRun (with_backend Files (demo_rt 0)) no_ctx ''dev'' ''r'' finished)) = calls finished"
proof -
  have "case file_view finished (''dev'', ''r'') of None \<Rightarrow> False
      | Some r \<Rightarrow> IsWorkflowRunTerminal (run_Status r) \<and> run_ReplayFromStep r = ''''" by code_simp
  then obtain r where r: "file_view finished (''dev'', ''r'') = Some r"
    "IsWorkflowRunTerminal (run_Status r)" "run_ReplayFromStep r = ''''"
    by (auto split: option.splits)
  from ResumeRun_terminal [OF r surjective_pairing] show ?thesis by blast
qed

text \<open>
  Replaying a run from a step keeps the steps before it, and the step ids of all of them: in
  the run it returns, with or without an error, and in the stored one.
\<close>

theorem ReplayRun_prefix:
  assumes "store_ok w" and "Locker rt = None \<longrightarrow> (stage, i) \<notin> set (held w)"
    and "file_view w (stage, i) = Some r0" and "stepID \<noteq> ''''"
    and "find_index (\<lambda>s. sr_StepID s = stepID) (run_Steps r0) = Some n"
    and "ReplayRunFromStep (with_backend b rt) ctx stage i stepID w = (x, w')"
    and "x = Inr r \<or> x = Inl (Some r, e) \<or> file_view w' (stage, i) = Some r"
  shows "map sr_StepID (run_Steps r) = map sr_StepID (run_Steps r0) \<and>
    map norm_step (take n (run_Steps r)) = map norm_step (take n (run_Steps r0))"
proof -
  let ?F = "run_inv UNIV (stage, i) (map sr_StepID (run_Steps r0)) n (map norm_step (take n (run_Steps r0)))"
  have "files.all_runs ?F w' \<and> (case x of Inr r \<Rightarrow> ?F (stage, i) r
      | Inl e \<Rightarrow> (\<forall>r. fst e = Some r \<longrightarrow> ?F (stage, i) r))"
  proof (cases x)
    case (Inr r)
    with triple_Inr [OF local.ReplayRun_keeps [OF assms(5,4) refl refl] _ assms(6) [unfolded Inr]]
    show ?thesis using assms(1-3) by (simp add: store_ok_all_runs)
  next
    case (Inl e)
    with triple_Inl [OF local.ReplayRun_keeps [OF assms(5,4) refl refl] _ assms(6) [unfolded Inl]]
    show ?thesis using assms(1-3) by (simp add: store_ok_all_runs local.good_err_def)
  qed
  then have "?F (stage, i) r"
    using assms(7) by (auto simp: files.all_runs_def)
  then show ?thesis by (simp add: run_inv_def)
qed

theorem ReplayRun_prefix_witness:
  "case file_view (snd (ReplayRunFromStep (with_backend Files (demo_rt 9)) no_ctx ''dev'' ''r'' ''b'' finished))
      (''dev'', ''r'') of
     None \<Rightarrow> False
   | Some r \<Rightarrow> run_Status r = RunStatusFailed \<and> map sr_StepID (run_Steps r) = [''a'', ''b'']"
proof -
  let ?m = "ReplayRunFromStep (with_backend Files (demo_rt 9)) no_ctx ''dev'' ''r'' ''b'' finished"
  have "case file_view finished (''dev'', ''r'') of None \<Rightarrow> False
      | Some r0 \<Rightarrow> find_index (\<lambda>s. sr_StepID s = ''b'') (run_Steps r0) = Some 1 \<and>
          map sr_StepID (run_Steps r0) = [''a'', ''b'']" by code_simp
  then obtain r0 where r0: "file_view finished (''dev'', ''r'') = Some r0"
    "find_index (\<lambda>s. sr_StepID s = ''b'') (run_Steps r0) = Some 1"
    "map sr_StepID (run_Steps r0) = [''a'', ''b'']"
    by (auto split: option.splits)
  have "case file_view (snd ?m) (''dev'', ''r'') of None \<Rightarrow> False
      | Some r \<Rightarrow> run_Status r = RunStatusFailed" by code_simp
  then obtain r where r: "file_view (snd ?m) (''dev'', ''r'') = Some r" "run_Status r = RunStatusFailed"
    by (auto split: option.splits)
  have ok: "store_ok finished" "(''dev'', ''r'') \<notin> set (held finished)" by code_simp+
  from ReplayRun_prefix [OF ok(1) _ r0(1) _ r0(2) surjective_pairing, of "demo_rt 9" Files no_ctx r] ok r r0(3)
  show ?thesis by simp
qed

end
