(* ===== verification/Runtime_Cases.thy ===== *)
theory Runtime_Cases
  imports Runtime_Claims
begin

text \<open>
  Particular behaviours of the workflow runtime: recovery after a crash, cancellation at the last
  step, races of a cancel request with a running execution, and failed replays.
\<close>

section \<open>Crash recovery\<close>

lemma recover_step_result:
  assumes "recover_step (with_backend b rt) run idx w = (Inr r, w')" and "idx < length (run_Steps run)"
    and "sr_Status (run_Steps run ! idx) = StepStatusRunning"
  shows "run_Steps r = (run_Steps run)[idx := (run_Steps run ! idx)\<lparr>sr_Status := StepStatusPending,
      sr_AttemptCount := (if sr_AttemptCount (run_Steps run ! idx) > 0
        then sr_AttemptCount (run_Steps run ! idx) - 1 else sr_AttemptCount (run_Steps run ! idx))\<rparr>]"
proof -
  from assms(1,3) obtain c w1 where
    "saveRun (with_backend b rt) ((upd_step idx (\<lambda>s. s\<lparr>sr_Status := StepStatusPending,
        sr_AttemptCount := (if sr_AttemptCount s > 0 then sr_AttemptCount s - 1
                            else sr_AttemptCount s)\<rparr>) run)\<lparr>run_Checkpoint := c\<rparr>) w1 = (Inr r, w')"
    unfolding recover_step_def Let_def by (fastforce elim!: bindE_Inr_E)
  from local.sv_ok [OF this] show ?thesis by (auto simp: upd_step_def)
qed

text \<open>
  A step left running by a crash is recovered with its interrupted attempt not counted: it is
  pending again, the next execution has the number of the interrupted one, and the other steps
  are as they were. So a crash never uses up an attempt.
\<close>

theorem crash_recovery_keeps_attempt:
  assumes "recover_step (with_backend b rt) run idx w = (Inr r, w')" and "idx < length (run_Steps run)"
    and "sr_Status (run_Steps run ! idx) = StepStatusRunning" and "0 < sr_AttemptCount (run_Steps run ! idx)"
  shows "sr_Status (run_Steps r ! idx) = StepStatusPending \<and>
    sr_AttemptCount (run_Steps r ! idx) + 1 = sr_AttemptCount (run_Steps run ! idx) \<and>
    (\<forall>k. k \<noteq> idx \<longrightarrow> run_Steps r ! k = run_Steps run ! k)"
  using recover_step_result [OF assms(1-3)] assms(2,4) by simp

definition crashed_run :: wf_run where
  "crashed_run = upd_step 0 (\<lambda>s. s\<lparr>sr_Status := StepStatusRunning, sr_AttemptCount := 1\<rparr>)
     (new_run demo_spec ''r'' 0)"

theorem crash_recovery_keeps_attempt_witness:
  "case recover_step (with_backend Files (demo_rt 0)) crashed_run 0 created of
     (Inr r, w') \<Rightarrow> sr_Status (run_Steps r ! 0) = StepStatusPending \<and> sr_AttemptCount (run_Steps r ! 0) = 0
   | _ \<Rightarrow> False"
proof -
  let ?m = "recover_step (with_backend Files (demo_rt 0)) crashed_run 0 created"
  have "case ?m of (Inr r, w') \<Rightarrow> True | _ \<Rightarrow> False" by code_simp
  then obtain r w' where eq: "?m = (Inr r, w')" by (auto split: prod.splits sum.splits)
  have h: "0 < length (run_Steps crashed_run)" "sr_Status (run_Steps crashed_run ! 0) = StepStatusRunning"
    "sr_AttemptCount (run_Steps crashed_run ! 0) = 1" by code_simp+
  from crash_recovery_keeps_attempt [OF eq h(1,2)] h(3) show ?thesis by (simp only: eq prod.case sum.case) simp
qed

section \<open>Cancellation\<close>

text \<open>
  Cancelling a run leaves the steps before the current one and every step that has already
  ended as they are, marks all the others cancelled, and the run with them.
\<close>

theorem markCancelled_effect:
  assumes "markCancelled (with_backend b rt) run idx w = (Inr r, w')"
  shows "run_Status r = RunStatusCancelled \<and> take idx (run_Steps r) = take idx (run_Steps run) \<and>
    list_all2 (\<lambda>s s'. if IsWorkflowStepTerminal (sr_Status s) then s' = s
        else sr_Status s' = StepStatusCancelled \<and> sr_StepID s' = sr_StepID s \<and> sr_Error s' \<noteq> '''')
      (drop idx (run_Steps run)) (drop idx (run_Steps r))"
proof -
  from assms obtain ss w1 e c d w2 where cs: "cancel_steps (with_backend b rt) (drop idx (run_Steps run)) w = (Inr ss, w1)"
    and sv: "saveRun (with_backend b rt) (run\<lparr>run_Steps := take idx (run_Steps run) @ ss,
       run_Status := RunStatusCancelled, run_EndedAt := e, run_DurationMs := d,
       run_Checkpoint := c\<rparr>) w2 = (Inr r, w')"
    unfolding markCancelled_def by (elim bindE_Inr_E) blast
  have l: "list_all2 cancelled_from (drop idx (run_Steps run)) ss"
    using triple_Inr [OF local.cancel_steps_triple [where P = "\<lambda>_ _. True" and E = "\<lambda>_ _. True"] _ cs]
    by (simp add: files.all_runs_def)
  from local.sv_ok [OF sv] have r: "run_Steps r = take idx (run_Steps run) @ ss"
    "run_Status r = RunStatusCancelled" by auto
  have d: "drop idx (run_Steps r) = ss \<or> drop idx (run_Steps run) = []"
    by (cases "idx \<le> length (run_Steps run)") (simp_all add: r)
  have "list_all2 (\<lambda>s s'. if IsWorkflowStepTerminal (sr_Status s) then s' = s
        else sr_Status s' = StepStatusCancelled \<and> sr_StepID s' = sr_StepID s \<and> sr_Error s' \<noteq> '''')
      (drop idx (run_Steps run)) ss"
    using l by (rule list_all2_mono) (auto simp: cancelled_from_def cancel_step_def Let_def split: if_splits)
  moreover have "ss = []" if "drop idx (run_Steps run) = []" using l that by simp
  ultimately show ?thesis using d r by (auto simp: min_def)
qed

theorem markCancelled_effect_witness:
  "case markCancelled (with_backend Files (demo_rt 0)) crashed_run 0 created of
     (Inr r, w') \<Rightarrow> run_Status r = RunStatusCancelled | _ \<Rightarrow> False"
proof -
  let ?m = "markCancelled (with_backend Files (demo_rt 0)) crashed_run 0 created"
  have "case ?m of (Inr r, w') \<Rightarrow> True | _ \<Rightarrow> False" by code_simp
  then obtain r w' where eq: "?m = (Inr r, w')" by (auto split: prod.splits sum.splits)
  from markCancelled_effect [OF eq] show ?thesis by (simp only: eq prod.case sum.case)
qed

text \<open>
  A cancel request noticed when the last step starts is not reported as such: the step and the
  run are marked cancelled and saved, then the run is marked failed and the resume reports that
  the step did not succeed.
\<close>

theorem cancel_at_last_step_fails:
  assumes "executeStep (with_backend b rt) h ctx run idx w = (Inr r, w1)"
    and "run_Status r = RunStatusCancelled" and "firstUnsuccessfulStep r = Some s"
    and "sr_Status s = StepStatusCancelled"
  shows "case bindE (executeStep (with_backend b rt) h ctx run idx) (\<lambda>run2.
           if run_Status run2 = RunStatusPaused then returnE run2
           else resume_steps (with_backend b rt) h ctx replay run2 []) w of
     (Inr r', w') \<Rightarrow> False
   | (Inl (ro, e), w') \<Rightarrow> (case ro of None \<Rightarrow> True | Some r' \<Rightarrow>
       e = StepNotOK (sr_StepID s) StepStatusCancelled \<and> run_Status r' = RunStatusFailed)"
proof -
  let ?rt = "with_backend b rt"
  have "triple (\<lambda>_. True) (finish_run ?rt r) (\<lambda>_ _. False)
      (\<lambda>e _. \<forall>r'. fst e = Some r' \<longrightarrow> snd e = StepNotOK (sr_StepID s) StepStatusCancelled \<and>
         run_Status r' = RunStatusFailed)"
  proof -
    have save: "triple (\<lambda>_. True) (saveRun ?rt q) (\<lambda>r' _. run_Status r' = RunStatusFailed)
        (\<lambda>e _. \<forall>r'. fst e = Some r' \<longrightarrow> snd e = StepNotOK (sr_StepID s) StepStatusCancelled \<and>
           run_Status r' = RunStatusFailed)" if "run_Status q = RunStatusFailed" for q
      using that by (intro tripleI) (auto dest: local.sv_ok local.sv_err simp: store_error_def)
    have now: "triple (\<lambda>_. True) (nowUTC ?rt) (\<lambda>_ _. True) E" for E
      by (auto simp: triple_def nowUTC_def time_Now_def split: option.split)
    show ?thesis
      unfolding finish_run_def assms(3) option.case Let_def assms(4)
      by (intro triple_bind [OF now] triple_bind [OF save]) (auto simp: triple_def fail_status_def)
  qed
  then have "case finish_run ?rt r w1 of (Inr r', w') \<Rightarrow> False
      | (Inl e, w') \<Rightarrow> \<forall>r'. fst e = Some r' \<longrightarrow> snd e = StepNotOK (sr_StepID s) StepStatusCancelled \<and>
         run_Status r' = RunStatusFailed"
    by (simp add: triple_def)
  then show ?thesis
    using assms(1,2) by (simp add: bindE_def split: prod.split sum.split)
      (auto split: option.split)
qed

text \<open>A request that arrives while the second of two steps is about to start.\<close>

definition cancel_run :: wf_run where
  "cancel_run = upd_step 0 (\<lambda>s. s\<lparr>sr_Status := StepStatusOK, sr_AttemptCount := 1\<rparr>)
     (new_run demo_spec ''r'' 0)"

definition cancel_world :: world where
  "cancel_world = created\<lparr>runs := [((''dev'', ''r''), RunFile cancel_run)], ext := [CancelArrives (Stamp 7)]\<rparr>"

theorem cancel_at_last_step_fails_witness:
  "\<exists>(r::wf_run) (s::step_run) w1. executeStep (with_backend Files (demo_rt 0)) (demo_handler 0) no_ctx cancel_run 1 cancel_world =
     (Inr r, w1) \<and> run_Status r = RunStatusCancelled \<and>
   (case bindE (executeStep (with_backend Files (demo_rt 0)) (demo_handler 0) no_ctx cancel_run 1) (\<lambda>run2.
           if run_Status run2 = RunStatusPaused then returnE run2
           else resume_steps (with_backend Files (demo_rt 0)) (demo_handler 0) no_ctx None run2 []) cancel_world of
     (Inr r', w') \<Rightarrow> False
   | (Inl (ro, e), w') \<Rightarrow> (case ro of None \<Rightarrow> True | Some r' \<Rightarrow>
       e = StepNotOK (sr_StepID s) StepStatusCancelled \<and> run_Status r' = RunStatusFailed))"
proof -
  let ?m = "executeStep (with_backend Files (demo_rt 0)) (demo_handler 0) no_ctx cancel_run 1 cancel_world"
  have "case ?m of (Inr r, w1) \<Rightarrow> run_Status r = RunStatusCancelled \<and>
      (case firstUnsuccessfulStep r of Some s \<Rightarrow> sr_Status s = StepStatusCancelled | None \<Rightarrow> False)
    | _ \<Rightarrow> False" by code_simp
  then obtain r w1 s where eq: "?m = (Inr r, w1)" and h: "run_Status r = RunStatusCancelled"
    "firstUnsuccessfulStep r = Some s" "sr_Status s = StepStatusCancelled"
    by (auto split: prod.splits sum.splits option.splits)
  from eq h(1) cancel_at_last_step_fails [OF eq h, of None] show ?thesis by (intro exI conjI)
qed

section \<open>Cancel requests that race with the execution\<close>

text \<open>
  \<^verbatim>\<open>CancelRun\<close> takes no lock. Its load and its save are two operations, and the executor of the
  run may save between them, or the request may fall between the executor's load and save.
\<close>

text \<open>
  Whichever of the two saves last decides the whole record: a cancel request that loaded the
  run before the executor's save puts the old steps back, and a request that falls between the
  executor's load and save is forgotten.
\<close>

theorem cancel_race:
  assumes "loadRun (with_backend b rt) stage i w = (Inr r, w1)"
    and "(run_Stage r, run_RunID r) = (stage, i)" and "(run_Stage r2, run_RunID r2) = (stage, i)"
    and "saveRun (with_backend b rt) r2 w1 = (Inr r2', w2)"
    and "saveRun (with_backend b rt) (r\<lparr>run_CancelRequested := True\<rparr>) w2 = (Inr rc, w3)"
    and "saveRun (with_backend b rt) (r\<lparr>run_CancelRequested := True\<rparr>) w1 = (Inr rd, w4)"
    and "saveRun (with_backend b rt) r2 w4 = (Inr r2'', w5)"
  shows "map_option run_Steps (file_view w3 (stage, i)) = Some (map norm_step (run_Steps r)) \<and>
    map_option run_CancelRequested (file_view w5 (stage, i)) = Some (run_CancelRequested r2)"
  using local.sv_ok [OF assms(5)] local.sv_ok [OF assms(7)] assms(2,3) by auto

definition race_load :: "(rt_fail + wf_run) \<times> world" where
  "race_load = loadRun (with_backend Files (demo_rt 0)) ''dev'' ''r'' created"

theorem cancel_race_witness:
  "\<exists>w3 w5. map_option run_Steps (file_view w3 (''dev'', ''r'')) =
     Some (map norm_step (run_Steps (new_run demo_spec ''r'' 0))) \<and>
   map_option run_CancelRequested (file_view w5 (''dev'', ''r'')) = Some False"
proof -
  let ?rt = "with_backend Files (demo_rt 0)"
  let ?r0 = "new_run demo_spec ''r'' 0"
  have l: "case loadRun ?rt ''dev'' ''r'' created of (Inr r, w1) \<Rightarrow> run_Stage r = ''dev'' \<and> run_RunID r = ''r'' \<and>
      run_Steps r = run_Steps ?r0 \<and> ext w1 = [] | _ \<Rightarrow> False" by code_simp
  then obtain r w1 where 1: "loadRun ?rt ''dev'' ''r'' created = (Inr r, w1)" and
    r: "run_Stage r = ''dev''" "run_RunID r = ''r''" "run_Steps r = run_Steps ?r0" and e1: "ext w1 = []"
    by (auto split: prod.splits sum.splits)
  have sv: "\<exists>q w'. saveRun ?rt q0 w = (Inr q, w') \<and> ext w' = []"
    if "run_Stage q0 = ''dev''" "run_RunID q0 = ''r''" "ext w = []" for q0 w
    using that by (simp add: saveRun_backend SaveWorkflowRun_apply storage_def del: with_backend.simps)
  let ?r2 = "cancel_run"
  have r2: "run_Stage ?r2 = ''dev''" "run_RunID ?r2 = ''r''" "\<not> run_CancelRequested ?r2" by code_simp+
  from sv [OF r2(1,2) e1] obtain q2 w2 where 2: "saveRun ?rt ?r2 w1 = (Inr q2, w2)" "ext w2 = []" by blast
  from sv [of "r\<lparr>run_CancelRequested := True\<rparr>", OF _ _ 2(2)] r
  obtain q3 w3 where 3: "saveRun ?rt (r\<lparr>run_CancelRequested := True\<rparr>) w2 = (Inr q3, w3)" by auto
  from sv [of "r\<lparr>run_CancelRequested := True\<rparr>", OF _ _ e1] r
  obtain q4 w4 where 4: "saveRun ?rt (r\<lparr>run_CancelRequested := True\<rparr>) w1 = (Inr q4, w4)" "ext w4 = []" by auto
  from sv [OF r2(1,2) 4(2)] obtain q5 w5 where 5: "saveRun ?rt ?r2 w4 = (Inr q5, w5)" by blast
  have "map_option run_Steps (file_view w3 (''dev'', ''r'')) = Some (map norm_step (run_Steps ?r0)) \<and>
      map_option run_CancelRequested (file_view w5 (''dev'', ''r'')) = Some False"
    using cancel_race [OF 1 _ _ 2(1) 3 4(1) 5] r r2 by simp
  then show ?thesis by blast
qed

end
