(* ===== verification/Runtime_Progress.thy ===== *)
theory Runtime_Progress
  imports Runtime_Cases
begin

text \<open>
  Progress of the workflow runtime: undisturbed, a run whose handler succeeds is created,
  executed step by step in order, and ends OK.
\<close>

section \<open>Undisturbed worlds\<close>

text \<open>No outside event is due, the run is stored as \<open>r\<close>, with the given executions and locks.\<close>

definition calm :: "run_key \<Rightarrow> wf_run \<Rightarrow> (string \<times> int) list \<Rightarrow> run_key list \<Rightarrow> world \<Rightarrow> bool" where
  "calm k r c H w \<longleftrightarrow> ext w = [] \<and> file_view w k = Some r \<and> calls w = c \<and> held w = H"

abbreviation never :: "rt_fail \<Rightarrow> world \<Rightarrow> bool" where
  "never \<equiv> \<lambda>_ _. False"

text \<open>
  \<open>prog ids n r\<close>: the run is running and not to be cancelled or replayed, its first \<open>n\<close> steps are
  OK and the others have not been tried.
\<close>

definition prog :: "run_key \<Rightarrow> string list \<Rightarrow> nat \<Rightarrow> wf_run \<Rightarrow> bool" where
  "prog k ids n r \<longleftrightarrow> (run_Stage r, run_RunID r) = k \<and> run_Status r = RunStatusRunning \<and>
     \<not> run_CancelRequested r \<and> run_ReplayFromStep r = '''' \<and> map sr_StepID (run_Steps r) = ids \<and>
     (\<forall>j < length ids. if j < n then sr_Status (run_Steps r ! j) = StepStatusOK
        else sr_Status (run_Steps r ! j) = StepStatusPending \<and> sr_AttemptCount (run_Steps r ! j) = 0)"

lemma prog_len: "prog k ids n r \<Longrightarrow> length (run_Steps r) = length ids"
  by (auto simp: prog_def)

lemma prog_upd [simp]: "prog k ids n (r\<lparr>run_UpdatedAt := t\<rparr>) = prog k ids n r"
  by (simp add: prog_def)

lemma prog_norm [simp]: "prog k ids n r \<Longrightarrow> prog k ids n (norm_run r)"
  using prog_len [of k ids n r] by (simp add: prog_def o_def)

text \<open>The run while step \<open>n\<close> executes its first attempt.\<close>

definition trying :: "run_key \<Rightarrow> string list \<Rightarrow> nat \<Rightarrow> wf_run \<Rightarrow> bool" where
  "trying k ids n r \<longleftrightarrow> (\<exists>q f. prog k ids n q \<and> n < length ids \<and> (\<forall>s. sr_StepID (f s) = sr_StepID s) \<and>
     sr_AttemptCount (f (run_Steps q ! n)) = 1 \<and>
     (run_Stage r, run_RunID r) = k \<and> run_Status r = RunStatusRunning \<and>
     \<not> run_CancelRequested r \<and> run_ReplayFromStep r = '''' \<and>
     run_Steps r = (run_Steps q)[n := f (run_Steps q ! n)])"

lemma trying_facts:
  assumes "trying k ids n r"
  shows "n < length (run_Steps r)" and "sr_StepID (run_Steps r ! n) = ids ! n"
    and "sr_AttemptCount (run_Steps r ! n) = 1" and "(run_Stage r, run_RunID r) = k"
  using assms by (auto simp: trying_def prog_def)

lemma trying_upd [simp]: "trying k ids n (r\<lparr>run_UpdatedAt := t\<rparr>) = trying k ids n r"
  by (simp add: trying_def)

lemma trying_norm: "trying k ids n r \<Longrightarrow> trying k ids n (norm_run r)"
  unfolding trying_def
proof (elim exE conjE)
  fix q f assume h: "prog k ids n q" "n < length ids" "\<forall>s. sr_StepID (f s) = sr_StepID s"
    "sr_AttemptCount (f (run_Steps q ! n)) = 1" "(run_Stage r, run_RunID r) = k"
    "run_Status r = RunStatusRunning" "\<not> run_CancelRequested r" "run_ReplayFromStep r = ''''"
    "run_Steps r = (run_Steps q)[n := f (run_Steps q ! n)]"
  let ?f = "\<lambda>s. if s = norm_step (run_Steps q ! n) then norm_step (f (run_Steps q ! n)) else s"
  have "n < length (run_Steps q)" using h(1,2) prog_len by simp
  then have "run_Steps (norm_run r) = (run_Steps (norm_run q))[n := ?f (run_Steps (norm_run q) ! n)]"
    by (simp add: h(9) map_update)
  then show "\<exists>q f. prog k ids n q \<and> n < length ids \<and> (\<forall>s. sr_StepID (f s) = sr_StepID s) \<and>
     sr_AttemptCount (f (run_Steps q ! n)) = 1 \<and>
     (run_Stage (norm_run r), run_RunID (norm_run r)) = k \<and> run_Status (norm_run r) = RunStatusRunning \<and>
     \<not> run_CancelRequested (norm_run r) \<and> run_ReplayFromStep (norm_run r) = '''' \<and>
     run_Steps (norm_run r) = (run_Steps q)[n := f (run_Steps q ! n)]"
    using h \<open>n < length (run_Steps q)\<close> by (intro exI [of _ "norm_run q"] exI [of _ ?f]) simp
qed

lemma trying_done:
  assumes "trying k ids n r" and "run_Steps r' = (run_Steps r)[n := g (run_Steps r ! n)]"
    and "sr_Status (g (run_Steps r ! n)) = StepStatusOK" and "sr_StepID (g (run_Steps r ! n)) = sr_StepID (run_Steps r ! n)"
    and "(run_Stage r', run_RunID r') = k" "run_Status r' = run_Status r"
    and "run_CancelRequested r' = run_CancelRequested r" "run_ReplayFromStep r' = run_ReplayFromStep r"
  shows "prog k ids (Suc n) r'"
proof -
  from assms(1) obtain q f where q: "prog k ids n q" "n < length ids" "\<forall>s. sr_StepID (f s) = sr_StepID s"
    "run_Steps r = (run_Steps q)[n := f (run_Steps q ! n)]" "run_Status r = RunStatusRunning"
    "\<not> run_CancelRequested r" "run_ReplayFromStep r = ''''" by (auto simp: trying_def)
  have len: "length (run_Steps q) = length ids" using prog_len [OF q(1)] .
  have steps: "run_Steps r' = (run_Steps q)[n := g (run_Steps r ! n)]" using assms(2) q(4) by simp
  have id: "sr_StepID (g (run_Steps r ! n)) = ids ! n"
    using assms(4) trying_facts(2) [OF assms(1)] by simp
  have "map sr_StepID (run_Steps r') = ids"
    using q(1,2) id len unfolding steps map_update prog_def by (metis list_update_id)
  moreover have "if j < Suc n then sr_Status (run_Steps r' ! j) = StepStatusOK
        else sr_Status (run_Steps r' ! j) = StepStatusPending \<and> sr_AttemptCount (run_Steps r' ! j) = 0"
    if "j < length ids" for j
    using q(1) that len assms(3) by (cases "j = n") (auto simp: steps prog_def nth_list_update)
  ultimately show ?thesis
    unfolding prog_def using assms(5-8) q(5-7) by simp
qed

section \<open>Operations in undisturbed worlds\<close>

declare with_backend.simps [simp del]

lemma triple_exI: "(\<And>t. triple (P t) m Q E) \<Longrightarrow> triple (\<lambda>w. \<exists>t. P t w) m Q E"
proof (rule triple_each, elim exE)
  fix w t assume h: "\<And>t. triple (P t) m Q E" and "P t w"
  then show "triple ((=) w) m Q E" by (intro triple_pre [OF h [of t]]) simp
qed

lemma triple_conjI: "(b \<Longrightarrow> triple P m Q E) \<Longrightarrow> triple (\<lambda>w. b \<and> P w) m Q E"
  by (simp add: triple_def)

abbreviation frt :: "runtime \<Rightarrow> runtime" where
  "frt rt \<equiv> with_backend Files rt"

definition key_ok :: "run_key \<Rightarrow> bool" where
  "key_ok k \<longleftrightarrow> fst k \<noteq> '''' \<and> snd k \<noteq> ''''"

text \<open>A handler that never fails, never runs into its deadline and never pauses.\<close>

definition succeeds :: "(nat \<Rightarrow> wf_run \<Rightarrow> step_run \<Rightarrow> handler_reply) \<Rightarrow> bool" where
  "succeeds h \<longleftrightarrow> (\<forall>i r s. hr_err (h i r s) = None \<and> hr_ctxerr (h i r s) = None \<and>
     (case hr_res (h i r s) of None \<Rightarrow> True | Some x \<Rightarrow> \<not> res_Pause x))"

lemma calm_now: "triple (calm k r c H) (nowUTC rt) (\<lambda>_. calm k r c H) E"
  by (auto simp: triple_def nowUTC_def time_Now_def calm_def split: option.split)

lemma calm_now_bind:
  "(\<And>t. triple (calm k r c H) (f t) Q E) \<Longrightarrow> triple (calm k r c H) (bindE (nowUTC rt) f) Q E"
  by (rule triple_bind [OF calm_now])

lemma calm_load:
  assumes "(run_Stage q, run_RunID q) = k" and "key_ok k" and "triple (calm k r c H) (f r) Q E"
  shows "triple (calm k r c H) (bindE (loadRun (frt rt) (run_Stage q) (run_RunID q)) f) Q E"
proof -
  have "loadRun (frt rt) (run_Stage q) (run_RunID q) w = (Inr r, w)" if "calm k r c H w" for w
    using that assms(1,2)
    by (auto simp: loadRun_backend LoadWorkflowRun_def read_run_def storage_def calm_def bindE_def
        file_view_def key_ok_def split: option.splits run_file.splits simp del: with_backend.simps)
  then show ?thesis using assms(3) unfolding triple_def by (simp add: bindE_def)
qed

lemma calm_save:
  assumes "(run_Stage q, run_RunID q) = k" and "key_ok k"
  shows "triple (\<lambda>w. ext w = [] \<and> calls w = c \<and> held w = H) (saveRun (frt rt) q)
    (\<lambda>q' w. \<exists>t. q' = q\<lparr>run_UpdatedAt := t\<rparr> \<and> calm k (norm_run q') c H w) never"
  using assms
  by (auto simp: triple_def saveRun_backend SaveWorkflowRun_apply storage_def calm_def key_ok_def
      file_view_def update_conv' simp del: with_backend.simps)

lemma calm_save_bind:
  assumes "(run_Stage q, run_RunID q) = k" and "key_ok k"
    and "\<And>t. triple (calm k (norm_run (q\<lparr>run_UpdatedAt := t\<rparr>)) c H) (f (q\<lparr>run_UpdatedAt := t\<rparr>)) Q never"
  shows "triple (calm k r c H) (bindE (saveRun (frt rt) q) f) Q never"
proof (rule triple_bind [OF triple_pre [OF calm_save [OF assms(1,2)]]])
  show "calm k r c H w \<Longrightarrow> ext w = [] \<and> calls w = c \<and> held w = H" for w
    by (simp add: calm_def)
  show "triple (\<lambda>w. \<exists>t. a = q\<lparr>run_UpdatedAt := t\<rparr> \<and> calm k (norm_run a) c H w) (f a) Q never" for a
    by (intro triple_exI triple_conjI, hypsubst, rule assms(3))
qed

lemma calm_call:
  assumes "trying k ids n q" and "succeeds h"
    and "\<And>rep. hr_err rep = None \<Longrightarrow> hr_ctxerr rep = None \<Longrightarrow>
      (\<And>x. hr_res rep = Some x \<Longrightarrow> \<not> res_Pause x) \<Longrightarrow>
      triple (calm k r (c @ [(ids ! n, 1)]) H) (f rep) Q E"
  shows "triple (calm k r c H) (bindE (call_handler h q n) f) Q E"
proof -
  have "triple (calm k r (c @ [(ids ! n, 1)]) H) (f (h i q s)) Q E" for i s
    by (rule assms(3)) (use assms(2) in \<open>auto simp: succeeds_def split: option.splits\<close>)
  then show ?thesis
    unfolding triple_def bindE_def call_handler_def Let_def
    using trying_facts [OF assms(1)] by (simp add: calm_def)
qed

text \<open>The result of a step: step \<open>n\<close> was executed once, for its first attempt, and is OK.\<close>

definition stepped ::
  "run_key \<Rightarrow> string list \<Rightarrow> nat \<Rightarrow> (string \<times> int) list \<Rightarrow> run_key list \<Rightarrow> wf_run \<Rightarrow> world \<Rightarrow> bool" where
  "stepped k ids n c H r w \<longleftrightarrow> prog k ids n r \<and> calm k (norm_run r) c H w"

lemma prog_key: "prog k ids n r \<Longrightarrow> (run_Stage r, run_RunID r) = k"
  by (simp add: prog_def)

lemma return_saved_run:
  assumes "prog k ids n q" and "key_ok k"
  shows "triple (calm k r c H) (bindE (saveRun (frt rt) q) (\<lambda>x. returnE (Inr x)))
    (\<lambda>x w. \<exists>q'. x = Inr q' \<and> stepped k ids n c H q' w) never"
proof (rule calm_save_bind)
  show "(run_Stage q, run_RunID q) = k" using prog_key [OF assms(1)] .
  fix t
  show "triple (calm k (norm_run (q\<lparr>run_UpdatedAt := t\<rparr>)) c H) (returnE (Inr (q\<lparr>run_UpdatedAt := t\<rparr>)))
      (\<lambda>x w. \<exists>q'. x = Inr q' \<and> stepped k ids n c H q' w) never"
    unfolding stepped_def using assms(1) by (intro triple_return exI conjI refl) (simp_all only: prog_upd)
qed (rule assms(2))

lemma settle_ok:
  assumes q: "trying k ids n q" and "key_ok k" and r: "trying k ids n r"
    and rep: "hr_err rep = None" "hr_ctxerr rep = None" "\<And>x. hr_res rep = Some x \<Longrightarrow> \<not> res_Pause x"
  shows "triple (calm k r c H) (settle_attempt (frt rt) ctx q n m a rep)
    (\<lambda>x w. \<exists>q'. x = Inr q' \<and> stepped k ids (Suc n) c H q' w) never"
proof -
  have idx: "n < length (run_Steps r)" and kr: "(run_Stage r, run_RunID r) = k"
    using trying_facts [OF r] by simp_all
  have fin: "prog k ids (Suc n) (((upd_step n (\<lambda>s. s\<lparr>sr_Status := StepStatusOK, sr_Error := '''',
      sr_Output := out, sr_Metadata := md\<rparr>) (stamp_end n t r))\<lparr>run_Checkpoint := cp\<rparr>))"
    for out md t cp
    by (rule trying_done [OF r, where g = "\<lambda>s. (s\<lparr>sr_EndedAt := t, sr_DurationMs := durationMs (sr_StartedAt s) t\<rparr>)
          \<lparr>sr_Status := StepStatusOK, sr_Error := '''', sr_Output := out, sr_Metadata := md\<rparr>"])
      (use idx kr in \<open>simp_all add: upd_step_def stamp_end_def\<close>)
  have ok: "triple (calm k r c H) (bindE (finish_ok (frt rt) (stamp_end n t r) n (hr_res rep)) (\<lambda>r. returnE (Inr r)))
      (\<lambda>x w. \<exists>q'. x = Inr q' \<and> stepped k ids (Suc n) c H q' w) never" for t
    using rep(3)
    by (cases "hr_res rep") (auto simp: finish_ok_def Let_def bindE_assoc
        intro!: calm_now_bind return_saved_run fin assms(2))
  show ?thesis
    unfolding settle_attempt_def Let_def
    by (rule calm_load [OF trying_facts(4) [OF q] assms(2)], simp only: check_idx_def idx if_True bindE_returnE,
        rule calm_now_bind, simp only: rep simp_thms if_True, rule ok)
qed

text \<open>From an untried step to its recorded attempt.\<close>

lemma trying_begin:
  assumes "prog k ids n q" and "n < length ids" and "\<forall>s. sr_StepID (f s) = sr_StepID s"
    and "sr_AttemptCount (f (run_Steps q ! n)) = 1"
  shows "trying k ids n ((upd_step n f q)\<lparr>run_Status := RunStatusRunning, run_Checkpoint := cp\<rparr>)"
  using assms unfolding trying_def
  by (intro exI [of _ q] exI [of _ f]) (auto simp: upd_step_def prog_def)

lemma begin_ok:
  assumes p: "prog k ids n q" and n: "n < length ids" and k: "key_ok k"
    and cont: "\<And>q' r'. trying k ids n q' \<Longrightarrow> trying k ids n r' \<Longrightarrow> triple (calm k r' c H) (f q') Q never"
  shows "triple (calm k r c H) (bindE (begin_attempt (frt rt) q n m 1) f) Q never"
proof -
  have idx: "n < length (run_Steps q)" using n prog_len [OF p] by simp
  have saved: "triple (calm k r c H) (bindE (saveRun (frt rt) ((upd_step n (\<lambda>s. s\<lparr>sr_MaxAttempts := m,
      sr_AttemptCount := 1, sr_Status := StepStatusRunning, sr_StartedAt := st, sr_EndedAt := NoStamp,
      sr_DurationMs := 0, sr_Error := ''''\<rparr>) q)\<lparr>run_Status := RunStatusRunning, run_Checkpoint := cp\<rparr>)) f) Q never"
    (is "triple _ (bindE (saveRun _ ?q) f) _ _") for st cp
  proof (rule calm_save_bind)
    have t: "trying k ids n ?q" by (rule trying_begin [OF p n]) simp_all
    show "(run_Stage ?q, run_RunID ?q) = k" by (rule trying_facts(4) [OF t])
    show "triple (calm k (norm_run (?q\<lparr>run_UpdatedAt := u\<rparr>)) c H) (f (?q\<lparr>run_UpdatedAt := u\<rparr>)) Q never" for u
      by (rule cont, simp only: trying_upd, rule t, rule trying_norm, simp only: trying_upd, rule t)
  qed (rule k)
  show ?thesis
    unfolding begin_attempt_def Let_def check_idx_def
    by (auto simp only: idx if_True bindE_returnE bindE_assoc intro!: calm_now_bind saved split: if_splits)
qed

lemma attempt_ok:
  assumes p: "prog k ids n r" and n: "n < length ids" and k: "key_ok k" and h: "succeeds h"
    and q: "(run_Stage q, run_RunID q) = k"
  shows "triple (calm k r c H) (attempt_step (frt rt) h ctx q n m 1)
    (\<lambda>x w. \<exists>q'. x = Inr q' \<and> stepped k ids (Suc n) (c @ [(ids ! n, 1)]) H q' w) never"
proof -
  have nc: "\<not> run_CancelRequested r" using p by (simp add: prog_def)
  show ?thesis
    unfolding attempt_step_def
    by (rule calm_load [OF q k], simp only: nc if_False, rule begin_ok [OF p n k],
        rule calm_call [OF _ h], assumption, rule settle_ok [OF _ k], assumption, assumption, assumption+)
qed

lemma execute_ok:
  assumes p: "prog k ids n r" and n: "n < length ids" and k: "key_ok k" and h: "succeeds h"
    and q: "prog k ids n q"
  shows "triple (calm k r c H) (executeStep (frt rt) h ctx q n)
    (stepped k ids (Suc n) (c @ [(ids ! n, 1)]) H) never"
proof -
  have idx: "n < length (run_Steps q)" and ac: "sr_AttemptCount (run_Steps q ! n) + 1 = 1"
    using n q prog_len [OF q] by (auto simp: prog_def)
  define m where "m = (if sr_MaxAttempts (run_Steps q ! n) \<le> 0 then 1 else sr_MaxAttempts (run_Steps q ! n))"
  have m: "1 \<le> m" unfolding m_def by simp
  have loop: "triple (calm k r c H) (attempt_loop (frt rt) h ctx q n m 1)
      (stepped k ids (Suc n) (c @ [(ids ! n, 1)]) H) never"
    by (subst attempt_loop.simps, simp only: m if_True,
        rule triple_bind [OF attempt_ok [OF p n k h prog_key [OF q]]],
        intro triple_exI triple_conjI, simp, rule triple_return, assumption)
  show ?thesis
    unfolding executeStep_def check_idx_def Let_def
    by (simp only: idx if_True bindE_returnE ac m_def [symmetric]) (rule loop)
qed

lemma bindE_right: "bindE m returnE = m"
  by (auto simp: bindE_def fun_eq_iff returnE_def split: prod.split sum.split)

lemma finish_ok_run:
  assumes p: "prog k ids (length ids) q" and k: "key_ok k"
  shows "triple (calm k r c H) (finish_run (frt rt) q)
    (\<lambda>q w. run_Status q = RunStatusOK \<and> (run_Stage q, run_RunID q) = k \<and> calm k (norm_run q) c H w) never"
proof -
  have none: "firstUnsuccessfulStep q = None"
    using p prog_len [OF p]
    by (auto simp: firstUnsuccessfulStep_def find_None_iff prog_def in_set_conv_nth)
  have keyq: "(run_Stage q, run_RunID q) = k" by (rule prog_key [OF p])
  let ?q = "\<lambda>t d cp. q\<lparr>run_ReplayFromStep := '''', run_Status := RunStatusOK, run_EndedAt := t,
      run_DurationMs := d, run_Checkpoint := cp\<rparr>"
  have "triple (calm k r c H) (bindE (saveRun (frt rt) (?q t d cp)) returnE)
    (\<lambda>q w. run_Status q = RunStatusOK \<and> (run_Stage q, run_RunID q) = k \<and> calm k (norm_run q) c H w) never" for t d cp
    by (rule calm_save_bind, use keyq in simp, rule k, rule triple_return, use keyq in \<open>simp del: norm_run_upd\<close>)
  then show ?thesis
    unfolding finish_run_def none option.case Let_def bindE_right
    by (intro calm_now_bind) assumption
qed

lemma resume_steps_ok:
  assumes "prog k ids n q" and "n \<le> length ids" and k: "key_ok k" and h: "succeeds h"
    and "prog k ids n r"
  shows "triple (calm k r c H) (resume_steps (frt rt) h ctx None q [n..<length ids])
    (\<lambda>q w. run_Status q = RunStatusOK \<and> (run_Stage q, run_RunID q) = k \<and>
       calm k (norm_run q) (c @ map (\<lambda>s. (s, 1)) (drop n ids)) H w) never"
  using assms
proof (induction "length ids - n" arbitrary: n q r c)
  case 0
  then have "n = length ids" by simp
  with 0 show ?case by (simp add: finish_ok_run)
next
  case (Suc d)
  then have n: "n < length ids" and l: "length (run_Steps q) = length ids" using prog_len by auto
  have s: "sr_Status (run_Steps q ! n) = StepStatusPending" "\<not> run_CancelRequested q"
    using Suc.prems(1) n by (auto simp: prog_def)
  have rec: "recover_step (frt rt) q n = returnE q" by (simp add: recover_step_def Let_def s returnE_def bindE_def)
  have upt: "[n..<length ids] = n # [Suc n..<length ids]" using n by (simp add: upt_rec)
  have drop: "drop n ids = ids ! n # drop (Suc n) ids" using n by (simp add: Cons_nth_drop_Suc)
  have next_: "triple (stepped k ids (Suc n) (c @ [(ids ! n, 1)]) H q2)
      (if run_Status q2 = RunStatusPaused then returnE q2
       else resume_steps (frt rt) h ctx None q2 [Suc n..<length ids])
    (\<lambda>q w. run_Status q = RunStatusOK \<and> (run_Stage q, run_RunID q) = k \<and>
       calm k (norm_run q) (c @ map (\<lambda>s. (s, 1)) (drop n ids)) H w) never" for q2
    unfolding stepped_def
  proof (rule triple_conjI)
    assume q2: "prog k ids (Suc n) q2"
    have "triple (calm k (norm_run q2) (c @ [(ids ! n, 1)]) H)
        (resume_steps (frt rt) h ctx None q2 [Suc n..<length ids])
      (\<lambda>q w. run_Status q = RunStatusOK \<and> (run_Stage q, run_RunID q) = k \<and>
         calm k (norm_run q) ((c @ [(ids ! n, 1)]) @ map (\<lambda>s. (s, 1)) (drop (Suc n) ids)) H w) never"
      by (rule Suc.hyps(1)) (use Suc.hyps(2) n q2 k h in simp_all)
    moreover have "run_Status q2 \<noteq> RunStatusPaused" using q2 by (simp add: prog_def)
    ultimately show "triple (calm k (norm_run q2) (c @ [(ids ! n, 1)]) H)
       (if run_Status q2 = RunStatusPaused then returnE q2
        else resume_steps (frt rt) h ctx None q2 [Suc n..<length ids])
      (\<lambda>q w. run_Status q = RunStatusOK \<and> (run_Stage q, run_RunID q) = k \<and>
         calm k (norm_run q) (c @ map (\<lambda>s. (s, 1)) (drop n ids)) H w) never"
      by (simp add: drop)
  qed
  have "resume_steps (frt rt) h ctx None q [n..<length ids] =
      bindE (executeStep (frt rt) h ctx q n) (\<lambda>q2. if run_Status q2 = RunStatusPaused then returnE q2
         else resume_steps (frt rt) h ctx None q2 [Suc n..<length ids])"
    unfolding upt by (simp add: check_idx_def l n s rec)
  then show ?case
    using triple_bind [OF execute_ok [OF Suc.prems(5) n k h Suc.prems(1)] next_] by simp
qed

section \<open>The whole run\<close>

lemma calm_load_key:
  assumes "prog k ids n q \<or> (run_Stage q, run_RunID q) = k" and "key_ok k"
    and "triple (calm k r c H) (f r) Q E"
  shows "triple (calm k r c H) (bindE (loadRun (frt rt) (fst k) (snd k)) f) Q E"
  using calm_load [of q k r c H f Q E rt] assms prog_key by (metis fst_conv snd_conv)

text \<open>The run as \<^verbatim>\<open>CreateRun\<close> leaves it: untried, or OK when it has no steps.\<close>

definition fresh :: "run_key \<Rightarrow> string list \<Rightarrow> wf_run \<Rightarrow> bool" where
  "fresh k ids r \<longleftrightarrow> (run_Stage r, run_RunID r) = k \<and> run_ReplayFromStep r = '''' \<and>
     (if ids = [] then run_Status r = RunStatusOK else prog k ids 0 r)"

lemma fresh_upd [simp]: "fresh k ids (r\<lparr>run_UpdatedAt := t\<rparr>) = fresh k ids r"
  by (simp add: fresh_def)

lemma fresh_norm: "fresh k ids r \<Longrightarrow> fresh k ids (norm_run r)"
  by (auto simp: fresh_def split: if_splits)

lemma resume_locked_ok:
  assumes f: "fresh k ids r" and k: "key_ok k" and h: "Handler rt = Some h" "succeeds h"
  shows "triple (calm k r c H) (resumeRunLocked (frt rt) ctx (fst k) (snd k))
    (\<lambda>q w. run_Status q = RunStatusOK \<and> (run_Stage q, run_RunID q) = k \<and>
       calm k (norm_run q) (c @ map (\<lambda>s. (s, 1)) ids) H w \<or>
       ids = [] \<and> q = r \<and> run_Status q = RunStatusOK \<and> calm k r c H w) never"
proof -
  have key: "(run_Stage r, run_RunID r) = k" using f by (simp add: fresh_def)
  have hnd: "Handler (frt rt) = Some h" using h(1) by (simp add: with_backend.simps)
  show ?thesis
  proof (cases "ids = []")
    case True
    then have t: "IsWorkflowRunTerminal (run_Status r) \<and> run_ReplayFromStep r = ''''"
      and "run_Status r = RunStatusOK"
      using f by (auto simp: fresh_def IsWorkflowRunTerminal_def)
    then show ?thesis
      unfolding resumeRunLocked_def hnd option.case
      by (intro calm_load_key [OF disjI2 [OF key] k]) (auto intro!: triple_return simp: True)
  next
    case False
    then have p: "prog k ids 0 r" using f by (simp add: fresh_def)
    then have st: "run_Status r = RunStatusRunning" "run_ReplayFromStep r = ''''" "length (run_Steps r) = length ids"
      using prog_len by (auto simp: prog_def)
    have run: "bindE (start_run (frt rt) r) (\<lambda>run1. resume_steps (frt rt) h ctx (replay_start run1) run1
        [0..<length (run_Steps run1)]) = resume_steps (frt rt) h ctx None r [0..<length ids]"
      using st by (simp add: start_run_def replay_start_def)
    have "triple (calm k r c H) (resume_steps (frt rt) h ctx None r [0..<length ids])
       (\<lambda>q w. run_Status q = RunStatusOK \<and> (run_Stage q, run_RunID q) = k \<and>
       calm k (norm_run q) (c @ map (\<lambda>s. (s, 1)) ids) H w) never"
      using resume_steps_ok [OF p _ k h(2) p] by simp
    then have "triple (calm k r c H) (resume_steps (frt rt) h ctx None r [0..<length ids])
       (\<lambda>q w. run_Status q = RunStatusOK \<and> (run_Stage q, run_RunID q) = k \<and>
       calm k (norm_run q) (c @ map (\<lambda>s. (s, 1)) ids) H w \<or>
       ids = [] \<and> q = r \<and> run_Status q = RunStatusOK \<and> calm k r c H w) never"
      by (rule triple_conseq) simp_all
    then show ?thesis
      unfolding resumeRunLocked_def hnd option.case
      by (intro calm_load_key [OF disjI2 [OF key] k])
        (simp add: st IsWorkflowRunTerminal_def run del: upt_Suc)
  qed
qed

lemma fresh_new:
  assumes "rs_Steps spec \<noteq> []" and "k = (rs_Stage spec, i)"
  shows "fresh k (map sp_ID (rs_Steps spec)) (new_run spec i t)"
  using assms by (auto simp: fresh_def prog_def new_run_def new_step_def)

lemma fresh_empty:
  assumes "rs_Steps spec = []" and "k = (rs_Stage spec, i)"
  shows "fresh k [] ((new_run spec i t)\<lparr>run_Status := RunStatusOK, run_EndedAt := a, run_DurationMs := d\<rparr>)"
  using assms by (auto simp: fresh_def new_run_def)

text \<open>What the client of \<^verbatim>\<open>StartRun\<close> must give: names, and a run id or a source of one.\<close>

definition spec_ok :: "runtime \<Rightarrow> run_spec \<Rightarrow> bool" where
  "spec_ok rt spec \<longleftrightarrow> rs_Stage spec \<noteq> '''' \<and> rs_Service spec \<noteq> '''' \<and>
     (\<forall>s \<in> set (rs_Steps spec). sp_ID s \<noteq> '''') \<and>
     (rs_RunID spec \<noteq> '''' \<or> (\<forall>t. RandID rt t \<noteq> ''''))"

lemma create_save:
  assumes "fresh k ids q" and "key_ok k"
  shows "triple (\<lambda>w. ext w = [] \<and> calls w = c \<and> held w = H) (saveRun (frt rt) q)
    (\<lambda>r w. \<exists>k. key_ok k \<and> fresh k ids r \<and> fst k = run_Stage q \<and> calm k (norm_run r) c H w) never"
proof -
  have k: "(run_Stage q, run_RunID q) = k" using assms(1) by (simp add: fresh_def)
  show ?thesis
    using assms k by (intro triple_conseq [OF calm_save [OF k assms(2)]]) auto
qed

lemma triple_never:
  assumes "triple P m Q never" and "P w"
  obtains a w' where "m w = (Inr a, w')" and "Q a w'"
  using triple_Inr [OF assms] triple_Inl [OF assms] by (cases "m w"; cases "fst (m w)") auto

definition idle :: "(string \<times> int) list \<Rightarrow> run_key list \<Rightarrow> world \<Rightarrow> bool" where
  "idle c H w \<longleftrightarrow> ext w = [] \<and> calls w = c \<and> held w = H"

lemma idle_now_bind:
  "(\<And>t. triple (idle c H) (f t) Q E) \<Longrightarrow> triple (idle c H) (bindE (nowUTC rt) f) Q E"
  by (rule triple_bind [of _ _ "\<lambda>_. idle c H"])
    (auto simp: triple_def nowUTC_def time_Now_def idle_def split: option.split)

text \<open>What \<^verbatim>\<open>CreateRun\<close> leaves: the fresh run, stored under its key.\<close>

definition newly ::
  "string \<Rightarrow> string list \<Rightarrow> (string \<times> int) list \<Rightarrow> run_key list \<Rightarrow> wf_run \<Rightarrow> world \<Rightarrow> bool" where
  "newly stage ids c H r w \<longleftrightarrow> (\<exists>k. (key_ok k \<and> fresh k ids r \<and> fst k = stage) \<and> calm k (norm_run r) c H w)"

lemma create_ok:
  assumes "spec_ok rt spec"
  shows "triple (idle c H) (CreateRun (frt rt) spec) (newly (rs_Stage spec) (map sp_ID (rs_Steps spec)) c H) never"
proof -
  note s = assms [unfolded spec_ok_def]
  let ?ids = "map sp_ID (rs_Steps spec)"
  let ?N = "newly (rs_Stage spec) ?ids c H"
  have save: "triple (idle c H) (saveRun (frt rt) q) ?N never" if q: "fresh (rs_Stage spec, i) ?ids q" and i: "i \<noteq> ''''" for q i
  proof -
    have k: "key_ok (rs_Stage spec, i)" using i s by (simp add: key_ok_def)
    show ?thesis
      using q by (intro triple_conseq [OF create_save [OF q k, of c H]]) (auto simp: idle_def fresh_def newly_def)
  qed
  have built: "triple (idle c H) (bindE (if run_Steps (new_run spec i t) = [] then
          bindE (nowUTC (frt rt)) (\<lambda>now. returnE ((new_run spec i t)\<lparr>run_Status := RunStatusOK,
            run_EndedAt := fmt_time now, run_DurationMs := durationMs (run_StartedAt (new_run spec i t)) (fmt_time now)\<rparr>))
        else returnE (new_run spec i t)) (saveRun (frt rt))) ?N never" if i: "i \<noteq> ''''" for i t
  proof (cases "rs_Steps spec = []")
    case True
    then have "run_Steps (new_run spec i t) = []" and ids: "?ids = []" by (simp_all add: new_run_def)
    show ?thesis
      by (simp only: \<open>run_Steps (new_run spec i t) = []\<close> simp_thms if_True bindE_assoc bindE_returnE)
        (rule idle_now_bind, rule save [OF fresh_empty [OF True refl, folded ids] i])
  next
    case False
    then have "run_Steps (new_run spec i t) \<noteq> []" by (simp add: new_run_def)
    then show ?thesis using save [OF fresh_new [OF False refl] i] by simp
  qed
  have ids: "\<not> (\<exists>s \<in> set (rs_Steps spec). sp_ID s = '''')" using s by auto
  have stg: "rs_Stage spec \<noteq> ''''" "rs_Service spec \<noteq> ''''" using s by simp_all
  have rid: "triple (idle c H) (if rs_RunID spec = '''' then getE (\<lambda>w. RandID (frt rt) (ticks w)) else returnE (rs_RunID spec))
      (\<lambda>a w. a \<noteq> '''' \<and> idle c H w) never"
    using s by (auto simp: triple_def with_backend.simps)
  show ?thesis
    unfolding CreateRun_def Let_def if_not_P [OF ids] if_not_P [OF stg(1)] if_not_P [OF stg(2)]
    by (rule triple_bind [OF rid], rule triple_conjI, rule idle_now_bind, rule built)
qed

text \<open>
  C3. A run whose handler neither fails nor pauses is executed to its end: \<^verbatim>\<open>StartRun\<close> creates it,
  executes every step exactly once, in the order of the specification, as its first attempt,
  and returns the run with status OK, which is also what the store then holds. No lock stays held.
\<close>

theorem StartRun_success:
  assumes "Handler rt = Some h" and "succeeds h" and "Locker rt = None" and "spec_ok rt spec"
    and "ext w = []" and "held w = []"
  shows "\<exists>r w'. StartRun (with_backend Files rt) ctx spec w = (Inr r, w') \<and> run_Status r = RunStatusOK \<and>
    calls w' = calls w @ map (\<lambda>s. (sp_ID s, 1)) (rs_Steps spec) \<and>
    map_option norm_run (file_view w' (rs_Stage spec, run_RunID r)) = Some (norm_run r) \<and> held w' = []"
proof -
  let ?ids = "map sp_ID (rs_Steps spec)"
  let ?Q = "\<lambda>r w'. run_Status r = RunStatusOK \<and> calls w' = calls w @ map (\<lambda>s. (s, 1)) ?ids \<and>
    map_option norm_run (file_view w' (rs_Stage spec, run_RunID r)) = Some (norm_run r) \<and> held w' = []"
  have resume: "triple (calm k (norm_run q) (calls w) []) (ResumeRun (frt rt) ctx (run_Stage q) (run_RunID q)) ?Q never"
    if k: "key_ok k" and q: "fresh k ?ids q" and st: "fst k = rs_Stage spec" for k q
  proof -
    have key: "fst k = run_Stage q" "snd k = run_RunID q" using q by (auto simp: fresh_def)
    have lk: "Locker (frt rt) = None" using assms(3) by (simp add: with_backend.simps)
    have k2: "k = (rs_Stage spec, run_RunID q)" using st key by (simp add: prod_eq_iff)
    have "triple (calm k (norm_run q) (calls w) [k]) (finallyE (resumeRunLocked (frt rt) ctx (run_Stage q) (run_RunID q))
        (releaseRunLock (run_Stage q) (run_RunID q))) ?Q never"
      by (rule triple_finally, rule triple_conseq [OF resume_locked_ok [OF fresh_norm [OF q] k assms(1,2), of "calls w" "[k]" ctx, unfolded key]])
        (use st key in \<open>auto simp: calm_def releaseRunLock_def k2\<close>)
    moreover have "triple (calm k (norm_run q) (calls w) []) (acquireRunLock (frt rt) (run_Stage q) (run_RunID q))
        (\<lambda>_. calm k (norm_run q) (calls w) [k]) never"
      using key by (auto simp: triple_def acquireRunLock_def assms(3) calm_def file_view_def prod_eq_iff)
    ultimately show ?thesis unfolding ResumeRun_def withRunLock_def by (intro triple_bind)
  qed
  have "triple (idle (calls w) []) (StartRun (frt rt) ctx spec) ?Q never"
    unfolding StartRun_def
    by (rule triple_bind [OF create_ok [OF assms(4)]], unfold newly_def, intro triple_exI triple_conjI, elim conjE, rule resume)
  moreover have "idle (calls w) [] w" using assms(5,6) by (simp add: idle_def)
  ultimately obtain r w' where "StartRun (frt rt) ctx spec w = (Inr r, w')" and "?Q r w'"
    by (rule triple_never)
  then show ?thesis by (auto simp: o_def)
qed

lemma ok_reply_succeeds: "succeeds (\<lambda>i r s. ok_reply)"
  by (simp add: succeeds_def ok_reply_def)

theorem StartRun_success_witness:
  "\<exists>r w'. StartRun (with_backend Files (demo_rt 0)) no_ctx demo_spec empty_world = (Inr r, w') \<and>
    run_Status r = RunStatusOK \<and> calls w' = [(''a'', 1), (''b'', 1)]"
proof -
  have "\<exists>r w'. StartRun (with_backend Files (demo_rt 0)) no_ctx demo_spec empty_world = (Inr r, w') \<and>
    run_Status r = RunStatusOK \<and>
    calls w' = calls empty_world @ map (\<lambda>s. (sp_ID s, 1)) (rs_Steps demo_spec) \<and>
    map_option norm_run (file_view w' (rs_Stage demo_spec, run_RunID r)) = Some (norm_run r) \<and> held w' = []"
    by (rule StartRun_success [OF _ ok_reply_succeeds])
      (simp_all add: demo_rt_def spec_ok_def demo_spec_def empty_world_def)
  then show ?thesis by (auto simp: empty_world_def demo_spec_def)
qed

section \<open>A replay that fails\<close>

text \<open>The third execution after the run finished fails: step \<open>b\<close> of the replay.\<close>

definition replay_rt :: runtime where
  "replay_rt = \<lparr>Handler = Some (\<lambda>i run s. if i = length (calls finished) + 1 then err_reply else ok_reply),
     NowF = None, Locker = None, Store = None, RandID = (\<lambda>_. ''r'')\<rparr>"

definition failed_replay :: "(rt_fail + wf_run) \<times> world" where
  "failed_replay = ReplayRunFromStep (with_backend Files replay_rt) no_ctx ''dev'' ''r'' ''a'' finished"

text \<open>
  A replay that ends failed keeps its replay mark: the stored run is terminal, yet resuming it
  does not return it as it is but executes the successful step \<open>a\<close> once more, as its second attempt.
\<close>

theorem failed_replay_reexecutes:
  "map_option (\<lambda>r. (run_Status r, run_ReplayFromStep r, map sr_Status (run_Steps r)))
     (file_view (snd failed_replay) (''dev'', ''r'')) =
     Some (RunStatusFailed, ''a'', [StepStatusOK, StepStatusFailed]) \<and>
   drop (length (calls (snd failed_replay)))
     (calls (snd (ResumeRun (with_backend Files replay_rt) no_ctx ''dev'' ''r'' (snd failed_replay)))) =
     [(''a'', 2)]"
  by code_simp

end
