(* ===== verification/Run_Claims.thy ===== *)
theory Run_Claims
  imports Run_Store
begin

text \<open>
  Compare-and-swap of \<^verbatim>\<open>LocalRunStore.Save\<close>, the listing of runs and the cost summary.
\<close>

section \<open>Compare and swap\<close>

text \<open>The version of the stored file, empty when there is none.\<close>

definition stored_version :: "(run_file \<Rightarrow> version) \<Rightarrow> world \<Rightarrow> run_key \<Rightarrow> version" where
  "stored_version digest w k = (case map_of (runs w) k of None \<Rightarrow> '''' | Some f \<Rightarrow> digest f)"

definition stamped :: "wf_run \<Rightarrow> world \<Rightarrow> wf_run" where
  "stamped r w = r\<lparr>run_UpdatedAt := fmt_time (wall w (ticks w))\<rparr>"

text \<open>
  A save with an expected version, with no interference, writes if and only if that version
  is the stored one; otherwise it reports the conflict and changes nothing.
\<close>

theorem lrs_Save_cas:
  assumes "run_RunID r \<noteq> ''''" and "run_Stage r \<noteq> ''''" and "v \<noteq> ''''" and "ext w = []"
  shows "lrs_Save digest r v w =
    (let k = (run_Stage r, run_RunID r); cur = stored_version digest w k;
         f = RunFile (norm_run (stamped r w)) in
     if cur = v then (Inr (digest f, stamped r w),
       w\<lparr>ticks := Suc (ticks w), runs := AList.update k f (runs w)\<rparr>)
     else (Inl (None, VersionConflict (short v) (short cur)), w))"
  using assms
  by (simp add: lrs_Save_def lrs_currentVersion_def lrs_write_def stored_version_def stamped_def
      storage_def storage_locked_def time_Now_def bindE_def Let_def)

definition sample_step :: step_run where
  "sample_step = \<lparr>sr_StepID = ''a'', sr_Kind = ''code'', sr_Input = None, sr_Status = StepStatusPending,
     sr_AttemptCount = 0, sr_MaxAttempts = 1, sr_TimeoutMs = 0, sr_BackoffMs = 0,
     sr_StartedAt = NoStamp, sr_EndedAt = NoStamp, sr_DurationMs = 0, sr_Error = '''',
     sr_Output = None, sr_Metadata = None\<rparr>"

definition sample_run :: wf_run where
  "sample_run = \<lparr>run_RunID = ''r'', run_Service = ''svc'', run_Stage = ''dev'', run_Provider = '''',
     run_WorkflowName = '''', run_WorkflowHash = '''', run_Entrypoint = '''',
     run_Status = RunStatusRunning, run_StartedAt = Stamp 1, run_EndedAt = NoStamp,
     run_UpdatedAt = NoStamp, run_DurationMs = 0, run_CancelRequested = False,
     run_ReplayFromStep = '''', run_Checkpoint = None, run_Steps = [sample_step], run_Nodes = [],
     run_TotalInputTokens = 0, run_TotalOutputTokens = 0, run_EstimatedCostUSD = 0\<rparr>"

definition sample_world :: world where
  "sample_world = \<lparr>runs = [((''dev'', ''r''), RunFile sample_run)], ext = [], ticks = 5,
     wall = (\<lambda>n. int n * 10 ^ 9), held = [], calls = []\<rparr>"

text \<open>A digest of its own for each update time: enough to tell the sample's states apart.\<close>

definition sample_digest :: "run_file \<Rightarrow> version" where
  "sample_digest f = (case f of RunFile r \<Rightarrow> (case run_UpdatedAt r of
     Stamp n \<Rightarrow> replicate (nat n) CHR ''x'' | _ \<Rightarrow> ''-'') | BadFile b \<Rightarrow> ''?'')"

theorem lrs_Save_cas_witness:
  "fst (lrs_Save sample_digest sample_run ''xx'' sample_world) =
     Inl (None, VersionConflict ''xx'' ''-'')"
proof -
  have h: "run_RunID sample_run \<noteq> ''''" "run_Stage sample_run \<noteq> ''''" "''xx'' \<noteq> ''''"
    "ext sample_world = []" by code_simp+
  have v: "stored_version sample_digest sample_world (run_Stage sample_run, run_RunID sample_run) = ''-''"
    by code_simp
  show ?thesis by (simp add: lrs_Save_cas [OF h] v Let_def short_def)
qed

text \<open>
  C17. Of two writers that loaded the same version of a run, only the first save succeeds: once it
  changed the file, the second is refused with a conflict and leaves the first writer's run in
  place; after reloading, the second writer's save is accepted.
\<close>

theorem lrs_Save_no_lost_update:
  assumes "run_RunID r1 \<noteq> ''''" and "run_Stage r1 \<noteq> ''''"
    and "(run_Stage r2, run_RunID r2) = (run_Stage r1, run_RunID r1)"
    and "v \<noteq> ''''" and "ext w = []"
    and "lrs_Save digest r1 v w = (Inr (v1, r1'), w1)" and "v1 \<noteq> v" and "v1 \<noteq> ''''"
  shows "lrs_Save digest r2 v w1 = (Inl (None, VersionConflict (short v) (short v1)), w1) \<and>
    file_view w1 (run_Stage r1, run_RunID r1) = Some (norm_run r1') \<and>
    (\<exists>w2. lrs_Save digest r2 v1 w1 = (Inr (digest (RunFile (norm_run (stamped r2 w1))), stamped r2 w1), w2))"
proof -
  let ?k = "(run_Stage r1, run_RunID r1)"
  from lrs_Save_cas [OF assms(1,2,4,5), of digest] assms(6)
  have r1': "v1 = digest (RunFile (norm_run r1'))" "r1' = stamped r1 w"
    and w1: "w1 = w\<lparr>ticks := Suc (ticks w), runs := AList.update ?k (RunFile (norm_run r1')) (runs w)\<rparr>"
    by (auto simp: Let_def split: if_splits)
  have ids: "run_RunID r2 \<noteq> ''''" "run_Stage r2 \<noteq> ''''" using assms(1-3) by auto
  have ext: "ext w1 = []" using w1 assms(5) by simp
  have cur: "stored_version digest w1 ?k = v1" by (simp add: stored_version_def w1 r1' update_conv')
  have "file_view w1 ?k = Some (norm_run r1')" by (simp add: w1 file_view_def update_conv')
  then show ?thesis
    using lrs_Save_cas [OF ids assms(4) ext, of digest] lrs_Save_cas [OF ids assms(8) ext, of digest]
      assms(3,7) cur by (simp add: Let_def)
qed

theorem lrs_Save_no_lost_update_witness:
  "case lrs_Save sample_digest sample_run ''-'' sample_world of
     (Inr (v1, r1'), w1) \<Rightarrow> lrs_Save sample_digest sample_run ''-'' w1 =
        (Inl (None, VersionConflict (short ''-'') (short v1)), w1)
   | _ \<Rightarrow> False"
proof -
  let ?m = "lrs_Save sample_digest sample_run ''-'' sample_world"
  have "case ?m of (Inr (v1, r1'), w1) \<Rightarrow> v1 = ''xxxxx'' | _ \<Rightarrow> False" by code_simp
  then obtain r1' w1 where eq: "?m = (Inr (''xxxxx'', r1'), w1)"
    by (auto split: prod.splits sum.splits)
  have h: "run_RunID sample_run \<noteq> ''''" "run_Stage sample_run \<noteq> ''''" "''-'' \<noteq> ''''"
    "ext sample_world = []" by code_simp+
  from lrs_Save_no_lost_update [OF h(1,2) refl h(3,4) eq] show ?thesis
    by (simp only: eq prod.case sum.case) simp
qed

section \<open>Listing\<close>

lemma started_weak_order: "weak_order (\<lambda>a b. started_time b < started_time a)"
  by (auto simp: weak_order_def)

text \<open>
  Listing a stage gives at most \<open>limit\<close> of its parsed runs (20 when the limit is not
  positive), newest first, and no run left out is newer than a listed one.
\<close>

theorem ListWorkflowRuns_newest:
  "let rs = ListWorkflowRuns stage limit w;
       all = parsed_runs (stage_files stage w);
       n = (if limit \<le> 0 then 20 else nat limit) in
   length rs = min n (length all) \<and> sorted_wrt (\<lambda>a b. started_time b \<le> started_time a) rs \<and>
   (\<exists>rest. mset all = mset rs + mset rest \<and>
      (\<forall>a \<in> set rs. \<forall>b \<in> set rest. started_time b \<le> started_time a))"
proof -
  let ?lt = "\<lambda>a b. started_time b < started_time a"
  let ?all = "parsed_runs (stage_files stage w)"
  let ?n = "if limit \<le> 0 then 20 else nat limit"
  let ?items = "sort_slice ?lt ?all"
  have rs: "ListWorkflowRuns stage limit w = take ?n ?items"
    by (simp add: ListWorkflowRuns_def Let_def)
  have s: "sorted_wrt (\<lambda>a b. started_time b \<le> started_time a) (take ?n ?items @ drop ?n ?items)"
    using sorted_sort_slice [OF started_weak_order, of ?all] by (simp add: not_less)
  have "mset ?all = mset (take ?n ?items) + mset (drop ?n ?items)"
    by (metis append_take_drop_id mset_append mset_sort_slice)
  with s show ?thesis
    unfolding Let_def rs sorted_wrt_append by (auto simp: min_def)
qed

definition three_runs :: world where
  "three_runs = sample_world\<lparr>runs :=
     [((''dev'', ''r1''), RunFile (sample_run\<lparr>run_RunID := ''r1'', run_StartedAt := Stamp 10\<rparr>)),
      ((''dev'', ''r2''), RunFile (sample_run\<lparr>run_RunID := ''r2'', run_StartedAt := Stamp 30\<rparr>)),
      ((''dev'', ''r3''), RunFile (sample_run\<lparr>run_RunID := ''r3'', run_StartedAt := Stamp 20\<rparr>))]\<rparr>"

theorem ListWorkflowRuns_newest_witness:
  "map run_RunID (ListWorkflowRuns ''dev'' 2 three_runs) = [''r2'', ''r3''] \<and>
   length (ListWorkflowRuns ''dev'' 2 three_runs) = min 2 (length (parsed_runs (stage_files ''dev'' three_runs)))"
proof -
  have "map run_RunID (ListWorkflowRuns ''dev'' 2 three_runs) = [''r2'', ''r3'']" by code_simp
  with ListWorkflowRuns_newest [of "''dev''" 2 three_runs] show ?thesis by (simp add: Let_def)
qed

section \<open>Costs\<close>

text \<open>The tokens a run accounts for: its own totals when it has any, else those of its nodes.\<close>

definition has_totals :: "wf_run \<Rightarrow> bool" where
  "has_totals r \<longleftrightarrow>
     run_TotalInputTokens r \<noteq> 0 \<or> run_TotalOutputTokens r \<noteq> 0 \<or> run_EstimatedCostUSD r \<noteq> 0"

definition input_tokens :: "wf_run \<Rightarrow> int64" where
  "input_tokens r = (if has_totals r then run_TotalInputTokens r
     else sum_list (map nr_InputTokens (run_Nodes r)))"

definition output_tokens :: "wf_run \<Rightarrow> int64" where
  "output_tokens r = (if has_totals r then run_TotalOutputTokens r
     else sum_list (map nr_OutputTokens (run_Nodes r)))"

lemma add_nodes_tokens:
  "cs_RunCount (foldl add_node_cost s ns) = cs_RunCount s"
  "cs_TotalInputTokens (foldl add_node_cost s ns) = cs_TotalInputTokens s + sum_list (map nr_InputTokens ns)"
  "cs_TotalOutputTokens (foldl add_node_cost s ns) = cs_TotalOutputTokens s + sum_list (map nr_OutputTokens ns)"
  by (induction ns arbitrary: s) (simp_all add: add_node_cost_def add.assoc)

lemma add_run_tokens:
  "cs_RunCount (add_run_cost s r) = cs_RunCount s + 1"
  "cs_TotalInputTokens (add_run_cost s r) = cs_TotalInputTokens s + input_tokens r"
  "cs_TotalOutputTokens (add_run_cost s r) = cs_TotalOutputTokens s + output_tokens r"
  by (auto simp: add_run_cost_def Let_def input_tokens_def output_tokens_def has_totals_def add_nodes_tokens)

text \<open>
  The cost summary counts every run once and adds up, modulo \<open>2 ^ 64\<close>, the tokens of each:
  never both the totals of a run and those of its nodes. The order of the runs does not matter.
\<close>

theorem WorkflowCostFromRuns_totals:
  "cs_RunCount (WorkflowCostFromRuns rs) = int (length rs) \<and>
   cs_TotalInputTokens (WorkflowCostFromRuns rs) = (\<Sum>r \<in># mset rs. input_tokens r) \<and>
   cs_TotalOutputTokens (WorkflowCostFromRuns rs) = (\<Sum>r \<in># mset rs. output_tokens r)"
proof -
  have "cs_RunCount (foldl add_run_cost s rs) = cs_RunCount s + int (length rs) \<and>
     cs_TotalInputTokens (foldl add_run_cost s rs) = cs_TotalInputTokens s + sum_list (map input_tokens rs) \<and>
     cs_TotalOutputTokens (foldl add_run_cost s rs) = cs_TotalOutputTokens s + sum_list (map output_tokens rs)"
    for s
    by (induction rs arbitrary: s) (simp_all add: add_run_tokens add.assoc)
  then show ?thesis unfolding WorkflowCostFromRuns_def
    by (simp add: sum_mset_sum_list flip: mset_map)
qed

end
