(* ===== verification/Journal.thy ===== *)
theory Journal
  imports Prelude
begin

text \<open>
  Deploy journals: \<^verbatim>\<open>platform/core/state/transactions\<close> (journal, integrity, file backend,
  rollback, archive), the journal backend of the local state extension
  (\<^verbatim>\<open>extensions/states/local/journaling.go\<close>), and the adapter of
  \<^verbatim>\<open>deploy/controlplane/cluster/coordinator.go\<close> between the two journal types.
\<close>

section \<open>Data\<close>

datatype jstatus = StatusActive | StatusRollingBack | StatusRolledBack | StatusCompleted
  | StatusArchived | StatusOther string

record journal_checkpoint =
  cp_Name :: string
  cp_Status :: string

text \<open>A \<^verbatim>\<open>map[string]string\<close> may be nil.\<close>

record operation =
  op_Type :: string
  op_Resource :: string
  op_Metadata :: "(string \<times> string) list option"

text \<open>
  \<^verbatim>\<open>Operations\<close> has no \<^verbatim>\<open>omitempty\<close>: a nil slice (\<^term>\<open>None\<close>) is written \<^verbatim>\<open>null\<close>, an empty one
  \<^verbatim>\<open>[]\<close>. \<^verbatim>\<open>Checkpoints\<close> has it, so nil and empty are the same in the file.
\<close>

record journal_file =
  jf_Service :: string
  jf_Stage :: string
  jf_Operation :: string
  jf_Status :: jstatus
  jf_StartedAt :: string
  jf_UpdatedAt :: string
  jf_Version :: int
  jf_AttemptCount :: int
  jf_LastAttemptAt :: string
  jf_Checksum :: string
  jf_Checkpoints :: "journal_checkpoint list"
  jf_Operations :: "operation list option"

text \<open>The JSON normal form: an empty metadata map is omitted and read back as nil.\<close>

definition norm_op :: "operation \<Rightarrow> operation" where
  "norm_op op = op\<lparr>op_Metadata := (if op_Metadata op = Some [] then None else op_Metadata op)\<rparr>"

definition norm_journal :: "journal_file \<Rightarrow> journal_file" where
  "norm_journal j = j\<lparr>jf_Operations := map_option (map norm_op) (jf_Operations j)\<rparr>"

section \<open>The world\<close>

text \<open>
  \<open>jfiles\<close> are the files of the journal directory by name. Each file operation first consumes
  one element of \<open>jext\<close>: nothing happened, another process wrote a journal file, or the
  operation fails. \<open>jnow\<close> formats the time of each clock reading.
\<close>

datatype jcontent = JGood journal_file | JBad string

datatype jevent = JQuiet | JWrites string journal_file | JIOFail

record jworld =
  jfiles :: "(string \<times> jcontent) list"
  jext :: "jevent list"
  jticks :: nat
  jnow :: "nat \<Rightarrow> string"

datatype jerror = JNotFound | JParseError | JIOError | JConflict string int int | JNil

type_synonym 'a jact = "(jworld, jerror, 'a) act"

definition jstorage :: "unit jact" where
  "jstorage = (\<lambda>w. case jext w of
     [] \<Rightarrow> (Inr (), w)
   | JQuiet # es \<Rightarrow> (Inr (), w\<lparr>jext := es\<rparr>)
   | JWrites p j # es \<Rightarrow> (Inr (), w\<lparr>jext := es, jfiles := AList.update p (JGood j) (jfiles w)\<rparr>)
   | JIOFail # es \<Rightarrow> (Inl JIOError, w\<lparr>jext := es\<rparr>))"

definition jtime :: "string jact" where
  "jtime = (\<lambda>w. (Inr (jnow w (jticks w)), w\<lparr>jticks := Suc (jticks w)\<rparr>))"

section \<open>Backends\<close>

definition journal_path :: "string \<Rightarrow> string \<Rightarrow> string" where
  "journal_path service stage = service @ ''-'' @ stage @ ''.journal.json''"

definition fb_Load :: "string \<Rightarrow> string \<Rightarrow> journal_file jact" where
  "fb_Load service stage =
     bindE jstorage (\<lambda>_.
     bindE (getE (\<lambda>w. map_of (jfiles w) (journal_path service stage))) (\<lambda>c. case c of
       None \<Rightarrow> throwE JNotFound
     | Some (JBad b) \<Rightarrow> throwE JParseError
     | Some (JGood j) \<Rightarrow> returnE j))"

text \<open>\<^verbatim>\<open>if existing, err := b.Load(...); err == nil\<close>: a failed load lets the write go ahead.\<close>

definition tryE :: "('w, 'e, 'a) act \<Rightarrow> ('w, 'e, 'a option) act" where
  "tryE m = (\<lambda>w. case m w of (Inl e, w') \<Rightarrow> (Inr None, w') | (Inr a, w') \<Rightarrow> (Inr (Some a), w'))"

definition write_journal :: "journal_file \<Rightarrow> unit jact" where
  "write_journal j = bindE jstorage (\<lambda>_.
     modifyE (\<lambda>w. w\<lparr>jfiles := AList.update (journal_path (jf_Service j) (jf_Stage j))
       (JGood (norm_journal j)) (jfiles w)\<rparr>))"

definition fb_Save :: "journal_file \<Rightarrow> unit jact" where
  "fb_Save j =
     bindE (tryE (fb_Load (jf_Service j) (jf_Stage j))) (\<lambda>existing.
     case existing of
       Some old \<Rightarrow>
         if jf_Version j \<le> jf_Version old then throwE (JConflict ''file'' (jf_Version old) (jf_Version j))
         else write_journal j
     | None \<Rightarrow> write_journal j)"

definition fb_Delete :: "string \<Rightarrow> string \<Rightarrow> unit jact" where
  "fb_Delete service stage = bindE jstorage (\<lambda>_.
     modifyE (\<lambda>w. w\<lparr>jfiles := AList.delete (journal_path service stage) (jfiles w)\<rparr>))"

text \<open>
  The local state extension keeps the same files under the same names. Its \<^verbatim>\<open>Save\<close> refuses only a
  version lower than the stored one.
\<close>

definition ext_Save :: "journal_file \<Rightarrow> unit jact" where
  "ext_Save j =
     bindE jstorage (\<lambda>_.
     bindE (tryE (fb_Load (jf_Service j) (jf_Stage j))) (\<lambda>existing.
     case existing of
       Some old \<Rightarrow>
         if jf_Version j < jf_Version old then throwE (JConflict ''file'' (jf_Version old) (jf_Version j))
         else write_journal j
     | None \<Rightarrow> write_journal j))"

record journal_backend =
  jb_Load :: "string \<Rightarrow> string \<Rightarrow> journal_file jact"
  jb_Save :: "journal_file \<Rightarrow> unit jact"
  jb_Delete :: "string \<Rightarrow> string \<Rightarrow> unit jact"

definition FileBackend :: journal_backend where
  "FileBackend = \<lparr>jb_Load = fb_Load, jb_Save = fb_Save, jb_Delete = fb_Delete\<rparr>"

definition LocalExtBackend :: journal_backend where
  "LocalExtBackend = \<lparr>jb_Load = fb_Load, jb_Save = ext_Save, jb_Delete = fb_Delete\<rparr>"

text \<open>
  \<^verbatim>\<open>journalBackendAdapter\<close> copies the fields both ways; an empty slice of operations becomes nil.
\<close>

definition adapt_file :: "journal_file \<Rightarrow> journal_file" where
  "adapt_file j = j\<lparr>jf_Operations :=
     (case jf_Operations j of Some (op # ops) \<Rightarrow> Some (op # ops) | _ \<Rightarrow> None)\<rparr>"

definition adapter :: "journal_backend \<Rightarrow> journal_backend" where
  "adapter b = \<lparr>jb_Load = (\<lambda>service stage. bindE (jb_Load b service stage) (\<lambda>j. returnE (adapt_file j))),
     jb_Save = (\<lambda>j. jb_Save b (adapt_file j)), jb_Delete = jb_Delete b\<rparr>"

section \<open>Integrity\<close>

text \<open>\<open>sha\<close> stands for the hex SHA-256 of the marshalled file, a function of its normal form.\<close>

type_synonym sha = "journal_file \<Rightarrow> string"

definition ComputeChecksum :: "sha \<Rightarrow> journal_file \<Rightarrow> string" where
  "ComputeChecksum sha j = sha (norm_journal (j\<lparr>jf_Checksum := ''''\<rparr>))"

definition VerifyChecksum :: "sha \<Rightarrow> journal_file \<Rightarrow> bool" where
  "VerifyChecksum sha j \<longleftrightarrow> jf_Checksum j = ComputeChecksum sha j"

section \<open>The journal object\<close>

text \<open>
  A \<^verbatim>\<open>Journal\<close> holds a pointer to its file: a mutator changes the file in memory even when the
  backend then refuses it. Each operation returns the file in memory beside the error.
\<close>

type_synonym jop = "journal_file \<Rightarrow> jworld \<Rightarrow> (jerror option \<times> journal_file) \<times> jworld"

definition NewJournal :: "string \<Rightarrow> string \<Rightarrow> string \<Rightarrow> jworld \<Rightarrow> journal_file \<times> jworld" where
  "NewJournal service stage oper w =
     (let now = jnow w (jticks w) in
      (\<lparr>jf_Service = service, jf_Stage = stage, jf_Operation = oper, jf_Status = StatusActive,
        jf_StartedAt = now, jf_UpdatedAt = now, jf_Version = 1, jf_AttemptCount = 0,
        jf_LastAttemptAt = '''', jf_Checksum = '''', jf_Checkpoints = [], jf_Operations = Some []\<rparr>,
       w\<lparr>jticks := Suc (jticks w)\<rparr>))"

definition stamp_journal :: "sha \<Rightarrow> string \<Rightarrow> journal_file \<Rightarrow> journal_file" where
  "stamp_journal sha now j =
     (let j1 = j\<lparr>jf_Version := jf_Version j + 1, jf_UpdatedAt := now\<rparr>
      in j1\<lparr>jf_Checksum := ComputeChecksum sha j1\<rparr>)"

definition commit :: "journal_backend \<Rightarrow> sha \<Rightarrow> jop" where
  "commit b sha j w =
     (let j' = stamp_journal sha (jnow w (jticks w)) j
      in case jb_Save b j' (w\<lparr>jticks := Suc (jticks w)\<rparr>) of
           (Inl e, w') \<Rightarrow> ((Some e, j'), w')
         | (Inr u, w') \<Rightarrow> ((None, j'), w'))"

definition SaveJournal :: "journal_backend \<Rightarrow> sha \<Rightarrow> jop" where
  "SaveJournal b sha j = commit b sha j"

definition Record :: "journal_backend \<Rightarrow> sha \<Rightarrow> operation \<Rightarrow> jop" where
  "Record b sha op j = commit b sha (j\<lparr>jf_Operations :=
     Some ((case jf_Operations j of None \<Rightarrow> [] | Some ops \<Rightarrow> ops) @ [op])\<rparr>)"

fun set_checkpoint :: "string \<Rightarrow> string \<Rightarrow> journal_checkpoint list \<Rightarrow> journal_checkpoint list" where
  "set_checkpoint name status [] = [\<lparr>cp_Name = name, cp_Status = status\<rparr>]"
| "set_checkpoint name status (c # cs) =
     (if cp_Name c = name then c\<lparr>cp_Status := status\<rparr> # cs else c # set_checkpoint name status cs)"

definition Checkpoint :: "journal_backend \<Rightarrow> sha \<Rightarrow> string \<Rightarrow> string \<Rightarrow> jop" where
  "Checkpoint b sha name status j =
     commit b sha (j\<lparr>jf_Checkpoints := set_checkpoint name status (jf_Checkpoints j)\<rparr>)"

definition IncrementAttempt :: "journal_backend \<Rightarrow> sha \<Rightarrow> jop" where
  "IncrementAttempt b sha j w =
     commit b sha (j\<lparr>jf_AttemptCount := jf_AttemptCount j + 1, jf_LastAttemptAt := jnow w (jticks w)\<rparr>)
       (w\<lparr>jticks := Suc (jticks w)\<rparr>)"

definition Mark :: "journal_backend \<Rightarrow> sha \<Rightarrow> jstatus \<Rightarrow> jop" where
  "Mark b sha st j = commit b sha (j\<lparr>jf_Status := st\<rparr>)"

definition MarkRollingBack :: "journal_backend \<Rightarrow> sha \<Rightarrow> jop" where
  "MarkRollingBack b sha = Mark b sha StatusRollingBack"

definition MarkRolledBack :: "journal_backend \<Rightarrow> sha \<Rightarrow> jop" where
  "MarkRolledBack b sha = Mark b sha StatusRolledBack"

definition MarkCompleted :: "journal_backend \<Rightarrow> sha \<Rightarrow> jop" where
  "MarkCompleted b sha = Mark b sha StatusCompleted"

definition MarkArchived :: "journal_backend \<Rightarrow> sha \<Rightarrow> jop" where
  "MarkArchived b sha = Mark b sha StatusArchived"

definition DeleteJournal :: "journal_backend \<Rightarrow> journal_file \<Rightarrow> unit jact" where
  "DeleteJournal b j = jb_Delete b (jf_Service j) (jf_Stage j)"

definition Reverse :: "journal_file \<Rightarrow> operation list" where
  "Reverse j = rev (case jf_Operations j of None \<Rightarrow> [] | Some ops \<Rightarrow> ops)"

text \<open>
  \<open>rb\<close> is the provider's rollback: the error text of rolling back one operation, if any, given
  the operations it was called on before. The calls made come back beside the errors.
\<close>

fun rollback_each :: "(operation list \<Rightarrow> operation \<Rightarrow> string option) \<Rightarrow> operation list \<Rightarrow>
    operation list \<Rightarrow> operation list \<times> string list" where
  "rollback_each rb called [] = (called, [])"
| "rollback_each rb called (op # ops) =
     (case rollback_each rb (called @ [op]) ops of (cs, errs) \<Rightarrow>
        (cs, (case rb called op of None \<Rightarrow> errs | Some e \<Rightarrow> e # errs)))"

definition ExecuteRollback :: "(operation list \<Rightarrow> operation \<Rightarrow> string option) \<Rightarrow>
    journal_file option \<Rightarrow> operation list \<times> string list" where
  "ExecuteRollback rb journal =
     (case journal of None \<Rightarrow> ([], []) | Some j \<Rightarrow> rollback_each rb [] (Reverse j))"

text \<open>The name under which \<^verbatim>\<open>Archive\<close> writes a copy: \<open>unix\<close> renders the Unix time.\<close>

definition archive_path :: "string \<Rightarrow> journal_file \<Rightarrow> string" where
  "archive_path unix j = jf_Service j @ ''-'' @ jf_Stage j @ ''-'' @ unix @ ''.json''"

definition Archive :: "string \<Rightarrow> journal_file \<Rightarrow> string jact" where
  "Archive unix j =
     bindE jstorage (\<lambda>_.
     bindE (modifyE (\<lambda>w. w\<lparr>jfiles :=
       AList.update (''journal-archive/'' @ archive_path unix j) (JGood (norm_journal j)) (jfiles w)\<rparr>)) (\<lambda>_.
     returnE (archive_path unix j)))"

text \<open>\<^verbatim>\<open>deploy/exec/idempotency.go\<close>.\<close>

definition RecordOnce :: "journal_backend \<Rightarrow> sha \<Rightarrow> journal_file option \<Rightarrow> operation \<Rightarrow> jworld \<Rightarrow>
    (jerror option \<times> journal_file option) \<times> jworld" where
  "RecordOnce b sha journal op w = (case journal of
     None \<Rightarrow> ((None, None), w)
   | Some j \<Rightarrow>
       if \<exists>x \<in> set (case jf_Operations j of None \<Rightarrow> [] | Some ops \<Rightarrow> ops).
            op_Type x = op_Type op \<and> op_Resource x = op_Resource op
       then ((None, Some j), w)
       else (case Record b sha op j w of ((e, j'), w') \<Rightarrow> ((e, Some j'), w')))"

end
