(* ===== verification/Deploy_Engine.thy ===== *)
theory Deploy_Engine
  imports Journal
begin

text \<open>
  The journaled deploy engine \<^verbatim>\<open>platform/deploy/exec\<close> (engine, faults, universal) and the journal
  handling of \<^verbatim>\<open>platform/deploy/controlplane/cluster\<close> (coordinator, remove, retry, backoff).
\<close>

section \<open>Faults, phases, engine\<close>

record fault_config =
  FailBeforePhase :: string
  FailAfterPhase :: string
  FailOnResource :: string
  FaultsEnabled :: bool

datatype engine_error = FaultBefore string | FaultAfter string | FaultResource string
  | JournalError jerror | PhaseError string | NilPanic

definition CheckBefore :: "fault_config \<Rightarrow> string \<Rightarrow> engine_error option" where
  "CheckBefore f phase = (if FaultsEnabled f \<and> FailBeforePhase f = phase then Some (FaultBefore phase) else None)"

definition CheckAfter :: "fault_config \<Rightarrow> string \<Rightarrow> engine_error option" where
  "CheckAfter f phase = (if FaultsEnabled f \<and> FailAfterPhase f = phase then Some (FaultAfter phase) else None)"

definition CheckResource :: "fault_config \<Rightarrow> string \<Rightarrow> engine_error option" where
  "CheckResource f res = (if FaultsEnabled f \<and> FailOnResource f = res then Some (FaultResource res) else None)"

text \<open>
  A phase has a name and a function on the deploy context \<open>'c\<close>; it may change the context
  before it fails. It is given the number of phases run so far, so it may answer differently
  each time.
\<close>

record 'c phase =
  PhaseName :: string
  PhaseRun :: "nat \<Rightarrow> 'c \<Rightarrow> string option \<times> 'c"

text \<open>
  The state of an engine run: the journal in memory (a nil pointer is \<^term>\<open>None\<close>), the context,
  the names of the phases run so far, and the world.
\<close>

record 'c engine =
  en_journal :: "journal_file option"
  en_ctx :: 'c
  en_ran :: "string list"
  en_world :: jworld

definition completedCheckpoints :: "journal_file option \<Rightarrow> string list" where
  "completedCheckpoints j = (case j of None \<Rightarrow> []
     | Some f \<Rightarrow> map cp_Name (filter (\<lambda>c. cp_Status c = ''done'') (jf_Checkpoints f)))"

text \<open>A journal call through \<^verbatim>\<open>e.Journal\<close>: a nil pointer is dereferenced.\<close>

definition engine_checkpoint ::
  "journal_backend \<Rightarrow> sha \<Rightarrow> string \<Rightarrow> string \<Rightarrow> 'c engine \<Rightarrow> engine_error option \<times> 'c engine" where
  "engine_checkpoint b sha name status s = (case en_journal s of
     None \<Rightarrow> (Some NilPanic, s)
   | Some j \<Rightarrow> (case Checkpoint b sha name status j (en_world s) of
       ((e, j'), w') \<Rightarrow> (map_option JournalError e, s\<lparr>en_journal := Some j', en_world := w'\<rparr>)))"

definition run_phase ::
  "journal_backend \<Rightarrow> sha \<Rightarrow> fault_config \<Rightarrow> 'c phase \<Rightarrow> 'c engine \<Rightarrow> engine_error option \<times> 'c engine" where
  "run_phase b sha faults p s =
     (case CheckBefore faults (PhaseName p) of Some e \<Rightarrow> (Some e, s) | None \<Rightarrow>
     (case engine_checkpoint b sha (PhaseName p) ''in_progress'' s of
       (Some e, s1) \<Rightarrow> (Some e, s1)
     | (None, s1) \<Rightarrow>
     (case PhaseRun p (length (en_ran s1)) (en_ctx s1) of (e, c) \<Rightarrow>
     (let s2 = s1\<lparr>en_ctx := c, en_ran := en_ran s1 @ [PhaseName p]\<rparr> in
      case e of Some msg \<Rightarrow> (Some (PhaseError msg), s2)
      | None \<Rightarrow>
     (case engine_checkpoint b sha (PhaseName p) ''done'' s2 of
       (Some e, s3) \<Rightarrow> (Some e, s3)
     | (None, s3) \<Rightarrow> (CheckAfter faults (PhaseName p), s3))))))"

fun run_phases ::
  "journal_backend \<Rightarrow> sha \<Rightarrow> fault_config \<Rightarrow> string list \<Rightarrow> 'c phase list \<Rightarrow> 'c engine \<Rightarrow>
   engine_error option \<times> 'c engine" where
  "run_phases b sha faults completed [] s = (None, s)"
| "run_phases b sha faults completed (p # ps) s =
     (if PhaseName p \<in> set completed then run_phases b sha faults completed ps s
      else case run_phase b sha faults p s of
        (Some e, s') \<Rightarrow> (Some e, s')
      | (None, s') \<Rightarrow> run_phases b sha faults completed ps s')"

definition engine_Run ::
  "journal_backend \<Rightarrow> sha \<Rightarrow> fault_config \<Rightarrow> 'c phase list \<Rightarrow> 'c engine \<Rightarrow> engine_error option \<times> 'c engine" where
  "engine_Run b sha faults phases s =
     run_phases b sha faults (completedCheckpoints (en_journal s)) phases s"

section \<open>Universal deploy\<close>

definition deploy_phase_name :: string where
  "deploy_phase_name = ''deploy_functions''"

text \<open>
  \<open>deploy\<close> is the provider's deploy: an error text, or a result that may be nil. It is given the
  number of calls made so far. The deploy context of this engine is the result and that number.
\<close>

type_synonym 'r deploy_fn = "nat \<Rightarrow> string + 'r option"

definition deploy_phase :: "'r deploy_fn \<Rightarrow> ('r option \<times> nat) phase" where
  "deploy_phase deploy = \<lparr>PhaseName = deploy_phase_name, PhaseRun = (\<lambda>_ (res, n).
     case deploy n of Inl e \<Rightarrow> (Some e, (res, Suc n)) | Inr r \<Rightarrow> (None, (r, Suc n)))\<rparr>"

definition call_journal ::
  "(journal_file \<Rightarrow> jworld \<Rightarrow> (jerror option \<times> journal_file) \<times> jworld) \<Rightarrow> 'c engine \<Rightarrow> 'c engine" where
  "call_journal f s = (case en_journal s of None \<Rightarrow> s
     | Some j \<Rightarrow> (case f j (en_world s) of ((e, j'), w') \<Rightarrow> s\<lparr>en_journal := Some j', en_world := w'\<rparr>))"

definition RunDeploy ::
  "journal_backend \<Rightarrow> sha \<Rightarrow> fault_config \<Rightarrow> journal_file option \<Rightarrow> 'r deploy_fn \<Rightarrow> jworld \<Rightarrow>
   (engine_error + 'r option) \<times> ('r option \<times> nat) engine" where
  "RunDeploy b sha faults journal deploy w =
     (let s0 = call_journal (IncrementAttempt b sha)
           \<lparr>en_journal = journal, en_ctx = (None, 0), en_ran = [], en_world = w\<rparr> in
      case engine_Run b sha faults [deploy_phase deploy] s0 of
        (Some e, s) \<Rightarrow> (Inl e, s)
      | (None, s) \<Rightarrow>
          (case en_ctx s of (res, n) \<Rightarrow>
          (case (if res = None then deploy n else Inr res) of
             Inl e \<Rightarrow> (Inl (PhaseError e), s\<lparr>en_ctx := (res, Suc n)\<rparr>)
           | Inr r \<Rightarrow>
               (Inr r, call_journal (MarkCompleted b sha)
                  (s\<lparr>en_ctx := (r, if res = None then Suc n else n)\<rparr>)))))"

text \<open>\<^verbatim>\<open>OpenDeployJournal\<close>; the journal pointer is nil when the root is empty.\<close>

definition OpenDeployJournal :: "string \<Rightarrow> string \<Rightarrow> string \<Rightarrow> jworld \<Rightarrow> journal_file option \<times> jworld" where
  "OpenDeployJournal service stage root w =
     (if root = '''' then (None, w)
      else case fb_Load service stage w of
        (Inl e, w1) \<Rightarrow> (case NewJournal service stage ''deploy'' w1 of (j, w2) \<Rightarrow> (Some j, w2))
      | (Inr f, w1) \<Rightarrow>
          if jf_Status f = StatusActive then (Some f, w1)
          else (case NewJournal service stage ''deploy'' w1 of
            (j, w2) \<Rightarrow> (Some (j\<lparr>jf_Version := jf_Version f\<rparr>), w2)))"

section \<open>Coordinator\<close>

definition journalResumable :: "jstatus \<Rightarrow> bool" where
  "journalResumable s \<longleftrightarrow> s = StatusActive \<or> s = StatusRollingBack"

text \<open>A fresh journal, started above the version of a terminal one that lingers in the backend.\<close>

definition fresh_journal ::
  "journal_backend \<Rightarrow> sha \<Rightarrow> string \<Rightarrow> string \<Rightarrow> string \<Rightarrow> journal_file option \<Rightarrow> journal_file jact" where
  "fresh_journal b sha service stage oper existing w =
     (case NewJournal service stage oper w of (j, w1) \<Rightarrow>
     (let j1 = (case existing of Some old \<Rightarrow> j\<lparr>jf_Version := jf_Version old\<rparr> | None \<Rightarrow> j) in
      case SaveJournal b sha j1 w1 of
        ((Some e, j2), w2) \<Rightarrow> (Inl e, w2)
      | ((None, j2), w2) \<Rightarrow> (Inr j2, w2)))"

definition resumeOrNewJournal ::
  "journal_backend \<Rightarrow> sha \<Rightarrow> string \<Rightarrow> string \<Rightarrow> string \<Rightarrow> journal_file jact" where
  "resumeOrNewJournal b sha service stage oper =
     bindE (tryE (jb_Load b service stage)) (\<lambda>existing. case existing of
       Some j \<Rightarrow> if journalResumable (jf_Status j) then returnE j
                 else fresh_journal b sha service stage oper existing
     | None \<Rightarrow> fresh_journal b sha service stage oper existing)"

text \<open>
  \<^verbatim>\<open>AcquireRunContext\<close>, \<^verbatim>\<open>Close\<close> and \<^verbatim>\<open>RunRemove\<close>. The lock manager is a parameter: whether the
  lock is granted; whether the lease is reported lost after the removal. The result says
  whether the lock was taken and given back.
\<close>

record remove_env =
  rm_lock :: "string option"
  rm_remove :: "string option"
  rm_lease_lost :: bool

datatype remove_error = LockError string | RemoveJournalError jerror | RemoveError string | LeaseLost

record remove_result =
  rr_error :: "remove_error option"
  rr_locked :: bool
  rr_released :: bool

definition AcquireRunContext ::
  "journal_backend \<Rightarrow> sha \<Rightarrow> string option \<Rightarrow> string \<Rightarrow> string \<Rightarrow> string \<Rightarrow> jworld \<Rightarrow>
   (remove_error + journal_file) \<times> bool \<times> jworld" where
  "AcquireRunContext b sha lock service stage oper w = (case lock of
     Some e \<Rightarrow> (Inl (LockError e), False, w)
   | None \<Rightarrow> (case resumeOrNewJournal (adapter b) sha service stage oper w of
       (Inl e, w') \<Rightarrow> (Inl (RemoveJournalError e), False, w')
     | (Inr j, w') \<Rightarrow> (Inr j, True, w')))"

definition RunRemove ::
  "journal_backend \<Rightarrow> sha \<Rightarrow> remove_env \<Rightarrow> string \<Rightarrow> string \<Rightarrow> jworld \<Rightarrow> remove_result \<times> jworld" where
  "RunRemove b sha env service stage w =
     (case AcquireRunContext b sha (rm_lock env) service stage ''remove'' w of
        (Inl e, held, w1) \<Rightarrow> (\<lparr>rr_error = Some e, rr_locked = (rm_lock env = None), rr_released = \<not> held\<rparr>, w1)
      | (Inr j, held, w1) \<Rightarrow>
          let ab = adapter b; fin = (\<lambda>e. \<lparr>rr_error = e, rr_locked = True, rr_released = True\<rparr>) in
          case rm_remove env of
            Some e \<Rightarrow> (case MarkRollingBack ab sha j w1 of (r, w2) \<Rightarrow> (fin (Some (RemoveError e)), w2))
          | None \<Rightarrow>
              if rm_lease_lost env then
                (case Checkpoint ab sha ''lease'' ''lost'' j w1 of (r, w2) \<Rightarrow> (fin (Some LeaseLost), w2))
              else (case MarkCompleted ab sha j w1 of
                ((Some e, j2), w2) \<Rightarrow> (fin (Some (RemoveJournalError e)), w2)
              | ((None, j2), w2) \<Rightarrow> (case DeleteJournal ab j2 w2 of (r, w3) \<Rightarrow> (fin None, w3))))"

section \<open>Retry\<close>

text \<open>\<^verbatim>\<open>Backoff\<close> in milliseconds.\<close>

definition Backoff :: "int \<Rightarrow> int" where
  "Backoff attempt = (if attempt \<le> 1 then 200 else if attempt = 2 then 500
     else if attempt = 3 then 1000 else 2000)"

text \<open>
  \<open>fn i\<close> is the error of the \<open>i\<close>-th call; \<open>stopped i\<close> the error of a context that is done while
  waiting after it. The result is the error and the number of calls.
\<close>

function retry_from ::
  "(int \<Rightarrow> string option) \<Rightarrow> (int \<Rightarrow> string option) \<Rightarrow> int \<Rightarrow> int \<Rightarrow> string option \<Rightarrow> nat \<Rightarrow> string option \<times> nat" where
  "retry_from fn stopped attempts i lastErr n =
     (if i \<le> attempts then
        (case fn i of
           None \<Rightarrow> (None, Suc n)
         | Some e \<Rightarrow>
             if i < attempts then
               (case stopped i of Some c \<Rightarrow> (Some c, Suc n)
                | None \<Rightarrow> retry_from fn stopped attempts (i + 1) (Some e) (Suc n))
             else (Some e, Suc n))
      else (lastErr, n))"
  by pat_completeness auto
termination by (relation "measure (\<lambda>(fn, d, a, i, l, n). nat (a + 1 - i))") auto

declare retry_from.simps [simp del]

definition Retry :: "(int \<Rightarrow> string option) \<Rightarrow> (int \<Rightarrow> string option) \<Rightarrow> int \<Rightarrow> string option \<times> nat" where
  "Retry fn stopped attempts = retry_from fn stopped attempts 1 None 0"

end
