(* ===== verification/Journal_Claims.thy ===== *)
theory Journal_Claims
  imports Journal
begin

text \<open>
  Contracts of the journal backends as locales, their interpretations, and what follows for
  journals: integrity of what is stored, detection of lost updates and where it fails.
\<close>

lemma norm_op_idem [simp]: "norm_op (norm_op op) = norm_op op"
  by (simp add: norm_op_def)

lemma norm_journal_idem [simp]: "norm_journal (norm_journal j) = norm_journal j"
  by (simp add: norm_journal_def option.map_comp o_def)

lemma norm_journal_simps [simp]:
  "jf_Service (norm_journal j) = jf_Service j" "jf_Stage (norm_journal j) = jf_Stage j"
  "jf_Version (norm_journal j) = jf_Version j" "jf_Checksum (norm_journal j) = jf_Checksum j"
  "jf_Checkpoints (norm_journal j) = jf_Checkpoints j" "jf_Status (norm_journal j) = jf_Status j"
  "norm_journal (j\<lparr>jf_Checksum := c\<rparr>) = (norm_journal j)\<lparr>jf_Checksum := c\<rparr>"
  by (simp_all add: norm_journal_def)

abbreviation path_of :: "journal_file \<Rightarrow> string" where
  "path_of j \<equiv> journal_path (jf_Service j) (jf_Stage j)"

section \<open>The contract of a journal backend\<close>

text \<open>With no other process at work: what a save and a load do.\<close>

locale journal_store =
  fixes b :: journal_backend
  assumes save_stored: "jext w = [] \<Longrightarrow> jb_Save b j w = (Inr u, w') \<Longrightarrow>
      w' = w\<lparr>jfiles := AList.update (path_of j) (JGood (norm_journal j)) (jfiles w)\<rparr>"
    and save_refused: "jext w = [] \<Longrightarrow> jb_Save b j w = (Inl e, w') \<Longrightarrow> w' = w"
    and load_stored: "jext w = [] \<Longrightarrow> map_of (jfiles w) (journal_path s t) = Some (JGood j) \<Longrightarrow>
      jb_Load b s t w = (Inr j, w)"
    and load_absent: "jext w = [] \<Longrightarrow> map_of (jfiles w) (journal_path s t) = None \<Longrightarrow>
      jb_Load b s t w = (Inl JNotFound, w)"
    and save_new: "jext w = [] \<Longrightarrow> map_of (jfiles w) (path_of j) = Some (JGood old) \<Longrightarrow>
      jf_Version old < jf_Version j \<Longrightarrow> \<exists>w'. jb_Save b j w = (Inr (), w')"
    and save_first: "jext w = [] \<Longrightarrow> map_of (jfiles w) (path_of j) = None \<Longrightarrow>
      \<exists>w'. jb_Save b j w = (Inr (), w')"
begin

lemma stamp_simps [simp]:
  "path_of (stamp_journal sha t j) = path_of j"
  "jf_Version (stamp_journal sha t j) = jf_Version j + 1"
  "jf_Operations (stamp_journal sha t j) = jf_Operations j"
  "jf_Checkpoints (stamp_journal sha t j) = jf_Checkpoints j"
  "jf_Status (stamp_journal sha t j) = jf_Status j"
  by (simp_all add: stamp_journal_def Let_def)

lemma commit_memory: "commit b sha j w = ((e, j'), w') \<Longrightarrow> j' = stamp_journal sha (jnow w (jticks w)) j"
  by (auto simp: commit_def Let_def split: prod.splits sum.splits)

lemma commit_ok:
  assumes "jext w = []" and "commit b sha j w = ((None, j'), w')"
  shows "map_of (jfiles w') (path_of j) = Some (JGood (norm_journal j'))" and "jext w' = []"
    and "w' = w\<lparr>jticks := Suc (jticks w),
      jfiles := AList.update (path_of j) (JGood (norm_journal j')) (jfiles w)\<rparr>"
proof -
  let ?w = "w\<lparr>jticks := Suc (jticks w)\<rparr>"
  from assms(2) have "jb_Save b j' ?w = (Inr (), w')" and j': "j' = stamp_journal sha (jnow w (jticks w)) j"
    by (auto simp: commit_def Let_def split: prod.splits sum.splits)
  from save_stored [OF _ this(1)] assms(1) j'
  show w': "w' = w\<lparr>jticks := Suc (jticks w),
      jfiles := AList.update (path_of j) (JGood (norm_journal j')) (jfiles w)\<rparr>" by simp
  then show "map_of (jfiles w') (path_of j) = Some (JGood (norm_journal j'))" "jext w' = []"
    using assms(1) by (simp_all add: update_conv')
qed

lemma commit_refused:
  assumes "jext w = []" and "commit b sha j w = ((Some e, j'), w')"
  shows "w' = w\<lparr>jticks := Suc (jticks w)\<rparr>"
proof -
  from assms(2) have "jb_Save b j' (w\<lparr>jticks := Suc (jticks w)\<rparr>) = (Inl e, w')"
    by (auto simp: commit_def Let_def split: prod.splits sum.splits)
  with save_refused [of "w\<lparr>jticks := Suc (jticks w)\<rparr>"] assms(1) show ?thesis by simp
qed

lemma commit_newer:
  assumes "jext w = []" and "map_of (jfiles w) (path_of j) = Some (JGood old)"
    and "jf_Version old \<le> jf_Version j"
  shows "\<exists>w'. commit b sha j w = ((None, stamp_journal sha (jnow w (jticks w)) j), w')"
proof -
  let ?j = "stamp_journal sha (jnow w (jticks w)) j"
  obtain w' where "jb_Save b ?j (w\<lparr>jticks := Suc (jticks w)\<rparr>) = (Inr (), w')"
    using save_new [of "w\<lparr>jticks := Suc (jticks w)\<rparr>" ?j old] assms by auto
  then show ?thesis by (simp add: commit_def Let_def)
qed

text \<open>What a successful commit stores verifies.\<close>

lemma commit_verifies:
  assumes "jext w = []" and "commit b sha j w = ((None, j'), w')"
  shows "\<exists>f. map_of (jfiles w') (path_of j) = Some (JGood f) \<and> VerifyChecksum sha f"
proof -
  have "j' = stamp_journal sha (jnow w (jticks w)) j" using commit_memory [OF assms(2)] .
  then have "VerifyChecksum sha (norm_journal j')"
    by (simp add: VerifyChecksum_def ComputeChecksum_def stamp_journal_def Let_def)
  with commit_ok(1) [OF assms] show ?thesis by blast
qed

end

text \<open>A backend that refuses every write that does not advance the stored version.\<close>

locale strict_store = journal_store +
  assumes save_strict: "jext w = [] \<Longrightarrow> map_of (jfiles w) (path_of j) = Some (JGood old) \<Longrightarrow>
      jf_Version j \<le> jf_Version old \<Longrightarrow> \<exists>c. jb_Save b j w = (Inl (JConflict c (jf_Version old) (jf_Version j)), w)"
begin

lemma commit_conflict:
  assumes "jext w = []" and "map_of (jfiles w) (path_of j) = Some (JGood old)"
    and "jf_Version j < jf_Version old"
  shows "\<exists>c. commit b sha j w = ((Some (JConflict c (jf_Version old) (jf_Version j + 1)),
    stamp_journal sha (jnow w (jticks w)) j), w\<lparr>jticks := Suc (jticks w)\<rparr>)"
  using save_strict [of "w\<lparr>jticks := Suc (jticks w)\<rparr>" "stamp_journal sha (jnow w (jticks w)) j" old] assms
  by (auto simp: commit_def Let_def)

end

section \<open>The two backends\<close>

lemma fb_Load_quiet:
  "jext w = [] \<Longrightarrow> fb_Load s t w = (case map_of (jfiles w) (journal_path s t) of
     None \<Rightarrow> (Inl JNotFound, w) | Some (JBad c) \<Rightarrow> (Inl JParseError, w) | Some (JGood j) \<Rightarrow> (Inr j, w))"
  by (simp add: fb_Load_def jstorage_def bindE_def split: option.split jcontent.split)

lemma write_journal_quiet:
  "jext w = [] \<Longrightarrow> write_journal j w =
     (Inr (), w\<lparr>jfiles := AList.update (path_of j) (JGood (norm_journal j)) (jfiles w)\<rparr>)"
  by (simp add: write_journal_def jstorage_def bindE_def)

lemma fb_Save_quiet:
  "jext w = [] \<Longrightarrow> fb_Save j w = (case map_of (jfiles w) (path_of j) of
     Some (JGood old) \<Rightarrow> if jf_Version j \<le> jf_Version old
       then (Inl (JConflict ''file'' (jf_Version old) (jf_Version j)), w) else write_journal j w
   | _ \<Rightarrow> write_journal j w)"
  by (simp add: fb_Save_def tryE_def bindE_def fb_Load_quiet split: option.split jcontent.split)

lemma ext_Save_quiet:
  "jext w = [] \<Longrightarrow> ext_Save j w = (case map_of (jfiles w) (path_of j) of
     Some (JGood old) \<Rightarrow> if jf_Version j < jf_Version old
       then (Inl (JConflict ''file'' (jf_Version old) (jf_Version j)), w) else write_journal j w
   | _ \<Rightarrow> write_journal j w)"
  by (simp add: ext_Save_def tryE_def bindE_def jstorage_def fb_Load_quiet split: option.split jcontent.split)

lemmas quiet_backends = fb_Load_quiet fb_Save_quiet ext_Save_quiet write_journal_quiet

interpretation file_journal: strict_store FileBackend
  by standard
    (auto simp: FileBackend_def quiet_backends split: option.splits jcontent.splits if_splits)

interpretation ext_journal: journal_store LocalExtBackend
  by standard
    (auto simp: LocalExtBackend_def quiet_backends split: option.splits jcontent.splits if_splits)

section \<open>The properties\<close>

definition demo_jworld :: jworld where
  "demo_jworld = \<lparr>jfiles = [], jext = [], jticks = 0, jnow = (\<lambda>n. replicate n CHR ''t'')\<rparr>"

definition demo_journal :: journal_file where
  "demo_journal = fst (NewJournal ''svc'' ''dev'' ''deploy'' demo_jworld)"

text \<open>A checksum that tells the update times and the presence of operations apart.\<close>

definition demo_sha :: sha where
  "demo_sha j = (case jf_Operations j of None \<Rightarrow> ''null'' | Some ops \<Rightarrow> ''list'') @ jf_UpdatedAt j"

definition demo_op :: "string \<Rightarrow> operation" where
  "demo_op r = \<lparr>op_Type = ''create_api'', op_Resource = r, op_Metadata = Some []\<rparr>"

definition stored_world :: jworld where
  "stored_world = snd (SaveJournal FileBackend demo_sha demo_journal demo_jworld)"

definition stored_journal :: journal_file where
  "stored_journal = snd (fst (SaveJournal FileBackend demo_sha demo_journal demo_jworld))"

text \<open>
  A save of the file backend that succeeds has written the file with its last step, whatever other processes did before and
  whichever of its reads failed.
\<close>

lemma write_journal_stored: "write_journal j w = (Inr (), w') \<Longrightarrow> map_of (jfiles w') (path_of j) = Some (JGood (norm_journal j))"
  by (auto simp: write_journal_def bindE_def modifyE_def update_conv' split: prod.splits sum.splits)

lemma fb_Save_stored: "fb_Save j w = (Inr (), w') \<Longrightarrow> map_of (jfiles w') (path_of j) = Some (JGood (norm_journal j))"
  unfolding fb_Save_def bindE_def by (auto simp: throwE_def write_journal_stored split: prod.splits sum.splits option.splits if_splits)

lemma commit_stored:
  assumes "commit FileBackend sha j w = ((None, j'), w')"
  shows "map_of (jfiles w') (path_of j) = Some (JGood (norm_journal j')) \<and> VerifyChecksum sha (norm_journal j')"
proof -
  have j': "j' = stamp_journal sha (jnow w (jticks w)) j" and "fb_Save j' (w\<lparr>jticks := Suc (jticks w)\<rparr>) = (Inr (), w')"
    using assms by (auto simp: commit_def FileBackend_def Let_def split: prod.splits sum.splits)
  moreover have "path_of j' = path_of j" by (simp add: j' stamp_journal_def Let_def)
  ultimately show ?thesis using fb_Save_stored [of j'] by (simp add: VerifyChecksum_def ComputeChecksum_def stamp_journal_def Let_def)
qed

text \<open>
  C37. Whatever journal operation succeeds on the file backend - recording an operation, a checkpoint, an attempt, a status -
  and whatever other processes wrote to the journal files and whichever reads failed in the meantime, it leaves
  the journal it has in memory in the file, with a checksum that verifies. (The journals of the
  coordinator go through an adapter that changes them after the checksum is computed: see \<open>adapter_breaks_checksum\<close>.)
\<close>

theorem journal_checksum_valid:
  assumes "f \<in> {SaveJournal FileBackend sha, Record FileBackend sha op, Checkpoint FileBackend sha name st,
      IncrementAttempt FileBackend sha, MarkRollingBack FileBackend sha, MarkRolledBack FileBackend sha,
      MarkCompleted FileBackend sha, MarkArchived FileBackend sha}"
    and "f j w = ((None, j'), w')"
  shows "map_of (jfiles w') (path_of j) = Some (JGood (norm_journal j')) \<and> VerifyChecksum sha (norm_journal j')"
proof -
  obtain j0 w0 where c: "commit FileBackend sha j0 w0 = ((None, j'), w')" "path_of j0 = path_of j"
    using assms by (auto simp: SaveJournal_def Record_def Checkpoint_def IncrementAttempt_def
        MarkRollingBack_def MarkRolledBack_def MarkCompleted_def MarkArchived_def Mark_def)
  from commit_stored [OF c(1)] c(2) show ?thesis by simp
qed

text \<open>The load before the write fails, and another process writes the journal before the write.\<close>

definition busy_world :: jworld where
  "busy_world = stored_world\<lparr>jext := [JIOFail, JWrites (journal_path ''svc'' ''dev'') demo_journal]\<rparr>"

theorem journal_checksum_valid_witness:
  "case map_of (jfiles (snd (Record FileBackend demo_sha (demo_op ''a'') stored_journal busy_world))) (journal_path ''svc'' ''dev'') of
     Some (JGood s) \<Rightarrow> VerifyChecksum demo_sha s \<and> jf_Version s = 3 | _ \<Rightarrow> False"
proof -
  let ?m = "Record FileBackend demo_sha (demo_op ''a'') stored_journal busy_world"
  have "fst (fst ?m) = None" by code_simp
  then obtain j' w' where eq: "?m = ((None, j'), w')" by (metis prod.collapse)
  have h: "jf_Service stored_journal = ''svc''" "jf_Stage stored_journal = ''dev''" "jf_Version (snd (fst ?m)) = 3"
    by code_simp+
  from journal_checksum_valid [where f = "Record FileBackend demo_sha (demo_op ''a'')" and sha = demo_sha and op = "demo_op ''a''", OF _ eq] h eq
  show ?thesis by simp
qed

text \<open>
  C10. Lost updates are detected on the file backend. Of two processes that hold the journal as it
  is stored, the one that commits second is told of a conflict and the first one's write stays.
\<close>

theorem journal_conflict_detected:
  assumes "jext w = []" and "path_of jB = path_of jA" and "jf_Version jB = jf_Version jA"
    and "commit FileBackend sha jA w = ((None, jA'), w1)"
  shows "\<exists>c jB'. commit FileBackend sha jB w1 =
      ((Some (JConflict c (jf_Version jA + 1) (jf_Version jB + 1)), jB'), w1\<lparr>jticks := Suc (jticks w1)\<rparr>) \<and>
    map_of (jfiles w1) (path_of jA) = Some (JGood (norm_journal jA'))"
proof -
  note ok = file_journal.commit_ok [OF assms(1,4)]
  have "jA' = stamp_journal sha (jnow w (jticks w)) jA" using file_journal.commit_memory [OF assms(4)] .
  then have v: "jf_Version (norm_journal jA') = jf_Version jA + 1"
    by (simp add: stamp_journal_def Let_def)
  have st: "map_of (jfiles w1) (path_of jB) = Some (JGood (norm_journal jA'))" using ok(1) assms(2) by simp
  have "jb_Save FileBackend (stamp_journal sha (jnow w1 (jticks w1)) jB) (w1\<lparr>jticks := Suc (jticks w1)\<rparr>) =
      (Inl (JConflict ''file'' (jf_Version jA + 1) (jf_Version jB + 1)), w1\<lparr>jticks := Suc (jticks w1)\<rparr>)"
    using st v assms(3) ok(2) by (simp add: FileBackend_def fb_Save_quiet)
  then show ?thesis using ok(1) by (simp add: commit_def Let_def)
qed

theorem journal_conflict_detected_witness:
  "fst (fst (commit FileBackend demo_sha (stored_journal\<lparr>jf_Status := StatusCompleted\<rparr>)
     (snd (commit FileBackend demo_sha stored_journal stored_world)))) \<noteq> None"
proof -
  let ?m = "commit FileBackend demo_sha stored_journal stored_world"
  have "fst (fst ?m) = None" by code_simp
  then obtain j' w' where eq: "?m = ((None, j'), w')" by (metis prod.collapse)
  have h: "jext stored_world = []" by code_simp
  from journal_conflict_detected [OF h _ _ eq, of "stored_journal\<lparr>jf_Status := StatusCompleted\<rparr>"] eq
  show ?thesis by auto
qed

text \<open>
  The version in memory advances even when a write is refused, so a process that carries on
  after a conflict overwrites the other one's journal with its next commit: the conflict is
  reported once and then the update is lost.
\<close>

theorem journal_conflict_then_overwrite:
  assumes "jext w = []" and "map_of (jfiles w) (path_of j) = Some (JGood old)"
    and "jf_Version old = jf_Version j + 1"
    and "commit FileBackend sha j w = ((e, j1), w1)" and "commit FileBackend sha j1 w1 = ((e', j2), w2)"
  shows "e \<noteq> None \<and> e' = None \<and> map_of (jfiles w1) (path_of j) = Some (JGood old) \<and>
    map_of (jfiles w2) (path_of j) = Some (JGood (norm_journal j2)) \<and> jf_Operations j2 = jf_Operations j"
proof -
  from file_journal.commit_conflict [OF assms(1,2), of sha] assms(3,4)
  have e: "e \<noteq> None" and w1: "w1 = w\<lparr>jticks := Suc (jticks w)\<rparr>"
    and j1: "j1 = stamp_journal sha (jnow w (jticks w)) j" by auto
  have st: "map_of (jfiles w1) (path_of j1) = Some (JGood old)" "jext w1 = []"
    using assms(1,2) by (simp_all add: w1 j1 stamp_journal_def Let_def)
  have v: "jf_Version old \<le> jf_Version j1" using assms(3) by (simp add: j1 stamp_journal_def Let_def)
  from file_journal.commit_newer [OF st(2,1) v, of sha] assms(5)
  have e': "e' = None" and j2: "j2 = stamp_journal sha (jnow w1 (jticks w1)) j1" by auto
  from file_journal.commit_ok(1) [OF st(2)] assms(5) e'
  have "map_of (jfiles w2) (path_of j1) = Some (JGood (norm_journal j2))" by blast
  with e e' st(1) show ?thesis by (simp add: j1 j2 stamp_journal_def Let_def)
qed

theorem journal_conflict_then_overwrite_witness:
  "let w = snd (Record FileBackend demo_sha (demo_op ''b'') stored_journal stored_world);
       ((e, j1), w1) = commit FileBackend demo_sha stored_journal w;
       ((e', j2), w2) = commit FileBackend demo_sha j1 w1
   in e \<noteq> None \<and> e' = None \<and> jf_Operations j2 = Some []"
proof -
  let ?w = "snd (Record FileBackend demo_sha (demo_op ''b'') stored_journal stored_world)"
  obtain e j1 w1 where 1: "commit FileBackend demo_sha stored_journal ?w = ((e, j1), w1)"
    by (metis prod.exhaust)
  obtain e' j2 w2 where 2: "commit FileBackend demo_sha j1 w1 = ((e', j2), w2)"
    by (metis prod.exhaust)
  have "case map_of (jfiles ?w) (path_of stored_journal) of Some (JGood old) \<Rightarrow>
      jf_Version old = jf_Version stored_journal + 1 | _ \<Rightarrow> False" by code_simp
  then obtain old where old: "map_of (jfiles ?w) (path_of stored_journal) = Some (JGood old)"
    "jf_Version old = jf_Version stored_journal + 1" by (auto split: option.splits jcontent.splits)
  have "jext ?w = []" "jf_Operations stored_journal = Some []" by code_simp+
  with journal_conflict_then_overwrite [OF _ old 1 2] show ?thesis by (simp add: 1 2)
qed

text \<open>
  The local state extension does not detect the same race: after the first process committed,
  the second one's commit at the same version is accepted and the first one's write is gone.
\<close>

theorem ext_journal_lost_update:
  assumes "jext w = []" and "path_of jB = path_of jA" and "jf_Version jB = jf_Version jA"
    and "commit LocalExtBackend sha jA w = ((None, jA'), w1)"
  shows "\<exists>jB' w2. commit LocalExtBackend sha jB w1 = ((None, jB'), w2) \<and>
    map_of (jfiles w2) (path_of jA) = Some (JGood (norm_journal jB')) \<and>
    jf_Operations jB' = jf_Operations jB"
proof -
  note ok = ext_journal.commit_ok [OF assms(1,4)]
  have "jA' = stamp_journal sha (jnow w (jticks w)) jA" using ext_journal.commit_memory [OF assms(4)] .
  then have v: "jf_Version (norm_journal jA') = jf_Version jB + 1"
    using assms(3) by (simp add: stamp_journal_def Let_def)
  let ?jB = "stamp_journal sha (jnow w1 (jticks w1)) jB"
  have "jb_Save LocalExtBackend ?jB (w1\<lparr>jticks := Suc (jticks w1)\<rparr>) =
      write_journal ?jB (w1\<lparr>jticks := Suc (jticks w1)\<rparr>)"
    using ok(1,2) v assms(2) by (simp add: LocalExtBackend_def ext_Save_quiet)
  then obtain w2 where c: "commit LocalExtBackend sha jB w1 = ((None, ?jB), w2)"
    using ok(2) by (simp add: commit_def Let_def write_journal_quiet)
  from ext_journal.commit_ok(1) [OF ok(2) c] c assms(2) show ?thesis
    by (auto simp: stamp_journal_def Let_def)
qed

theorem ext_journal_lost_update_witness:
  "\<exists>jB' w2. commit LocalExtBackend demo_sha stored_journal
      (snd (Record LocalExtBackend demo_sha (demo_op ''b'') stored_journal stored_world)) = ((None, jB'), w2) \<and>
    map_of (jfiles w2) (journal_path ''svc'' ''dev'') = Some (JGood (norm_journal jB')) \<and>
    jf_Operations jB' = Some []"
proof -
  let ?jA = "stored_journal\<lparr>jf_Operations := Some [demo_op ''b'']\<rparr>"
  let ?m = "commit LocalExtBackend demo_sha ?jA stored_world"
  have ops: "jf_Operations stored_journal = Some []" "jf_Service stored_journal = ''svc''"
    "jf_Stage stored_journal = ''dev''" "jext stored_world = []" by code_simp+
  have m: "Record LocalExtBackend demo_sha (demo_op ''b'') stored_journal stored_world = ?m"
    by (simp add: Record_def ops)
  have "fst (fst ?m) = None" by code_simp
  then obtain j' w' where eq: "?m = ((None, j'), w')" by (metis prod.collapse)
  from ext_journal_lost_update [OF ops(4) _ _ eq, of stored_journal] ops show ?thesis
    by (simp add: m eq)
qed

text \<open>
  A journal that a coordinator saves before it has recorded an operation fails its own
  integrity check when it is read back as a file: the adapter turns the empty list of
  operations into nil, after the checksum was computed.
\<close>

theorem adapter_breaks_checksum:
  assumes "jext w = []" and "jf_Operations j = Some []"
    and "commit (adapter LocalExtBackend) sha j w = ((None, j'), w')"
    and "\<And>f. sha (f\<lparr>jf_Operations := None\<rparr>) \<noteq> sha (f\<lparr>jf_Operations := Some []\<rparr>)"
  shows "\<exists>s. fb_Load (jf_Service j) (jf_Stage j) w' = (Inr s, w') \<and> \<not> VerifyChecksum sha s"
proof -
  let ?j = "stamp_journal sha (jnow w (jticks w)) j"
  from assms(3) have sv: "jb_Save LocalExtBackend (adapt_file ?j) (w\<lparr>jticks := Suc (jticks w)\<rparr>) = (Inr (), w')"
    by (auto simp: commit_def adapter_def Let_def split: prod.splits sum.splits)
  have ops: "jf_Operations ?j = Some []" using assms(2) by (simp add: stamp_journal_def Let_def)
  then have a: "adapt_file ?j = ?j\<lparr>jf_Operations := None\<rparr>" by (simp add: adapt_file_def)
  have p: "path_of (?j\<lparr>jf_Operations := None\<rparr>) = path_of j"
    by (simp add: stamp_journal_def Let_def)
  from ext_journal.save_stored [OF _ sv] assms(1)
  have w': "w' = w\<lparr>jticks := Suc (jticks w), jfiles := AList.update (path_of j)
      (JGood (norm_journal (?j\<lparr>jf_Operations := None\<rparr>))) (jfiles w)\<rparr>"
    unfolding a p by simp
  define s where "s = norm_journal (?j\<lparr>jf_Operations := None\<rparr>)"
  define f where "f = j\<lparr>jf_Version := jf_Version j + 1, jf_UpdatedAt := jnow w (jticks w), jf_Checksum := ''''\<rparr>"
  have "ComputeChecksum sha s = sha (f\<lparr>jf_Operations := None\<rparr>)"
    by (simp add: ComputeChecksum_def s_def f_def stamp_journal_def Let_def norm_journal_def)
  moreover have "jf_Checksum s = sha (f\<lparr>jf_Operations := Some []\<rparr>)"
    using assms(2) by (simp add: ComputeChecksum_def s_def f_def stamp_journal_def Let_def norm_journal_def)
  ultimately have "\<not> VerifyChecksum sha s" using assms(4) [of f] by (simp add: VerifyChecksum_def)
  moreover have "fb_Load (jf_Service j) (jf_Stage j) w' = (Inr s, w')"
    using assms(1) by (simp add: w' s_def fb_Load_quiet update_conv')
  ultimately show ?thesis by blast
qed

theorem adapter_breaks_checksum_witness:
  "\<exists>s. fb_Load ''svc'' ''dev'' (snd (commit (adapter LocalExtBackend) demo_sha demo_journal demo_jworld)) =
     (Inr s, snd (commit (adapter LocalExtBackend) demo_sha demo_journal demo_jworld)) \<and>
     \<not> VerifyChecksum demo_sha s"
proof -
  let ?m = "commit (adapter LocalExtBackend) demo_sha demo_journal demo_jworld"
  have "fst (fst ?m) = None" by code_simp
  then obtain j' w' where eq: "?m = ((None, j'), w')" by (metis prod.collapse)
  have h: "jext demo_jworld = []" "jf_Operations demo_journal = Some []"
    "jf_Service demo_journal = ''svc''" "jf_Stage demo_journal = ''dev''" by code_simp+
  have "demo_sha (f\<lparr>jf_Operations := None\<rparr>) \<noteq> demo_sha (f\<lparr>jf_Operations := Some []\<rparr>)" for f
    by (simp add: demo_sha_def)
  from adapter_breaks_checksum [OF h(1,2) eq this] h eq show ?thesis by simp
qed

text \<open>
  Rolling back visits every recorded operation exactly once, the last recorded first, also
  when rolling back some of them fails; the errors are those of the failures, in that order.
\<close>

theorem ExecuteRollback_reverse:
  "ExecuteRollback rb (Some j) =
     (let ops = (case jf_Operations j of None \<Rightarrow> [] | Some ops \<Rightarrow> ops) in
      (rev ops, map the (filter (\<lambda>e. e \<noteq> None)
         (map (\<lambda>i. rb (take i (rev ops)) (rev ops ! i)) [0..<length ops]))))"
proof -
  have step: "rollback_each rb called ops = (called @ ops, map the (filter (\<lambda>e. e \<noteq> None)
      (map (\<lambda>i. rb (called @ take i ops) (ops ! i)) [0..<length ops])))" for called ops
  proof (induction ops arbitrary: called)
    case (Cons op ops)
    have "[0..<length (op # ops)] = 0 # map Suc [0..<length ops]"
      by (simp add: upt_conv_Cons map_Suc_upt del: upt_Suc)
    then show ?case using Cons.IH [of "called @ [op]"]
      by (simp add: o_def del: upt_Suc split: option.split)
  qed simp
  show ?thesis
    by (simp add: ExecuteRollback_def Reverse_def Let_def step)
qed

end
