(* ===== verification/Deploy_Claims.thy ===== *)
theory Deploy_Claims
  imports Deploy_Engine Journal_Claims
begin

text \<open>
  Properties of the journaled deploy engine, the universal deploy, the coordinator's choice of a
  journal and the retry loop.
\<close>

section \<open>Checkpoints\<close>

definition done_names :: "journal_checkpoint list \<Rightarrow> string set" where
  "done_names cs = {cp_Name c | c. c \<in> set cs \<and> cp_Status c = ''done''}"

lemma completed_done: "set (completedCheckpoints (Some j)) = done_names (jf_Checkpoints j)"
  by (auto simp: completedCheckpoints_def done_names_def)

lemma done_names_Cons:
  "done_names (c # cs) = (if cp_Status c = ''done'' then {cp_Name c} else {}) \<union> done_names cs"
  by (auto simp: done_names_def)

lemma done_names_Nil [simp]: "done_names [] = {}"
  by (simp add: done_names_def)

lemma done_set_other: "x \<noteq> name \<Longrightarrow> x \<in> done_names (set_checkpoint name st cs) \<longleftrightarrow> x \<in> done_names cs"
  by (induction cs) (auto simp: done_names_Cons)

lemma done_set_done: "name \<in> done_names (set_checkpoint name ''done'' cs)"
  by (induction cs) (auto simp: done_names_Cons)

lemma Checkpoint_memory:
  "Checkpoint b sha name st j w = ((e, j'), w') \<Longrightarrow>
   jf_Checkpoints j' = set_checkpoint name st (jf_Checkpoints j) \<and> jf_Status j' = jf_Status j"
  by (auto simp: Checkpoint_def commit_def stamp_journal_def Let_def split: prod.splits sum.splits)

text \<open>The phases completed according to the journal in memory.\<close>

abbreviation completed :: "'c engine \<Rightarrow> string set" where
  "completed s \<equiv> set (completedCheckpoints (en_journal s))"

lemma engine_checkpoint_cases:
  assumes "engine_checkpoint b sha name st s = (e, s')" and "en_journal s = Some j"
  obtains j' w' where "s' = s\<lparr>en_journal := Some j', en_world := w'\<rparr>"
    "jf_Checkpoints j' = set_checkpoint name st (jf_Checkpoints j)" "jf_Status j' = jf_Status j"
    "e \<noteq> Some NilPanic"
proof -
  obtain e0 j' w' where c: "Checkpoint b sha name st j (en_world s) = ((e0, j'), w')"
    by (metis prod.exhaust)
  with assms have "s' = s\<lparr>en_journal := Some j', en_world := w'\<rparr>" "e = map_option JournalError e0"
    by (simp_all add: engine_checkpoint_def)
  with Checkpoint_memory [OF c] show thesis by (cases e0) (auto intro: that)
qed

text \<open>One phase: it runs at most once, touches no other checkpoint and is done on success.\<close>

lemma run_phase_effect:
  assumes "run_phase b sha faults p s = (e, s')" and "en_journal s \<noteq> None"
  shows "en_journal s' \<noteq> None \<and> e \<noteq> Some NilPanic \<and>
    (en_ran s' = en_ran s \<or> en_ran s' = en_ran s @ [PhaseName p]) \<and>
    (e = None \<longrightarrow> en_ran s' = en_ran s @ [PhaseName p] \<and> PhaseName p \<in> completed s') \<and>
    (\<forall>x. x \<noteq> PhaseName p \<longrightarrow> (x \<in> completed s' \<longleftrightarrow> x \<in> completed s)) \<and>
    map_option jf_Status (en_journal s') = map_option jf_Status (en_journal s)"
proof (cases "CheckBefore faults (PhaseName p)")
  case (Some f)
  with assms show ?thesis by (auto simp: run_phase_def CheckBefore_def split: if_splits)
next
  case None
  from assms(2) obtain j where j: "en_journal s = Some j" by auto
  obtain e1 s1 where c1: "engine_checkpoint b sha (PhaseName p) ''in_progress'' s = (e1, s1)" by fastforce
  from c1 j obtain j1 w1 where s1: "s1 = s\<lparr>en_journal := Some j1, en_world := w1\<rparr>"
    and j1: "jf_Checkpoints j1 = set_checkpoint (PhaseName p) ''in_progress'' (jf_Checkpoints j)"
      "jf_Status j1 = jf_Status j" and n1: "e1 \<noteq> Some NilPanic" by (rule engine_checkpoint_cases)
  show ?thesis
  proof (cases e1)
    case (Some err)
    with assms(1) None c1 have "e = Some err" "s' = s1" by (simp_all add: run_phase_def)
    with s1 j1 j n1 Some show ?thesis by (simp add: completed_done done_set_other)
  next
    case None1: None
    obtain pe c where p: "PhaseRun p (length (en_ran s1)) (en_ctx s1) = (pe, c)" by fastforce
    let ?s2 = "s1\<lparr>en_ctx := c, en_ran := en_ran s1 @ [PhaseName p]\<rparr>"
    show ?thesis
    proof (cases pe)
      case (Some msg)
      with assms(1) None c1 None1 p have "e = Some (PhaseError msg)" "s' = ?s2"
        by (simp_all add: run_phase_def Let_def)
      with s1 j1 j show ?thesis by (simp add: completed_done done_set_other)
    next
      case None2: None
      obtain e3 s3 where c3: "engine_checkpoint b sha (PhaseName p) ''done'' ?s2 = (e3, s3)" by fastforce
      have "en_journal ?s2 = Some j1" by (simp add: s1)
      with c3 obtain j3 w3 where s3: "s3 = ?s2\<lparr>en_journal := Some j3, en_world := w3\<rparr>"
        and j3: "jf_Checkpoints j3 = set_checkpoint (PhaseName p) ''done'' (jf_Checkpoints j1)"
          "jf_Status j3 = jf_Status j1" and n3: "e3 \<noteq> Some NilPanic" by (rule engine_checkpoint_cases)
      have "s' = s3" "e = (case e3 of Some x \<Rightarrow> Some x | None \<Rightarrow> CheckAfter faults (PhaseName p))"
        using assms(1) None c1 None1 p None2 c3 by (auto simp: run_phase_def Let_def split: option.splits)
      with s1 s3 j1 j3 j n3 show ?thesis
        by (auto simp: completed_done done_set_other done_set_done CheckAfter_def split: option.splits if_splits)
    qed
  qed
qed

text \<open>The names of the phases that are to run.\<close>

abbreviation todo :: "string list \<Rightarrow> 'c phase list \<Rightarrow> string list" where
  "todo C ps \<equiv> filter (\<lambda>x. x \<notin> set C) (map PhaseName ps)"

lemma run_phases_effect:
  assumes "run_phases b sha faults C ps s = (e, s')" and "en_journal s \<noteq> None"
    and "distinct (map PhaseName ps)"
  shows "en_journal s' \<noteq> None \<and> e \<noteq> Some NilPanic \<and>
    (\<exists>n. en_ran s' = en_ran s @ take n (todo C ps) \<and>
       (\<forall>x \<in> set (butlast (take n (todo C ps))). x \<in> completed s') \<and>
       (e = None \<longrightarrow> take n (todo C ps) = todo C ps \<and> set (todo C ps) \<subseteq> completed s')) \<and>
    (\<forall>x. x \<notin> set (todo C ps) \<longrightarrow> (x \<in> completed s' \<longleftrightarrow> x \<in> completed s)) \<and>
    map_option jf_Status (en_journal s') = map_option jf_Status (en_journal s)"
  using assms
proof (induction ps arbitrary: s)
  case Nil
  then show ?case by simp
next
  case (Cons p ps)
  show ?case
  proof (cases "PhaseName p \<in> set C")
    case True
    with Cons show ?thesis by simp
  next
    case False
    obtain e1 s1 where r: "run_phase b sha faults p s = (e1, s1)" by fastforce
    note eff = run_phase_effect [OF r Cons.prems(2)]
    show ?thesis
    proof (cases e1)
      case (Some err)
      with Cons.prems(1) False r have "e = Some err" "s' = s1" by simp_all
      moreover obtain n where "n \<le> 1" "en_ran s1 = en_ran s @ take n [PhaseName p]"
        using eff by (metis append_Nil2 le_numeral_extra(3,4) take0 take_Suc_Cons zero_le One_nat_def)
      moreover from this(1) have "take n (todo C (p # ps)) = take n [PhaseName p]"
        "butlast (take n (todo C (p # ps))) = []"
        using False by (cases n; simp)+
      ultimately show ?thesis using eff Some False
        by (intro conjI exI [of _ n]) auto
    next
      case None
      with Cons.prems(1) False r have rest: "run_phases b sha faults C ps s1 = (e, s')" by simp
      from eff None have ran1: "en_ran s1 = en_ran s @ [PhaseName p]" and "en_journal s1 \<noteq> None"
        and done1: "PhaseName p \<in> completed s1" by simp_all
      note IH = Cons.IH [OF rest this(2)]
      have d: "distinct (map PhaseName ps)" "PhaseName p \<notin> set (todo C ps)" using Cons.prems(3) by auto
      from IH [OF d(1)] obtain n where n: "en_ran s' = en_ran s1 @ take n (todo C ps)"
        "\<forall>x \<in> set (butlast (take n (todo C ps))). x \<in> completed s'"
        "e = None \<longrightarrow> take n (todo C ps) = todo C ps \<and> set (todo C ps) \<subseteq> completed s'" by blast
      have p': "PhaseName p \<in> completed s'" using IH [OF d(1)] d(2) done1 by blast
      have t: "take (Suc n) (todo C (p # ps)) = PhaseName p # take n (todo C ps)" using False by simp
      show ?thesis
        using IH [OF d(1)] eff n p' ran1 t False
        by (intro conjI exI [of _ "Suc n"]) (auto split: if_splits)
    qed
  qed
qed

text \<open>
  The engine runs the phases the journal does not record as done, in their order and each at
  most once, and skips the others. All but possibly the last of the phases it ran are then
  recorded as done; if it reports success, all of them were run and every phase is recorded.
\<close>

theorem engine_Run_resumes:
  assumes "engine_Run b sha faults phases s = (e, s')" and "en_journal s = Some j"
    and "en_ran s = []" and "distinct (map PhaseName phases)"
  shows "\<exists>n. let pending = filter (\<lambda>x. x \<notin> set (completedCheckpoints (Some j))) (map PhaseName phases);
        now_done = set (completedCheckpoints (en_journal s')) in
      en_ran s' = take n pending \<and> set (butlast (en_ran s')) \<subseteq> now_done \<and>
      set (completedCheckpoints (Some j)) \<subseteq> now_done \<and>
      (e = None \<longrightarrow> en_ran s' = pending \<and> set (map PhaseName phases) \<subseteq> now_done)"
proof -
  let ?C = "completedCheckpoints (Some j)"
  have r: "run_phases b sha faults ?C phases s = (e, s')" using assms(1,2) by (simp add: engine_Run_def)
  note eff = run_phases_effect [OF r _ assms(4)]
  from eff assms(2,3) obtain n where "en_ran s' = take n (todo ?C phases)"
    "\<forall>x \<in> set (butlast (take n (todo ?C phases))). x \<in> completed s'"
    "e = None \<longrightarrow> take n (todo ?C phases) = todo ?C phases \<and> set (todo ?C phases) \<subseteq> completed s'" by auto
  moreover have "set ?C \<subseteq> completed s'" using eff assms(2) by auto
  ultimately show ?thesis unfolding Let_def by (intro exI [of _ n]) auto
qed

definition plain_phase :: "string \<Rightarrow> bool \<Rightarrow> unit phase" where
  "plain_phase name fails = \<lparr>PhaseName = name, PhaseRun = (\<lambda>n c. (if fails then Some ''boom'' else None, c))\<rparr>"

definition no_faults :: fault_config where
  "no_faults = \<lparr>FailBeforePhase = '''', FailAfterPhase = '''', FailOnResource = '''', FaultsEnabled = False\<rparr>"

definition engine_start :: "journal_file \<Rightarrow> jworld \<Rightarrow> unit engine" where
  "engine_start j w = \<lparr>en_journal = Some j, en_ctx = (), en_ran = [], en_world = w\<rparr>"

definition first_run :: "engine_error option \<times> unit engine" where
  "first_run = engine_Run FileBackend demo_sha no_faults
     [plain_phase ''a'' False, plain_phase ''b'' True, plain_phase ''c'' False]
     (engine_start stored_journal stored_world)"

theorem engine_Run_resumes_witness:
  "\<exists>n. en_ran (snd first_run) = take n [''a'', ''b'', ''c'']"
proof -
  have h: "completedCheckpoints (Some stored_journal) = []" by code_simp
  have "engine_Run FileBackend demo_sha no_faults
     [plain_phase ''a'' False, plain_phase ''b'' True, plain_phase ''c'' False]
     (engine_start stored_journal stored_world) = (fst first_run, snd first_run)"
    by (simp add: first_run_def)
  from engine_Run_resumes [OF this, of stored_journal]
  show ?thesis by (simp add: engine_start_def plain_phase_def h Let_def)
qed

text \<open>
  C11. A deploy that fails or crashes is resumed where it stopped: when the engine is run again on
  the journal the first run left, no phase that run recorded as done is run a second time.
\<close>

theorem engine_Run_no_rerun:
  assumes "engine_Run b sha faults phases s = (e, s1)" and "en_journal s = Some j" and "en_ran s = []"
    and "distinct (map PhaseName phases)"
    and "engine_Run b' sha faults' phases (s1\<lparr>en_ran := []\<rparr>) = (e', s2)"
    and "x \<in> set (en_ran s1)" and "x \<in> set (en_ran s2)"
  shows "x = last (en_ran s1) \<and> x \<notin> set (completedCheckpoints (en_journal s1)) \<and> e \<noteq> None"
proof -
  from engine_Run_resumes [OF assms(1-4)] obtain n where
    ran1: "en_ran s1 = take n (todo (completedCheckpoints (Some j)) phases)"
    and done1: "set (butlast (en_ran s1)) \<subseteq> completed s1"
    and ok: "e = None \<longrightarrow> set (map PhaseName phases) \<subseteq> completed s1"
    unfolding Let_def by blast
  have "en_journal s1 \<noteq> None"
    using run_phases_effect [OF _ _ assms(4)] assms(1,2) unfolding engine_Run_def by blast
  then obtain j1 where j1: "en_journal s1 = Some j1" by auto
  from engine_Run_resumes [OF assms(5) _ _ assms(4), of j1] j1 obtain m where
    "en_ran s2 = take m (todo (completedCheckpoints (Some j1)) phases)" by (auto simp: Let_def)
  with assms(7) have x: "x \<notin> completed s1" "x \<in> set (map PhaseName phases)"
    using j1 by (auto dest: in_set_takeD)
  moreover from assms(6) have "en_ran s1 \<noteq> []" by auto
  ultimately have "x = last (en_ran s1)"
    using done1 assms(6) by (metis append_butlast_last_id in_set_conv_decomp_last insert_iff
        list.set(2) rotate1.simps(2) set_rotate1 subsetD)
  with x ok show ?thesis by auto
qed

theorem engine_Run_no_rerun_witness:
  "''b'' \<in> set (en_ran (snd (engine_Run FileBackend demo_sha no_faults
     [plain_phase ''a'' False, plain_phase ''b'' True, plain_phase ''c'' False]
     ((snd first_run)\<lparr>en_ran := []\<rparr>)))) \<and> ''b'' = last (en_ran (snd first_run))"
proof -
  let ?ps = "[plain_phase ''a'' False, plain_phase ''b'' True, plain_phase ''c'' False]"
  let ?m = "engine_Run FileBackend demo_sha no_faults ?ps ((snd first_run)\<lparr>en_ran := []\<rparr>)"
  have 1: "engine_Run FileBackend demo_sha no_faults ?ps (engine_start stored_journal stored_world) =
      (fst first_run, snd first_run)"
    by (simp add: first_run_def)
  have 2: "''b'' \<in> set (en_ran (snd ?m))" "''b'' \<in> set (en_ran (snd first_run))" by code_simp+
  have "en_journal (engine_start stored_journal stored_world) = Some stored_journal"
    "en_ran (engine_start stored_journal stored_world) = []" "distinct (map PhaseName ?ps)"
    by (simp_all add: engine_start_def plain_phase_def)
  from engine_Run_no_rerun [OF 1 this surjective_pairing 2(2,1)] 2(1) show ?thesis by blast
qed

text \<open>
  A universal deploy that succeeds has called the provider: its result is that of the last
  call, no call is made after one that gave a result, and the journal in memory is completed
  with the deploy phase done. A deploy that fails leaves the journal's status as it was.
\<close>

theorem RunDeploy_journal:
  assumes "RunDeploy b sha faults (Some j) deploy w = (x, s)"
  shows "case x of
     Inr r \<Rightarrow> (\<exists>n. snd (en_ctx s) = Suc n \<and> n \<le> 1 \<and> deploy n = Inr r \<and>
         (n = 1 \<longrightarrow> deploy 0 = Inr None)) \<and>
       map_option jf_Status (en_journal s) = Some StatusCompleted
   | Inl e \<Rightarrow> e \<noteq> NilPanic \<and> map_option jf_Status (en_journal s) = Some (jf_Status j)"
proof -
  obtain e0 j0 w0 where inc: "IncrementAttempt b sha j w = ((e0, j0), w0)" by (metis prod.exhaust)
  then have st0: "jf_Status j0 = jf_Status j"
    by (auto simp: IncrementAttempt_def commit_def stamp_journal_def Let_def split: prod.splits sum.splits)
  let ?s0 = "\<lparr>en_journal = Some j0, en_ctx = (None, 0), en_ran = [], en_world = w0\<rparr>"
  obtain e1 s1 where eng: "engine_Run b sha faults [deploy_phase deploy] ?s0 = (e1, s1)" by fastforce
  from eng have rp: "run_phases b sha faults (completedCheckpoints (Some j0)) [deploy_phase deploy] ?s0 = (e1, s1)"
    by (simp add: engine_Run_def)
  have eff: "en_journal s1 \<noteq> None" "e1 \<noteq> Some NilPanic"
    "map_option jf_Status (en_journal s1) = Some (jf_Status j)"
    using run_phases_effect [OF rp] st0 by auto
  have ctx: "en_ctx s1 = (None, 0) \<or> (\<exists>r. deploy 0 = Inr r \<and> en_ctx s1 = (r, 1))" if "e1 = None"
    using rp that by (auto simp: run_phase_def engine_checkpoint_def deploy_phase_def Let_def
        split: if_splits option.splits prod.splits sum.splits)
  have x: "RunDeploy b sha faults (Some j) deploy w =
     (case (e1, s1) of (Some e, s) \<Rightarrow> (Inl e, s)
      | (None, s) \<Rightarrow> (case en_ctx s of (res, n) \<Rightarrow>
          (case (if res = None then deploy n else Inr res) of
             Inl e \<Rightarrow> (Inl (PhaseError e), s\<lparr>en_ctx := (res, Suc n)\<rparr>)
           | Inr r \<Rightarrow> (Inr r, call_journal (MarkCompleted b sha)
                  (s\<lparr>en_ctx := (r, if res = None then Suc n else n)\<rparr>)))))"
    by (simp add: RunDeploy_def call_journal_def inc eng)
  have mark: "map_option jf_Status (en_journal (call_journal (MarkCompleted b sha) t)) = Some StatusCompleted \<and>
      en_ctx (call_journal (MarkCompleted b sha) t) = en_ctx t" if "en_journal t \<noteq> None" for t :: "('a option \<times> nat) engine"
    using that by (auto simp: call_journal_def MarkCompleted_def Mark_def commit_def stamp_journal_def Let_def
        split: prod.splits sum.splits)
  show ?thesis
  proof (cases e1)
    case (Some e)
    with x assms eff show ?thesis by auto
  next
    case None
    from ctx [OF None] show ?thesis
    proof
      assume c: "en_ctx s1 = (None, 0)"
      show ?thesis
        using x assms None c eff(1,3) mark [of "s1\<lparr>en_ctx := z\<rparr>" for z]
        by (cases "deploy 0") auto
    next
      assume "\<exists>r. deploy 0 = Inr r \<and> en_ctx s1 = (r, 1)"
      then obtain r where r: "deploy 0 = Inr r" "en_ctx s1 = (r, 1)" by blast
      show ?thesis
      proof (cases r)
        case None2: None
        show ?thesis
          using x assms None r None2 eff(1,3) mark [of "s1\<lparr>en_ctx := z\<rparr>" for z]
          by (cases "deploy 1") auto
      next
        case (Some v)
        then show ?thesis
          using x assms None r eff(1,3) mark [of "s1\<lparr>en_ctx := z\<rparr>" for z] by auto
      qed
    qed
  qed
qed

theorem RunDeploy_journal_witness:
  "case RunDeploy FileBackend demo_sha no_faults (Some stored_journal) (\<lambda>n. Inr (Some n)) stored_world of
     (Inr r, s) \<Rightarrow> r = Some 0 \<and> map_option jf_Status (en_journal s) = Some StatusCompleted
   | (Inl e, s) \<Rightarrow> False"
proof -
  let ?m = "RunDeploy FileBackend demo_sha no_faults (Some stored_journal) (\<lambda>n. Inr (Some n)) stored_world"
  have "case ?m of (Inr r, s) \<Rightarrow> r = Some (0::nat) | _ \<Rightarrow> False" by code_simp
  then obtain s where eq: "?m = (Inr (Some 0), s)" by (auto split: prod.splits sum.splits)
  from RunDeploy_journal [OF eq] show ?thesis by (simp add: eq)
qed

text \<open>
  Contrary to what its comment promises for a nil journal, a universal deploy without one
  stops with a nil-pointer panic before the provider is called, unless a fault is injected.
\<close>

theorem RunDeploy_nil_journal:
  assumes "\<not> (FaultsEnabled faults \<and> FailBeforePhase faults = deploy_phase_name)"
  shows "RunDeploy b sha faults None deploy w =
    (Inl NilPanic, \<lparr>en_journal = None, en_ctx = (None, 0), en_ran = [], en_world = w\<rparr>)"
  using assms
  by (auto simp: RunDeploy_def call_journal_def engine_Run_def completedCheckpoints_def run_phase_def
      deploy_phase_def CheckBefore_def engine_checkpoint_def)

theorem RunDeploy_nil_journal_witness:
  "fst (RunDeploy FileBackend demo_sha no_faults (fst (OpenDeployJournal ''svc'' ''dev'' '''' demo_jworld))
     (\<lambda>n. Inr (Some n)) demo_jworld) = Inl NilPanic"
  by (simp add: OpenDeployJournal_def RunDeploy_nil_journal no_faults_def)

text \<open>
  The coordinator never overwrites the journal of an interrupted run: it takes up a journal
  that is active or rolling back as it is, writing nothing. Otherwise it starts a fresh one, whose
  first save the file backend accepts also above a finished journal left in the file.
\<close>

theorem resumeOrNewJournal_keeps:
  assumes "jext w = []"
  shows "case map_of (jfiles w) (journal_path service stage) of
     Some (JGood old) \<Rightarrow>
       (if journalResumable (jf_Status old)
        then resumeOrNewJournal FileBackend sha service stage oper w = (Inr old, w)
        else \<exists>j w'. resumeOrNewJournal FileBackend sha service stage oper w = (Inr j, w') \<and>
          jf_Version j = jf_Version old + 1 \<and> jf_Status j = StatusActive \<and> jf_Checkpoints j = [] \<and>
          map_of (jfiles w') (journal_path service stage) = Some (JGood j))
   | _ \<Rightarrow> \<exists>j w'. resumeOrNewJournal FileBackend sha service stage oper w = (Inr j, w') \<and>
          jf_Version j = 2 \<and> jf_Status j = StatusActive \<and> jf_Checkpoints j = [] \<and>
          map_of (jfiles w') (journal_path service stage) = Some (JGood j)"
  using assms
  by (auto simp: resumeOrNewJournal_def fresh_journal_def tryE_def bindE_def FileBackend_def fb_Load_quiet
      NewJournal_def SaveJournal_def commit_def fb_Save_quiet write_journal_quiet stamp_journal_def
      Let_def update_conv' norm_journal_def split: option.split jcontent.split)

theorem resumeOrNewJournal_keeps_witness:
  "resumeOrNewJournal FileBackend demo_sha ''svc'' ''dev'' ''remove'' stored_world =
     (Inr (norm_journal stored_journal), stored_world)"
proof -
  have h: "jext stored_world = []" by code_simp
  have st: "case map_of (jfiles stored_world) (journal_path ''svc'' ''dev'') of
      Some (JGood old) \<Rightarrow> journalResumable (jf_Status old) | _ \<Rightarrow> False" by code_simp
  have nj: "jext demo_jworld = []" by code_simp
  have ok: "fst (fst (commit FileBackend demo_sha demo_journal demo_jworld)) = None" by code_simp
  have p: "path_of demo_journal = journal_path ''svc'' ''dev''" by code_simp
  have c: "commit FileBackend demo_sha demo_journal demo_jworld = ((None, stored_journal), stored_world)"
    using ok by (simp add: stored_journal_def stored_world_def SaveJournal_def prod_eq_iff)
  from file_journal.commit_ok(1) [OF nj c] st resumeOrNewJournal_keeps [OF h, where service = "''svc''" and stage = "''dev''"]
  show ?thesis by (simp add: p)
qed

text \<open>
  A retry calls the function at most as often as it is asked to, and reports success exactly
  when a call succeeded; asked for no attempt at all it reports success without calling it.
\<close>

theorem Retry_attempts:
  "case Retry fn stopped attempts of (err, n) \<Rightarrow>
     int n \<le> max 0 attempts \<and> (0 < attempts \<longrightarrow> 0 < n) \<and>
     (err = None \<longleftrightarrow> n = 0 \<or> fn (int n) = None) \<and> (\<forall>i. 1 \<le> i \<and> i < int n \<longrightarrow> fn i \<noteq> None)"
proof -
  have step: "case retry_from fn stopped attempts i l n of (err, m) \<Rightarrow>
      n \<le> m \<and> int m \<le> max (int n) attempts \<and> (i \<le> attempts \<longrightarrow> n < m) \<and>
      (if n = m then err = l else err = None \<longleftrightarrow> fn (int m) = None) \<and>
      (\<forall>k. i \<le> k \<and> k < int m \<longrightarrow> fn k \<noteq> None)" if "i = int n + 1" for i l n
    using that
  proof (induction fn stopped attempts i l n rule: retry_from.induct)
    case (1 fn stopped attempts i l n)
    show ?case
    proof (cases "i \<le> attempts \<and> (\<exists>e. fn i = Some e) \<and> i < attempts \<and> stopped i = None")
      case True
      then obtain e where e: "fn i = Some e" by blast
      with True 1 have IH: "case retry_from fn stopped attempts (i + 1) (Some e) (Suc n) of (err, m) \<Rightarrow>
          Suc n \<le> m \<and> int m \<le> max (int (Suc n)) attempts \<and> (i + 1 \<le> attempts \<longrightarrow> Suc n < m) \<and>
          (if Suc n = m then err = Some e else err = None \<longleftrightarrow> fn (int m) = None) \<and>
          (\<forall>k. i + 1 \<le> k \<and> k < int m \<longrightarrow> fn k \<noteq> None)" by auto
      have eq: "retry_from fn stopped attempts i l n = retry_from fn stopped attempts (i + 1) (Some e) (Suc n)"
        using True e by (subst retry_from.simps) simp
      have k: "fn k \<noteq> None" if "i \<le> k" "k < int m" "\<forall>k. i + 1 \<le> k \<and> k < int m \<longrightarrow> fn k \<noteq> None" for k m
        using that e by (cases "k = i") auto
      show ?thesis unfolding eq using IH True k 1(2) by (auto split: prod.splits if_splits)
    next
      case False
      then show ?thesis using 1(2)
        by (subst retry_from.simps) (auto simp: add.commute [of 1] split: option.split)
    qed
  qed
  from step [of 1 0 None] show ?thesis by (auto simp: Retry_def split: prod.split if_splits)
qed

theorem Retry_attempts_witness:
  "Retry (\<lambda>i. if i < 3 then Some ''boom'' else None) (\<lambda>i. None) 5 = (None, 3) \<and>
   int 3 \<le> max 0 (5::int) \<and> Retry (\<lambda>i. Some ''boom'') (\<lambda>i. None) 0 = (None, 0)"
proof -
  have "Retry (\<lambda>i. if i < 3 then Some ''boom'' else None) (\<lambda>i. None) 5 = (None, 3)"
    "Retry (\<lambda>i. Some ''boom'') (\<lambda>i. None) 0 = (None, 0)" by code_simp+
  with Retry_attempts [where fn = "\<lambda>i. if i < 3 then Some ''boom'' else None"
      and stopped = "\<lambda>i. None" and attempts = 5] show ?thesis by simp
qed

end
