(* ===== verification/Go_Values.thy ===== *)
theory Go_Values
  imports Float64
begin

text \<open>
  Dynamic configuration values (\<^verbatim>\<open>map[string]any\<close> as the YAML decoder builds them), Go's decimal
  printing and scanning, and signed 64-bit wrap-around.
\<close>

section \<open>Signed 64-bit integers\<close>

definition wrap64 :: "int \<Rightarrow> int" where
  "wrap64 n = (n + 2 ^ 63) mod 2 ^ 64 - 2 ^ 63"

lemma wrap64_id: "- (2 ^ 63) \<le> n \<Longrightarrow> n < 2 ^ 63 \<Longrightarrow> wrap64 n = n"
  by (simp add: wrap64_def)

lemma wrap64_range: "- (2 ^ 63) \<le> wrap64 n \<and> wrap64 n < 2 ^ 63"
  by (simp add: wrap64_def)

section \<open>Decimal numerals\<close>

definition digit :: "nat \<Rightarrow> char" where
  "digit d = char_of (48 + d)"

fun utoa :: "nat \<Rightarrow> string" where
  "utoa n = (if n < 10 then [digit n] else utoa (n div 10) @ [digit (n mod 10)])"

declare utoa.simps [simp del]

definition itoa :: "int \<Rightarrow> string" where
  "itoa n = (if n < 0 then CHR ''-'' # utoa (nat (- n)) else utoa (nat n))"

definition is_digit :: "char \<Rightarrow> bool" where
  "is_digit c \<longleftrightarrow> (let n = (of_char c :: nat) in 48 \<le> n \<and> n \<le> 57)"

definition digit_val :: "char \<Rightarrow> int" where
  "digit_val c = int (of_char c) - 48"

definition digits_val :: "string \<Rightarrow> int" where
  "digits_val s = foldl (\<lambda>n c. n * 10 + digit_val c) 0 s"

lemma digit_props [simp]: "d < 10 \<Longrightarrow> is_digit (digit d)" "d < 10 \<Longrightarrow> digit_val (digit d) = int d"
  by (simp_all add: is_digit_def digit_def digit_val_def of_char_of)

lemma utoa_digits: "c \<in> set (utoa n) \<Longrightarrow> is_digit c"
  by (induction n rule: utoa.induct) (subst (asm) utoa.simps, auto split: if_splits)

lemma utoa_not_Nil [simp]: "utoa n \<noteq> []"
  by (subst utoa.simps) simp

lemma digits_val_utoa [simp]: "digits_val (utoa n) = int n"
proof (induction n rule: utoa.induct)
  case (1 n)
  show ?case
  proof (cases "n < 10")
    case True
    then show ?thesis by (subst utoa.simps) (simp add: digits_val_def)
  next
    case False
    then have "digits_val (utoa n) = digits_val (utoa (n div 10)) * 10 + digit_val (digit (n mod 10))"
      by (subst utoa.simps) (simp add: digits_val_def)
    also have "\<dots> = int (n div 10) * 10 + int (n mod 10)"
      using 1 [OF False] by simp
    also have "\<dots> = int n" by presburger
    finally show ?thesis .
  qed
qed

lemma utoa_inject [simp]: "utoa m = utoa n \<longleftrightarrow> m = n"
  by (metis digits_val_utoa of_nat_eq_iff)

text \<open>\<^verbatim>\<open>strconv.ParseInt\<close> on an optional sign and digits, in 64 bits.\<close>

definition in64 :: "int \<Rightarrow> bool" where
  "in64 n \<longleftrightarrow> - (2 ^ 63) \<le> n \<and> n < 2 ^ 63"

text \<open>\<^verbatim>\<open>fmt.Sscanf(s, "%d", &out)\<close>: a sign, the longest run of digits; what follows is ignored.\<close>

definition scan_int :: "string \<Rightarrow> int option" where
  "scan_int s =
     (let neg = HasPrefix s ''-'';
          t = (if neg \<or> HasPrefix s ''+'' then tl s else s);
          ds = takeWhile is_digit t;
          n = (if neg then - digits_val ds else digits_val ds)
      in if ds = [] \<or> \<not> in64 n then None else Some n)"

section \<open>Dynamic values\<close>

text \<open>A float carries the text \<^verbatim>\<open>%v\<close> prints for it. The order of a map is its iteration order.\<close>

datatype any = ANil | ABool bool | AInt int | AFloat f64 string | AStr string | AList "any list"
  | AMap "(string \<times> any) list"

type_synonym anymap = "(string \<times> any) list"

definition aget :: "anymap \<Rightarrow> string \<Rightarrow> any" where
  "aget m k = (case map_of m k of None \<Rightarrow> ANil | Some v \<Rightarrow> v)"

fun asMap :: "any \<Rightarrow> anymap option" where
  "asMap (AMap m) = Some m"
| "asMap _ = None"

fun join_sp :: "string list \<Rightarrow> string" where
  "join_sp [] = ''''"
| "join_sp [s] = s"
| "join_sp (s # ss) = s @ '' '' @ join_sp ss"

text \<open>\<^verbatim>\<open>fmt.Sprint\<close>; map entries are printed in the order of their keys.\<close>

fun str_less :: "string \<Rightarrow> string \<Rightarrow> bool" where
  "str_less s [] = False"
| "str_less [] (d # ds) = True"
| "str_less (c # cs) (d # ds) =
     (let m = (of_char c :: nat); n = of_char d in m < n \<or> (m = n \<and> str_less cs ds))"

fun Sprint :: "any \<Rightarrow> string" where
  "Sprint ANil = ''<nil>''"
| "Sprint (ABool b) = (if b then ''true'' else ''false'')"
| "Sprint (AInt n) = itoa n"
| "Sprint (AFloat q s) = s"
| "Sprint (AStr s) = s"
| "Sprint (AList vs) = ''['' @ join_sp (map Sprint vs) @ '']''"
| "Sprint (AMap m) = ''map['' @ join_sp (map (\<lambda>(k, s). k @ '':'' @ s)
     (sort_slice (\<lambda>a b. str_less (fst a) (fst b)) (map (\<lambda>kv. (fst kv, Sprint (snd kv))) m))) @ '']''"

lemma str_less_irrefl [simp]: "\<not> str_less s s"
  by (induction s) (auto simp: Let_def)

lemma str_less_trans: "str_less s t \<Longrightarrow> str_less t u \<Longrightarrow> str_less s u"
proof (induction s t arbitrary: u rule: str_less.induct)
  case (2 d ds)
  then show ?case by (cases u) auto
next
  case (3 c cs d ds)
  then show ?case by (cases u) (auto simp: Let_def)
qed simp

lemma str_less_total: "str_less s t \<or> s = t \<or> str_less t s"
proof (induction s t rule: str_less.induct)
  case (1 s)
  show ?case by (cases s) auto
qed (auto simp: Let_def)

lemma str_less_cotrans: "str_less s u \<Longrightarrow> str_less s t \<or> str_less t u"
  using str_less_total str_less_trans by metis

lemma str_less_weak: "weak_order (\<lambda>a b. str_less (f a) (f b))"
  unfolding weak_order_def using str_less_trans str_less_cotrans by auto

end
