(* ===== verification/Router_Routing.thy ===== *)
theory Router_Routing
  imports Go_Values
begin

text \<open>
  The traffic router of a multi-provider deployment: the routing configuration generated from the
  recorded endpoints (\<^verbatim>\<open>workflow/app/router_routing.go\<close>), its weights under quality scoring and
  canary shifts (\<^verbatim>\<open>router_steering.go\<close>). Weights stay far below the bounds of a 64-bit integer, so
  they are integers here; their scaling is in exact double arithmetic.
\<close>

section \<open>Records\<close>

record fabric_endpoint =
  fe_Provider :: string
  fe_URL :: string
  fe_Healthy :: "bool option"
  fe_UpdatedAt :: string

record fabric_state =
  fs_Service :: string
  fs_Stage :: string
  fs_Endpoints :: "fabric_endpoint list"

text \<open>
  The parts of \<^verbatim>\<open>config.Config\<close> the router reads. \<open>fc_HealthPath\<close> is what \<^verbatim>\<open>url.Parse\<close> gives for the
  health check URL: nothing when there is none, it is empty or it does not parse.
\<close>

record fabric_config =
  fc_Targets :: "string list"
  fc_Routing :: string
  fc_HealthPath :: "string option"

record config =
  cfg_Service :: string
  cfg_Fabric :: "fabric_config option"
  cfg_Extensions :: anymap

record routing_endpoint =
  ep_Name :: string
  ep_URL :: string
  ep_Healthy :: "bool option"
  ep_Priority :: int
  ep_Weight :: int
  ep_Region :: string

record dns_record =
  dr_Type :: string
  dr_Name :: string
  dr_TTL :: int
  dr_Values :: "string list"
  dr_SetID :: string
  dr_Weight :: int
  dr_Region :: string
  dr_Priority :: int

record dns_config =
  dc_Type :: string
  dc_Records :: "dns_record list"

record lb_upstream =
  lu_Name :: string
  lu_URL :: string
  lu_Weight :: int
  lu_Priority :: int

record health_check =
  hc_Path :: string
  hc_Interval :: int
  hc_Timeout :: int

record lb_config =
  lc_Type :: string
  lc_Upstreams :: "lb_upstream list"
  lc_HealthCheck :: "health_check option"
  lc_Strategy :: string

record routing_config =
  rc_Contract :: string
  rc_Service :: string
  rc_Stage :: string
  rc_Hostname :: string
  rc_Strategy :: string
  rc_HealthPath :: string
  rc_TTL :: int
  rc_Endpoints :: "routing_endpoint list"
  rc_DNS :: "dns_config option"
  rc_LoadBalancer :: "lb_config option"

section \<open>Reading the router extension\<close>

definition routerExtensionObject :: "config option \<Rightarrow> anymap" where
  "routerExtensionObject cfg = (case cfg of None \<Rightarrow> []
     | Some c \<Rightarrow> (case asMap (aget (cfg_Extensions c) ''router'') of None \<Rightarrow> [] | Some m \<Rightarrow> m))"

definition routerHostname :: "config option \<Rightarrow> string" where
  "routerHostname cfg = (case aget (routerExtensionObject cfg) ''hostname'' of AStr s \<Rightarrow> s | _ \<Rightarrow> '''')"

fun routerAsBool :: "any \<Rightarrow> bool \<Rightarrow> bool" where
  "routerAsBool (ABool b) fallback = b"
| "routerAsBool (AStr x) fallback = (let s = TrimSpace (ToLower x) in
     if s = ''true'' then True else if s = ''false'' then False else fallback)"
| "routerAsBool _ fallback = fallback"

text \<open>The digits of \<^verbatim>\<open>routerAsInt\<close> are read in wrapping 64-bit arithmetic.\<close>

fun read_digits :: "int \<Rightarrow> string \<Rightarrow> int option" where
  "read_digits n [] = Some n"
| "read_digits n (c # cs) =
     (if is_digit c then read_digits (wrap64 (n * 10 + digit_val c)) cs else None)"

fun routerAsInt :: "any \<Rightarrow> int \<Rightarrow> int" where
  "routerAsInt (AInt n) fallback = n"
| "routerAsInt (AFloat q _) fallback = f64_to_int q"
| "routerAsInt (AStr x) fallback =
     (let s = TrimSpace x in
      if s = '''' then fallback
      else let neg = HasPrefix s ''-''; t = TrimPrefix s ''-'' in
        case read_digits 0 t of None \<Rightarrow> fallback
        | Some n \<Rightarrow> wrap64 ((if neg then -1 else 1) * n))"
| "routerAsInt _ fallback = fallback"

fun routerAsString :: "any \<Rightarrow> string \<Rightarrow> string" where
  "routerAsString (AStr s) fallback = s"
| "routerAsString _ fallback = fallback"

definition clampInt :: "int \<Rightarrow> int \<Rightarrow> int \<Rightarrow> int" where
  "clampInt v minV maxV = (if v < minV then minV else if v > maxV then maxV else v)"

definition maxInt :: "int \<Rightarrow> int \<Rightarrow> int" where
  "maxInt a b = (if a > b then a else b)"

section \<open>Weights\<close>

text \<open>
  The loop that spreads the rounding error: it walks over the endpoints, one unit at a time, and
  gives up after four rounds in which nothing could be taken away.
\<close>

function fix_delta :: "nat \<Rightarrow> nat \<Rightarrow> int \<Rightarrow> int list \<Rightarrow> int list" where
  "fix_delta i attempts delta ws =
     (if delta = 0 \<or> ws = [] then ws
      else let next = (i + 1) mod length ws in
        if delta > 0 then fix_delta next 0 (delta - 1) (ws[i := ws ! i + 1])
        else if ws ! i > 1 then fix_delta next 0 (delta + 1) (ws[i := ws ! i - 1])
        else if attempts + 1 \<ge> length ws * 4 then ws
        else fix_delta next (attempts + 1) delta ws)"
  by pat_completeness auto
termination
  by (relation "measures [\<lambda>(i, a, d, ws). nat \<bar>d\<bar>, \<lambda>(i, a, d, ws). 4 * length ws - a]") auto

declare fix_delta.simps [simp del]

definition rebalance_weights :: "int list \<Rightarrow> int \<Rightarrow> int list" where
  "rebalance_weights ws target =
     (if ws = [] \<or> target \<le> 0 then ws
      else let ws1 = map (\<lambda>w. if w \<le> 0 then 1 else w) ws;
               base1 = sum_list ws1;
               equal = maxInt 1 (tdiv target (int (length ws)));
               (ws2, baseSum) = (if base1 \<le> 0
                 then (map (\<lambda>_. equal) ws1, equal * int (length ws)) else (ws1, base1));
               ws3 = (if baseSum \<noteq> target
                 then let scale = f64_div (f64_of_int target) (f64_of_int baseSum) in
                   map (\<lambda>w. maxInt 1 (math_Round (f64_mul (f64_of_int w) scale))) ws2
                 else ws2)
           in fix_delta 0 0 (target - sum_list ws3) ws3)"

definition set_weights :: "routing_endpoint list \<Rightarrow> int list \<Rightarrow> routing_endpoint list" where
  "set_weights eps ws = map (\<lambda>(ep, w). ep\<lparr>ep_Weight := w\<rparr>) (zip eps ws)"

definition rebalanceEndpointWeights :: "routing_endpoint list \<Rightarrow> int \<Rightarrow> routing_endpoint list" where
  "rebalanceEndpointWeights eps target = set_weights eps (rebalance_weights (map ep_Weight eps) target)"

text \<open>The percentages \<^verbatim>\<open>ApplyCanaryWeights\<close> settles on: the canary's and the others' together.\<close>

definition canary_shares :: "int \<Rightarrow> int \<Rightarrow> int \<times> int" where
  "canary_shares percent otherCount =
     (let p1 = clampInt percent 0 100;
          p2 = (if p1 = 0 then 1 else p1);
          p3 = (if p2 \<ge> 100 then 99 else p2);
          share = 100 - p3;
          (p4, share') = (if share < otherCount then (100 - otherCount, otherCount) else (p3, share))
      in (if p4 < 1 then 1 else p4, share'))"

definition canary_index :: "routing_endpoint list \<Rightarrow> string \<Rightarrow> nat option" where
  "canary_index eps target = find_index (\<lambda>ep. EqualFold (TrimSpace (ep_Name ep)) target) eps"

definition canary_scaled :: "int \<Rightarrow> int \<Rightarrow> int \<Rightarrow> int" where
  "canary_scaled base share baseSum = maxInt 1 (math_Round
     (f64_div (f64_mul (f64_of_int base) (f64_of_int share)) (f64_of_int baseSum)))"

text \<open>Its weights before rebalancing, for the canary at index \<open>k\<close>.\<close>

definition canary_weights :: "routing_endpoint list \<Rightarrow> nat \<Rightarrow> int \<Rightarrow> int list" where
  "canary_weights eps k percent =
     (let otherCount = int (length eps) - 1;
          (percent', share) = canary_shares percent otherCount;
          sum0 = sum_list (map (\<lambda>i. if i = k then 0 else maxInt (ep_Weight (eps ! i)) 1) [0..<length eps]);
          baseSum = (if sum0 \<le> 0 then otherCount else sum0)
      in map (\<lambda>i. if i = k then percent'
           else canary_scaled (maxInt (ep_Weight (eps ! i)) 1) share baseSum) [0..<length eps])"

definition ApplyCanaryWeights :: "routing_config option \<Rightarrow> string \<Rightarrow> int \<Rightarrow> bool \<times> routing_config option" where
  "ApplyCanaryWeights cfg provider percent = (case cfg of None \<Rightarrow> (False, cfg) | Some rc \<Rightarrow>
     let eps = rc_Endpoints rc; target = ToLower (TrimSpace provider) in
     if length eps < 2 \<or> target = '''' then (False, cfg)
     else case canary_index eps target of None \<Rightarrow> (False, cfg)
     | Some k \<Rightarrow> (True, Some (rc\<lparr>rc_Endpoints :=
         rebalanceEndpointWeights (set_weights eps (canary_weights eps k percent)) 100\<rparr>)))"

definition applyRouterCanaryDefaults :: "routing_config option \<Rightarrow> config option \<Rightarrow> routing_config option" where
  "applyRouterCanaryDefaults rcfg cfg = (case rcfg of None \<Rightarrow> None | Some rc \<Rightarrow>
     if length (rc_Endpoints rc) < 2 then Some rc
     else case asMap (aget (routerExtensionObject cfg) ''canary'') of None \<Rightarrow> Some rc
     | Some obj \<Rightarrow>
        if \<not> routerAsBool (aget obj ''enabled'') False then Some rc
        else let provider = TrimSpace (routerAsString (aget obj ''provider'') '''') in
          if provider = '''' then Some rc
          else snd (ApplyCanaryWeights (Some rc) provider
                 (clampInt (routerAsInt (aget obj ''percent'') 10) 0 100)))"

definition provider_multipliers :: "anymap \<Rightarrow> (string \<times> int) list" where
  "provider_multipliers obj = (case asMap (aget obj ''providerMultiplier'') of None \<Rightarrow> []
     | Some m \<Rightarrow> foldl (\<lambda>acc (k, v). let key = ToLower (TrimSpace k) in
         if key = '''' then acc else AList.update key (clampInt (routerAsInt v 100) 1 500) acc) [] m)"

definition scored_weight :: "int \<Rightarrow> (string \<times> int) list \<Rightarrow> routing_endpoint \<Rightarrow> int" where
  "scored_weight penalty mults ep =
     (let w0 = maxInt (ep_Weight ep) 100;
          w1 = (if ep_Healthy ep = Some False then maxInt 1 (tdiv (w0 * (100 - penalty)) 100) else w0)
      in case map_of mults (ToLower (TrimSpace (ep_Name ep))) of None \<Rightarrow> w1
         | Some m \<Rightarrow> maxInt 1 (math_Round (f64_div (f64_mul (f64_of_int w1) (f64_of_int m)) 100)))"

definition applyRouterQualityScoring :: "routing_config option \<Rightarrow> config option \<Rightarrow> routing_config option" where
  "applyRouterQualityScoring rcfg cfg = (case rcfg of None \<Rightarrow> None | Some rc \<Rightarrow>
     if rc_Endpoints rc = [] then Some rc
     else case asMap (aget (routerExtensionObject cfg) ''qualityScoring'') of None \<Rightarrow> Some rc
     | Some obj \<Rightarrow>
        if \<not> routerAsBool (aget obj ''enabled'') False then Some rc
        else let penalty = clampInt (routerAsInt (aget obj ''unhealthyPenaltyPercent'') 80) 0 100;
                 eps = map (\<lambda>ep. ep\<lparr>ep_Weight := scored_weight penalty (provider_multipliers obj) ep\<rparr>)
                   (rc_Endpoints rc)
             in Some (rc\<lparr>rc_Endpoints := rebalanceEndpointWeights eps 100\<rparr>))"

section \<open>DNS and load balancer hints\<close>

text \<open>\<^verbatim>\<open>extractDomainFromURL\<close>: the scheme and everything from the first slash on are dropped.\<close>

definition extractDomainFromURL :: "string \<Rightarrow> string" where
  "extractDomainFromURL urlStr =
     takeWhile (\<lambda>c. c \<noteq> CHR ''/'') (TrimPrefix (TrimPrefix urlStr ''https://'') ''http://'')"

definition defaultRoutingTTL :: "string \<Rightarrow> int" where
  "defaultRoutingTTL strategy = (if strategy = ''latency'' then 60 else 300)"

definition base_record :: "string \<Rightarrow> int \<Rightarrow> routing_endpoint \<Rightarrow> dns_record" where
  "base_record hostname ttl ep = \<lparr>dr_Type = ''A'', dr_Name = hostname, dr_TTL = ttl,
     dr_Values = [extractDomainFromURL (ep_URL ep)], dr_SetID = '''', dr_Weight = 0, dr_Region = '''',
     dr_Priority = 0\<rparr>"

definition generateFailoverDNS :: "string \<Rightarrow> int \<Rightarrow> routing_endpoint list \<Rightarrow> dns_config" where
  "generateFailoverDNS hostname ttl eps = \<lparr>dc_Type = ''generic'', dc_Records =
     map (\<lambda>i. (base_record hostname ttl (eps ! i))\<lparr>dr_Priority := int i + 1\<rparr>) [0..<length eps]\<rparr>"

definition generateLatencyDNS :: "string \<Rightarrow> int \<Rightarrow> routing_endpoint list \<Rightarrow> dns_config" where
  "generateLatencyDNS hostname ttl eps = \<lparr>dc_Type = ''route53'', dc_Records =
     map (\<lambda>ep. (base_record hostname ttl ep)\<lparr>dr_SetID := ep_Name ep,
       dr_Region := (if ep_Region ep = '''' then ''us-east-1'' else ep_Region ep)\<rparr>) eps\<rparr>"

definition generateRoundRobinDNS :: "string \<Rightarrow> int \<Rightarrow> routing_endpoint list \<Rightarrow> dns_config" where
  "generateRoundRobinDNS hostname ttl eps = \<lparr>dc_Type = ''generic'', dc_Records =
     map (\<lambda>ep. (base_record hostname ttl ep)\<lparr>dr_SetID := ep_Name ep, dr_Weight := ep_Weight ep\<rparr>) eps\<rparr>"

definition upstream :: "routing_endpoint \<Rightarrow> lb_upstream" where
  "upstream ep = \<lparr>lu_Name = ep_Name ep, lu_URL = ep_URL ep, lu_Weight = 0, lu_Priority = 0\<rparr>"

definition lb_with :: "lb_upstream list \<Rightarrow> string \<Rightarrow> int \<Rightarrow> int \<Rightarrow> lb_config" where
  "lb_with us strategy interval timeout = \<lparr>lc_Type = ''generic'', lc_Upstreams = us,
     lc_HealthCheck = Some \<lparr>hc_Path = ''/health'', hc_Interval = interval, hc_Timeout = timeout\<rparr>,
     lc_Strategy = strategy\<rparr>"

definition generateFailoverLoadBalancer :: "routing_endpoint list \<Rightarrow> lb_config" where
  "generateFailoverLoadBalancer eps =
     lb_with (map (\<lambda>i. (upstream (eps ! i))\<lparr>lu_Priority := int i + 1\<rparr>) [0..<length eps]) ''failover'' 30 5"

definition generateLatencyLoadBalancer :: "routing_endpoint list \<Rightarrow> lb_config" where
  "generateLatencyLoadBalancer eps =
     lb_with (map (\<lambda>ep. (upstream ep)\<lparr>lu_Weight := ep_Weight ep\<rparr>) eps) ''latency'' 10 3"

definition generateRoundRobinLoadBalancer :: "routing_endpoint list \<Rightarrow> lb_config" where
  "generateRoundRobinLoadBalancer eps =
     lb_with (map (\<lambda>ep. (upstream ep)\<lparr>lu_Weight := ep_Weight ep\<rparr>) eps) ''round-robin'' 30 5"

section \<open>The routing configuration\<close>

definition endpoint_less :: "routing_endpoint \<Rightarrow> routing_endpoint \<Rightarrow> bool" where
  "endpoint_less a b = (if ep_Name a = ep_Name b then str_less (ep_URL a) (ep_URL b)
     else str_less (ep_Name a) (ep_Name b))"

definition routing_endpoints :: "fabric_state \<Rightarrow> routing_endpoint list" where
  "routing_endpoints fs = sort_slice endpoint_less (map (\<lambda>i. let e = fs_Endpoints fs ! i in
     \<lparr>ep_Name = fe_Provider e, ep_URL = fe_URL e, ep_Healthy = fe_Healthy e, ep_Priority = int i + 1,
      ep_Weight = 100, ep_Region = ''''\<rparr>) [0..<length (fs_Endpoints fs)])"

definition first_nonempty :: "string list \<Rightarrow> string" where
  "first_nonempty ss = (case filter (\<lambda>s. s \<noteq> '''') ss of [] \<Rightarrow> '''' | s # _ \<Rightarrow> s)"

definition with_hints :: "routing_config \<Rightarrow> routing_config" where
  "with_hints rc = (let h = rc_Hostname rc; ttl = rc_TTL rc; eps = rc_Endpoints rc in
     if rc_Strategy rc = ''failover'' then
       rc\<lparr>rc_DNS := Some (generateFailoverDNS h ttl eps), rc_LoadBalancer := Some (generateFailoverLoadBalancer eps)\<rparr>
     else if rc_Strategy rc = ''latency'' then
       rc\<lparr>rc_DNS := Some (generateLatencyDNS h ttl eps), rc_LoadBalancer := Some (generateLatencyLoadBalancer eps)\<rparr>
     else
       rc\<lparr>rc_DNS := Some (generateRoundRobinDNS h ttl eps), rc_LoadBalancer := Some (generateRoundRobinLoadBalancer eps)\<rparr>)"

definition base_routing :: "fabric_state \<Rightarrow> config \<Rightarrow> fabric_config \<Rightarrow> string \<Rightarrow> routing_config" where
  "base_routing fs c fc stage =
     (let strategy = (if fc_Routing fc = '''' then ''round-robin'' else fc_Routing fc);
          healthPath = (case fc_HealthPath fc of None \<Rightarrow> ''/health''
            | Some p \<Rightarrow> if p = '''' then ''/health'' else p)
      in \<lparr>rc_Contract = ''runfabric.fabric.routing.v1'', rc_Service = cfg_Service c,
           rc_Stage = stage, rc_Hostname = first_nonempty [routerHostname (Some c), cfg_Service c, ''service''],
           rc_Strategy = strategy, rc_HealthPath = healthPath, rc_TTL = defaultRoutingTTL strategy,
           rc_Endpoints = routing_endpoints fs, rc_DNS = None, rc_LoadBalancer = None\<rparr>)"

definition GenerateRouterRoutingConfig ::
  "fabric_state option \<Rightarrow> config option \<Rightarrow> string \<Rightarrow> routing_config option" where
  "GenerateRouterRoutingConfig fabricState cfg stage = (case (fabricState, cfg) of
     (Some fs, Some c) \<Rightarrow> (case cfg_Fabric c of None \<Rightarrow> None | Some fc \<Rightarrow>
        map_option with_hints (applyRouterCanaryDefaults
          (applyRouterQualityScoring (Some (base_routing fs c fc stage)) cfg) cfg))
   | _ \<Rightarrow> None)"

text \<open>
  The printed guide, line by line. With the failover strategy it reads the first endpoint
  without checking that there is one, which panics.
\<close>

definition nl :: string where
  "nl = [char_of (10::nat)]"

definition health_text :: "bool option \<Rightarrow> string" where
  "health_text h = (case h of None \<Rightarrow> ''unknown'' | Some b \<Rightarrow> if b then ''healthy'' else ''unhealthy'')"

definition record_line :: "dns_record \<Rightarrow> string" where
  "record_line r = ''    - '' @ dr_Name r @ '' ('' @ dr_Type r @ '')'' @
     (if dr_Priority r > 0 then '' priority='' @ itoa (dr_Priority r)
      else if dr_SetID r \<noteq> '''' then '' setId='' @ dr_SetID r else '''') @ nl"

definition strategy_guide :: "routing_config \<Rightarrow> string option" where
  "strategy_guide rc =
     (if rc_Strategy rc = ''failover'' then
        (case rc_Endpoints rc of [] \<Rightarrow> None
         | e # es \<Rightarrow> Some (''Failover Strategy:'' @ nl @ ''  - Primary endpoint: '' @ ep_Name e @ nl @
             (case es of [] \<Rightarrow> '''' | e2 # _ \<Rightarrow> ''  - Failover to: '' @ ep_Name e2 @ nl) @
             ''  Configure your DNS or load balancer to point to the primary endpoint.'' @ nl @
             ''  If the primary becomes unhealthy, manually switch to a failover endpoint.'' @ nl))
      else if rc_Strategy rc = ''latency'' then
        Some (''Latency-based Routing:'' @ nl @
          ''  - Route requests based on lowest latency to each endpoint.'' @ nl @
          ''  Use Route53 (AWS), Cloudflare, or NS1 with latency-based routing policies.'' @ nl @
          ''  Each endpoint should have a unique domain in a different region.'' @ nl)
      else if rc_Strategy rc = ''round-robin'' then
        Some (''Round-robin Distribution:'' @ nl @ ''  - Distribute requests by endpoint weights.'' @ nl @
          ''  Configure your DNS with multiple A records or use a load balancer.'' @ nl @
          ''  Weights can be tuned via router quality scoring/canary policies.'' @ nl)
      else Some (''Strategy: '' @ rc_Strategy rc @ nl @
          ''Define custom routing logic in your DNS provider or load balancer.'' @ nl))"

definition FormatRouterRoutingGuide :: "routing_config option \<Rightarrow> string option" where
  "FormatRouterRoutingGuide rcfg = (case rcfg of None \<Rightarrow> Some '''' | Some rc \<Rightarrow>
     map_option (\<lambda>mid.
       ''Router Routing Configuration Guide ('' @ ToUpper (rc_Strategy rc) @ '')'' @ nl @
       ''====================================='' @ nl @ nl @ ''Endpoints:'' @ nl @
       concat (map (\<lambda>ep. ''  '' @ ep_Name ep @ '': '' @ ep_URL ep @ '' ('' @ health_text (ep_Healthy ep) @ '')'' @ nl)
         (rc_Endpoints rc)) @ nl @ mid @ nl @ ''DNS Configuration:'' @ nl @
       (case rc_DNS rc of None \<Rightarrow> '''' | Some d \<Rightarrow> ''  Type: '' @ dc_Type d @ nl @ ''  Records: '' @
          itoa (int (length (dc_Records d))) @ nl @ concat (map record_line (dc_Records d))))
     (strategy_guide rc))"

end
