(* ===== verification/Router_Weights.thy ===== *)
theory Router_Weights
  imports Router_Routing
begin

text \<open>
  Weights: the rebalancing loop reaches its target exactly whenever every endpoint can keep a
  weight of one, canary shifts and quality scoring keep the endpoints and only move weights.
\<close>

section \<open>Exact doubles\<close>

lemma bits_le: "n < 2 ^ k \<Longrightarrow> bits n \<le> int k"
proof (induction k arbitrary: n)
  case 0
  then show ?case by (simp add: bits.simps)
next
  case (Suc k)
  show ?case
  proof (cases "n \<le> 0")
    case True
    then show ?thesis by (simp add: bits.simps)
  next
    case False
    have "n div 2 < 2 ^ k" using Suc.prems by simp
    then have "bits (n div 2) \<le> int k" by (rule Suc.IH)
    then show ?thesis using False by (subst bits.simps) simp
  qed
qed

lemma rnd_pos_int:
  assumes "0 < n" and "n < 2 ^ 53"
  shows "rnd_pos (of_int n) = of_int n"
proof -
  have b: "bits n \<le> 53" using bits_le [of n 53] assms(2) by simp
  have b1: "bits 1 = 1" by (simp add: bits.simps)
  have k: "ulp_exp (of_int n) \<le> 0"
    using b b1 by (auto simp: ulp_exp_def quotient_of_int Let_def)
  define k' where "k' = ulp_exp (of_int n)"
  have p: "pow2 k' = 1 / 2 ^ nat (- k')"
    using k unfolding k'_def by (cases "ulp_exp (of_int n) = 0") (auto simp: pow2_def)
  have "of_int n / pow2 k' = (of_int (n * 2 ^ nat (- k')) :: rat)" by (simp add: p)
  then have "round_half_even (of_int n / pow2 k') = n * 2 ^ nat (- k')"
    by (metis round_half_even_of_int)
  then show ?thesis by (simp add: rnd_pos_def Let_def k'_def [symmetric] p)
qed

lemma rnd_of_int: "0 \<le> n \<Longrightarrow> n < 2 ^ 53 \<Longrightarrow> rnd (of_int n) = of_int n"
  using rnd_pos_int by (auto simp: rnd_def)

lemma math_Round_of_int [simp]: "math_Round (of_int n) = n"
  by (simp add: math_Round_def) linarith

section \<open>The rebalancing loop\<close>

definition ones_behind :: "nat \<Rightarrow> nat \<Rightarrow> int list \<Rightarrow> bool" where
  "ones_behind i attempts ws \<longleftrightarrow> (\<forall>j. 1 \<le> j \<and> j \<le> attempts \<longrightarrow>
     ws ! nat ((int i - int j) mod int (length ws)) = 1)"

lemma ones_behind_0 [simp]: "ones_behind i 0 ws"
  by (simp add: ones_behind_def)

lemma ones_behind_step:
  assumes "ones_behind i a ws" and "ws ! i = 1" and "i < length ws"
  shows "ones_behind ((i + 1) mod length ws) (a + 1) ws"
  unfolding ones_behind_def
proof (intro allI impI)
  fix j assume j: "1 \<le> j \<and> j \<le> a + 1"
  have eq: "(int ((i + 1) mod length ws) - int j) mod int (length ws) = (int i - int (j - 1)) mod int (length ws)"
    using j by (simp add: zmod_int mod_diff_left_eq of_nat_diff algebra_simps)
  show "ws ! nat ((int ((i + 1) mod length ws) - int j) mod int (length ws)) = 1"
  proof (cases "j = 1")
    case True
    then show ?thesis using assms(2,3) eq by simp
  next
    case False
    then have "1 \<le> j - 1 \<and> j - 1 \<le> a" using j by auto
    then show ?thesis using assms(1) eq unfolding ones_behind_def by (metis)
  qed
qed

lemma ones_behind_all:
  assumes "ones_behind i a ws" and "length ws \<le> a" and "i < length ws"
  shows "\<forall>w \<in> set ws. w = 1"
proof
  fix w assume "w \<in> set ws"
  then obtain p where p: "p < length ws" "w = ws ! p" by (auto simp: in_set_conv_nth)
  define j where "j = (if p < i then i - p else i + length ws - p)"
  have j: "1 \<le> j" "j \<le> length ws" using p assms(3) by (auto simp: j_def)
  have "(int i - int j) mod int (length ws) = int p"
  proof (cases "p < i")
    case True
    then have "int i - int j = int p" by (simp add: j_def)
    then show ?thesis using p by simp
  next
    case False
    then have "int i - int j = int p - int (length ws)" using p by (simp add: j_def)
    then show ?thesis using p by (simp add: mod_diff_right_eq [symmetric])
  qed
  moreover have "ws ! nat ((int i - int j) mod int (length ws)) = 1"
    using assms(1,2) j unfolding ones_behind_def by simp
  ultimately show "w = 1" using p by simp
qed

lemma sum_list_ge_length: "\<forall>w \<in> set ws. 1 \<le> w \<Longrightarrow> int (length ws) \<le> sum_list ws"
  by (induction ws) auto

lemma sum_list_upd: "i < length ws \<Longrightarrow> sum_list (ws[i := ws ! i + d]) = sum_list ws + (d::int)"
  by (induction ws arbitrary: i) (auto split: nat.split)

lemma fix_delta_spec:
  assumes "ws \<noteq> []" and "\<forall>w \<in> set ws. 1 \<le> w" and "i < length ws" and "ones_behind i a ws"
  shows "length (fix_delta i a d ws) = length ws \<and> (\<forall>w \<in> set (fix_delta i a d ws). 1 \<le> w) \<and>
    sum_list (fix_delta i a d ws) = max (sum_list ws + d) (int (length ws))"
  using assms
proof (induction i a d ws rule: fix_delta.induct)
  case (1 i a d ws)
  let ?next = "(i + 1) mod length ws"
  have nx: "?next < length ws" using 1(4) by simp
  have ge: "int (length ws) \<le> sum_list ws" using sum_list_ge_length [OF 1(5)] .
  have wi: "1 \<le> ws ! i" using 1(5,6) by simp
  have upd: "\<forall>w \<in> set (ws[i := ws ! i + x]). 1 \<le> w" if "1 \<le> ws ! i + x" for x
    using that 1(5) set_update_subset_insert [of ws i "ws ! i + x"] by auto
  consider "d = 0" | "d > 0" | "d < 0" "ws ! i > 1" | "d < 0" "ws ! i = 1" using wi by linarith
  then show ?case
  proof cases
    case 1
    then have "fix_delta i a d ws = ws" by (subst fix_delta.simps) simp
    then show ?thesis using ge "1.prems" 1 by simp
  next
    case 2
    have "length (fix_delta ?next 0 (d - 1) (ws[i := ws ! i + 1])) = length (ws[i := ws ! i + 1]) \<and>
      (\<forall>w \<in> set (fix_delta ?next 0 (d - 1) (ws[i := ws ! i + 1])). 1 \<le> w) \<and>
      sum_list (fix_delta ?next 0 (d - 1) (ws[i := ws ! i + 1])) =
        max (sum_list (ws[i := ws ! i + 1]) + (d - 1)) (int (length (ws[i := ws ! i + 1])))"
      by (rule "1.IH"(1)) (use 2 "1.prems" nx upd [of 1] wi in auto)
    moreover have "fix_delta i a d ws = fix_delta ?next 0 (d - 1) (ws[i := ws ! i + 1])"
      using 2 "1.prems" by (subst fix_delta.simps) (simp add: Let_def)
    ultimately show ?thesis using "1.prems" by (simp add: sum_list_upd)
  next
    case 3
    have "length (fix_delta ?next 0 (d + 1) (ws[i := ws ! i - 1])) = length (ws[i := ws ! i - 1]) \<and>
      (\<forall>w \<in> set (fix_delta ?next 0 (d + 1) (ws[i := ws ! i - 1])). 1 \<le> w) \<and>
      sum_list (fix_delta ?next 0 (d + 1) (ws[i := ws ! i - 1])) =
        max (sum_list (ws[i := ws ! i - 1]) + (d + 1)) (int (length (ws[i := ws ! i - 1])))"
      by (rule "1.IH"(2)) (use 3 "1.prems" nx upd [of "- 1"] in auto)
    moreover have "fix_delta i a d ws = fix_delta ?next 0 (d + 1) (ws[i := ws ! i - 1])"
      using 3 "1.prems" by (subst fix_delta.simps) (simp add: Let_def)
    ultimately show ?thesis using "1.prems" sum_list_upd [of i ws "- 1"] by simp
  next
    case 4
    show ?thesis
    proof (cases "a + 1 \<ge> length ws * 4")
      case True
      then have "length ws \<le> a" using "1.prems"(1,3) by linarith
      then have ones: "\<forall>w \<in> set ws. w = 1" using ones_behind_all "1.prems"(3,4) by blast
      then have "sum_list ws = int (length ws)" by (induction ws) auto
      moreover have "fix_delta i a d ws = ws"
        using 4 True "1.prems" by (subst fix_delta.simps) (simp add: Let_def)
      ultimately show ?thesis using 4 "1.prems" by simp
    next
      case False
      have "length (fix_delta ?next (a + 1) d ws) = length ws \<and>
        (\<forall>w \<in> set (fix_delta ?next (a + 1) d ws). 1 \<le> w) \<and>
        sum_list (fix_delta ?next (a + 1) d ws) = max (sum_list ws + d) (int (length ws))"
        by (rule "1.IH"(3)) (use 4 False "1.prems" nx ones_behind_step in auto)
      moreover have "fix_delta i a d ws = fix_delta ?next (a + 1) d ws"
        using 4 False "1.prems" by (subst fix_delta.simps) (simp add: Let_def)
      ultimately show ?thesis by simp
    qed
  qed
qed

lemma rebalance_weights_spec:
  assumes "ws \<noteq> []" and "0 < target"
  shows "length (rebalance_weights ws target) = length ws \<and>
    (\<forall>w \<in> set (rebalance_weights ws target). 1 \<le> w) \<and>
    sum_list (rebalance_weights ws target) = max target (int (length ws))"
proof -
  define ws1 where "ws1 = map (\<lambda>w. if w \<le> 0 then 1 else w :: int) ws"
  have l1: "length ws1 = length ws" "ws1 \<noteq> []" and p1: "\<forall>w \<in> set ws1. 1 \<le> w"
    using assms by (auto simp: ws1_def)
  have pos: "0 < sum_list ws1"
    using sum_list_ge_length [OF p1] l1 by (cases ws1) auto
  define ws3 where "ws3 = (if sum_list ws1 \<noteq> target
      then let scale = f64_div (f64_of_int target) (f64_of_int (sum_list ws1)) in
        map (\<lambda>w. maxInt 1 (math_Round (f64_mul (f64_of_int w) scale))) ws1 else ws1)"
  have l3: "length ws3 = length ws" "ws3 \<noteq> []" and p3: "\<forall>w \<in> set ws3. 1 \<le> w"
    using l1 p1 by (auto simp: ws3_def Let_def maxInt_def)
  have "rebalance_weights ws target = fix_delta 0 0 (target - sum_list ws3) ws3"
    using assms pos by (simp add: rebalance_weights_def ws1_def [symmetric] ws3_def Let_def)
  then show ?thesis
    using fix_delta_spec [OF l3(2) p3, of 0 0 "target - sum_list ws3"] l3 assms(1) by simp
qed

end
