(* ===== verification/Router_Simulation.thy ===== *)
theory Router_Simulation
  imports Router_Routing
begin

text \<open>
  \<^verbatim>\<open>workflow/app/router_simulation.go\<close>: local simulation of the steering strategies and the
  one-endpoint-down checks built on it. A distribution is an association list with distinct keys.
\<close>

record simulation_result =
  sim_Strategy :: string
  sim_Requests :: int
  sim_Down :: "string list"
  sim_Available :: bool
  sim_Selected :: string
  sim_Distribution :: "(string \<times> int) list"

record chaos_scenario =
  cs_Scenario :: string
  cs_Down :: "string list"
  cs_Available :: bool
  cs_Selected :: string
  cs_Distribution :: "(string \<times> int) list"
  cs_Pass :: bool

record chaos_verification =
  cv_Strategy :: string
  cv_Requests :: int
  cv_Scenarios :: "chaos_scenario list"
  cv_Pass :: bool

definition norm_name :: "string \<Rightarrow> string" where
  "norm_name s = ToLower (TrimSpace s)"

definition toLowerSet :: "string list \<Rightarrow> string list" where
  "toLowerSet ss = filter (\<lambda>k. k \<noteq> '''') (map norm_name ss)"

definition availableEndpoints :: "routing_endpoint list \<Rightarrow> string list \<Rightarrow> routing_endpoint list" where
  "availableEndpoints eps downSet =
     filter (\<lambda>ep. norm_name (ep_Name ep) \<notin> set downSet \<and> ep_Healthy ep \<noteq> Some False) eps"

definition eff_weight :: "routing_endpoint \<Rightarrow> int" where
  "eff_weight ep = maxInt (ep_Weight ep) 1"

fun pick_slot :: "routing_endpoint list \<Rightarrow> int \<Rightarrow> int \<Rightarrow> routing_endpoint option" where
  "pick_slot [] slot cum = None"
| "pick_slot (ep # eps) slot cum =
     (let cum' = cum + eff_weight ep in if slot < cum' then Some ep else pick_slot eps slot cum')"

text \<open>\<^verbatim>\<open>seed % total\<close> with a non-negative seed.\<close>

definition pickWeightedEndpoint :: "routing_endpoint list \<Rightarrow> int \<Rightarrow> string" where
  "pickWeightedEndpoint eps seed =
     (let total = sum_list (map eff_weight eps) in
      if total \<le> 0 then ''''
      else case pick_slot eps (seed mod total) 0 of Some ep \<Rightarrow> ep_Name ep | None \<Rightarrow> ep_Name (last eps))"

definition count_of :: "(string \<times> int) list \<Rightarrow> string \<Rightarrow> int" where
  "count_of d k = (case map_of d k of None \<Rightarrow> 0 | Some n \<Rightarrow> n)"

definition bump :: "string \<Rightarrow> (string \<times> int) list \<Rightarrow> (string \<times> int) list" where
  "bump k d = AList.update k (count_of d k + 1) d"

definition item_less :: "string \<times> int \<Rightarrow> string \<times> int \<Rightarrow> bool" where
  "item_less a b = (if snd a = snd b then str_less (fst a) (fst b) else snd a > snd b)"

definition pickDominantEndpoint :: "(string \<times> int) list \<Rightarrow> string" where
  "pickDominantEndpoint d = (case sort_slice item_less d of [] \<Rightarrow> '''' | x # _ \<Rightarrow> fst x)"

definition failover_less :: "routing_endpoint \<Rightarrow> routing_endpoint \<Rightarrow> bool" where
  "failover_less a b = (if ep_Priority a = ep_Priority b then str_less (ep_Name a) (ep_Name b)
     else ep_Priority a < ep_Priority b)"

definition weighted_distribution :: "routing_endpoint list \<Rightarrow> nat \<Rightarrow> (string \<times> int) list" where
  "weighted_distribution eps n = foldl (\<lambda>d i. bump (pickWeightedEndpoint eps (int i)) d) [] [0..<n]"

definition SimulateRouterRouting :: "routing_config option \<Rightarrow> int \<Rightarrow> string list \<Rightarrow> simulation_result" where
  "SimulateRouterRouting cfg requests0 downProviders =
     (let requests = (if requests0 \<le> 0 then 100 else requests0);
          res = \<lparr>sim_Strategy = '''', sim_Requests = requests, sim_Down = [], sim_Available = False,
            sim_Selected = '''', sim_Distribution = []\<rparr>
      in case cfg of None \<Rightarrow> res
      | Some rc \<Rightarrow>
         let res1 = res\<lparr>sim_Strategy := rc_Strategy rc, sim_Down := sort_slice str_less downProviders\<rparr>;
             eps = availableEndpoints (rc_Endpoints rc) (toLowerSet downProviders)
         in if eps = [] then res1
            else if norm_name (rc_Strategy rc) = ''failover'' then
              let selected = ep_Name (hd (sort_slice failover_less eps)) in
              res1\<lparr>sim_Available := True, sim_Selected := selected, sim_Distribution := [(selected, requests)]\<rparr>
            else
              let d = weighted_distribution eps (nat requests) in
              res1\<lparr>sim_Available := True, sim_Distribution := d, sim_Selected := pickDominantEndpoint d\<rparr>)"

definition scenario :: "string \<Rightarrow> string list \<Rightarrow> simulation_result \<Rightarrow> bool \<Rightarrow> chaos_scenario" where
  "scenario name down sim pass = \<lparr>cs_Scenario = name, cs_Down = down, cs_Available = sim_Available sim,
     cs_Selected = sim_Selected sim, cs_Distribution = sim_Distribution sim, cs_Pass = pass\<rparr>"

definition down_names :: "routing_endpoint list \<Rightarrow> string list" where
  "down_names eps = sort_slice str_less (filter (\<lambda>n. n \<noteq> '''') (map (\<lambda>ep. TrimSpace (ep_Name ep)) eps))"

definition single_down :: "routing_config \<Rightarrow> int \<Rightarrow> string \<Rightarrow> chaos_scenario" where
  "single_down rc requests down =
     (let sim = SimulateRouterRouting (Some rc) requests [down]
      in scenario ''single-down'' [down] sim (sim_Available sim \<and>
           \<not> EqualFold (TrimSpace (sim_Selected sim)) (TrimSpace down)))"

definition all_down :: "routing_config \<Rightarrow> int \<Rightarrow> string list \<Rightarrow> chaos_scenario" where
  "all_down rc requests names =
     (let sim = SimulateRouterRouting (Some rc) requests names
      in scenario ''all-down'' names sim (\<not> sim_Available sim))"

definition VerifyRouterFailover :: "routing_config option \<Rightarrow> int \<Rightarrow> chaos_verification" where
  "VerifyRouterFailover cfg requests0 =
     (let requests = (if requests0 \<le> 0 then 100 else requests0) in case cfg of
       None \<Rightarrow> \<lparr>cv_Strategy = '''', cv_Requests = requests, cv_Scenarios = [], cv_Pass = False\<rparr>
     | Some rc \<Rightarrow>
         let names = down_names (rc_Endpoints rc);
             scs = map (single_down rc requests) names @ [all_down rc requests names]
         in \<lparr>cv_Strategy = rc_Strategy rc, cv_Requests = requests, cv_Scenarios = scs,
              cv_Pass = (\<forall>s \<in> set scs. cs_Pass s)\<rparr>)"

section \<open>Who is selected\<close>

lemma eff_weight_pos [simp]: "0 < eff_weight ep"
  by (simp add: eff_weight_def maxInt_def)

lemma pick_slot_in: "pick_slot eps slot cum = Some ep \<Longrightarrow> ep \<in> set eps"
  by (induction eps arbitrary: cum) (auto simp: Let_def split: if_splits)

lemma pickWeighted_in: "eps \<noteq> [] \<Longrightarrow> pickWeightedEndpoint eps seed \<in> ep_Name ` set eps"
proof -
  assume ne: "eps \<noteq> []"
  have "0 < sum_list (map eff_weight eps)"
    using ne by (induction eps rule: list_nonempty_induct) (auto intro: add_pos_pos)
  then show ?thesis
    using ne pick_slot_in by (auto simp: pickWeightedEndpoint_def Let_def split: option.split)
qed

lemma count_bump: "count_of (bump k d) j = count_of d j + (if j = k then 1 else 0)"
  by (auto simp: bump_def count_of_def update_conv')

lemma keys_bump: "fst ` set (bump k d) = insert k (fst ` set d)"
  by (simp add: bump_def dom_update)

lemma distinct_bump: "distinct (map fst d) \<Longrightarrow> distinct (map fst (bump k d))"
  by (simp add: bump_def distinct_update)

lemma weighted_Suc:
  "weighted_distribution eps (Suc n) =
   bump (pickWeightedEndpoint eps (int n)) (weighted_distribution eps n)"
  by (simp add: weighted_distribution_def)

lemma weighted_0 [simp]: "weighted_distribution eps 0 = []"
  by (simp add: weighted_distribution_def)

lemma weighted_keys: "eps \<noteq> [] \<Longrightarrow> fst ` set (weighted_distribution eps n) \<subseteq> ep_Name ` set eps"
  by (induction n) (auto simp: weighted_Suc keys_bump pickWeighted_in)

lemma weighted_distinct: "distinct (map fst (weighted_distribution eps n))"
  by (induction n) (auto simp: weighted_Suc distinct_bump)

lemma weighted_count:
  "count_of (weighted_distribution eps n) k =
   int (card {i. i < n \<and> pickWeightedEndpoint eps (int i) = k})"
proof (induction n)
  case 0
  then show ?case by (simp add: count_of_def)
next
  case (Suc n)
  have "{i. i < Suc n \<and> pickWeightedEndpoint eps (int i) = k} =
      {i. i < n \<and> pickWeightedEndpoint eps (int i) = k} \<union>
      (if pickWeightedEndpoint eps (int n) = k then {n} else {})"
    by (auto simp: less_Suc_eq)
  then show ?case
    by (auto simp: weighted_Suc count_bump Suc card_insert_if)
qed

lemma bump_not_Nil [simp]: "bump k d \<noteq> []"
  using keys_bump [of k d] by auto

lemma weighted_not_Nil: "0 < n \<Longrightarrow> weighted_distribution eps n \<noteq> []"
  by (cases n) (auto simp: weighted_Suc)

lemma dominant_in: "d \<noteq> [] \<Longrightarrow> pickDominantEndpoint d \<in> fst ` set d"
proof -
  assume "d \<noteq> []"
  then obtain x xs where eq: "sort_slice item_less d = x # xs" by (cases "sort_slice item_less d") auto
  then have "x \<in> set d" using set_sort_slice [of item_less d] by auto
  with eq show ?thesis by (auto simp: pickDominantEndpoint_def)
qed

lemma selected_available:
  assumes "sim_Available (SimulateRouterRouting (Some rc) n down)"
  shows "sim_Selected (SimulateRouterRouting (Some rc) n down) \<in>
    ep_Name ` set (availableEndpoints (rc_Endpoints rc) (toLowerSet down))"
proof -
  let ?eps = "availableEndpoints (rc_Endpoints rc) (toLowerSet down)"
  let ?r = "if n \<le> 0 then 100 else n"
  have ne: "?eps \<noteq> []" using assms by (auto simp: SimulateRouterRouting_def Let_def split: if_splits)
  have "hd (sort_slice failover_less ?eps) \<in> set ?eps"
    using ne hd_in_set [of "sort_slice failover_less ?eps"] by simp
  moreover have "pickDominantEndpoint (weighted_distribution ?eps (nat ?r)) \<in> ep_Name ` set ?eps"
    by (rule subsetD [OF weighted_keys [OF ne] dominant_in [OF weighted_not_Nil]]) auto
  ultimately show ?thesis
    using ne by (auto simp: SimulateRouterRouting_def Let_def)
qed

lemma available_iff:
  "sim_Available (SimulateRouterRouting (Some rc) n down) \<longleftrightarrow>
   availableEndpoints (rc_Endpoints rc) (toLowerSet down) \<noteq> []"
  by (auto simp: SimulateRouterRouting_def Let_def)

lemma norm_name_trim [simp]: "norm_name (TrimSpace s) = norm_name s"
  by (simp add: norm_name_def)

lemma selected_not_down:
  assumes "sim_Available (SimulateRouterRouting (Some rc) n down)" and "d \<in> set down" and "norm_name d \<noteq> ''''"
  shows "norm_name (sim_Selected (SimulateRouterRouting (Some rc) n down)) \<noteq> norm_name d"
  using selected_available [OF assms(1)] assms(2,3)
  by (auto simp: availableEndpoints_def toLowerSet_def)

end
