(* ===== verification/Router_Claims.thy ===== *)
theory Router_Claims
  imports Router_Weights Router_Simulation
begin

text \<open>
  Properties of the routing configuration, of canary shifts and of the local simulation.
\<close>

section \<open>Weights\<close>

definition no_weight :: "routing_endpoint \<Rightarrow> routing_endpoint" where
  "no_weight ep = ep\<lparr>ep_Weight := 0\<rparr>"

lemma set_weights_props:
  assumes "length ws = length eps"
  shows "map no_weight (set_weights eps ws) = map no_weight eps"
    and "map ep_Weight (set_weights eps ws) = ws" and "length (set_weights eps ws) = length eps"
  using assms
  by (auto simp: set_weights_def no_weight_def list_eq_iff_nth_eq)

lemma rebalanceEndpointWeights_spec:
  assumes "eps \<noteq> []"
  shows "map no_weight (rebalanceEndpointWeights eps 100) = map no_weight eps"
    and "\<forall>w \<in> set (map ep_Weight (rebalanceEndpointWeights eps 100)). 1 \<le> w"
    and "sum_list (map ep_Weight (rebalanceEndpointWeights eps 100)) = max 100 (int (length eps))"
    and "rebalanceEndpointWeights eps 100 \<noteq> []"
proof -
  let ?r = "rebalance_weights (map ep_Weight eps) 100"
  have r: "length ?r = length eps" "\<forall>w \<in> set ?r. 1 \<le> w" "sum_list ?r = max 100 (int (length eps))"
    using rebalance_weights_spec [of "map ep_Weight eps" 100] assms by auto
  note p = set_weights_props [OF r(1)]
  show "map no_weight (rebalanceEndpointWeights eps 100) = map no_weight eps"
    unfolding rebalanceEndpointWeights_def by (rule p(1))
  show "\<forall>w \<in> set (map ep_Weight (rebalanceEndpointWeights eps 100)). 1 \<le> w"
    unfolding rebalanceEndpointWeights_def p(2) by (rule r(2))
  show "sum_list (map ep_Weight (rebalanceEndpointWeights eps 100)) = max 100 (int (length eps))"
    unfolding rebalanceEndpointWeights_def p(2) by (rule r(3))
  show "rebalanceEndpointWeights eps 100 \<noteq> []"
    using p(3) assms unfolding rebalanceEndpointWeights_def by (metis length_0_conv)
qed

text \<open>The weights of a configuration after a steering step.\<close>

definition steered :: "routing_config \<Rightarrow> routing_config \<Rightarrow> bool" where
  "steered rc rc' \<longleftrightarrow> rc'\<lparr>rc_Endpoints := rc_Endpoints rc\<rparr> = rc \<and>
     map no_weight (rc_Endpoints rc') = map no_weight (rc_Endpoints rc) \<and>
     (\<forall>w \<in> set (map ep_Weight (rc_Endpoints rc')). 1 \<le> w) \<and>
     sum_list (map ep_Weight (rc_Endpoints rc')) = max 100 (int (length (rc_Endpoints rc)))"

lemma steered_rebalance:
  assumes "eps \<noteq> []" and "map no_weight eps = map no_weight (rc_Endpoints rc)"
  shows "steered rc (rc\<lparr>rc_Endpoints := rebalanceEndpointWeights eps 100\<rparr>)"
  using rebalanceEndpointWeights_spec [OF assms(1)] assms(2) map_eq_imp_length_eq [OF assms(2)]
  by (simp add: steered_def)

lemma length_canary_weights: "length (canary_weights eps k percent) = length eps"
  by (simp add: canary_weights_def Let_def split: prod.split)

text \<open>
  C26. A canary shift that is accepted moves weights only: the endpoints, their order and the rest
  of the configuration stay, every endpoint keeps a weight of at least one and the weights add
  up to 100 (or to the number of endpoints when there are more than 100).
\<close>

theorem ApplyCanaryWeights_total:
  assumes "ApplyCanaryWeights (Some rc) provider percent = (True, Some rc')"
  shows "rc'\<lparr>rc_Endpoints := rc_Endpoints rc\<rparr> = rc \<and>
     map (\<lambda>ep. ep\<lparr>ep_Weight := 0\<rparr>) (rc_Endpoints rc') = map (\<lambda>ep. ep\<lparr>ep_Weight := 0\<rparr>) (rc_Endpoints rc) \<and>
     (\<forall>ep \<in> set (rc_Endpoints rc'). 1 \<le> ep_Weight ep) \<and>
     sum_list (map ep_Weight (rc_Endpoints rc')) = max 100 (int (length (rc_Endpoints rc)))"
proof -
  from assms have ne: "rc_Endpoints rc \<noteq> []" by (auto simp: ApplyCanaryWeights_def)
  from assms obtain k where eq: "rc' = rc\<lparr>rc_Endpoints :=
      rebalanceEndpointWeights (set_weights (rc_Endpoints rc) (canary_weights (rc_Endpoints rc) k percent)) 100\<rparr>"
    by (auto simp: ApplyCanaryWeights_def Let_def split: if_splits option.splits)
  note len = length_canary_weights [of "rc_Endpoints rc" k percent]
  have "steered rc rc'"
    unfolding eq using set_weights_props(1,3) [OF len] ne
    by (intro steered_rebalance) (metis length_0_conv, simp)
  then show ?thesis by (simp add: steered_def no_weight_def [abs_def])
qed

definition demo_endpoint :: "string \<Rightarrow> int \<Rightarrow> int \<Rightarrow> routing_endpoint" where
  "demo_endpoint n p w = \<lparr>ep_Name = n, ep_URL = ''https://'' @ n, ep_Healthy = None, ep_Priority = p,
     ep_Weight = w, ep_Region = ''''\<rparr>"

definition demo_routing :: "string \<Rightarrow> routing_endpoint list \<Rightarrow> routing_config" where
  "demo_routing strategy eps = \<lparr>rc_Contract = ''v1'', rc_Service = ''svc'', rc_Stage = ''dev'',
     rc_Hostname = ''svc'', rc_Strategy = strategy, rc_HealthPath = ''/health'', rc_TTL = 300,
     rc_Endpoints = eps, rc_DNS = None, rc_LoadBalancer = None\<rparr>"

definition demo_two :: routing_config where
  "demo_two = demo_routing ''round-robin'' [demo_endpoint ''aws'' 1 100, demo_endpoint ''gcp'' 2 100]"

theorem ApplyCanaryWeights_total_witness:
  "case ApplyCanaryWeights (Some demo_two) '' GCP '' 10 of (b, r) \<Rightarrow> b \<and> (case r of None \<Rightarrow> False
   | Some rc' \<Rightarrow> sum_list (map ep_Weight (rc_Endpoints rc')) = 100)"
proof -
  have "canary_index (rc_Endpoints demo_two) (ToLower (TrimSpace '' GCP '')) = Some 1"
    "ToLower (TrimSpace '' GCP '') \<noteq> ''''" and l: "length (rc_Endpoints demo_two) = 2" by code_simp+
  then obtain rc' where eq: "ApplyCanaryWeights (Some demo_two) '' GCP '' 10 = (True, Some rc')"
    by (simp add: ApplyCanaryWeights_def Let_def)
  show ?thesis unfolding eq using ApplyCanaryWeights_total [OF eq] l by simp
qed

text \<open>With two endpoints the split is exact: scaling the other weight is the identity in doubles.\<close>

lemma canary_scaled_self:
  assumes "1 \<le> b" and "b * s < 2 ^ 53" and "1 \<le> s"
  shows "canary_scaled b s b = s"
proof -
  have b: "b < 2 ^ 53" and s: "s < 2 ^ 53"
    using mult_left_mono [of 1 s b] mult_right_mono [of 1 b s] assms by linarith+
  have p: "0 \<le> b * s" using assms by simp
  have "rnd (of_int b * of_int s) = (of_int (b * s) :: rat)"
    using rnd_of_int [OF p assms(2)] by simp
  moreover have "(of_int (b * s) :: rat) / of_int b = of_int s"
    using assms(1) by simp
  moreover have "rnd (of_int s) = of_int s" "rnd (of_int b) = of_int b"
    using rnd_of_int b s assms by simp_all
  ultimately show ?thesis
    using assms(3) by (simp add: canary_scaled_def f64_div_def f64_mul_def f64_of_int_def maxInt_def
        del: of_int_mult)
qed

lemma canary_shares_two: "canary_shares percent 1 = (clampInt percent 1 99, 100 - clampInt percent 1 99)"
  by (auto simp: canary_shares_def clampInt_def Let_def)

lemma rebalance_two: "0 < a \<Longrightarrow> 0 < b \<Longrightarrow> a + b = 100 \<Longrightarrow> rebalance_weights [a, b] 100 = [a, b]"
  by (simp add: rebalance_weights_def Let_def) (subst fix_delta.simps, simp)

text \<open>
  Between two endpoints a canary shift is exact: the canary gets the requested percentage,
  limited to the range from 1 to 99, and the other endpoint gets the rest.
\<close>

theorem ApplyCanaryWeights_exact:
  assumes "rc_Endpoints rc = [e0, e1]" and "ToLower (TrimSpace provider) \<noteq> ''''"
    and "canary_index [e0, e1] (ToLower (TrimSpace provider)) = Some k"
    and "ep_Weight e0 < 2 ^ 46" and "ep_Weight e1 < 2 ^ 46"
  shows "\<exists>rc'. ApplyCanaryWeights (Some rc) provider percent = (True, Some rc') \<and>
    map ep_Weight (rc_Endpoints rc') =
      (let p = clampInt percent 1 99 in if k = 0 then [p, 100 - p] else [100 - p, p])"
proof -
  let ?p = "clampInt percent 1 99"
  have p: "1 \<le> ?p" "?p \<le> 99" by (auto simp: clampInt_def)
  have k: "k = 0 \<or> k = 1"
    using find_index_bound [OF assms(3) [unfolded canary_index_def]] by auto
  have sc: "canary_scaled (maxInt w 1) (100 - ?p) (maxInt w 1) = 100 - ?p" if "w < 2 ^ 46" for w
  proof (rule canary_scaled_self)
    have "maxInt w 1 * (100 - ?p) \<le> 2 ^ 46 * 99"
      using that p by (intro mult_mono) (auto simp: maxInt_def)
    then show "maxInt w 1 * (100 - ?p) < 2 ^ 53" by simp
  qed (use p in \<open>auto simp: maxInt_def\<close>)
  have m: "0 < maxInt w 1" for w by (simp add: maxInt_def)
  have "map ep_Weight (rebalanceEndpointWeights (set_weights [e0, e1] [a, b]) 100) = [a, b]"
    if "0 < a" "0 < b" "a + b = 100" for a b
    unfolding rebalanceEndpointWeights_def
    using that by (simp add: set_weights_def rebalance_two)
  then show ?thesis
    using k assms p sc m [of "ep_Weight e0"] m [of "ep_Weight e1"]
    by (auto simp: ApplyCanaryWeights_def canary_weights_def Let_def canary_shares_two upt_rec)
qed

theorem ApplyCanaryWeights_exact_witness:
  "\<exists>rc'. ApplyCanaryWeights (Some demo_two) ''gcp'' 25 = (True, Some rc') \<and>
     map ep_Weight (rc_Endpoints rc') = [75, 25]"
proof -
  have "\<exists>rc'. ApplyCanaryWeights (Some demo_two) ''gcp'' 25 = (True, Some rc') \<and>
    map ep_Weight (rc_Endpoints rc') = (let p = clampInt 25 1 99 in if 1 = (0::nat) then [p, 100 - p] else [100 - p, p])"
  proof (rule ApplyCanaryWeights_exact)
    show "rc_Endpoints demo_two = [demo_endpoint ''aws'' 1 100, demo_endpoint ''gcp'' 2 100]"
      by (simp add: demo_two_def demo_routing_def)
    show "ToLower (TrimSpace ''gcp'') \<noteq> ''''" by code_simp
    show "canary_index [demo_endpoint ''aws'' 1 100, demo_endpoint ''gcp'' 2 100] (ToLower (TrimSpace ''gcp'')) = Some 1"
      by code_simp
  qed (simp_all add: demo_endpoint_def)
  then show ?thesis by (simp add: clampInt_def)
qed

section \<open>The generated configuration\<close>

definition same_endpoints :: "routing_config \<Rightarrow> routing_config \<Rightarrow> bool" where
  "same_endpoints rc rc' \<longleftrightarrow> map no_weight (rc_Endpoints rc') = map no_weight (rc_Endpoints rc) \<and>
     ((\<forall>w \<in> set (map ep_Weight (rc_Endpoints rc)). 1 \<le> w) \<longrightarrow>
      (\<forall>w \<in> set (map ep_Weight (rc_Endpoints rc')). 1 \<le> w))"

lemma same_endpoints_refl [simp]: "same_endpoints rc rc"
  by (simp add: same_endpoints_def)

lemma same_endpoints_trans: "same_endpoints a b \<Longrightarrow> same_endpoints b c \<Longrightarrow> same_endpoints a c"
  by (simp add: same_endpoints_def)

lemma steered_same: "steered rc rc' \<Longrightarrow> same_endpoints rc rc'"
  by (simp add: steered_def same_endpoints_def)

lemma canary_same: "snd (ApplyCanaryWeights (Some rc) p n) = Some rc' \<Longrightarrow> same_endpoints rc rc'"
proof -
  assume h: "snd (ApplyCanaryWeights (Some rc) p n) = Some rc'"
  let ?short = "length (rc_Endpoints rc) < 2 \<or> ToLower (TrimSpace p) = ''''"
  consider "rc' = rc" | k where "rc_Endpoints rc \<noteq> []" "rc' = rc\<lparr>rc_Endpoints :=
      rebalanceEndpointWeights (set_weights (rc_Endpoints rc) (canary_weights (rc_Endpoints rc) k n)) 100\<rparr>"
  proof (cases "\<not> ?short \<and> canary_index (rc_Endpoints rc) (ToLower (TrimSpace p)) \<noteq> None")
    case True
    then obtain k where "canary_index (rc_Endpoints rc) (ToLower (TrimSpace p)) = Some k" by auto
    with True h have "rc' = rc\<lparr>rc_Endpoints :=
        rebalanceEndpointWeights (set_weights (rc_Endpoints rc) (canary_weights (rc_Endpoints rc) k n)) 100\<rparr>"
      by (simp add: ApplyCanaryWeights_def Let_def)
    moreover have "rc_Endpoints rc \<noteq> []" using True by auto
    ultimately show ?thesis using that(2) by blast
  next
    case False
    then have "rc' = rc" using h by (auto simp: ApplyCanaryWeights_def Let_def split: if_splits)
    then show ?thesis by (rule that(1))
  qed
  then show ?thesis
  proof cases
    case 2
    note len = length_canary_weights [of "rc_Endpoints rc" k n]
    show ?thesis
      unfolding 2(2) using set_weights_props(1,3) [OF len] 2(1)
      by (intro steered_same steered_rebalance) (metis length_0_conv, simp)
  qed simp
qed

lemma defaults_same:
  "applyRouterCanaryDefaults (Some rc) cfg = Some rc' \<Longrightarrow> same_endpoints rc rc'"
  using canary_same by (auto simp: applyRouterCanaryDefaults_def Let_def split: if_splits option.splits)

lemma scoring_same:
  "applyRouterQualityScoring (Some rc) cfg = Some rc' \<Longrightarrow> same_endpoints rc rc'"
proof -
  assume h: "applyRouterQualityScoring (Some rc) cfg = Some rc'"
  consider "rc' = rc" | p m where "rc_Endpoints rc \<noteq> []" "rc' = rc\<lparr>rc_Endpoints :=
      rebalanceEndpointWeights (map (\<lambda>ep. ep\<lparr>ep_Weight := scored_weight p m ep\<rparr>) (rc_Endpoints rc)) 100\<rparr>"
    using h by (auto simp: applyRouterQualityScoring_def Let_def split: if_splits option.splits)
  then show ?thesis
  proof cases
    case 2
    then show ?thesis
      by (simp only:) (intro steered_same steered_rebalance, simp_all add: no_weight_def)
  qed simp
qed

lemma endpoint_less_weak: "weak_order endpoint_less"
  unfolding weak_order_def
proof (intro conjI allI impI)
  fix x y z
  show "\<not> endpoint_less x x" by (simp add: endpoint_less_def)
  show "endpoint_less x z" if "endpoint_less x y" "endpoint_less y z"
    using that str_less_trans [of "ep_Name x" "ep_Name y" "ep_Name z"]
      str_less_trans [of "ep_URL x" "ep_URL y" "ep_URL z"]
    by (auto simp: endpoint_less_def split: if_splits)
  show "endpoint_less x y \<or> endpoint_less y z" if "endpoint_less x z"
    using that str_less_cotrans [of "ep_Name x" "ep_Name z" "ep_Name y"]
      str_less_cotrans [of "ep_URL x" "ep_URL z" "ep_URL y"] str_less_total [of "ep_Name x" "ep_Name y"]
    by (auto simp: endpoint_less_def split: if_splits)
qed

lemma sorted_wrt_no_weight:
  "map no_weight xs = map no_weight ys \<Longrightarrow>
   sorted_wrt (\<lambda>a b. \<not> endpoint_less b a) xs = sorted_wrt (\<lambda>a b. \<not> endpoint_less b a) ys"
proof -
  have "sorted_wrt (\<lambda>a b. \<not> endpoint_less b a) zs = sorted_wrt (\<lambda>a b. \<not> endpoint_less b a) (map no_weight zs)" for zs
    by (simp add: sorted_wrt_map endpoint_less_def no_weight_def)
  then show "map no_weight xs = map no_weight ys \<Longrightarrow> ?thesis" by metis
qed

lemma with_hints_endpoints [simp]: "rc_Endpoints (with_hints rc) = rc_Endpoints rc"
  by (simp add: with_hints_def Let_def)

lemma with_hints_dns: "\<exists>d. rc_DNS (with_hints rc) = Some d \<and>
   map dr_Values (dc_Records d) = map (\<lambda>ep. [extractDomainFromURL (ep_URL ep)]) (rc_Endpoints rc)"
proof -
  have "map dr_Values (dc_Records d) = map (\<lambda>ep. [extractDomainFromURL (ep_URL ep)]) (rc_Endpoints rc)"
    if "d \<in> {generateFailoverDNS h t (rc_Endpoints rc), generateLatencyDNS h t (rc_Endpoints rc),
      generateRoundRobinDNS h t (rc_Endpoints rc)}" for d h t
    using that unfolding generateFailoverDNS_def generateLatencyDNS_def generateRoundRobinDNS_def
    by (elim insertE emptyE; hypsubst; intro nth_equalityI; simp add: base_record_def)
  note recs = this
  then show ?thesis unfolding with_hints_def Let_def by (auto intro!: recs)
qed

lemma Generate_cases:
  assumes "GenerateRouterRoutingConfig (Some fs) (Some c) stage = Some rc"
  obtains rc2 where "rc = with_hints rc2" and "map no_weight (rc_Endpoints rc2) = map no_weight (routing_endpoints fs)"
    and "\<forall>w \<in> set (map ep_Weight (rc_Endpoints rc2)). 1 \<le> w"
proof -
  from assms obtain fc rc2 where rc: "rc = with_hints rc2" and
    2: "applyRouterCanaryDefaults (applyRouterQualityScoring (Some (base_routing fs c fc stage)) (Some c)) (Some c) = Some rc2"
    by (auto simp: GenerateRouterRoutingConfig_def split: option.splits)
  then obtain rc1 where 1: "applyRouterQualityScoring (Some (base_routing fs c fc stage)) (Some c) = Some rc1"
    and 3: "applyRouterCanaryDefaults (Some rc1) (Some c) = Some rc2"
    by (cases "applyRouterQualityScoring (Some (base_routing fs c fc stage)) (Some c)")
      (auto simp: applyRouterCanaryDefaults_def)
  have e0: "rc_Endpoints (base_routing fs c fc stage) = routing_endpoints fs"
    by (simp add: base_routing_def Let_def)
  have "same_endpoints (base_routing fs c fc stage) rc2"
    using scoring_same [OF 1] defaults_same [OF 3] by (rule same_endpoints_trans)
  moreover have "\<forall>w \<in> set (map ep_Weight (routing_endpoints fs)). 1 \<le> w"
    by (auto simp: routing_endpoints_def Let_def)
  ultimately show thesis using that rc by (simp add: same_endpoints_def e0)
qed

lemma routing_endpoints_mset:
  "mset (map (\<lambda>ep. (ep_Name ep, ep_URL ep, ep_Healthy ep, ep_Priority ep)) (routing_endpoints fs)) =
   mset (map (\<lambda>i. let e = fs_Endpoints fs ! i in (fe_Provider e, fe_URL e, fe_Healthy e, int i + 1))
     [0..<length (fs_Endpoints fs)])"
  by (simp add: routing_endpoints_def Let_def image_mset.compositionality o_def)

text \<open>
  The generated routing configuration has exactly the recorded endpoints, each with its
  position in the deployment as failover priority, sorted by provider and URL, every weight at
  least one, and one DNS record per endpoint, in the same order, pointing to its host.
\<close>

theorem GenerateRouterRoutingConfig_endpoints:
  assumes "GenerateRouterRoutingConfig (Some fs) (Some c) stage = Some rc"
  shows "mset (map (\<lambda>ep. (ep_Name ep, ep_URL ep, ep_Healthy ep, ep_Priority ep)) (rc_Endpoints rc)) =
      mset (map (\<lambda>i. let e = fs_Endpoints fs ! i in (fe_Provider e, fe_URL e, fe_Healthy e, int i + 1))
        [0..<length (fs_Endpoints fs)]) \<and>
    sorted_wrt (\<lambda>a b. \<not> endpoint_less b a) (rc_Endpoints rc) \<and>
    (\<forall>ep \<in> set (rc_Endpoints rc). 1 \<le> ep_Weight ep) \<and>
    (\<exists>d. rc_DNS rc = Some d \<and>
       map dr_Values (dc_Records d) = map (\<lambda>ep. [extractDomainFromURL (ep_URL ep)]) (rc_Endpoints rc))"
proof -
  from Generate_cases [OF assms] obtain rc2 where rc: "rc = with_hints rc2"
    and nw: "map no_weight (rc_Endpoints rc2) = map no_weight (routing_endpoints fs)"
    and w: "\<forall>w \<in> set (map ep_Weight (rc_Endpoints rc2)). 1 \<le> w" .
  let ?key = "\<lambda>ep. (ep_Name ep, ep_URL ep, ep_Healthy ep, ep_Priority ep)"
  have key: "map ?key eps = map ?key (map no_weight eps)" for eps by (simp add: no_weight_def)
  have "map ?key (rc_Endpoints rc2) = map ?key (routing_endpoints fs)"
    using key [of "rc_Endpoints rc2"] key [of "routing_endpoints fs"] nw by (simp only:)
  moreover have "sorted_wrt (\<lambda>a b. \<not> endpoint_less b a) (rc_Endpoints rc2)"
    using sorted_sort_slice [OF endpoint_less_weak] unfolding sorted_wrt_no_weight [OF nw] routing_endpoints_def by blast
  ultimately show ?thesis
    using routing_endpoints_mset [of fs] w with_hints_dns [of rc2] by (simp only: rc with_hints_endpoints) simp
qed

definition demo_fabric :: fabric_state where
  "demo_fabric = \<lparr>fs_Service = ''svc'', fs_Stage = ''dev'', fs_Endpoints =
     [\<lparr>fe_Provider = ''gcp'', fe_URL = ''https://g.example/run'', fe_Healthy = None, fe_UpdatedAt = ''''\<rparr>,
      \<lparr>fe_Provider = ''aws'', fe_URL = ''https://a.example/run'', fe_Healthy = None, fe_UpdatedAt = ''''\<rparr>]\<rparr>"

definition demo_config :: "string \<Rightarrow> config" where
  "demo_config strategy = \<lparr>cfg_Service = ''svc'', cfg_Fabric = Some \<lparr>fc_Targets = [''gcp'', ''aws''],
     fc_Routing = strategy, fc_HealthPath = None\<rparr>, cfg_Extensions = []\<rparr>"

definition demo_failover :: "routing_config option" where
  "demo_failover = GenerateRouterRoutingConfig (Some demo_fabric) (Some (demo_config ''failover'')) ''dev''"

theorem GenerateRouterRoutingConfig_endpoints_witness:
  "\<exists>rc. demo_failover = Some rc \<and> mset (map ep_Priority (rc_Endpoints rc)) = {#1, 2#}"
proof -
  have "demo_failover \<noteq> None" by code_simp
  then obtain rc where rc: "demo_failover = Some rc" by auto
  have "image_mset (\<lambda>(_, _, _, p). p) (mset (map (\<lambda>ep. (ep_Name ep, ep_URL ep, ep_Healthy ep, ep_Priority ep)) (rc_Endpoints rc)))
      = {#1, 2#}"
    using GenerateRouterRoutingConfig_endpoints [OF rc [unfolded demo_failover_def]]
    by (simp add: demo_fabric_def upt_rec add_mset_commute)
  then have "mset (map ep_Priority (rc_Endpoints rc)) = {#1, 2#}"
    by (simp add: image_mset.compositionality o_def)
  with rc show ?thesis by blast
qed

text \<open>
  The failover hints do not follow the failover order: DNS records and load balancer upstreams
  are numbered by the provider's name, so the endpoint deployed first, which has priority 1 and
  which the simulation selects, is published as the secondary one.
\<close>

theorem failover_hints_by_name:
  "map_option (\<lambda>rc. map (\<lambda>ep. (ep_Name ep, ep_Priority ep)) (rc_Endpoints rc)) demo_failover =
     Some [(''aws'', 2), (''gcp'', 1)] \<and>
   map_option (\<lambda>d. map (\<lambda>r. (dr_Values r, dr_Priority r)) (dc_Records d)) (Option.bind demo_failover rc_DNS) =
     Some [([''a.example''], 1), ([''g.example''], 2)] \<and>
   sim_Selected (SimulateRouterRouting demo_failover 10 []) = ''gcp''"
  by (intro conjI) code_simp+

section \<open>Simulation\<close>

text \<open>Slots are handed out in the proportion of the weights.\<close>

definition name_weight :: "routing_endpoint list \<Rightarrow> string \<Rightarrow> int" where
  "name_weight eps k = sum_list (map eff_weight (filter (\<lambda>ep. ep_Name ep = k) eps))"

definition slot_name :: "routing_endpoint list \<Rightarrow> int \<Rightarrow> int \<Rightarrow> string option" where
  "slot_name eps s cum = map_option ep_Name (pick_slot eps s cum)"

lemma total_nonneg: "0 \<le> sum_list (map eff_weight eps)"
  by (intro sum_list_nonneg) (auto simp: less_imp_le)

lemma slot_count:
  "int (card {s. cum \<le> s \<and> s < cum + sum_list (map eff_weight eps) \<and> slot_name eps s cum = Some k}) =
   name_weight eps k"
proof (induction eps arbitrary: cum)
  case Nil
  have "{s. cum \<le> s \<and> s < cum + sum_list (map eff_weight []) \<and> slot_name [] s cum = Some k} = {}" by auto
  then show ?case by (simp only: name_weight_def) simp
next
  case (Cons ep eps)
  let ?c = "cum + eff_weight ep"
  let ?S = "{s. ?c \<le> s \<and> s < ?c + sum_list (map eff_weight eps) \<and> slot_name eps s ?c = Some k}"
  let ?T = "if ep_Name ep = k then {cum..<?c} else {}"
  have eq: "{s. cum \<le> s \<and> s < cum + sum_list (map eff_weight (ep # eps)) \<and> slot_name (ep # eps) s cum = Some k} = ?T \<union> ?S"
    using total_nonneg [of eps] less_imp_le [OF eff_weight_pos [of ep]]
    by (auto simp: slot_name_def Let_def split: if_splits)
  have "finite ?S" by (rule finite_subset [of _ "{?c..<?c + sum_list (map eff_weight eps)}"]) auto
  moreover have "?T \<inter> ?S = {}" by auto
  ultimately have "int (card (?T \<union> ?S)) = int (card ?T) + name_weight eps k"
    using Cons.IH [of ?c] by (subst card_Un_disjoint) auto
  also have "\<dots> = name_weight (ep # eps) k"
    using less_imp_le [OF eff_weight_pos [of ep]] by (simp add: name_weight_def)
  finally show ?case unfolding eq .
qed

lemma pick_slot_Some: "cum \<le> slot \<Longrightarrow> slot < cum + sum_list (map eff_weight eps) \<Longrightarrow> pick_slot eps slot cum \<noteq> None"
  by (induction eps arbitrary: cum) (auto simp: Let_def)

lemma pick_name_slot:
  assumes "eps \<noteq> []"
  shows "pickWeightedEndpoint eps i = k \<longleftrightarrow> slot_name eps (i mod sum_list (map eff_weight eps)) 0 = Some k"
proof -
  have t: "0 < sum_list (map eff_weight eps)"
    using assms by (induction eps rule: list_nonempty_induct) (auto intro: add_pos_pos)
  then have "pick_slot eps (i mod sum_list (map eff_weight eps)) 0 \<noteq> None"
    by (intro pick_slot_Some) simp_all
  then show ?thesis using t by (auto simp: pickWeightedEndpoint_def slot_name_def Let_def)
qed

lemma card_periodic:
  assumes "\<And>i. P (i + T) = P (i::nat)"
  shows "card {i. i < m * T \<and> P i} = m * card {i. i < T \<and> P i}"
proof (induction m)
  case 0
  then show ?case by simp
next
  case (Suc m)
  have per: "P (i + m * T) = P i" for i
    by (induction m) (simp_all add: assms add.assoc [symmetric], metis add.assoc add.commute assms)
  have "{i. i < Suc m * T \<and> P i} = {i. i < m * T \<and> P i} \<union> (\<lambda>i. i + m * T) ` {i. i < T \<and> P i}"
  proof (intro set_eqI iffI)
    fix x assume x: "x \<in> {i. i < Suc m * T \<and> P i}"
    show "x \<in> {i. i < m * T \<and> P i} \<union> (\<lambda>i. i + m * T) ` {i. i < T \<and> P i}"
    proof (cases "x < m * T")
      case False
      then have "x = (x - m * T) + m * T" "x - m * T < T" using x by auto
      then show ?thesis using x per [of "x - m * T"] by auto
    qed (use x in simp)
  qed (auto simp: per)
  moreover have "card ((\<lambda>i. i + m * T) ` {i. i < T \<and> P i}) = card {i. i < T \<and> P i}"
    by (rule card_image) (simp add: inj_on_def)
  moreover have "{i. i < m * T \<and> P i} \<inter> (\<lambda>i. i + m * T) ` {i. i < T \<and> P i} = {}" by auto
  ultimately show ?case using Suc by (simp add: card_Un_disjoint)
qed

text \<open>
  Weighted steering is exact over whole rounds: when the number of simulated requests is a
  multiple of the total weight of the available endpoints, each endpoint name receives exactly
  its share of that multiple.
\<close>

theorem SimulateRouterRouting_weighted:
  assumes "availableEndpoints (rc_Endpoints rc) (toLowerSet down) = eps" and "eps \<noteq> []"
    and "norm_name (rc_Strategy rc) \<noteq> ''failover''" and "0 < m"
  shows "count_of (sim_Distribution (SimulateRouterRouting (Some rc) (int m * sum_list (map eff_weight eps)) down)) k =
    int m * name_weight eps k"
proof -
  define T where "T = sum_list (map eff_weight eps)"
  have T: "0 < T"
    unfolding T_def using assms(2) by (induction eps rule: list_nonempty_induct) (auto intro: add_pos_pos)
  have n: "nat (int m * T) = m * nat T" by (simp add: nat_mult_distrib)
  have pos: "\<not> int m * T \<le> 0" using T assms(4) by (simp add: not_le)
  have "sim_Distribution (SimulateRouterRouting (Some rc) (int m * T) down) = weighted_distribution eps (m * nat T)"
    using assms(1-3) n by (simp add: SimulateRouterRouting_def Let_def if_not_P [OF pos])
  then have "count_of (sim_Distribution (SimulateRouterRouting (Some rc) (int m * T) down)) k =
      int (card {i. i < m * nat T \<and> pickWeightedEndpoint eps (int i) = k})"
    by (simp add: weighted_count)
  also have "\<dots> = int m * int (card {i. i < nat T \<and> pickWeightedEndpoint eps (int i) = k})"
    by (subst card_periodic) (use T pick_name_slot [OF assms(2)] in \<open>simp_all add: T_def\<close>)
  also have "card {i. i < nat T \<and> pickWeightedEndpoint eps (int i) = k} =
      card {s. 0 \<le> s \<and> s < 0 + T \<and> slot_name eps s 0 = Some k}"
    by (rule bij_betw_same_card [of int], rule bij_betw_byWitness [where f' = nat])
      (use pick_name_slot [OF assms(2)] in \<open>auto simp: T_def\<close>)
  also have "int \<dots> = name_weight eps k" using slot_count [of 0 eps k] by (simp add: T_def)
  finally show ?thesis by (simp add: T_def)
qed

theorem SimulateRouterRouting_weighted_witness:
  "count_of (sim_Distribution (SimulateRouterRouting (Some (demo_routing ''round-robin''
     [demo_endpoint ''aws'' 1 3, demo_endpoint ''gcp'' 2 1])) 8 [])) ''aws'' = 6"
proof -
  let ?eps = "[demo_endpoint ''aws'' 1 3, demo_endpoint ''gcp'' 2 1]"
  have "count_of (sim_Distribution (SimulateRouterRouting (Some (demo_routing ''round-robin'' ?eps))
      (int 2 * sum_list (map eff_weight ?eps)) [])) ''aws'' = int 2 * name_weight ?eps ''aws''"
    by (rule SimulateRouterRouting_weighted)
      (simp_all add: availableEndpoints_def toLowerSet_def demo_routing_def demo_endpoint_def norm_name_def
        TrimSpace_def ToLower_def is_space_def lower_char_def)
  moreover have "int 2 * sum_list (map eff_weight ?eps) = 8" "int 2 * name_weight ?eps ''aws'' = 6" by code_simp+
  ultimately show ?thesis by (simp only:)
qed

text \<open>
  The failover check passes exactly when it should: every endpoint without a name is marked
  unhealthy, and for every named endpoint there is one of another name that is not unhealthy.
\<close>

theorem VerifyRouterFailover_pass:
  "cv_Pass (VerifyRouterFailover (Some rc) n) \<longleftrightarrow>
     (\<forall>ep \<in> set (rc_Endpoints rc). norm_name (ep_Name ep) = '''' \<longrightarrow> ep_Healthy ep = Some False) \<and>
     (\<forall>ep \<in> set (rc_Endpoints rc). norm_name (ep_Name ep) \<noteq> '''' \<longrightarrow>
        (\<exists>ep' \<in> set (rc_Endpoints rc). ep_Healthy ep' \<noteq> Some False \<and>
           norm_name (ep_Name ep') \<noteq> norm_name (ep_Name ep)))"
proof -
  let ?E = "rc_Endpoints rc" and ?r = "if n \<le> 0 then 100 else n"
  have nn: "TrimSpace s = '''' \<longleftrightarrow> norm_name s = ''''" for s by (simp add: norm_name_def ToLower_def)
  have names: "set (down_names ?E) = (\<lambda>ep. TrimSpace (ep_Name ep)) ` {ep \<in> set ?E. norm_name (ep_Name ep) \<noteq> ''''}"
    by (auto simp: down_names_def nn)
  have single: "cs_Pass (single_down rc ?r d) \<longleftrightarrow>
      (\<exists>ep' \<in> set ?E. ep_Healthy ep' \<noteq> Some False \<and> norm_name (ep_Name ep') \<noteq> norm_name d)"
    if "norm_name d \<noteq> ''''" for d
  proof -
    let ?sim = "SimulateRouterRouting (Some rc) ?r [d]"
    have "cs_Pass (single_down rc ?r d) \<longleftrightarrow> sim_Available ?sim \<and> norm_name (sim_Selected ?sim) \<noteq> norm_name d"
      by (simp add: single_down_def scenario_def Let_def EqualFold_def norm_name_def)
    also have "\<dots> \<longleftrightarrow> sim_Available ?sim"
      using selected_not_down [of rc ?r "[d]" d] that by auto
    also have "\<dots> \<longleftrightarrow> (\<exists>ep' \<in> set ?E. ep_Healthy ep' \<noteq> Some False \<and> norm_name (ep_Name ep') \<noteq> norm_name d)"
      using that by (auto simp: available_iff availableEndpoints_def toLowerSet_def filter_empty_conv)
    finally show ?thesis .
  qed
  have downs: "set (toLowerSet (down_names ?E)) = (\<lambda>ep. norm_name (ep_Name ep)) ` {ep \<in> set ?E. norm_name (ep_Name ep) \<noteq> ''''}"
    by (auto simp: toLowerSet_def names image_image image_def [of norm_name])
  have all: "cs_Pass (all_down rc ?r (down_names ?E)) \<longleftrightarrow>
      (\<forall>ep \<in> set ?E. norm_name (ep_Name ep) = '''' \<longrightarrow> ep_Healthy ep = Some False)"
    using downs by (auto simp: all_down_def scenario_def Let_def available_iff availableEndpoints_def filter_empty_conv)
  have "cv_Pass (VerifyRouterFailover (Some rc) n) \<longleftrightarrow>
      (\<forall>d \<in> set (down_names ?E). cs_Pass (single_down rc ?r d)) \<and> cs_Pass (all_down rc ?r (down_names ?E))"
    by (auto simp: VerifyRouterFailover_def Let_def)
  also have "(\<forall>d \<in> set (down_names ?E). cs_Pass (single_down rc ?r d)) \<longleftrightarrow>
      (\<forall>ep \<in> set ?E. norm_name (ep_Name ep) \<noteq> '''' \<longrightarrow>
        (\<exists>ep' \<in> set ?E. ep_Healthy ep' \<noteq> Some False \<and> norm_name (ep_Name ep') \<noteq> norm_name (ep_Name ep)))"
    using single by (auto simp: names)
  finally show ?thesis using all by blast
qed

theorem VerifyRouterFailover_pass_witness:
  "cv_Pass (VerifyRouterFailover (Some demo_two) 10)"
proof -
  have "(\<forall>ep \<in> set (rc_Endpoints demo_two). norm_name (ep_Name ep) = '''' \<longrightarrow> ep_Healthy ep = Some False)"
    "(\<forall>ep \<in> set (rc_Endpoints demo_two). norm_name (ep_Name ep) \<noteq> '''' \<longrightarrow>
        (\<exists>ep' \<in> set (rc_Endpoints demo_two). ep_Healthy ep' \<noteq> Some False \<and>
           norm_name (ep_Name ep') \<noteq> norm_name (ep_Name ep)))" by code_simp+
  then show ?thesis unfolding VerifyRouterFailover_pass by (intro conjI)
qed

lemma failover_less_weak: "weak_order failover_less"
  unfolding weak_order_def
proof (intro conjI allI impI)
  fix x y z
  show "\<not> failover_less x x" by (simp add: failover_less_def)
  show "failover_less x z" if "failover_less x y" "failover_less y z"
    using that str_less_trans [of "ep_Name x" "ep_Name y" "ep_Name z"]
    by (auto simp: failover_less_def split: if_splits)
  show "failover_less x y \<or> failover_less y z" if "failover_less x z"
    using that str_less_cotrans [of "ep_Name x" "ep_Name z" "ep_Name y"]
    by (auto simp: failover_less_def split: if_splits)
qed

text \<open>
  Failover steering sends every request to one available endpoint of least priority, the
  least name deciding between equal priorities.
\<close>

theorem SimulateRouterRouting_failover:
  assumes "availableEndpoints (rc_Endpoints rc) (toLowerSet down) = eps" and "eps \<noteq> []"
    and "norm_name (rc_Strategy rc) = ''failover''" and "0 < n"
  shows "\<exists>ep \<in> set eps. (\<forall>ep' \<in> set eps. \<not> failover_less ep' ep) \<and>
    sim_Selected (SimulateRouterRouting (Some rc) n down) = ep_Name ep \<and>
    sim_Distribution (SimulateRouterRouting (Some rc) n down) = [(ep_Name ep, n)]"
proof (intro bexI conjI ballI)
  let ?ep = "hd (sort_slice failover_less eps)"
  show "?ep \<in> set eps" using assms(2) hd_in_set [of "sort_slice failover_less eps"] by simp
  show "\<not> failover_less ep' ?ep" if "ep' \<in> set eps" for ep'
    using sort_slice_hd_least [OF failover_less_weak that] .
qed (use assms in \<open>simp_all add: SimulateRouterRouting_def Let_def\<close>)

theorem SimulateRouterRouting_failover_witness:
  "\<exists>ep \<in> set [demo_endpoint ''b'' 1 3, demo_endpoint ''a'' 2 1].
    sim_Selected (SimulateRouterRouting (Some (demo_routing ''failover''
      [demo_endpoint ''b'' 1 3, demo_endpoint ''a'' 2 1])) 8 []) = ep_Name ep"
proof -
  let ?rc = "demo_routing ''failover'' [demo_endpoint ''b'' 1 3, demo_endpoint ''a'' 2 1]"
  have h: "availableEndpoints (rc_Endpoints ?rc) (toLowerSet []) = [demo_endpoint ''b'' 1 3, demo_endpoint ''a'' 2 1]"
    "norm_name (rc_Strategy ?rc) = ''failover''" by code_simp+
  show ?thesis using SimulateRouterRouting_failover [OF h(1) _ h(2), of 8] by auto
qed

end
