(* ===== verification/Router_History.thy ===== *)
theory Router_History
  imports Router_Routing Run_State
begin

text \<open>
  Router sync snapshots (\<^verbatim>\<open>core/state/core/router_sync.go\<close>), their analysis and the choice of a snapshot
  to restore (\<^verbatim>\<open>workflow/app/router_history.go\<close>). The two copies of a sync action, in the router
  contract and in the stored state, have the same fields and are one record here.
\<close>

record sync_action =
  sa_Resource :: string
  sa_Action :: string
  sa_Name :: string
  sa_Detail :: string

record sync_result =
  sr_DryRun :: bool
  sr_Actions :: "sync_action list"

record sync_endpoint =
  se_Name :: string
  se_URL :: string
  se_Weight :: int
  se_Healthy :: "bool option"

record sync_routing =
  so_Contract :: string
  so_Service :: string
  so_Stage :: string
  so_Hostname :: string
  so_Strategy :: string
  so_HealthPath :: string
  so_TTL :: int
  so_Endpoints :: "sync_endpoint list"

record action_summary =
  as_Create :: int
  as_Update :: int
  as_Noop :: int
  as_Delete :: int

record sync_event =
  ev_Timestamp :: stamp
  ev_Phase :: string
  ev_Message :: string
  ev_Summary :: action_summary

record sync_snapshot =
  sn_ID :: string
  sn_Service :: string
  sn_Stage :: string
  sn_PluginID :: string
  sn_Operation :: string
  sn_Trigger :: string
  sn_ZoneID :: string
  sn_AccountID :: string
  sn_DryRun :: bool
  sn_CreatedAt :: stamp
  sn_Routing :: sync_routing
  sn_Before :: "sync_action list"
  sn_Actions :: "sync_action list"
  sn_After :: "sync_action list"
  sn_Events :: "sync_event list"
  sn_Summary :: action_summary
  sn_BeforeSum :: action_summary
  sn_AfterSum :: action_summary

definition no_actions :: action_summary where
  "no_actions = \<lparr>as_Create = 0, as_Update = 0, as_Noop = 0, as_Delete = 0\<rparr>"

section \<open>Summaries\<close>

definition norm_action :: "string \<Rightarrow> string" where
  "norm_action s = ToLower (TrimSpace s)"

definition count_action :: "string \<Rightarrow> action_summary \<Rightarrow> action_summary" where
  "count_action action s = (let a = norm_action action in
     if a = ''create'' then s\<lparr>as_Create := as_Create s + 1\<rparr>
     else if a = ''update'' then s\<lparr>as_Update := as_Update s + 1\<rparr>
     else if a = ''no-op'' then s\<lparr>as_Noop := as_Noop s + 1\<rparr>
     else if a = ''delete-candidate'' then s\<lparr>as_Delete := as_Delete s + 1\<rparr>
     else s)"

definition summarizeStateRouterSyncActions :: "sync_action list \<Rightarrow> action_summary" where
  "summarizeStateRouterSyncActions acts = foldl (\<lambda>s a. count_action (sa_Action a) s) no_actions acts"

record sync_summary =
  ss_Counts :: action_summary
  ss_ByResource :: "(string \<times> action_summary) list"
  ss_DriftDetected :: bool

definition resource_key :: "string \<Rightarrow> string" where
  "resource_key r = (let k = ToLower (TrimSpace r) in if k = '''' then ''unknown'' else k)"

definition summary_at :: "(string \<times> action_summary) list \<Rightarrow> string \<Rightarrow> action_summary" where
  "summary_at m k = (case map_of m k of None \<Rightarrow> no_actions | Some s \<Rightarrow> s)"

definition accumulateRouterAction :: "sync_summary \<Rightarrow> sync_action \<Rightarrow> sync_summary" where
  "accumulateRouterAction s a = (let k = resource_key (sa_Resource a) in
     s\<lparr>ss_Counts := count_action (sa_Action a) (ss_Counts s),
       ss_ByResource := AList.update k (count_action (sa_Action a) (summary_at (ss_ByResource s) k)) (ss_ByResource s)\<rparr>)"

definition drift :: "action_summary \<Rightarrow> bool" where
  "drift s \<longleftrightarrow> as_Create s > 0 \<or> as_Update s > 0 \<or> as_Delete s > 0"

definition RouterSyncSummaryFromActions :: "sync_action list \<Rightarrow> sync_summary" where
  "RouterSyncSummaryFromActions acts =
     (let s = foldl accumulateRouterAction \<lparr>ss_Counts = no_actions, ss_ByResource = [], ss_DriftDetected = False\<rparr> acts
      in s\<lparr>ss_DriftDetected := drift (ss_Counts s)\<rparr>)"

definition RouterSyncSummaryFromResult :: "sync_result option \<Rightarrow> sync_summary" where
  "RouterSyncSummaryFromResult r = (case r of
     None \<Rightarrow> \<lparr>ss_Counts = no_actions, ss_ByResource = [], ss_DriftDetected = False\<rparr>
   | Some res \<Rightarrow> RouterSyncSummaryFromActions (sr_Actions res))"

definition RouterSyncSummaryFromSnapshot :: "sync_snapshot \<Rightarrow> sync_summary" where
  "RouterSyncSummaryFromSnapshot sn = RouterSyncSummaryFromActions (sn_Actions sn)"

section \<open>Trends\<close>

record trend_summary =
  ts_Snapshots :: int
  ts_Applied :: int
  ts_DryRun :: int
  ts_Drift :: int
  ts_Counts :: action_summary
  ts_DriftRate :: f64
  ts_MutationRate :: f64

definition no_trend :: trend_summary where
  "no_trend = \<lparr>ts_Snapshots = 0, ts_Applied = 0, ts_DryRun = 0, ts_Drift = 0, ts_Counts = no_actions,
     ts_DriftRate = 0, ts_MutationRate = 0\<rparr>"

definition add_summaries :: "action_summary \<Rightarrow> action_summary \<Rightarrow> action_summary" where
  "add_summaries a b = \<lparr>as_Create = as_Create a + as_Create b, as_Update = as_Update a + as_Update b,
     as_Noop = as_Noop a + as_Noop b, as_Delete = as_Delete a + as_Delete b\<rparr>"

definition add_by_resource ::
  "(string \<times> action_summary) list \<Rightarrow> string \<times> action_summary \<Rightarrow> (string \<times> action_summary) list" where
  "add_by_resource m kv = AList.update (fst kv) (add_summaries (summary_at m (fst kv)) (snd kv)) m"

definition add_snapshot ::
  "trend_summary \<times> (string \<times> action_summary) list \<Rightarrow> sync_snapshot \<Rightarrow> trend_summary \<times> (string \<times> action_summary) list"
  where
  "add_snapshot acc sn = (let (t, by) = acc; s = RouterSyncSummaryFromSnapshot sn in
     (t\<lparr>ts_Snapshots := ts_Snapshots t + 1,
        ts_DryRun := ts_DryRun t + (if sn_DryRun sn then 1 else 0),
        ts_Applied := ts_Applied t + (if sn_DryRun sn then 0 else 1),
        ts_Counts := add_summaries (ts_Counts t) (ss_Counts s),
        ts_Drift := ts_Drift t + (if ss_DriftDetected s then 1 else 0)\<rparr>,
      foldl add_by_resource by (ss_ByResource s)))"

definition summarizeRouterSnapshotWindow ::
  "sync_snapshot list \<Rightarrow> trend_summary \<times> (string \<times> action_summary) list" where
  "summarizeRouterSnapshotWindow history = (let (t, by) = foldl add_snapshot (no_trend, []) history in
     (if ts_Snapshots t > 0 then
        t\<lparr>ts_DriftRate := f64_div (f64_of_int (ts_Drift t)) (f64_of_int (ts_Snapshots t)),
          ts_MutationRate := f64_div (f64_of_int (as_Create (ts_Counts t) + as_Update (ts_Counts t) + as_Delete (ts_Counts t)))
            (f64_of_int (ts_Snapshots t))\<rparr>
      else t, by))"

text \<open>The constant \<open>0.15\<close> is the double nearest to it.\<close>

definition classifyRouterHistoryTrend :: "trend_summary \<Rightarrow> trend_summary \<Rightarrow> string" where
  "classifyRouterHistoryTrend previous recent =
     (if ts_Snapshots previous = 0 \<or> ts_Snapshots recent = 0 then ''insufficient-data''
      else let delta = f64_add (ts_MutationRate recent) (- ts_MutationRate previous) in
        if \<bar>delta\<bar> \<le> rnd (15 / 100) then ''stable''
        else if delta < 0 then ''improving'' else ''degrading'')"

fun trim_stamp :: "stamp \<Rightarrow> stamp" where
  "trim_stamp (Unparsed s) = (if TrimSpace s = '''' then NoStamp else Unparsed (TrimSpace s))"
| "trim_stamp t = t"

record history_analytics =
  ha_Window :: int
  ha_Trend :: string
  ha_LastSnapshotID :: string
  ha_LastSnapshotAt :: stamp
  ha_LastOperation :: string
  ha_LastTrigger :: string
  ha_Total :: trend_summary
  ha_Recent :: trend_summary
  ha_Previous :: trend_summary
  ha_ByResource :: "(string \<times> action_summary) list"

definition AnalyzeRouterSyncHistory :: "sync_snapshot list \<Rightarrow> int \<Rightarrow> history_analytics" where
  "AnalyzeRouterSyncHistory history window0 =
     (let window = (if window0 \<le> 0 then 5 else window0);
          (total, by) = summarizeRouterSnapshotWindow history;
          a = \<lparr>ha_Window = window, ha_Trend = ''insufficient-data'', ha_LastSnapshotID = '''',
            ha_LastSnapshotAt = NoStamp, ha_LastOperation = '''', ha_LastTrigger = '''', ha_Total = total,
            ha_Recent = no_trend, ha_Previous = no_trend, ha_ByResource = by\<rparr>
      in if history = [] then a
         else let lst = last history;
                  recentStart = nat (int (length history) - window);
                  recent = fst (summarizeRouterSnapshotWindow (drop recentStart history));
                  prevStart = nat (int recentStart - window);
                  previous = (if recentStart > 0
                    then fst (summarizeRouterSnapshotWindow (drop prevStart (take recentStart history)))
                    else no_trend)
              in a\<lparr>ha_LastSnapshotID := TrimSpace (sn_ID lst), ha_LastSnapshotAt := trim_stamp (sn_CreatedAt lst),
                   ha_LastOperation := TrimSpace (sn_Operation lst), ha_LastTrigger := TrimSpace (sn_Trigger lst),
                   ha_Recent := recent, ha_Previous := previous,
                   ha_Trend := classifyRouterHistoryTrend previous recent\<rparr>)"

section \<open>Snapshots\<close>

definition toStateRouterSyncRouting :: "routing_config \<Rightarrow> sync_routing" where
  "toStateRouterSyncRouting rc = \<lparr>so_Contract = rc_Contract rc, so_Service = rc_Service rc,
     so_Stage = rc_Stage rc, so_Hostname = rc_Hostname rc, so_Strategy = rc_Strategy rc,
     so_HealthPath = rc_HealthPath rc, so_TTL = rc_TTL rc,
     so_Endpoints = map (\<lambda>ep. \<lparr>se_Name = ep_Name ep, se_URL = ep_URL ep, se_Weight = ep_Weight ep,
       se_Healthy = ep_Healthy ep\<rparr>) (rc_Endpoints rc)\<rparr>"

definition RouterRoutingConfigFromSnapshot :: "sync_snapshot option \<Rightarrow> routing_config option" where
  "RouterRoutingConfigFromSnapshot snapshot = (case snapshot of None \<Rightarrow> None | Some sn \<Rightarrow>
     (let r = sn_Routing sn in Some \<lparr>rc_Contract = so_Contract r, rc_Service = so_Service r,
        rc_Stage = so_Stage r, rc_Hostname = so_Hostname r, rc_Strategy = so_Strategy r,
        rc_HealthPath = so_HealthPath r, rc_TTL = so_TTL r,
        rc_Endpoints = map (\<lambda>ep. \<lparr>ep_Name = se_Name ep, ep_URL = se_URL ep, ep_Healthy = se_Healthy ep,
          ep_Priority = 0, ep_Weight = se_Weight ep, ep_Region = ''''\<rparr>) (so_Endpoints r),
        rc_DNS = None, rc_LoadBalancer = None\<rparr>))"

datatype restore_error = NoSnapshots | SnapshotNotFound string | NoAppliedSnapshots

definition SelectRouterRestoreSnapshot ::
  "sync_snapshot list \<Rightarrow> string \<Rightarrow> bool \<Rightarrow> restore_error + sync_snapshot" where
  "SelectRouterRestoreSnapshot history snapshotID latest =
     (if history = [] then Inl NoSnapshots
      else let sid = TrimSpace snapshotID in
        if sid \<noteq> '''' then
          (case find (\<lambda>s. TrimSpace (sn_ID s) = sid) (rev history) of
             None \<Rightarrow> Inl (SnapshotNotFound sid) | Some s \<Rightarrow> Inr s)
        else if latest then Inr (last history)
        else let nonDry = filter (\<lambda>s. \<not> sn_DryRun s) history in
          if nonDry = [] then Inl NoAppliedSnapshots
          else if length nonDry = 1 then Inr (nonDry ! 0)
          else Inr (nonDry ! (length nonDry - 2)))"

text \<open>Appending keeps the newest \<open>keep\<close> snapshots.\<close>

definition trim_history :: "sync_snapshot list \<Rightarrow> int \<Rightarrow> sync_snapshot list" where
  "trim_history history keep = (if keep > 0 \<and> int (length history) > keep
     then drop (length history - nat keep) history else history)"

end
