(* ===== verification/Router_Policy.thy ===== *)
theory Router_Policy
  imports Router_Routing
begin

text \<open>
  \<^verbatim>\<open>workflow/app/router_policy.go\<close>: the DNS sync policy of a stage, read from the router extension
  of the configuration with per-stage overrides.
\<close>

record mutation_policy =
  mp_Enabled :: bool
  mp_ApprovalEnv :: string
  mp_RiskyResources :: "string list"
  mp_MaxMutations :: int

record credential_policy =
  cp_Enabled :: bool
  cp_RequireAttestation :: bool
  cp_AttestationEnv :: string
  cp_IssuedAtEnv :: string
  cp_ExpiresAtEnv :: string
  cp_MaxTTLSeconds :: int
  cp_MinRemainingSeconds :: int

record dns_policy =
  dp_AutoApply :: bool
  dp_DryRun :: bool
  dp_AllowProdSync :: bool
  dp_EnforceStageRollout :: bool
  dp_RequireReason :: bool
  dp_ReasonEnv :: string
  dp_ApprovalEnvByStage :: "(string \<times> string) list"
  dp_ZoneIDEnv :: string
  dp_AccountIDEnv :: string
  dp_APITokenEnv :: string
  dp_APITokenFileEnv :: string
  dp_APITokenSecretRef :: string
  dp_MutationPolicy :: mutation_policy
  dp_CredentialPolicy :: credential_policy

section \<open>Reading values\<close>

fun parseBool :: "any \<Rightarrow> bool option" where
  "parseBool (ABool b) = Some b"
| "parseBool (AStr x) = (let s = ToLower (TrimSpace x) in
     if s \<in> {''1'', ''true'', ''yes''} then Some True
     else if s \<in> {''0'', ''false'', ''no''} then Some False else None)"
| "parseBool _ = None"

definition parseString :: "any \<Rightarrow> string option" where
  "parseString v = (let s = TrimSpace (Sprint v) in if s = '''' \<or> s = ''<nil>'' then None else Some s)"

fun parseStringList :: "any \<Rightarrow> string list option" where
  "parseStringList (AList vs) = Some (List.map_filter parseString vs)"
| "parseStringList _ = None"

fun parseInt :: "any \<Rightarrow> int option" where
  "parseInt (AInt n) = Some n"
| "parseInt (AFloat q _) = Some (f64_to_int q)"
| "parseInt (AStr x) = scan_int (TrimSpace x)"
| "parseInt _ = None"

definition normalizeStage :: "string \<Rightarrow> string" where
  "normalizeStage stage = (let s = ToLower (TrimSpace stage) in if s = '''' then ''dev'' else s)"

definition stageAllowed :: "string list \<Rightarrow> string \<Rightarrow> bool" where
  "stageAllowed stages stage \<longleftrightarrow> stages = [] \<or> normalizeStage stage \<in> normalizeStage ` set stages"

section \<open>Applying an object to a policy\<close>

text \<open>\<open>set_field parse upd v\<close>: the field is overwritten when the value parses.\<close>

definition set_field :: "(any \<Rightarrow> 'a option) \<Rightarrow> ('a \<Rightarrow> 'p \<Rightarrow> 'p) \<Rightarrow> anymap \<Rightarrow> string \<Rightarrow> 'p \<Rightarrow> 'p" where
  "set_field parse upd obj key p = (case parse (aget obj key) of None \<Rightarrow> p | Some v \<Rightarrow> upd v p)"

definition applyMutationPolicy :: "anymap \<Rightarrow> mutation_policy \<Rightarrow> mutation_policy" where
  "applyMutationPolicy obj p0 =
     (let p1 = set_field parseBool (\<lambda>v p. p\<lparr>mp_Enabled := v\<rparr>) obj ''enabled'' p0;
          p2 = set_field parseString (\<lambda>v p. p\<lparr>mp_ApprovalEnv := v\<rparr>) obj ''approvalEnv'' p1;
          p3 = set_field parseStringList (\<lambda>v p. p\<lparr>mp_RiskyResources := v\<rparr>) obj ''riskyResources'' p2
      in set_field parseInt (\<lambda>v p. p\<lparr>mp_MaxMutations := v\<rparr>) obj ''maxMutationsWithoutApproval'' p3)"

definition applyCredentialPolicy :: "anymap \<Rightarrow> credential_policy \<Rightarrow> credential_policy" where
  "applyCredentialPolicy obj p0 =
     (let p1 = set_field parseBool (\<lambda>v p. p\<lparr>cp_Enabled := v\<rparr>) obj ''enabled'' p0;
          p2 = set_field parseBool (\<lambda>v p. p\<lparr>cp_RequireAttestation := v\<rparr>) obj ''requireAttestation'' p1;
          p3 = set_field parseString (\<lambda>v p. p\<lparr>cp_AttestationEnv := v\<rparr>) obj ''attestationEnv'' p2;
          p4 = set_field parseString (\<lambda>v p. p\<lparr>cp_IssuedAtEnv := v\<rparr>) obj ''issuedAtEnv'' p3;
          p5 = set_field parseString (\<lambda>v p. p\<lparr>cp_ExpiresAtEnv := v\<rparr>) obj ''expiresAtEnv'' p4;
          p6 = set_field parseInt (\<lambda>v p. p\<lparr>cp_MaxTTLSeconds := v\<rparr>) obj ''maxTTLSeconds'' p5
      in set_field parseInt (\<lambda>v p. p\<lparr>cp_MinRemainingSeconds := v\<rparr>) obj ''minRemainingSeconds'' p6)"

definition applyAutoObject :: "anymap \<Rightarrow> string \<Rightarrow> dns_policy \<Rightarrow> dns_policy" where
  "applyAutoObject obj stage p0 =
     (let enabled = (case parseBool (aget obj ''enabled'') of None \<Rightarrow> True | Some b \<Rightarrow> b);
          p1 = set_field parseBool (\<lambda>v p. p\<lparr>dp_DryRun := v\<rparr>) obj ''dryRun'' p0;
          p2 = set_field parseBool (\<lambda>v p. p\<lparr>dp_AllowProdSync := v\<rparr>) obj ''allowProdSync'' p1;
          p3 = set_field parseBool (\<lambda>v p. p\<lparr>dp_EnforceStageRollout := v\<rparr>) obj ''enforceStageRollout'' p2
      in case parseStringList (aget obj ''stages'') of
           Some v \<Rightarrow> p3\<lparr>dp_AutoApply := enabled \<and> stageAllowed v stage\<rparr>
         | None \<Rightarrow> p3\<lparr>dp_AutoApply := enabled\<rparr>)"

definition applyApprovals :: "anymap \<Rightarrow> dns_policy \<Rightarrow> dns_policy" where
  "applyApprovals obj p = (case asMap (aget obj ''approvalEnvByStage'') of None \<Rightarrow> p
     | Some m \<Rightarrow> p\<lparr>dp_ApprovalEnvByStage := foldl (\<lambda>acc (k, rawV). case parseString rawV of None \<Rightarrow> acc
         | Some v \<Rightarrow> AList.update (normalizeStage k) v acc) (dp_ApprovalEnvByStage p) m\<rparr>)"

definition applyCredentials :: "anymap \<Rightarrow> dns_policy \<Rightarrow> dns_policy" where
  "applyCredentials obj p0 = (case asMap (aget obj ''credentials'') of None \<Rightarrow> p0
     | Some c \<Rightarrow>
        (let p1 = set_field parseString (\<lambda>v p. p\<lparr>dp_ZoneIDEnv := v\<rparr>) c ''zoneIDEnv'' p0;
             p2 = set_field parseString (\<lambda>v p. p\<lparr>dp_AccountIDEnv := v\<rparr>) c ''accountIDEnv'' p1;
             p3 = set_field parseString (\<lambda>v p. p\<lparr>dp_APITokenEnv := v\<rparr>) c ''apiTokenEnv'' p2;
             p4 = set_field parseString (\<lambda>v p. p\<lparr>dp_APITokenFileEnv := v\<rparr>) c ''apiTokenFileEnv'' p3
         in set_field parseString (\<lambda>v p. p\<lparr>dp_APITokenSecretRef := v\<rparr>) c ''apiTokenSecretRef'' p4))"

text \<open>Everything but the stage override at the end.\<close>

definition applyFields :: "anymap \<Rightarrow> string \<Rightarrow> dns_policy \<Rightarrow> dns_policy" where
  "applyFields obj stage p0 =
     (let p1 = set_field parseBool (\<lambda>v p. p\<lparr>dp_AutoApply := v\<rparr>) obj ''autoApply'' p0;
          p2 = (case asMap (aget obj ''autoApply'') of None \<Rightarrow> p1 | Some auto \<Rightarrow> applyAutoObject auto stage p1);
          p3 = set_field parseBool (\<lambda>v p. p\<lparr>dp_DryRun := v\<rparr>) obj ''dryRun'' p2;
          p4 = set_field parseBool (\<lambda>v p. p\<lparr>dp_AllowProdSync := v\<rparr>) obj ''allowProdSync'' p3;
          p5 = set_field parseBool (\<lambda>v p. p\<lparr>dp_EnforceStageRollout := v\<rparr>) obj ''enforceStageRollout'' p4;
          p6 = set_field parseBool (\<lambda>v p. p\<lparr>dp_RequireReason := v\<rparr>) obj ''requireReason'' p5;
          p7 = set_field parseString (\<lambda>v p. p\<lparr>dp_ReasonEnv := v\<rparr>) obj ''reasonEnv'' p6;
          p8 = applyCredentials obj (applyApprovals obj p7);
          p9 = (case asMap (aget obj ''mutationPolicy'') of None \<Rightarrow> p8
            | Some m \<Rightarrow> p8\<lparr>dp_MutationPolicy := applyMutationPolicy m ((dp_MutationPolicy p8)\<lparr>mp_Enabled := True\<rparr>)\<rparr>)
      in case asMap (aget obj ''credentialPolicy'') of None \<Rightarrow> p9
         | Some m \<Rightarrow> p9\<lparr>dp_CredentialPolicy :=
             applyCredentialPolicy m ((dp_CredentialPolicy p9)\<lparr>cp_Enabled := True\<rparr>)\<rparr>)"

text \<open>The override for a stage is found in the object's \<open>stages\<close> map, so it is a smaller value.\<close>

definition stage_object :: "anymap \<Rightarrow> string \<Rightarrow> anymap option" where
  "stage_object obj stage = (case asMap (aget obj ''stages'') of None \<Rightarrow> None
     | Some stages \<Rightarrow> asMap (aget stages stage))"

lemma map_of_size: "map_of m k = Some v \<Longrightarrow> size v < size (AMap m)"
proof -
  assume "map_of m k = Some v"
  then have "(k, v) \<in> set m" by (rule map_of_SomeD)
  then have "size_prod (\<lambda>_. 0) size (k, v) \<le> size_list (size_prod (\<lambda>_. 0) size) m"
    by (rule size_list_estimation') simp
  then show ?thesis by simp
qed

lemma asMap_aget_size: "asMap (aget m k) = Some m' \<Longrightarrow> size (AMap m') < size (AMap m)"
proof -
  assume h: "asMap (aget m k) = Some m'"
  then have "map_of m k = Some (AMap m')"
    by (auto simp: aget_def split: option.splits elim!: asMap.elims)
  then show ?thesis by (rule map_of_size)
qed

lemma stage_object_size: "stage_object obj stage = Some o' \<Longrightarrow> size (AMap o') < size (AMap obj)"
  by (auto simp: stage_object_def split: option.splits dest!: asMap_aget_size)

function applyObject :: "anymap \<Rightarrow> string \<Rightarrow> dns_policy \<Rightarrow> dns_policy" where
  "applyObject obj stage p = (let p1 = applyFields obj stage p in
     case stage_object obj stage of None \<Rightarrow> p1 | Some so \<Rightarrow> applyObject so stage p1)"
  by pat_completeness auto
termination
  by (relation "measure (\<lambda>(obj, stage, p). size (AMap obj))") (auto dest: stage_object_size simp del: any.size)

declare applyObject.simps [simp del]

definition default_policy :: dns_policy where
  "default_policy = \<lparr>dp_AutoApply = False, dp_DryRun = False, dp_AllowProdSync = False,
     dp_EnforceStageRollout = False, dp_RequireReason = False, dp_ReasonEnv = ''RUNFABRIC_DNS_SYNC_REASON'',
     dp_ApprovalEnvByStage = [(''staging'', ''RUNFABRIC_DNS_SYNC_DEV_APPROVED''),
       (''prod'', ''RUNFABRIC_DNS_SYNC_STAGING_APPROVED'')],
     dp_ZoneIDEnv = ''RUNFABRIC_ROUTER_ZONE_ID'', dp_AccountIDEnv = ''RUNFABRIC_ROUTER_ACCOUNT_ID'',
     dp_APITokenEnv = ''RUNFABRIC_ROUTER_API_TOKEN'', dp_APITokenFileEnv = ''RUNFABRIC_ROUTER_API_TOKEN_FILE'',
     dp_APITokenSecretRef = '''',
     dp_MutationPolicy = \<lparr>mp_Enabled = False, mp_ApprovalEnv = ''RUNFABRIC_DNS_SYNC_RISK_APPROVED'',
       mp_RiskyResources = [''lb_monitor'', ''lb_pool'', ''load_balancer''], mp_MaxMutations = 0\<rparr>,
     dp_CredentialPolicy = \<lparr>cp_Enabled = False, cp_RequireAttestation = True,
       cp_AttestationEnv = ''RUNFABRIC_ROUTER_TOKEN_ATTESTED'', cp_IssuedAtEnv = ''RUNFABRIC_ROUTER_TOKEN_ISSUED_AT'',
       cp_ExpiresAtEnv = ''RUNFABRIC_ROUTER_TOKEN_EXPIRES_AT'', cp_MaxTTLSeconds = 3600,
       cp_MinRemainingSeconds = 120\<rparr>\<rparr>"

definition RouterDNSSyncPolicyForStage :: "config option \<Rightarrow> string \<Rightarrow> dns_policy" where
  "RouterDNSSyncPolicyForStage cfg stage = (case cfg of None \<Rightarrow> default_policy
     | Some c \<Rightarrow> (case asMap (aget (cfg_Extensions c) ''router'') of None \<Rightarrow> default_policy
        | Some obj \<Rightarrow> applyObject obj (normalizeStage stage) default_policy))"

section \<open>Lemmas\<close>

lemma set_field_same [simp]: "parse (aget obj key) = None \<Longrightarrow> set_field parse upd obj key p = p"
  by (simp add: set_field_def)

lemma set_field_keep:
  "(\<And>v q. f (upd v q) = f q) \<Longrightarrow> f (set_field parse upd obj key p) = f p"
  by (simp add: set_field_def split: option.split)

lemma set_field_last:
  "f (set_field parse (\<lambda>v. upd v) obj key p) = (case parse (aget obj key) of None \<Rightarrow> f p | Some v \<Rightarrow> f (upd v p))"
  by (simp add: set_field_def split: option.split)

end
