(* ===== verification/Secrets.thy ===== *)
theory Secrets
  imports Go_Values
begin

text \<open>
  \<^verbatim>\<open>platform/core/policy/secrets\<close>: placeholders \<open>${secret:KEY}\<close> in configuration strings, indirection
  through \<open>secret://\<close>, references to secret managers, and the checks on the secrets of a
  configuration. The process-wide resolver and scheme set are an explicit state.
\<close>

section \<open>Process-wide state\<close>

record secret_globals =
  sg_resolver :: "(string \<Rightarrow> string + string) option"
  sg_schemes :: "string list"

text \<open>Both setters return the function that puts the previous value back.\<close>

definition SetReferenceResolver ::
  "(string \<Rightarrow> string + string) option \<Rightarrow> secret_globals \<Rightarrow> (secret_globals \<Rightarrow> secret_globals) \<times> secret_globals" where
  "SetReferenceResolver r g = (let prev = sg_resolver g in
     ((\<lambda>g'. g'\<lparr>sg_resolver := prev\<rparr>), g\<lparr>sg_resolver := r\<rparr>))"

definition normalizeSecretManagerRefScheme :: "string \<Rightarrow> string" where
  "normalizeSecretManagerRefScheme raw = TrimSpace (TrimSuffix (ToLower (TrimSpace raw)) ''://'')"

definition SetSecretManagerRefSchemes ::
  "string list \<Rightarrow> secret_globals \<Rightarrow> (secret_globals \<Rightarrow> secret_globals) \<times> secret_globals" where
  "SetSecretManagerRefSchemes schemes g =
     (let prev = sg_schemes g in
      ((\<lambda>g'. g'\<lparr>sg_schemes := prev\<rparr>),
       g\<lparr>sg_schemes := remdups (filter (\<lambda>s. s \<noteq> '''') (map normalizeSecretManagerRefScheme schemes))\<rparr>))"

section \<open>References\<close>

text \<open>\<^verbatim>\<open>strings.Index\<close>: the position of the first occurrence.\<close>

fun Index :: "string \<Rightarrow> string \<Rightarrow> nat option" where
  "Index s p = (if HasPrefix s p then Some 0
     else case s of [] \<Rightarrow> None | _ # cs \<Rightarrow> map_option Suc (Index cs p))"

declare Index.simps [simp del]

definition extractRefScheme :: "string \<Rightarrow> string" where
  "extractRefScheme value = (let trimmed = TrimSpace value in
     case Index trimmed ''://'' of None \<Rightarrow> ''''
     | Some sep \<Rightarrow> if sep = 0 then '''' else normalizeSecretManagerRefScheme (take sep trimmed))"

definition IsSecretManagerRef :: "secret_globals \<Rightarrow> string \<Rightarrow> bool" where
  "IsSecretManagerRef g value = (let scheme = extractRefScheme value in
     if scheme = '''' then False else scheme \<in> set (sg_schemes g))"

fun join_with :: "string \<Rightarrow> string list \<Rightarrow> string" where
  "join_with sep [] = ''''"
| "join_with sep [s] = s"
| "join_with sep (s # ss) = s @ sep @ join_with sep ss"

definition SecretManagerRefExamples :: "secret_globals \<Rightarrow> string" where
  "SecretManagerRefExamples g = (if sg_schemes g = [] then ''<scheme>://''
     else join_with '', '' (map (\<lambda>s. s @ ''://'') (sort_slice str_less (sg_schemes g))))"

datatype secret_error = SecretDepth string | SecretKeyEmpty | SecretEmptyRef string | SecretNotSet string
  | SecretNoPlugin string | SecretPluginError string | SecretResolvedEmpty string

definition resolveSecretManagerRefValue :: "secret_globals \<Rightarrow> string \<Rightarrow> secret_error + string" where
  "resolveSecretManagerRefValue g raw =
     (let value = TrimSpace raw in
      if value = '''' then Inr ''''
      else if \<not> IsSecretManagerRef g value then Inr value
      else case sg_resolver g of None \<Rightarrow> Inl (SecretNoPlugin value)
      | Some resolver \<Rightarrow> (case resolver value of Inl e \<Rightarrow> Inl (SecretPluginError e)
        | Inr r \<Rightarrow> let resolved = TrimSpace r in
            if resolved = '''' then Inl (SecretResolvedEmpty value) else Inr resolved))"

text \<open>\<^verbatim>\<open>resolveSecretKey\<close> follows at most eight \<open>secret://\<close> hops, so it always returns.\<close>

function resolveSecretKey ::
  "secret_globals \<Rightarrow> (string \<times> string) list \<Rightarrow> (string \<Rightarrow> string option) \<Rightarrow> string \<Rightarrow> nat \<Rightarrow> secret_error + string" where
  "resolveSecretKey g configSecrets lookup key0 depth =
     (if depth > 8 then Inl (SecretDepth key0)
      else let key = TrimSpace key0 in
        if key = '''' then Inl SecretKeyEmpty
        else case map_of configSecrets key of
          Some v0 \<Rightarrow> (let v = TrimSpace v0 in
            if HasPrefix v ''secret://'' then
              (let ref = TrimSpace (TrimPrefix v ''secret://'') in
               if ref = '''' then Inl (SecretEmptyRef key)
               else resolveSecretKey g configSecrets lookup ref (depth + 1))
            else resolveSecretManagerRefValue g v)
        | None \<Rightarrow> (case lookup key of
            Some v \<Rightarrow> if TrimSpace v \<noteq> '''' then resolveSecretManagerRefValue g v else Inl (SecretNotSet key)
          | None \<Rightarrow> Inl (SecretNotSet key)))"
  by pat_completeness auto
termination
  by (relation "measure (\<lambda>(g, cs, l, k, d). 9 - d)") auto

declare resolveSecretKey.simps [simp del]

section \<open>Placeholders\<close>

definition is_key_char :: "char \<Rightarrow> bool" where
  "is_key_char c \<longleftrightarrow> (let n = (of_char c :: nat) in
     (65 \<le> n \<and> n \<le> 90) \<or> (97 \<le> n \<and> n \<le> 122) \<or> (48 \<le> n \<and> n \<le> 57)) \<or> c \<in> {CHR ''_'', CHR ''.'', CHR ''-''}"

text \<open>
  The pattern \<^verbatim>\<open>\$\{secret:([A-Za-z0-9_.-]+)\}\<close> at the start of a string: its key and what follows.
  A key character is never a closing brace, so the greedy run of them is the only candidate.
\<close>

definition match_secret :: "string \<Rightarrow> (string \<times> string) option" where
  "match_secret s =
     (if HasPrefix s ''${secret:'' then
        (let t = drop 9 s; key = takeWhile is_key_char t; rest = dropWhile is_key_char t in
         case rest of [] \<Rightarrow> None
         | c # cs \<Rightarrow> if c = CHR ''}'' \<and> key \<noteq> [] then Some (key, cs) else None)
      else None)"

lemma match_secret_shorter: "match_secret s = Some (k, r) \<Longrightarrow> length r < length s"
proof -
  assume h: "match_secret s = Some (k, r)"
  then obtain c where "dropWhile is_key_char (drop 9 s) = c # r"
    by (auto simp: match_secret_def Let_def split: if_splits list.splits)
  then have "length r < length (drop 9 s)"
    by (metis length_Cons length_dropWhile_le Suc_le_lessD)
  then show ?thesis by simp
qed

text \<open>
  \<^verbatim>\<open>ReplaceAllStringFunc\<close>: matches from left to right, not overlapping; the first error is kept
  and a failing match is left as it is. The result is the error, if any, and the text.
\<close>

function replace_secrets :: "(string \<Rightarrow> secret_error + string) \<Rightarrow> string \<Rightarrow> secret_error option \<times> string" where
  "replace_secrets f s = (case match_secret s of
     Some (k, rest) \<Rightarrow> (let (e, out) = replace_secrets f rest in
       case f k of Inl err \<Rightarrow> (Some err, ''${secret:'' @ k @ ''}'' @ out) | Inr v \<Rightarrow> (e, v @ out))
   | None \<Rightarrow> (case s of [] \<Rightarrow> (None, []) | c # cs \<Rightarrow>
       (let (e, out) = replace_secrets f cs in (e, c # out))))"
  by pat_completeness auto
termination
  by (relation "measure (\<lambda>(f, s). length s)") (auto dest: match_secret_shorter)

declare replace_secrets.simps [simp del]

definition ResolveString ::
  "secret_globals \<Rightarrow> string \<Rightarrow> (string \<times> string) list \<Rightarrow> (string \<Rightarrow> string option) \<Rightarrow> secret_error + string" where
  "ResolveString g input configSecrets lookup =
     (case replace_secrets (\<lambda>k. resolveSecretKey g configSecrets lookup k 0) input of
        (Some e, _) \<Rightarrow> Inl e | (None, out) \<Rightarrow> Inr out)"

section \<open>Validation\<close>

datatype secret_map_error = SMEmptyKey | SMEmptyValue string | SMEmptySecretRef string | SMEmptyManagerRef string
  | SMStaticLiteral string string

definition validate_entry :: "secret_globals \<Rightarrow> string \<Rightarrow> string \<Rightarrow> secret_map_error option" where
  "validate_entry g k v =
     (let trimmed = TrimSpace v in
      if TrimSpace k = '''' then Some SMEmptyKey
      else if trimmed = '''' then Some (SMEmptyValue k)
      else if HasPrefix trimmed ''secret://'' \<and> TrimSpace (TrimPrefix trimmed ''secret://'') = '''' then
        Some (SMEmptySecretRef k)
      else if IsSecretManagerRef g trimmed \<and>
          TrimSpace (drop (the (Index trimmed ''://'') + 3) trimmed) = '''' then Some (SMEmptyManagerRef k)
      else None)"

fun first_error :: "('a \<Rightarrow> 'e option) \<Rightarrow> 'a list \<Rightarrow> 'e option" where
  "first_error f [] = None"
| "first_error f (x # xs) = (case f x of Some e \<Rightarrow> Some e | None \<Rightarrow> first_error f xs)"

lemma first_error_None: "first_error f xs = None \<longleftrightarrow> (\<forall>x \<in> set xs. f x = None)"
  by (induction xs) (auto split: option.split)

text \<open>The maps are iterated in the order of the list, any order being possible in Go.\<close>

definition ValidateConfigSecretMap :: "secret_globals \<Rightarrow> (string \<times> string) list \<Rightarrow> secret_map_error option" where
  "ValidateConfigSecretMap g m = first_error (\<lambda>(k, v). validate_entry g k v) m"

definition isProductionStage :: "string \<Rightarrow> bool" where
  "isProductionStage stage \<longleftrightarrow> ToLower (TrimSpace stage) \<in> {''prod'', ''production'', ''live''}"

definition is_reference :: "secret_globals \<Rightarrow> string \<Rightarrow> bool" where
  "is_reference g trimmed \<longleftrightarrow> HasPrefix trimmed ''${env:'' \<or> HasPrefix trimmed ''${secret:'' \<or>
     HasPrefix trimmed ''secret://'' \<or> IsSecretManagerRef g trimmed"

definition ValidateForStage :: "secret_globals \<Rightarrow> (string \<times> string) list \<Rightarrow> string \<Rightarrow> secret_map_error option" where
  "ValidateForStage g m stage = (if \<not> isProductionStage stage then None
     else first_error (\<lambda>(k, v). let trimmed = TrimSpace v in
       if trimmed = '''' \<or> is_reference g trimmed then None
       else Some (SMStaticLiteral k (TrimSpace stage))) m)"

end
