(* ===== verification/Router_Sync.thy ===== *)
theory Router_Sync
  imports Router_History Router_Policy Router_Simulation Secrets
begin

text \<open>
  The DNS sync itself: token priming (\<^verbatim>\<open>router_credentials.go\<close>), the call of the router plugin and the
  snapshot it leaves (\<^verbatim>\<open>router_sync.go\<close>), the gates and commands of the CLI
  (\<^verbatim>\<open>internal/cli/router/router.go\<close>) and the daemon's operations (\<^verbatim>\<open>router_fabric_ops.go\<close>). The plugin is
  a parameter; every call of it is logged with its request and the token it finds.
\<close>

section \<open>World and parameters\<close>

datatype history_file = GoodHistory "sync_snapshot list" | BadHistory

record sync_request =
  sq_Routing :: "routing_config option"
  sq_ZoneID :: string
  sq_AccountID :: string
  sq_DryRun :: bool

text \<open>
  \<open>rw_files\<close> is the content of a file, or nothing when reading it fails; \<open>rw_fails n\<close> tells
  whether the \<open>n\<close>-th access to a history file fails.
\<close>

record rworld =
  rw_history :: "(string \<times> history_file) list"
  rw_env :: "string \<Rightarrow> string"
  rw_files :: "string \<Rightarrow> string option"
  rw_ticks :: nat
  rw_wall :: "nat \<Rightarrow> int"
  rw_fails :: "nat \<Rightarrow> bool"
  rw_log :: "(sync_request \<times> string) list"

datatype router_error =
    REContext | REHistoryIO | REHistoryParse | RERoutingNil | REPlugin string
  | RESecretRefInvalid string | RESecretRefEmpty string | RESecret secret_error
  | RETokenFile string | RETokenFileEmpty string
  | REProdGate | REReason string | REApproval string | REStage string
  | REAttestation string | REIssuedFormat string | REExpiresFormat string | RETTLMissing
  | RETTLOrder | RETTLTooLong | RERemainingMissing | RERemainingShort | REExpired
  | RETooManyMutations int | RERiskyMutations int
  | RERestore restore_error | RENoRouting | RENilPanic | RECanaryNotFound string | RENoEndpoints

type_synonym 'a rt2 = "(rworld, router_error, 'a) act"

text \<open>
  \<open>rp_plugin\<close> answers the \<open>n\<close>-th call; \<open>rp_parse\<close> is \<^verbatim>\<open>time.Parse(time.RFC3339, s)\<close> in
  nanoseconds since 1970; \<open>rp_globals\<close> the state of the secrets package.
\<close>

record router_params =
  rp_plugin :: "nat \<Rightarrow> sync_request \<Rightarrow> string + sync_result option"
  rp_parse :: "string \<Rightarrow> int option"
  rp_globals :: secret_globals
  rp_pluginID :: "config option \<Rightarrow> string"

record app_ctx =
  ax_Config :: "config option"
  ax_Secrets :: "(string \<times> string) list"
  ax_Stage :: string

definition now_ns :: "int rt2" where
  "now_ns = (\<lambda>w. (Inr (rw_wall w (rw_ticks w)), w\<lparr>rw_ticks := Suc (rw_ticks w)\<rparr>))"

definition getenv :: "string \<Rightarrow> string rt2" where
  "getenv k = getE (\<lambda>w. rw_env w k)"

definition setenv :: "string \<Rightarrow> string \<Rightarrow> unit rt2" where
  "setenv k v = modifyE (\<lambda>w. w\<lparr>rw_env := (rw_env w)(k := v)\<rparr>)"

section \<open>History files\<close>

definition history_io :: "unit rt2" where
  "history_io = (\<lambda>w. (if rw_fails w (rw_ticks w) then Inl REHistoryIO else Inr (),
     w\<lparr>rw_ticks := Suc (rw_ticks w)\<rparr>))"

definition LoadRouterSyncHistory :: "string \<Rightarrow> sync_snapshot list rt2" where
  "LoadRouterSyncHistory stage = bindE history_io (\<lambda>_ w. case map_of (rw_history w) stage of
     None \<Rightarrow> (Inr [], w) | Some (GoodHistory h) \<Rightarrow> (Inr h, w) | Some BadHistory \<Rightarrow> (Inl REHistoryParse, w))"

definition SaveRouterSyncHistory :: "string \<Rightarrow> sync_snapshot list \<Rightarrow> unit rt2" where
  "SaveRouterSyncHistory stage history = bindE history_io (\<lambda>_.
     modifyE (\<lambda>w. w\<lparr>rw_history := AList.update stage (GoodHistory history) (rw_history w)\<rparr>))"

definition AppendRouterSyncSnapshot :: "string \<Rightarrow> sync_snapshot \<Rightarrow> int \<Rightarrow> unit rt2" where
  "AppendRouterSyncSnapshot stage snapshot keep =
     bindE (LoadRouterSyncHistory stage) (\<lambda>history.
     bindE (if sn_ID snapshot = '''' then bindE now_ns (\<lambda>t. returnE (snapshot\<lparr>sn_ID := itoa t\<rparr>))
            else returnE snapshot) (\<lambda>s1.
     bindE (if sn_CreatedAt s1 = NoStamp then bindE now_ns (\<lambda>t. returnE (s1\<lparr>sn_CreatedAt := fmt_time t\<rparr>))
            else returnE s1) (\<lambda>s2.
     SaveRouterSyncHistory stage (trim_history (history @ [s2]) keep))))"

section \<open>The API token\<close>

definition token_env :: string where
  "token_env = ''RUNFABRIC_ROUTER_API_TOKEN''"

definition env_lookup :: "rworld \<Rightarrow> string \<Rightarrow> string option" where
  "env_lookup w k = (if rw_env w k = '''' then None else Some (rw_env w k))"

definition secret_input :: "string \<Rightarrow> string option" where
  "secret_input ref =
     (if Contains ref ''${secret:'' then Some ref
      else if HasPrefix ref ''secret://'' then
        (let key = TrimSpace (TrimPrefix ref ''secret://'') in
         if key = '''' then None else Some (''${secret:'' @ key @ ''}''))
      else Some (''${secret:'' @ ref @ ''}''))"

definition ResolveRouterAPITokenSecretRef ::
  "router_params \<Rightarrow> (string \<times> string) list \<Rightarrow> string \<Rightarrow> string rt2" where
  "ResolveRouterAPITokenSecretRef P secrets secretRef =
     (let ref = TrimSpace secretRef in
      if ref = '''' then returnE ''''
      else case secret_input ref of None \<Rightarrow> throwE (RESecretRefInvalid secretRef)
      | Some input \<Rightarrow> (\<lambda>w. case ResolveString (rp_globals P) input secrets (env_lookup w) of
          Inl e \<Rightarrow> (Inl (RESecret e), w)
        | Inr r \<Rightarrow> let token = TrimSpace r in
            if token = '''' then (Inl (RESecretRefEmpty secretRef), w) else (Inr token, w)))"

definition token_file :: "string \<Rightarrow> string rt2" where
  "token_file path = (\<lambda>w. case rw_files w path of None \<Rightarrow> (Inl (RETokenFile path), w)
     | Some d \<Rightarrow> let token = TrimSpace d in
         if token = '''' then (Inl (RETokenFileEmpty path), w) else (Inr token, w))"

definition or_default :: "string \<Rightarrow> string \<Rightarrow> string" where
  "or_default s d = (if TrimSpace s = '''' then d else TrimSpace s)"

definition resolveRouterAPIToken :: "router_params \<Rightarrow> (string \<times> string) list \<Rightarrow> dns_policy \<Rightarrow> string rt2" where
  "resolveRouterAPIToken P secrets policy =
     (let env = TrimSpace (dp_APITokenEnv policy) in
      bindE (if env \<noteq> '''' \<and> env \<noteq> token_env then bindE (getenv env) (\<lambda>v. returnE (TrimSpace v))
             else returnE '''') (\<lambda>v.
      if v \<noteq> '''' then returnE v
      else if TrimSpace (dp_APITokenSecretRef policy) \<noteq> '''' then
        ResolveRouterAPITokenSecretRef P secrets (TrimSpace (dp_APITokenSecretRef policy))
      else bindE (getenv (or_default (dp_APITokenFileEnv policy) ''RUNFABRIC_ROUTER_API_TOKEN_FILE'')) (\<lambda>p.
        if TrimSpace p \<noteq> '''' then token_file (TrimSpace p) else returnE '''')))"

text \<open>\<^verbatim>\<open>PrimeRouterAPIToken\<close>: whether the token was exported here, so that it must be unset again.\<close>

definition PrimeRouterAPIToken :: "router_params \<Rightarrow> (string \<times> string) list \<Rightarrow> dns_policy \<Rightarrow> bool rt2" where
  "PrimeRouterAPIToken P secrets policy =
     bindE (getenv token_env) (\<lambda>cur.
     if TrimSpace cur \<noteq> '''' then returnE False
     else bindE (resolveRouterAPIToken P secrets policy) (\<lambda>token.
       if token = '''' then returnE False
       else bindE (setenv token_env token) (\<lambda>_. returnE True)))"

definition restore_token :: "bool \<Rightarrow> rworld \<Rightarrow> rworld" where
  "restore_token primed w = (if primed then w\<lparr>rw_env := (rw_env w)(token_env := '''')\<rparr> else w)"

definition RouterProviderIDs :: "dns_policy \<Rightarrow> (string \<times> string) rt2" where
  "RouterProviderIDs policy =
     bindE (getenv (or_default (dp_ZoneIDEnv policy) ''RUNFABRIC_ROUTER_ZONE_ID'')) (\<lambda>z.
     bindE (getenv (or_default (dp_AccountIDEnv policy) ''RUNFABRIC_ROUTER_ACCOUNT_ID'')) (\<lambda>a.
     returnE (TrimSpace z, TrimSpace a)))"

section \<open>The sync\<close>

text \<open>
  The adapter refuses a nil routing configuration. Otherwise the plugin gets the routing without the
  priorities, the regions and the DNS and load balancer plans, which its contract has no fields for.
\<close>

definition adapter_routing :: "routing_config \<Rightarrow> routing_config" where
  "adapter_routing rc = rc\<lparr>rc_Endpoints := map (\<lambda>ep. ep\<lparr>ep_Priority := 0, ep_Region := ''''\<rparr>) (rc_Endpoints rc),
     rc_DNS := None, rc_LoadBalancer := None\<rparr>"

definition SyncRouter :: "router_params \<Rightarrow> sync_request \<Rightarrow> sync_result option rt2" where
  "SyncRouter P req = (case sq_Routing req of None \<Rightarrow> throwE RERoutingNil
     | Some rc \<Rightarrow> (\<lambda>w. let req' = req\<lparr>sq_Routing := Some (adapter_routing rc)\<rparr>;
           w' = w\<lparr>rw_log := rw_log w @ [(req', rw_env w token_env)]\<rparr> in
         case rp_plugin P (length (rw_log w)) req' of Inl e \<Rightarrow> (Inl (REPlugin e), w') | Inr r \<Rightarrow> (Inr r, w')))"

record sync_options =
  opt_OperationID :: string
  opt_Trigger :: string
  opt_BeforeActions :: "sync_action list"
  opt_Events :: "sync_event list"

definition sync_stage :: "app_ctx \<Rightarrow> routing_config option \<Rightarrow> string" where
  "sync_stage ctx routing = (let s = (case routing of None \<Rightarrow> '''' | Some rc \<Rightarrow> TrimSpace (rc_Stage rc)) in
     if s = '''' then TrimSpace (ax_Stage ctx) else s)"

definition base_snapshot ::
  "router_params \<Rightarrow> app_ctx \<Rightarrow> routing_config \<Rightarrow> string \<Rightarrow> string \<Rightarrow> bool \<Rightarrow> sync_options \<Rightarrow> sync_snapshot" where
  "base_snapshot P ctx rc zone account dryRun opts =
     \<lparr>sn_ID = '''', sn_Service = rc_Service rc, sn_Stage = sync_stage ctx (Some rc),
      sn_PluginID = rp_pluginID P (ax_Config ctx), sn_Operation = TrimSpace (opt_OperationID opts),
      sn_Trigger = TrimSpace (opt_Trigger opts), sn_ZoneID = zone, sn_AccountID = account,
      sn_DryRun = dryRun, sn_CreatedAt = NoStamp, sn_Routing = toStateRouterSyncRouting rc,
      sn_Before = opt_BeforeActions opts, sn_Actions = [], sn_After = [], sn_Events = opt_Events opts,
      sn_Summary = no_actions,
      sn_BeforeSum = (if opt_BeforeActions opts = [] then no_actions
        else summarizeStateRouterSyncActions (opt_BeforeActions opts)), sn_AfterSum = no_actions\<rparr>"

definition with_result :: "sync_snapshot \<Rightarrow> sync_result \<Rightarrow> int \<Rightarrow> sync_snapshot" where
  "with_result sn res t = (let acts = sr_Actions res; counts = summarizeStateRouterSyncActions acts in
     sn\<lparr>sn_Actions := acts, sn_After := acts, sn_Summary := counts, sn_AfterSum := counts,
        sn_Events := sn_Events sn @ [\<lparr>ev_Timestamp = fmt_time t, ev_Phase = ''complete'',
          ev_Message = ''router sync completed'', ev_Summary = counts\<rparr>]\<rparr>)"

definition RouterDNSSyncWithOptions ::
  "router_params \<Rightarrow> app_ctx option \<Rightarrow> routing_config option \<Rightarrow> string \<Rightarrow> string \<Rightarrow> bool \<Rightarrow> sync_options \<Rightarrow>
   sync_result option rt2" where
  "RouterDNSSyncWithOptions P actx routing zone account dryRun opts = (case actx of
     None \<Rightarrow> throwE REContext
   | Some ctx \<Rightarrow>
      (let stage = sync_stage ctx routing in
       bindE (PrimeRouterAPIToken P (ax_Secrets ctx) (RouterDNSSyncPolicyForStage (ax_Config ctx) stage)) (\<lambda>primed.
       finallyE
         (bindE (SyncRouter P \<lparr>sq_Routing = routing, sq_ZoneID = zone, sq_AccountID = account, sq_DryRun = dryRun\<rparr>) (\<lambda>result.
          case routing of None \<Rightarrow> returnE result
          | Some rc \<Rightarrow>
             bindE (case result of None \<Rightarrow> returnE (base_snapshot P ctx rc zone account dryRun opts)
               | Some res \<Rightarrow> bindE now_ns (\<lambda>t. returnE (with_result (base_snapshot P ctx rc zone account dryRun opts) res t))) (\<lambda>sn.
             bindE (AppendRouterSyncSnapshot stage sn 30) (\<lambda>_. returnE result))))
         (restore_token primed))))"

section \<open>Gates of the CLI\<close>

definition lookupApprovalEnv :: "(string \<times> string) list \<Rightarrow> string \<Rightarrow> string \<Rightarrow> string" where
  "lookupApprovalEnv m stage fallback = (let v = (case map_of m (ToLower (TrimSpace stage)) of
       None \<Rightarrow> '''' | Some x \<Rightarrow> TrimSpace x) in if v = '''' then fallback else v)"

definition require_approval :: "(string \<times> string) list \<Rightarrow> string \<Rightarrow> string \<Rightarrow> unit rt2" where
  "require_approval m stage fallback = (let env = lookupApprovalEnv m stage fallback in
     bindE (getenv env) (\<lambda>v. if ToLower v \<noteq> ''true'' then throwE (REApproval env) else returnE ()))"

definition enforceDNSSyncStageGateWithPolicy ::
  "string \<Rightarrow> bool \<Rightarrow> bool \<Rightarrow> (string \<times> string) list \<Rightarrow> bool \<Rightarrow> string \<Rightarrow> unit rt2" where
  "enforceDNSSyncStageGateWithPolicy stage allowProdSync enforceRollout approvals requireReason reasonEnv0 =
     (let s = (if ToLower stage = '''' then ''dev'' else ToLower stage) in
      if s = ''prod'' \<and> \<not> allowProdSync then throwE REProdGate
      else bindE (if requireReason then
             (let reasonEnv = (if TrimSpace reasonEnv0 = '''' then ''RUNFABRIC_DNS_SYNC_REASON'' else reasonEnv0) in
              bindE (getenv reasonEnv) (\<lambda>v. if TrimSpace v = '''' then throwE (REReason reasonEnv) else returnE ()))
           else returnE ()) (\<lambda>_.
        if \<not> enforceRollout then returnE ()
        else if s = ''dev'' then returnE ()
        else if s = ''staging'' then require_approval approvals ''staging'' ''RUNFABRIC_DNS_SYNC_DEV_APPROVED''
        else if s = ''prod'' then require_approval approvals ''prod'' ''RUNFABRIC_DNS_SYNC_STAGING_APPROVED''
        else throwE (REStage stage)))"

definition resolveDNSProviderIDs :: "string \<Rightarrow> string \<Rightarrow> string \<Rightarrow> string \<Rightarrow> (string \<times> string) rt2" where
  "resolveDNSProviderIDs zoneFlag accountFlag zoneEnv accountEnv =
     (let ze = (if TrimSpace zoneEnv = '''' then ''RUNFABRIC_ROUTER_ZONE_ID'' else zoneEnv);
          ae = (if TrimSpace accountEnv = '''' then ''RUNFABRIC_ROUTER_ACCOUNT_ID'' else accountEnv) in
      bindE (if zoneFlag = '''' then getenv ze else returnE zoneFlag) (\<lambda>z.
      bindE (if accountFlag = '''' then getenv ae else returnE accountFlag) (\<lambda>a. returnE (z, a))))"

text \<open>The zero \<^verbatim>\<open>time.Time\<close>, the first instant of year 1, in nanoseconds since 1970.\<close>

definition zero_time :: int where
  "zero_time = - 62135596800 * 10 ^ 9"

definition parse_or_zero :: "router_params \<Rightarrow> string \<Rightarrow> router_error \<Rightarrow> int rt2" where
  "parse_or_zero P raw err = (if raw = '''' then returnE zero_time
     else case rp_parse P raw of None \<Rightarrow> throwE err | Some t \<Rightarrow> returnE t)"

definition check :: "bool \<Rightarrow> router_error \<Rightarrow> unit rt2" where
  "check ok err = (if ok then returnE () else throwE err)"

definition secs :: "int \<Rightarrow> int" where
  "secs n = wrap64 (wrap64 n * 10 ^ 9)"

definition enforceRouterCredentialPolicy :: "router_params \<Rightarrow> credential_policy \<Rightarrow> int \<Rightarrow> unit rt2" where
  "enforceRouterCredentialPolicy P policy now =
     (if \<not> cp_Enabled policy then returnE ()
      else let attEnv = or_default (cp_AttestationEnv policy) ''RUNFABRIC_ROUTER_TOKEN_ATTESTED'';
               issuedEnv = or_default (cp_IssuedAtEnv policy) ''RUNFABRIC_ROUTER_TOKEN_ISSUED_AT'';
               expiresEnv = or_default (cp_ExpiresAtEnv policy) ''RUNFABRIC_ROUTER_TOKEN_EXPIRES_AT'' in
        bindE (getenv attEnv) (\<lambda>att.
        bindE (check (\<not> (cp_RequireAttestation policy \<and> \<not> EqualFold (TrimSpace att) ''true'')) (REAttestation attEnv)) (\<lambda>_.
        bindE (getenv issuedEnv) (\<lambda>ir. bindE (getenv expiresEnv) (\<lambda>er.
        let issuedRaw = TrimSpace ir; expiresRaw = TrimSpace er in
        bindE (parse_or_zero P issuedRaw (REIssuedFormat issuedEnv)) (\<lambda>issuedAt.
        bindE (parse_or_zero P expiresRaw (REExpiresFormat expiresEnv)) (\<lambda>expiresAt.
        bindE (if cp_MaxTTLSeconds policy > 0 then
            bindE (check (issuedRaw \<noteq> '''' \<and> expiresRaw \<noteq> '''') RETTLMissing) (\<lambda>_.
            let ttl = sat64 (expiresAt - issuedAt) in
            bindE (check (ttl > 0) RETTLOrder) (\<lambda>_. check (ttl \<le> secs (cp_MaxTTLSeconds policy)) RETTLTooLong))
          else returnE ()) (\<lambda>_.
        bindE (if cp_MinRemainingSeconds policy > 0 then
            bindE (check (expiresRaw \<noteq> '''') RERemainingMissing) (\<lambda>_.
            check (sat64 (expiresAt - now) \<ge> secs (cp_MinRemainingSeconds policy)) RERemainingShort)
          else returnE ()) (\<lambda>_.
        check (\<not> (expiresAt \<noteq> zero_time \<and> now > expiresAt)) REExpired)))))))))"

definition is_mutation :: "sync_action \<Rightarrow> bool" where
  "is_mutation a \<longleftrightarrow> norm_action (sa_Action a) \<in> {''create'', ''update''}"

definition is_risky :: "mutation_policy \<Rightarrow> sync_action \<Rightarrow> bool" where
  "is_risky policy a \<longleftrightarrow> is_mutation a \<and>
     norm_action (sa_Resource a) \<in> set (filter (\<lambda>r. r \<noteq> '''') (map norm_action (mp_RiskyResources policy)))"

definition enforceRouterMutationPolicy :: "mutation_policy \<Rightarrow> sync_result option \<Rightarrow> unit rt2" where
  "enforceRouterMutationPolicy policy preview = (case preview of None \<Rightarrow> returnE ()
   | Some res \<Rightarrow>
      if \<not> mp_Enabled policy then returnE ()
      else bindE (getenv (or_default (mp_ApprovalEnv policy) ''RUNFABRIC_DNS_SYNC_RISK_APPROVED'')) (\<lambda>v.
        let approved = EqualFold (TrimSpace v) ''true'';
            mutations = int (length (filter is_mutation (sr_Actions res)));
            risky = int (length (filter (is_risky policy) (sr_Actions res)))
        in if mp_MaxMutations policy > 0 \<and> mutations > mp_MaxMutations policy \<and> \<not> approved then
             throwE (RETooManyMutations mutations)
           else if risky > 0 \<and> \<not> approved then throwE (RERiskyMutations risky)
           else returnE ()))"

section \<open>Commands of the CLI\<close>

text \<open>\<^verbatim>\<open>primeRouterAPIToken\<close> of the CLI exports the token for the rest of the process.\<close>

definition cli_primeRouterAPIToken :: "router_params \<Rightarrow> (string \<times> string) list \<Rightarrow> dns_policy \<Rightarrow> unit rt2" where
  "cli_primeRouterAPIToken P secrets policy =
     bindE (getenv token_env) (\<lambda>cur.
     if TrimSpace cur \<noteq> '''' then returnE ()
     else bindE (getenv (or_default (dp_APITokenEnv policy) token_env)) (\<lambda>v.
       if TrimSpace v \<noteq> '''' then setenv token_env (TrimSpace v)
       else if TrimSpace (dp_APITokenSecretRef policy) \<noteq> '''' then
         bindE (ResolveRouterAPITokenSecretRef P secrets (dp_APITokenSecretRef policy)) (setenv token_env)
       else bindE (getenv (or_default (dp_APITokenFileEnv policy) ''RUNFABRIC_ROUTER_API_TOKEN_FILE'')) (\<lambda>p.
         if TrimSpace p = '''' then returnE ()
         else bindE (token_file (TrimSpace p)) (setenv token_env))))"

definition event :: "string \<Rightarrow> string \<Rightarrow> action_summary \<Rightarrow> sync_event rt2" where
  "event phase msg counts = bindE now_ns (\<lambda>t. returnE \<lparr>ev_Timestamp = fmt_time t, ev_Phase = phase,
     ev_Message = msg, ev_Summary = counts\<rparr>)"

text \<open>
  The preview of a mutating sync: the plugin is called with dry run, then the mutations are judged.
  A nil preview without an error would be dereferenced.
\<close>

definition preflight ::
  "router_params \<Rightarrow> routing_config option \<Rightarrow> string \<Rightarrow> string \<Rightarrow> dns_policy \<Rightarrow> sync_event list \<Rightarrow>
   (sync_action list \<times> sync_event list) rt2" where
  "preflight P routing zone account policy events =
     bindE (SyncRouter P \<lparr>sq_Routing = routing, sq_ZoneID = zone, sq_AccountID = account, sq_DryRun = True\<rparr>) (\<lambda>preview0.
     bindE (case preview0 of None \<Rightarrow> throwE RENilPanic | Some r \<Rightarrow> returnE r) (\<lambda>preview.
     bindE (event ''preflight'' ''captured before-state action snapshot''
       (ss_Counts (RouterSyncSummaryFromResult (Some preview)))) (\<lambda>ev.
     bindE (if mp_Enabled (dp_MutationPolicy policy) then
              enforceRouterMutationPolicy (dp_MutationPolicy policy) (Some preview) else returnE ()) (\<lambda>_.
     returnE (sr_Actions preview, events @ [ev])))))"

definition runRouterDNSSyncWithPolicy ::
  "router_params \<Rightarrow> app_ctx \<Rightarrow> routing_config option \<Rightarrow> string \<Rightarrow> string \<Rightarrow> bool \<Rightarrow> dns_policy \<Rightarrow> sync_result option rt2" where
  "runRouterDNSSyncWithPolicy P ctx routing zone account dryRun policy =
     bindE now_ns (\<lambda>t.
     bindE (event ''start'' (''router sync started (dryRun='' @ (if dryRun then ''true'' else ''false'') @ '')'') no_actions) (\<lambda>ev0.
     bindE (cli_primeRouterAPIToken P (ax_Secrets ctx) policy) (\<lambda>_.
     bindE now_ns (\<lambda>now.
     bindE (enforceRouterCredentialPolicy P (dp_CredentialPolicy policy) now) (\<lambda>_.
     bindE (if dryRun then returnE ([], [ev0]) else preflight P routing zone account policy [ev0]) (\<lambda>(before, events).
     RouterDNSSyncWithOptions P (Some ctx) routing zone account dryRun
       \<lparr>opt_OperationID = ''router-sync-'' @ itoa t, opt_Trigger = ''cli-router'',
        opt_BeforeActions = before, opt_Events = events\<rparr>))))))"

text \<open>A command line flag: its value when it was given.\<close>

definition flag_or :: "bool option \<Rightarrow> bool \<Rightarrow> bool" where
  "flag_or flag d = (case flag of None \<Rightarrow> d | Some b \<Rightarrow> b)"

record cli_flags =
  fl_dryRun :: "bool option"
  fl_allowProd :: "bool option"
  fl_enforceRollout :: "bool option"
  fl_zone :: string
  fl_account :: string

definition cli_gate :: "cli_flags \<Rightarrow> string \<Rightarrow> dns_policy \<Rightarrow> bool \<Rightarrow> unit rt2" where
  "cli_gate fl stage policy requireReason = enforceDNSSyncStageGateWithPolicy stage
     (flag_or (fl_allowProd fl) (dp_AllowProdSync policy))
     (flag_or (fl_enforceRollout fl) (dp_EnforceStageRollout policy))
     (dp_ApprovalEnvByStage policy) requireReason (dp_ReasonEnv policy)"

definition cli_sync ::
  "router_params \<Rightarrow> app_ctx \<Rightarrow> cli_flags \<Rightarrow> string \<Rightarrow> routing_config option \<Rightarrow> bool \<Rightarrow> bool \<Rightarrow> sync_result option rt2" where
  "cli_sync P ctx fl stage routing dryRun requireReason =
     (let policy = RouterDNSSyncPolicyForStage (ax_Config ctx) stage in
      bindE (cli_gate fl stage policy requireReason) (\<lambda>_.
      bindE (resolveDNSProviderIDs (fl_zone fl) (fl_account fl) (dp_ZoneIDEnv policy) (dp_AccountIDEnv policy)) (\<lambda>(zone, account).
      runRouterDNSSyncWithPolicy P ctx routing zone account dryRun policy)))"

text \<open>\<^verbatim>\<open>dns-sync\<close>, \<^verbatim>\<open>dns-shift\<close>, \<^verbatim>\<open>dns-reconcile\<close> and the post-deploy sync, after the state was loaded.\<close>

definition dns_sync_cmd :: "router_params \<Rightarrow> app_ctx \<Rightarrow> cli_flags \<Rightarrow> string \<Rightarrow> fabric_state \<Rightarrow> sync_result option rt2" where
  "dns_sync_cmd P ctx fl stage fs =
     (let policy = RouterDNSSyncPolicyForStage (ax_Config ctx) stage in
      cli_sync P ctx fl stage (GenerateRouterRoutingConfig (Some fs) (ax_Config ctx) stage)
        (flag_or (fl_dryRun fl) (dp_DryRun policy)) (dp_RequireReason policy))"

definition dns_shift_cmd ::
  "router_params \<Rightarrow> app_ctx \<Rightarrow> cli_flags \<Rightarrow> string \<Rightarrow> fabric_state \<Rightarrow> string \<Rightarrow> int \<Rightarrow> sync_result option rt2" where
  "dns_shift_cmd P ctx fl stage fs provider percent =
     (let policy = RouterDNSSyncPolicyForStage (ax_Config ctx) stage;
          dryRun = flag_or (fl_dryRun fl) (dp_DryRun policy);
          (ok, routing) = ApplyCanaryWeights (GenerateRouterRoutingConfig (Some fs) (ax_Config ctx) stage) provider percent
      in if \<not> ok then throwE (RECanaryNotFound provider)
         else cli_sync P ctx fl stage routing dryRun (dp_RequireReason policy \<and> \<not> dryRun))"

definition dns_reconcile_cmd ::
  "router_params \<Rightarrow> app_ctx \<Rightarrow> cli_flags \<Rightarrow> string \<Rightarrow> fabric_state \<Rightarrow> bool \<Rightarrow> sync_result option rt2" where
  "dns_reconcile_cmd P ctx fl stage fs apply =
     (let policy = RouterDNSSyncPolicyForStage (ax_Config ctx) stage in
      cli_sync P ctx fl stage (GenerateRouterRoutingConfig (Some fs) (ax_Config ctx) stage)
        (\<not> apply) (dp_RequireReason policy \<and> apply))"

text \<open>After a router deploy: with JSON output the command returns before the sync it was asked for.\<close>

definition post_deploy_sync ::
  "router_params \<Rightarrow> app_ctx \<Rightarrow> cli_flags \<Rightarrow> string \<Rightarrow> fabric_state \<Rightarrow> bool \<Rightarrow> bool \<Rightarrow> sync_result option rt2" where
  "post_deploy_sync P ctx fl stage fs json syncDNS =
     (if json then returnE None
      else if syncDNS \<or> dp_AutoApply (RouterDNSSyncPolicyForStage (ax_Config ctx) stage) then
        dns_sync_cmd P ctx fl stage fs
      else returnE None)"

definition lift_restore :: "restore_error + 'a \<Rightarrow> 'a rt2" where
  "lift_restore r = (case r of Inl e \<Rightarrow> throwE (RERestore e) | Inr s \<Rightarrow> returnE s)"

text \<open>\<^verbatim>\<open>dns-restore\<close> does not look at the policy's own dry run setting.\<close>

definition dns_restore_cmd ::
  "router_params \<Rightarrow> app_ctx \<Rightarrow> cli_flags \<Rightarrow> string \<Rightarrow> string \<Rightarrow> bool \<Rightarrow> bool \<Rightarrow> sync_result option rt2" where
  "dns_restore_cmd P ctx fl stage snapshotID latest dryRun =
     bindE (LoadRouterSyncHistory stage) (\<lambda>history.
     bindE (lift_restore (SelectRouterRestoreSnapshot history snapshotID latest)) (\<lambda>sn.
     let policy = RouterDNSSyncPolicyForStage (ax_Config ctx) stage in
     bindE (cli_gate fl stage policy (dp_RequireReason policy \<and> \<not> dryRun)) (\<lambda>_.
     bindE (resolveDNSProviderIDs (fl_zone fl) (fl_account fl) (dp_ZoneIDEnv policy) (dp_AccountIDEnv policy)) (\<lambda>(zone, account).
     runRouterDNSSyncWithPolicy P ctx (RouterRoutingConfigFromSnapshot (Some sn))
       (if TrimSpace zone = '''' then sn_ZoneID sn else zone)
       (if TrimSpace account = '''' then sn_AccountID sn else account) dryRun policy))))"

section \<open>Operations of the daemon\<close>

definition routerRoutingFromFabricState :: "app_ctx \<Rightarrow> string \<Rightarrow> fabric_state option \<Rightarrow> routing_config rt2" where
  "routerRoutingFromFabricState ctx stage fs = (case fs of None \<Rightarrow> throwE RENoEndpoints
     | Some s \<Rightarrow> if fs_Endpoints s = [] then throwE RENoEndpoints
        else case GenerateRouterRoutingConfig (Some s) (ax_Config ctx) stage of None \<Rightarrow> throwE RENoRouting
        | Some rc \<Rightarrow> if rc_Endpoints rc = [] then throwE RENoRouting else returnE rc)"

definition trigger_only :: "string \<Rightarrow> sync_options" where
  "trigger_only t = \<lparr>opt_OperationID = '''', opt_Trigger = t, opt_BeforeActions = [], opt_Events = []\<rparr>"

definition RouterShiftFromFabricState ::
  "router_params \<Rightarrow> app_ctx \<Rightarrow> string \<Rightarrow> fabric_state option \<Rightarrow> string \<Rightarrow> int \<Rightarrow> bool \<Rightarrow> sync_result option rt2" where
  "RouterShiftFromFabricState P ctx stage fs provider percent dryRun =
     bindE (routerRoutingFromFabricState ctx stage fs) (\<lambda>rc.
     let (ok, routing) = ApplyCanaryWeights (Some rc) provider percent;
         policy = RouterDNSSyncPolicyForStage (ax_Config ctx) stage in
     if \<not> ok then throwE (RECanaryNotFound provider)
     else bindE (RouterProviderIDs policy) (\<lambda>(zone, account).
       RouterDNSSyncWithOptions P (Some ctx) routing zone account (dryRun \<or> dp_DryRun policy)
         (trigger_only ''canary-shift'')))"

definition RouterRestoreFromSnapshot ::
  "router_params \<Rightarrow> app_ctx \<Rightarrow> string \<Rightarrow> string \<Rightarrow> bool \<Rightarrow> bool \<Rightarrow> sync_result option rt2" where
  "RouterRestoreFromSnapshot P ctx stage snapshotID latest dryRun =
     bindE (LoadRouterSyncHistory stage) (\<lambda>history.
     bindE (lift_restore (SelectRouterRestoreSnapshot history snapshotID latest)) (\<lambda>sn.
     let policy = RouterDNSSyncPolicyForStage (ax_Config ctx) stage in
     bindE (RouterProviderIDs policy) (\<lambda>(zone, account).
     RouterDNSSyncWithOptions P (Some ctx) (RouterRoutingConfigFromSnapshot (Some sn))
       (if zone = '''' then sn_ZoneID sn else zone) (if account = '''' then sn_AccountID sn else account)
       (dryRun \<or> dp_DryRun policy) (trigger_only ''restore''))))"

definition RouterHistoryFromFabricState :: "string \<Rightarrow> int \<Rightarrow> (sync_snapshot list \<times> history_analytics) rt2" where
  "RouterHistoryFromFabricState stage window = bindE (LoadRouterSyncHistory stage) (\<lambda>h.
     returnE (h, AnalyzeRouterSyncHistory h (if window \<le> 0 then 5 else window)))"

definition RouterSimulateFromFabricState ::
  "app_ctx \<Rightarrow> string \<Rightarrow> fabric_state option \<Rightarrow> int \<Rightarrow> string list \<Rightarrow> simulation_result rt2" where
  "RouterSimulateFromFabricState ctx stage fs requests down =
     bindE (routerRoutingFromFabricState ctx stage fs) (\<lambda>rc. returnE (SimulateRouterRouting (Some rc) requests down))"

definition RouterVerifyFailoverFromFabricState ::
  "app_ctx \<Rightarrow> string \<Rightarrow> fabric_state option \<Rightarrow> int \<Rightarrow> chaos_verification rt2" where
  "RouterVerifyFailoverFromFabricState ctx stage fs requests =
     bindE (routerRoutingFromFabricState ctx stage fs) (\<lambda>rc. returnE (VerifyRouterFailover (Some rc) requests))"

end
