(* ===== verification/Router_Dry.thy ===== *)
theory Router_Dry
  imports Router_Sync
begin

text \<open>
  Which operations of the router reach the plugin, and which of them change anything there:
  \<open>logs Q m\<close> says that every plugin call \<open>m\<close> makes satisfies \<open>Q\<close>; a mutating call anywhere in a
  sequence shows that everything that only makes dry-run calls before it has succeeded.
\<close>

definition new_calls :: "rworld \<Rightarrow> rworld \<Rightarrow> (sync_request \<times> string) list" where
  "new_calls w w' = drop (length (rw_log w)) (rw_log w')"

definition extends :: "rworld \<Rightarrow> rworld \<Rightarrow> bool" where
  "extends w w' \<longleftrightarrow> (\<exists>new. rw_log w' = rw_log w @ new)"

definition logs :: "(sync_request \<times> string \<Rightarrow> bool) \<Rightarrow> 'a rt2 \<Rightarrow> bool" where
  "logs Q m \<longleftrightarrow> (\<forall>w. extends w (snd (m w)) \<and> (\<forall>e \<in> set (new_calls w (snd (m w))). Q e))"

definition is_dry :: "sync_request \<times> string \<Rightarrow> bool" where
  "is_dry e \<longleftrightarrow> sq_DryRun (fst e)"

abbreviation grows :: "'a rt2 \<Rightarrow> bool" where
  "grows \<equiv> logs (\<lambda>_. True)"

definition mutates :: "'a rt2 \<Rightarrow> rworld \<Rightarrow> bool" where
  "mutates m w \<longleftrightarrow> (\<exists>e \<in> set (new_calls w (snd (m w))). \<not> is_dry e)"

named_theorems log_intros

lemma extends_refl [simp]: "extends w w"
  by (simp add: extends_def)

lemma extends_trans: "extends w w1 \<Longrightarrow> extends w1 w2 \<Longrightarrow> extends w w2"
  by (auto simp: extends_def)

lemma new_calls_split: "extends w w1 \<Longrightarrow> extends w1 w2 \<Longrightarrow> new_calls w w2 = new_calls w w1 @ new_calls w1 w2"
  by (auto simp: extends_def new_calls_def)

lemma logs_run:
  assumes "logs Q m" and "m w = (r, w1)"
  shows "extends w w1" and "\<forall>e \<in> set (new_calls w w1). Q e"
  using assms unfolding logs_def by (metis snd_conv)+

lemma logs_silent: "(\<And>w. rw_log (snd (m w)) = rw_log w) \<Longrightarrow> logs Q m"
  by (simp add: logs_def extends_def new_calls_def)

lemma logs_return [log_intros]: "logs Q (returnE a)"
  by (rule logs_silent) simp

lemma logs_throw [log_intros]: "logs Q (throwE e)"
  by (rule logs_silent) simp

lemma logs_getenv [log_intros]: "logs Q (getenv k)"
  by (rule logs_silent) (simp add: getenv_def)

lemma logs_setenv [log_intros]: "logs Q (setenv k v)"
  by (rule logs_silent) (simp add: setenv_def)

lemma logs_now [log_intros]: "logs Q now_ns"
  by (rule logs_silent) (simp add: now_ns_def)

lemma logs_bind [log_intros]:
  assumes "logs Q m" and "\<And>a. logs Q (f a)"
  shows "logs Q (bindE m f)"
  unfolding logs_def
proof
  fix w
  obtain r w1 where m: "m w = (r, w1)" by (cases "m w")
  note 1 = logs_run [OF assms(1) m]
  show "extends w (snd (bindE m f w)) \<and> (\<forall>e \<in> set (new_calls w (snd (bindE m f w))). Q e)"
  proof (cases r)
    case (Inl e)
    then show ?thesis using 1 m by (simp add: bindE_def)
  next
    case (Inr a)
    obtain r2 w2 where f: "f a w1 = (r2, w2)" by (cases "f a w1")
    note 2 = logs_run [OF assms(2) f]
    have "snd (bindE m f w) = w2" using m f Inr by (simp add: bindE_def)
    then show ?thesis
      using 1(2) 2(2) extends_trans [OF 1(1) 2(1)] by (simp only: new_calls_split [OF 1(1) 2(1)]) auto
  qed
qed

lemma logs_if [log_intros]: "logs Q m \<Longrightarrow> logs Q m' \<Longrightarrow> logs Q (if b then m else m')"
  by simp

lemma logs_option [log_intros]:
  "logs Q m \<Longrightarrow> (\<And>a. logs Q (f a)) \<Longrightarrow> logs Q (case x of None \<Rightarrow> m | Some a \<Rightarrow> f a)"
  by (cases x) auto

lemma logs_sum [log_intros]:
  "(\<And>e. logs Q (g e)) \<Longrightarrow> (\<And>a. logs Q (f a)) \<Longrightarrow> logs Q (case x of Inl e \<Rightarrow> g e | Inr a \<Rightarrow> f a)"
  by (cases x) auto

lemma logs_prod [log_intros]: "(\<And>a b. logs Q (f a b)) \<Longrightarrow> logs Q (case x of (a, b) \<Rightarrow> f a b)"
  by (cases x) auto

lemma logs_finally [log_intros]:
  assumes "logs Q m" and "\<And>w. rw_log (g w) = rw_log w"
  shows "logs Q (finallyE m g)"
  unfolding logs_def
proof
  fix w
  obtain r w1 where m: "m w = (r, w1)" by (cases "m w")
  show "extends w (snd (finallyE m g w)) \<and> (\<forall>e \<in> set (new_calls w (snd (finallyE m g w))). Q e)"
    using logs_run [OF assms(1) m] by (simp add: finallyE_def m extends_def new_calls_def assms(2))
qed

lemma mutates_bind:
  assumes "mutates (bindE m f) w" and "logs is_dry m" and "\<And>a. grows (f a)"
  obtains a w1 where "m w = (Inr a, w1)" and "mutates (f a) w1" and "extends w w1"
proof -
  obtain r w1 where m: "m w = (r, w1)" by (cases "m w")
  note 1 = logs_run [OF assms(2) m]
  show thesis
  proof (cases r)
    case (Inl e)
    then have "snd (bindE m f w) = w1" using m by (simp add: bindE_def)
    with assms(1) 1 show thesis by (auto simp: mutates_def)
  next
    case (Inr a)
    obtain r2 w2 where f: "f a w1 = (r2, w2)" by (cases "f a w1")
    have eq: "snd (bindE m f w) = w2" using m f Inr by (simp add: bindE_def)
    have "mutates (f a) w1"
      using assms(1) 1(2)
      unfolding mutates_def eq f snd_conv new_calls_split [OF 1(1) logs_run(1) [OF assms(3) f]] by auto
    then show thesis using that m Inr 1(1) by blast
  qed
qed

lemma dry_not_mutates: "logs is_dry m \<Longrightarrow> \<not> mutates m w"
  by (auto simp: logs_def mutates_def)

section \<open>The operations of the sync\<close>

lemma logs_history_io [log_intros]: "logs Q history_io"
  by (rule logs_silent) (simp add: history_io_def)

lemma logs_Load [log_intros]: "logs Q (LoadRouterSyncHistory stage)"
  unfolding LoadRouterSyncHistory_def
  by (intro logs_bind logs_history_io) (rule logs_silent, simp split: option.split history_file.split)

lemma logs_Save [log_intros]: "logs Q (SaveRouterSyncHistory stage h)"
  unfolding SaveRouterSyncHistory_def
  by (intro logs_bind logs_history_io) (rule logs_silent, simp)

lemma logs_Append [log_intros]: "logs Q (AppendRouterSyncSnapshot stage sn keep)"
  unfolding AppendRouterSyncSnapshot_def by (intro log_intros)

lemma logs_secret [log_intros]: "logs Q (ResolveRouterAPITokenSecretRef P secrets r)"
  unfolding ResolveRouterAPITokenSecretRef_def Let_def
  by (intro logs_if logs_return logs_option logs_throw) (rule logs_silent, simp split: sum.split)

lemma logs_token_file [log_intros]: "logs Q (token_file p)"
  by (rule logs_silent) (simp add: token_file_def Let_def split: option.split)

lemma logs_resolve [log_intros]: "logs Q (resolveRouterAPIToken P secrets policy)"
  unfolding resolveRouterAPIToken_def Let_def by (intro log_intros)

lemma logs_prime [log_intros]: "logs Q (PrimeRouterAPIToken P secrets policy)"
  unfolding PrimeRouterAPIToken_def by (intro log_intros)

lemma logs_cli_prime [log_intros]: "logs Q (cli_primeRouterAPIToken P secrets policy)"
  unfolding cli_primeRouterAPIToken_def by (intro log_intros)

lemma logs_ids [log_intros]: "logs Q (RouterProviderIDs policy)" "logs Q (resolveDNSProviderIDs a b c d)"
  unfolding RouterProviderIDs_def resolveDNSProviderIDs_def Let_def by (intro log_intros)+

lemma logs_Sync: "(\<And>r t. sq_DryRun r = sq_DryRun req \<Longrightarrow> Q (r, t)) \<Longrightarrow> logs Q (SyncRouter P req)"
  by (auto simp: SyncRouter_def logs_def extends_def new_calls_def Let_def split: option.split sum.split)

lemma logs_SyncWithOptions:
  assumes "\<And>req t. sq_DryRun req = dryRun \<Longrightarrow> Q (req, t)"
  shows "logs Q (RouterDNSSyncWithOptions P actx routing zone account dryRun opts)"
  unfolding RouterDNSSyncWithOptions_def Let_def
  by (intro log_intros logs_Sync) (simp_all add: assms restore_token_def)

lemma logs_event [log_intros]: "logs Q (event p msg s)"
  unfolding event_def by (intro log_intros)

lemma logs_mutation [log_intros]: "logs Q (enforceRouterMutationPolicy mp r)"
  unfolding enforceRouterMutationPolicy_def Let_def by (intro log_intros)

lemma logs_check [log_intros]: "logs Q (check b e)"
  unfolding check_def by (intro log_intros)

lemma logs_parse [log_intros]: "logs Q (parse_or_zero P raw e)"
  unfolding parse_or_zero_def by (intro log_intros)

lemma logs_credential [log_intros]: "logs Q (enforceRouterCredentialPolicy P cp now)"
  unfolding enforceRouterCredentialPolicy_def Let_def by (intro log_intros)

lemma logs_gate [log_intros]: "logs Q (enforceDNSSyncStageGateWithPolicy a b c d e f)"
  unfolding enforceDNSSyncStageGateWithPolicy_def require_approval_def Let_def by (intro log_intros)

lemma logs_cli_gate [log_intros]: "logs Q (cli_gate fl stage policy rr)"
  unfolding cli_gate_def by (rule logs_gate)

lemma logs_preflight: "(\<And>req t. sq_DryRun req \<Longrightarrow> Q (req, t)) \<Longrightarrow> logs Q (preflight P routing zone account policy evs)"
  unfolding preflight_def by (intro log_intros logs_Sync) simp_all

lemma dry_preflight: "logs is_dry (preflight P routing zone account policy evs)"
  by (rule logs_preflight) (simp add: is_dry_def)

lemma grows_SyncWithOptions: "grows (RouterDNSSyncWithOptions P actx routing zone account dryRun opts)"
  by (rule logs_SyncWithOptions) simp

lemma grows_run: "grows (runRouterDNSSyncWithPolicy P ctx routing zone account dryRun policy)"
  unfolding runRouterDNSSyncWithPolicy_def
  by (intro log_intros logs_preflight grows_SyncWithOptions) simp_all

section \<open>The environment\<close>

text \<open>Only the token variable is ever set.\<close>

definition same_env :: "rworld \<Rightarrow> rworld \<Rightarrow> bool" where
  "same_env w w' \<longleftrightarrow> (\<forall>k. k \<noteq> token_env \<longrightarrow> rw_env w' k = rw_env w k)"

end
