(* ===== verification/Router_Sync_Claims.thy ===== *)
theory Router_Sync_Claims
  imports Router_Dry
begin

text \<open>
  Properties of the DNS sync: the gates a mutating call has passed, the token that does not stay
  behind, the history it leaves and what a restore brings back.
\<close>

section \<open>Steps that leave the world as it is\<close>

lemma getenv_apply [simp]: "getenv k w = (Inr (rw_env w k), w)"
  by (simp add: getenv_def)

lemma setenv_apply [simp]: "setenv k v w = (Inr (), w\<lparr>rw_env := (rw_env w)(k := v)\<rparr>)"
  by (simp add: setenv_def)

lemma now_apply [simp]: "now_ns w = (Inr (rw_wall w (rw_ticks w)), w\<lparr>rw_ticks := Suc (rw_ticks w)\<rparr>)"
  by (simp add: now_ns_def)

lemma check_apply: "check b e w = (if b then Inr () else Inl e, w)"
  by (simp add: check_def)

lemma gate_apply:
  "enforceDNSSyncStageGateWithPolicy stage allow enforce m rr renv w =
   (let s = (if ToLower stage = '''' then ''dev'' else ToLower stage);
        re = (if TrimSpace renv = '''' then ''RUNFABRIC_DNS_SYNC_REASON'' else renv);
        ap = (\<lambda>st fb. let env = lookupApprovalEnv m st fb in
          if ToLower (rw_env w env) \<noteq> ''true'' then Inl (REApproval env) else Inr ())
    in (if s = ''prod'' \<and> \<not> allow then Inl REProdGate
        else if rr \<and> TrimSpace (rw_env w re) = '''' then Inl (REReason re)
        else if \<not> enforce \<or> s = ''dev'' then Inr ()
        else if s = ''staging'' then ap ''staging'' ''RUNFABRIC_DNS_SYNC_DEV_APPROVED''
        else if s = ''prod'' then ap ''prod'' ''RUNFABRIC_DNS_SYNC_STAGING_APPROVED''
        else Inl (REStage stage), w))"
  by (simp add: enforceDNSSyncStageGateWithPolicy_def require_approval_def Let_def bindE_apply)

lemma ids_apply: "\<exists>ids. resolveDNSProviderIDs zf af ze ae w = (Inr ids, w)"
  by (auto simp: resolveDNSProviderIDs_def Let_def bindE_apply)

lemma secret_world: "snd (ResolveRouterAPITokenSecretRef P secrets r w) = w"
  by (auto simp: ResolveRouterAPITokenSecretRef_def Let_def split: option.split sum.split)

lemma token_file_world: "snd (token_file p w) = w"
  by (auto simp: token_file_def Let_def split: option.split)

lemma cli_prime_env: "same_env w (snd (cli_primeRouterAPIToken P secrets policy w))"
  using secret_world [of P secrets "dp_APITokenSecretRef policy" w] token_file_world [of _ w]
  by (auto simp: cli_primeRouterAPIToken_def same_env_def bindE_apply split: sum.split prod.split)
     (metis snd_conv)+

lemma event_apply: "event p msg c w = (Inr \<lparr>ev_Timestamp = fmt_time (rw_wall w (rw_ticks w)), ev_Phase = p,
    ev_Message = msg, ev_Summary = c\<rparr>, w\<lparr>rw_ticks := Suc (rw_ticks w)\<rparr>)"
  by (simp add: event_def bindE_apply)

lemma parse_apply: "parse_or_zero P raw err w =
    (if raw = '''' then Inr zero_time else case rp_parse P raw of None \<Rightarrow> Inl err | Some t \<Rightarrow> Inr t, w)"
  by (simp add: parse_or_zero_def split: option.split)

section \<open>The credential policy\<close>

text \<open>
  The credential policy accepts a token exactly when it is attested (if that is required), its
  times parse, its lifetime is positive and within the limit, enough of it remains, and it has
  not expired; a policy that is not enabled accepts everything.
\<close>

theorem enforceRouterCredentialPolicy_accepts:
  "fst (enforceRouterCredentialPolicy P policy now w) = Inr () \<longleftrightarrow>
   (\<not> cp_Enabled policy \<or>
    (let att = TrimSpace (rw_env w (or_default (cp_AttestationEnv policy) ''RUNFABRIC_ROUTER_TOKEN_ATTESTED''));
         ir = TrimSpace (rw_env w (or_default (cp_IssuedAtEnv policy) ''RUNFABRIC_ROUTER_TOKEN_ISSUED_AT''));
         er = TrimSpace (rw_env w (or_default (cp_ExpiresAtEnv policy) ''RUNFABRIC_ROUTER_TOKEN_EXPIRES_AT''))
     in (cp_RequireAttestation policy \<longrightarrow> EqualFold att ''true'') \<and>
        (ir \<noteq> '''' \<longrightarrow> rp_parse P ir \<noteq> None) \<and> (er \<noteq> '''' \<longrightarrow> rp_parse P er \<noteq> None) \<and>
        (let issued = (if ir = '''' then zero_time else the (rp_parse P ir));
             expires = (if er = '''' then zero_time else the (rp_parse P er))
         in (0 < cp_MaxTTLSeconds policy \<longrightarrow> ir \<noteq> '''' \<and> er \<noteq> '''' \<and>
               0 < sat64 (expires - issued) \<and> sat64 (expires - issued) \<le> secs (cp_MaxTTLSeconds policy)) \<and>
            (0 < cp_MinRemainingSeconds policy \<longrightarrow> er \<noteq> '''' \<and>
               secs (cp_MinRemainingSeconds policy) \<le> sat64 (expires - now)) \<and>
            (expires = zero_time \<or> now \<le> expires))))"
  by (auto simp: enforceRouterCredentialPolicy_def Let_def bindE_apply check_apply parse_apply
      split: option.splits if_splits)

definition demo_params :: router_params where
  "demo_params = \<lparr>rp_plugin = (\<lambda>n req. Inr (Some \<lparr>sr_DryRun = sq_DryRun req, sr_Actions =
       [\<lparr>sa_Resource = ''dns_record'', sa_Action = ''update'', sa_Name = ''svc'', sa_Detail = ''''\<rparr>]\<rparr>)),
     rp_parse = (\<lambda>s. if s = ''T0'' then Some 0 else if s = ''T1'' then Some (1000 * 10 ^ 9) else None),
     rp_globals = \<lparr>sg_resolver = None, sg_schemes = []\<rparr>, rp_pluginID = (\<lambda>_. ''cloudflare'')\<rparr>"

definition demo_world :: "(string \<Rightarrow> string) \<Rightarrow> rworld" where
  "demo_world env = \<lparr>rw_history = [], rw_env = env, rw_files = (\<lambda>_. None), rw_ticks = 0,
     rw_wall = (\<lambda>n. int n), rw_fails = (\<lambda>_. False), rw_log = []\<rparr>"

definition demo_credential :: credential_policy where
  "demo_credential = (dp_CredentialPolicy default_policy)\<lparr>cp_Enabled := True\<rparr>"

definition attested_env :: "string \<Rightarrow> string" where
  "attested_env k = (if k = ''RUNFABRIC_ROUTER_TOKEN_ATTESTED'' then ''true''
     else if k = ''RUNFABRIC_ROUTER_TOKEN_ISSUED_AT'' then ''T0''
     else if k = ''RUNFABRIC_ROUTER_TOKEN_EXPIRES_AT'' then ''T1'' else '''')"

theorem enforceRouterCredentialPolicy_accepts_witness:
  "fst (enforceRouterCredentialPolicy demo_params demo_credential 0 (demo_world attested_env)) = Inr ()"
proof -
  have t: "TrimSpace ''T0'' = ''T0''" "TrimSpace ''T1'' = ''T1''" "TrimSpace ''true'' = ''true''"
    "or_default ''RUNFABRIC_ROUTER_TOKEN_ATTESTED'' x = ''RUNFABRIC_ROUTER_TOKEN_ATTESTED''"
    "or_default ''RUNFABRIC_ROUTER_TOKEN_ISSUED_AT'' x = ''RUNFABRIC_ROUTER_TOKEN_ISSUED_AT''"
    "or_default ''RUNFABRIC_ROUTER_TOKEN_EXPIRES_AT'' x = ''RUNFABRIC_ROUTER_TOKEN_EXPIRES_AT''" for x
    by code_simp+
  show ?thesis
    unfolding enforceRouterCredentialPolicy_accepts
    by (simp add: demo_credential_def default_policy_def demo_world_def attested_env_def t demo_params_def
        Let_def sat64_def secs_def wrap64_def)
qed

section \<open>What a mutating call of the CLI has passed\<close>

lemma preflight_ok:
  assumes "preflight P routing zone account policy evs w = (Inr x, w')"
  shows "\<exists>res req. sq_DryRun req \<and> rp_plugin P (length (rw_log w)) req = Inr (Some res) \<and>
    (req, rw_env w token_env) \<in> set (new_calls w w') \<and>
    (mp_Enabled (dp_MutationPolicy policy) \<longrightarrow>
       EqualFold (TrimSpace (rw_env w (or_default (mp_ApprovalEnv (dp_MutationPolicy policy)) ''RUNFABRIC_DNS_SYNC_RISK_APPROVED''))) ''true'' \<or>
       (\<forall>a \<in> set (sr_Actions res). \<not> is_risky (dp_MutationPolicy policy) a) \<and>
       (0 < mp_MaxMutations (dp_MutationPolicy policy) \<longrightarrow>
          int (length (filter is_mutation (sr_Actions res))) \<le> mp_MaxMutations (dp_MutationPolicy policy)))"
proof -
  let ?req = "\<lparr>sq_Routing = map_option adapter_routing routing, sq_ZoneID = zone, sq_AccountID = account, sq_DryRun = True\<rparr>"
  let ?w1 = "w\<lparr>rw_log := rw_log w @ [(?req, rw_env w token_env)]\<rparr>"
  let ?w2 = "?w1\<lparr>rw_ticks := Suc (rw_ticks w)\<rparr>"
  from assms obtain res where p: "rp_plugin P (length (rw_log w)) ?req = Inr (Some res)"
    and m: "mp_Enabled (dp_MutationPolicy policy) \<longrightarrow> fst (enforceRouterMutationPolicy (dp_MutationPolicy policy) (Some res) ?w2) = Inr ()"
    and w': "rw_log w' = rw_log ?w1"
    by (auto simp: preflight_def SyncRouter_def Let_def bindE_apply event_apply enforceRouterMutationPolicy_def
        split: option.splits sum.splits if_splits)
  have "(?req, rw_env w token_env) \<in> set (new_calls w w')" by (simp add: new_calls_def w')
  moreover have "mp_Enabled (dp_MutationPolicy policy) \<longrightarrow>
       EqualFold (TrimSpace (rw_env w (or_default (mp_ApprovalEnv (dp_MutationPolicy policy)) ''RUNFABRIC_DNS_SYNC_RISK_APPROVED''))) ''true'' \<or>
       (\<forall>a \<in> set (sr_Actions res). \<not> is_risky (dp_MutationPolicy policy) a) \<and>
       (0 < mp_MaxMutations (dp_MutationPolicy policy) \<longrightarrow>
          int (length (filter is_mutation (sr_Actions res))) \<le> mp_MaxMutations (dp_MutationPolicy policy))"
    using m by (auto simp: enforceRouterMutationPolicy_def Let_def bindE_apply filter_empty_conv split: if_splits)
  ultimately show ?thesis using p by (intro exI [of _ res] exI [of _ ?req]) simp
qed

lemma cred_world: "snd (enforceRouterCredentialPolicy P cp now w) = w"
  by (auto simp: enforceRouterCredentialPolicy_def Let_def bindE_apply check_apply parse_apply
      split: option.splits if_splits)

text \<open>The chain of a mutating run, from the command down to the plugin.\<close>

definition passed_guards ::
  "router_params \<Rightarrow> dns_policy \<Rightarrow> rworld \<Rightarrow> rworld \<Rightarrow> bool" where
  "passed_guards P policy w w' \<longleftrightarrow>
     (\<exists>now wc. same_env w wc \<and> fst (enforceRouterCredentialPolicy P (dp_CredentialPolicy policy) now wc) = Inr ()) \<and>
     (\<exists>res req tok n. sq_DryRun req \<and> (req, tok) \<in> set (new_calls w w') \<and> rp_plugin P n req = Inr (Some res) \<and>
       (mp_Enabled (dp_MutationPolicy policy) \<longrightarrow>
         (\<exists>wp. same_env w wp \<and>
           EqualFold (TrimSpace (rw_env wp (or_default (mp_ApprovalEnv (dp_MutationPolicy policy)) ''RUNFABRIC_DNS_SYNC_RISK_APPROVED''))) ''true'') \<or>
         (\<forall>a \<in> set (sr_Actions res). \<not> is_risky (dp_MutationPolicy policy) a) \<and>
         (0 < mp_MaxMutations (dp_MutationPolicy policy) \<longrightarrow>
            int (length (filter is_mutation (sr_Actions res))) \<le> mp_MaxMutations (dp_MutationPolicy policy))))"

lemma new_calls_mid:
  "extends w w1 \<Longrightarrow> extends w1 w2 \<Longrightarrow> extends w2 w3 \<Longrightarrow> set (new_calls w1 w2) \<subseteq> set (new_calls w w3)"
  by (auto simp: extends_def new_calls_def)

lemma snd_eqD: "snd p = y \<Longrightarrow> p = (r, z) \<Longrightarrow> z = y" by simp

lemma silent_log:
  assumes "logs (\<lambda>_. False) m"
  shows "rw_log (snd (m w)) = rw_log w"
proof -
  obtain new where n: "rw_log (snd (m w)) = rw_log w @ new" and "\<forall>e \<in> set new. False"
    using assms by (auto simp: logs_def extends_def new_calls_def dest!: spec [of _ w])
  then have "new = []" by (cases new) auto
  with n show ?thesis by simp
qed

lemma run_tail:
  assumes m_def: "m = bindE (if dryRun then returnE ([], evs) else preflight P routing zone account policy evs)
     (\<lambda>(before, events). RouterDNSSyncWithOptions P actx routing zone account dryRun (opts before events))"
    and mut: "mutates m w"
  shows "\<not> dryRun \<and> (\<exists>x w3. preflight P routing zone account policy evs w = (Inr x, w3) \<and> extends w w3 \<and> extends w3 (snd (m w)))"
proof (rule mutates_bind [OF mut [unfolded m_def]])
  show "logs is_dry (if dryRun then returnE ([], evs) else preflight P routing zone account policy evs)"
    by (intro log_intros dry_preflight)
  show "grows (case a of (before, events) \<Rightarrow>
      RouterDNSSyncWithOptions P actx routing zone account dryRun (opts before events))" for a
    by (intro log_intros grows_SyncWithOptions)
  fix a w1
  assume h: "(if dryRun then returnE ([], evs) else preflight P routing zone account policy evs) w = (Inr a, w1)"
    and t: "mutates (case a of (before, events) \<Rightarrow>
      RouterDNSSyncWithOptions P actx routing zone account dryRun (opts before events)) w1" and e: "extends w w1"
  obtain b es where a: "a = (b, es)" by (cases a)
  have "\<not> dryRun"
  proof
    assume dryRun
    then have "logs is_dry (RouterDNSSyncWithOptions P actx routing zone account dryRun (opts b es))"
      by (intro logs_SyncWithOptions) (simp add: is_dry_def)
    with t show False by (simp add: a dry_not_mutates)
  qed
  moreover have "extends w1 (snd (RouterDNSSyncWithOptions P actx routing zone account dryRun (opts b es) w1))"
    using grows_SyncWithOptions unfolding logs_def by blast
  ultimately show ?thesis using h e by (auto simp: a bindE_def m_def)
qed

text \<open>Everything a mutating run does before its preview leaves the plugin alone.\<close>

lemma run_mutates:
  assumes m: "mutates (runRouterDNSSyncWithPolicy P ctx routing zone account dryRun policy) w"
  shows "\<not> dryRun \<and> passed_guards P policy w (snd (runRouterDNSSyncWithPolicy P ctx routing zone account dryRun policy w))"
proof -
  let ?run = "runRouterDNSSyncWithPolicy P ctx routing zone account dryRun policy"
  let ?w2 = "w\<lparr>rw_ticks := Suc (Suc (rw_ticks w))\<rparr>"
  obtain r w3 where p: "cli_primeRouterAPIToken P (ax_Secrets ctx) policy ?w2 = (r, w3)" by fastforce
  let ?now = "rw_wall w3 (rw_ticks w3)" and ?w4 = "w3\<lparr>rw_ticks := Suc (rw_ticks w3)\<rparr>"
  have l3: "rw_log w3 = rw_log w"
    using silent_log [OF logs_cli_prime, of P "ax_Secrets ctx" policy ?w2] by (simp add: p)
  have e3: "same_env w ?w4"
    using cli_prime_env [of ?w2 P "ax_Secrets ctx" policy] by (simp add: p same_env_def)
  obtain c where c: "enforceRouterCredentialPolicy P (dp_CredentialPolicy policy) ?now ?w4 = (c, ?w4)"
    using cred_world [of P "dp_CredentialPolicy policy" ?now ?w4] by (metis prod.collapse)
  define ev where "ev = \<lparr>ev_Timestamp = fmt_time (rw_wall w (Suc (rw_ticks w))), ev_Phase = ''start'',
    ev_Message = ''router sync started (dryRun='' @ (if dryRun then ''true'' else ''false'') @ '')'', ev_Summary = no_actions\<rparr>"
  let ?tail = "bindE (if dryRun then returnE ([], [ev]) else preflight P routing zone account policy [ev]) (\<lambda>(before, events).
     RouterDNSSyncWithOptions P (Some ctx) routing zone account dryRun
       \<lparr>opt_OperationID = ''router-sync-'' @ itoa (rw_wall w (rw_ticks w)), opt_Trigger = ''cli-router'',
        opt_BeforeActions = before, opt_Events = events\<rparr>)"
  have run: "?run w = (case r of Inl e \<Rightarrow> (Inl e, w3) | Inr _ \<Rightarrow> (case c of Inl e \<Rightarrow> (Inl e, ?w4) | Inr _ \<Rightarrow> ?tail ?w4))"
    using p c by (simp add: runRouterDNSSyncWithPolicy_def bindE_apply event_apply ev_def split: sum.split)
  have "\<exists>u v. r = Inr u \<and> c = Inr v"
    using m by (cases r; cases c) (auto simp: mutates_def run new_calls_def l3)
  then have run': "?run w = ?tail ?w4" and ok: "c = Inr ()" by (auto simp: run)
  have "mutates ?tail ?w4" using m by (simp add: mutates_def run' new_calls_def l3)
  from run_tail [OF refl this] obtain x w5 where d: "\<not> dryRun"
    and pf: "preflight P routing zone account policy [ev] ?w4 = (Inr x, w5)"
    and e5: "extends ?w4 w5" "extends w5 (snd (?run w))"
    unfolding run' [symmetric] by blast
  have e4: "extends w ?w4" by (simp add: extends_def l3)
  obtain res req where "sq_DryRun req" "rp_plugin P (length (rw_log ?w4)) req = Inr (Some res)"
    "(req, rw_env ?w4 token_env) \<in> set (new_calls w (snd (?run w)))"
    and g: "mp_Enabled (dp_MutationPolicy policy) \<longrightarrow>
       EqualFold (TrimSpace (rw_env ?w4 (or_default (mp_ApprovalEnv (dp_MutationPolicy policy)) ''RUNFABRIC_DNS_SYNC_RISK_APPROVED''))) ''true'' \<or>
       (\<forall>a \<in> set (sr_Actions res). \<not> is_risky (dp_MutationPolicy policy) a) \<and>
       (0 < mp_MaxMutations (dp_MutationPolicy policy) \<longrightarrow>
          int (length (filter is_mutation (sr_Actions res))) \<le> mp_MaxMutations (dp_MutationPolicy policy))"
    using preflight_ok [OF pf] new_calls_mid [OF e4 e5] by blast
  then have "passed_guards P policy w (snd (?run w))"
    unfolding passed_guards_def using e3 c ok by (metis fst_conv)
  with d show ?thesis by simp
qed

section \<open>The gates\<close>

definition gate_open :: "cli_flags \<Rightarrow> string \<Rightarrow> dns_policy \<Rightarrow> bool \<Rightarrow> (string \<Rightarrow> string) \<Rightarrow> bool" where
  "gate_open fl stage policy requireReason env \<longleftrightarrow>
     (ToLower stage = ''prod'' \<longrightarrow> flag_or (fl_allowProd fl) (dp_AllowProdSync policy)) \<and>
     (requireReason \<longrightarrow> TrimSpace (env (if TrimSpace (dp_ReasonEnv policy) = '''' then ''RUNFABRIC_DNS_SYNC_REASON''
        else dp_ReasonEnv policy)) \<noteq> '''') \<and>
     (flag_or (fl_enforceRollout fl) (dp_EnforceStageRollout policy) \<longrightarrow>
        ToLower stage \<in> {'''', ''dev''} \<or>
        ToLower stage = ''staging'' \<and> ToLower (env (lookupApprovalEnv (dp_ApprovalEnvByStage policy) ''staging'' ''RUNFABRIC_DNS_SYNC_DEV_APPROVED'')) = ''true'' \<or>
        ToLower stage = ''prod'' \<and> ToLower (env (lookupApprovalEnv (dp_ApprovalEnvByStage policy) ''prod'' ''RUNFABRIC_DNS_SYNC_STAGING_APPROVED'')) = ''true'')"

lemma cli_gate_world: "snd (cli_gate fl stage policy rr w) = w"
  by (simp add: cli_gate_def gate_apply Let_def)

lemma cli_gate_open: "fst (cli_gate fl stage policy rr w) = Inr u \<Longrightarrow> gate_open fl stage policy rr (rw_env w)"
  unfolding cli_gate_def gate_apply gate_open_def Let_def by (auto split: if_splits)

text \<open>
  C2. No gate is skipped. If a command built on \<^verbatim>\<open>dns-sync\<close> reaches the router plugin with a call that
  may change DNS, then it was not a dry run, the production gate was open, a reason had been given where
  the policy asks for one, the rollout approval of the stage was set, the credential policy had accepted
  the token's attestation and times, and a dry-run preview had been made whose mutations were within the
  mutation policy or approved.
\<close>

theorem cli_sync_mutation_guarded:
  assumes "mutates (cli_sync P ctx fl stage routing dryRun requireReason) w"
  defines "policy \<equiv> RouterDNSSyncPolicyForStage (ax_Config ctx) stage"
  shows "\<not> dryRun \<and> gate_open fl stage policy requireReason (rw_env w) \<and>
    passed_guards P policy w (snd (cli_sync P ctx fl stage routing dryRun requireReason w))"
proof -
  obtain g where g: "cli_gate fl stage policy requireReason w = (g, w)"
    using cli_gate_world by (metis prod.collapse)
  obtain zone account where ids: "resolveDNSProviderIDs (fl_zone fl) (fl_account fl) (dp_ZoneIDEnv policy)
      (dp_AccountIDEnv policy) w = (Inr (zone, account), w)"
    using ids_apply by (metis surj_pair)
  let ?run = "runRouterDNSSyncWithPolicy P ctx routing zone account dryRun policy"
  have eq: "cli_sync P ctx fl stage routing dryRun requireReason w = (case g of Inl e \<Rightarrow> (Inl e, w) | Inr _ \<Rightarrow> ?run w)"
    using g ids by (simp add: cli_sync_def policy_def Let_def bindE_apply split: sum.split)
  obtain u where u: "g = Inr u"
    using assms(1) by (cases g) (simp_all add: mutates_def eq new_calls_def)
  have "mutates ?run w" using assms(1) by (simp add: mutates_def eq u)
  moreover have "cli_sync P ctx fl stage routing dryRun requireReason w = ?run w" by (simp add: eq u)
  ultimately show ?thesis
    using run_mutates [of P ctx routing zone account dryRun policy w] cli_gate_open [of fl stage policy requireReason w u] g u
    by auto
qed

definition demo_ctx :: app_ctx where
  "demo_ctx = \<lparr>ax_Config = None, ax_Secrets = [], ax_Stage = ''dev''\<rparr>"

definition demo_flags :: cli_flags where
  "demo_flags = \<lparr>fl_dryRun = None, fl_allowProd = None, fl_enforceRollout = None, fl_zone = ''z'', fl_account = ''a''\<rparr>"

definition demo_rc :: routing_config where
  "demo_rc = \<lparr>rc_Contract = '''', rc_Service = ''svc'', rc_Stage = ''dev'', rc_Hostname = ''h'', rc_Strategy = ''round-robin'',
     rc_HealthPath = '''', rc_TTL = 60, rc_Endpoints = [], rc_DNS = None, rc_LoadBalancer = None\<rparr>"

theorem cli_sync_mutation_guarded_witness:
  "gate_open demo_flags ''dev'' (RouterDNSSyncPolicyForStage None ''dev'') False (\<lambda>_. '''')"
proof -
  have "mutates (cli_sync demo_params demo_ctx demo_flags ''dev'' (Some demo_rc) False False) (demo_world (\<lambda>_. ''''))"
    by code_simp
  from cli_sync_mutation_guarded [OF this] show ?thesis by (simp add: demo_world_def demo_ctx_def)
qed

end
