(* ===== verification/Router_Restore_Claims.thy ===== *)
theory Router_Restore_Claims
  imports Router_Sync_Claims "HOL-Library.Sublist"
begin

text \<open>
  What a sync leaves behind: the environment, the history, and what a restore makes of it. The last
  section compares the restore of the daemon with the restore of the command line.
\<close>

section \<open>The token\<close>

lemma resolve_world: "snd (resolveRouterAPIToken P secrets policy w) = w"
  using secret_world [of P secrets "TrimSpace (dp_APITokenSecretRef policy)" w] token_file_world [of _ w]
  by (auto simp: resolveRouterAPIToken_def Let_def bindE_apply)

lemma prime_cases:
  obtains (error) e where "PrimeRouterAPIToken P secrets policy w = (Inl e, w)"
    | (kept) "PrimeRouterAPIToken P secrets policy w = (Inr False, w)"
    | (primed) t where "PrimeRouterAPIToken P secrets policy w = (Inr True, w\<lparr>rw_env := (rw_env w)(token_env := t)\<rparr>)"
        and "TrimSpace (rw_env w token_env) = ''''"
proof -
  obtain r where r: "resolveRouterAPIToken P secrets policy w = (r, w)"
    using resolve_world by (metis prod.collapse)
  have p: "PrimeRouterAPIToken P secrets policy w =
      (if TrimSpace (rw_env w token_env) \<noteq> '''' then (Inr False, w)
       else case r of Inl e \<Rightarrow> (Inl e, w)
         | Inr t \<Rightarrow> if t = '''' then (Inr False, w) else (Inr True, w\<lparr>rw_env := (rw_env w)(token_env := t)\<rparr>))"
    using r by (simp add: PrimeRouterAPIToken_def bindE_apply split: sum.split)
  show thesis
  proof (cases "TrimSpace (rw_env w token_env) = ''''")
    case True
    then show thesis using that p by (cases r) (auto split: if_splits)
  next
    case False
    then show thesis using that(2) p by simp
  qed
qed

text \<open>\<open>keeps_env m\<close>: \<open>m\<close> sets no environment variable.\<close>

definition keeps_env :: "'a rt2 \<Rightarrow> bool" where
  "keeps_env m \<longleftrightarrow> (\<forall>w. rw_env (snd (m w)) = rw_env w)"

lemma keeps_env_bind: "keeps_env m \<Longrightarrow> (\<And>a. keeps_env (f a)) \<Longrightarrow> keeps_env (bindE m f)"
  by (simp add: keeps_env_def bindE_def split: prod.split sum.split) (metis snd_conv)

lemma keeps_env_basic: "keeps_env (returnE a)" "keeps_env (throwE e)" "keeps_env now_ns" "keeps_env history_io"
  by (simp_all add: keeps_env_def history_io_def)

lemma keeps_env_history: "keeps_env (LoadRouterSyncHistory s)" "keeps_env (SaveRouterSyncHistory s h)"
  by (auto simp: keeps_env_def LoadRouterSyncHistory_def SaveRouterSyncHistory_def bindE_apply history_io_def
      split: option.split history_file.split)

lemma keeps_env_append: "keeps_env (AppendRouterSyncSnapshot s sn k)"
  unfolding AppendRouterSyncSnapshot_def
  by (intro keeps_env_bind keeps_env_history) (auto intro!: keeps_env_bind keeps_env_basic)

lemma keeps_env_sync: "keeps_env (SyncRouter P req)"
  by (auto simp: keeps_env_def SyncRouter_def Let_def split: option.split sum.split)

definition sync_body ::
  "router_params \<Rightarrow> app_ctx \<Rightarrow> routing_config option \<Rightarrow> string \<Rightarrow> string \<Rightarrow> bool \<Rightarrow> sync_options \<Rightarrow> sync_result option rt2" where
  "sync_body P ctx routing zone account dryRun opts =
     bindE (SyncRouter P \<lparr>sq_Routing = routing, sq_ZoneID = zone, sq_AccountID = account, sq_DryRun = dryRun\<rparr>) (\<lambda>result.
          case routing of None \<Rightarrow> returnE result
          | Some rc \<Rightarrow>
             bindE (case result of None \<Rightarrow> returnE (base_snapshot P ctx rc zone account dryRun opts)
               | Some res \<Rightarrow> bindE now_ns (\<lambda>t. returnE (with_result (base_snapshot P ctx rc zone account dryRun opts) res t))) (\<lambda>sn.
             bindE (AppendRouterSyncSnapshot (sync_stage ctx routing) sn 30) (\<lambda>_. returnE result)))"

lemma keeps_env_body: "keeps_env (sync_body P ctx routing zone account dryRun opts)"
  unfolding sync_body_def
  by (intro keeps_env_bind keeps_env_sync)
     (auto split: option.split intro!: keeps_env_bind keeps_env_basic keeps_env_append)

lemma SyncWithOptions_eq:
  "RouterDNSSyncWithOptions P (Some ctx) routing zone account dryRun opts w =
   (case PrimeRouterAPIToken P (ax_Secrets ctx) (RouterDNSSyncPolicyForStage (ax_Config ctx) (sync_stage ctx routing)) w of
      (Inl e, w1) \<Rightarrow> (Inl e, w1)
    | (Inr primed, w1) \<Rightarrow> (case sync_body P ctx routing zone account dryRun opts w1 of (r, w2) \<Rightarrow> (r, restore_token primed w2)))"
  by (simp add: RouterDNSSyncWithOptions_def sync_body_def Let_def bindE_def [of "PrimeRouterAPIToken _ _ _"] finallyE_apply
      split: prod.split sum.split)

lemma sync_env:
  "rw_env (snd (RouterDNSSyncWithOptions P actx routing zone account dryRun opts w)) = rw_env w \<or>
   TrimSpace (rw_env w token_env) = '''' \<and>
   rw_env (snd (RouterDNSSyncWithOptions P actx routing zone account dryRun opts w)) = (rw_env w)(token_env := '''')"
proof (cases actx)
  case None
  then show ?thesis by (simp add: RouterDNSSyncWithOptions_def)
next
  case (Some ctx)
  have body: "rw_env (snd (sync_body P ctx routing zone account dryRun opts v)) = rw_env v" for v
    using keeps_env_body by (simp add: keeps_env_def)
  let ?policy = "RouterDNSSyncPolicyForStage (ax_Config ctx) (sync_stage ctx routing)"
  show ?thesis
  proof (cases rule: prime_cases [of P "ax_Secrets ctx" ?policy w])
    case (error e)
    then show ?thesis by (simp add: Some SyncWithOptions_eq)
  next
    case kept
    then show ?thesis using body [of w] by (simp add: Some SyncWithOptions_eq restore_token_def split: prod.split)
  next
    case (primed t)
    then show ?thesis using body [of "w\<lparr>rw_env := (rw_env w)(token_env := t)\<rparr>"]
      by (auto simp: Some SyncWithOptions_eq restore_token_def split: prod.split)
  qed
qed

text \<open>
  C31. The API token does not stay behind. Let the token variable be unset before a sync of the application service, or hold
  something else than blanks. Then whatever happens in the sync - no token found, the plugin failing, the history
  unwritable, no context at all - every variable of the environment reads afterwards as it did before.
\<close>

theorem RouterDNSSync_token_scoped:
  assumes "rw_env w token_env = '''' \<or> TrimSpace (rw_env w token_env) \<noteq> ''''"
  shows "rw_env (snd (RouterDNSSyncWithOptions P actx routing zone account dryRun opts w)) = rw_env w"
  using sync_env [of P actx routing zone account dryRun opts w] assms by (metis fun_upd_triv)

definition token_file_world :: "string \<Rightarrow> rworld" where
  "token_file_world cur = (demo_world (\<lambda>k. if k = token_env then cur else if k = ''RUNFABRIC_ROUTER_API_TOKEN_FILE'' then ''f'' else ''''))
     \<lparr>rw_files := (\<lambda>p. if p = ''f'' then Some ''tok'' else None)\<rparr>"

definition token_sync :: "string \<Rightarrow> rworld" where
  "token_sync cur = snd (RouterDNSSyncWithOptions demo_params (Some demo_ctx) (Some demo_rc) ''z'' ''a'' False (trigger_only ''t'') (token_file_world cur))"

text \<open>The plugin is called with the token of the file, and the variable is unset again.\<close>

theorem RouterDNSSync_token_scoped_witness:
  "map snd (rw_log (token_sync '''')) = [''tok''] \<and> rw_env (token_sync '''') token_env = ''''"
proof -
  have "rw_env (token_file_world '''') token_env = ''''" by code_simp
  moreover from this have "rw_env (token_sync '''') = rw_env (token_file_world '''')"
    unfolding token_sync_def by (intro RouterDNSSync_token_scoped disjI1)
  moreover have "map snd (rw_log (token_sync '''')) = [''tok'']" by code_simp
  ultimately show ?thesis by simp
qed

text \<open>A variable that holds blanks is unset as well: what is promised to be reinstated is not.\<close>

lemma blank_token_unset:
  "rw_env (token_file_world '' '') token_env = '' ''" "rw_env (token_sync '' '') token_env = ''''"
  by code_simp+

section \<open>The history\<close>

definition stage_history :: "rworld \<Rightarrow> string \<Rightarrow> sync_snapshot list option" where
  "stage_history w stage = (case map_of (rw_history w) stage of None \<Rightarrow> Some []
     | Some (GoodHistory h) \<Rightarrow> Some h | Some BadHistory \<Rightarrow> None)"

definition restamped :: "sync_snapshot \<Rightarrow> sync_snapshot \<Rightarrow> bool" where
  "restamped sn sn' \<longleftrightarrow> (\<exists>i t. sn' = sn\<lparr>sn_ID := i, sn_CreatedAt := t\<rparr>)"

lemma restamped_refl [simp]: "restamped sn sn" "restamped sn (sn\<lparr>sn_ID := i\<rparr>)"
    "restamped sn (sn\<lparr>sn_CreatedAt := t\<rparr>)" "restamped sn (sn\<lparr>sn_ID := i, sn_CreatedAt := t\<rparr>)"
  unfolding restamped_def by (cases sn; force)+

lemma load_ok:
  "LoadRouterSyncHistory stage w = (Inr h, w') \<Longrightarrow>
     stage_history w stage = Some h \<and> rw_history w' = rw_history w"
  by (auto simp: LoadRouterSyncHistory_def bindE_apply history_io_def stage_history_def
      split: if_splits option.splits history_file.splits)

lemma save_ok:
  "SaveRouterSyncHistory stage h w = (Inr u, w') \<Longrightarrow>
     rw_history w' = AList.update stage (GoodHistory h) (rw_history w)"
  by (auto simp: SaveRouterSyncHistory_def bindE_apply history_io_def split: if_splits)

lemma append_ok:
  assumes "AppendRouterSyncSnapshot stage sn keep w = (Inr u, w')"
  shows "\<exists>h sn'. stage_history w stage = Some h \<and> restamped sn sn' \<and>
    rw_history w' = AList.update stage (GoodHistory (trim_history (h @ [sn']) keep)) (rw_history w)"
proof -
  from assms [unfolded AppendRouterSyncSnapshot_def] obtain h w1
    where l: "LoadRouterSyncHistory stage w = (Inr h, w1)"
    and r: "bindE (if sn_ID sn = '''' then bindE now_ns (\<lambda>t. returnE (sn\<lparr>sn_ID := itoa t\<rparr>)) else returnE sn) (\<lambda>s1.
     bindE (if sn_CreatedAt s1 = NoStamp then bindE now_ns (\<lambda>t. returnE (s1\<lparr>sn_CreatedAt := fmt_time t\<rparr>))
            else returnE s1) (\<lambda>s2.
     SaveRouterSyncHistory stage (trim_history (h @ [s2]) keep))) w1 = (Inr u, w')"
    by (rule bindE_Inr_E)
  from r obtain w2 sn' where "SaveRouterSyncHistory stage (trim_history (h @ [sn']) keep) w2 = (Inr u, w')"
    and "restamped sn sn'" and "rw_history w2 = rw_history w1"
    by (auto simp: bindE_apply split: if_splits)
  with load_ok [OF l] save_ok show ?thesis by fastforce
qed

text \<open>A snapshot keeps of a routing configuration just what the plugin is sent.\<close>

lemma snapshot_roundtrip:
  "RouterRoutingConfigFromSnapshot (Some (sn\<lparr>sn_Routing := toStateRouterSyncRouting rc\<rparr>)) = Some (adapter_routing rc)"
  by (simp add: RouterRoutingConfigFromSnapshot_def toStateRouterSyncRouting_def adapter_routing_def Let_def)

lemma adapter_routing_idem: "adapter_routing (adapter_routing rc) = adapter_routing rc"
  by (simp add: adapter_routing_def)

lemma trim_history_last: "trim_history (h @ [sn]) 30 \<noteq> [] \<and> last (trim_history (h @ [sn]) 30) = sn \<and>
    int (length (trim_history (h @ [sn]) 30)) \<le> 30 \<and> suffix (trim_history (h @ [sn]) 30) (h @ [sn])"
  by (auto simp: trim_history_def suffix_drop)

lemma SyncRouter_history: "rw_history (snd (SyncRouter P req w)) = rw_history w"
  by (auto simp: SyncRouter_def Let_def split: option.split sum.split)

definition recorded ::
  "router_params \<Rightarrow> app_ctx \<Rightarrow> routing_config \<Rightarrow> string \<Rightarrow> string \<Rightarrow> bool \<Rightarrow> sync_options \<Rightarrow> sync_result option \<Rightarrow> sync_snapshot \<Rightarrow> bool"
  where
  "recorded P ctx rc zone account dryRun opts res sn \<longleftrightarrow> (case res of
     None \<Rightarrow> restamped (base_snapshot P ctx rc zone account dryRun opts) sn
   | Some r \<Rightarrow> (\<exists>t. restamped (with_result (base_snapshot P ctx rc zone account dryRun opts) r t) sn))"

lemma body_ok:
  assumes "sync_body P ctx (Some rc) zone account dryRun opts w = (Inr res, w')"
  shows "\<exists>old sn. stage_history w (sync_stage ctx (Some rc)) = Some old \<and> recorded P ctx rc zone account dryRun opts res sn \<and>
    rw_history w' = AList.update (sync_stage ctx (Some rc)) (GoodHistory (trim_history (old @ [sn]) 30)) (rw_history w) \<and>
    (\<exists>tok. rw_log w' = rw_log w @ [(\<lparr>sq_Routing = Some (adapter_routing rc), sq_ZoneID = zone, sq_AccountID = account,
       sq_DryRun = dryRun\<rparr>, tok)])"
proof -
  let ?b = "base_snapshot P ctx rc zone account dryRun opts" and ?st = "sync_stage ctx (Some rc)"
  from assms [unfolded sync_body_def] obtain result w1
    where s: "SyncRouter P \<lparr>sq_Routing = Some rc, sq_ZoneID = zone, sq_AccountID = account, sq_DryRun = dryRun\<rparr> w = (Inr result, w1)"
    and r: "bindE (case result of None \<Rightarrow> returnE ?b
          | Some res \<Rightarrow> bindE now_ns (\<lambda>t. returnE (with_result ?b res t))) (\<lambda>sn.
        bindE (AppendRouterSyncSnapshot ?st sn 30) (\<lambda>_. returnE result)) w1 = (Inr res, w')"
    by (auto elim: bindE_Inr_E)
  have h1: "rw_history w1 = rw_history w" using SyncRouter_history s by (metis snd_conv)
  have l1: "\<exists>tok. rw_log w1 = rw_log w @ [(\<lparr>sq_Routing = Some (adapter_routing rc), sq_ZoneID = zone, sq_AccountID = account,
       sq_DryRun = dryRun\<rparr>, tok)]"
    using s by (auto simp: SyncRouter_def Let_def split: sum.splits)
  have "logs (\<lambda>_. False) (bindE (case result of None \<Rightarrow> returnE ?b
          | Some res \<Rightarrow> bindE now_ns (\<lambda>t. returnE (with_result ?b res t))) (\<lambda>sn.
        bindE (AppendRouterSyncSnapshot ?st sn 30) (\<lambda>_. returnE result)))"
    by (intro log_intros)
  from silent_log [OF this, of w1] have l2: "rw_log w' = rw_log w1" by (simp add: r)
  obtain sn w2 where a: "bindE (AppendRouterSyncSnapshot ?st sn 30) (\<lambda>_. returnE result) w2 = (Inr res, w')"
    and sn: "case result of None \<Rightarrow> sn = ?b | Some r \<Rightarrow> (\<exists>t. sn = with_result ?b r t)" and h2: "rw_history w2 = rw_history w1"
  proof (cases result)
    case None
    then show thesis using that [of ?b w1] r by simp
  next
    case (Some x)
    then show thesis
      using that [of "with_result ?b x (rw_wall w1 (rw_ticks w1))" "w1\<lparr>rw_ticks := Suc (rw_ticks w1)\<rparr>"] r
      by (auto simp: bindE_assoc bindE_apply [of now_ns])
  qed
  from a obtain u where ap: "AppendRouterSyncSnapshot ?st sn 30 w2 = (Inr u, w')" and res: "res = result"
    by (auto simp: bindE_apply split: prod.splits sum.splits)
  from append_ok [OF ap] obtain h sn' where "stage_history w2 ?st = Some h" "restamped sn sn'"
    "rw_history w' = AList.update ?st (GoodHistory (trim_history (h @ [sn']) 30)) (rw_history w2)" by blast
  moreover have "stage_history w2 ?st = stage_history w ?st" by (simp add: stage_history_def h2 h1)
  moreover have "recorded P ctx rc zone account dryRun opts res sn'"
    using sn \<open>restamped sn sn'\<close> by (auto simp: recorded_def res split: option.splits)
  ultimately show ?thesis using h1 h2 l1 l2 by auto
qed

lemma recorded_facts:
  assumes "recorded P ctx rc zone account dryRun opts res sn"
  shows "RouterRoutingConfigFromSnapshot (Some sn) = Some (adapter_routing rc)" and "sn_ZoneID sn = zone"
    and "sn_AccountID sn = account" and "sn_DryRun sn = dryRun"
    and "sn_Actions sn = (case res of None \<Rightarrow> [] | Some r \<Rightarrow> sr_Actions r)"
proof -
  have r: "sn_Routing sn = toStateRouterSyncRouting rc"
    and "sn_ZoneID sn = zone \<and> sn_AccountID sn = account \<and> sn_DryRun sn = dryRun \<and>
      sn_Actions sn = (case res of None \<Rightarrow> [] | Some r \<Rightarrow> sr_Actions r)"
    using assms by (auto simp: recorded_def restamped_def base_snapshot_def with_result_def Let_def split: option.splits)
  then show "sn_ZoneID sn = zone" "sn_AccountID sn = account" "sn_DryRun sn = dryRun"
    "sn_Actions sn = (case res of None \<Rightarrow> [] | Some r \<Rightarrow> sr_Actions r)" by simp_all
  have "sn = sn\<lparr>sn_Routing := toStateRouterSyncRouting rc\<rparr>" using r by simp
  then show "RouterRoutingConfigFromSnapshot (Some sn) = Some (adapter_routing rc)"
    using snapshot_roundtrip by metis
qed

text \<open>
  C14. A successful sync can be restored. It calls the plugin once and leaves a history of at most thirty
  snapshots for its stage, the newest being its own: restoring that one sends the plugin exactly the
  routing it was sent, with the same zone and account, and it records whether it was a dry run and the
  actions the plugin reported. The older snapshots are a suffix of the old history, and no other stage is
  touched.
\<close>

theorem RouterDNSSync_recorded:
  assumes "RouterDNSSyncWithOptions P (Some ctx) (Some rc) zone account dryRun opts w = (Inr res, w')"
  shows "\<exists>old h sn. stage_history w (sync_stage ctx (Some rc)) = Some old \<and>
    stage_history w' (sync_stage ctx (Some rc)) = Some h \<and> int (length h) \<le> 30 \<and> h \<noteq> [] \<and> last h = sn \<and>
    suffix h (old @ [sn]) \<and>
    (\<exists>tok. rw_log w' = rw_log w @ [(\<lparr>sq_Routing = map_option adapter_routing (RouterRoutingConfigFromSnapshot (Some sn)),
       sq_ZoneID = sn_ZoneID sn, sq_AccountID = sn_AccountID sn, sq_DryRun = sn_DryRun sn\<rparr>, tok)]) \<and>
    RouterRoutingConfigFromSnapshot (Some sn) = Some (adapter_routing rc) \<and>
    sn_ZoneID sn = zone \<and> sn_AccountID sn = account \<and> sn_DryRun sn = dryRun \<and>
    sn_Actions sn = (case res of None \<Rightarrow> [] | Some r \<Rightarrow> sr_Actions r) \<and>
    (\<forall>s. s \<noteq> sync_stage ctx (Some rc) \<longrightarrow> stage_history w' s = stage_history w s)"
proof -
  let ?st = "sync_stage ctx (Some rc)"
  let ?policy = "RouterDNSSyncPolicyForStage (ax_Config ctx) ?st"
  obtain w1 w2 where b: "sync_body P ctx (Some rc) zone account dryRun opts w1 = (Inr res, w2)"
    and h: "rw_history w1 = rw_history w" "rw_history w' = rw_history w2"
    and l: "rw_log w1 = rw_log w" "rw_log w' = rw_log w2"
    using assms
    by (cases rule: prime_cases [of P "ax_Secrets ctx" ?policy w])
       (auto simp: SyncWithOptions_eq restore_token_def split: prod.splits)
  have eq: "stage_history w1 s = stage_history w s" "stage_history w' s = stage_history w2 s" for s
    by (simp_all add: stage_history_def h)
  from body_ok [OF b] obtain old sn where o: "stage_history w ?st = Some old"
    and r: "recorded P ctx rc zone account dryRun opts res sn"
    and w2: "rw_history w2 = AList.update ?st (GoodHistory (trim_history (old @ [sn]) 30)) (rw_history w1)"
    and log: "\<exists>tok. rw_log w' = rw_log w @ [(\<lparr>sq_Routing = Some (adapter_routing rc), sq_ZoneID = zone,
      sq_AccountID = account, sq_DryRun = dryRun\<rparr>, tok)]"
    by (auto simp: eq l)
  have "stage_history w' s = (if s = ?st then Some (trim_history (old @ [sn]) 30) else stage_history w s)" for s
    by (simp add: eq(2)) (simp add: stage_history_def w2 h update_conv)
  then show ?thesis using o log recorded_facts [OF r] trim_history_last [of old sn] by (auto simp: adapter_routing_idem)
qed

theorem RouterDNSSync_recorded_witness:
  "\<exists>old h sn. stage_history (demo_world (\<lambda>_. '''')) ''dev'' = Some old \<and> suffix h (old @ [sn]) \<and>
     RouterRoutingConfigFromSnapshot (Some sn) = Some (adapter_routing demo_rc)"
proof -
  let ?m = "RouterDNSSyncWithOptions demo_params (Some demo_ctx) (Some demo_rc) ''z'' ''a'' False (trigger_only ''t'')"
  have "\<not> isl (fst (?m (demo_world (\<lambda>_. ''''))))" and st: "sync_stage demo_ctx (Some demo_rc) = ''dev''" by code_simp+
  then obtain res w' where "?m (demo_world (\<lambda>_. '''')) = (Inr res, w')"
    by (metis prod.collapse isl_def sum.exhaust)
  from RouterDNSSync_recorded [OF this] show ?thesis unfolding st by blast
qed

definition demo_snapshot :: "string \<Rightarrow> bool \<Rightarrow> sync_snapshot" where
  "demo_snapshot i dry = (base_snapshot demo_params (demo_ctx\<lparr>ax_Stage := ''prod''\<rparr>) (demo_rc\<lparr>rc_Stage := ''prod''\<rparr>)
     ''z'' ''a'' dry (trigger_only ''t''))\<lparr>sn_ID := i\<rparr>"

lemma demo_snapshot_dry [simp]: "sn_DryRun (demo_snapshot i dry) = dry" "sn_ID (demo_snapshot i dry) = i"
  by (simp_all add: demo_snapshot_def base_snapshot_def)

section \<open>Restoring\<close>

lemma filter_eq_appendE:
  assumes "filter p xs = us @ vs"
  shows "\<exists>as bs. xs = as @ bs \<and> filter p as = us \<and> filter p bs = vs"
  using assms
proof (induction us arbitrary: xs)
  case Nil
  then show ?case by (intro exI [of _ "[]"] exI [of _ xs]) simp
next
  case (Cons u us)
  then obtain a b where x: "xs = a @ u # b" "filter p a = []" "p u" and "filter p b = us @ vs"
    by (auto simp: filter_eq_Cons_iff filter_empty_conv)
  from Cons.IH [OF this(4)] obtain as bs where "b = as @ bs" "filter p as = us" "filter p bs = vs" by blast
  with x show ?case by (intro exI [of _ "a @ u # as"] exI [of _ bs]) simp
qed

lemma filter_eq_singletonE:
  assumes "filter p xs = [y]"
  obtains as bs where "xs = as @ y # bs" and "filter p as = []" and "filter p bs = []" and "p y"
proof -
  from assms obtain us vs where "xs = us @ y # vs" "\<forall>u \<in> set us. \<not> p u" "p y" "[] = filter p vs"
    unfolding filter_eq_Cons_iff by blast
  then show thesis using that [of us vs] by simp
qed

lemma find_rev_Some:
  "find q (rev xs) = Some x \<Longrightarrow> \<exists>as bs. xs = as @ x # bs \<and> q x \<and> (\<forall>s \<in> set bs. \<not> q s)"
proof (induction xs rule: rev_induct)
  case Nil
  then show ?case by simp
next
  case (snoc y ys)
  show ?case
  proof (cases "q y")
    case True
    with snoc.prems show ?thesis by (intro exI [of _ ys] exI [of _ "[]"]) simp
  next
    case False
    with snoc obtain as bs where "ys = as @ x # bs" "q x" "\<forall>s \<in> set bs. \<not> q s" by auto
    with False show ?thesis by (intro exI [of _ as] exI [of _ "bs @ [y]"]) auto
  qed
qed

lemma filter_nth_last2:
  assumes "ys = filter p xs" and "1 < length ys"
  shows "\<exists>as bs cs z. xs = as @ ys ! (length ys - 2) # bs @ z # cs \<and> p (ys ! (length ys - 2)) \<and> p z \<and>
    filter p bs = [] \<and> filter p cs = []"
proof -
  obtain zs y z where ys: "ys = zs @ [y, z]"
    using assms(2) by (metis One_nat_def append_butlast_last_id append_eq_append_conv2 length_0_conv length_append_singleton
        less_Suc0 less_nat_zero_code neq_Nil_conv not_less_eq append.assoc append_Cons append_Nil)
  from assms(1) ys have "filter p xs = (zs @ [y]) @ [z]" by simp
  then obtain us cs where x1: "xs = us @ cs" and "filter p us = zs @ [y]" and c: "filter p cs = [z]"
    using filter_eq_appendE by metis
  then obtain as ds where x2: "us = as @ ds" and d: "filter p ds = [y]" using filter_eq_appendE by metis
  from d obtain d1 d2 where ds: "ds = d1 @ y # d2" and p1: "filter p d1 = []" "filter p d2 = []" "p y"
    by (rule filter_eq_singletonE)
  from c obtain c1 c2 where cs: "cs = c1 @ z # c2" and p2: "filter p c1 = []" "filter p c2 = []" "p z"
    by (rule filter_eq_singletonE)
  have "xs = (as @ d1) @ y # (d2 @ c1) @ z # c2" by (simp add: x1 x2 ds cs)
  moreover have "ys ! (length ys - 2) = y" by (simp add: ys nth_append)
  ultimately show ?thesis using p1 p2 by (metis filter_append append_Nil)
qed

text \<open>
  Which snapshot a restore takes. An id selects the newest snapshot with that id. Without one and
  without \<^verbatim>\<open>--latest\<close> the target is an applied snapshot, never a dry run, and it is the applied one just before the
  newest applied one, or the only one there is; if nothing was applied the restore fails.
\<close>

theorem SelectRouterRestoreSnapshot_target:
  "case SelectRouterRestoreSnapshot history sid False of
     Inr sn \<Rightarrow>
       (if TrimSpace sid \<noteq> '''' then
          \<exists>before after. history = before @ sn # after \<and> TrimSpace (sn_ID sn) = TrimSpace sid \<and>
            (\<forall>s \<in> set after. TrimSpace (sn_ID s) \<noteq> TrimSpace sid)
        else \<not> sn_DryRun sn \<and>
          (\<exists>as bs. history = as @ sn # bs \<and>
             (filter (\<lambda>s. \<not> sn_DryRun s) as = [] \<and> filter (\<lambda>s. \<not> sn_DryRun s) bs = [] \<or>
              length (filter (\<lambda>s. \<not> sn_DryRun s) bs) = 1)))
   | Inl e \<Rightarrow> history = [] \<or> TrimSpace sid \<noteq> '''' \<and> (\<forall>s \<in> set history. TrimSpace (sn_ID s) \<noteq> TrimSpace sid) \<or>
       TrimSpace sid = '''' \<and> (\<forall>s \<in> set history. sn_DryRun s)"
proof -
  let ?p = "\<lambda>s. \<not> sn_DryRun s" and ?q = "\<lambda>s. TrimSpace (sn_ID s) = TrimSpace sid"
  show ?thesis
  proof (cases "history = [] \<or> TrimSpace sid \<noteq> ''''")
    case True
    show ?thesis
    proof (cases "history = []")
      case True
      then show ?thesis by (simp add: SelectRouterRestoreSnapshot_def)
    next
      case False
      with True have sel: "SelectRouterRestoreSnapshot history sid False =
          (case find ?q (rev history) of None \<Rightarrow> Inl (SnapshotNotFound (TrimSpace sid)) | Some s \<Rightarrow> Inr s)"
        by (simp add: SelectRouterRestoreSnapshot_def Let_def)
      show ?thesis
      proof (cases "find ?q (rev history)")
        case None
        then have "\<forall>s \<in> set history. \<not> ?q s" by (simp add: find_None_iff)
        then show ?thesis using False True by (simp add: sel None)
      next
        case (Some sn)
        from find_rev_Some [OF this] False True show ?thesis by (auto simp: sel Some)
      qed
    qed
  next
    case False
    then have h: "history \<noteq> []" "TrimSpace sid = ''''" by simp_all
    let ?ys = "filter ?p history"
    consider "?ys = []" | "length ?ys = 1" | "1 < length ?ys"
      by (metis One_nat_def length_0_conv less_one linorder_neqE_nat)
    then show ?thesis
    proof cases
      case 1
      then show ?thesis using h by (auto simp: SelectRouterRestoreSnapshot_def Let_def filter_empty_conv)
    next
      case 2
      then obtain sn where ys: "?ys = [sn]" by (metis One_nat_def length_0_conv length_Suc_conv)
      then obtain as bs where "history = as @ sn # bs" "filter ?p as = []" "filter ?p bs = []" "?p sn"
        by (rule filter_eq_singletonE)
      then show ?thesis using h ys by (auto simp: SelectRouterRestoreSnapshot_def Let_def)
    next
      case 3
      define sn where "sn = ?ys ! (length ?ys - 2)"
      from filter_nth_last2 [OF refl 3] obtain as bs cs z where
        x: "history = as @ sn # bs @ z # cs" and "?p sn" "?p z"
        and "filter ?p bs = []" "filter ?p cs = []" unfolding sn_def by blast
      then have "length (filter ?p (bs @ z # cs)) = 1" by simp
      then have "\<exists>as bs. history = as @ sn # bs \<and> length (filter ?p bs) = 1" using x by blast
      moreover have "SelectRouterRestoreSnapshot history sid False = Inr sn"
        using h 3 by (auto simp: SelectRouterRestoreSnapshot_def Let_def sn_def)
      ultimately show ?thesis using h \<open>?p sn\<close> by auto
    qed
  qed
qed

theorem SelectRouterRestoreSnapshot_target_witness:
  "\<exists>sn. SelectRouterRestoreSnapshot [demo_snapshot ''a'' False, demo_snapshot ''b'' False] '''' False = Inr sn \<and>
     \<not> sn_DryRun sn"
proof -
  let ?h = "[demo_snapshot ''a'' False, demo_snapshot ''b'' False]"
  have "SelectRouterRestoreSnapshot ?h '''' False = Inr (demo_snapshot ''a'' False)"
    by (simp add: SelectRouterRestoreSnapshot_def TrimSpace_def)
  with SelectRouterRestoreSnapshot_target [where history = ?h and sid = "''''"] show ?thesis by (simp add: TrimSpace_def)
qed

section \<open>The daemon and the command line\<close>

definition prod_world :: rworld where
  "prod_world = (demo_world (\<lambda>_. ''''))\<lparr>rw_history :=
     [(''prod'', GoodHistory [demo_snapshot ''s1'' False, demo_snapshot ''s2'' True])]\<rparr>"

text \<open>
  The production gate guards only the command line. From the same history, with a policy that does
  not allow production syncs, the restore command is refused at the gate before any plugin call, and the
  restore of the daemon changes production DNS. With \<^verbatim>\<open>latest\<close> the snapshot both restore is the
  newest one even though it records a dry run that was never applied.
\<close>

theorem daemon_restore_ungated:
  "\<not> dp_AllowProdSync (RouterDNSSyncPolicyForStage None ''prod'') \<and>
   fst (dns_restore_cmd demo_params demo_ctx demo_flags ''prod'' '''' True False prod_world) = Inl REProdGate \<and>
   \<not> mutates (dns_restore_cmd demo_params demo_ctx demo_flags ''prod'' '''' True False) prod_world \<and>
   mutates (RouterRestoreFromSnapshot demo_params demo_ctx ''prod'' '''' True False) prod_world \<and>
   SelectRouterRestoreSnapshot [demo_snapshot ''s1'' False, demo_snapshot ''s2'' True] '''' True =
     Inr (demo_snapshot ''s2'' True) \<and> sn_DryRun (demo_snapshot ''s2'' True)"
proof (intro conjI)
  show "\<not> dp_AllowProdSync (RouterDNSSyncPolicyForStage None ''prod'')" by code_simp
  show "fst (dns_restore_cmd demo_params demo_ctx demo_flags ''prod'' '''' True False prod_world) = Inl REProdGate" by code_simp
  show "\<not> mutates (dns_restore_cmd demo_params demo_ctx demo_flags ''prod'' '''' True False) prod_world" by code_simp
  show "mutates (RouterRestoreFromSnapshot demo_params demo_ctx ''prod'' '''' True False) prod_world" by code_simp
  show "SelectRouterRestoreSnapshot [demo_snapshot ''s1'' False, demo_snapshot ''s2'' True] '''' True =
     Inr (demo_snapshot ''s2'' True)"
    by (simp add: SelectRouterRestoreSnapshot_def Let_def TrimSpace_def)
  show "sn_DryRun (demo_snapshot ''s2'' True)" by (simp add: demo_snapshot_def base_snapshot_def)
qed

end
