(* ===== verification/Policy_Claims.thy ===== *)
theory Policy_Claims
  imports Router_Policy Secrets
begin

text \<open>
  Properties of the DNS sync policy of a stage and of the secrets of a configuration: which setting
  wins, what a placeholder becomes, how long a chain of references may be.
\<close>

section \<open>The policy of a stage\<close>

text \<open>
  The objects that apply to a stage: the router extension, the stage's entry in its \<open>stages\<close> map, the
  entry in that one's, and so on.
\<close>

function layers :: "anymap \<Rightarrow> string \<Rightarrow> anymap list" where
  "layers obj stage = obj # (case stage_object obj stage of None \<Rightarrow> [] | Some so \<Rightarrow> layers so stage)"
  by pat_completeness auto
termination
  by (relation "measure (\<lambda>(obj, stage). size (AMap obj))") (auto dest: stage_object_size simp del: any.size)

declare layers.simps [simp del]

definition last_set :: "'a \<Rightarrow> 'a option list \<Rightarrow> 'a" where
  "last_set d xs = foldl (\<lambda>acc x. case x of None \<Rightarrow> acc | Some v \<Rightarrow> v) d xs"

lemma last_set_simps [simp]:
  "last_set d [] = d" "last_set d (x # xs) = last_set (case x of None \<Rightarrow> d | Some v \<Rightarrow> v) xs"
  by (simp_all add: last_set_def)

lemma last_set_append [simp]: "last_set d (xs @ ys) = last_set (last_set d xs) ys"
  by (simp add: last_set_def)

lemma applyObject_layers:
  assumes "\<And>o' s p. f (applyFields o' s p) = last_set (f p) (g o')"
  shows "f (applyObject obj stage p) = last_set (f p) (concat (map g (layers obj stage)))"
proof (induction obj stage p rule: applyObject.induct)
  case (1 obj stage p)
  show ?case
  proof (cases "stage_object obj stage")
    case None
    then show ?thesis by (simp add: applyObject.simps [of obj] layers.simps [of obj] assms)
  next
    case (Some so)
    with 1 [OF refl Some] show ?thesis by (simp add: applyObject.simps [of obj] layers.simps [of obj] assms)
  qed
qed

definition prod_settings :: "anymap \<Rightarrow> bool option list" where
  "prod_settings obj = (case asMap (aget obj ''autoApply'') of None \<Rightarrow> [] | Some auto \<Rightarrow> [parseBool (aget auto ''allowProdSync'')])
     @ [parseBool (aget obj ''allowProdSync'')]"

definition reason_settings :: "anymap \<Rightarrow> bool option list" where
  "reason_settings obj = [parseBool (aget obj ''requireReason'')]"

lemma apply_parts_keep [simp]:
  "dp_AllowProdSync (applyApprovals obj p) = dp_AllowProdSync p"
  "dp_AllowProdSync (applyCredentials obj p) = dp_AllowProdSync p"
  "dp_RequireReason (applyApprovals obj p) = dp_RequireReason p"
  "dp_RequireReason (applyCredentials obj p) = dp_RequireReason p"
  "dp_RequireReason (applyAutoObject auto stage p) = dp_RequireReason p"
  by (auto simp: applyApprovals_def applyCredentials_def applyAutoObject_def Let_def set_field_keep split: option.split)

lemma applyAutoObject_prod:
  "dp_AllowProdSync (applyAutoObject auto stage p) =
     (case parseBool (aget auto ''allowProdSync'') of None \<Rightarrow> dp_AllowProdSync p | Some v \<Rightarrow> v)"
  by (auto simp: applyAutoObject_def Let_def set_field_def split: option.split)

lemma applyFields_prod: "dp_AllowProdSync (applyFields obj stage p) = last_set (dp_AllowProdSync p) (prod_settings obj)"
  by (auto simp: applyFields_def Let_def prod_settings_def set_field_def applyAutoObject_prod split: option.split)

lemma applyFields_reason: "dp_RequireReason (applyFields obj stage p) = last_set (dp_RequireReason p) (reason_settings obj)"
  by (auto simp: applyFields_def Let_def reason_settings_def set_field_def split: option.split)

text \<open>
  The most specific setting wins. Whether production syncs are allowed, and whether a reason is
  required, is decided by the last object along the stage's chain of overrides that sets a valid boolean;
  a value of the wrong type changes nothing, and with no setting at all production syncs stay forbidden.
\<close>

theorem RouterDNSSyncPolicy_last_wins:
  "case cfg of None \<Rightarrow> RouterDNSSyncPolicyForStage cfg stage = default_policy
   | Some c \<Rightarrow> (case asMap (aget (cfg_Extensions c) ''router'') of
       None \<Rightarrow> RouterDNSSyncPolicyForStage cfg stage = default_policy
     | Some obj \<Rightarrow>
         dp_AllowProdSync (RouterDNSSyncPolicyForStage cfg stage) =
           last_set False (concat (map prod_settings (layers obj (normalizeStage stage)))) \<and>
         dp_RequireReason (RouterDNSSyncPolicyForStage cfg stage) =
           last_set False (concat (map reason_settings (layers obj (normalizeStage stage)))))"
  using applyObject_layers [of dp_AllowProdSync prod_settings, OF applyFields_prod]
    applyObject_layers [of dp_RequireReason reason_settings, OF applyFields_reason]
  by (auto simp: RouterDNSSyncPolicyForStage_def default_policy_def split: option.split)

section \<open>Placeholders\<close>

text \<open>A template: text without dollar signs, and placeholders.\<close>

datatype piece = Plain string | Placeholder string

fun render_piece :: "piece \<Rightarrow> string" where
  "render_piece (Plain s) = s"
| "render_piece (Placeholder k) = ''${secret:'' @ k @ ''}''"

fun good_piece :: "piece \<Rightarrow> bool" where
  "good_piece (Plain s) \<longleftrightarrow> CHR ''$'' \<notin> set s"
| "good_piece (Placeholder k) \<longleftrightarrow> k \<noteq> [] \<and> (\<forall>c \<in> set k. is_key_char c)"

fun eval_pieces :: "(string \<Rightarrow> secret_error + string) \<Rightarrow> piece list \<Rightarrow> secret_error + string" where
  "eval_pieces f [] = Inr []"
| "eval_pieces f (Plain s # ps) = (case eval_pieces f ps of Inl e \<Rightarrow> Inl e | Inr t \<Rightarrow> Inr (s @ t))"
| "eval_pieces f (Placeholder k # ps) = (case f k of Inl e \<Rightarrow> Inl e
     | Inr v \<Rightarrow> (case eval_pieces f ps of Inl e \<Rightarrow> Inl e | Inr t \<Rightarrow> Inr (v @ t)))"

lemma match_secret_render:
  assumes "good_piece (Placeholder k)"
  shows "match_secret (''${secret:'' @ k @ ''}'' @ t) = Some (k, t)"
proof -
  have b: "\<not> is_key_char CHR ''}''" by (simp add: is_key_char_def Let_def)
  have "takeWhile is_key_char (k @ CHR ''}'' # t) = k" "dropWhile is_key_char (k @ CHR ''}'' # t) = CHR ''}'' # t"
    using assms b by (simp_all add: takeWhile_append dropWhile_append)
  then show ?thesis using assms by (simp add: match_secret_def HasPrefix_iff)
qed

lemma match_secret_plain: "c \<noteq> CHR ''$'' \<Longrightarrow> match_secret (c # s) = None"
  by (simp add: match_secret_def)

lemma replace_plain:
  "CHR ''$'' \<notin> set s \<Longrightarrow> replace_secrets f (s @ t) = (case replace_secrets f t of (e, out) \<Rightarrow> (e, s @ out))"
proof (induction s)
  case Nil
  then show ?case by simp
next
  case (Cons c s)
  then have "match_secret (c # (s @ t)) = None" by (intro match_secret_plain) auto
  then show ?case using Cons by (auto simp: replace_secrets.simps [of f "c # (s @ t)"] split: prod.split)
qed

lemma replace_placeholder:
  assumes "good_piece (Placeholder k)"
  shows "replace_secrets f (render_piece (Placeholder k) @ t) = (case replace_secrets f t of (e, out) \<Rightarrow>
     (case f k of Inl err \<Rightarrow> (Some err, ''${secret:'' @ k @ ''}'' @ out) | Inr v \<Rightarrow> (e, v @ out)))"
proof -
  have "match_secret (render_piece (Placeholder k) @ t) = Some (k, t)"
    using match_secret_render [OF assms, of t] by simp
  then show ?thesis
    by (subst replace_secrets.simps) (simp only: option.case prod.case Let_def)
qed

lemma replace_pieces:
  "list_all good_piece ps \<Longrightarrow>
   (case replace_secrets f (concat (map render_piece ps)) of
      (Some e, _) \<Rightarrow> Inl e | (None, out) \<Rightarrow> Inr out) = eval_pieces f ps"
proof (induction ps)
  case Nil
  then show ?case by (simp add: replace_secrets.simps [of f "[]"] match_secret_def)
next
  case (Cons p ps)
  show ?case
  proof (cases p)
    case (Plain s)
    with Cons show ?thesis by (auto simp: replace_plain split: prod.splits option.splits sum.splits)
  next
    case (Placeholder k)
    with Cons have ih: "(case replace_secrets f (concat (map render_piece ps)) of
      (Some e, _) \<Rightarrow> Inl e | (None, out) \<Rightarrow> Inr out) = eval_pieces f ps" and "good_piece (Placeholder k)" by simp_all
    from replace_placeholder [OF this(2), of f "concat (map render_piece ps)"] ih show ?thesis
      unfolding Placeholder list.map concat.simps
      by (auto split: prod.splits option.splits sum.splits simp del: render_piece.simps)
  qed
qed

text \<open>
  C30. \<^verbatim>\<open>ResolveString\<close> substitutes exactly the placeholders. A string made of plain text and placeholders
  resolves to the text with each placeholder replaced by the value of its key, from left to right, and to
  the error of the first key that has none. A value is inserted as it is, even if it looks like a
  placeholder itself.
\<close>

theorem ResolveString_substitutes:
  assumes "list_all good_piece ps"
  shows "ResolveString g (concat (map render_piece ps)) cs lookup =
    eval_pieces (\<lambda>k. resolveSecretKey g cs lookup k 0) ps"
  using replace_pieces [OF assms, of "\<lambda>k. resolveSecretKey g cs lookup k 0"] by (simp add: ResolveString_def)

theorem ResolveString_substitutes_witness:
  "ResolveString \<lparr>sg_resolver = None, sg_schemes = []\<rparr> ''a=${secret:K};'' [(''K'', ''${secret:L}'')] (\<lambda>_. None) =
     Inr ''a=${secret:L};''"
proof -
  have "list_all good_piece [Plain ''a='', Placeholder ''K'', Plain '';'']" by code_simp
  from ResolveString_substitutes [OF this, of "\<lparr>sg_resolver = None, sg_schemes = []\<rparr>" "[(''K'', ''${secret:L}'')]" "\<lambda>_. None"]
  show ?thesis by (simp, code_simp)
qed

section \<open>Chains of references\<close>

definition hop :: "(string \<times> string) list \<Rightarrow> string \<Rightarrow> string option" where
  "hop cs key = (case map_of cs (TrimSpace key) of None \<Rightarrow> None
     | Some v \<Rightarrow> if TrimSpace key \<noteq> '''' \<and> HasPrefix (TrimSpace v) ''secret://'' \<and>
          TrimSpace (TrimPrefix (TrimSpace v) ''secret://'') \<noteq> ''''
        then Some (TrimSpace (TrimPrefix (TrimSpace v) ''secret://'')) else None)"

fun hops :: "(string \<times> string) list \<Rightarrow> nat \<Rightarrow> string \<Rightarrow> string option" where
  "hops cs 0 key = Some key"
| "hops cs (Suc n) key = (case hop cs key of None \<Rightarrow> None | Some k \<Rightarrow> hops cs n k)"

lemma resolve_hop:
  "depth \<le> 8 \<Longrightarrow> hop cs key = Some k \<Longrightarrow>
     resolveSecretKey g cs lookup key depth = resolveSecretKey g cs lookup k (depth + 1)"
  by (auto simp: resolveSecretKey.simps [of g cs lookup key] hop_def Let_def split: option.splits if_splits)

lemma resolve_hops:
  "depth + n \<le> 9 \<Longrightarrow> hops cs n key = Some k \<Longrightarrow>
     resolveSecretKey g cs lookup key depth = resolveSecretKey g cs lookup k (depth + n)"
proof (induction n arbitrary: key depth)
  case 0
  then show ?case by simp
next
  case (Suc n)
  then obtain k1 where k1: "hop cs key = Some k1" "hops cs n k1 = Some k" by (auto split: option.splits)
  with Suc.IH [of "depth + 1" k1] Suc.prems resolve_hop [of depth cs key k1] show ?case by simp
qed

text \<open>What a key gives that refers to no other key: the value stored for it, or the one of the environment.\<close>

definition end_value :: "secret_globals \<Rightarrow> (string \<times> string) list \<Rightarrow> (string \<Rightarrow> string option) \<Rightarrow> string \<Rightarrow> secret_error + string" where
  "end_value g cs lookup key =
     (if TrimSpace key = '''' then Inl SecretKeyEmpty
      else case map_of cs (TrimSpace key) of
        Some v \<Rightarrow> if HasPrefix (TrimSpace v) ''secret://'' then Inl (SecretEmptyRef (TrimSpace key)) else resolveSecretManagerRefValue g (TrimSpace v)
      | None \<Rightarrow> (case lookup (TrimSpace key) of
          None \<Rightarrow> Inl (SecretNotSet (TrimSpace key))
        | Some v \<Rightarrow> if TrimSpace v = '''' then Inl (SecretNotSet (TrimSpace key)) else resolveSecretManagerRefValue g v))"

lemma resolve_end: "depth \<le> 8 \<Longrightarrow> hop cs key = None \<Longrightarrow> resolveSecretKey g cs lookup key depth = end_value g cs lookup key"
  by (auto simp: resolveSecretKey.simps [of g cs lookup key] hop_def end_value_def Let_def split: option.splits if_splits)

lemma hops_add: "hops cs (m + n) key = (case hops cs m key of None \<Rightarrow> None | Some k \<Rightarrow> hops cs n k)"
  by (induction m arbitrary: key) (auto split: option.split)

lemma hops_shorter: "hops cs n key \<noteq> None \<Longrightarrow> m \<le> n \<Longrightarrow> hops cs m key \<noteq> None"
  using hops_add [of cs m "n - m" key] by (auto split: option.splits)

text \<open>A chain ends after a number of hops, or goes on for any number of them.\<close>

lemma chain_ends: "hops cs n key = None \<Longrightarrow> \<exists>m k. m < n \<and> hops cs m key = Some k \<and> hop cs k = None"
proof (induction n)
  case (Suc n)
  show ?case
  proof (cases "hops cs n key")
    case None
    with Suc.IH show ?thesis by (meson less_SucI)
  next
    case (Some k)
    with Suc.prems hops_add [of cs n 1 key] have "hop cs k = None" by (auto split: option.splits)
    with Some show ?thesis by blast
  qed
qed simp

lemma cycle_goes_on: "0 < m \<Longrightarrow> hops cs m k = Some k \<Longrightarrow> hops cs (j * m) k = Some k"
  by (induction j) (simp_all add: hops_add)

lemma too_deep: "9 \<le> n \<Longrightarrow> hops cs n key \<noteq> None \<Longrightarrow> \<exists>k. hops cs 9 key = Some k \<and> resolveSecretKey g cs lookup key 0 = Inl (SecretDepth k)"
proof -
  assume "9 \<le> n" "hops cs n key \<noteq> None"
  then obtain k where k: "hops cs 9 key = Some k" using hops_shorter by blast
  with resolve_hops [of 0 9 cs key k g lookup] show ?thesis by (simp add: resolveSecretKey.simps [of g cs lookup k 9])
qed

text \<open>
  C40. Chains of \<open>secret://\<close> references end. If a key leads in at most eight hops to a key that refers to no
  other one, it gives the value of that key, or the error that it has none. Otherwise it leads on for nine hops, and the
  result is the error that names the key after nine hops. That is so for every longer chain, and for
  every key that leads into a cycle.
\<close>

theorem resolveSecretKey_chain:
  "(\<forall>n k. n \<le> 8 \<and> hops cs n key = Some k \<and> hop cs k = None \<longrightarrow> resolveSecretKey g cs lookup key 0 = end_value g cs lookup k) \<and>
   (\<forall>n. 9 \<le> n \<and> hops cs n key \<noteq> None \<longrightarrow> (\<exists>k. hops cs 9 key = Some k \<and> resolveSecretKey g cs lookup key 0 = Inl (SecretDepth k))) \<and>
   (\<forall>i m k. hops cs i key = Some k \<and> 0 < m \<and> hops cs m k = Some k \<longrightarrow>
      (\<exists>k. hops cs 9 key = Some k \<and> resolveSecretKey g cs lookup key 0 = Inl (SecretDepth k))) \<and>
   ((\<exists>n k. n \<le> 8 \<and> hops cs n key = Some k \<and> hop cs k = None) \<noteq> (\<exists>k. hops cs 9 key = Some k))"
proof (intro conjI allI impI)
  fix n k
  assume "n \<le> 8 \<and> hops cs n key = Some k \<and> hop cs k = None"
  then show "resolveSecretKey g cs lookup key 0 = end_value g cs lookup k"
    using resolve_hops [of 0 n cs key k g lookup] resolve_end [of n cs k g lookup] by simp
next
  fix n
  assume "9 \<le> n \<and> hops cs n key \<noteq> None"
  then show "\<exists>k. hops cs 9 key = Some k \<and> resolveSecretKey g cs lookup key 0 = Inl (SecretDepth k)" using too_deep by blast
next
  fix i m k
  assume c: "hops cs i key = Some k \<and> 0 < m \<and> hops cs m k = Some k"
  then have "hops cs (i + 9 * m) key \<noteq> None" using cycle_goes_on [of m cs k 9] by (simp add: hops_add)
  moreover have "9 \<le> i + 9 * m" using c by simp
  ultimately show "\<exists>k. hops cs 9 key = Some k \<and> resolveSecretKey g cs lookup key 0 = Inl (SecretDepth k)" by (rule too_deep [rotated])
next
  have "hops cs 9 key = None" if e: "n \<le> 8" "hops cs n key = Some k" "hop cs k = None" for n k
  proof -
    have "hops cs (Suc n) key = None" using hops_add [of cs n 1 key] e by simp
    with e hops_shorter [of cs 9 key "Suc n"] show ?thesis by fastforce
  qed
  moreover have "\<exists>n k. n \<le> 8 \<and> hops cs n key = Some k \<and> hop cs k = None" if "hops cs 9 key = None"
    using chain_ends [OF that] by (auto simp: less_Suc_eq_le eval_nat_numeral)
  ultimately show "(\<exists>n k. n \<le> 8 \<and> hops cs n key = Some k \<and> hop cs k = None) \<noteq> (\<exists>k. hops cs 9 key = Some k)"
    by (cases "hops cs 9 key") fastforce+
qed

text \<open>From \<open>B\<close> it is eight hops to the value, from \<open>A\<close> nine; \<open>X\<close> and \<open>Y\<close> refer to each other.\<close>

definition demo_chain :: "(string \<times> string) list" where
  "demo_chain = [(''A'', ''secret://B''), (''B'', ''secret://C''), (''C'', ''secret://D''), (''D'', ''secret://E''), (''E'', ''secret://F''),
     (''F'', ''secret://G''), (''G'', ''secret://H''), (''H'', ''secret://I''), (''I'', ''secret://J''), (''J'', ''value''),
     (''X'', ''secret://Y''), (''Y'', ''secret://X'')]"

theorem resolveSecretKey_chain_witness:
  "resolveSecretKey \<lparr>sg_resolver = None, sg_schemes = []\<rparr> demo_chain (\<lambda>_. None) ''B'' 0 = Inr ''value'' \<and>
   resolveSecretKey \<lparr>sg_resolver = None, sg_schemes = []\<rparr> demo_chain (\<lambda>_. None) ''A'' 0 = Inl (SecretDepth ''J'') \<and>
   resolveSecretKey \<lparr>sg_resolver = None, sg_schemes = []\<rparr> demo_chain (\<lambda>_. None) ''X'' 0 = Inl (SecretDepth ''Y'')"
proof (intro conjI)
  let ?g = "\<lparr>sg_resolver = None, sg_schemes = []\<rparr>"
  note chain = resolveSecretKey_chain [where cs = demo_chain and g = ?g and lookup = "\<lambda>_. None"]
  have "hops demo_chain 8 ''B'' = Some ''J''" "hop demo_chain ''J'' = None" "end_value ?g demo_chain (\<lambda>_. None) ''J'' = Inr ''value''" by code_simp+
  with chain [where key = "''B''", THEN conjunct1, rule_format, of 8 "''J''"]
  show "resolveSecretKey ?g demo_chain (\<lambda>_. None) ''B'' 0 = Inr ''value''" by simp
  have "hops demo_chain 9 ''A'' = Some ''J''" by code_simp
  with chain [where key = "''A''", THEN conjunct2, THEN conjunct1, rule_format, of 9]
  show "resolveSecretKey ?g demo_chain (\<lambda>_. None) ''A'' 0 = Inl (SecretDepth ''J'')" by simp
  have "hops demo_chain 0 ''X'' = Some ''X''" "hops demo_chain 2 ''X'' = Some ''X''" "hops demo_chain 9 ''X'' = Some ''Y''" by code_simp+
  with chain [where key = "''X''", THEN conjunct2, THEN conjunct2, THEN conjunct1, rule_format, of 0 "''X''" 2]
  show "resolveSecretKey ?g demo_chain (\<lambda>_. None) ''X'' 0 = Inl (SecretDepth ''Y'')" by simp
qed

section \<open>Production secrets\<close>

text \<open>
  No literal secrets in production. The stage check passes exactly when the stage is not a production
  stage or every configured secret is empty or a reference - to the environment, to another secret or to a
  secret manager whose scheme is registered; otherwise it names a literal one.
\<close>

theorem ValidateForStage_literals:
  "case ValidateForStage g m stage of
     None \<Rightarrow> \<not> isProductionStage stage \<or> (\<forall>(k, v) \<in> set m. TrimSpace v = '''' \<or> is_reference g (TrimSpace v))
   | Some e \<Rightarrow> isProductionStage stage \<and> (\<exists>(k, v) \<in> set m. e = SMStaticLiteral k (TrimSpace stage) \<and>
       TrimSpace v \<noteq> '''' \<and> \<not> is_reference g (TrimSpace v))"
proof (cases "isProductionStage stage")
  case False
  then show ?thesis by (simp add: ValidateForStage_def)
next
  case True
  have "first_error f xs = Some e \<Longrightarrow> \<exists>x \<in> set xs. f x = Some e" for f :: "string \<times> string \<Rightarrow> secret_map_error option" and xs e
    by (induction xs) (auto split: option.splits)
  then show ?thesis using True
    by (fastforce simp: ValidateForStage_def first_error_None Let_def split: option.splits if_splits)
qed

theorem ValidateForStage_literals_witness:
  "ValidateForStage \<lparr>sg_resolver = None, sg_schemes = []\<rparr> [(''K'', ''abc'')] '' Prod'' = Some (SMStaticLiteral ''K'' ''Prod'')"
proof -
  let ?g = "\<lparr>sg_resolver = None, sg_schemes = []\<rparr>"
  have "isProductionStage '' Prod''" and "\<not> is_reference ?g (TrimSpace ''abc'')" and "TrimSpace ''abc'' \<noteq> ''''"
    and t: "TrimSpace '' Prod'' = ''Prod''" by code_simp+
  then show ?thesis
    using ValidateForStage_literals [where g = ?g and m = "[(''K'', ''abc'')]" and stage = "'' Prod''"] by (simp add: t split: option.splits)
qed

end
