(* ===== verification/Compose.thy ===== *)
theory Compose
  imports Prelude
begin

text \<open>
  Compose files (\<^verbatim>\<open>platform/workflow/core/compose_file.go\<close>, \<^verbatim>\<open>compose.go\<close>) and their deployment
  (\<^verbatim>\<open>platform/workflow/app/compose.go\<close>). Deploying and removing one service, loading its receipt and
  looking up its configuration file are parameters.
\<close>

section \<open>The file\<close>

record compose_service =
  cs_Name :: string
  cs_Config :: string
  cs_DependsOn :: "string list"

datatype compose_error = UnknownDependency string string | DependencyCycle string string
  | NoServices | ConfigMissing string | ServiceFailed string string

section \<open>The order\<close>

text \<open>The dependencies of the first service with a name, as the loop over the services finds it.\<close>

definition deps_of :: "compose_service list \<Rightarrow> string \<Rightarrow> string list" where
  "deps_of svcs name = (case find (\<lambda>s. cs_Name s = name) svcs of None \<Rightarrow> [] | Some s \<Rightarrow> cs_DependsOn s)"

text \<open>
  \<open>visit_all svcs ns (visited, order)\<close> visits the names \<open>ns\<close> in turn: the depth-first search that appends
  a name once its dependencies have been visited.
\<close>

function visit_all :: "compose_service list \<Rightarrow> string list \<Rightarrow> string list \<times> string list \<Rightarrow> string list \<times> string list" where
  "visit_all svcs [] st = st"
| "visit_all svcs (n # ns) st =
     (if n \<in> set (fst st) then visit_all svcs ns st
      else let st1 = visit_all svcs (deps_of svcs n) (n # fst st, snd st)
           in visit_all svcs ns (fst st1, snd st1 @ [n]))"
  by pat_completeness auto

lemma visit_grows: "visit_all_dom (svcs, ns, st) \<Longrightarrow> set (fst st) \<subseteq> set (fst (visit_all svcs ns st))"
proof (induction rule: visit_all.pinduct)
  case (1 svcs st)
  then show ?case by (simp add: visit_all.psimps)
next
  case (2 svcs n ns st)
  show ?case
  proof (cases "n \<in> set (fst st)")
    case True
    with 2 show ?thesis by (simp add: visit_all.psimps)
  next
    case False
    define st1 where "st1 = visit_all svcs (deps_of svcs n) (n # fst st, snd st)"
    have "set (fst st) \<subseteq> set (fst st1)"
      using 2(3) [OF False] by (simp add: st1_def)
    also have "\<dots> \<subseteq> set (fst (visit_all svcs ns (fst st1, snd st1 @ [n])))"
      using 2(4) [OF False st1_def] by simp
    also have "visit_all svcs ns (fst st1, snd st1 @ [n]) = visit_all svcs (n # ns) st"
      using 2(1) False by (simp add: visit_all.psimps st1_def Let_def)
    finally show ?thesis .
  qed
qed

lemma deps_of_unknown: "n \<notin> cs_Name ` set svcs \<Longrightarrow> deps_of svcs n = []"
proof -
  assume "n \<notin> cs_Name ` set svcs"
  then have "find (\<lambda>s. cs_Name s = n) svcs = None" by (auto simp: find_None_iff)
  then show ?thesis by (simp add: deps_of_def)
qed

lemma card_unvisited:
  "n \<in> N \<Longrightarrow> n \<notin> set v \<Longrightarrow> finite N \<Longrightarrow> card (N - set (n # v)) < card (N - set v)"
  by (rule psubset_card_mono) auto

termination visit_all
proof (relation "measures [\<lambda>(svcs, ns, st). card (cs_Name ` set svcs - set (fst st)), \<lambda>(svcs, ns, st). length ns]",
    goal_cases)
  case (3 svcs n ns st)
  show ?case
  proof (cases "n \<in> cs_Name ` set svcs")
    case True
    then show ?thesis using card_unvisited [OF True 3] by simp
  next
    case False
    then have "cs_Name ` set svcs - set (n # fst st) = cs_Name ` set svcs - set (fst st)" by auto
    then show ?thesis using deps_of_unknown [OF False] by simp
  qed
next
  case (4 svcs n ns st st1)
  have "set (fst st) \<subseteq> set (fst st1)"
    using visit_grows [OF 4(3)] 4(2) by simp
  then have "card (cs_Name ` set svcs - set (fst st1)) \<le> card (cs_Name ` set svcs - set (fst st))"
    by (intro card_mono) auto
  then show ?case by auto
qed simp_all

declare visit_all.simps [simp del]

definition dep_pairs :: "compose_service list \<Rightarrow> (string \<times> string) list" where
  "dep_pairs svcs = concat (map (\<lambda>s. map (\<lambda>d. (cs_Name s, d)) (cs_DependsOn s)) svcs)"

definition order_index :: "string list \<Rightarrow> string \<Rightarrow> nat" where
  "order_index order n = (case find_index (\<lambda>x. x = n) order of None \<Rightarrow> 0 | Some i \<Rightarrow> i)"

definition TopoOrder :: "compose_service list \<Rightarrow> compose_error + string list" where
  "TopoOrder svcs = (case find (\<lambda>(s, d). d \<notin> cs_Name ` set svcs) (dep_pairs svcs) of
     Some (s, d) \<Rightarrow> Inl (UnknownDependency s d)
   | None \<Rightarrow>
      (let order = snd (visit_all svcs (map cs_Name svcs) ([], [])) in
       case find (\<lambda>(s, d). order_index order s < order_index order d) (dep_pairs svcs) of
         Some (s, d) \<Rightarrow> Inl (DependencyCycle s d)
       | None \<Rightarrow> Inr order))"

section \<open>Bindings and deployment\<close>

text \<open>\<^verbatim>\<open>ServiceBindingEnv\<close>: the variables, in the order in which the map is iterated.\<close>

definition binding_key :: "string \<Rightarrow> string" where
  "binding_key name = ''SERVICE_'' @ ToUpper (ReplaceAll1 name CHR ''-'' CHR ''_'') @ ''_URL''"

definition ServiceBindingEnv :: "(string \<times> string) list \<Rightarrow> (string \<times> string) list" where
  "ServiceBindingEnv urls = foldl (\<lambda>out (name, url).
     if name = '''' \<or> url = '''' then out else AList.update (binding_key name) url out) [] urls"

definition ServiceURLFromReceipt :: "(string \<times> string) list \<Rightarrow> string" where
  "ServiceURLFromReceipt outputs = (case find (\<lambda>v. v \<noteq> '''') (map (\<lambda>k. case map_of outputs k of None \<Rightarrow> '''' | Some v \<Rightarrow> v)
     [''ServiceURL'', ''url'', ''ApiUrl'']) of None \<Rightarrow> '''' | Some v \<Rightarrow> v)"

text \<open>
  \<open>cp_stat\<close> resolves a configuration path if the file exists; \<open>cp_deploy\<close> and \<open>cp_remove\<close> answer the \<open>n\<close>-th
  operation; \<open>cp_receipt\<close> is the outputs of the receipt read after the \<open>n\<close>-th deploy, if there is one;
  \<open>cp_iter\<close> the order in which a map is iterated.
\<close>

record compose_params =
  cp_stat :: "string \<Rightarrow> string option"
  cp_deploy :: "nat \<Rightarrow> string \<Rightarrow> (string \<times> string) list \<Rightarrow> string option"
  cp_receipt :: "nat \<Rightarrow> string \<Rightarrow> (string \<times> string) list option"
  cp_remove :: "nat \<Rightarrow> string \<Rightarrow> string option"
  cp_iter :: "nat \<Rightarrow> (string \<times> string) list \<Rightarrow> (string \<times> string) list"

fun ResolveServiceConfigPaths ::
  "compose_params \<Rightarrow> compose_service list \<Rightarrow> (string \<times> string) list \<Rightarrow> compose_error + (string \<times> string) list" where
  "ResolveServiceConfigPaths P [] out = Inr out"
| "ResolveServiceConfigPaths P (s # ss) out = (case cp_stat P (cs_Config s) of
     None \<Rightarrow> Inl (ConfigMissing (cs_Name s))
   | Some p \<Rightarrow> ResolveServiceConfigPaths P ss (AList.update (cs_Name s) p out))"

definition path_of :: "(string \<times> string) list \<Rightarrow> string \<Rightarrow> string" where
  "path_of paths name = (case map_of paths name of None \<Rightarrow> '''' | Some p \<Rightarrow> p)"

record compose_result =
  cr_Service :: string
  cr_Error :: string
  cr_Outputs :: "(string \<times> string) list"

text \<open>A call of \<^verbatim>\<open>Deploy\<close>: the service, its configuration and the environment it is given.\<close>

type_synonym deploy_call = "string \<times> string \<times> (string \<times> string) list"

fun deploy_each ::
  "compose_params \<Rightarrow> (string \<times> string) list \<Rightarrow> (string \<times> string) list \<Rightarrow> nat \<Rightarrow> string list \<Rightarrow>
   deploy_call list \<times> compose_result list \<times> string option" where
  "deploy_each P paths urls n [] = ([], [], None)"
| "deploy_each P paths urls n (name # rest) =
     (let path = path_of paths name; env = ServiceBindingEnv (cp_iter P n urls) in
      case cp_deploy P n path env of
        Some e \<Rightarrow> ([(name, path, env)], [\<lparr>cr_Service = name, cr_Error = e, cr_Outputs = []\<rparr>], Some e)
      | None \<Rightarrow>
         (let outputs = (case cp_receipt P n path of None \<Rightarrow> [] | Some m \<Rightarrow> m);
              url = ServiceURLFromReceipt outputs;
              urls' = (if url = '''' then urls else AList.update name url urls);
              (calls, results, err) = deploy_each P paths urls' (Suc n) rest
          in ((name, path, env) # calls, \<lparr>cr_Service = name, cr_Error = '''', cr_Outputs = outputs\<rparr> # results, err)))"

definition ComposeDeploy ::
  "compose_params \<Rightarrow> compose_service list \<Rightarrow> compose_error + deploy_call list \<times> compose_result list \<times> string option" where
  "ComposeDeploy P svcs =
     (if svcs = [] then Inl NoServices
      else case ResolveServiceConfigPaths P svcs [] of Inl e \<Rightarrow> Inl e
      | Inr paths \<Rightarrow> (case TopoOrder svcs of Inl e \<Rightarrow> Inl e
         | Inr order \<Rightarrow> Inr (deploy_each P paths [] 0 order)))"

fun remove_each :: "compose_params \<Rightarrow> (string \<times> string) list \<Rightarrow> nat \<Rightarrow> string list \<Rightarrow> string list \<times> compose_error option" where
  "remove_each P paths n [] = ([], None)"
| "remove_each P paths n (name # rest) = (case cp_remove P n (path_of paths name) of
     Some e \<Rightarrow> ([name], Some (ServiceFailed name e))
   | None \<Rightarrow> (let (calls, err) = remove_each P paths (Suc n) rest in (name # calls, err)))"

definition ComposeRemove ::
  "compose_params \<Rightarrow> compose_service list \<Rightarrow> compose_error + string list \<times> compose_error option" where
  "ComposeRemove P svcs =
     (if svcs = [] then Inl NoServices
      else case ResolveServiceConfigPaths P svcs [] of Inl e \<Rightarrow> Inl e
      | Inr paths \<Rightarrow> (case TopoOrder svcs of Inl e \<Rightarrow> Inl e
         | Inr order \<Rightarrow> Inr (remove_each P paths 0 (rev order))))"

end
