(* ===== verification/Compose_Claims.thy ===== *)
theory Compose_Claims
  imports Compose
begin

text \<open>
  Properties of compose files: the deployment order respects the dependencies, and every service is
  deployed with the addresses of the services it depends on.
\<close>

lemma find_in: "find p xs = Some x \<Longrightarrow> x \<in> set xs \<and> p x"
  by (induction xs) (auto split: if_splits)

section \<open>Positions in the order\<close>

lemma order_index_nth:
  assumes "distinct order" and "i < length order"
  shows "order_index order (order ! i) = i"
proof -
  have "find_index (\<lambda>x. x = order ! i) order = Some i"
    using assms by (auto simp: find_index_Some nth_eq_iff_index_eq)
  then show ?thesis by (simp add: order_index_def)
qed

lemma order_index_split:
  assumes d: "distinct order" and "x \<in> set order" and "y \<in> set order"
  shows "order_index order x < order_index order y \<longleftrightarrow> (\<exists>a b c. order = a @ x # b @ y # c)"
proof -
  from assms obtain i j where i: "i < length order" "order ! i = x" and j: "j < length order" "order ! j = y"
    by (metis in_set_conv_nth)
  have eq: "order_index order x = i" "order_index order y = j"
    using order_index_nth [OF d] i j by auto
  show ?thesis
  proof
    assume "order_index order x < order_index order y"
    then have ij: "i < j" by (simp add: eq)
    have "take j order = take i order @ x # drop (Suc i) (take j order)"
      using id_take_nth_drop [of i "take j order"] ij i j by (simp add: min_def)
    then have "order = take i order @ x # drop (Suc i) (take j order) @ y # drop (Suc j) order"
      using id_take_nth_drop [OF j(1)] j(2) by (metis append.assoc append_Cons)
    then show "\<exists>a b c. order = a @ x # b @ y # c" by blast
  next
    assume "\<exists>a b c. order = a @ x # b @ y # c"
    then obtain a b c where s: "order = a @ x # b @ y # c" by blast
    then have "order ! length a = x" "order ! (length a + Suc (length b)) = y" by (simp_all add: nth_append)
    then have "i = length a" "j = length a + Suc (length b)"
      using i j d s nth_eq_iff_index_eq [OF d, of i "length a"] nth_eq_iff_index_eq [OF d, of j "length a + Suc (length b)"]
      by auto
    then show "order_index order x < order_index order y" by (simp add: eq)
  qed
qed

section \<open>The search\<close>

definition depends :: "compose_service list \<Rightarrow> (string \<times> string) set" where
  "depends svcs = {(n, d). d \<in> set (deps_of svcs n)}"

definition pending :: "string list \<times> string list \<Rightarrow> string set" where
  "pending st = set (fst st) - set (snd st)"

text \<open>The search only adds names it has not visited, to both lists, and visits all it is asked for.\<close>

lemma visit_adds:
  "\<exists>x. snd (visit_all svcs ns st) = snd st @ x \<and> set (fst (visit_all svcs ns st)) = set (fst st) \<union> set x \<and>
     set x \<inter> set (fst st) = {} \<and> distinct x \<and> set ns \<subseteq> set (fst (visit_all svcs ns st))"
proof (induction svcs ns st rule: visit_all.induct)
  case (1 svcs st)
  show ?case by (simp add: visit_all.simps)
next
  case (2 svcs n ns st)
  show ?case
  proof (cases "n \<in> set (fst st)")
    case True
    from 2(1) [OF True] obtain x where
      "snd (visit_all svcs ns st) = snd st @ x" "set (fst (visit_all svcs ns st)) = set (fst st) \<union> set x"
      "set x \<inter> set (fst st) = {}" "distinct x" "set ns \<subseteq> set (fst (visit_all svcs ns st))" by blast
    then show ?thesis using True by (intro exI [of _ x]) (simp add: visit_all.simps(2))
  next
    case False
    define st1 where "st1 = visit_all svcs (deps_of svcs n) (n # fst st, snd st)"
    define st2 where "st2 = visit_all svcs ns (fst st1, snd st1 @ [n])"
    from 2(2) [OF False] obtain x where x: "snd st1 = snd st @ x" "set (fst st1) = insert n (set (fst st)) \<union> set x"
      "set x \<inter> insert n (set (fst st)) = {}" "distinct x" by (auto simp: st1_def)
    from 2(3) [OF False st1_def] obtain y where y: "snd st2 = (snd st1 @ [n]) @ y"
      "set (fst st2) = set (fst st1) \<union> set y" "set y \<inter> set (fst st1) = {}" "distinct y" "set ns \<subseteq> set (fst st2)"
      by (auto simp: st2_def)
    have "visit_all svcs (n # ns) st = st2" using False by (simp add: visit_all.simps(2) st1_def st2_def Let_def)
    moreover have "snd st2 = snd st @ (x @ n # y)" using x y by simp
    moreover have "set (fst st2) = set (fst st) \<union> set (x @ n # y)" using x y by auto
    moreover have "set (x @ n # y) \<inter> set (fst st) = {}" "distinct (x @ n # y)" using x y False by auto
    moreover have "set (n # ns) \<subseteq> set (fst st2)" using x y by auto
    ultimately show ?thesis by metis
  qed
qed

lemma pending_same: "pending (visit_all svcs ns st) = pending st"
  using visit_adds [of svcs ns st] by (auto simp: pending_def)

text \<open>The search stays within a set of names that is closed under dependencies.\<close>

lemma visit_within:
  "set ns \<subseteq> N \<Longrightarrow> set (fst st) \<subseteq> N \<Longrightarrow> (\<And>n. n \<in> N \<Longrightarrow> set (deps_of svcs n) \<subseteq> N) \<Longrightarrow>
     set (fst (visit_all svcs ns st)) \<subseteq> N"
proof (induction svcs ns st rule: visit_all.induct)
  case (1 svcs st)
  then show ?case by (simp add: visit_all.simps)
next
  case (2 svcs n ns st)
  then show ?case by (cases "n \<in> set (fst st)") (simp_all add: visit_all.simps(2) Let_def)
qed

text \<open>
  In the order a name comes after its dependencies, except for those that depend on it themselves.
\<close>

definition topological :: "compose_service list \<Rightarrow> string list \<Rightarrow> bool" where
  "topological svcs order \<longleftrightarrow> (\<forall>a n b. order = a @ n # b \<longrightarrow> (\<forall>d \<in> set (deps_of svcs n). d \<in> set a \<or> (d, n) \<in> (depends svcs)\<^sup>*))"

lemma topological_snoc:
  "topological svcs order \<Longrightarrow> \<forall>d \<in> set (deps_of svcs n). d \<in> set order \<or> (d, n) \<in> (depends svcs)\<^sup>* \<Longrightarrow> topological svcs (order @ [n])"
  unfolding topological_def
proof (intro allI impI)
  fix a m b
  assume h: "\<forall>a n b. order = a @ n # b \<longrightarrow> (\<forall>d \<in> set (deps_of svcs n). d \<in> set a \<or> (d, n) \<in> (depends svcs)\<^sup>*)"
    "\<forall>d \<in> set (deps_of svcs n). d \<in> set order \<or> (d, n) \<in> (depends svcs)\<^sup>*" and eq: "order @ [n] = a @ m # b"
  show "\<forall>d \<in> set (deps_of svcs m). d \<in> set a \<or> (d, m) \<in> (depends svcs)\<^sup>*"
  proof (cases b rule: rev_cases)
    case Nil
    then show ?thesis using eq h(2) by simp
  next
    case (snoc b' y)
    then have "order = a @ m # b'" using eq by simp
    then show ?thesis using h(1) by blast
  qed
qed

text \<open>What is pending depends on what is asked for next; so a dependency that is skipped as pending lies on a cycle.\<close>

lemma visit_topological:
  "(\<forall>g \<in> pending st. \<forall>n \<in> set ns. (g, n) \<in> (depends svcs)\<^sup>*) \<Longrightarrow> topological svcs (snd st) \<Longrightarrow>
     set (snd st) \<subseteq> set (fst st) \<Longrightarrow>
     topological svcs (snd (visit_all svcs ns st)) \<and> set ns \<subseteq> set (snd (visit_all svcs ns st)) \<union> pending st"
proof (induction svcs ns st rule: visit_all.induct)
  case (1 svcs st)
  then show ?case by (simp add: visit_all.simps)
next
  case (2 svcs n ns st)
  show ?case
  proof (cases "n \<in> set (fst st)")
    case True
    then have "n \<in> set (snd st) \<union> pending st" by (auto simp: pending_def)
    moreover have "set (snd st) \<subseteq> set (snd (visit_all svcs ns st))" using visit_adds [of svcs ns st] by auto
    ultimately show ?thesis using 2(1) [OF True] 2(4-6) True by (auto simp: visit_all.simps(2))
  next
    case False
    define st1 where "st1 = visit_all svcs (deps_of svcs n) (n # fst st, snd st)"
    let ?st2 = "(fst st1, snd st1 @ [n])"
    have p: "pending (n # fst st, snd st) = insert n (pending st)" using False 2(6) by (auto simp: pending_def)
    have reach: "\<forall>g \<in> insert n (pending st). \<forall>d \<in> set (deps_of svcs n). (g, d) \<in> (depends svcs)\<^sup>*"
      using 2(4) by (auto simp: depends_def intro: rtrancl_into_rtrancl)
    have ih1: "topological svcs (snd st1)" "set (deps_of svcs n) \<subseteq> set (snd st1) \<union> insert n (pending st)"
      using 2(2) [OF False] reach 2(5,6) by (auto simp: st1_def p)
    have skipped: "\<forall>d \<in> set (deps_of svcs n). d \<in> set (snd st1) \<or> (d, n) \<in> (depends svcs)\<^sup>*"
      using ih1(2) 2(4) by auto
    have sub: "set (snd st1) \<subseteq> set (fst st1)" "n \<in> set (fst st1)"
      using visit_adds [of svcs "deps_of svcs n" "(n # fst st, snd st)"] 2(6) by (auto simp: st1_def)
    have "pending st1 = insert n (pending st)" using pending_same p by (simp add: st1_def)
    then have pend: "pending ?st2 \<subseteq> pending st" by (auto simp: pending_def)
    then have ih2: "topological svcs (snd (visit_all svcs ns ?st2)) \<and> set ns \<subseteq> set (snd (visit_all svcs ns ?st2)) \<union> pending ?st2"
      using 2(3) [OF False st1_def] 2(4) sub topological_snoc [OF ih1(1) skipped] by auto
    have "n \<in> set (snd (visit_all svcs ns ?st2))" using visit_adds [of svcs ns ?st2] by auto
    with ih2 pend show ?thesis using False by (auto simp: visit_all.simps(2) st1_def Let_def)
  qed
qed

section \<open>The order is right\<close>

definition full_order :: "compose_service list \<Rightarrow> string list" where
  "full_order svcs = snd (visit_all svcs (map cs_Name svcs) ([], []))"

lemma deps_of_service: "distinct (map cs_Name svcs) \<Longrightarrow> s \<in> set svcs \<Longrightarrow> deps_of svcs (cs_Name s) = cs_DependsOn s"
  by (induction svcs) (auto simp: deps_of_def)

lemma dep_pairs_iff: "(n, d) \<in> set (dep_pairs svcs) \<longleftrightarrow> (\<exists>s \<in> set svcs. n = cs_Name s \<and> d \<in> set (cs_DependsOn s))"
  by (auto simp: dep_pairs_def)

lemma deps_of_subset: "d \<in> set (deps_of svcs n) \<Longrightarrow> (n, d) \<in> set (dep_pairs svcs)"
proof -
  assume d: "d \<in> set (deps_of svcs n)"
  then obtain s where s: "find (\<lambda>s. cs_Name s = n) svcs = Some s" "d \<in> set (cs_DependsOn s)"
    by (cases "find (\<lambda>s. cs_Name s = n) svcs") (auto simp: deps_of_def)
  from find_in [OF s(1)] s(2) show ?thesis by (auto simp: dep_pairs_iff)
qed

lemma full_order_props:
  assumes "\<forall>(s, d) \<in> set (dep_pairs svcs). d \<in> cs_Name ` set svcs"
  shows "distinct (full_order svcs)" and "set (full_order svcs) = cs_Name ` set svcs"
proof -
  let ?v = "visit_all svcs (map cs_Name svcs) ([], [])"
  from visit_adds [of svcs "map cs_Name svcs" "([], [])"] obtain x
    where x: "snd ?v = x" "set (fst ?v) = set x" "distinct x" "cs_Name ` set svcs \<subseteq> set (fst ?v)" by auto
  show "distinct (full_order svcs)" using x by (simp add: full_order_def)
  have "set (fst ?v) \<subseteq> cs_Name ` set svcs"
    by (rule visit_within) (use assms deps_of_subset in fastforce)+
  then show "set (full_order svcs) = cs_Name ` set svcs" using x by (auto simp: full_order_def)
qed

lemma full_order_topological: "topological svcs (full_order svcs)"
  using visit_topological [of "([], [])" "map cs_Name svcs" svcs] by (simp add: full_order_def pending_def topological_def)

text \<open>An edge against the order closes a cycle.\<close>

lemma against_order:
  assumes names: "distinct (map cs_Name svcs)" and known: "\<forall>(s, d) \<in> set (dep_pairs svcs). d \<in> cs_Name ` set svcs"
    and sd: "(s, d) \<in> set (dep_pairs svcs)" "order_index (full_order svcs) s < order_index (full_order svcs) d"
  shows "(d, s) \<in> (depends svcs)\<^sup>*"
proof -
  note props = full_order_props [OF known]
  have "s \<in> set (full_order svcs)" using sd props(2) by (auto simp: dep_pairs_iff)
  moreover have "d \<in> set (full_order svcs)" using sd(1) known props(2) by fastforce
  ultimately obtain a b c where o: "full_order svcs = a @ s # b @ d # c"
    using order_index_split [OF props(1)] sd(2) by blast
  have "d \<in> set (deps_of svcs s)" using sd(1) deps_of_service [OF names] by (auto simp: dep_pairs_iff)
  then have "d \<in> set a \<or> (d, s) \<in> (depends svcs)\<^sup>*" using full_order_topological o unfolding topological_def by blast
  then show ?thesis using props(1) o by auto
qed

text \<open>Dependencies that all come strictly earlier have no cycle.\<close>

lemma order_acyclic:
  assumes "\<And>n d. (n, d) \<in> set (dep_pairs svcs) \<Longrightarrow> order_index order d < order_index order n"
  shows "acyclic (depends svcs)"
proof -
  have "(n, d) \<in> (depends svcs)\<^sup>+ \<Longrightarrow> order_index order d < order_index order n" for n d
  proof (induction rule: trancl_induct)
    case (base d)
    then show ?case using assms deps_of_subset by (auto simp: depends_def)
  next
    case (step d e)
    then show ?case using assms deps_of_subset order.strict_trans by (fastforce simp: depends_def)
  qed
  then show ?thesis unfolding acyclic_def by blast
qed

lemma unknown_pair:
  assumes "find (\<lambda>(s, d). d \<notin> cs_Name ` set svcs) (dep_pairs svcs) = Some (n, d)"
  shows "TopoOrder svcs = Inl (UnknownDependency n d)" and "(n, d) \<in> set (dep_pairs svcs)" and "d \<notin> cs_Name ` set svcs"
  using assms find_in [OF assms] by (simp_all add: TopoOrder_def)

lemma known_pairs: "find (\<lambda>(s, d). d \<notin> cs_Name ` set svcs) (dep_pairs svcs) = None \<Longrightarrow> \<forall>(s, d) \<in> set (dep_pairs svcs). d \<in> cs_Name ` set svcs"
  by (fastforce simp: find_None_iff)

lemma TopoOrder_order:
  assumes "TopoOrder svcs = Inr order"
  shows "distinct order" and "set order = cs_Name ` set svcs"
    and "(n, d) \<in> set (dep_pairs svcs) \<Longrightarrow> d = n \<or> order_index order d < order_index order n \<and> (\<exists>a b c. order = a @ d # b @ n # c)"
proof -
  from assms have none: "find (\<lambda>(s, d). d \<notin> cs_Name ` set svcs) (dep_pairs svcs) = None"
    and o: "order = full_order svcs" and none2: "find (\<lambda>(s, d). order_index order s < order_index order d) (dep_pairs svcs) = None"
    by (auto simp: TopoOrder_def full_order_def Let_def split: option.splits prod.splits)
  note known = known_pairs [OF none] and props = full_order_props [OF known_pairs [OF none], folded o]
  show "distinct order" "set order = cs_Name ` set svcs" by (rule props)+
  assume p: "(n, d) \<in> set (dep_pairs svcs)"
  then have "\<not> order_index order n < order_index order d" using none2 by (fastforce simp: find_None_iff)
  moreover have m: "n \<in> set order" "d \<in> set order" using p known props(2) dep_pairs_iff [of n d svcs] by auto
  moreover have "order_index order d = order_index order n \<Longrightarrow> d = n"
    using order_index_nth [OF props(1)] m by (metis in_set_conv_nth)
  ultimately show "d = n \<or> order_index order d < order_index order n \<and> (\<exists>a b c. order = a @ d # b @ n # c)"
    using order_index_split [OF props(1) m(2) m(1)] by (metis linorder_neqE_nat)
qed

text \<open>
  C32. The order is right and complete, and errors are justified. Let the services have different names and no service depend on
  itself. A result contains every service once, after every service it depends on, and there is one only if
  all dependencies are known and there is no cycle. The error of an unknown dependency names a service and a
  dependency of it that is no service; the error of a cycle names a service and a dependency of it that depends
  on the service in turn, so the cycle has two services or more.
\<close>

theorem TopoOrder_correct:
  assumes "distinct (map cs_Name svcs)" and "\<forall>s \<in> set svcs. cs_Name s \<notin> set (cs_DependsOn s)"
  shows "case TopoOrder svcs of
      Inr order \<Rightarrow> distinct order \<and> set order = cs_Name ` set svcs \<and> acyclic (depends svcs) \<and>
        (\<forall>s \<in> set svcs. \<forall>d \<in> set (cs_DependsOn s). \<exists>a b c. order = a @ d # b @ cs_Name s # c)
    | Inl (UnknownDependency n d) \<Rightarrow> (\<exists>s \<in> set svcs. cs_Name s = n \<and> d \<in> set (cs_DependsOn s)) \<and> d \<notin> cs_Name ` set svcs
    | Inl (DependencyCycle n d) \<Rightarrow> (\<exists>s \<in> set svcs. cs_Name s = n \<and> d \<in> set (cs_DependsOn s)) \<and> d \<noteq> n \<and> (d, n) \<in> (depends svcs)\<^sup>+
    | Inl e \<Rightarrow> False"
proof -
  let ?o = "full_order svcs"
  have other: "d \<noteq> n" if "(n, d) \<in> set (dep_pairs svcs)" for n d using that assms(2) by (auto simp: dep_pairs_iff)
  consider (unknown) n d where "find (\<lambda>(s, d). d \<notin> cs_Name ` set svcs) (dep_pairs svcs) = Some (n, d)"
    | (cycle) n d where "find (\<lambda>(s, d). d \<notin> cs_Name ` set svcs) (dep_pairs svcs) = None"
        "find (\<lambda>(s, d). order_index ?o s < order_index ?o d) (dep_pairs svcs) = Some (n, d)"
    | (order) "TopoOrder svcs = Inr ?o"
    unfolding TopoOrder_def full_order_def [symmetric]
    by (cases "find (\<lambda>(s, d). d \<notin> cs_Name ` set svcs) (dep_pairs svcs)"; cases "find (\<lambda>(s, d). order_index ?o s < order_index ?o d) (dep_pairs svcs)") auto
  then show ?thesis
  proof cases
    case unknown
    from unknown_pair [OF this] show ?thesis by (auto simp: dep_pairs_iff)
  next
    case cycle
    then have nd: "(n, d) \<in> set (dep_pairs svcs)" "order_index ?o n < order_index ?o d" by (auto dest!: find_in)
    from against_order [OF assms(1) known_pairs [OF cycle(1)] nd] other [OF nd(1)] have "(d, n) \<in> (depends svcs)\<^sup>+"
      by (metis rtranclD)
    moreover have "TopoOrder svcs = Inl (DependencyCycle n d)" using cycle by (simp add: TopoOrder_def full_order_def)
    ultimately show ?thesis using nd(1) other [OF nd(1)] by (auto simp: dep_pairs_iff)
  next
    case order
    note props = TopoOrder_order [OF order]
    have "acyclic (depends svcs)" by (rule order_acyclic [of _ ?o]) (use props(3) other in blast)
    moreover have "\<exists>a b c. ?o = a @ d # b @ cs_Name s # c" if "s \<in> set svcs" "d \<in> set (cs_DependsOn s)" for s d
      using props(3) [of "cs_Name s" d] other that by (auto simp: dep_pairs_iff)
    ultimately show ?thesis using order props(1,2) by simp
  qed
qed

definition demo_compose :: "compose_service list" where
  "demo_compose = [\<lparr>cs_Name = ''web'', cs_Config = ''w.yml'', cs_DependsOn = [''api'', ''db'']\<rparr>,
     \<lparr>cs_Name = ''api'', cs_Config = ''a.yml'', cs_DependsOn = [''db'']\<rparr>,
     \<lparr>cs_Name = ''db'', cs_Config = ''d.yml'', cs_DependsOn = []\<rparr>]"

theorem TopoOrder_correct_witness:
  "TopoOrder demo_compose = Inr [''db'', ''api'', ''web''] \<and> (\<exists>a b c. [''db'', ''api'', ''web''] = a @ ''db'' # b @ ''web'' # c)"
proof -
  have o: "TopoOrder demo_compose = Inr [''db'', ''api'', ''web'']" by code_simp
  have "distinct (map cs_Name demo_compose)" "\<forall>s \<in> set demo_compose. cs_Name s \<notin> set (cs_DependsOn s)" by code_simp+
  from TopoOrder_correct [OF this] have
    "\<forall>d \<in> set (cs_DependsOn (hd demo_compose)). \<exists>a b c. [''db'', ''api'', ''web''] = a @ d # b @ cs_Name (hd demo_compose) # c"
    unfolding o by (simp add: demo_compose_def)
  then show ?thesis using o by (auto simp: demo_compose_def)
qed

section \<open>Deploying in order\<close>

definition add_url :: "(string \<times> string) list \<Rightarrow> compose_result \<Rightarrow> (string \<times> string) list" where
  "add_url urls r = (if ServiceURLFromReceipt (cr_Outputs r) = '''' then urls
     else AList.update (cr_Service r) (ServiceURLFromReceipt (cr_Outputs r)) urls)"

lemma deploy_each_calls:
  "deploy_each P paths urls n order = (calls, results, err) \<Longrightarrow>
   length results = length calls \<and> map cr_Service results = map fst calls \<and>
   map fst calls = take (length calls) order \<and> (err = None \<longrightarrow> length calls = length order) \<and>
   (\<forall>i < length calls. snd (snd (calls ! i)) = ServiceBindingEnv (cp_iter P (n + i) (foldl add_url urls (take i results))))"
proof (induction order arbitrary: urls n calls results err)
  case Nil
  then show ?case by simp
next
  case (Cons name rest)
  let ?path = "path_of paths name" and ?env = "ServiceBindingEnv (cp_iter P n urls)"
  show ?case
  proof (cases "cp_deploy P n ?path ?env")
    case (Some e)
    then show ?thesis using Cons.prems by (auto simp: Let_def)
  next
    case None
    let ?out = "case cp_receipt P n ?path of None \<Rightarrow> [] | Some m \<Rightarrow> m"
    let ?r = "\<lparr>cr_Service = name, cr_Error = '''', cr_Outputs = ?out\<rparr>"
    obtain c rs e where d: "deploy_each P paths (add_url urls ?r) (Suc n) rest = (c, rs, e)" by (cases "deploy_each P paths (add_url urls ?r) (Suc n) rest")
    with Cons.prems None have eq: "calls = (name, ?path, ?env) # c" "results = ?r # rs" "err = e"
      by (auto simp: Let_def add_url_def split: if_splits)
    from Cons.IH [OF d] show ?thesis
      by (auto simp: eq nth_Cons split: nat.split)
  qed
qed

lemma map_of_add_urls:
  assumes "distinct (map cr_Service rs)"
  shows "map_of (foldl add_url [] rs) d = Some u \<longleftrightarrow>
     u \<noteq> '''' \<and> (\<exists>r \<in> set rs. cr_Service r = d \<and> ServiceURLFromReceipt (cr_Outputs r) = u)"
  using assms
proof (induction rs rule: rev_induct)
  case Nil
  then show ?case by simp
next
  case (snoc r rs)
  have r: "cr_Service r \<notin> cr_Service ` set rs" using snoc.prems by simp
  have step: "add_url (foldl add_url [] rs) r = (if ServiceURLFromReceipt (cr_Outputs r) = '''' then foldl add_url [] rs
     else AList.update (cr_Service r) (ServiceURLFromReceipt (cr_Outputs r)) (foldl add_url [] rs))"
    by (simp add: add_url_def [of _ r])
  show ?case
  proof (cases "d = cr_Service r")
    case True
    then show ?thesis using snoc r by (auto simp: step update_conv image_iff)
  next
    case False
    then show ?thesis using snoc by (auto simp: step update_conv)
  qed
qed

lemma keys_add_urls: "fst ` set (foldl add_url [] rs) \<subseteq> cr_Service ` set rs"
proof (induction rs rule: rev_induct)
  case Nil
  then show ?case by simp
next
  case (snoc r rs)
  have "fst ` set (AList.update k v m) = insert k (fst ` set m)" for k v and m :: "(string \<times> string) list"
    by (simp add: dom_map_of_conv_image_fst [symmetric] update_conv')
  with snoc show ?case by (auto simp: add_url_def [of _ r])
qed

lemma distinct_add_urls: "distinct (map fst (foldl add_url [] rs))"
  by (induction rs rule: rev_induct) (auto simp: add_url_def distinct_update)

lemma binding_env:
  assumes "(d, u) \<in> set urls" and "d \<noteq> ''''" and "u \<noteq> ''''" and "distinct (map fst urls)"
    and "\<And>d'. d' \<in> fst ` set urls \<Longrightarrow> binding_key d' = binding_key d \<Longrightarrow> d' = d"
  shows "map_of (ServiceBindingEnv urls) (binding_key d) = Some u"
  using assms
proof (induction urls rule: rev_induct)
  case Nil
  then show ?case by simp
next
  case (snoc x xs)
  obtain d' u' where x: "x = (d', u')" by (cases x)
  show ?case
  proof (cases "d' = d")
    case True
    then have "u' = u" using snoc.prems(1,4) by (auto simp: x image_iff)
    with True show ?thesis using snoc.prems by (simp add: ServiceBindingEnv_def x update_conv)
  next
    case False
    then have "(d, u) \<in> set xs" using snoc.prems(1) by (auto simp: x)
    moreover have "binding_key d' \<noteq> binding_key d" using False snoc.prems(5) [of d'] by (auto simp: x)
    ultimately show ?thesis using snoc by (simp add: ServiceBindingEnv_def x update_conv)
  qed
qed

text \<open>
  C35. A service is deployed after the services it depends on and with their addresses. In a compose
  deploy with distinct service names every dependency of a service, itself aside, was deployed before it, and if its
  receipt gave an address, and no two service names make the same variable, the environment of the
  deploy has the address under the dependency's \<^verbatim>\<open>SERVICE_..._URL\<close>. No service is deployed twice, and
  without an error all of them are. The map of addresses is iterated in any order.
\<close>

theorem ComposeDeploy_bindings:
  assumes "ComposeDeploy P svcs = Inr (calls, results, err)" and "distinct (map cs_Name svcs)"
    and iter: "\<forall>n urls. mset (cp_iter P n urls) = mset urls"
  shows "distinct (map fst calls) \<and> (err = None \<longrightarrow> set (map fst calls) = cs_Name ` set svcs) \<and>
    (\<forall>i < length calls. \<forall>s \<in> set svcs. cs_Name s = fst (calls ! i) \<longrightarrow> (\<forall>d \<in> set (cs_DependsOn s). d \<noteq> cs_Name s \<longrightarrow>
       (\<exists>j < i. fst (calls ! j) = d \<and> (let u = ServiceURLFromReceipt (cr_Outputs (results ! j)) in
          d \<noteq> '''' \<and> u \<noteq> '''' \<and> inj_on binding_key (cs_Name ` set svcs) \<longrightarrow>
            map_of (snd (snd (calls ! i))) (binding_key d) = Some u))))"
proof -
  from assms(1) obtain order paths where o: "TopoOrder svcs = Inr order"
    and d: "deploy_each P paths [] 0 order = (calls, results, err)"
    by (auto simp: ComposeDeploy_def split: if_splits sum.splits)
  note ord = TopoOrder_order(1,2) [OF o]
  have before: "\<And>s x. s \<in> set svcs \<Longrightarrow> x \<in> set (cs_DependsOn s) \<Longrightarrow> x \<noteq> cs_Name s \<Longrightarrow> \<exists>a b c. order = a @ x # b @ cs_Name s # c"
    using TopoOrder_order(3) [OF o] dep_pairs_iff by blast
  note dc = deploy_each_calls [OF d, simplified]
  have tk: "map fst calls = take (length calls) order" and rs: "map cr_Service results = map fst calls"
    and len: "length results = length calls"
    and env: "\<And>i. i < length calls \<Longrightarrow> snd (snd (calls ! i)) = ServiceBindingEnv (cp_iter P i (foldl add_url [] (take i results)))"
    using dc by auto
  have dist: "distinct (map fst calls)" using ord(1) tk by simp
  have "\<exists>j < i. fst (calls ! j) = x \<and> (let u = ServiceURLFromReceipt (cr_Outputs (results ! j)) in
          x \<noteq> '''' \<and> u \<noteq> '''' \<and> inj_on binding_key (cs_Name ` set svcs) \<longrightarrow>
            map_of (snd (snd (calls ! i))) (binding_key x) = Some u)"
    if i: "i < length calls" and s: "s \<in> set svcs" "cs_Name s = fst (calls ! i)" "x \<in> set (cs_DependsOn s)" "x \<noteq> cs_Name s"
    for i s x
  proof -
    have nth: "fst (calls ! j) = order ! j" if "j < length calls" for j
      using that tk by (metis length_map length_take min_less_iff_conj nth_map nth_take)
    have le: "length calls \<le> length order" using tk by (metis length_map length_take min.cobounded1)
    from before [OF s(1,3,4)] obtain a b c where o: "order = a @ x # b @ cs_Name s # c" by blast
    have "order ! i = order ! (length a + Suc (length b))"
      using nth [OF i] s(2) by (simp add: o nth_append)
    then have ia: "i = length a + Suc (length b)"
      using nth_eq_iff_index_eq [OF ord(1), of i "length a + Suc (length b)"] i le by (simp add: o)
    let ?j = "length a" and ?urls = "foldl add_url [] (take i results)"
    let ?u = "ServiceURLFromReceipt (cr_Outputs (results ! ?j))"
    have j: "?j < i" "?j < length calls" using ia i by simp_all
    have cj: "fst (calls ! ?j) = x" using nth [OF j(2)] by (simp add: o nth_append)
    have srv: "cr_Service (results ! ?j) = x" using rs len j(2) cj by (metis nth_map)
    have dr: "distinct (map cr_Service (take i results))"
      using dist rs by (metis distinct_take take_map)
    have inr: "results ! ?j \<in> set (take i results)"
      using j len by (auto simp: in_set_conv_nth)
    have keys: "fst ` set ?urls \<subseteq> cs_Name ` set svcs"
    proof -
      have "cr_Service ` set (take i results) \<subseteq> set (map cr_Service results)"
        by (auto dest: in_set_takeD)
      also have "\<dots> \<subseteq> set order" using rs tk by (metis set_take_subset)
      finally show ?thesis using keys_add_urls [of "take i results"] ord(2) by auto
    qed
    have "map_of (snd (snd (calls ! i))) (binding_key x) = Some ?u"
      if "x \<noteq> ''''" "?u \<noteq> ''''" "inj_on binding_key (cs_Name ` set svcs)"
    proof -
      have "map_of ?urls x = Some ?u" using map_of_add_urls [OF dr] inr srv that(2) by auto
      then have mem: "(x, ?u) \<in> set ?urls" by (rule map_of_SomeD)
      have ms: "mset (cp_iter P i ?urls) = mset ?urls" using iter by simp
      then have set: "set (cp_iter P i ?urls) = set ?urls" by (rule mset_eq_setD)
      have "distinct (map fst (cp_iter P i ?urls))"
        using ms distinct_add_urls [of "take i results"] by (metis mset_eq_imp_distinct_iff mset_map)
      moreover have "x' = x" if "x' \<in> fst ` set ?urls" "binding_key x' = binding_key x" for x'
      proof -
        have "x' \<in> cs_Name ` set svcs" "x \<in> cs_Name ` set svcs" using keys mem that(1) by force+
        then show ?thesis using \<open>inj_on binding_key (cs_Name ` set svcs)\<close> that(2) by (metis inj_onD)
      qed
      ultimately show ?thesis
        using binding_env [of x ?u "cp_iter P i ?urls"] mem that(1,2) by (simp add: env [OF i] set)
    qed
    then show ?thesis using j cj by (auto simp: Let_def)
  qed
  moreover have "err = None \<longrightarrow> set (map fst calls) = cs_Name ` set svcs"
    using dc tk ord(2) by (metis take_all_iff order_refl)
  ultimately show ?thesis using dist by blast
qed

definition demo_compose_params :: compose_params where
  "demo_compose_params = \<lparr>cp_stat = (\<lambda>c. Some c), cp_deploy = (\<lambda>n path env. None),
     cp_receipt = (\<lambda>n path. Some [(''url'', ''https://'' @ path)]), cp_remove = (\<lambda>n path. None), cp_iter = (\<lambda>n m. m)\<rparr>"

definition demo_deploy :: "deploy_call list \<times> compose_result list \<times> string option" where
  "demo_deploy = (case ComposeDeploy demo_compose_params demo_compose of Inr r \<Rightarrow> r | Inl e \<Rightarrow> ([], [], None))"

theorem ComposeDeploy_bindings_witness:
  "set (map fst (fst demo_deploy)) = {''web'', ''api'', ''db''} \<and>
   map_of (snd (snd (fst demo_deploy ! 2))) ''SERVICE_DB_URL'' = Some ''https://d.yml''"
proof -
  obtain calls results err where d: "demo_deploy = (calls, results, err)" by (cases demo_deploy)
  have err: "snd (snd demo_deploy) = None"
    and names: "map fst (fst demo_deploy) = [''db'', ''api'', ''web'']"
    and url: "map (\<lambda>r. ServiceURLFromReceipt (cr_Outputs r)) (fst (snd demo_deploy)) = [''https://d.yml'', ''https://a.yml'', ''https://w.yml'']"
    and ok: "\<not> isl (ComposeDeploy demo_compose_params demo_compose)"
    and dist: "distinct (map cs_Name demo_compose)"
    and key: "binding_key ''db'' = ''SERVICE_DB_URL''"
    and inj: "distinct (map binding_key (map cs_Name demo_compose))" by code_simp+
  have "ComposeDeploy demo_compose_params demo_compose = Inr (calls, results, err)"
    using ok d by (auto simp: demo_deploy_def isl_def split: sum.splits)
  moreover have "\<forall>n urls. mset (cp_iter demo_compose_params n urls) = mset urls" by (simp add: demo_compose_params_def)
  moreover from err d have e: "err = None" by (metis snd_conv)
  ultimately have T: "distinct (map fst calls) \<and> (err = None \<longrightarrow> set (map fst calls) = cs_Name ` set demo_compose) \<and>
    (\<forall>i < length calls. \<forall>s \<in> set demo_compose. cs_Name s = fst (calls ! i) \<longrightarrow> (\<forall>d \<in> set (cs_DependsOn s). d \<noteq> cs_Name s \<longrightarrow>
       (\<exists>j < i. fst (calls ! j) = d \<and> (let u = ServiceURLFromReceipt (cr_Outputs (results ! j)) in
          d \<noteq> '''' \<and> u \<noteq> '''' \<and> inj_on binding_key (cs_Name ` set demo_compose) \<longrightarrow>
            map_of (snd (snd (calls ! i))) (binding_key d) = Some u))))"
    by (intro ComposeDeploy_bindings dist)
  have all: "set (map fst calls) = cs_Name ` set demo_compose" using T e by blast
  have dep: "\<exists>j < i. fst (calls ! j) = x \<and>
       (let u = ServiceURLFromReceipt (cr_Outputs (results ! j)) in
          x \<noteq> '''' \<and> u \<noteq> '''' \<and> inj_on binding_key (cs_Name ` set demo_compose) \<longrightarrow>
            map_of (snd (snd (calls ! i))) (binding_key x) = Some u)"
    if "i < length calls" "s \<in> set demo_compose" "cs_Name s = fst (calls ! i)" "x \<in> set (cs_DependsOn s)" "x \<noteq> cs_Name s"
    for i s x using T that by blast
  have len: "length calls = 3" "fst (calls ! 0) = ''db''" "fst (calls ! 1) = ''api''" "fst (calls ! 2) = ''web''"
    and u: "ServiceURLFromReceipt (cr_Outputs (results ! 0)) = ''https://d.yml''"
    using names url by (auto simp: d map_eq_Cons_conv)
  obtain j where j: "j < 2" "fst (calls ! j) = ''db''" and m: "(let u = ServiceURLFromReceipt (cr_Outputs (results ! j)) in
          ''db'' \<noteq> '''' \<and> u \<noteq> '''' \<and> inj_on binding_key (cs_Name ` set demo_compose) \<longrightarrow>
            map_of (snd (snd (calls ! 2))) (binding_key ''db'') = Some u)"
    using dep [of 2 "hd demo_compose" "''db''"] len by (auto simp: demo_compose_def)
  from j len have "j = 0" by (cases j) (auto simp: less_Suc_eq)
  moreover have "inj_on binding_key (cs_Name ` set demo_compose)" using inj by (simp add: distinct_map inj_on_imageI)
  ultimately show ?thesis using m u all by (simp add: d key Let_def demo_compose_def insert_commute)
qed

text \<open>
  What the order check misses. A service that depends on itself is accepted, although the check
  promises an error on a cycle; two services with one name and no cycle are reported as a cycle; and the
  names \<^verbatim>\<open>a-b\<close> and \<^verbatim>\<open>a_b\<close> share one variable, so that a service can be given the other's address.
\<close>

theorem TopoOrder_misses:
  "TopoOrder [\<lparr>cs_Name = ''a'', cs_Config = ''a.yml'', cs_DependsOn = [''a'']\<rparr>] = Inr [''a''] \<and>
   TopoOrder [\<lparr>cs_Name = ''a'', cs_Config = ''a.yml'', cs_DependsOn = []\<rparr>, \<lparr>cs_Name = ''a'', cs_Config = ''b.yml'', cs_DependsOn = [''b'']\<rparr>,
     \<lparr>cs_Name = ''b'', cs_Config = ''c.yml'', cs_DependsOn = []\<rparr>] = Inl (DependencyCycle ''a'' ''b'') \<and>
   ServiceBindingEnv [(''a-b'', ''u''), (''a_b'', ''v'')] = [(''SERVICE_A_B_URL'', ''v'')]"
  by (intro conjI) code_simp+

end
