(* ===== verification/Locks.thy ===== *)
theory Locks
  imports Run_State
begin

text \<open>
  Lock files: \<^verbatim>\<open>platform/state/locking\<close> (\<^verbatim>\<open>file_backend.go\<close>, \<^verbatim>\<open>file_lock.go\<close>), the handle of
  \<^verbatim>\<open>internal/state/types/types.go\<close>, the keepalive of \<^verbatim>\<open>internal/lease/lease.go\<close>, and the lock manager
  of \<^verbatim>\<open>platform/deploy/controlplane/cluster\<close>. The operations are programs over system calls, so that one
  definition has both its sequential meaning and its meaning among other processes.
\<close>

section \<open>Data\<close>

text \<open>\<^verbatim>\<open>LockRecord\<close>, the content of a lock file.\<close>

record lock_record =
  lr_Service :: string
  lr_Stage :: string
  lr_Operation :: string
  lr_OwnerToken :: string
  lr_PID :: int
  lr_CreatedAt :: stamp
  lr_ExpiresAt :: stamp
  lr_LastHeartbeatAt :: stamp

text \<open>A lock file holds a record, or bytes that are not one: it is empty between its creation and the write.\<close>

datatype lock_content = Locked lock_record | Unparsable

text \<open>
  Names refer to files and an open file outlives its name: a process that writes to a file it opened does
  not write to the file another process has put under the same name since.
\<close>

record lock_fs =
  fs_names :: "string \<Rightarrow> nat option"
  fs_data :: "nat \<Rightarrow> lock_content"
  fs_next :: nat

datatype lock_error = AlreadyHeld lock_record | AlreadyExists | LockNotFound | LockParse | LockIO string
  | OwnerMismatch | UseForce lock_record

text \<open>\<^verbatim>\<open>Handle\<close>; the functions it releases and renews with are arguments of its operations.\<close>

record lock_handle =
  lh_Service :: string
  lh_Stage :: string
  lh_OwnerToken :: string
  lh_Held :: bool

section \<open>Programs\<close>

datatype io_call = MkdirAll string | ReadFile string | RemoveFile string | CreateExcl string
  | OpenTrunc string | WriteData nat lock_content | TimeNow | RandomToken

datatype io_answer = Done | NotExist | Exists | Failed | Data lock_content | Opened nat | Instant int | Token string

datatype 'a prog = Ret 'a | Do io_call "io_answer \<Rightarrow> 'a prog"

primrec bindP :: "'a prog \<Rightarrow> ('a \<Rightarrow> 'b prog) \<Rightarrow> 'b prog" where
  "bindP (Ret a) f = f a"
| "bindP (Do c k) f = Do c (\<lambda>x. bindP (k x) f)"

text \<open>What the system chooses at a call: whether it fails, the time in nanoseconds, random bytes.\<close>

record io_choice =
  ch_fail :: bool
  ch_now :: int
  ch_token :: string

text \<open>A write that fails leaves a file that does not parse, and so does the truncation before a write.\<close>

fun perform :: "io_choice \<Rightarrow> io_call \<Rightarrow> lock_fs \<Rightarrow> io_answer \<times> lock_fs" where
  "perform ch (MkdirAll p) fs = (if ch_fail ch then Failed else Done, fs)"
| "perform ch (ReadFile p) fs =
     (if ch_fail ch then (Failed, fs)
      else case fs_names fs p of None \<Rightarrow> (NotExist, fs) | Some n \<Rightarrow> (Data (fs_data fs n), fs))"
| "perform ch (RemoveFile p) fs =
     (if ch_fail ch then (Failed, fs)
      else case fs_names fs p of None \<Rightarrow> (NotExist, fs)
        | Some n \<Rightarrow> (Done, fs\<lparr>fs_names := (fs_names fs)(p := None)\<rparr>))"
| "perform ch (CreateExcl p) fs =
     (if ch_fail ch then (Failed, fs)
      else case fs_names fs p of Some n \<Rightarrow> (Exists, fs)
        | None \<Rightarrow> (Opened (fs_next fs), fs\<lparr>fs_names := (fs_names fs)(p \<mapsto> fs_next fs),
            fs_data := (fs_data fs)(fs_next fs := Unparsable), fs_next := Suc (fs_next fs)\<rparr>))"
| "perform ch (OpenTrunc p) fs =
     (if ch_fail ch then (Failed, fs)
      else case fs_names fs p of
          Some n \<Rightarrow> (Opened n, fs\<lparr>fs_data := (fs_data fs)(n := Unparsable)\<rparr>)
        | None \<Rightarrow> (Opened (fs_next fs), fs\<lparr>fs_names := (fs_names fs)(p \<mapsto> fs_next fs),
            fs_data := (fs_data fs)(fs_next fs := Unparsable), fs_next := Suc (fs_next fs)\<rparr>))"
| "perform ch (WriteData n c) fs =
     (if ch_fail ch then (Failed, fs\<lparr>fs_data := (fs_data fs)(n := Unparsable)\<rparr>)
      else (Done, fs\<lparr>fs_data := (fs_data fs)(n := c)\<rparr>))"
| "perform ch TimeNow fs = (Instant (ch_now ch), fs)"
| "perform ch RandomToken fs = (if ch_fail ch then Failed else Token (ch_token ch), fs)"

text \<open>A program run alone; \<open>ch i\<close> is the choice at its \<open>i\<close>-th call.\<close>

primrec run_prog :: "'a prog \<Rightarrow> (nat \<Rightarrow> io_choice) \<Rightarrow> nat \<Rightarrow> lock_fs \<Rightarrow> 'a \<times> nat \<times> lock_fs" where
  "run_prog (Ret a) ch i fs = (a, i, fs)"
| "run_prog (Do c k) ch i fs = (case perform (ch i) c fs of (x, fs') \<Rightarrow> run_prog (k x) ch (Suc i) fs')"

text \<open>\<^verbatim>\<open>time.Now().UTC()\<close>, which does not fail.\<close>

definition nowP :: "(int \<Rightarrow> 'a prog) \<Rightarrow> 'a prog" where
  "nowP f = Do TimeNow (\<lambda>x. f (case x of Instant t \<Rightarrow> t | _ \<Rightarrow> 0))"

section \<open>\<^verbatim>\<open>FileBackend\<close>\<close>

definition lockDir :: "string \<Rightarrow> string" where
  "lockDir dir = dir @ ''/.runfabric/locks''"

definition lockPath :: "string \<Rightarrow> string \<Rightarrow> string \<Rightarrow> string" where
  "lockPath dir service stage = lockDir dir @ ''/'' @ service @ ''-'' @ stage @ ''.lock.json''"

definition lock_Read :: "string \<Rightarrow> string \<Rightarrow> string \<Rightarrow> (lock_error + lock_record) prog" where
  "lock_Read dir service stage = Do (ReadFile (lockPath dir service stage)) (\<lambda>x. Ret (case x of
     Data (Locked r) \<Rightarrow> Inr r
   | Data Unparsable \<Rightarrow> Inl LockParse
   | NotExist \<Rightarrow> Inl LockNotFound
   | _ \<Rightarrow> Inl (LockIO ''read'')))"

definition randomToken :: "(lock_error + string) prog" where
  "randomToken = Do RandomToken (\<lambda>x. Ret (case x of Token t \<Rightarrow> Inr t | _ \<Rightarrow> Inl (LockIO ''random'')))"

definition new_record :: "string \<Rightarrow> string \<Rightarrow> string \<Rightarrow> int \<Rightarrow> int \<Rightarrow> string \<Rightarrow> int \<Rightarrow> lock_record" where
  "new_record service stage oper pid staleAfter token now =
     \<lparr>lr_Service = service, lr_Stage = stage, lr_Operation = oper, lr_OwnerToken = token, lr_PID = pid,
      lr_CreatedAt = fmt_time now, lr_ExpiresAt = fmt_time (now + staleAfter), lr_LastHeartbeatAt = fmt_time now\<rparr>"

definition NewHandle :: "string \<Rightarrow> string \<Rightarrow> string \<Rightarrow> lock_handle" where
  "NewHandle service stage token =
     \<lparr>lh_Service = service, lh_Stage = stage, lh_OwnerToken = token, lh_Held = True\<rparr>"

text \<open>\<^verbatim>\<open>Acquire\<close> from the creation of the file on.\<close>

definition write_lock :: "string \<Rightarrow> string \<Rightarrow> string \<Rightarrow> nat \<Rightarrow> lock_record \<Rightarrow> (lock_error + lock_handle) prog" where
  "write_lock service stage token n r = Do (WriteData n (Locked r)) (\<lambda>x. Ret (
     if x = Failed then Inl (LockIO ''write lock file'') else Inr (NewHandle service stage token)))"

definition create_lock ::
  "string \<Rightarrow> string \<Rightarrow> string \<Rightarrow> string \<Rightarrow> int \<Rightarrow> int \<Rightarrow> (lock_error + lock_handle) prog" where
  "create_lock dir service stage oper pid staleAfter =
     bindP randomToken (\<lambda>t. case t of Inl e \<Rightarrow> Ret (Inl e) | Inr token \<Rightarrow>
     nowP (\<lambda>now. Do (CreateExcl (lockPath dir service stage)) (\<lambda>x. case x of
       Opened n \<Rightarrow> write_lock service stage token n (new_record service stage oper pid staleAfter token now)
     | Exists \<Rightarrow> Ret (Inl AlreadyExists)
     | _ \<Rightarrow> Ret (Inl (LockIO ''acquire lock'')))))"

text \<open>Removing the expired lock of the record just read: by its name, whatever file has it by now.\<close>

definition clear_expired ::
  "string \<Rightarrow> string \<Rightarrow> string \<Rightarrow> string \<Rightarrow> int \<Rightarrow> int \<Rightarrow> (lock_error + lock_handle) prog" where
  "clear_expired dir service stage oper pid staleAfter =
     Do (RemoveFile (lockPath dir service stage)) (\<lambda>x.
       if x = Failed then Ret (Inl (LockIO ''remove expired lock''))
       else create_lock dir service stage oper pid staleAfter)"

definition lock_Acquire ::
  "string \<Rightarrow> string \<Rightarrow> string \<Rightarrow> string \<Rightarrow> int \<Rightarrow> int \<Rightarrow> (lock_error + lock_handle) prog" where
  "lock_Acquire dir service stage oper pid staleAfter =
     Do (MkdirAll (lockDir dir)) (\<lambda>x. if x = Failed then Ret (Inl (LockIO ''create lock dir'')) else
     bindP (lock_Read dir service stage) (\<lambda>existing. case existing of
       Inl e \<Rightarrow> create_lock dir service stage oper pid staleAfter
     | Inr r \<Rightarrow> (case parse_time (lr_ExpiresAt r) of
           None \<Rightarrow> Ret (Inl (AlreadyHeld r))
         | Some expires \<Rightarrow> nowP (\<lambda>now.
             if expires * 10 ^ 9 < now then clear_expired dir service stage oper pid staleAfter
             else Ret (Inl (AlreadyHeld r))))))"

definition lock_Release :: "string \<Rightarrow> string \<Rightarrow> string \<Rightarrow> lock_error option prog" where
  "lock_Release dir service stage = Do (RemoveFile (lockPath dir service stage)) (\<lambda>x. Ret (
     if x = Failed then Some (LockIO ''release lock'') else None))"

definition lock_Renew :: "string \<Rightarrow> string \<Rightarrow> string \<Rightarrow> string \<Rightarrow> int \<Rightarrow> lock_error option prog" where
  "lock_Renew dir service stage ownerToken leaseFor =
     bindP (lock_Read dir service stage) (\<lambda>existing. case existing of Inl e \<Rightarrow> Ret (Some e) | Inr r \<Rightarrow>
     if lr_OwnerToken r \<noteq> ownerToken then Ret (Some OwnerMismatch) else
     nowP (\<lambda>now. Do (OpenTrunc (lockPath dir service stage)) (\<lambda>x. case x of
       Opened n \<Rightarrow> Do (WriteData n (Locked (r\<lparr>lr_ExpiresAt := fmt_time (now + leaseFor), lr_LastHeartbeatAt := fmt_time now\<rparr>)))
         (\<lambda>y. Ret (if y = Failed then Some (LockIO ''write'') else None))
     | _ \<Rightarrow> Ret (Some (LockIO ''write'')))))"

text \<open>\<^verbatim>\<open>Unlock\<close> of \<^verbatim>\<open>platform/workflow/app/unlock.go\<close>: whether a lock was removed.\<close>

definition Unlock :: "string \<Rightarrow> string \<Rightarrow> string \<Rightarrow> bool \<Rightarrow> (lock_error + bool) prog" where
  "Unlock dir service stage force = bindP (lock_Read dir service stage) (\<lambda>existing. case existing of
     Inl e \<Rightarrow> Ret (if e = LockNotFound then Inr False else Inl e)
   | Inr r \<Rightarrow> if \<not> force then Ret (Inl (UseForce r))
       else bindP (lock_Release dir service stage) (\<lambda>e. Ret (case e of Some e \<Rightarrow> Inl e | None \<Rightarrow> Inr True)))"

section \<open>\<^verbatim>\<open>FileLock\<close>\<close>

text \<open>The lock file without a lease, and a time as its content, which is no record.\<close>

record file_lock =
  fl_Path :: string
  fl_Held :: bool

definition FileLock_Acquire :: "string \<Rightarrow> string \<Rightarrow> string \<Rightarrow> (lock_error + file_lock) prog" where
  "FileLock_Acquire dir service stage =
     Do (MkdirAll (lockDir dir)) (\<lambda>x. if x = Failed then Ret (Inl (LockIO ''create lock dir'')) else
     (let path = lockDir dir @ ''/'' @ service @ ''-'' @ stage @ ''.lock'' in
      Do (CreateExcl path) (\<lambda>x. case x of
        Opened n \<Rightarrow> nowP (\<lambda>now. Do (WriteData n Unparsable) (\<lambda>y. Ret (Inr \<lparr>fl_Path = path, fl_Held = True\<rparr>)))
      | Exists \<Rightarrow> Ret (Inl AlreadyExists)
      | _ \<Rightarrow> Ret (Inl (LockIO ''acquire lock'')))))"

definition FileLock_Release :: "file_lock option \<Rightarrow> (lock_error option \<times> file_lock option) prog" where
  "FileLock_Release l = (case l of None \<Rightarrow> Ret (None, None) | Some fl \<Rightarrow>
     if \<not> fl_Held fl then Ret (None, l)
     else Do (RemoveFile (fl_Path fl)) (\<lambda>x.
       if x = Failed then Ret (Some (LockIO ''release lock''), l) else Ret (None, Some (fl\<lparr>fl_Held := False\<rparr>))))"

section \<open>\<^verbatim>\<open>Handle\<close>\<close>

text \<open>The functions a handle was made with: \<open>or\<close> is missing for the file backend.\<close>

record lock_functions =
  lf_r :: "string \<Rightarrow> string \<Rightarrow> lock_error option prog"
  lf_n :: "(string \<Rightarrow> string \<Rightarrow> string \<Rightarrow> int \<Rightarrow> lock_error option prog) option"
  lf_or :: "(string \<Rightarrow> string \<Rightarrow> string \<Rightarrow> lock_error option prog) option"

definition file_functions :: "string \<Rightarrow> lock_functions" where
  "file_functions dir = \<lparr>lf_r = lock_Release dir, lf_n = Some (lock_Renew dir), lf_or = None\<rparr>"

definition Handle_Release :: "lock_functions \<Rightarrow> lock_handle option \<Rightarrow> (lock_error option \<times> lock_handle option) prog" where
  "Handle_Release F hdl = (case hdl of None \<Rightarrow> Ret (None, None) | Some h \<Rightarrow>
     if \<not> lh_Held h then Ret (None, hdl)
     else bindP (case lf_or F of
         Some owned \<Rightarrow> if lh_OwnerToken h \<noteq> '''' then owned (lh_Service h) (lh_Stage h) (lh_OwnerToken h)
                       else lf_r F (lh_Service h) (lh_Stage h)
       | None \<Rightarrow> lf_r F (lh_Service h) (lh_Stage h))
       (\<lambda>e. Ret (case e of Some e \<Rightarrow> (Some e, hdl) | None \<Rightarrow> (None, Some (h\<lparr>lh_Held := False\<rparr>)))))"

definition Handle_Renew :: "lock_functions \<Rightarrow> lock_handle option \<Rightarrow> int \<Rightarrow> lock_error option prog" where
  "Handle_Renew F hdl leaseFor = (case hdl of None \<Rightarrow> Ret None | Some h \<Rightarrow>
     (case lf_n F of None \<Rightarrow> Ret None | Some renew \<Rightarrow>
        if \<not> lh_Held h then Ret None
        else renew (lh_Service h) (lh_Stage h) (lh_OwnerToken h) leaseFor))"

section \<open>Leases\<close>

definition DefaultInterval :: "int \<Rightarrow> int" where
  "DefaultInterval ttl = (let interval = tdiv ttl 3 in if interval < 10 ^ 9 then 10 ^ 9 else interval)"

text \<open>
  The goroutine of \<^verbatim>\<open>StartHeartbeat\<close> when \<open>n\<close> ticks come before its context is done: \<open>renew i\<close> is the
  answer of the \<open>i\<close>-th renewal. The result is the number of renewals and the error it sends.
\<close>

fun heartbeat :: "(nat \<Rightarrow> string option) \<Rightarrow> nat \<Rightarrow> nat \<Rightarrow> nat \<times> string option" where
  "heartbeat renew i 0 = (i, None)"
| "heartbeat renew i (Suc n) =
     (case renew i of Some e \<Rightarrow> (Suc i, Some e) | None \<Rightarrow> heartbeat renew (Suc i) n)"

text \<open>\<^verbatim>\<open>Managed\<close>: what is in the channel, whether it is closed, and the outcome of \<open>once\<close>.\<close>

record managed =
  mg_err :: "string option"
  mg_closed :: bool
  mg_once :: bool
  mg_releaseErr :: "string option"

text \<open>The channel while the goroutine runs (\<open>fin\<close> false) and after the context is done.\<close>

definition Manage :: "(nat \<Rightarrow> string option) option \<Rightarrow> nat \<Rightarrow> bool \<Rightarrow> managed" where
  "Manage renew n fin = (let err = (case renew of None \<Rightarrow> None | Some f \<Rightarrow> snd (heartbeat f 0 n))
     in \<lparr>mg_err = err, mg_closed = (Option.is_none renew \<or> err \<noteq> None \<or> fin), mg_once = False, mg_releaseErr = None\<rparr>)"

text \<open>\<^verbatim>\<open>Release\<close> with the outcome of the release function; whether that function was called.\<close>

definition Managed_Release :: "string option \<Rightarrow> managed option \<Rightarrow> string option \<times> bool \<times> managed option" where
  "Managed_Release outcome ml = (case ml of None \<Rightarrow> (None, False, None) | Some m \<Rightarrow>
     if mg_once m then (mg_releaseErr m, False, ml)
     else (outcome, True, Some (m\<lparr>mg_err := None, mg_closed := True, mg_once := True, mg_releaseErr := outcome\<rparr>)))"

datatype received = RecvErr string | RecvClosed | RecvNothing

text \<open>A receive that does not wait.\<close>

definition receive :: "managed \<Rightarrow> received \<times> managed" where
  "receive m = (case mg_err m of Some e \<Rightarrow> (RecvErr e, m\<lparr>mg_err := None\<rparr>)
     | None \<Rightarrow> (if mg_closed m then RecvClosed else RecvNothing, m))"

text \<open>
  \<^verbatim>\<open>FailIfLeaseLost\<close>: \<open>ctx_chosen\<close> says that the context is done and the \<^verbatim>\<open>select\<close> takes that case.
  \<^verbatim>\<open>WatchHeartbeat\<close> differs only in its error text; \<^verbatim>\<open>AbortIfLeaseLost\<close> does not look at the context.
\<close>

definition FailIfLeaseLost :: "bool \<Rightarrow> managed option \<Rightarrow> string option \<times> managed option" where
  "FailIfLeaseLost ctx_chosen lock = (case lock of None \<Rightarrow> (None, None) | Some m \<Rightarrow>
     if ctx_chosen then (None, lock)
     else case receive m of (RecvErr e, m') \<Rightarrow> (Some e, Some m') | (r, m') \<Rightarrow> (None, Some m'))"

definition WatchHeartbeat :: "bool \<Rightarrow> managed option \<Rightarrow> string option \<times> managed option" where
  "WatchHeartbeat ctx_chosen lock = (case FailIfLeaseLost ctx_chosen lock of (e, l) \<Rightarrow>
     (map_option (\<lambda>m. ''lock heartbeat lost: '' @ m) e, l))"

definition AbortIfLeaseLost :: "managed option \<Rightarrow> string option \<times> managed option" where
  "AbortIfLeaseLost lock = (case FailIfLeaseLost False lock of (e, l) \<Rightarrow>
     (map_option (\<lambda>m. ''heartbeat renewal failed'') e, l))"

section \<open>Processes\<close>

text \<open>
  Processes that contend for the lock of one service and stage. Between two system calls of one, the
  others may run and time may pass. A process holds the lock from the moment \<^verbatim>\<open>Acquire\<close> returned a handle
  until it calls \<^verbatim>\<open>Release\<close>; in between it renews its lease.
\<close>

datatype client = Idle
  | Acquiring "(lock_error + lock_handle) prog"
  | Holding lock_handle
  | Renewing lock_handle "lock_error option prog"
  | Releasing "(lock_error option \<times> lock_handle option) prog"
  | Unlocking "(lock_error + bool) prog"

record lock_system =
  ls_fs :: lock_fs
  ls_now :: int
  ls_clients :: "nat \<Rightarrow> client"

text \<open>\<open>Go i f t\<close> is the next call of process \<open>i\<close>: whether it fails, and the random bytes, if it asks for them.\<close>

datatype lock_event = BeginAcquire nat | BeginRenew nat | BeginRelease nat | BeginUnlock nat
  | Go nat bool string | Crash nat | Pass int

text \<open>\<open>advance\<close> performs one call; a program that has returned takes its client to the next state.\<close>

definition advance :: "('a \<Rightarrow> client) \<Rightarrow> ('a prog \<Rightarrow> client) \<Rightarrow> io_choice \<Rightarrow> 'a prog \<Rightarrow> lock_fs \<Rightarrow> client \<times> lock_fs" where
  "advance fin cont ch pr fs = (case pr of Ret a \<Rightarrow> (fin a, fs)
     | Do c k \<Rightarrow> (case perform ch c fs of (x, fs') \<Rightarrow> (cont (k x), fs')))"

record lock_args =
  la_dir :: string
  la_Service :: string
  la_Stage :: string
  la_lease :: int

definition go :: "io_choice \<Rightarrow> client \<Rightarrow> lock_fs \<Rightarrow> client \<times> lock_fs" where
  "go ch cl fs = (case cl of
     Idle \<Rightarrow> (Idle, fs)
   | Acquiring pr \<Rightarrow> advance (\<lambda>r. case r of Inl e \<Rightarrow> Idle | Inr h \<Rightarrow> Holding h) Acquiring ch pr fs
   | Holding h \<Rightarrow> (Holding h, fs)
   | Renewing h pr \<Rightarrow> advance (\<lambda>r. Holding h) (Renewing h) ch pr fs
   | Releasing pr \<Rightarrow> advance (\<lambda>r. Idle) Releasing ch pr fs
   | Unlocking pr \<Rightarrow> advance (\<lambda>r. Idle) Unlocking ch pr fs)"

fun lock_step :: "lock_args \<Rightarrow> lock_event \<Rightarrow> lock_system \<Rightarrow> lock_system" where
  "lock_step A (BeginAcquire i) s = (case ls_clients s i of
     Idle \<Rightarrow> s\<lparr>ls_clients := (ls_clients s)(i :=
       Acquiring (lock_Acquire (la_dir A) (la_Service A) (la_Stage A) ''deploy'' (int i) (la_lease A)))\<rparr> | _ \<Rightarrow> s)"
| "lock_step A (BeginRenew i) s = (case ls_clients s i of
     Holding h \<Rightarrow> s\<lparr>ls_clients := (ls_clients s)(i :=
       Renewing h (Handle_Renew (file_functions (la_dir A)) (Some h) (la_lease A)))\<rparr> | _ \<Rightarrow> s)"
| "lock_step A (BeginRelease i) s = (case ls_clients s i of
     Holding h \<Rightarrow> s\<lparr>ls_clients := (ls_clients s)(i :=
       Releasing (Handle_Release (file_functions (la_dir A)) (Some h)))\<rparr> | _ \<Rightarrow> s)"
| "lock_step A (BeginUnlock i) s = (case ls_clients s i of
     Idle \<Rightarrow> s\<lparr>ls_clients := (ls_clients s)(i :=
       Unlocking (Unlock (la_dir A) (la_Service A) (la_Stage A) True))\<rparr> | _ \<Rightarrow> s)"
| "lock_step A (Go i f t) s =
     (case go \<lparr>ch_fail = f, ch_now = ls_now s, ch_token = t\<rparr> (ls_clients s i) (ls_fs s) of
        (cl, fs) \<Rightarrow> s\<lparr>ls_clients := (ls_clients s)(i := cl), ls_fs := fs\<rparr>)"
| "lock_step A (Crash i) s = s\<lparr>ls_clients := (ls_clients s)(i := Idle)\<rparr>"
| "lock_step A (Pass d) s = s\<lparr>ls_now := ls_now s + max 0 d\<rparr>"

definition holds :: "client \<Rightarrow> bool" where
  "holds cl = (case cl of Holding h \<Rightarrow> True | Renewing h pr \<Rightarrow> True | _ \<Rightarrow> False)"

end
