(* ===== verification/Locks_Claims.thy ===== *)
theory Locks_Claims
  imports Locks
begin

text \<open>
  Properties of lock files: what an undisturbed \<^verbatim>\<open>Acquire\<close> does on every branch, mutual exclusion among
  interleaved processes as long as nobody removes an expired lock, and how it is lost otherwise.
\<close>

section \<open>Mutual exclusion\<close>

text \<open>The next call of the process removes the lock file without its owner having asked for it.\<close>

definition takes_over :: "client \<Rightarrow> bool" where
  "takes_over cl = (case cl of Acquiring (Do (RemoveFile p) k) \<Rightarrow> True | Unlocking (Do (RemoveFile p) k) \<Rightarrow> True | _ \<Rightarrow> False)"

definition undisturbed :: "lock_system \<Rightarrow> lock_event \<Rightarrow> bool" where
  "undisturbed s e = (case e of Go i f t \<Rightarrow> \<not> takes_over (ls_clients s i) | _ \<Rightarrow> True)"

inductive lock_reach :: "lock_args \<Rightarrow> lock_system \<Rightarrow> bool" for A where
  lock_start: "lock_reach A \<lparr>ls_fs = fs, ls_now = t, ls_clients = (\<lambda>i. Idle)\<rparr>"
| lock_next: "lock_reach A s \<Longrightarrow> undisturbed s e \<Longrightarrow> lock_reach A (lock_step A e s)"

text \<open>
  What remains of a program, as far as it matters: \<open>before_create\<close> has not created the lock file and only
  succeeds once it has; \<open>keeps p t n\<close> leaves the name \<open>p\<close> on file \<open>n\<close> and writes only records of token \<open>t\<close>.
\<close>

definition owner_record :: "string \<Rightarrow> lock_content \<Rightarrow> bool" where
  "owner_record t c = (case c of Unparsable \<Rightarrow> True | Locked r \<Rightarrow> lr_OwnerToken r = t)"

primrec before_create :: "lock_args \<Rightarrow> (lock_error + lock_handle) prog \<Rightarrow> bool" where
  "before_create A (Ret r) = isl r"
| "before_create A (Do c k) = (case c of
     CreateExcl q \<Rightarrow> q = lockPath (la_dir A) (la_Service A) (la_Stage A) \<and>
       (\<forall>x. (\<forall>n. x = Opened n \<longrightarrow> (\<exists>r. k x = write_lock (la_Service A) (la_Stage A) (lr_OwnerToken r) n r)) \<and>
          ((\<forall>n. x \<noteq> Opened n) \<longrightarrow> before_create A (k x)))
   | OpenTrunc q \<Rightarrow> False
   | WriteData n d \<Rightarrow> False
   | _ \<Rightarrow> (\<forall>x. before_create A (k x)))"

primrec keeps :: "string \<Rightarrow> string \<Rightarrow> nat \<Rightarrow> lock_error option prog \<Rightarrow> bool" where
  "keeps p t n (Ret r) = (r \<noteq> Some OwnerMismatch)"
| "keeps p t n (Do c k) = (case c of
     ReadFile q \<Rightarrow> q = p \<and> (\<forall>x. (\<forall>d. x = Data d \<longrightarrow> owner_record t d) \<longrightarrow> keeps p t n (k x))
   | OpenTrunc q \<Rightarrow> q = p \<and> (\<forall>x. (\<forall>m. x = Opened m \<longrightarrow> m = n) \<longrightarrow> keeps p t n (k x))
   | WriteData m d \<Rightarrow> m = n \<and> owner_record t d \<and> (\<forall>x. keeps p t n (k x))
   | TimeNow \<Rightarrow> (\<forall>x. keeps p t n (k x))
   | _ \<Rightarrow> False)"

primrec only_reads :: "(lock_error + bool) prog \<Rightarrow> bool" where
  "only_reads (Ret r) = True"
| "only_reads (Do c k) = ((case c of ReadFile q \<Rightarrow> True | RemoveFile q \<Rightarrow> True | _ \<Rightarrow> False) \<and> (\<forall>x. only_reads (k x)))"

lemma new_record_token [simp]: "lr_OwnerToken (new_record service stage oper pid stale t now) = t"
  by (simp add: new_record_def)

lemma write_new:
  "\<exists>r. write_lock service stage t n (new_record service stage oper pid stale t now) = write_lock service stage (lr_OwnerToken r) n r"
  by (rule exI [of _ "new_record service stage oper pid stale t now"]) simp

lemma create_before: "before_create A (create_lock (la_dir A) (la_Service A) (la_Stage A) oper pid stale)"
  by (auto simp: create_lock_def randomToken_def nowP_def write_new split: io_answer.split)

lemma acquire_before: "before_create A (lock_Acquire (la_dir A) (la_Service A) (la_Stage A) oper pid stale)"
  using create_before [of A oper pid stale]
  by (auto simp: lock_Acquire_def lock_Read_def nowP_def clear_expired_def
      split: io_answer.split option.split lock_content.split)

lemma renew_keeps:
  "keeps (lockPath dir service stage) t n (lock_Renew dir service stage t lease)"
  by (auto simp: lock_Renew_def lock_Read_def nowP_def owner_record_def
      split: io_answer.splits option.split lock_content.splits)

lemma unlock_only_reads: "only_reads (Unlock dir service stage force)"
  by (auto simp: Unlock_def lock_Read_def lock_Release_def split: io_answer.split lock_content.split)

text \<open>
  The invariant: at most one process owns the lock, and then the lock file is its file, with its token or
  still unwritten; every other process is before the creation of the file, or done.
\<close>

definition owns :: "lock_args \<Rightarrow> lock_fs \<Rightarrow> string \<Rightarrow> nat \<Rightarrow> bool" where
  "owns A fs t n \<longleftrightarrow> fs_names fs (lockPath (la_dir A) (la_Service A) (la_Stage A)) = Some n \<and> owner_record t (fs_data fs n)"

definition own_handle :: "lock_args \<Rightarrow> lock_handle \<Rightarrow> string \<Rightarrow> bool" where
  "own_handle A h t \<longleftrightarrow> h = NewHandle (la_Service A) (la_Stage A) t"

definition outside :: "lock_args \<Rightarrow> client \<Rightarrow> bool" where
  "outside A cl = (case cl of Idle \<Rightarrow> True | Acquiring pr \<Rightarrow> before_create A pr | Releasing pr \<Rightarrow> (\<exists>r. pr = Ret r)
     | Unlocking pr \<Rightarrow> only_reads pr | _ \<Rightarrow> False)"

definition inside :: "lock_args \<Rightarrow> string \<Rightarrow> nat \<Rightarrow> client \<Rightarrow> bool" where
  "inside A t n cl = (case cl of
     Acquiring pr \<Rightarrow> (\<exists>r. lr_OwnerToken r = t \<and> pr = write_lock (la_Service A) (la_Stage A) t n r) \<or>
       pr = Ret (Inr (NewHandle (la_Service A) (la_Stage A) t))
   | Holding h \<Rightarrow> own_handle A h t
   | Renewing h pr \<Rightarrow> own_handle A h t \<and> keeps (lockPath (la_dir A) (la_Service A) (la_Stage A)) t n pr
   | Releasing pr \<Rightarrow> pr = Handle_Release (file_functions (la_dir A)) (Some (NewHandle (la_Service A) (la_Stage A) t))
   | _ \<Rightarrow> False)"

definition lock_inv :: "lock_args \<Rightarrow> lock_system \<Rightarrow> bool" where
  "lock_inv A s \<longleftrightarrow> (\<forall>i. outside A (ls_clients s i)) \<or>
     (\<exists>j t n. owns A (ls_fs s) t n \<and> inside A t n (ls_clients s j) \<and> (\<forall>i. i \<noteq> j \<longrightarrow> outside A (ls_clients s i)))"

text \<open>A step of a process outside leaves the owner alone, or makes the process the owner of an unowned lock.\<close>

lemma go_outside:
  assumes "outside A cl" and "\<not> takes_over cl" and "go ch cl fs = (cl', fs')"
  shows "outside A cl' \<and> (\<forall>t n. owns A fs t n \<longrightarrow> owns A fs' t n) \<or>
    (\<nexists>t n. owns A fs t n) \<and> (\<exists>t n. owns A fs' t n \<and> inside A t n cl')"
proof (cases cl)
  case (Acquiring pr)
  show ?thesis
  proof (cases pr)
    case (Ret r)
    with assms Acquiring show ?thesis by (auto simp: go_def advance_def outside_def split: sum.splits)
  next
    case (Do c k)
    obtain x where p: "perform ch c fs = (x, fs')" and cl': "cl' = Acquiring (k x)"
      using assms(3) by (auto simp: go_def advance_def Acquiring Do split: prod.splits)
    have b: "before_create A (Do c k)" using assms(1) by (simp add: outside_def Acquiring Do)
    show ?thesis
    proof (cases "fs' = fs \<and> before_create A (k x)")
      case True
      then show ?thesis using cl' by (simp add: outside_def)
    next
      case False
      have "before_create A (k x)" if "\<forall>n. x \<noteq> Opened n"
        using b that by (cases c) auto
      with False p b assms(2) obtain n where c: "c = CreateExcl (lockPath (la_dir A) (la_Service A) (la_Stage A))"
        and none: "fs_names fs (lockPath (la_dir A) (la_Service A) (la_Stage A)) = None" and x: "x = Opened n"
        by (cases c) (auto simp: takes_over_def Acquiring Do split: if_splits option.splits)
      from b c x obtain r where "k x = write_lock (la_Service A) (la_Stage A) (lr_OwnerToken r) n r"
        by (auto split: io_answer.splits)
      then have "inside A (lr_OwnerToken r) n cl'" by (auto simp: inside_def cl')
      moreover have "owns A fs' (lr_OwnerToken r) n" using p c x none
        by (auto simp: owns_def owner_record_def split: if_splits)
      moreover have "\<nexists>t n. owns A fs t n" using none by (simp add: owns_def)
      ultimately show ?thesis by blast
    qed
  qed
next
  case (Unlocking pr)
  show ?thesis
  proof (cases pr)
    case (Do c k)
    with assms Unlocking show ?thesis
      by (cases c) (auto simp: go_def advance_def outside_def takes_over_def split: if_splits option.splits)
  qed (use assms Unlocking in \<open>auto simp: go_def advance_def outside_def\<close>)
qed (use assms in \<open>auto simp: go_def outside_def advance_def\<close>)

text \<open>A step of the owner keeps the lock or puts the process outside.\<close>

lemma go_inside:
  assumes "inside A t n cl" and "owns A fs t n" and "go ch cl fs = (cl', fs')"
  shows "owns A fs' t n \<and> inside A t n cl' \<or> outside A cl'"
proof (cases cl)
  case (Acquiring pr)
  with assms show ?thesis
    by (auto simp: inside_def go_def advance_def write_lock_def owns_def owner_record_def outside_def own_handle_def
        split: if_splits)
next
  case (Renewing h pr)
  show ?thesis
  proof (cases pr)
    case (Ret r)
    with assms Renewing show ?thesis by (auto simp: inside_def go_def advance_def)
  next
    case (Do c k)
    with assms Renewing show ?thesis
      by (cases c) (auto simp: inside_def go_def advance_def owns_def owner_record_def split: if_splits option.splits)
  qed
next
  case (Releasing pr)
  with assms show ?thesis
    by (auto simp: inside_def go_def advance_def outside_def Handle_Release_def file_functions_def lock_Release_def
        NewHandle_def split: prod.splits)
qed (use assms in \<open>auto simp: inside_def go_def\<close>)

lemma renew_inside:
  "own_handle A h t \<Longrightarrow> inside A t n (Renewing h (Handle_Renew (file_functions (la_dir A)) (Some h) lease))"
  by (simp add: inside_def own_handle_def Handle_Renew_def file_functions_def NewHandle_def renew_keeps)

lemma holding_inside: "inside A t n (Holding h) \<longleftrightarrow> own_handle A h t"
  by (simp add: inside_def)

lemma lock_inv_cases [consumes 1, case_names free owned]:
  assumes "lock_inv A s"
  obtains "\<forall>i. outside A (ls_clients s i)"
  | j t n where "owns A (ls_fs s) t n" and "inside A t n (ls_clients s j)" and "\<forall>i. i \<noteq> j \<longrightarrow> outside A (ls_clients s i)"
  using assms unfolding lock_inv_def by blast

lemma lock_inv_freeI: "\<forall>i. outside A (ls_clients s i) \<Longrightarrow> lock_inv A s"
  by (simp add: lock_inv_def)

lemma lock_inv_ownedI:
  "owns A (ls_fs s) t n \<Longrightarrow> inside A t n (ls_clients s j) \<Longrightarrow> \<forall>i. i \<noteq> j \<longrightarrow> outside A (ls_clients s i) \<Longrightarrow> lock_inv A s"
  by (auto simp: lock_inv_def)

lemma lock_inv_update:
  assumes "lock_inv A s" and "outside A (ls_clients s i) \<Longrightarrow> outside A cl"
    and "\<And>t n. inside A t n (ls_clients s i) \<Longrightarrow> inside A t n cl \<or> outside A cl"
  shows "lock_inv A (s\<lparr>ls_clients := (ls_clients s)(i := cl)\<rparr>)"
  using assms(1)
proof (cases rule: lock_inv_cases)
  case free
  with assms(2) show ?thesis by (intro lock_inv_freeI) simp
next
  case (owned j t n)
  show ?thesis
  proof (cases "i = j \<and> outside A cl")
    case True
    with owned show ?thesis by (intro lock_inv_freeI) auto
  next
    case False
    with owned assms(2,3) show ?thesis by (intro lock_inv_ownedI [of _ _ t n j]) auto
  qed
qed

lemma lock_inv_go:
  assumes inv: "lock_inv A s" and "\<not> takes_over (ls_clients s i)" and g: "go ch (ls_clients s i) (ls_fs s) = (cl, fs)"
  shows "lock_inv A (s\<lparr>ls_clients := (ls_clients s)(i := cl), ls_fs := fs\<rparr>)"
  using inv
proof (cases rule: lock_inv_cases)
  case free
  from go_outside [OF _ assms(2) g] free consider "outside A cl" | t n where "owns A fs t n" "inside A t n cl" by metis
  then show ?thesis
  proof cases
    case 1
    with free show ?thesis by (intro lock_inv_freeI) simp
  next
    case (2 t n)
    with free show ?thesis by (intro lock_inv_ownedI [of _ _ t n i]) auto
  qed
next
  case (owned j t n)
  show ?thesis
  proof (cases "i = j")
    case True
    with go_inside [OF owned(2,1)] g consider "owns A fs t n" "inside A t n cl" | "outside A cl" by metis
    then show ?thesis
    proof cases
      case 1
      with owned True show ?thesis by (intro lock_inv_ownedI [of _ _ t n j]) auto
    next
      case 2
      with owned True show ?thesis by (intro lock_inv_freeI) auto
    qed
  next
    case False
    with go_outside [OF _ assms(2) g] owned have "outside A cl" "owns A fs t n" by metis+
    with owned False show ?thesis by (intro lock_inv_ownedI [of _ _ t n j]) auto
  qed
qed

lemma lock_inv_step: "lock_inv A s \<Longrightarrow> undisturbed s e \<Longrightarrow> lock_inv A (lock_step A e s)"
proof (cases e)
  case (BeginAcquire i)
  assume "lock_inv A s"
  then show ?thesis unfolding BeginAcquire
    by (auto split: client.split intro!: lock_inv_update simp: outside_def inside_def acquire_before)
next
  case (BeginRenew i)
  assume "lock_inv A s"
  then show ?thesis unfolding BeginRenew
    by (auto split: client.split intro!: lock_inv_update renew_inside simp: outside_def holding_inside)
next
  case (BeginRelease i)
  assume "lock_inv A s"
  then show ?thesis unfolding BeginRelease
    by (auto split: client.split intro!: lock_inv_update simp: outside_def inside_def own_handle_def)
next
  case (BeginUnlock i)
  assume "lock_inv A s"
  then show ?thesis unfolding BeginUnlock
    by (auto split: client.split intro!: lock_inv_update simp: outside_def inside_def unlock_only_reads)
next
  case (Go i f t)
  assume "lock_inv A s" "undisturbed s e"
  then show ?thesis unfolding Go
    by (auto split: prod.split intro!: lock_inv_go simp: undisturbed_def Go)
next
  case (Crash i)
  assume "lock_inv A s"
  then show ?thesis unfolding Crash
    by (simp add: lock_inv_update outside_def)
next
  case (Pass d)
  assume "lock_inv A s"
  then show ?thesis unfolding Pass by (simp add: lock_inv_def)
qed

lemma lock_reach_inv: "lock_reach A s \<Longrightarrow> lock_inv A s"
proof (induction rule: lock_reach.induct)
  case (lock_start fs t)
  show ?case by (simp add: lock_inv_def outside_def)
qed (rule lock_inv_step)

lemma outside_not_holds: "outside A cl \<Longrightarrow> \<not> holds cl"
  by (simp add: outside_def holds_def split: client.splits)

lemma renewing_holds: "holds (Renewing h pr)"
  by (simp add: holds_def)

text \<open>
  C4. Mutual exclusion. However the calls of any number of processes interleave, fail, crash and are
  delayed, as long as no expired lock is removed and nobody forces the lock open, at most one process holds
  the lock, and a renewal of its lease never finds another owner.
\<close>

theorem lock_mutual_exclusion:
  assumes "lock_reach A s"
  shows "(\<forall>i j. holds (ls_clients s i) \<and> holds (ls_clients s j) \<longrightarrow> i = j) \<and>
    (\<forall>i h pr. ls_clients s i = Renewing h pr \<longrightarrow> pr \<noteq> Ret (Some OwnerMismatch))"
  using lock_reach_inv [OF assms]
proof (cases rule: lock_inv_cases)
  case free
  then show ?thesis by (metis outside_not_holds renewing_holds)
next
  case (owned j t n)
  then have own: "i = j" if "holds (ls_clients s i)" for i
    using that outside_not_holds by blast
  have "pr \<noteq> Ret (Some OwnerMismatch)" if "ls_clients s i = Renewing h pr" for i h pr
    using owned(2) own [of i] that by (auto simp: inside_def holds_def)
  with own show ?thesis by blast
qed

definition run_events :: "lock_args \<Rightarrow> lock_event list \<Rightarrow> lock_system \<Rightarrow> lock_system" where
  "run_events A es s = fold (lock_step A) es s"

fun undisturbed_run :: "lock_args \<Rightarrow> lock_event list \<Rightarrow> lock_system \<Rightarrow> bool" where
  "undisturbed_run A [] s = True"
| "undisturbed_run A (e # es) s = (undisturbed s e \<and> undisturbed_run A es (lock_step A e s))"

lemma reach_run: "lock_reach A s \<Longrightarrow> undisturbed_run A es s \<Longrightarrow> lock_reach A (run_events A es s)"
  by (induction es arbitrary: s) (auto simp: run_events_def intro: lock_next)

definition no_locks :: lock_fs where
  "no_locks = \<lparr>fs_names = (\<lambda>p. None), fs_data = (\<lambda>n. Unparsable), fs_next = 0\<rparr>"

definition idle_system :: lock_system where
  "idle_system = \<lparr>ls_fs = no_locks, ls_now = 0, ls_clients = (\<lambda>i. Idle)\<rparr>"

definition demo_lock_args :: lock_args where
  "demo_lock_args = \<lparr>la_dir = ''/r'', la_Service = ''svc'', la_Stage = ''dev'', la_lease = 10 * 10 ^ 9\<rparr>"

abbreviation "some_calls i t n \<equiv> replicate n (Go i False t)"

text \<open>Process 0 acquires and renews, process 1 tries in between and fails.\<close>

definition demo_quiet :: "lock_event list" where
  "demo_quiet = BeginAcquire 0 # BeginAcquire 1 # some_calls 0 ''a'' 5 @ some_calls 1 ''b'' 6 @ some_calls 0 ''a'' 2 @ BeginRenew 0 # some_calls 0 ''a'' 2"

theorem lock_mutual_exclusion_witness:
  "let s = run_events demo_lock_args demo_quiet idle_system in
     holds (ls_clients s 0) \<and> \<not> holds (ls_clients s 1)"
proof -
  have "lock_reach demo_lock_args (run_events demo_lock_args demo_quiet idle_system)"
  proof (rule reach_run)
    show "lock_reach demo_lock_args idle_system" unfolding idle_system_def by (rule lock_start)
    show "undisturbed_run demo_lock_args demo_quiet idle_system" by code_simp
  qed
  from lock_mutual_exclusion [OF this] have "\<forall>i j. holds (ls_clients (run_events demo_lock_args demo_quiet idle_system) i) \<and>
    holds (ls_clients (run_events demo_lock_args demo_quiet idle_system) j) \<longrightarrow> i = j" by blast
  moreover have "holds (ls_clients (run_events demo_lock_args demo_quiet idle_system) 0)" by code_simp
  ultimately show ?thesis by (auto simp: Let_def)
qed

section \<open>How it is lost\<close>

text \<open>
  Process 1 reads the lock of process 0 while it is fresh and asks for the time after the old expiry: the
  renewal in between does not help.
\<close>

definition race_renewed :: "lock_event list" where
  "race_renewed = BeginAcquire 0 # some_calls 0 ''a'' 7 @ BeginAcquire 1 # some_calls 1 ''b'' 2 @
     Pass (9 * 10 ^ 9) # BeginRenew 0 # some_calls 0 ''a'' 5 @ Pass (2 * 10 ^ 9) # some_calls 1 ''b'' 1"

text \<open>Processes 1 and 2 read the same expired lock of a crashed process.\<close>

definition race_expired :: "lock_event list" where
  "race_expired = BeginAcquire 0 # some_calls 0 ''a'' 7 @ Crash 0 # Pass (11 * 10 ^ 9) #
     BeginAcquire 1 # some_calls 1 ''b'' 3 @ BeginAcquire 2 # some_calls 2 ''c'' 3 @ some_calls 1 ''b'' 6"

text \<open>Process 0 loses its expired lock to process 1 and then releases it.\<close>

definition late_release :: "lock_event list" where
  "late_release = BeginAcquire 0 # some_calls 0 ''a'' 7 @ Pass (11 * 10 ^ 9) # BeginAcquire 1 # some_calls 1 ''b'' 9 @
     BeginRelease 0 # some_calls 0 ''a'' 2"

definition stored_expiry :: "lock_args \<Rightarrow> lock_system \<Rightarrow> int option" where
  "stored_expiry A s = (case fs_names (ls_fs s) (lockPath (la_dir A) (la_Service A) (la_Stage A)) of None \<Rightarrow> None
     | Some n \<Rightarrow> (case fs_data (ls_fs s) n of Unparsable \<Rightarrow> None | Locked r \<Rightarrow> parse_time (lr_ExpiresAt r)))"

text \<open>
  How mutual exclusion is lost. A live lock can be taken over: the contender judges the expiry it has
  read earlier, and removes whatever lock has the name by then, here one that is renewed until second 19 at
  second 11. Two contenders that find the same expired lock can both acquire it. And a process that
  has lost its expired lock releases the lock of its successor, because \<^verbatim>\<open>Release\<close> does not look at the
  owner token, so that a third one can acquire it beside the successor.
\<close>

theorem lock_races:
  "(let A = demo_lock_args; s = run_events A race_renewed idle_system; s' = run_events A (some_calls 1 ''b'' 6) s in
      stored_expiry A s = Some 19 \<and> ls_now s = 11 * 10 ^ 9 \<and> holds (ls_clients s 0) \<and>
      holds (ls_clients s' 0) \<and> holds (ls_clients s' 1)) \<and>
   (let A = demo_lock_args; s = run_events A race_expired idle_system; s' = run_events A (some_calls 2 ''c'' 6) s in
      holds (ls_clients s 1) \<and> holds (ls_clients s' 1) \<and> holds (ls_clients s' 2)) \<and>
   (let A = demo_lock_args; s = run_events A late_release idle_system; s' = run_events A (BeginAcquire 2 # some_calls 2 ''c'' 7) s in
      holds (ls_clients s 1) \<and> stored_expiry A s = None \<and> holds (ls_clients s' 1) \<and> holds (ls_clients s' 2))"
  by (intro conjI) code_simp+

section \<open>A single process\<close>

definition lock_at :: "lock_fs \<Rightarrow> string \<Rightarrow> lock_content option" where
  "lock_at fs p = map_option (fs_data fs) (fs_names fs p)"

text \<open>Files with a name have been allocated.\<close>

definition allocated :: "lock_fs \<Rightarrow> bool" where
  "allocated fs \<longleftrightarrow> (\<forall>p n. fs_names fs p = Some n \<longrightarrow> n < fs_next fs)"

text \<open>No call fails, the clock reads \<open>now i\<close> at the \<open>i\<close>-th call, the random bytes are \<open>token\<close>.\<close>

definition fair :: "(nat \<Rightarrow> int) \<Rightarrow> string \<Rightarrow> nat \<Rightarrow> io_choice" where
  "fair now token i = \<lparr>ch_fail = False, ch_now = now i, ch_token = token\<rparr>"

lemma fair_simps [simp]: "ch_fail (fair now token i) = False" "ch_now (fair now token i) = now i" "ch_token (fair now token i) = token"
  by (simp_all add: fair_def)

lemma run_bindP: "run_prog (bindP m f) ch i fs = (case run_prog m ch i fs of (a, j, fs') \<Rightarrow> run_prog (f a) ch j fs')"
  by (induction m arbitrary: i fs) (simp_all split: prod.split)

lemma create_lock_fair:
  assumes "allocated fs" and "lock_at fs (lockPath dir service stage) = None"
    and "run_prog (create_lock dir service stage oper pid lease) (fair now token) i fs = (r, j, fs')"
  shows "r = Inr (NewHandle service stage token) \<and> allocated fs' \<and> lock_at fs' = (lock_at fs)(lockPath dir service stage \<mapsto>
    Locked (new_record service stage oper pid lease token (now (Suc i))))"
proof -
  let ?p = "lockPath dir service stage" and ?r = "new_record service stage oper pid lease token (now (Suc i))"
  have none: "fs_names fs ?p = None" using assms(2) by (simp add: lock_at_def)
  have eq: "r = Inr (NewHandle service stage token)" "fs' = fs\<lparr>fs_names := (fs_names fs)(?p \<mapsto> fs_next fs),
      fs_data := (fs_data fs)(fs_next fs := Locked ?r), fs_next := Suc (fs_next fs)\<rparr>"
    using assms(3) none by (auto simp: create_lock_def randomToken_def nowP_def write_lock_def)
  have "lock_at fs' q = ((lock_at fs)(?p \<mapsto> Locked ?r)) q" for q
    using assms(1) by (auto simp: eq(2) lock_at_def allocated_def map_option_case split: option.split)
  moreover have "allocated fs'" using assms(1) by (auto simp: eq(2) allocated_def intro: less_SucI)
  ultimately show ?thesis using eq(1) by auto
qed

lemma create_lock_exists:
  "lock_at fs (lockPath dir service stage) = Some c \<Longrightarrow>
   run_prog (create_lock dir service stage oper pid lease) (fair now token) i fs = (r, j, fs') \<Longrightarrow> r = Inl AlreadyExists \<and> fs' = fs"
  by (auto simp: lock_at_def create_lock_def randomToken_def nowP_def)

text \<open>The cases of the lock file \<^verbatim>\<open>Acquire\<close> finds, judged at the time \<open>t\<close>.\<close>

fun expired_at :: "int \<Rightarrow> lock_content option \<Rightarrow> bool" where
  "expired_at t (Some (Locked r)) = (case parse_time (lr_ExpiresAt r) of None \<Rightarrow> False | Some e \<Rightarrow> e * 10 ^ 9 < t)"
| "expired_at t c = False"

text \<open>
  C38. \<^verbatim>\<open>Acquire\<close> alone, on every branch when no call fails. A free or expired lock is taken: the file then holds
  a record with the new token whose expiry is counted from the time read right before the file is created, the fourth call for a
  free lock and the sixth for an expired one, and no other file is touched. A live lock is reported with its record, a
  file that is no record as existing, and nothing changes.
\<close>

theorem lock_Acquire_outcome:
  assumes "allocated fs" and "run_prog (lock_Acquire dir service stage oper pid lease) (fair now token) 0 fs = (r, j, fs')"
  defines "p \<equiv> lockPath dir service stage"
  shows "(lock_at fs p = None \<longrightarrow> r = Inr (NewHandle service stage token) \<and>
      lock_at fs' = (lock_at fs)(p \<mapsto> Locked (new_record service stage oper pid lease token (now 3)))) \<and>
    (expired_at (now 2) (lock_at fs p) \<longrightarrow> r = Inr (NewHandle service stage token) \<and>
      lock_at fs' = (lock_at fs)(p \<mapsto> Locked (new_record service stage oper pid lease token (now 5)))) \<and>
    (\<forall>x. lock_at fs p = Some (Locked x) \<and> \<not> expired_at (now 2) (lock_at fs p) \<longrightarrow> r = Inl (AlreadyHeld x) \<and> fs' = fs) \<and>
    (lock_at fs p = Some Unparsable \<longrightarrow> r = Inl AlreadyExists \<and> fs' = fs)"
proof (cases "lock_at fs p")
  case None
  with assms(2) have "run_prog (create_lock dir service stage oper pid lease) (fair now token) 2 fs = (r, j, fs')"
    by (simp add: lock_Acquire_def lock_Read_def p_def lock_at_def numeral_2_eq_2)
  from create_lock_fair [OF assms(1) _ this] None show ?thesis by (simp add: p_def)
next
  case (Some c)
  then obtain n where n: "fs_names fs p = Some n" "fs_data fs n = c" by (auto simp: lock_at_def)
  show ?thesis
  proof (cases c)
    case Unparsable
    with assms(2) n have "run_prog (create_lock dir service stage oper pid lease) (fair now token) 2 fs = (r, j, fs')"
      by (simp add: lock_Acquire_def lock_Read_def p_def numeral_2_eq_2)
    from create_lock_exists [OF _ this] Some Unparsable show ?thesis by (simp add: p_def)
  next
    case (Locked x)
    show ?thesis
    proof (cases "expired_at (now 2) (Some c)")
      case False
      with assms(2) n Locked Some show ?thesis
        by (auto simp: lock_Acquire_def lock_Read_def p_def nowP_def numeral_2_eq_2 split: option.splits)
    next
      case True
      define fs1 where "fs1 = fs\<lparr>fs_names := (fs_names fs)(p := None)\<rparr>"
      have run: "run_prog (create_lock dir service stage oper pid lease) (fair now token) 4 fs1 = (r, j, fs')"
        using assms(2) n Locked True
        by (auto simp: lock_Acquire_def lock_Read_def p_def nowP_def clear_expired_def fs1_def numeral_eq_Suc split: option.splits)
      have free: "lock_at fs1 (lockPath dir service stage) = None" by (simp add: fs1_def lock_at_def p_def)
      have "allocated fs1" using assms(1) by (auto simp: allocated_def fs1_def)
      from create_lock_fair [OF this free run]
      have "r = Inr (NewHandle service stage token)" and
        "lock_at fs' = (lock_at fs1)(p \<mapsto> Locked (new_record service stage oper pid lease token (now (Suc 4))))"
        by (auto simp: p_def)
      moreover have "(lock_at fs1)(p \<mapsto> y) = (lock_at fs)(p \<mapsto> y)" for y by (auto simp: fs1_def lock_at_def)
      ultimately show ?thesis using Some True Locked by simp
    qed
  qed
qed

definition demo_now :: "nat \<Rightarrow> int" where
  "demo_now i = 5 * 10 ^ 9 + int i"

theorem lock_Acquire_outcome_witness:
  "lock_at (snd (snd (run_prog (lock_Acquire ''/r'' ''svc'' ''dev'' ''deploy'' 1 (10 * 10 ^ 9)) (fair demo_now ''t'') 0 no_locks)))
     = [lockPath ''/r'' ''svc'' ''dev'' \<mapsto> Locked (new_record ''svc'' ''dev'' ''deploy'' 1 (10 * 10 ^ 9) ''t'' (demo_now 3))]"
proof -
  obtain r j fs' where run: "run_prog (lock_Acquire ''/r'' ''svc'' ''dev'' ''deploy'' 1 (10 * 10 ^ 9)) (fair demo_now ''t'') 0 no_locks = (r, j, fs')"
    by (metis prod_cases3)
  have "allocated no_locks" "lock_at no_locks = Map.empty"
    by (simp_all add: allocated_def no_locks_def lock_at_def fun_eq_iff)
  with lock_Acquire_outcome [OF _ run] show ?thesis unfolding run by simp
qed

text \<open>A file that is no record stays one, whatever a contender or \<^verbatim>\<open>unlock --force\<close> does.\<close>

lemma create_lock_wedged:
  assumes "lock_at fs (lockPath dir service stage) = Some c"
    and "run_prog (create_lock dir service stage oper pid lease) ch i fs = (r, j, fs')"
  shows "isl r \<and> fs' = fs"
  using assms by (auto simp: create_lock_def randomToken_def nowP_def lock_at_def split: if_splits)

text \<open>
  A lock file that does not parse is permanent. If a process dies between the creation of the lock file
  and the write, or the write fails, then every later \<^verbatim>\<open>Acquire\<close> fails whatever time has passed, and
  \<^verbatim>\<open>Unlock\<close> fails as well, even if forced: it gives up when it cannot read the record.
\<close>

theorem unparsable_lock_is_permanent:
  assumes "lock_at fs (lockPath dir service stage) = Some Unparsable"
  shows "(\<forall>ch i. case run_prog (lock_Acquire dir service stage oper pid lease) ch i fs of (r, j, fs') \<Rightarrow> isl r \<and> fs' = fs) \<and>
    (\<forall>ch i force. case run_prog (Unlock dir service stage force) ch i fs of (r, j, fs') \<Rightarrow> isl r \<and> fs' = fs)"
proof (intro conjI allI)
  from assms obtain n where n: "fs_names fs (lockPath dir service stage) = Some n" "fs_data fs n = Unparsable"
    by (auto simp: lock_at_def)
  fix ch i
  have "run_prog (lock_Acquire dir service stage oper pid lease) ch i fs =
      (if ch_fail (ch i) then (Inl (LockIO ''create lock dir''), Suc i, fs)
       else run_prog (create_lock dir service stage oper pid lease) ch (Suc (Suc i)) fs)"
    by (simp add: lock_Acquire_def lock_Read_def n split: prod.split)
  then show "case run_prog (lock_Acquire dir service stage oper pid lease) ch i fs of (r, j, fs') \<Rightarrow> isl r \<and> fs' = fs"
    using create_lock_wedged [OF assms] by (auto split: prod.split)
  show "case run_prog (Unlock dir service stage force) ch i fs of (r, j, fs') \<Rightarrow> isl r \<and> fs' = fs" for force
    by (auto simp: Unlock_def lock_Read_def n split: prod.split if_splits)
qed

text \<open>A process that crashes between the two calls leaves such a file.\<close>

definition crashed :: lock_system where
  "crashed = run_events demo_lock_args (BeginAcquire 0 # some_calls 0 ''a'' 5 @ [Crash 0]) idle_system"

theorem unparsable_lock_is_permanent_witness:
  "\<forall>ch i force. isl (fst (run_prog (Unlock ''/r'' ''svc'' ''dev'' force) ch i (ls_fs crashed)))"
proof -
  have "fs_names (ls_fs crashed) (lockPath ''/r'' ''svc'' ''dev'') = Some 0"
    "(case fs_data (ls_fs crashed) 0 of Unparsable \<Rightarrow> True | Locked r \<Rightarrow> False)" by code_simp+
  then have "lock_at (ls_fs crashed) (lockPath ''/r'' ''svc'' ''dev'') = Some Unparsable"
    by (simp add: lock_at_def split: lock_content.splits)
  from unparsable_lock_is_permanent [OF this, THEN conjunct2] show ?thesis by (simp add: case_prod_beta)
qed

text \<open>
  The lease. While the lock file holds a record, a renewal with its token rewrites it with the new expiry
  and changes nothing else; with another token it reports the mismatch and changes nothing at all. The
  release removes the file whatever the token is.
\<close>

theorem lock_Renew_Release:
  assumes "lock_at fs (lockPath dir service stage) = Some (Locked x)"
    and "run_prog (lock_Renew dir service stage token lease) (fair now u) 0 fs = (e, j, fs')"
    and "run_prog (lock_Release dir service stage) (fair now u) i fs = (e', j', fs'')"
    and "inj_on (fs_names fs) (dom (fs_names fs))"
  shows "(token = lr_OwnerToken x \<longrightarrow> e = None \<and> lock_at fs' = (lock_at fs)(lockPath dir service stage \<mapsto>
      Locked (x\<lparr>lr_ExpiresAt := fmt_time (now 1 + lease), lr_LastHeartbeatAt := fmt_time (now 1)\<rparr>))) \<and>
    (token \<noteq> lr_OwnerToken x \<longrightarrow> e = Some OwnerMismatch \<and> fs' = fs) \<and>
    e' = None \<and> lock_at fs'' = (lock_at fs)(lockPath dir service stage := None)"
proof -
  let ?p = "lockPath dir service stage"
  obtain n where n: "fs_names fs ?p = Some n" "fs_data fs n = Locked x" using assms(1) by (auto simp: lock_at_def)
  have only: "fs_names fs q = Some n \<longleftrightarrow> q = ?p" for q
    using assms(4) n by (metis domI inj_onD)
  have "lock_at fs'' q = ((lock_at fs)(?p := None)) q" for q using assms(3) n by (auto simp: lock_Release_def lock_at_def)
  moreover have "e' = None" using assms(3) n by (auto simp: lock_Release_def)
  moreover have "e = Some OwnerMismatch \<and> fs' = fs" if "token \<noteq> lr_OwnerToken x"
    using assms(2) that n by (auto simp: lock_Renew_def lock_Read_def)
  moreover have "e = None \<and> lock_at fs' = (lock_at fs)(?p \<mapsto>
      Locked (x\<lparr>lr_ExpiresAt := fmt_time (now 1 + lease), lr_LastHeartbeatAt := fmt_time (now 1)\<rparr>))" if t: "token = lr_OwnerToken x"
  proof -
    have "e = None" and "fs' = fs\<lparr>fs_data := (fs_data fs)(n :=
        Locked (x\<lparr>lr_ExpiresAt := fmt_time (now 1 + lease), lr_LastHeartbeatAt := fmt_time (now 1)\<rparr>))\<rparr>"
      using assms(2) t n by (auto simp: lock_Renew_def lock_Read_def nowP_def)
    moreover from this have "lock_at fs' q = lock_at fs q" if "q \<noteq> ?p" for q
      using only [of q] that by (cases "fs_names fs q") (auto simp: lock_at_def)
    ultimately show ?thesis using n(1) by (auto simp: lock_at_def fun_eq_iff)
  qed
  ultimately show ?thesis by auto
qed

definition demo_lock :: lock_record where
  "demo_lock = new_record ''svc'' ''dev'' ''deploy'' 1 (10 * 10 ^ 9) ''t'' 0"

definition demo_locked :: lock_fs where
  "demo_locked = \<lparr>fs_names = [lockPath ''/r'' ''svc'' ''dev'' \<mapsto> 0], fs_data = (\<lambda>n. Locked demo_lock), fs_next = 1\<rparr>"

theorem lock_Renew_Release_witness:
  "fst (run_prog (lock_Renew ''/r'' ''svc'' ''dev'' ''t'' (10 * 10 ^ 9)) (fair demo_now ''u'') 0 demo_locked) = None \<and>
   fst (run_prog (lock_Renew ''/r'' ''svc'' ''dev'' ''x'' (10 * 10 ^ 9)) (fair demo_now ''u'') 0 demo_locked) = Some OwnerMismatch"
proof -
  have at: "lock_at demo_locked (lockPath ''/r'' ''svc'' ''dev'') = Some (Locked demo_lock)"
    by (simp add: lock_at_def demo_locked_def)
  have inj: "inj_on (fs_names demo_locked) (dom (fs_names demo_locked))" by (simp add: demo_locked_def)

  obtain e j fs' where a: "run_prog (lock_Renew ''/r'' ''svc'' ''dev'' ''t'' (10 * 10 ^ 9)) (fair demo_now ''u'') 0 demo_locked = (e, j, fs')"
    by (metis prod_cases3)
  obtain f l gs where b: "run_prog (lock_Renew ''/r'' ''svc'' ''dev'' ''x'' (10 * 10 ^ 9)) (fair demo_now ''u'') 0 demo_locked = (f, l, gs)"
    by (metis prod_cases3)
  obtain e' j' fs'' where r: "run_prog (lock_Release ''/r'' ''svc'' ''dev'') (fair demo_now ''u'') 0 demo_locked = (e', j', fs'')"
    by (metis prod_cases3)
  have "lr_OwnerToken demo_lock = ''t''" by (simp add: demo_lock_def)
  with lock_Renew_Release [OF at a r inj] lock_Renew_Release [OF at b r inj] show ?thesis unfolding a b by simp
qed

section \<open>Alone among processes\<close>

lemma solo_calls:
  assumes "ls_clients s i = Acquiring pr" and "\<forall>k. ch_now (ch k) = ls_now s" and "run_prog pr ch k (ls_fs s) = (r, m, fs')"
  shows "k \<le> m \<and> fold (lock_step A) (map (\<lambda>j. Go i (ch_fail (ch j)) (ch_token (ch j))) [k..<m]) s =
    s\<lparr>ls_clients := (ls_clients s)(i := Acquiring (Ret r)), ls_fs := fs'\<rparr>"
  using assms
proof (induction pr arbitrary: s k)
  case (Ret a)
  then have "a = r" "k = m" "fs' = ls_fs s" "(ls_clients s)(i := Acquiring (Ret r)) = ls_clients s" by auto
  then show ?case by simp
next
  case (Do c f)
  obtain x fs1 where p: "perform (ch k) c (ls_fs s) = (x, fs1)" by force
  define s1 where "s1 = s\<lparr>ls_clients := (ls_clients s)(i := Acquiring (f x)), ls_fs := fs1\<rparr>"
  have ch: "\<lparr>ch_fail = ch_fail (ch k), ch_now = ls_now s, ch_token = ch_token (ch k)\<rparr> = ch k"
    using Do.prems(2) by (metis io_choice.surjective old.unit.exhaust)
  have step: "lock_step A (Go i (ch_fail (ch k)) (ch_token (ch k))) s = s1"
    by (simp add: ch Do.prems(1) go_def advance_def p s1_def)
  have "Suc k \<le> m \<and> fold (lock_step A) (map (\<lambda>j. Go i (ch_fail (ch j)) (ch_token (ch j))) [Suc k..<m]) s1 =
    s1\<lparr>ls_clients := (ls_clients s1)(i := Acquiring (Ret r)), ls_fs := fs'\<rparr>"
    using Do.prems by (intro Do.IH [OF rangeI]) (auto simp: s1_def p)
  moreover have "s1\<lparr>ls_clients := (ls_clients s1)(i := Acquiring (Ret r)), ls_fs := fs'\<rparr> =
    s\<lparr>ls_clients := (ls_clients s)(i := Acquiring (Ret r)), ls_fs := fs'\<rparr>" by (simp add: s1_def)
  ultimately have IH: "k < m" "fold (lock_step A) (map (\<lambda>j. Go i (ch_fail (ch j)) (ch_token (ch j))) [Suc k..<m]) s1 =
    s\<lparr>ls_clients := (ls_clients s)(i := Acquiring (Ret r)), ls_fs := fs'\<rparr>" by auto
  then have "fold (lock_step A) (map (\<lambda>j. Go i (ch_fail (ch j)) (ch_token (ch j))) [k..<m]) s =
    s\<lparr>ls_clients := (ls_clients s)(i := Acquiring (Ret r)), ls_fs := fs'\<rparr>"
    by (simp add: upt_conv_Cons step del: lock_step.simps)
  with IH(1) show ?case by (intro conjI less_imp_le)
qed

text \<open>
  A process that nobody interrupts acquires as the sequential function says: starting it and performing
  its calls one by one leads to the file system of the uninterrupted run, and to a process that holds
  the handle, or has given up, exactly if the run returned it.
\<close>

theorem lock_Acquire_uninterrupted:
  assumes "ls_clients s i = Idle" and "\<forall>k. ch_now (ch k) = ls_now s"
    and "run_prog (lock_Acquire (la_dir A) (la_Service A) (la_Stage A) ''deploy'' (int i) (la_lease A)) ch 0 (ls_fs s) = (r, m, fs')"
  shows "run_events A (BeginAcquire i # map (\<lambda>j. Go i (ch_fail (ch j)) (ch_token (ch j))) [0..<Suc m]) s =
    s\<lparr>ls_clients := (ls_clients s)(i := (case r of Inl e \<Rightarrow> Idle | Inr h \<Rightarrow> Holding h)), ls_fs := fs'\<rparr>"
proof -
  define s0 where "s0 = lock_step A (BeginAcquire i) s"
  have s0: "ls_clients s0 i = Acquiring (lock_Acquire (la_dir A) (la_Service A) (la_Stage A) ''deploy'' (int i) (la_lease A))"
    "ls_now s0 = ls_now s" "ls_fs s0 = ls_fs s" using assms(1) by (simp_all add: s0_def)
  have "fold (lock_step A) (map (\<lambda>j. Go i (ch_fail (ch j)) (ch_token (ch j))) [0..<m]) s0 =
      s0\<lparr>ls_clients := (ls_clients s0)(i := Acquiring (Ret r)), ls_fs := fs'\<rparr>"
    using solo_calls [of s0 i _ ch 0 r m fs' A] s0 assms(2,3) by simp
  then show ?thesis using assms(1)
    by (simp add: run_events_def s0_def [symmetric] go_def advance_def) (simp add: s0_def advance_def)
qed

theorem lock_Acquire_uninterrupted_witness:
  "holds (ls_clients (run_events demo_lock_args (BeginAcquire 0 # map (\<lambda>j. Go 0 False ''a'') [0..<7]) idle_system) 0)"
proof -
  let ?ch = "fair (\<lambda>k. 0) ''a''"
  let ?run = "run_prog (lock_Acquire ''/r'' ''svc'' ''dev'' ''deploy'' 0 (10 * 10 ^ 9)) ?ch 0 no_locks"
  have m: "fst (snd ?run) = 6" and r: "\<not> isl (fst ?run)" by code_simp+
  have "run_events demo_lock_args (BeginAcquire 0 # map (\<lambda>j. Go 0 (ch_fail (?ch j)) (ch_token (?ch j))) [0..<Suc 6]) idle_system =
    idle_system\<lparr>ls_clients := (ls_clients idle_system)(0 := (case fst ?run of Inl e \<Rightarrow> Idle | Inr h \<Rightarrow> Holding h)), ls_fs := snd (snd ?run)\<rparr>"
    by (rule lock_Acquire_uninterrupted) (use m in \<open>simp_all add: idle_system_def demo_lock_args_def prod_eq_iff\<close>)
  then show ?thesis using r by (auto simp: holds_def split: sum.splits)
qed

section \<open>The keepalive\<close>

lemma heartbeat_stops:
  "renew k = Some e \<Longrightarrow> \<forall>i<k. j \<le> i \<longrightarrow> renew i = None \<Longrightarrow> j \<le> k \<Longrightarrow> k < j + n \<Longrightarrow> heartbeat renew j n = (Suc k, Some e)"
proof (induction n arbitrary: j)
  case (Suc n)
  then show ?case by (cases "j = k") (auto split: option.split)
qed simp

text \<open>
  A lost lease is noticed. The first renewal that fails is the last one made, its error is reported
  by the next check and by that one only, and the lock is released once however often \<^verbatim>\<open>Release\<close> is called.
\<close>

theorem lease_loss_reported:
  assumes "renew k = Some e" and "\<forall>i<k. renew i = None" and "k < n"
    and m: "m = Manage (Some renew) n fin"
  shows "fst (heartbeat renew 0 n) = Suc k \<and>
    FailIfLeaseLost False (Some m) = (Some e, Some (m\<lparr>mg_err := None\<rparr>)) \<and>
    fst (FailIfLeaseLost False (snd (FailIfLeaseLost False (Some m)))) = None \<and>
    (\<exists>m'. Managed_Release out (Some m) = (out, True, m') \<and> Managed_Release out' m' = (out, False, m'))"
proof -
  have "heartbeat renew 0 n = (Suc k, Some e)" using assms(1-3) by (intro heartbeat_stops) auto
  then show ?thesis
    by (simp add: m Manage_def FailIfLeaseLost_def receive_def Managed_Release_def)
qed

theorem lease_loss_reported_witness:
  "fst (FailIfLeaseLost False (Some (Manage (Some (\<lambda>i. if i = 2 then Some ''lock owner mismatch'' else None)) 5 False))) =
     Some ''lock owner mismatch''"
  using lease_loss_reported [of "\<lambda>i. if i = 2 then Some ''lock owner mismatch'' else None" 2 "''lock owner mismatch''" 5 _ False, OF _ _ _ refl] by simp

end
