(* ===== verification/Config_Types.thy ===== *)
theory Config_Types
  imports Secrets
begin

text \<open>
  The configuration document (\<^verbatim>\<open>platform/core/model/config/types.go\<close>), as far as normalization, resolution,
  validation and planning read it. A map is the list of its entries in iteration order; a nil map and an
  empty one, which none of these functions tells apart, are both the empty list.
\<close>

type_synonym strmap = "(string \<times> string) list"

record backend_config =
  bk_Kind :: string
  bk_S3Bucket :: string
  bk_S3Prefix :: string
  bk_GCSBucket :: string
  bk_GCSPrefix :: string
  bk_AzblobContainer :: string
  bk_AzblobPrefix :: string
  bk_LockTable :: string
  bk_PostgresConnectionStringEnv :: string
  bk_PostgresTable :: string
  bk_SqlitePath :: string
  bk_ReceiptTable :: string

record provider_config =
  pv_Name :: string
  pv_Runtime :: string
  pv_Region :: string
  pv_Source :: string
  pv_Version :: string
  pv_ServiceType :: string
  pv_Image :: string
  pv_Namespace :: string
  pv_Backend :: "backend_config option"

record cors_config =
  co_AllowOrigins :: "string list"
  co_AllowMethods :: "string list"
  co_AllowHeaders :: "string list"
  co_ExposeHeaders :: "string list"
  co_AllowCredentials :: bool
  co_MaxAge :: int

record authorizer_config =
  au_Type :: string
  au_Name :: string
  au_IdentitySources :: "string list"
  au_Issuer :: string
  au_Audience :: "string list"
  au_Function :: string

record route_settings =
  rt_ThrottlingBurstLimit :: int
  rt_ThrottlingRateLimit :: int

record http_event =
  he_Path :: string
  he_Method :: string
  he_CORS :: "cors_config option"
  he_Authorizer :: "authorizer_config option"
  he_RouteSettings :: "route_settings option"

record queue_event =
  qe_Queue :: string
  qe_Batch :: int
  qe_Enabled :: "bool option"

record storage_event =
  ste_Bucket :: string
  ste_Prefix :: string
  ste_Suffix :: string
  ste_Events :: "string list"

record eventbridge_event =
  eb_Pattern :: anymap
  eb_Bus :: string

record pubsub_event =
  ps_Topic :: string
  ps_Subscription :: string

record kafka_event =
  ka_BootstrapServers :: "string list"
  ka_Topic :: string
  ka_GroupID :: string

record rabbitmq_event =
  rq_URL :: string
  rq_Queue :: string

record event_config =
  evt_HTTP :: "http_event option"
  evt_Cron :: string
  evt_Queue :: "queue_event option"
  evt_Storage :: "storage_event option"
  evt_EventBridge :: "eventbridge_event option"
  evt_PubSub :: "pubsub_event option"
  evt_Kafka :: "kafka_event option"
  evt_RabbitMQ :: "rabbitmq_event option"

record function_config =
  fnc_Handler :: string
  fnc_Runtime :: string
  fnc_Memory :: int
  fnc_Timeout :: int
  fnc_Architecture :: string
  fnc_Environment :: strmap
  fnc_Tags :: strmap
  fnc_Layers :: "string list"
  fnc_Resources :: "string list"
  fnc_Addons :: "string list"
  fnc_ReservedConcurrency :: int
  fnc_ProvisionedConcurrency :: int
  fnc_Secrets :: strmap
  fnc_Events :: "event_config list"

record trigger_ref =
  trg_Type :: string
  trg_Method :: string
  trg_Path :: string
  trg_Schedule :: string
  trg_Queue :: string
  trg_BatchSize :: int
  trg_Enabled :: "bool option"
  trg_Bucket :: string
  trg_Events :: "string list"
  trg_Prefix :: string
  trg_Suffix :: string
  trg_Pattern :: anymap
  trg_Bus :: string
  trg_Topic :: string
  trg_Subscription :: string
  trg_Brokers :: "string list"
  trg_GroupID :: string

record function_override =
  fov_Name :: string
  fov_Entry :: string
  fov_Runtime :: string
  fov_Memory :: int
  fov_Timeout :: int
  fov_Architecture :: string
  fov_Triggers :: "trigger_ref list"
  fov_Events :: "event_config list"
  fov_Env :: strmap
  fov_Environment :: strmap
  fov_Secrets :: strmap
  fov_Tags :: strmap
  fov_Layers :: "string list"
  fov_Resources :: "string list"
  fov_Addons :: "string list"
  fov_ReservedConcurrency :: int
  fov_ProvisionedConcurrency :: int

record layer_config =
  lay_Ref :: string
  lay_Name :: string
  lay_Version :: string

record addon_config =
  add_Name :: string
  add_Version :: string
  add_Secrets :: strmap

record scaling_config =
  scl_ReservedConcurrency :: int
  scl_ProvisionedConcurrency :: int

record deploy_config =
  dpl_Scaling :: "scaling_config option"
  dpl_Strategy :: string
  dpl_CanaryPercent :: int

record alerts_config =
  alr_Webhook :: string
  alr_Slack :: string
  alr_OnError :: bool
  alr_OnTimeout :: bool

record workflow_step =
  wst_ID :: string
  wst_Kind :: string
  wst_Model :: string
  wst_Timeout :: int
  wst_Input :: anymap

record workflow_config =
  wfl_Name :: string
  wfl_Steps :: "workflow_step list"

record stage_config =
  stg_Provider :: "provider_config option"
  stg_Backend :: "backend_config option"
  stg_Functions :: "(string \<times> function_config) list"

text \<open>\<^verbatim>\<open>Config\<close>; \<open>prj_Build\<close> is the order of the build steps, if there is a build section.\<close>

record project =
  prj_Service :: string
  prj_Provider :: provider_config
  prj_Backend :: "backend_config option"
  prj_App :: string
  prj_Org :: string
  prj_ProviderOverrides :: "(string \<times> provider_config) list"
  prj_Deploy :: "deploy_config option"
  prj_Resources :: "(string \<times> any) list"
  prj_Secrets :: strmap
  prj_Workflows :: "workflow_config list"
  prj_FunctionsConfig :: "function_override list"
  prj_Functions :: "(string \<times> function_config) list"
  prj_Stages :: "(string \<times> stage_config) list"
  prj_Layers :: "(string \<times> layer_config) list"
  prj_Addons :: "(string \<times> addon_config) list"
  prj_Build :: "string list option"
  prj_Alerts :: "alerts_config option"

text \<open>The zero values of Go.\<close>

definition no_event :: event_config where
  "no_event = \<lparr>evt_HTTP = None, evt_Cron = '''', evt_Queue = None, evt_Storage = None, evt_EventBridge = None,
     evt_PubSub = None, evt_Kafka = None, evt_RabbitMQ = None\<rparr>"

definition no_backend :: backend_config where
  "no_backend = \<lparr>bk_Kind = '''', bk_S3Bucket = '''', bk_S3Prefix = '''', bk_GCSBucket = '''', bk_GCSPrefix = '''',
     bk_AzblobContainer = '''', bk_AzblobPrefix = '''', bk_LockTable = '''', bk_PostgresConnectionStringEnv = '''',
     bk_PostgresTable = '''', bk_SqlitePath = '''', bk_ReceiptTable = ''''\<rparr>"

end
