(* ===== verification/Config_Resolve.thy ===== *)
theory Config_Resolve
  imports Config_Types
begin

text \<open>
  Normalization and resolution of the configuration (\<^verbatim>\<open>platform/core/model/config\<close>: \<^verbatim>\<open>normalize.go\<close>,
  \<^verbatim>\<open>resolver.go\<close>, \<^verbatim>\<open>multicloud.go\<close>, \<^verbatim>\<open>addons.go\<close>, \<^verbatim>\<open>resources.go\<close>): placeholders, stage patterns and
  stage overrides. The environment is a function from names to values.
\<close>

section \<open>Normalization\<close>

definition mergeStringMaps :: "strmap \<Rightarrow> strmap \<Rightarrow> strmap" where
  "mergeStringMaps a b = foldl (\<lambda>out (k, v). AList.update k v out) a b"

definition triggerRefToEvent :: "trigger_ref \<Rightarrow> event_config option" where
  "triggerRefToEvent t =
     (if trg_Type t = ''http'' then Some (no_event\<lparr>evt_HTTP := Some \<lparr>he_Path = trg_Path t,
        he_Method = (if trg_Method t = '''' then ''GET'' else trg_Method t), he_CORS = None, he_Authorizer = None, he_RouteSettings = None\<rparr>\<rparr>)
      else if trg_Type t = ''cron'' then Some (no_event\<lparr>evt_Cron := trg_Schedule t\<rparr>)
      else if trg_Type t = ''queue'' then
        Some (no_event\<lparr>evt_Queue := Some \<lparr>qe_Queue = trg_Queue t, qe_Batch = trg_BatchSize t, qe_Enabled = trg_Enabled t\<rparr>\<rparr>)
      else if trg_Type t = ''storage'' then
        Some (no_event\<lparr>evt_Storage := Some \<lparr>ste_Bucket = trg_Bucket t, ste_Prefix = trg_Prefix t, ste_Suffix = trg_Suffix t, ste_Events = trg_Events t\<rparr>\<rparr>)
      else if trg_Type t = ''eventbridge'' then
        Some (no_event\<lparr>evt_EventBridge := Some \<lparr>eb_Pattern = trg_Pattern t, eb_Bus = trg_Bus t\<rparr>\<rparr>)
      else if trg_Type t = ''pubsub'' then
        Some (no_event\<lparr>evt_PubSub := Some \<lparr>ps_Topic = trg_Topic t, ps_Subscription = trg_Subscription t\<rparr>\<rparr>)
      else if trg_Type t = ''kafka'' then
        Some (no_event\<lparr>evt_Kafka := Some \<lparr>ka_BootstrapServers = trg_Brokers t, ka_Topic = trg_Topic t, ka_GroupID = trg_GroupID t\<rparr>\<rparr>)
      else if trg_Type t = ''rabbitmq'' then
        Some (no_event\<lparr>evt_RabbitMQ := Some \<lparr>rq_URL = '''', rq_Queue = trg_Queue t\<rparr>\<rparr>)
      else None)"

definition functionOverrideToConfig :: "function_override \<Rightarrow> string \<Rightarrow> function_config" where
  "functionOverrideToConfig fo defaultRuntime =
     \<lparr>fnc_Handler = (if fov_Entry fo = '''' then fov_Name fo else fov_Entry fo),
      fnc_Runtime = (if fov_Runtime fo = '''' then defaultRuntime else fov_Runtime fo),
      fnc_Memory = fov_Memory fo, fnc_Timeout = fov_Timeout fo, fnc_Architecture = fov_Architecture fo,
      fnc_Environment = mergeStringMaps (fov_Environment fo) (fov_Env fo),
      fnc_Tags = fov_Tags fo, fnc_Layers = fov_Layers fo, fnc_Resources = fov_Resources fo, fnc_Addons = fov_Addons fo,
      fnc_ReservedConcurrency = fov_ReservedConcurrency fo, fnc_ProvisionedConcurrency = fov_ProvisionedConcurrency fo,
      fnc_Secrets = fov_Secrets fo, fnc_Events = fov_Events fo @ List.map_filter triggerRefToEvent (fov_Triggers fo)\<rparr>"

definition function_name :: "function_override \<Rightarrow> string" where
  "function_name fo = (if fov_Name fo = '''' then ''api'' else fov_Name fo)"

definition normalize_deploy :: "deploy_config \<Rightarrow> deploy_config" where
  "normalize_deploy d = (let s = TrimSpace (ToLower (dpl_Strategy d))
     in d\<lparr>dpl_Strategy := (if s = '''' then ''all-at-once'' else s)\<rparr>)"

definition Normalize :: "project \<Rightarrow> project" where
  "Normalize cfg = cfg\<lparr>
     prj_Functions := foldl (\<lambda>fns fo. AList.update (function_name fo) (functionOverrideToConfig fo (pv_Runtime (prj_Provider cfg))) fns)
       (prj_Functions cfg) (prj_FunctionsConfig cfg),
     prj_Addons := map (\<lambda>(key, a). (key, if add_Name a = '''' then a\<lparr>add_Name := key\<rparr> else a)) (prj_Addons cfg),
     prj_Deploy := map_option normalize_deploy (prj_Deploy cfg)\<rparr>"

text \<open>\<^verbatim>\<open>ApplyProviderOverride\<close>; the error carries the key.\<close>

datatype override_error = NoProviderOverrides string | UnknownProviderOverride string "string list"

definition ApplyProviderOverride :: "string \<Rightarrow> project \<Rightarrow> override_error + project" where
  "ApplyProviderOverride key cfg =
     (if key = '''' then Inr cfg
      else if prj_ProviderOverrides cfg = [] then Inl (NoProviderOverrides key)
      else case map_of (prj_ProviderOverrides cfg) key of
        None \<Rightarrow> Inl (UnknownProviderOverride key (map fst (prj_ProviderOverrides cfg)))
      | Some override \<Rightarrow>
          if TrimSpace (pv_Name override) = '''' then Inl (UnknownProviderOverride key (map fst (prj_ProviderOverrides cfg)))
          else Inr (cfg\<lparr>prj_Provider := override,
            prj_Backend := (case pv_Backend override of None \<Rightarrow> prj_Backend cfg | Some b \<Rightarrow> Some b)\<rparr>))"

section \<open>Placeholders\<close>

datatype config_error = BadSecrets secret_map_error | SecretUnresolved secret_error | EnvNotSet string
  | UnknownFunction string

text \<open>\<^verbatim>\<open>strings.ReplaceAll\<close> for a pattern that is not empty.\<close>

function ReplaceAll :: "string \<Rightarrow> string \<Rightarrow> string \<Rightarrow> string" where
  "ReplaceAll s old new =
     (if old = [] then s
      else if HasPrefix s old then new @ ReplaceAll (drop (length old) s) old new
      else case s of [] \<Rightarrow> [] | c # cs \<Rightarrow> c # ReplaceAll cs old new)"
  by pat_completeness auto
termination
  by (relation "measure (\<lambda>(s, old, new). length s)") (auto simp: HasPrefix_iff)

declare ReplaceAll.simps [simp del]

definition is_ident_start :: "char \<Rightarrow> bool" where
  "is_ident_start c \<longleftrightarrow> (let n = (of_char c :: nat) in (65 \<le> n \<and> n \<le> 90) \<or> (97 \<le> n \<and> n \<le> 122)) \<or> c = CHR ''_''"

definition is_ident_char :: "char \<Rightarrow> bool" where
  "is_ident_char c \<longleftrightarrow> is_ident_start c \<or> is_digit c"

text \<open>
  \<^verbatim>\<open>\$\{env:([A-Za-z_][A-Za-z0-9_]*)(?:,([^}]+))?\}\<close> at the start of a string: the name, the default and the
  rest. The characters that end the two runs are not in them, so each run is the greedy one.
\<close>

definition match_env :: "string \<Rightarrow> (string \<times> string \<times> string) option" where
  "match_env s =
     (if HasPrefix s ''${env:'' then
        (let t = drop 6 s; key = takeWhile is_ident_char t; rest = dropWhile is_ident_char t in
         if key = [] \<or> \<not> is_ident_start (hd key) then None
         else case rest of [] \<Rightarrow> None
         | c # cs \<Rightarrow>
             if c = CHR ''}'' then Some (key, '''', cs)
             else if c = CHR '','' then
               (let def = takeWhile (\<lambda>x. x \<noteq> CHR ''}'') cs; rest = dropWhile (\<lambda>x. x \<noteq> CHR ''}'') cs in
                if def = [] \<or> rest = [] then None else Some (key, def, tl rest))
             else None)
      else None)"

lemma match_env_shorter:
  assumes "match_env s = Some (k, d, r)" shows "length r < length s"
proof -
  obtain c cs where c: "dropWhile is_ident_char (drop 6 s) = c # cs"
    and r: "r = cs \<or> r = tl (dropWhile (\<lambda>x. x \<noteq> CHR ''}'') cs)"
    using assms by (auto simp: match_env_def Let_def split: if_splits list.splits)
  have "length r \<le> length cs" using r length_dropWhile_le [of "\<lambda>x. x \<noteq> CHR ''}''" cs] by auto
  also have "\<dots> < length (drop 6 s)" using c by (metis length_Cons length_dropWhile_le Suc_le_lessD)
  finally show ?thesis by simp
qed

text \<open>\<^verbatim>\<open>ReplaceAllStringFunc\<close> with the first name that is not set and has no default, if there is one.\<close>

function replace_env :: "(string \<Rightarrow> string option) \<Rightarrow> string \<Rightarrow> string option \<times> string" where
  "replace_env env s = (case match_env s of
     Some (k, d, rest) \<Rightarrow> (let (e, out) = replace_env env rest; def = TrimSpace d in
       case env k of Some v \<Rightarrow> (e, v @ out)
       | None \<Rightarrow> (if def = '''' then Some k else e, def @ out))
   | None \<Rightarrow> (case s of [] \<Rightarrow> (None, []) | c # cs \<Rightarrow> (let (e, out) = replace_env env cs in (e, c # out))))"
  by pat_completeness auto
termination
  by (relation "measure (\<lambda>(env, s). length s)") (auto dest: match_env_shorter)

declare replace_env.simps [simp del]

record resolve_env =
  re_globals :: secret_globals
  re_lookup :: "string \<Rightarrow> string option"

definition resolveEnvAndSecretsStrict :: "resolve_env \<Rightarrow> string \<Rightarrow> strmap \<Rightarrow> config_error + string" where
  "resolveEnvAndSecretsStrict E input configSecrets =
     (case ResolveString (re_globals E) input configSecrets (re_lookup E) of
        Inl e \<Rightarrow> Inl (SecretUnresolved e)
      | Inr s \<Rightarrow> (case replace_env (re_lookup E) s of (Some k, out) \<Rightarrow> Inl (EnvNotSet k) | (None, out) \<Rightarrow> Inr out))"

definition resolveEnvStrict :: "resolve_env \<Rightarrow> string \<Rightarrow> config_error + string" where
  "resolveEnvStrict E input = resolveEnvAndSecretsStrict E input []"

section \<open>Stages\<close>

function globMatch :: "string \<Rightarrow> string \<Rightarrow> bool" where
  "globMatch [] s = (s = [])"
| "globMatch (c # p) s =
     (if c = CHR ''*'' then
        (let p' = dropWhile (\<lambda>x. x = CHR ''*'') p in
         p' = [] \<or> list_ex (\<lambda>i. globMatch p' (drop i s)) [0..<Suc (length s)])
      else case s of [] \<Rightarrow> False
        | d # s' \<Rightarrow> if c = CHR ''?'' \<or> c = d then globMatch p s' else False)"
  by pat_completeness auto
termination
  by (relation "measure (\<lambda>(p, s). length p)") (auto simp: less_Suc_eq_le length_dropWhile_le)

declare globMatch.simps [simp del]

definition stageGlobMatch :: "string \<Rightarrow> string \<Rightarrow> bool" where
  "stageGlobMatch pattern stage = globMatch pattern stage"

definition stageGlobHasWildcard :: "string \<Rightarrow> bool" where
  "stageGlobHasWildcard s \<longleftrightarrow> CHR ''*'' \<in> set s \<or> CHR ''?'' \<in> set s"

text \<open>The number of literal characters; stage keys are ASCII, where a rune is a byte.\<close>

definition stageGlobSpecificity :: "string \<Rightarrow> nat" where
  "stageGlobSpecificity pattern = length (filter (\<lambda>c. c \<noteq> CHR ''*'' \<and> c \<noteq> CHR ''?'') pattern)"

definition stageResolutionOrder :: "string \<Rightarrow> (string \<times> 'a) list \<Rightarrow> string list" where
  "stageResolutionOrder stage stages =
     (if ''*'' \<in> fst ` set stages then [''*''] else []) @
     sort_slice (\<lambda>i j. stageGlobSpecificity i < stageGlobSpecificity j)
       (filter (\<lambda>key. key \<noteq> ''*'' \<and> key \<noteq> stage \<and> stageGlobHasWildcard key \<and> stageGlobMatch key stage) (map fst stages)) @
     (if stage \<in> fst ` set stages then [stage] else [])"

section \<open>Resolution\<close>

definition andThen :: "'e + 'a \<Rightarrow> ('a \<Rightarrow> 'e + 'b) \<Rightarrow> 'e + 'b" where
  "andThen m f = (case m of Inl e \<Rightarrow> Inl e | Inr a \<Rightarrow> f a)"

fun each :: "('a \<Rightarrow> 'e + 'b) \<Rightarrow> 'a list \<Rightarrow> 'e + 'b list" where
  "each f [] = Inr []"
| "each f (x # xs) = andThen (f x) (\<lambda>y. andThen (each f xs) (\<lambda>ys. Inr (y # ys)))"

text \<open>\<open>chain\<close> runs updates in turn; \<open>field rv get set\<close> resolves one field, \<open>field_if\<close> only if it is not empty.\<close>

fun chain :: "('a \<Rightarrow> 'e + 'a) list \<Rightarrow> 'a \<Rightarrow> 'e + 'a" where
  "chain [] x = Inr x"
| "chain (f # fs) x = andThen (f x) (chain fs)"

definition field :: "('s \<Rightarrow> 'e + 't) \<Rightarrow> ('r \<Rightarrow> 's) \<Rightarrow> (('s \<Rightarrow> 't) \<Rightarrow> 'r \<Rightarrow> 'r) \<Rightarrow> 'r \<Rightarrow> 'e + 'r" where
  "field rv get upd r = andThen (rv (get r)) (\<lambda>v. Inr (upd (\<lambda>_. v) r))"

definition if_set :: "(string \<Rightarrow> 'e + string) \<Rightarrow> string \<Rightarrow> 'e + string" where
  "if_set rv s = (if s = '''' then Inr s else rv s)"

definition on_values :: "(string \<Rightarrow> 'e + string) \<Rightarrow> strmap \<Rightarrow> 'e + strmap" where
  "on_values rv m = each (\<lambda>(k, v). andThen (rv v) (\<lambda>x. Inr (k, x))) m"

definition on_option :: "('a \<Rightarrow> 'e + 'a) \<Rightarrow> 'a option \<Rightarrow> 'e + 'a option" where
  "on_option f opt = (case opt of None \<Rightarrow> Inr None | Some x \<Rightarrow> andThen (f x) (\<lambda>y. Inr (Some y)))"

definition resolve_backend :: "(string \<Rightarrow> 'e + string) \<Rightarrow> backend_config \<Rightarrow> 'e + backend_config" where
  "resolve_backend rv = chain
     [field rv bk_Kind bk_Kind_update, field rv bk_S3Bucket bk_S3Bucket_update, field rv bk_S3Prefix bk_S3Prefix_update,
      field rv bk_GCSBucket bk_GCSBucket_update, field rv bk_GCSPrefix bk_GCSPrefix_update,
      field rv bk_AzblobContainer bk_AzblobContainer_update, field rv bk_AzblobPrefix bk_AzblobPrefix_update,
      field rv bk_LockTable bk_LockTable_update]"

definition resolve_layer :: "(string \<Rightarrow> 'e + string) \<Rightarrow> layer_config \<Rightarrow> 'e + layer_config" where
  "resolve_layer rv = chain
     [field rv lay_Ref lay_Ref_update, field (if_set rv) lay_Name lay_Name_update, field (if_set rv) lay_Version lay_Version_update]"

definition resolve_alerts :: "(string \<Rightarrow> 'e + string) \<Rightarrow> alerts_config \<Rightarrow> 'e + alerts_config" where
  "resolve_alerts rv = chain [field (if_set rv) alr_Webhook alr_Webhook_update, field (if_set rv) alr_Slack alr_Slack_update]"

text \<open>\<^verbatim>\<open>copyEventConfig\<close> as written: of an HTTP event, the path, the method and the authorizer.\<close>

definition copyEventConfig :: "event_config \<Rightarrow> event_config" where
  "copyEventConfig e = \<lparr>
     evt_HTTP = map_option (\<lambda>h. \<lparr>he_Path = he_Path h, he_Method = he_Method h, he_CORS = None,
       he_Authorizer = he_Authorizer h, he_RouteSettings = None\<rparr>) (evt_HTTP e),
     evt_Cron = evt_Cron e, evt_Queue = evt_Queue e, evt_Storage = evt_Storage e, evt_EventBridge = evt_EventBridge e,
     evt_PubSub = evt_PubSub e, evt_Kafka = evt_Kafka e, evt_RabbitMQ = evt_RabbitMQ e\<rparr>"

definition resolve_authorizer :: "(string \<Rightarrow> 'e + string) \<Rightarrow> authorizer_config \<Rightarrow> 'e + authorizer_config" where
  "resolve_authorizer rv = chain
     [field rv au_Type au_Type_update, field rv au_Name au_Name_update, field rv au_Issuer au_Issuer_update,
      field rv au_Function au_Function_update, field (each rv) au_IdentitySources au_IdentitySources_update,
      field (each rv) au_Audience au_Audience_update]"

definition resolve_http :: "(string \<Rightarrow> 'e + string) \<Rightarrow> http_event \<Rightarrow> 'e + http_event" where
  "resolve_http rv = chain
     [field rv he_Path he_Path_update, field rv he_Method he_Method_update,
      field (on_option (resolve_authorizer rv)) he_Authorizer he_Authorizer_update]"

definition resolve_event :: "(string \<Rightarrow> 'e + string) \<Rightarrow> event_config \<Rightarrow> 'e + event_config" where
  "resolve_event rv e = field (on_option (resolve_http rv)) evt_HTTP evt_HTTP_update e"

text \<open>A layer of a function is the name of a declared layer, or a reference.\<close>

definition layer_ref :: "(string \<times> layer_config) list \<Rightarrow> string \<Rightarrow> string" where
  "layer_ref layers name = (case map_of layers name of None \<Rightarrow> name | Some l \<Rightarrow> lay_Ref l)"

definition resolve_function ::
  "(string \<Rightarrow> 'e + string) \<Rightarrow> (string \<times> layer_config) list \<Rightarrow> function_config \<Rightarrow> 'e + function_config" where
  "resolve_function rv layers fn = chain
     [field rv fnc_Handler fnc_Handler_update, field rv fnc_Runtime fnc_Runtime_update,
      field rv fnc_Architecture fnc_Architecture_update, field (on_values rv) fnc_Environment fnc_Environment_update,
      field (on_values rv) fnc_Secrets fnc_Secrets_update, field (on_values rv) fnc_Tags fnc_Tags_update,
      field (each (\<lambda>l. rv (layer_ref layers l))) fnc_Layers fnc_Layers_update,
      field (each (resolve_event rv)) fnc_Events fnc_Events_update]
     (fn\<lparr>fnc_Events := map copyEventConfig (fnc_Events fn)\<rparr>)"

section \<open>Stage overrides\<close>

text \<open>A field of the override that is not empty replaces the field.\<close>

definition override :: "(string \<Rightarrow> 'e + string) \<Rightarrow> 's \<Rightarrow> ('s \<Rightarrow> string) \<Rightarrow> ((string \<Rightarrow> string) \<Rightarrow> 's \<Rightarrow> 's) \<Rightarrow> 's \<Rightarrow> 'e + 's" where
  "override rv ov get upd r = (if get ov = '''' then Inr r else andThen (rv (get ov)) (\<lambda>v. Inr (upd (\<lambda>_. v) r)))"

definition override_provider :: "(string \<Rightarrow> 'e + string) \<Rightarrow> provider_config \<Rightarrow> provider_config \<Rightarrow> 'e + provider_config" where
  "override_provider rv ov = chain
     [override rv ov pv_Name pv_Name_update, override rv ov pv_Runtime pv_Runtime_update, override rv ov pv_Region pv_Region_update,
      override rv ov pv_ServiceType pv_ServiceType_update, override rv ov pv_Image pv_Image_update,
      override rv ov pv_Namespace pv_Namespace_update]"

definition override_backend :: "(string \<Rightarrow> 'e + string) \<Rightarrow> backend_config \<Rightarrow> backend_config \<Rightarrow> 'e + backend_config" where
  "override_backend rv ov = chain
     [override rv ov bk_Kind bk_Kind_update, override rv ov bk_S3Bucket bk_S3Bucket_update, override rv ov bk_S3Prefix bk_S3Prefix_update,
      override rv ov bk_GCSBucket bk_GCSBucket_update, override rv ov bk_GCSPrefix bk_GCSPrefix_update,
      override rv ov bk_AzblobContainer bk_AzblobContainer_update, override rv ov bk_AzblobPrefix bk_AzblobPrefix_update,
      override rv ov bk_LockTable bk_LockTable_update]"

text \<open>The loop body over the functions of a stage: only the environment, the handler and the runtime are resolved.\<close>

definition if_then :: "bool \<Rightarrow> ('r \<Rightarrow> 'r) \<Rightarrow> 'r \<Rightarrow> 'r" where
  "if_then b g r = (if b then g r else r)"

definition override_plain :: "function_config \<Rightarrow> strmap \<Rightarrow> function_config \<Rightarrow> function_config" where
  "override_plain ov env = fold (\<lambda>(b, g). if_then b g)
     [(fnc_Events ov \<noteq> [], fnc_Events_update (\<lambda>_. fnc_Events ov)),
      (fnc_Environment ov \<noteq> [], fnc_Environment_update (\<lambda>m. mergeStringMaps m env)),
      (fnc_Secrets ov \<noteq> [], fnc_Secrets_update (\<lambda>m. mergeStringMaps m (fnc_Secrets ov))),
      (fnc_Tags ov \<noteq> [], fnc_Tags_update (\<lambda>m. mergeStringMaps m (fnc_Tags ov))),
      (0 < fnc_Memory ov, fnc_Memory_update (\<lambda>_. fnc_Memory ov)),
      (0 < fnc_Timeout ov, fnc_Timeout_update (\<lambda>_. fnc_Timeout ov)),
      (fnc_Architecture ov \<noteq> '''', fnc_Architecture_update (\<lambda>_. fnc_Architecture ov)),
      (fnc_Layers ov \<noteq> [], fnc_Layers_update (\<lambda>_. fnc_Layers ov)),
      (fnc_Resources ov \<noteq> [], fnc_Resources_update (\<lambda>_. fnc_Resources ov)),
      (fnc_Addons ov \<noteq> [], fnc_Addons_update (\<lambda>_. fnc_Addons ov)),
      (0 < fnc_ReservedConcurrency ov, fnc_ReservedConcurrency_update (\<lambda>_. fnc_ReservedConcurrency ov)),
      (0 < fnc_ProvisionedConcurrency ov, fnc_ProvisionedConcurrency_update (\<lambda>_. fnc_ProvisionedConcurrency ov))]"

definition override_function :: "(string \<Rightarrow> 'e + string) \<Rightarrow> function_config \<Rightarrow> function_config \<Rightarrow> 'e + function_config" where
  "override_function rv ov base =
     andThen (chain [override rv ov fnc_Handler fnc_Handler_update, override rv ov fnc_Runtime fnc_Runtime_update] base) (\<lambda>b1.
     andThen (on_values rv (fnc_Environment ov)) (\<lambda>env. Inr (override_plain ov env b1)))"

fun override_functions ::
  "(string \<Rightarrow> config_error + string) \<Rightarrow> (string \<times> function_config) list \<Rightarrow> (string \<times> function_config) list \<Rightarrow>
   config_error + (string \<times> function_config) list" where
  "override_functions rv [] fns = Inr fns"
| "override_functions rv ((name, ov) # rest) fns = (case map_of fns name of
     None \<Rightarrow> Inl (UnknownFunction name)
   | Some base \<Rightarrow> andThen (override_function rv ov base) (\<lambda>f. override_functions rv rest (AList.update name f fns)))"

definition applyStageOverride :: "(string \<Rightarrow> config_error + string) \<Rightarrow> stage_config \<Rightarrow> project \<Rightarrow> config_error + project" where
  "applyStageOverride rv sc out =
     andThen (case stg_Provider sc of None \<Rightarrow> Inr out
       | Some ov \<Rightarrow> andThen (override_provider rv ov (prj_Provider out)) (\<lambda>p. Inr (out\<lparr>prj_Provider := p\<rparr>))) (\<lambda>out.
     andThen (case stg_Backend sc of None \<Rightarrow> Inr out
       | Some ov \<Rightarrow> andThen (override_backend rv ov (case prj_Backend out of None \<Rightarrow> no_backend | Some b \<Rightarrow> b))
           (\<lambda>b. Inr (out\<lparr>prj_Backend := Some b\<rparr>))) (\<lambda>out.
     andThen (override_functions rv (stg_Functions sc) (prj_Functions out)) (\<lambda>fns. Inr (out\<lparr>prj_Functions := fns\<rparr>))))"

section \<open>\<^verbatim>\<open>Resolve\<close>\<close>

definition resolveValue :: "resolve_env \<Rightarrow> string \<Rightarrow> strmap \<Rightarrow> string \<Rightarrow> config_error + string" where
  "resolveValue E stage secrets v = resolveEnvAndSecretsStrict E (ReplaceAll v ''${stage}'' stage) secrets"

text \<open>Everything up to the stages, given the resolver.\<close>

definition resolve_fields :: "(string \<Rightarrow> config_error + string) \<Rightarrow> (project \<Rightarrow> config_error + project) list" where
  "resolve_fields rv =
     [field rv prj_Service prj_Service_update, field (if_set rv) prj_App prj_App_update, field (if_set rv) prj_Org prj_Org_update,
      field (chain [field rv pv_Name pv_Name_update, field rv pv_Runtime pv_Runtime_update, field rv pv_Region pv_Region_update])
        prj_Provider prj_Provider_update,
      field (on_option (resolve_backend rv)) prj_Backend prj_Backend_update,
      field (each (\<lambda>(k, l). andThen (resolve_layer rv l) (\<lambda>x. Inr (k, x)))) prj_Layers prj_Layers_update,
      field (on_option (each rv)) prj_Build prj_Build_update,
      field (on_option (resolve_alerts rv)) prj_Alerts prj_Alerts_update]"

definition resolve_functions :: "(string \<Rightarrow> config_error + string) \<Rightarrow> project \<Rightarrow> config_error + project" where
  "resolve_functions rv cfg = field (each (\<lambda>(name, fn). andThen (resolve_function rv (prj_Layers cfg) fn) (\<lambda>x. Inr (name, x))))
     prj_Functions prj_Functions_update cfg"

definition resolve_base :: "(string \<Rightarrow> config_error + string) \<Rightarrow> project \<Rightarrow> config_error + project" where
  "resolve_base rv = chain (resolve_fields rv @ [resolve_functions rv])"

definition stage_layers :: "string \<Rightarrow> (string \<times> stage_config) list \<Rightarrow> stage_config list" where
  "stage_layers stage stages = (if stage = '''' then []
     else map (\<lambda>key. the (map_of stages key)) (stageResolutionOrder stage stages))"

definition inherit_defaults :: "project \<Rightarrow> function_config \<Rightarrow> function_config" where
  "inherit_defaults cfg fn =
     (let f1 = (if fnc_Runtime fn = '''' then fn\<lparr>fnc_Runtime := pv_Runtime (prj_Provider cfg)\<rparr> else fn) in
      case prj_Deploy cfg of None \<Rightarrow> f1 | Some d \<Rightarrow> (case dpl_Scaling d of None \<Rightarrow> f1 | Some sc \<Rightarrow>
        let f2 = (if fnc_ReservedConcurrency f1 = 0 \<and> 0 < scl_ReservedConcurrency sc
            then f1\<lparr>fnc_ReservedConcurrency := scl_ReservedConcurrency sc\<rparr> else f1)
        in if fnc_ProvisionedConcurrency f2 = 0 \<and> 0 < scl_ProvisionedConcurrency sc
            then f2\<lparr>fnc_ProvisionedConcurrency := scl_ProvisionedConcurrency sc\<rparr> else f2))"

definition Resolve :: "resolve_env \<Rightarrow> string \<Rightarrow> project \<Rightarrow> config_error + project" where
  "Resolve E stage cfg = (case ValidateForStage (re_globals E) (prj_Secrets cfg) stage of
     Some e \<Rightarrow> Inl (BadSecrets e)
   | None \<Rightarrow>
       andThen (on_values (\<lambda>v. resolveEnvAndSecretsStrict E v (prj_Secrets cfg)) (prj_Secrets cfg)) (\<lambda>secrets.
       let rv = resolveValue E stage secrets in
       andThen (resolve_base rv (cfg\<lparr>prj_Secrets := secrets\<rparr>)) (\<lambda>out.
       andThen (chain (map (applyStageOverride rv) (stage_layers stage (prj_Stages out))) out) (\<lambda>out.
       Inr (out\<lparr>prj_Functions := map (\<lambda>(name, fn). (name, inherit_defaults out fn)) (prj_Functions out)\<rparr>)))))"

definition EnsureStage :: "string \<Rightarrow> bool" where
  "EnsureStage stage \<longleftrightarrow> TrimSpace stage \<noteq> ''''"

section \<open>Bindings of resources and addons\<close>

text \<open>The fold over the secrets of one addon; \<open>boundBy\<close> is kept beside each value.\<close>

datatype addon_error = AddonUnresolved string string config_error | AddonAmbiguous string string string

fun bind_addon ::
  "resolve_env \<Rightarrow> strmap \<Rightarrow> string \<Rightarrow> strmap \<Rightarrow> (string \<times> string \<times> string) list \<Rightarrow> addon_error + (string \<times> string \<times> string) list" where
  "bind_addon E secrets key [] out = Inr out"
| "bind_addon E secrets key ((envVar, ref0) # rest) out =
     (if ref0 = '''' then bind_addon E secrets key rest out
      else let ref = (case map_of secrets ref0 of Some v \<Rightarrow> if v \<noteq> '''' then v else ref0 | None \<Rightarrow> ref0) in
        case resolveEnvStrict E ref of Inl e \<Rightarrow> Inl (AddonUnresolved key envVar e)
        | Inr value \<Rightarrow> (case map_of out envVar of
            Some (prev, by) \<Rightarrow> if prev \<noteq> value then Inl (AddonAmbiguous envVar by key)
              else bind_addon E secrets key rest (AList.update envVar (value, key) out)
          | None \<Rightarrow> bind_addon E secrets key rest (AList.update envVar (value, key) out)))"

fun bind_addons ::
  "resolve_env \<Rightarrow> project \<Rightarrow> string list \<Rightarrow> string list \<Rightarrow> (string \<times> string \<times> string) list \<Rightarrow> addon_error + (string \<times> string \<times> string) list" where
  "bind_addons E cfg only [] out = Inr out"
| "bind_addons E cfg only (key # keys) out =
     (if only \<noteq> [] \<and> key \<notin> set only then bind_addons E cfg only keys out
      else andThen (bind_addon E (prj_Secrets cfg) key (case map_of (prj_Addons cfg) key of None \<Rightarrow> [] | Some a \<Rightarrow> add_Secrets a) out)
        (bind_addons E cfg only keys))"

definition ResolveAddonBindingsForKeys :: "resolve_env \<Rightarrow> project \<Rightarrow> string list \<Rightarrow> addon_error + strmap" where
  "ResolveAddonBindingsForKeys E cfg addonKeys =
     andThen (bind_addons E cfg addonKeys (sort_slice str_less (map fst (prj_Addons cfg))) [])
       (\<lambda>out. Inr (map (\<lambda>(k, v, by). (k, v)) out))"

definition any_bool :: "any \<Rightarrow> bool" where
  "any_bool v = (case v of ABool b \<Rightarrow> b | _ \<Rightarrow> False)"

definition any_string :: "any \<Rightarrow> string" where
  "any_string v = (case v of AStr s \<Rightarrow> s | _ \<Rightarrow> '''')"

text \<open>\<open>provision\<close> is the optional callback; its error is dropped.\<close>

definition resource_value ::
  "resolve_env \<Rightarrow> (string \<Rightarrow> string \<Rightarrow> anymap \<Rightarrow> string option) option \<Rightarrow> string \<Rightarrow> string \<Rightarrow> anymap \<Rightarrow> config_error + string" where
  "resource_value E provision provider name m =
     (let provisioned = (case provision of None \<Rightarrow> '''' | Some f \<Rightarrow>
            if any_bool (aget m ''provision'') \<and> provider \<noteq> '''' then (case f provider name m of None \<Rightarrow> '''' | Some cs \<Rightarrow> cs) else '''')
      in if provisioned \<noteq> '''' then Inr provisioned
      else if any_string (aget m ''connectionStringEnv'') \<noteq> '''' then
        Inr (case re_lookup E (any_string (aget m ''connectionStringEnv'')) of None \<Rightarrow> '''' | Some v \<Rightarrow> v)
      else if any_string (aget m ''connectionString'') \<noteq> '''' then resolveEnvStrict E (any_string (aget m ''connectionString''))
      else Inr '''')"

fun bind_resources ::
  "resolve_env \<Rightarrow> (string \<Rightarrow> string \<Rightarrow> anymap \<Rightarrow> string option) option \<Rightarrow> string \<Rightarrow> (string \<times> any) list \<Rightarrow> strmap \<Rightarrow>
   (string \<times> config_error) + strmap" where
  "bind_resources E provision provider [] out = Inr out"
| "bind_resources E provision provider ((name, raw) # rest) out = (case asMap raw of
     None \<Rightarrow> bind_resources E provision provider rest out
   | Some m \<Rightarrow> (let envVar = any_string (aget m ''envVar'') in
       if envVar = '''' then bind_resources E provision provider rest out
       else case resource_value E provision provider name m of Inl e \<Rightarrow> Inl (name, e)
         | Inr value \<Rightarrow> bind_resources E provision provider rest (if value = '''' then out else AList.update envVar value out)))"

definition ResolveResourceBindings ::
  "resolve_env \<Rightarrow> project \<Rightarrow> (string \<Rightarrow> string \<Rightarrow> anymap \<Rightarrow> string option) option \<Rightarrow> (string \<times> config_error) + strmap" where
  "ResolveResourceBindings E cfg provision = bind_resources E provision (pv_Name (prj_Provider cfg)) (prj_Resources cfg) []"

end
