(* ===== verification/Config_Validate.thy ===== *)
theory Config_Validate
  imports Config_Resolve
begin

text \<open>
  The checks of \<^verbatim>\<open>platform/core/model/config/validate.go\<close> and \<^verbatim>\<open>ValidateAddons\<close>. \<^verbatim>\<open>Validate\<close> also fills in
  defaults of two backends, so an accepted configuration is returned.
\<close>

datatype validate_error = ServiceRequired | ProviderNameRequired | ProviderRuntimeRequired | VersionNeedsExternal
  | BadProviderSource string | NoFunctions | BadSecretMap secret_map_error | BackendField string string
  | UnsupportedBackend string | BadFunctionName string | BadArchitecture string | EmptyEnvironmentKey string
  | EmptySecretsKey string | EventField string string | BadAuthorizer string string | AddonError string
  | BadStrategy string | BadCanaryPercent int | WorkflowNameRequired nat | StepError nat nat string | LayerRefRequired string

definition is_alnum :: "char \<Rightarrow> bool" where
  "is_alnum c \<longleftrightarrow> (let n = (of_char c :: nat) in (65 \<le> n \<and> n \<le> 90) \<or> (97 \<le> n \<and> n \<le> 122)) \<or> is_digit c"

text \<open>\<^verbatim>\<open>^[A-Za-z0-9][A-Za-z0-9._-]*$\<close>\<close>

definition functionNamePattern :: "string \<Rightarrow> bool" where
  "functionNamePattern s = (case s of [] \<Rightarrow> False
     | c # cs \<Rightarrow> is_alnum c \<and> list_all (\<lambda>x. is_alnum x \<or> x = CHR ''.'' \<or> x = CHR ''_'' \<or> x = CHR ''-'') cs)"

text \<open>\<open>require b e\<close> is \<^verbatim>\<open>if !b { return e }\<close>.\<close>

definition require :: "bool \<Rightarrow> 'e \<Rightarrow> 'e option" where
  "require b e = (if b then None else Some e)"

definition validate_source :: "provider_config \<Rightarrow> validate_error option" where
  "validate_source p = (let source = ToLower (TrimSpace (pv_Source p)) in
     if source \<in> {'''', ''builtin'', ''external''} then
       require (source = ''external'' \<or> TrimSpace (pv_Version p) = '''') VersionNeedsExternal
     else Some (BadProviderSource (pv_Source p)))"

definition validateGCSBackend :: "backend_config \<Rightarrow> validate_error option" where
  "validateGCSBackend b = (if TrimSpace (bk_GCSBucket b) = '''' then Some (BackendField (bk_Kind b) ''gcsBucket'')
     else require (TrimSpace (bk_GCSPrefix b) \<noteq> '''') (BackendField (bk_Kind b) ''gcsPrefix''))"

definition validateAzblobBackend :: "backend_config \<Rightarrow> validate_error option" where
  "validateAzblobBackend b = (if TrimSpace (bk_AzblobContainer b) = '''' then Some (BackendField (bk_Kind b) ''azblobContainer'')
     else require (TrimSpace (bk_AzblobPrefix b) \<noteq> '''') (BackendField (bk_Kind b) ''azblobPrefix''))"

text \<open>A field that is blank gets its default.\<close>

definition default_to :: "string \<Rightarrow> ('r \<Rightarrow> string) \<Rightarrow> ((string \<Rightarrow> string) \<Rightarrow> 'r \<Rightarrow> 'r) \<Rightarrow> 'r \<Rightarrow> 'r" where
  "default_to d get upd b = (if TrimSpace (get b) = '''' then upd (\<lambda>_. d) b else b)"

definition validate_backend :: "backend_config \<Rightarrow> validate_error + backend_config" where
  "validate_backend b =
     (if bk_Kind b \<in> {'''', ''local''} then Inr b
      else if bk_Kind b = ''s3'' then
        (if TrimSpace (bk_S3Bucket b) = '''' then Inl (BackendField (bk_Kind b) ''s3Bucket'') else Inr b)
      else if bk_Kind b = ''gcs'' then (case validateGCSBackend b of Some e \<Rightarrow> Inl e | None \<Rightarrow> Inr b)
      else if bk_Kind b = ''azblob'' then (case validateAzblobBackend b of Some e \<Rightarrow> Inl e | None \<Rightarrow> Inr b)
      else if bk_Kind b = ''postgres'' then
        Inr (default_to ''runfabric_receipts'' bk_PostgresTable bk_PostgresTable_update
          (default_to ''RUNFABRIC_STATE_POSTGRES_URL'' bk_PostgresConnectionStringEnv bk_PostgresConnectionStringEnv_update b))
      else if bk_Kind b = ''sqlite'' then
        Inr (default_to ''.runfabric/state.db'' bk_SqlitePath bk_SqlitePath_update b)
      else if bk_Kind b = ''dynamodb'' then
        (if TrimSpace (bk_LockTable b) = '''' \<and> TrimSpace (bk_ReceiptTable b) = ''''
         then Inl (BackendField (bk_Kind b) ''lockTable'') else Inr b)
      else Inl (UnsupportedBackend (bk_Kind b)))"

definition validate_authorizer :: "string \<Rightarrow> authorizer_config \<Rightarrow> validate_error option" where
  "validate_authorizer name a =
     (if au_Type a \<notin> {''jwt'', ''lambda'', ''iam''} then Some (BadAuthorizer name ''type'')
      else if au_Type a = ''jwt'' \<and> TrimSpace (au_Issuer a) = '''' then Some (BadAuthorizer name ''issuer'')
      else if au_Type a = ''jwt'' \<and> au_Audience a = [] then Some (BadAuthorizer name ''audience'')
      else require (au_Type a \<noteq> ''lambda'' \<or> TrimSpace (au_Function a) \<noteq> '''') (BadAuthorizer name ''function''))"

definition missing_name :: "('a \<Rightarrow> string) \<Rightarrow> 'a option \<Rightarrow> bool" where
  "missing_name f x = (case x of None \<Rightarrow> False | Some y \<Rightarrow> TrimSpace (f y) = '''')"

definition validate_event :: "string \<Rightarrow> event_config \<Rightarrow> validate_error option" where
  "validate_event name ev =
     (if missing_name qe_Queue (evt_Queue ev) then Some (EventField name ''queue'')
      else if missing_name ste_Bucket (evt_Storage ev) then Some (EventField name ''bucket'')
      else if missing_name ps_Topic (evt_PubSub ev) then Some (EventField name ''topic'')
      else case evt_HTTP ev of None \<Rightarrow> None
      | Some h \<Rightarrow> (case he_Authorizer h of None \<Rightarrow> None | Some a \<Rightarrow> validate_authorizer name a))"

definition empty_key :: "strmap \<Rightarrow> bool" where
  "empty_key m \<longleftrightarrow> list_ex (\<lambda>(k, v). TrimSpace k = '''') m"

definition validate_function :: "string \<times> function_config \<Rightarrow> validate_error option" where
  "validate_function nf = (case nf of (name, fn) \<Rightarrow>
     if \<not> functionNamePattern name then Some (BadFunctionName name)
     else if fnc_Architecture fn \<notin> {'''', ''x86_64'', ''arm64''} then Some (BadArchitecture name)
     else if empty_key (fnc_Environment fn) then Some (EmptyEnvironmentKey name)
     else if empty_key (fnc_Secrets fn) then Some (EmptySecretsKey name)
     else first_error (validate_event name) (fnc_Events fn))"

definition ValidateAddons :: "project \<Rightarrow> validate_error option" where
  "ValidateAddons cfg = first_error (\<lambda>(key, a). let name = (if add_Name a = '''' then key else add_Name a) in
     if name \<noteq> key \<and> TrimSpace name = '''' then Some (AddonError key)
     else require (\<not> empty_key (add_Secrets a)) (AddonError key)) (prj_Addons cfg)"

definition validate_deploy :: "deploy_config \<Rightarrow> validate_error option" where
  "validate_deploy d = (let s = TrimSpace (ToLower (dpl_Strategy d)) in
     if s \<notin> {'''', ''all-at-once'', ''canary'', ''blue-green'', ''per-function''} then Some (BadStrategy (dpl_Strategy d))
     else require (s \<noteq> ''canary'' \<or> (0 \<le> dpl_CanaryPercent d \<and> dpl_CanaryPercent d \<le> 100)) (BadCanaryPercent (dpl_CanaryPercent d)))"

definition configFunctionNames :: "project \<Rightarrow> string list" where
  "configFunctionNames cfg = map fst (prj_Functions cfg) @
     filter (\<lambda>n. n \<noteq> '''') (map (\<lambda>f. TrimSpace (fov_Name f)) (prj_FunctionsConfig cfg))"

definition readWorkflowStepString :: "anymap \<Rightarrow> string \<Rightarrow> string" where
  "readWorkflowStepString input key = TrimSpace (any_string (aget input key))"

text \<open>Whether a value is a number; its value is not used.\<close>

definition readWorkflowStepNumber :: "anymap \<Rightarrow> string \<Rightarrow> bool" where
  "readWorkflowStepNumber input key = (case aget input key of AInt n \<Rightarrow> True | AFloat x s \<Rightarrow> True | _ \<Rightarrow> False)"

definition has_key :: "anymap \<Rightarrow> string \<Rightarrow> bool" where
  "has_key m k = (case map_of m k of None \<Rightarrow> False | Some v \<Rightarrow> True)"

text \<open>The checks of the input of a step of a kind.\<close>

definition validate_input :: "string list \<Rightarrow> string \<Rightarrow> anymap \<Rightarrow> string option" where
  "validate_input names kind input =
     (if kind = ''code'' then
        (if \<not> has_key input ''function'' then None
         else case aget input ''function'' of
           AStr name \<Rightarrow> if TrimSpace name = '''' then Some ''function must be a non-empty string''
             else require (TrimSpace name \<in> set names) ''function does not match a defined function''
         | _ \<Rightarrow> Some ''function must be a non-empty string'')
      else if kind = ''ai-retrieval'' then require (readWorkflowStepString input ''query'' \<noteq> '''') ''requires query''
      else if kind = ''ai-generate'' then require (readWorkflowStepString input ''prompt'' \<noteq> '''') ''requires prompt''
      else if kind = ''ai-structured'' then
        require (case asMap (aget input ''schema'') of None \<Rightarrow> False | Some m \<Rightarrow> m \<noteq> []) ''requires schema object''
      else if kind = ''ai-eval'' then
        (if \<not> readWorkflowStepNumber input ''score'' then Some ''requires numeric score''
         else require (\<not> has_key input ''threshold'' \<or> readWorkflowStepNumber input ''threshold'') ''requires numeric threshold'')
      else if kind = ''human-approval'' then
        require (ToLower (readWorkflowStepString input ''approvalDecision'') \<in> {'''', ''approve'', ''approved'', ''reject'', ''rejected''})
          ''approvalDecision''
      else Some ''kind is unsupported'')"

definition validate_step :: "string list \<Rightarrow> workflow_step \<Rightarrow> string option" where
  "validate_step names step = (let kind = ToLower (TrimSpace (wst_Kind step)) in
     if TrimSpace (wst_ID step) = '''' then Some ''id is required''
     else if kind = '''' then Some ''kind is required''
     else validate_input names kind (wst_Input step))"

definition validateWorkflows :: "project \<Rightarrow> validate_error option" where
  "validateWorkflows cfg = first_error (\<lambda>(wi, wf).
     if TrimSpace (wfl_Name wf) = '''' then Some (WorkflowNameRequired wi)
     else first_error (\<lambda>(si, step). map_option (StepError wi si) (validate_step (configFunctionNames cfg) step))
       (enumerate 0 (wfl_Steps wf))) (enumerate 0 (prj_Workflows cfg))"

definition validateLayers :: "(string \<times> layer_config) list \<Rightarrow> validate_error option" where
  "validateLayers layers = first_error (\<lambda>(name, l). require (TrimSpace (lay_Ref l) \<noteq> '''') (LayerRefRequired name)) layers"

text \<open>The first check that fails.\<close>

fun checks :: "'e option list \<Rightarrow> 'e option" where
  "checks [] = None"
| "checks (c # cs) = (case c of Some e \<Rightarrow> Some e | None \<Rightarrow> checks cs)"

definition Validate :: "secret_globals \<Rightarrow> project \<Rightarrow> validate_error + project" where
  "Validate g cfg =
     (case checks
        [require (TrimSpace (prj_Service cfg) \<noteq> '''') ServiceRequired,
         require (TrimSpace (pv_Name (prj_Provider cfg)) \<noteq> '''') ProviderNameRequired,
         require (TrimSpace (pv_Runtime (prj_Provider cfg)) \<noteq> '''') ProviderRuntimeRequired,
         validate_source (prj_Provider cfg),
         require (prj_Functions cfg \<noteq> []) NoFunctions,
         map_option BadSecretMap (ValidateConfigSecretMap g (prj_Secrets cfg))] of Some e \<Rightarrow> Inl e
      | None \<Rightarrow>
      andThen (on_option validate_backend (prj_Backend cfg)) (\<lambda>b. let cfg = cfg\<lparr>prj_Backend := b\<rparr> in
      case checks
        [first_error validate_function (prj_Functions cfg),
         ValidateAddons cfg,
         (case prj_Deploy cfg of None \<Rightarrow> None | Some d \<Rightarrow> validate_deploy d),
         validateWorkflows cfg,
         validateLayers (prj_Layers cfg)] of Some e \<Rightarrow> Inl e | None \<Rightarrow> Inr cfg))"

end
