(* ===== verification/Config_Claims.thy ===== *)
theory Config_Claims
  imports Config_Validate
begin

text \<open>
  Properties of the configuration: the language of stage patterns, the precedence of stage overrides, what
  normalization and validation guarantee, the bindings of addons, and what resolution loses.
\<close>

section \<open>Stage patterns\<close>

text \<open>A pattern matches the concatenations of one piece per character.\<close>

definition piece :: "char \<Rightarrow> string \<Rightarrow> bool" where
  "piece c t \<longleftrightarrow> (if c = CHR ''*'' then True else if c = CHR ''?'' then length t = 1 else t = [c])"

definition in_glob :: "string \<Rightarrow> string \<Rightarrow> bool" where
  "in_glob p s \<longleftrightarrow> (\<exists>parts. list_all2 piece p parts \<and> concat parts = s)"

lemma in_glob_Nil [simp]: "in_glob [] s \<longleftrightarrow> s = []"
  by (auto simp: in_glob_def)

lemma in_glob_Cons: "in_glob (c # p) s \<longleftrightarrow> (\<exists>u v. s = u @ v \<and> piece c u \<and> in_glob p v)"
proof
  assume "in_glob (c # p) s"
  then obtain u us where "piece c u" "list_all2 piece p us" "s = u @ concat us"
    by (auto simp: in_glob_def list_all2_Cons1)
  then show "\<exists>u v. s = u @ v \<and> piece c u \<and> in_glob p v" by (auto simp: in_glob_def)
next
  assume "\<exists>u v. s = u @ v \<and> piece c u \<and> in_glob p v"
  then obtain u us where "s = u @ concat us" "piece c u" "list_all2 piece p us" by (auto simp: in_glob_def)
  then show "in_glob (c # p) s" unfolding in_glob_def by (intro exI [of _ "u # us"]) simp
qed

lemma in_glob_one:
  assumes "c \<noteq> CHR ''*''"
  shows "in_glob (c # p) s \<longleftrightarrow> (\<exists>d s'. s = d # s' \<and> (c = CHR ''?'' \<or> c = d) \<and> in_glob p s')"
proof -
  have "piece c u \<longleftrightarrow> (\<exists>d. u = [d] \<and> (c = CHR ''?'' \<or> c = d))" for u
    using assms by (auto simp: piece_def length_Suc_conv)
  then show ?thesis by (simp add: in_glob_Cons) (metis append_Cons append_Nil)
qed

lemma in_glob_star: "in_glob (CHR ''*'' # p) s \<longleftrightarrow> (\<exists>i \<le> length s. in_glob p (drop i s))"
proof
  assume "in_glob (CHR ''*'' # p) s"
  then obtain u v where "s = u @ v" "in_glob p v" by (auto simp: in_glob_Cons)
  then show "\<exists>i \<le> length s. in_glob p (drop i s)" by (intro exI [of _ "length u"]) simp
next
  assume "\<exists>i \<le> length s. in_glob p (drop i s)"
  then obtain i where "in_glob p (drop i s)" by blast
  then show "in_glob (CHR ''*'' # p) s"
    unfolding in_glob_Cons by (intro exI [of _ "take i s"] exI [of _ "drop i s"]) (simp add: piece_def)
qed

lemma in_glob_stars: "in_glob (CHR ''*'' # p) s \<longleftrightarrow> in_glob (CHR ''*'' # dropWhile (\<lambda>x. x = CHR ''*'') p) s"
proof (induction p)
  case (Cons c p)
  have "in_glob (CHR ''*'' # CHR ''*'' # p) s \<longleftrightarrow> in_glob (CHR ''*'' # p) s"
  proof
    assume "in_glob (CHR ''*'' # CHR ''*'' # p) s"
    then obtain i j where "i \<le> length s" "j \<le> length (drop i s)" "in_glob p (drop j (drop i s))"
      by (auto simp: in_glob_star)
    then have "j + i \<le> length s \<and> in_glob p (drop (j + i) s)" by (simp add: add.commute)
    then show "in_glob (CHR ''*'' # p) s" unfolding in_glob_star by blast
  next
    assume h: "in_glob (CHR ''*'' # p) s"
    then have "in_glob (CHR ''*'' # p) (drop 0 s)" by simp
    then show "in_glob (CHR ''*'' # CHR ''*'' # p) s" by (subst in_glob_star) blast
  qed
  with Cons show ?case by auto
qed simp

text \<open>
  Stage patterns mean what they should: the matcher, with its loops and backtracking, accepts exactly
  the strings that arise from the pattern by replacing each \<^verbatim>\<open>*\<close> by any string and each \<^verbatim>\<open>?\<close> by one character.
\<close>

theorem globMatch_iff: "globMatch p s \<longleftrightarrow> (\<exists>parts. list_all2 piece p parts \<and> concat parts = s)"
proof -
  have "globMatch p s \<longleftrightarrow> in_glob p s"
  proof (induction p s rule: globMatch.induct)
    case (1 s)
    then show ?case by (simp add: globMatch.simps)
  next
    case (2 c p s)
    show ?case
    proof (cases "c = CHR ''*''")
      case True
      define p' where "p' = dropWhile (\<lambda>x. x = CHR ''*'') p"
      have eq: "in_glob (c # p) s \<longleftrightarrow> (\<exists>i \<le> length s. in_glob p' (drop i s))"
        unfolding True p'_def by (subst in_glob_stars) (rule in_glob_star)
      have IH: "p' \<noteq> [] \<Longrightarrow> i \<in> set [0..<Suc (length s)] \<Longrightarrow> globMatch p' (drop i s) \<longleftrightarrow> in_glob p' (drop i s)" for i
        using 2(1) [OF True p'_def] by blast
      have "globMatch (c # p) s \<longleftrightarrow> p' = [] \<or> (\<exists>i \<in> set [0..<Suc (length s)]. globMatch p' (drop i s))"
        using True by (simp add: globMatch.simps(2) p'_def [symmetric] Let_def list_ex_iff del: upt_Suc)
      also have "\<dots> \<longleftrightarrow> (\<exists>i \<le> length s. in_glob p' (drop i s))"
      proof (cases "p' = []")
        case True
        then show ?thesis by auto
      next
        case False
        then show ?thesis using IH by (auto simp: less_Suc_eq_le Bex_def simp del: upt_Suc)
      qed
      finally show ?thesis using eq by simp
    next
      case False
      with 2(2) show ?thesis
        by (cases s) (auto simp: globMatch.simps(2) in_glob_one)
    qed
  qed
  then show ?thesis by (simp add: in_glob_def)
qed

section \<open>Stage overrides\<close>

lemma andThen_Inr [simp]: "andThen m f = Inr b \<longleftrightarrow> (\<exists>a. m = Inr a \<and> f a = Inr b)"
  by (auto simp: andThen_def split: sum.split)

lemma field_Inr [simp]: "field rv get upd r = Inr r' \<longleftrightarrow> (\<exists>v. rv (get r) = Inr v \<and> r' = upd (\<lambda>_. v) r)"
  by (auto simp: field_def)

lemma each_Inr: "each f xs = Inr ys \<longleftrightarrow> list_all2 (\<lambda>x y. f x = Inr y) xs ys"
  by (induction xs arbitrary: ys) (auto simp: list_all2_Cons1)

lemma override_cases:
  "override rv ov get upd r = Inr r' \<longleftrightarrow> (if get ov = '''' then r' = r else \<exists>v. rv (get ov) = Inr v \<and> r' = upd (\<lambda>_. v) r)"
  by (auto simp: override_def)

lemma when_same: "(\<And>x. p (g x) = p x) \<Longrightarrow> p (if_then b g r) = p r"
  by (simp add: if_then_def)

lemma when_memory: "fnc_Memory (if_then b (fnc_Memory_update g) r) = (if b then g (fnc_Memory r) else fnc_Memory r)"
  by (simp add: if_then_def)

text \<open>What the override of a function does to its memory and its handler.\<close>

lemma override_function_effect:
  assumes "override_function rv ov base = Inr f"
  shows "fnc_Memory f = (if 0 < fnc_Memory ov then fnc_Memory ov else fnc_Memory base)"
    and "fnc_Handler ov = '''' \<Longrightarrow> fnc_Handler f = fnc_Handler base"
    and "fnc_Handler ov \<noteq> '''' \<Longrightarrow> rv (fnc_Handler ov) = Inr (fnc_Handler f)"
proof -
  have plain: "fnc_Memory (override_plain ov env b) = (if 0 < fnc_Memory ov then fnc_Memory ov else fnc_Memory b)"
    "fnc_Handler (override_plain ov env b) = fnc_Handler b" for env b
    by (simp_all add: override_plain_def when_same [of fnc_Memory] when_same [of fnc_Handler] when_memory)
  obtain a b1 env where a: "override rv ov fnc_Handler fnc_Handler_update base = Inr a"
    and b1: "override rv ov fnc_Runtime fnc_Runtime_update a = Inr b1" and f: "f = override_plain ov env b1"
    using assms unfolding override_function_def by auto
  have "fnc_Memory a = fnc_Memory base" "fnc_Handler ov = '''' \<Longrightarrow> fnc_Handler a = fnc_Handler base"
    "fnc_Handler ov \<noteq> '''' \<Longrightarrow> rv (fnc_Handler ov) = Inr (fnc_Handler a)"
    using a unfolding override_cases by (simp_all split: if_splits) auto
  moreover have "fnc_Memory b1 = fnc_Memory a" "fnc_Handler b1 = fnc_Handler a"
    using b1 unfolding override_cases by (auto split: if_splits)
  ultimately show "fnc_Memory f = (if 0 < fnc_Memory ov then fnc_Memory ov else fnc_Memory base)"
    and "fnc_Handler ov = '''' \<Longrightarrow> fnc_Handler f = fnc_Handler base"
    and "fnc_Handler ov \<noteq> '''' \<Longrightarrow> rv (fnc_Handler ov) = Inr (fnc_Handler f)" by (simp_all add: f plain)
qed

lemma map_fst_update: "k \<in> fst ` set m \<Longrightarrow> map fst (AList.update k v m) = map fst m"
  by (simp add: update_keys)

lemma override_functions_effect:
  assumes "override_functions rv ovs fns = Inr fns'" and "distinct (map fst ovs)"
  shows "map fst fns' = map fst fns \<and> fst ` set ovs \<subseteq> fst ` set fns \<and>
    (\<forall>name. case map_of ovs name of None \<Rightarrow> map_of fns' name = map_of fns name
      | Some ov \<Rightarrow> \<exists>b f. map_of fns name = Some b \<and> map_of fns' name = Some f \<and> override_function rv ov b = Inr f)"
  using assms
proof (induction rv ovs fns rule: override_functions.induct)
  case (1 rv fns)
  then show ?case by simp
next
  case (2 rv name ov rest fns)
  from 2(2) obtain b f where b: "map_of fns name = Some b" "override_function rv ov b = Inr f"
    and r: "override_functions rv rest (AList.update name f fns) = Inr fns'" by (auto split: option.splits)
  have IH: "map fst fns' = map fst (AList.update name f fns) \<and> fst ` set rest \<subseteq> fst ` set (AList.update name f fns) \<and>
    (\<forall>n. case map_of rest n of None \<Rightarrow> map_of fns' n = map_of (AList.update name f fns) n
      | Some ov \<Rightarrow> \<exists>b g. map_of (AList.update name f fns) n = Some b \<and> map_of fns' n = Some g \<and> override_function rv ov b = Inr g)"
    using 2(1) [OF b(1) r] 2(3) by simp
  have name: "name \<in> fst ` set fns" using b(1) by (metis domI dom_map_of_conv_image_fst)
  have keys: "map fst (AList.update name f fns) = map fst fns" using name by (rule map_fst_update)
  then have set: "fst ` set (AList.update name f fns) = fst ` set fns" by (metis set_map)
  have none: "map_of rest name = None" using 2(3) by (simp add: map_of_eq_None_iff)
  show ?case
  proof (intro conjI allI)
    show "map fst fns' = map fst fns" using IH keys by simp
    show "fst ` set ((name, ov) # rest) \<subseteq> fst ` set fns" using IH name set by auto
    show "case map_of ((name, ov) # rest) n of None \<Rightarrow> map_of fns' n = map_of fns n
      | Some ov \<Rightarrow> \<exists>b f. map_of fns n = Some b \<and> map_of fns' n = Some f \<and> override_function rv ov b = Inr f" for n
    proof (cases "n = name")
      case True
      with IH none b show ?thesis by (auto simp: update_conv dest: spec [of _ name])
    next
      case False
      with IH show ?thesis by (auto simp: update_conv split: option.splits dest: spec [of _ n])
    qed
  qed
qed

text \<open>The overrides of a function along the stages that apply.\<close>

definition overrides_of :: "string \<Rightarrow> stage_config list \<Rightarrow> function_config list" where
  "overrides_of name layers = List.map_filter (\<lambda>sc. map_of (stg_Functions sc) name) layers"

lemma overrides_of_simps [simp]:
  "overrides_of name [] = []"
  "overrides_of name (sc # scs) = (case map_of (stg_Functions sc) name of None \<Rightarrow> overrides_of name scs | Some ov \<Rightarrow> ov # overrides_of name scs)"
  by (simp_all add: overrides_of_def List.map_filter_simps split: option.split)

lemma applyStageOverride_functions:
  assumes "applyStageOverride rv sc out = Inr out'"
  shows "override_functions rv (stg_Functions sc) (prj_Functions out) = Inr (prj_Functions out')"
    and "prj_Secrets out' = prj_Secrets out" and "prj_Stages out' = prj_Stages out" and "prj_Deploy out' = prj_Deploy out"
  using assms by (auto simp: applyStageOverride_def split: option.splits)

lemma stages_effect:
  assumes "chain (map (applyStageOverride rv) layers) out = Inr out'"
    and "\<forall>sc \<in> set layers. distinct (map fst (stg_Functions sc))"
  shows "map fst (prj_Functions out') = map fst (prj_Functions out) \<and> prj_Secrets out' = prj_Secrets out \<and>
    (\<forall>sc \<in> set layers. fst ` set (stg_Functions sc) \<subseteq> fst ` set (prj_Functions out)) \<and>
    (\<forall>name b. map_of (prj_Functions out) name = Some b \<longrightarrow>
      (\<exists>f. map_of (prj_Functions out') name = Some f \<and> chain (map (override_function rv) (overrides_of name layers)) b = Inr f))"
  using assms
proof (induction layers arbitrary: out)
  case Nil
  then show ?case by simp
next
  case (Cons sc layers)
  from Cons.prems(1) obtain out1 where a: "applyStageOverride rv sc out = Inr out1"
    and c: "chain (map (applyStageOverride rv) layers) out1 = Inr out'" by auto
  have rest: "map fst (prj_Functions out') = map fst (prj_Functions out1)" "prj_Secrets out' = prj_Secrets out1"
    "\<forall>sc \<in> set layers. fst ` set (stg_Functions sc) \<subseteq> fst ` set (prj_Functions out1)"
    "\<forall>name b. map_of (prj_Functions out1) name = Some b \<longrightarrow>
      (\<exists>f. map_of (prj_Functions out') name = Some f \<and> chain (map (override_function rv) (overrides_of name layers)) b = Inr f)"
    using Cons.IH [OF c] Cons.prems(2) by simp_all
  note e = override_functions_effect [OF applyStageOverride_functions(1) [OF a]]
  have d: "distinct (map fst (stg_Functions sc))" using Cons.prems(2) by simp
  have keys: "fst ` set (prj_Functions out1) = fst ` set (prj_Functions out)" using e [OF d] by (metis set_map)
  have step: "\<exists>b1. map_of (prj_Functions out1) name = Some b1 \<and>
      (case map_of (stg_Functions sc) name of None \<Rightarrow> b1 = b | Some ov \<Rightarrow> override_function rv ov b = Inr b1)"
    if "map_of (prj_Functions out) name = Some b" for name b
    using e [OF d] that by (cases "map_of (stg_Functions sc) name") (fastforce dest: spec [of _ name])+
  have "\<exists>f. map_of (prj_Functions out') name = Some f \<and> chain (map (override_function rv) (overrides_of name (sc # layers))) b = Inr f"
    if b: "map_of (prj_Functions out) name = Some b" for name b
  proof -
    from step [OF b] obtain b1 where b1: "map_of (prj_Functions out1) name = Some b1"
      "case map_of (stg_Functions sc) name of None \<Rightarrow> b1 = b | Some ov \<Rightarrow> override_function rv ov b = Inr b1" by blast
    from rest(4) b1(1) obtain f where "map_of (prj_Functions out') name = Some f"
      "chain (map (override_function rv) (overrides_of name layers)) b1 = Inr f" by blast
    with b1(2) show ?thesis by (cases "map_of (stg_Functions sc) name") auto
  qed
  moreover have "map fst (prj_Functions out') = map fst (prj_Functions out)" "prj_Secrets out' = prj_Secrets out"
    using rest(1,2) e [OF d] applyStageOverride_functions(2) [OF a] by simp_all
  moreover have "\<forall>s \<in> set (sc # layers). fst ` set (stg_Functions s) \<subseteq> fst ` set (prj_Functions out)"
    using rest(3) e [OF d] keys by simp
  ultimately show ?case by blast
qed

lemma overrides_last:
  assumes "chain (map (override_function rv) ovs) b = Inr f"
  shows "fnc_Memory f = last (fnc_Memory b # filter (\<lambda>m. 0 < m) (map fnc_Memory ovs)) \<and>
    (let hs = filter (\<lambda>h. h \<noteq> '''') (map fnc_Handler ovs) in
      if hs = [] then fnc_Handler f = fnc_Handler b else rv (last hs) = Inr (fnc_Handler f))"
  using assms
proof (induction ovs arbitrary: b)
  case (Cons ov ovs)
  from Cons.prems obtain b1 where o: "override_function rv ov b = Inr b1" and c: "chain (map (override_function rv) ovs) b1 = Inr f"
    by auto
  from Cons.IH [OF c] override_function_effect [OF o] show ?case
    by (cases "filter (\<lambda>h. h \<noteq> '''') (map fnc_Handler ovs) = []") (auto simp: Let_def)
qed simp

lemma stage_layers_in: "sc \<in> set (stage_layers stage stages) \<Longrightarrow> \<exists>key. (key, sc) \<in> set stages"
proof -
  assume "sc \<in> set (stage_layers stage stages)"
  then obtain key where key: "key \<in> fst ` set stages" "sc = the (map_of stages key)"
    by (auto simp: stage_layers_def stageResolutionOrder_def split: if_splits)
  then obtain v where "map_of stages key = Some v" by (metis domD dom_map_of_conv_image_fst)
  with key(2) show ?thesis by (auto dest: map_of_SomeD)
qed

lemma chain_keeps:
  "chain fs x = Inr y \<Longrightarrow> (\<And>f a b. f \<in> set fs \<Longrightarrow> f a = Inr b \<Longrightarrow> p b = p a) \<Longrightarrow> p y = p x"
  by (induction fs arbitrary: x) fastforce+

lemma chain_append: "chain (fs @ gs) x = andThen (chain fs x) (chain gs)"
  by (induction fs arbitrary: x) (auto simp: andThen_def split: sum.split)

lemma resolve_function_effect:
  assumes "resolve_function rv layers fn = Inr f"
  shows "fnc_Memory f = fnc_Memory fn \<and> rv (fnc_Handler fn) = Inr (fnc_Handler f)"
proof -
  let ?fn = "fn\<lparr>fnc_Events := map copyEventConfig (fnc_Events fn)\<rparr>"
  have "fnc_Memory f = fnc_Memory ?fn"
    using assms unfolding resolve_function_def by (rule chain_keeps) (auto simp: field_Inr)
  moreover obtain f1 where f1: "field rv fnc_Handler fnc_Handler_update ?fn = Inr f1"
    and r: "chain [field rv fnc_Runtime fnc_Runtime_update,
      field rv fnc_Architecture fnc_Architecture_update, field (on_values rv) fnc_Environment fnc_Environment_update,
      field (on_values rv) fnc_Secrets fnc_Secrets_update, field (on_values rv) fnc_Tags fnc_Tags_update,
      field (each (\<lambda>l. rv (layer_ref layers l))) fnc_Layers fnc_Layers_update,
      field (each (resolve_event rv)) fnc_Events fnc_Events_update] f1 = Inr f"
    using assms unfolding resolve_function_def chain.simps(2) [of "field rv fnc_Handler fnc_Handler_update"] andThen_Inr by blast
  have "fnc_Handler f = fnc_Handler f1" using r by (rule chain_keeps) (auto simp: field_Inr)
  moreover have "rv (fnc_Handler fn) = Inr (fnc_Handler f1)" using f1 by (auto simp: field_Inr)
  ultimately show ?thesis by simp
qed

lemma resolve_base_effect:
  assumes "resolve_base rv cfg = Inr out"
  shows "prj_Stages out = prj_Stages cfg \<and> prj_Secrets out = prj_Secrets cfg \<and>
    list_all2 (\<lambda>(n, f) (n', f'). n' = n \<and> fnc_Memory f' = fnc_Memory f \<and> rv (fnc_Handler f) = Inr (fnc_Handler f'))
      (prj_Functions cfg) (prj_Functions out)"
proof -
  obtain c1 where c1: "chain (resolve_fields rv) cfg = Inr c1" and last: "resolve_functions rv c1 = Inr out"
    using assms by (auto simp: resolve_base_def chain_append)
  have same: "(prj_Stages c1, prj_Secrets c1, prj_Functions c1) = (prj_Stages cfg, prj_Secrets cfg, prj_Functions cfg)"
    using c1 by (rule chain_keeps [where p = "\<lambda>c. (prj_Stages c, prj_Secrets c, prj_Functions c)"])
      (auto simp: resolve_fields_def)
  from last obtain fns where fns: "each (\<lambda>(name, fn). andThen (resolve_function rv (prj_Layers c1) fn) (\<lambda>x. Inr (name, x))) (prj_Functions cfg) = Inr fns"
    and out: "out = c1\<lparr>prj_Functions := fns\<rparr>" using same by (auto simp: resolve_functions_def)
  from fns have "list_all2 (\<lambda>(n, f) (n', f'). n' = n \<and> fnc_Memory f' = fnc_Memory f \<and> rv (fnc_Handler f) = Inr (fnc_Handler f'))
      (prj_Functions cfg) fns"
    unfolding each_Inr by (elim list_all2_mono) (auto dest: resolve_function_effect)
  with same show ?thesis by (simp add: out)
qed

lemma list_all2_map_of:
  "list_all2 (\<lambda>(n, f) (n', f'). n' = n \<and> P f f') xs ys \<Longrightarrow> map fst ys = map fst xs \<and>
   (\<forall>n f. map_of xs n = Some f \<longrightarrow> (\<exists>f'. map_of ys n = Some f' \<and> P f f'))"
  by (induction xs ys rule: list_all2_induct) auto

lemma inherit_same: "fnc_Memory (inherit_defaults cfg f) = fnc_Memory f" "fnc_Handler (inherit_defaults cfg f) = fnc_Handler f"
  by (auto simp: inherit_defaults_def Let_def split: option.split)

lemma map_of_map_snd: "map_of (map (\<lambda>(k, v). (k, g v)) xs) k = map_option g (map_of xs k)"
  by (induction xs) auto

text \<open>
  C23. The most specific stage wins. Resolving for a stage keeps the functions, fails if a stage that applies
  names another one, and gives every function the memory of the last override along the stages, from the
  general to the specific one, that sets it, and the handler of the last one that sets that, resolved;
  the values of the function itself if there is none.
\<close>

theorem Resolve_last_override_wins:
  assumes "Resolve E stage cfg = Inr out" and "stage \<noteq> ''''"
    and "\<forall>(key, sc) \<in> set (prj_Stages cfg). distinct (map fst (stg_Functions sc))"
  shows "map fst (prj_Functions out) = map fst (prj_Functions cfg) \<and>
    (\<forall>sc \<in> set (stage_layers stage (prj_Stages cfg)). fst ` set (stg_Functions sc) \<subseteq> fst ` set (prj_Functions cfg)) \<and>
    (\<forall>name base. map_of (prj_Functions cfg) name = Some base \<longrightarrow>
      (\<exists>f. map_of (prj_Functions out) name = Some f \<and>
        (let ovs = overrides_of name (stage_layers stage (prj_Stages cfg)) in
          fnc_Memory f = last (fnc_Memory base # filter (\<lambda>m. 0 < m) (map fnc_Memory ovs)) \<and>
          resolveValue E stage (prj_Secrets out) (last (fnc_Handler base # filter (\<lambda>h. h \<noteq> '''') (map fnc_Handler ovs)))
            = Inr (fnc_Handler f))))"
proof -
  let ?layers = "stage_layers stage (prj_Stages cfg)"
  obtain secrets o1 o2 where b: "resolve_base (resolveValue E stage secrets) (cfg\<lparr>prj_Secrets := secrets\<rparr>) = Inr o1"
    and c: "chain (map (applyStageOverride (resolveValue E stage secrets)) (stage_layers stage (prj_Stages o1))) o1 = Inr o2"
    and out: "out = o2\<lparr>prj_Functions := map (\<lambda>(name, fn). (name, inherit_defaults o2 fn)) (prj_Functions o2)\<rparr>"
    using assms(1) by (auto simp: Resolve_def Let_def split: option.splits)
  have base: "prj_Stages o1 = prj_Stages cfg" "prj_Secrets o1 = secrets"
    and fns: "list_all2 (\<lambda>(n, f) (n', f'). n' = n \<and> fnc_Memory f' = fnc_Memory f \<and> resolveValue E stage secrets (fnc_Handler f) = Inr (fnc_Handler f'))
      (prj_Functions cfg) (prj_Functions o1)"
    using resolve_base_effect [OF b] by simp_all
  note fns = list_all2_map_of [OF fns]
  have "\<forall>sc \<in> set ?layers. distinct (map fst (stg_Functions sc))"
    using assms(3) stage_layers_in by fastforce
  note st = stages_effect [OF c, unfolded base, OF this]
  have keys: "map fst (prj_Functions out) = map fst (prj_Functions cfg)" using st fns by (simp add: out split_def comp_def)
  have "\<exists>f. map_of (prj_Functions out) name = Some f \<and>
      (let ovs = overrides_of name ?layers in
        fnc_Memory f = last (fnc_Memory fn # filter (\<lambda>m. 0 < m) (map fnc_Memory ovs)) \<and>
        resolveValue E stage (prj_Secrets out) (last (fnc_Handler fn # filter (\<lambda>h. h \<noteq> '''') (map fnc_Handler ovs))) = Inr (fnc_Handler f))"
    if "map_of (prj_Functions cfg) name = Some fn" for name fn
  proof -
    from fns that obtain f1 where f1: "map_of (prj_Functions o1) name = Some f1" "fnc_Memory f1 = fnc_Memory fn"
      "resolveValue E stage secrets (fnc_Handler fn) = Inr (fnc_Handler f1)" by blast
    with st obtain f2 where f2: "map_of (prj_Functions o2) name = Some f2"
      "chain (map (override_function (resolveValue E stage secrets)) (overrides_of name ?layers)) f1 = Inr f2" by blast
    have sec: "prj_Secrets out = secrets" using st by (simp add: out)
    from overrides_last [OF f2(2)] f1 f2(1) show ?thesis
      by (cases "filter (\<lambda>h. h \<noteq> '''') (map fnc_Handler (overrides_of name ?layers)) = []")
        (auto simp: out map_of_map_snd inherit_same sec [simplified out] Let_def)
  qed
  moreover have "fst ` set (prj_Functions o1) = fst ` set (prj_Functions cfg)" using fns by (metis set_map)
  ultimately show ?thesis using keys st by auto
qed

section \<open>Examples\<close>

definition no_globals :: secret_globals where
  "no_globals = \<lparr>sg_resolver = None, sg_schemes = []\<rparr>"

definition demo_env :: resolve_env where
  "demo_env = \<lparr>re_globals = no_globals, re_lookup = (\<lambda>k. if k = ''OUT'' then Some ''dist'' else None)\<rparr>"

definition plain_function :: "string \<Rightarrow> function_config" where
  "plain_function h = \<lparr>fnc_Handler = h, fnc_Runtime = '''', fnc_Memory = 0, fnc_Timeout = 0, fnc_Architecture = '''',
     fnc_Environment = [], fnc_Tags = [], fnc_Layers = [], fnc_Resources = [], fnc_Addons = [], fnc_ReservedConcurrency = 0,
     fnc_ProvisionedConcurrency = 0, fnc_Secrets = [], fnc_Events = []\<rparr>"

definition demo_cors :: cors_config where
  "demo_cors = \<lparr>co_AllowOrigins = [''*''], co_AllowMethods = [], co_AllowHeaders = [], co_ExposeHeaders = [], co_AllowCredentials = False, co_MaxAge = 0\<rparr>"

definition demo_event :: event_config where
  "demo_event = no_event\<lparr>evt_HTTP := Some \<lparr>he_Path = ''/x'', he_Method = ''GET'', he_CORS = Some demo_cors, he_Authorizer = None,
     he_RouteSettings = Some \<lparr>rt_ThrottlingBurstLimit = 5, rt_ThrottlingRateLimit = 5\<rparr>\<rparr>\<rparr>"

definition demo_provider :: provider_config where
  "demo_provider = \<lparr>pv_Name = ''aws-lambda'', pv_Runtime = ''nodejs20'', pv_Region = ''eu'', pv_Source = '''', pv_Version = '''',
     pv_ServiceType = '''', pv_Image = '''', pv_Namespace = '''', pv_Backend = None\<rparr>"

definition stage_with :: "function_config \<Rightarrow> stage_config" where
  "stage_with f = \<lparr>stg_Provider = None, stg_Backend = None, stg_Functions = [(''api'', f)]\<rparr>"

definition demo_project :: project where
  "demo_project = \<lparr>prj_Service = ''svc'', prj_Provider = demo_provider, prj_Backend = None, prj_App = '''', prj_Org = '''',
     prj_ProviderOverrides = [], prj_Deploy = None, prj_Resources = [], prj_Secrets = [], prj_Workflows = [], prj_FunctionsConfig = [],
     prj_Functions = [(''api'', (plain_function ''src/api'')\<lparr>fnc_Memory := 128, fnc_Events := [demo_event]\<rparr>)],
     prj_Stages = [(''prod-*'', stage_with ((plain_function '''')\<lparr>fnc_Memory := 512\<rparr>)),
       (''*'', stage_with ((plain_function ''${env:OUT}/${stage}'')\<lparr>fnc_Memory := 256\<rparr>)),
       (''prod-eu'', stage_with ((plain_function '''')\<lparr>fnc_Secrets := [(''KEY'', ''${env:OUT}'')]\<rparr>))],
     prj_Layers = [], prj_Addons = [], prj_Build = None, prj_Alerts = None\<rparr>"

definition resolved :: "string \<Rightarrow> function_config option" where
  "resolved stage = (case Resolve demo_env stage demo_project of Inl e \<Rightarrow> None | Inr out \<Rightarrow> map_of (prj_Functions out) ''api'')"

theorem Resolve_last_override_wins_witness:
  "case resolved ''prod-eu'' of None \<Rightarrow> False | Some f \<Rightarrow> fnc_Memory f = 512 \<and> fnc_Handler f = ''dist/prod-eu''"
proof -
  have some: "(case Resolve demo_env ''prod-eu'' demo_project of Inl e \<Rightarrow> False | Inr out \<Rightarrow> prj_Secrets out = [])" by code_simp
  then obtain out where out: "Resolve demo_env ''prod-eu'' demo_project = Inr out" "prj_Secrets out = []" by (auto split: sum.splits)
  have ovs: "map fnc_Memory (overrides_of ''api'' (stage_layers ''prod-eu'' (prj_Stages demo_project))) = [256, 512, 0]"
    "map fnc_Handler (overrides_of ''api'' (stage_layers ''prod-eu'' (prj_Stages demo_project))) = [''${env:OUT}/${stage}'', '''', '''']"
    and h: "resolveValue demo_env ''prod-eu'' [] ''${env:OUT}/${stage}'' = Inr ''dist/prod-eu''"
    by code_simp+
  have d: "\<forall>(key, sc) \<in> set (prj_Stages demo_project). distinct (map fst (stg_Functions sc))" by (simp add: demo_project_def stage_with_def)
  have m: "map_of (prj_Functions demo_project) ''api'' = Some ((plain_function ''src/api'')\<lparr>fnc_Memory := 128, fnc_Events := [demo_event]\<rparr>)"
    by (simp add: demo_project_def)
  have "''prod-eu'' \<noteq> ''''" by simp
  from Resolve_last_override_wins [OF out(1) this d, THEN conjunct2, THEN conjunct2, rule_format, OF m]
  obtain f where "map_of (prj_Functions out) ''api'' = Some f" "fnc_Memory f = 512"
    "resolveValue demo_env ''prod-eu'' [] ''${env:OUT}/${stage}'' = Inr (fnc_Handler f)"
    unfolding Let_def ovs out(2) by auto
  then show ?thesis using out h by (simp add: resolved_def)
qed

text \<open>
  What resolution loses. It copies of an HTTP event only the path, the method and the authorizer, so
  that CORS and throttling settings disappear; the secrets of a stage override are merged without being
  resolved; and of two stage patterns with the same number of literal characters the one that the
  iteration over the map meets last wins.
\<close>

theorem Resolve_losses:
  "(case resolved '''' of None \<Rightarrow> False | Some f \<Rightarrow>
      map (map_option (\<lambda>h. (he_Path h, he_CORS h, he_RouteSettings h)) \<circ> evt_HTTP) (fnc_Events f) = [Some (''/x'', None, None)]) \<and>
   (case resolved ''prod-eu'' of None \<Rightarrow> False | Some f \<Rightarrow> fnc_Secrets f = [(''KEY'', ''${env:OUT}'')]) \<and>
   stageResolutionOrder ''a-b'' [(''a-*'', ()), (''*-b'', ())] = [''a-*'', ''*-b''] \<and>
   stageResolutionOrder ''a-b'' [(''*-b'', ()), (''a-*'', ())] = [''*-b'', ''a-*'']"
  by (intro conjI) code_simp+

end
