(* ===== verification/Config_Check_Claims.thy ===== *)
theory Config_Check_Claims
  imports Config_Claims
begin

text \<open>
  Properties of the checks of the configuration, of its normalization and of the bindings of addons.
\<close>

section \<open>What an accepted configuration guarantees\<close>

lemma checks_Inr:
  "(case checks cs of Some e \<Rightarrow> Inl e | None \<Rightarrow> r) = Inr x \<longleftrightarrow> (\<forall>c \<in> set cs. c = None) \<and> r = Inr x"
  by (induction cs) (auto split: option.splits)

lemma require_None [simp]: "require b e = None \<longleftrightarrow> b"
  by (simp add: require_def)

lemma first_error_enumerate: "first_error f (enumerate 0 xs) = None \<longleftrightarrow> (\<forall>i < length xs. f (i, xs ! i) = None)"
  by (auto simp: first_error_None in_set_enumerate_eq)

text \<open>The fields that a backend of a kind cannot do without.\<close>

definition backend_fields :: "string \<Rightarrow> (backend_config \<Rightarrow> string) list" where
  "backend_fields kind = (if kind = ''s3'' then [bk_S3Bucket] else if kind = ''gcs'' then [bk_GCSBucket, bk_GCSPrefix]
     else if kind = ''azblob'' then [bk_AzblobContainer, bk_AzblobPrefix]
     else if kind = ''postgres'' then [bk_PostgresConnectionStringEnv, bk_PostgresTable]
     else if kind = ''sqlite'' then [bk_SqlitePath] else [])"

definition backend_kinds :: "string list" where
  "backend_kinds = ['''', ''local'', ''s3'', ''gcs'', ''azblob'', ''postgres'', ''sqlite'', ''dynamodb'']"

text \<open>A backend of a known kind with what that kind needs; DynamoDB needs one of two tables.\<close>

definition backend_complete :: "backend_config \<Rightarrow> bool" where
  "backend_complete b \<longleftrightarrow> bk_Kind b \<in> set backend_kinds \<and> (\<forall>f \<in> set (backend_fields (bk_Kind b)). TrimSpace (f b) \<noteq> '''') \<and>
     (bk_Kind b = ''dynamodb'' \<longrightarrow> TrimSpace (bk_LockTable b) \<noteq> '''' \<or> TrimSpace (bk_ReceiptTable b) \<noteq> '''')"

text \<open>A trigger that names what it listens to, and whose authorizer is of a known type with what that type needs.\<close>

definition authorizer_complete :: "authorizer_config \<Rightarrow> bool" where
  "authorizer_complete a \<longleftrightarrow> au_Type a \<in> {''jwt'', ''lambda'', ''iam''} \<and>
     (au_Type a = ''jwt'' \<longrightarrow> TrimSpace (au_Issuer a) \<noteq> '''' \<and> au_Audience a \<noteq> []) \<and>
     (au_Type a = ''lambda'' \<longrightarrow> TrimSpace (au_Function a) \<noteq> '''')"

definition event_complete :: "event_config \<Rightarrow> bool" where
  "event_complete ev \<longleftrightarrow> (\<forall>q. evt_Queue ev = Some q \<longrightarrow> TrimSpace (qe_Queue q) \<noteq> '''') \<and>
     (\<forall>s. evt_Storage ev = Some s \<longrightarrow> TrimSpace (ste_Bucket s) \<noteq> '''') \<and>
     (\<forall>p. evt_PubSub ev = Some p \<longrightarrow> TrimSpace (ps_Topic p) \<noteq> '''') \<and>
     (\<forall>h a. evt_HTTP ev = Some h \<and> he_Authorizer h = Some a \<longrightarrow> authorizer_complete a)"

lemma default_to_keeps: "(\<And>v. p (upd (\<lambda>_. v) b) = p b) \<Longrightarrow> p (default_to d get upd b) = p b"
  by (simp add: default_to_def)

lemma default_to_set: "TrimSpace d \<noteq> '''' \<Longrightarrow> get (upd (\<lambda>_. d) b) = d \<Longrightarrow> TrimSpace (get (default_to d get upd b)) \<noteq> ''''"
  by (simp add: default_to_def)

lemma default_to_same: "TrimSpace (get b) \<noteq> '''' \<Longrightarrow> default_to d get upd b = b"
  by (simp add: default_to_def)

lemma backend_defaults: "TrimSpace ''RUNFABRIC_STATE_POSTGRES_URL'' \<noteq> ''''" "TrimSpace ''runfabric_receipts'' \<noteq> ''''"
  "TrimSpace ''.runfabric/state.db'' \<noteq> ''''"
  by code_simp+

text \<open>The checked backend has its fields, and the defaults that the check fills in survive a second run.\<close>

lemma validate_backend_fields:
  assumes "validate_backend b = Inr b'"
  shows "backend_complete b' \<and> validate_backend b' = Inr b'"
proof -
  note d = validate_backend_def backend_fields_def backend_kinds_def backend_complete_def
  consider (postgres) "bk_Kind b = ''postgres''" | (sqlite) "bk_Kind b = ''sqlite''"
    | (other) "bk_Kind b \<noteq> ''postgres''" "bk_Kind b \<noteq> ''sqlite''" by blast
  then show ?thesis
  proof cases
    case postgres
    let ?env = "default_to ''RUNFABRIC_STATE_POSTGRES_URL'' bk_PostgresConnectionStringEnv bk_PostgresConnectionStringEnv_update b"
    let ?out = "default_to ''runfabric_receipts'' bk_PostgresTable bk_PostgresTable_update ?env"
    have b': "b' = ?out" using assms postgres by (simp add: d)
    have "TrimSpace (bk_PostgresConnectionStringEnv ?env) \<noteq> ''''" "TrimSpace (bk_PostgresTable ?out) \<noteq> ''''"
      by (rule default_to_set [OF backend_defaults(1)] default_to_set [OF backend_defaults(2)]; simp)+
    moreover have "bk_PostgresConnectionStringEnv ?out = bk_PostgresConnectionStringEnv ?env" "bk_Kind ?out = bk_Kind b"
      by (simp_all add: default_to_keeps)
    ultimately have "bk_Kind b' = bk_Kind b" "TrimSpace (bk_PostgresConnectionStringEnv b') \<noteq> ''''" "TrimSpace (bk_PostgresTable b') \<noteq> ''''"
      unfolding b' by argo+
    then show ?thesis using postgres by (simp add: d default_to_same)
  next
    case sqlite
    let ?out = "default_to ''.runfabric/state.db'' bk_SqlitePath bk_SqlitePath_update b"
    have b': "b' = ?out" using assms sqlite by (simp add: d)
    have "TrimSpace (bk_SqlitePath ?out) \<noteq> ''''" by (rule default_to_set [OF backend_defaults(3)]) simp
    moreover have "bk_Kind ?out = bk_Kind b" by (simp add: default_to_keeps)
    ultimately have "bk_Kind b' = bk_Kind b" "TrimSpace (bk_SqlitePath b') \<noteq> ''''" unfolding b' by argo+
    then show ?thesis using sqlite by (simp add: d default_to_same)
  next
    case other
    then have "b' = b \<and> backend_complete b"
      using assms unfolding validate_backend_def
      by (simp split: if_split_asm option.split_asm
          add: backend_complete_def backend_fields_def backend_kinds_def validateGCSBackend_def validateAzblobBackend_def require_def)
        (elim disjE; simp)
    with assms show ?thesis by simp
  qed
qed

text \<open>A name of this form is one component of a path and one word of a shell.\<close>

lemma functionNamePattern_component:
  assumes "functionNamePattern s"
  shows "s \<noteq> '''' \<and> is_alnum (s ! 0) \<and> CHR ''/'' \<notin> set s \<and> CHR '' '' \<notin> set s"
proof -
  from assms obtain c cs where s: "s = c # cs" "is_alnum c" and
    all: "\<And>x. x \<in> set s \<Longrightarrow> is_alnum x \<or> x = CHR ''.'' \<or> x = CHR ''_'' \<or> x = CHR ''-''"
    by (auto simp: functionNamePattern_def list_all_iff split: list.splits)
  have "\<not> is_alnum (CHR ''/'')" "\<not> is_alnum (CHR '' '')" by code_simp+
  then have "CHR ''/'' \<notin> set s" "CHR '' '' \<notin> set s" using all [of "CHR ''/''"] all [of "CHR '' ''"] by auto
  with s show ?thesis by simp
qed

lemma validate_authorizer_complete: "validate_authorizer name a = None \<Longrightarrow> authorizer_complete a"
  by (auto simp: validate_authorizer_def authorizer_complete_def split: if_splits)

lemma validate_event_complete: "validate_event name ev = None \<Longrightarrow> event_complete ev"
  using validate_authorizer_complete by (auto simp: validate_event_def event_complete_def missing_name_def split: if_splits option.splits)

lemma validate_function_facts:
  assumes "validate_function (name, fn) = None"
  shows "name \<noteq> '''' \<and> is_alnum (name ! 0) \<and> CHR ''/'' \<notin> set name \<and> CHR '' '' \<notin> set name \<and>
    fnc_Architecture fn \<in> {'''', ''x86_64'', ''arm64''} \<and>
    \<not> empty_key (fnc_Environment fn) \<and> \<not> empty_key (fnc_Secrets fn) \<and> (\<forall>ev \<in> set (fnc_Events fn). event_complete ev)"
proof -
  have "functionNamePattern name" "fnc_Architecture fn \<in> {'''', ''x86_64'', ''arm64''}" "\<not> empty_key (fnc_Environment fn)" "\<not> empty_key (fnc_Secrets fn)"
    "\<forall>ev \<in> set (fnc_Events fn). validate_event name ev = None"
    using assms by (simp_all add: validate_function_def first_error_None split: if_splits)
  then show ?thesis using functionNamePattern_component validate_event_complete by blast
qed

lemma validateWorkflows_None:
  "validateWorkflows cfg = None \<Longrightarrow> w \<in> set (prj_Workflows cfg) \<Longrightarrow> step \<in> set (wfl_Steps w) \<Longrightarrow>
    validate_step (configFunctionNames cfg) step = None"
  by (auto simp: validateWorkflows_def first_error_enumerate in_set_conv_nth split: if_splits)

lemma code_step_function:
  assumes "validate_step names step = None" and "ToLower (TrimSpace (wst_Kind step)) = ''code''"
    and "has_key (wst_Input step) ''function''"
  shows "\<exists>name. aget (wst_Input step) ''function'' = AStr name \<and> TrimSpace name \<in> set names"
  using assms by (auto simp: validate_step_def validate_input_def Let_def split: if_splits any.splits)

text \<open>Acceptance in terms of the single checks.\<close>

lemma Validate_Inr:
  "Validate g cfg = Inr cfg' \<longleftrightarrow>
    TrimSpace (prj_Service cfg) \<noteq> '''' \<and> TrimSpace (pv_Name (prj_Provider cfg)) \<noteq> '''' \<and>
    TrimSpace (pv_Runtime (prj_Provider cfg)) \<noteq> '''' \<and> validate_source (prj_Provider cfg) = None \<and>
    prj_Functions cfg \<noteq> [] \<and> ValidateConfigSecretMap g (prj_Secrets cfg) = None \<and>
    (\<exists>b. on_option validate_backend (prj_Backend cfg) = Inr b \<and> cfg' = cfg\<lparr>prj_Backend := b\<rparr>) \<and>
    first_error validate_function (prj_Functions cfg) = None \<and> ValidateAddons cfg' = None \<and>
    (\<forall>d. prj_Deploy cfg = Some d \<longrightarrow> validate_deploy d = None) \<and> validateWorkflows cfg' = None \<and>
    validateLayers (prj_Layers cfg) = None"
  unfolding Validate_def Let_def checks_Inr andThen_Inr by (cases "prj_Deploy cfg") (auto simp del: checks.simps)


lemma on_option_Inr: "on_option f x = Inr y \<longleftrightarrow> (case x of None \<Rightarrow> y = None | Some a \<Rightarrow> \<exists>b. f a = Inr b \<and> y = Some b)"
  by (auto simp: on_option_def split: option.split)

lemma Validate_backend:
  assumes "Validate g cfg = Inr cfg'"
  shows "Validate g cfg' = Inr cfg' \<and> prj_Functions cfg' = prj_Functions cfg \<and> (\<forall>b. prj_Backend cfg' = Some b \<longrightarrow> backend_complete b)"
proof -
  obtain b where b: "on_option validate_backend (prj_Backend cfg) = Inr b" and cfg': "cfg' = cfg\<lparr>prj_Backend := b\<rparr>"
    using assms unfolding Validate_Inr by blast
  have "on_option validate_backend b = Inr b" "\<forall>x. b = Some x \<longrightarrow> backend_complete x"
    using b validate_backend_fields unfolding on_option_Inr by (auto split: option.splits)
  with assms show ?thesis unfolding Validate_Inr by (simp add: cfg')
qed

text \<open>
  C36. Accepted configurations are safe to act on. If the check accepts a configuration, it accepts what it
  returns without changing it again; the backend is of a known kind with every field that kind needs; there is
  a function, and every function name is one path component and one shell word, with a known architecture, no blank keys in its
  environment or secrets, a queue, bucket or topic name wherever an event needs one, and only authorizers of a
  known type with the fields of that type; a canary percentage is a percentage; and every code step that names
  a function names one of the configuration.
\<close>

theorem Validate_safe:
  assumes "Validate g cfg = Inr cfg'"
  shows "Validate g cfg' = Inr cfg' \<and> prj_Functions cfg' = prj_Functions cfg \<and> prj_Functions cfg \<noteq> [] \<and>
    (\<forall>b. prj_Backend cfg' = Some b \<longrightarrow> backend_complete b) \<and>
    (\<forall>(name, fn) \<in> set (prj_Functions cfg).
      name \<noteq> '''' \<and> is_alnum (name ! 0) \<and> CHR ''/'' \<notin> set name \<and> CHR '' '' \<notin> set name \<and>
      fnc_Architecture fn \<in> {'''', ''x86_64'', ''arm64''} \<and>
      \<not> empty_key (fnc_Environment fn) \<and> \<not> empty_key (fnc_Secrets fn) \<and> (\<forall>ev \<in> set (fnc_Events fn). event_complete ev)) \<and>
    (\<forall>d. prj_Deploy cfg = Some d \<and> TrimSpace (ToLower (dpl_Strategy d)) = ''canary'' \<longrightarrow> 0 \<le> dpl_CanaryPercent d \<and> dpl_CanaryPercent d \<le> 100) \<and>
    (\<forall>wf \<in> set (prj_Workflows cfg). \<forall>step \<in> set (wfl_Steps wf).
      ToLower (TrimSpace (wst_Kind step)) = ''code'' \<and> has_key (wst_Input step) ''function'' \<longrightarrow>
      (\<exists>name. aget (wst_Input step) ''function'' = AStr name \<and> TrimSpace name \<in> set (configFunctionNames cfg)))"
proof (intro conjI)
  note v = assms [unfolded Validate_Inr]
  from Validate_backend [OF assms] show "Validate g cfg' = Inr cfg'" and "prj_Functions cfg' = prj_Functions cfg"
    and "\<forall>b. prj_Backend cfg' = Some b \<longrightarrow> backend_complete b" by blast+
  from v show "prj_Functions cfg \<noteq> []" by blast
  from v have "\<forall>nf \<in> set (prj_Functions cfg). validate_function nf = None" by (simp add: first_error_None)
  then show "\<forall>(name, fn) \<in> set (prj_Functions cfg).
      name \<noteq> '''' \<and> is_alnum (name ! 0) \<and> CHR ''/'' \<notin> set name \<and> CHR '' '' \<notin> set name \<and>
      fnc_Architecture fn \<in> {'''', ''x86_64'', ''arm64''} \<and>
      \<not> empty_key (fnc_Environment fn) \<and> \<not> empty_key (fnc_Secrets fn) \<and> (\<forall>ev \<in> set (fnc_Events fn). event_complete ev)"
    using validate_function_facts by blast
  from v have "\<forall>d. prj_Deploy cfg = Some d \<longrightarrow> validate_deploy d = None" by blast
  then show "\<forall>d. prj_Deploy cfg = Some d \<and> TrimSpace (ToLower (dpl_Strategy d)) = ''canary'' \<longrightarrow> 0 \<le> dpl_CanaryPercent d \<and> dpl_CanaryPercent d \<le> 100"
    by (auto simp: validate_deploy_def Let_def)
  from v have "validateWorkflows cfg' = None" and same: "prj_Workflows cfg' = prj_Workflows cfg" "configFunctionNames cfg' = configFunctionNames cfg"
    by (auto simp: configFunctionNames_def)
  then have "\<forall>wf \<in> set (prj_Workflows cfg). \<forall>step \<in> set (wfl_Steps wf). validate_step (configFunctionNames cfg) step = None"
    using validateWorkflows_None [of cfg'] by simp
  then show "\<forall>wf \<in> set (prj_Workflows cfg). \<forall>step \<in> set (wfl_Steps wf).
      ToLower (TrimSpace (wst_Kind step)) = ''code'' \<and> has_key (wst_Input step) ''function'' \<longrightarrow>
      (\<exists>name. aget (wst_Input step) ''function'' = AStr name \<and> TrimSpace name \<in> set (configFunctionNames cfg))"
    using code_step_function by blast
qed


definition checked_project :: project where
  "checked_project = demo_project\<lparr>prj_Backend := Some (no_backend\<lparr>bk_Kind := ''postgres''\<rparr>), prj_Stages := [],
     prj_Workflows := [\<lparr>wfl_Name = ''w'', wfl_Steps = [\<lparr>wst_ID = ''s'', wst_Kind = '' Code'', wst_Model = '''', wst_Timeout = 0,
       wst_Input = [(''function'', AStr ''api '')]\<rparr>]\<rparr>]\<rparr>"

theorem Validate_safe_witness:
  "case Validate no_globals checked_project of Inl e \<Rightarrow> False | Inr cfg' \<Rightarrow>
     Validate no_globals cfg' = Inr cfg' \<and> prj_Backend cfg' \<noteq> prj_Backend checked_project"
proof -
  have "case Validate no_globals checked_project of Inl e \<Rightarrow> False | Inr cfg' \<Rightarrow>
      map_option bk_PostgresTable (prj_Backend cfg') = Some ''runfabric_receipts''" by code_simp
  then obtain cfg' where v: "Validate no_globals checked_project = Inr cfg'"
    and b: "map_option bk_PostgresTable (prj_Backend cfg') = Some ''runfabric_receipts''" by (auto split: sum.splits)
  moreover have "map_option bk_PostgresTable (prj_Backend checked_project) = Some ''''" by code_simp
  ultimately have "prj_Backend cfg' \<noteq> prj_Backend checked_project" by auto
  with v Validate_safe [OF v] show ?thesis by simp
qed


section \<open>Normalization\<close>

lemma normalize_deploy_idem: "normalize_deploy (normalize_deploy d) = normalize_deploy d"
proof -
  have "TrimSpace (ToLower ''all-at-once'') = ''all-at-once''" by code_simp
  then show ?thesis by (simp add: normalize_deploy_def Let_def TrimSpace_ToLower)
qed

text \<open>Maps as lists: a fold of updates, and when two lists with the same keys are equal.\<close>

lemma map_of_fold_update:
  "map_of (foldl (\<lambda>m x. AList.update (f x) (g x) m) m xs) k =
    (case List.find (\<lambda>x. f x = k) (rev xs) of Some x \<Rightarrow> Some (g x) | None \<Rightarrow> map_of m k)"
proof (induction xs arbitrary: m)
  case (Cons x xs)
  have "List.find P (ys @ [x]) = (case List.find P ys of Some y \<Rightarrow> Some y | None \<Rightarrow> if P x then Some x else None)" for P ys
    by (induction ys) auto
  then show ?case by (simp add: Cons.IH update_conv' split: option.split)
qed simp

lemma keys_update: "fst ` set (AList.update k v m) = insert k (fst ` set m)"
  by (simp flip: dom_map_of_conv_image_fst add: update_conv')

lemma keys_fold_update:
  "set (map f xs) \<subseteq> set (map fst m) \<Longrightarrow> map fst (foldl (\<lambda>m x. AList.update (f x) (g x) m) m xs) = map fst m"
  by (induction xs arbitrary: m) (simp_all add: map_fst_update keys_update insert_absorb)

lemma in_keys_fold_update:
  "set (map fst (foldl (\<lambda>m x. AList.update (f x) (g x) m) m xs)) = set (map fst m) \<union> set (map f xs)"
  by (induction xs arbitrary: m) (auto simp: keys_update)

lemma distinct_fold_update:
  "distinct (map fst m) \<Longrightarrow> distinct (map fst (foldl (\<lambda>m x. AList.update (f x) (g x) m) m xs))"
  by (induction xs arbitrary: m) (auto simp: distinct_update)

lemma alist_eqI: "distinct (map fst xs) \<Longrightarrow> map fst ys = map fst xs \<Longrightarrow> map_of ys = map_of xs \<Longrightarrow> ys = xs"
proof (rule nth_equalityI)
  assume d: "distinct (map fst xs)" and k: "map fst ys = map fst xs" and m: "map_of ys = map_of xs"
  show l: "length ys = length xs" using k by (metis length_map)
  fix i assume i: "i < length ys"
  have f: "fst (ys ! i) = fst (xs ! i)" using k i l by (metis nth_map)
  have "map_of xs (fst (xs ! i)) = Some (snd (xs ! i))" "map_of ys (fst (ys ! i)) = Some (snd (ys ! i))"
    using d k i l by (simp_all add: map_of_eq_Some_iff)
  with f m show "ys ! i = xs ! i" by (simp add: prod_eq_iff)
qed

lemma fold_update_idem:
  assumes "distinct (map fst m)"
  shows "foldl (\<lambda>m x. AList.update (f x) (g x) m) (foldl (\<lambda>m x. AList.update (f x) (g x) m) m xs) xs =
    foldl (\<lambda>m x. AList.update (f x) (g x) m) m xs" (is "?two = ?one")
proof (rule alist_eqI)
  show "distinct (map fst ?one)" using assms by (rule distinct_fold_update)
  have "set (map f xs) \<subseteq> set (map fst ?one)" by (simp only: in_keys_fold_update) simp
  then show "map fst ?two = map fst ?one" by (rule keys_fold_update)
  show "map_of ?two = map_of ?one" by (rule ext) (simp add: map_of_fold_update split: option.split)
qed

text \<open>
  Normalization is a projection onto configurations that are ready to use. With every function key once,
  normalizing twice is normalizing once; a function has the settings of the last declaration of its name in the
  list form, where a declaration without a name is called api, and otherwise those of the map form; a declared function
  without a runtime has that of the provider; every deployment has a strategy and every addon a name.
\<close>

theorem Normalize_projection:
  assumes "distinct (map fst (prj_Functions cfg))"
  shows "Normalize (Normalize cfg) = Normalize cfg \<and>
    (\<forall>name. map_of (prj_Functions (Normalize cfg)) name =
      (case List.find (\<lambda>fo. (if fov_Name fo = '''' then ''api'' else fov_Name fo) = name) (rev (prj_FunctionsConfig cfg)) of
        None \<Rightarrow> map_of (prj_Functions cfg) name
      | Some fo \<Rightarrow> Some (functionOverrideToConfig fo (pv_Runtime (prj_Provider cfg))))) \<and>
    (\<forall>fo. fnc_Runtime (functionOverrideToConfig fo (pv_Runtime (prj_Provider cfg))) =
      (if fov_Runtime fo = '''' then pv_Runtime (prj_Provider cfg) else fov_Runtime fo)) \<and>
    (\<forall>d. prj_Deploy (Normalize cfg) = Some d \<longrightarrow> dpl_Strategy d \<noteq> '''') \<and>
    (\<forall>(key, a) \<in> set (prj_Addons (Normalize cfg)). add_Name a = '''' \<longrightarrow> key = '''')"
proof (intro conjI)
  let ?up = "foldl (\<lambda>fns fo. AList.update (function_name fo) (functionOverrideToConfig fo (pv_Runtime (prj_Provider cfg))) fns)"
  show "Normalize (Normalize cfg) = Normalize cfg"
    using fold_update_idem [OF assms, of function_name "\<lambda>fo. functionOverrideToConfig fo (pv_Runtime (prj_Provider cfg))"]
    by (simp add: Normalize_def option.map_comp comp_def normalize_deploy_idem split_def)
  show "\<forall>name. map_of (prj_Functions (Normalize cfg)) name =
      (case List.find (\<lambda>fo. (if fov_Name fo = '''' then ''api'' else fov_Name fo) = name) (rev (prj_FunctionsConfig cfg)) of
        None \<Rightarrow> map_of (prj_Functions cfg) name
      | Some fo \<Rightarrow> Some (functionOverrideToConfig fo (pv_Runtime (prj_Provider cfg))))"
    by (simp add: Normalize_def map_of_fold_update function_name_def)
  show "\<forall>d. prj_Deploy (Normalize cfg) = Some d \<longrightarrow> dpl_Strategy d \<noteq> ''''"
    by (auto simp: Normalize_def normalize_deploy_def Let_def)
  show "\<forall>(key, a) \<in> set (prj_Addons (Normalize cfg)). add_Name a = '''' \<longrightarrow> key = ''''"
    by (auto simp: Normalize_def split: if_splits)
qed (simp add: functionOverrideToConfig_def)


definition declared :: "string \<Rightarrow> string \<Rightarrow> string \<Rightarrow> function_override" where
  "declared name entry runtime = \<lparr>fov_Name = name, fov_Entry = entry, fov_Runtime = runtime, fov_Memory = 0, fov_Timeout = 0,
     fov_Architecture = '''', fov_Triggers = [], fov_Events = [], fov_Env = [], fov_Environment = [], fov_Secrets = [], fov_Tags = [],
     fov_Layers = [], fov_Resources = [], fov_Addons = [], fov_ReservedConcurrency = 0, fov_ProvisionedConcurrency = 0\<rparr>"

definition listed_project :: project where
  "listed_project = demo_project\<lparr>prj_FunctionsConfig := [declared '''' ''src/a'' '''', declared ''job'' ''src/job'' ''go'', declared '''' ''src/b'' '''']\<rparr>"

theorem Normalize_projection_witness:
  "Normalize (Normalize listed_project) = Normalize listed_project \<and>
   map_option (\<lambda>f. (fnc_Handler f, fnc_Runtime f)) (map_of (prj_Functions (Normalize listed_project)) ''api'') = Some (''src/b'', ''nodejs20'')"
proof
  have d: "distinct (map fst (prj_Functions listed_project))" by code_simp
  note n = Normalize_projection [OF d]
  from n show "Normalize (Normalize listed_project) = Normalize listed_project" ..
  have "List.find (\<lambda>fo. (if fov_Name fo = '''' then ''api'' else fov_Name fo) = ''api'') (rev (prj_FunctionsConfig listed_project))
      = Some (declared '''' ''src/b'' '''')" by (simp add: listed_project_def declared_def)
  with n have "map_of (prj_Functions (Normalize listed_project)) ''api''
      = Some (functionOverrideToConfig (declared '''' ''src/b'' '''') (pv_Runtime (prj_Provider listed_project)))" by simp
  then show "map_option (\<lambda>f. (fnc_Handler f, fnc_Runtime f)) (map_of (prj_Functions (Normalize listed_project)) ''api'') = Some (''src/b'', ''nodejs20'')"
    by (simp add: functionOverrideToConfig_def declared_def listed_project_def demo_project_def demo_provider_def)
qed


section \<open>Addon bindings\<close>

text \<open>What the secrets of one addon offer: a variable and the value, or the error, of its reference.\<close>

definition offers :: "resolve_env \<Rightarrow> strmap \<Rightarrow> strmap \<Rightarrow> (string \<times> (config_error + string)) set" where
  "offers E secrets m = {(var, resolveEnvStrict E (case map_of secrets ref of Some v \<Rightarrow> if v \<noteq> '''' then v else ref | None \<Rightarrow> ref)) |
     var ref. (var, ref) \<in> set m \<and> ref \<noteq> ''''}"

lemma offers_simps: "offers E secrets [] = {}"
  "offers E secrets ((var, ref) # m) = (if ref = '''' then {}
    else {(var, resolveEnvStrict E (case map_of secrets ref of Some v \<Rightarrow> if v \<noteq> '''' then v else ref | None \<Rightarrow> ref))}) \<union> offers E secrets m"
  by (auto simp: offers_def)

definition bound :: "(string \<times> (config_error + string)) set \<Rightarrow> (string \<times> string \<times> string) list \<Rightarrow> bool" where
  "bound S out \<longleftrightarrow> (\<forall>var v. (\<exists>by. map_of out var = Some (v, by)) \<longleftrightarrow> (var, Inr v) \<in> S) \<and> (\<forall>var e. (var, Inl e) \<notin> S)"

definition bind_result :: "(string \<times> (config_error + string)) set \<Rightarrow> addon_error + (string \<times> string \<times> string) list \<Rightarrow> bool" where
  "bind_result S r = (case r of Inr out \<Rightarrow> bound S out
     | Inl (AddonUnresolved key var e) \<Rightarrow> (var, Inl e) \<in> S
     | Inl (AddonAmbiguous var by key) \<Rightarrow> (\<exists>v w. v \<noteq> w \<and> (var, Inr v) \<in> S \<and> (var, Inr w) \<in> S))"

lemma bound_insert:
  "bound S out \<Longrightarrow> \<forall>p. map_of out var = Some p \<longrightarrow> fst p = v \<Longrightarrow> bound (insert (var, Inr v) S) (AList.update var (v, key) out)"
  unfolding bound_def by (auto simp: update_conv')

lemma bind_result_error: "bind_result S (Inl e) \<Longrightarrow> S \<subseteq> T \<Longrightarrow> bind_result T (Inl e)"
  by (cases e) (auto simp: bind_result_def)

lemma bind_addon_result: "bound S out \<Longrightarrow> bind_result (S \<union> offers E secrets m) (bind_addon E secrets key m out)"
proof (induction E secrets key m out arbitrary: S rule: bind_addon.induct)
  case (1 E secrets key out)
  then show ?case by (simp add: bind_result_def offers_simps)
next
  case (2 E secrets key var ref0 rest out)
  let ?ref = "case map_of secrets ref0 of Some v \<Rightarrow> if v \<noteq> '''' then v else ref0 | None \<Rightarrow> ref0"
  show ?case
  proof (cases "ref0 = ''''")
    case True
    with 2 show ?thesis by (simp add: offers_simps)
  next
    case ref: False
    show ?thesis
    proof (cases "resolveEnvStrict E ?ref")
      case (Inl e)
      with ref show ?thesis by (simp add: bind_result_def offers_simps)
    next
      case (Inr v)
      show ?thesis
      proof (cases "\<forall>p. map_of out var = Some p \<longrightarrow> fst p = v")
        case True
        then have eq: "bind_addon E secrets key ((var, ref0) # rest) out = bind_addon E secrets key rest (AList.update var (v, key) out)"
          using ref Inr by (auto simp: Let_def split: option.splits)
        have "bind_result (insert (var, Inr v) S \<union> offers E secrets rest) (bind_addon E secrets key rest (AList.update var (v, key) out))"
          using 2(2,3) [OF ref refl Inr] True bound_insert [OF 2(4) True]
          by (cases "map_of out var") fastforce+
        with ref Inr show ?thesis by (simp only: eq offers_simps) simp
      next
        case False
        then obtain w k where w: "map_of out var = Some (w, k)" "w \<noteq> v" by auto
        then have "(var, Inr w) \<in> S" using 2(4) by (auto simp: bound_def)
        with w ref Inr show ?thesis by (auto simp: Let_def bind_result_def offers_simps)
      qed
    qed
  qed
qed


lemma bind_addons_result:
  "bound S out \<Longrightarrow> bind_result (S \<union> (\<Union>key \<in> {key \<in> set keys. only = [] \<or> key \<in> set only}.
      offers E (prj_Secrets cfg) (case map_of (prj_Addons cfg) key of None \<Rightarrow> [] | Some a \<Rightarrow> add_Secrets a)))
    (bind_addons E cfg only keys out)"
proof (induction keys arbitrary: S out)
  case Nil
  then show ?case by (simp add: bind_result_def)
next
  case (Cons key keys)
  let ?m = "\<lambda>key. case map_of (prj_Addons cfg) key of None \<Rightarrow> [] | Some a \<Rightarrow> add_Secrets a"
  let ?allowed = "\<lambda>keys. {key \<in> set keys. only = [] \<or> key \<in> set only}"
  show ?case
  proof (cases "only \<noteq> [] \<and> key \<notin> set only")
    case True
    then have "?allowed (key # keys) = ?allowed keys" by auto
    with Cons True show ?thesis by simp
  next
    case False
    then have allowed: "?allowed (key # keys) = insert key (?allowed keys)" by auto
    have one: "bind_result (S \<union> offers E (prj_Secrets cfg) (?m key)) (bind_addon E (prj_Secrets cfg) key (?m key) out)"
      using Cons.prems by (rule bind_addon_result)
    show ?thesis
    proof (cases "bind_addon E (prj_Secrets cfg) key (?m key) out")
      case (Inl e)
      with False have "bind_addons E cfg only (key # keys) out = Inl e" by (auto simp: andThen_def)
      then show ?thesis using bind_result_error [OF one [unfolded Inl]] unfolding allowed by auto
    next
      case (Inr out1)
      with one have "bound (S \<union> offers E (prj_Secrets cfg) (?m key)) out1" by (simp add: bind_result_def)
      from Cons.IH [OF this] Inr False show ?thesis unfolding allowed by (auto simp: andThen_def Un_assoc)
    qed
  qed
qed

text \<open>
  Addon bindings are what the configuration says, in whatever order it is read. A variable is bound to a value
  exactly when an addon that is asked for (any, if none is named) has a reference for it with that value, and then
  all references resolve; otherwise the error names a reference that does not resolve, or a variable for
  which two references of addons that are asked for have different values.
\<close>

theorem ResolveAddonBindings_spec:
  assumes "distinct (map fst (prj_Addons cfg))"
    and "S = (\<Union>(key, a) \<in> {(key, a) \<in> set (prj_Addons cfg). keys = [] \<or> key \<in> set keys}. offers E (prj_Secrets cfg) (add_Secrets a))"
  shows "case ResolveAddonBindingsForKeys E cfg keys of
      Inr out \<Rightarrow> (\<forall>var v. map_of out var = Some v \<longleftrightarrow> (var, Inr v) \<in> S) \<and> (\<forall>var e. (var, Inl e) \<notin> S)
    | Inl (AddonUnresolved key var e) \<Rightarrow> (var, Inl e) \<in> S
    | Inl (AddonAmbiguous var by key) \<Rightarrow> \<exists>v w. v \<noteq> w \<and> (var, Inr v) \<in> S \<and> (var, Inr w) \<in> S"
proof -
  let ?names = "sort_slice str_less (map fst (prj_Addons cfg))"
  have "map_of (prj_Addons cfg) key = Some a" if "(key, a) \<in> set (prj_Addons cfg)" for key a
    using assms(1) that by simp
  then have "S = (\<Union>key \<in> {key \<in> set ?names. keys = [] \<or> key \<in> set keys}.
      offers E (prj_Secrets cfg) (case map_of (prj_Addons cfg) key of None \<Rightarrow> [] | Some a \<Rightarrow> add_Secrets a))"
    unfolding assms(2) by force
  moreover have "bound {} []" by (simp add: bound_def)
  ultimately have r: "bind_result S (bind_addons E cfg keys ?names [])"
    using bind_addons_result [where S = "{}" and out = "[]" and keys = ?names and only = keys and E = E and cfg = cfg] by simp
  have proj: "map_of (map (\<lambda>(k, v, b). (k, v)) out) var = map_option fst (map_of out var)" for out var
    by (induction out) auto
  show ?thesis
  proof (cases "bind_addons E cfg keys ?names []")
    case (Inl e)
    with r show ?thesis by (cases e) (simp_all add: ResolveAddonBindingsForKeys_def andThen_def bind_result_def)
  next
    case (Inr out)
    with r have b: "bound S out" by (simp add: bind_result_def)
    have "map_of (map (\<lambda>(k, v, b). (k, v)) out) var = Some v \<longleftrightarrow> (var, Inr v) \<in> S" for var v
    proof -
      have "map_option fst (map_of out var) = Some v \<longleftrightarrow> (\<exists>k. map_of out var = Some (v, k))" by (cases "map_of out var") auto
      with b show ?thesis by (simp add: proj bound_def)
    qed
    with b Inr show ?thesis by (simp add: ResolveAddonBindingsForKeys_def andThen_def bound_def)
  qed
qed


definition addon_project :: project where
  "addon_project = demo_project\<lparr>prj_Secrets := [(''dsn'', ''${env:OUT}'')],
     prj_Addons := [(''sentry'', \<lparr>add_Name = '''', add_Version = '''', add_Secrets = [(''DSN'', ''dsn'')]\<rparr>),
       (''custom'', \<lparr>add_Name = '''', add_Version = '''', add_Secrets = [(''DSN'', ''${env:NONE,other}'')]\<rparr>)]\<rparr>"

theorem ResolveAddonBindings_spec_witness:
  "ResolveAddonBindingsForKeys demo_env addon_project [''sentry''] = Inr [(''DSN'', ''dist'')] \<and>
   ResolveAddonBindingsForKeys demo_env addon_project [] = Inl (AddonAmbiguous ''DSN'' ''custom'' ''sentry'') \<and>
   (''DSN'', Inr ''dist'') \<in> offers demo_env (prj_Secrets addon_project) [(''DSN'', ''dsn'')]"
proof (intro conjI)
  show one: "ResolveAddonBindingsForKeys demo_env addon_project [''sentry''] = Inr [(''DSN'', ''dist'')]" by code_simp
  show "ResolveAddonBindingsForKeys demo_env addon_project [] = Inl (AddonAmbiguous ''DSN'' ''custom'' ''sentry'')" by code_simp
  have d: "distinct (map fst (prj_Addons addon_project))" by (simp add: addon_project_def)
  note b = ResolveAddonBindings_spec [OF d refl, where keys = "[''sentry'']" and E = demo_env, unfolded one sum.case]
  from b [THEN conjunct1, THEN spec, THEN spec, of "''DSN''" "''dist''"]
  have "(''DSN'', Inr ''dist'') \<in> (\<Union>(key, a) \<in> {(key, a) \<in> set (prj_Addons addon_project). [''sentry''] = [] \<or> key \<in> set [''sentry'']}.
      offers demo_env (prj_Secrets addon_project) (add_Secrets a))" by (simp del: UN_iff)
  then show "(''DSN'', Inr ''dist'') \<in> offers demo_env (prj_Secrets addon_project) [(''DSN'', ''dsn'')]"
    by (auto simp: addon_project_def)
qed

end
