(* ===== verification/Registry_Text.thy ===== *)
theory Registry_Text
  imports Secrets
begin

text \<open>
  String functions of the Go library that the registry uses: splitting, numbers, paths and the escapes of URL paths.
\<close>

section \<open>Splitting\<close>

text \<open>\<^verbatim>\<open>strings.Split\<close> for a separator of one byte.\<close>

fun Split :: "char \<Rightarrow> string \<Rightarrow> string list" where
  "Split c [] = [[]]"
| "Split c (x # xs) = (if x = c then [] # Split c xs
     else case Split c xs of [] \<Rightarrow> [[x]] | p # ps \<Rightarrow> (x # p) # ps)"

text \<open>\<^verbatim>\<open>strings.FieldsFunc\<close>: the maximal runs of characters that are not separators.\<close>

function FieldsFunc :: "(char \<Rightarrow> bool) \<Rightarrow> string \<Rightarrow> string list" where
  "FieldsFunc sep s = (let t = dropWhile sep s in
     if t = [] then [] else takeWhile (\<lambda>c. \<not> sep c) t # FieldsFunc sep (dropWhile (\<lambda>c. \<not> sep c) t))"
  by pat_completeness auto
termination
proof (relation "measure (\<lambda>(sep, s). length s)")
  fix sep :: "char \<Rightarrow> bool" and s t
  assume t: "t = dropWhile sep s" "t \<noteq> []"
  then obtain c cs where "t = c # cs" "\<not> sep c" by (metis dropWhile_eq_Cons_conv neq_Nil_conv)
  then have "length (dropWhile (\<lambda>c. \<not> sep c) t) < length t" by (simp add: length_dropWhile_le le_imp_less_Suc)
  also have "\<dots> \<le> length s" using t by (simp add: length_dropWhile_le)
  finally show "((sep, dropWhile (\<lambda>c. \<not> sep c) t), sep, s) \<in> measure (\<lambda>(sep, s). length s)" by simp
qed simp

declare FieldsFunc.simps [simp del]

definition Fields :: "string \<Rightarrow> string list" where
  "Fields s = FieldsFunc is_space s"

section \<open>Numbers\<close>

text \<open>\<^verbatim>\<open>strconv.Atoi\<close>: an optional sign and digits to the end, in 64 bits.\<close>

definition Atoi :: "string \<Rightarrow> int option" where
  "Atoi s =
     (let neg = HasPrefix s ''-'';
          t = (if neg \<or> HasPrefix s ''+'' then tl s else s);
          n = (if neg then - digits_val t else digits_val t)
      in if t = [] \<or> \<not> list_all is_digit t \<or> \<not> in64 n then None else Some n)"

section \<open>Paths\<close>

text \<open>The components of a path after \<^verbatim>\<open>filepath.Clean\<close>, given whether it is rooted; the accumulator is reversed.\<close>

fun clean_parts :: "bool \<Rightarrow> string list \<Rightarrow> string list \<Rightarrow> string list" where
  "clean_parts rooted acc [] = rev acc"
| "clean_parts rooted acc (p # ps) =
     (if p = '''' \<or> p = ''.'' then clean_parts rooted acc ps
      else if p = ''..'' then
        (case acc of [] \<Rightarrow> clean_parts rooted (if rooted then [] else [''..'']) ps
         | a # as \<Rightarrow> clean_parts rooted (if a = ''..'' then ''..'' # acc else as) ps)
      else clean_parts rooted (p # acc) ps)"

definition Clean :: "string \<Rightarrow> string" where
  "Clean p = (let rooted = HasPrefix p ''/''; s = join_with ''/'' (clean_parts rooted [] (Split (CHR ''/'') p)) in
     if rooted then ''/'' @ s else if s = '''' then ''.'' else s)"

text \<open>\<^verbatim>\<open>filepath.Join\<close>\<close>

definition Join :: "string list \<Rightarrow> string" where
  "Join es = (case filter (\<lambda>e. e \<noteq> '''') es of [] \<Rightarrow> '''' | fs \<Rightarrow> Clean (join_with ''/'' fs))"

section \<open>Escapes of URL paths\<close>

definition unreserved :: "char \<Rightarrow> bool" where
  "unreserved c \<longleftrightarrow> (let n = (of_char c :: nat) in (65 \<le> n \<and> n \<le> 90) \<or> (97 \<le> n \<and> n \<le> 122) \<or> (48 \<le> n \<and> n \<le> 57)) \<or>
     c \<in> set ''-_.~$&+:=@''"

definition hex_digit :: "nat \<Rightarrow> char" where
  "hex_digit n = (if n < 10 then char_of (48 + n) else char_of (55 + n))"

text \<open>\<^verbatim>\<open>url.PathEscape\<close>\<close>

definition PathEscape :: "string \<Rightarrow> string" where
  "PathEscape s = concat (map (\<lambda>c. if unreserved c then [c]
     else [CHR ''%'', hex_digit ((of_char c :: nat) div 16), hex_digit ((of_char c :: nat) mod 16)]) s)"

definition hex_val :: "char \<Rightarrow> nat option" where
  "hex_val c = (let n = (of_char c :: nat) in
     if 48 \<le> n \<and> n \<le> 57 then Some (n - 48) else if 65 \<le> n \<and> n \<le> 70 then Some (n - 55)
     else if 97 \<le> n \<and> n \<le> 102 then Some (n - 87) else None)"

text \<open>\<^verbatim>\<open>url.PathUnescape\<close>; the callers drop the error and go on with the empty string.\<close>

fun unescape :: "string \<Rightarrow> string option" where
  "unescape [] = Some []"
| "unescape (c # cs) = (if c = CHR ''%'' then (case cs of
       a # b # rest \<Rightarrow> (case (hex_val a, hex_val b) of
         (Some x, Some y) \<Rightarrow> map_option ((#) (char_of (16 * x + y))) (unescape rest)
       | _ \<Rightarrow> None)
     | _ \<Rightarrow> None)
   else map_option ((#) c) (unescape cs))"

definition PathUnescape :: "string \<Rightarrow> string" where
  "PathUnescape s = (case unescape s of None \<Rightarrow> '''' | Some t \<Rightarrow> t)"

end
