(* ===== verification/Registry_Store.thy ===== *)
theory Registry_Store
  imports Registry_Text
begin

text \<open>
  The extension registry (\<^verbatim>\<open>apps/registry/internal/store/store.go\<close>): versions and constraints, resolution, listing,
  the publish workflow over the upload directory, the audit log. Maps are lists of entries in iteration order, their
  values are not nil. Hashing and signing are functions in \<open>crypto\<close>.
\<close>

section \<open>Data\<close>

record publisher =
  pub_ID :: string
  pub_Name :: string
  pub_Verified :: bool
  pub_Trust :: string

record artifact_sig =
  sig_Algorithm :: string
  sig_Value :: string
  sig_PublicKeyID :: string

record artifact =
  art_Type :: string
  art_Format :: string
  art_URL :: string
  art_SizeBytes :: int
  art_ChecksumAlgorithm :: string
  art_ChecksumValue :: string
  art_Signature :: "artifact_sig option"
  art_OS :: string
  art_Arch :: string
  art_DeterministicBinary :: bool

record ext_version =
  ev_Version :: string
  ev_ReleaseStatus :: string
  ev_Description :: string
  ev_CoreConstraint :: string
  ev_Capabilities :: "string list"
  ev_Permissions :: "string list"
  ev_Compatibility :: anymap
  ev_Manifest :: anymap
  ev_Integrity :: anymap
  ev_Install :: anymap
  ev_Metadata :: "(string \<times> string) list"
  ev_Artifacts :: "artifact list"
  ev_PublishedAt :: string

record extension =
  ext_ID :: string
  ext_Aliases :: "string list"
  ext_Name :: string
  ext_Type :: string
  ext_PluginKind :: string
  ext_Description :: string
  ext_PublisherID :: string
  ext_Versions :: "(string \<times> ext_version) list"

record session_file =
  sf_Key :: string
  sf_Name :: string
  sf_DeclaredSizeBytes :: int
  sf_DeclaredAlgorithm :: string
  sf_DeclaredChecksum :: string
  sf_Uploaded :: bool
  sf_UploadedSizeBytes :: int

record publish_session =
  ps_ID :: string
  ps_Status :: string
  ps_Publisher :: string
  ps_Extension :: "(string \<times> string) list"
  ps_Files :: "(string \<times> session_file) list"
  ps_CreatedAt :: string
  ps_UpdatedAt :: string
  ps_UploadedAt :: string

record audit_event =
  ae_Time :: string
  ae_Action :: string
  ae_ActorID :: string
  ae_TenantID :: string
  ae_Status :: string
  ae_RequestID :: string
  ae_Details :: anymap

record advisory =
  adv_ID :: string
  adv_ExtensionID :: string
  adv_Severity :: string
  adv_Summary :: string
  adv_AffectedRange :: string
  adv_PatchedVersions :: "string list"
  adv_URL :: string
  adv_PublishedAt :: string
  adv_Metadata :: "(string \<times> string) list"

record reg_data =
  rd_Publishers :: "(string \<times> publisher) list"
  rd_Extensions :: "(string \<times> extension) list"
  rd_Advisories :: "(string \<times> advisory list) list"
  rd_Sessions :: "(string \<times> publish_session) list"
  rd_AuditLog :: "audit_event list"

text \<open>The maps of packages, API keys and organizations are not touched by these operations and left out.\<close>

text \<open>The store in memory, its database file and the files of the upload directory.\<close>

record registry =
  rg_data :: reg_data
  rg_db :: "reg_data option"
  rg_files :: "string \<Rightarrow> string option"

record crypto =
  cr_sha256 :: "string \<Rightarrow> string"
  cr_sign :: "string \<Rightarrow> string"

text \<open>
  \<^verbatim>\<open>os.WriteFile\<close> opens the file and truncates it, and then writes: it writes the body, fails to open
  the file and leaves it as it was, or fails later and leaves the first \<open>n\<close> bytes of the body.
\<close>

datatype write_result = Written | NotWritten | PartWritten nat

definition os_WriteFile :: "write_result \<Rightarrow> string \<Rightarrow> string \<Rightarrow> (string \<Rightarrow> string option) \<Rightarrow> bool \<times> (string \<Rightarrow> string option)" where
  "os_WriteFile w path body fs = (case w of
     Written \<Rightarrow> (True, fs(path \<mapsto> body))
   | NotWritten \<Rightarrow> (False, fs)
   | PartWritten n \<Rightarrow> (False, fs(path \<mapsto> take n body)))"

text \<open>What the system answers to one call: the time, and which file operations fail.\<close>

record reg_io =
  io_nano :: int
  io_now :: string
  io_mkdir :: bool
  io_write :: write_result
  io_read :: bool
  io_save :: bool

section \<open>Versions\<close>

definition parseSemver :: "string \<Rightarrow> (int \<times> int \<times> int) option" where
  "parseSemver v0 =
     (let v1 = TrimSpace (TrimPrefix v0 ''v''); v = takeWhile (\<lambda>c. c \<noteq> CHR ''-'') (takeWhile (\<lambda>c. c \<noteq> CHR ''+'') v1);
          parts = Split (CHR ''.'') v; part = (\<lambda>i. if i < length parts then Atoi (parts ! i) else Some 0)
      in if v1 = '''' then None
      else case (Atoi (hd parts), part 1, part 2) of (Some m, Some n, Some p) \<Rightarrow> Some (m, n, p) | _ \<Rightarrow> None)"

text \<open>No sign is left in the parts, so the differences do not overflow.\<close>

definition compareVersion :: "string \<Rightarrow> string \<Rightarrow> int" where
  "compareVersion a b = (case (parseSemver a, parseSemver b) of
     (Some (am, an, ap), Some (bm, bn, bp)) \<Rightarrow>
       if am \<noteq> bm then sgn (am - bm) else if an \<noteq> bn then sgn (an - bn) else if ap \<noteq> bp then sgn (ap - bp) else 0
   | (Some x, None) \<Rightarrow> 1
   | (None, Some y) \<Rightarrow> - 1
   | (None, None) \<Rightarrow> if a = b then 0 else if str_less b a then 1 else - 1)"

definition splitConstraint :: "string \<Rightarrow> string \<times> string" where
  "splitConstraint s = (case List.find (HasPrefix s) [''>='', ''<='', ''>'', ''<'', ''=''] of
     Some p \<Rightarrow> (p, TrimSpace (TrimPrefix s p)) | None \<Rightarrow> (''='', TrimSpace s))"

definition constraint_part :: "string \<Rightarrow> string \<Rightarrow> bool" where
  "constraint_part core part = (let p = TrimSpace part in
     if p = '''' then True
     else case splitConstraint p of (op, ver) \<Rightarrow> let cmp = compareVersion core ver in
       if op = ''>='' then \<not> cmp < 0
       else if op = ''>'' then \<not> cmp \<le> 0
       else if op = ''<='' then \<not> cmp > 0
       else if op = ''<'' then \<not> cmp \<ge> 0
       else if op = ''='' \<or> op = '''' then cmp = 0 else False)"

definition coreCompatible :: "string \<Rightarrow> string \<Rightarrow> bool" where
  "coreCompatible core0 constraint0 = (let constraint = TrimSpace constraint0 in
     if constraint = '''' \<or> constraint = ''*'' then True
     else let core = TrimSpace core0 in
       if core = '''' then False else list_all (constraint_part core) (Split (CHR '','') constraint))"

definition effectiveCoreConstraint :: "ext_version \<Rightarrow> string" where
  "effectiveCoreConstraint v =
     (if TrimSpace (ev_CoreConstraint v) \<noteq> '''' then TrimSpace (ev_CoreConstraint v)
      else case aget (ev_Compatibility v) ''core'' of AStr c \<Rightarrow> TrimSpace c | _ \<Rightarrow> '''')"

section \<open>Resolution\<close>

definition canonicalID :: "(string \<times> extension) list \<Rightarrow> string \<Rightarrow> string" where
  "canonicalID exts raw0 = (let raw = TrimSpace raw0 in
     if raw = '''' then ''''
     else if raw \<in> fst ` set exts then raw
     else case List.find (\<lambda>(key, e). list_ex (\<lambda>n. EqualFold (TrimSpace n) raw) (ext_Aliases e)) exts of
       Some (key, e) \<Rightarrow> key | None \<Rightarrow> raw)"

definition selectArtifact :: "ext_version \<Rightarrow> string \<Rightarrow> string \<Rightarrow> string \<Rightarrow> artifact option" where
  "selectArtifact v extType goos arch =
     (if ev_Artifacts v = [] then None
      else if extType \<noteq> ''plugin'' then Some (hd (ev_Artifacts v))
      else case List.find (\<lambda>a. EqualFold (TrimSpace (art_OS a)) goos \<and> EqualFold (TrimSpace (art_Arch a)) arch) (ev_Artifacts v) of
        Some a \<Rightarrow> Some a
      | None \<Rightarrow> List.find (\<lambda>a. TrimSpace (art_OS a) = '''' \<and> TrimSpace (art_Arch a) = '''') (ev_Artifacts v))"

definition deterministicBinaryBytes :: "string \<Rightarrow> string \<Rightarrow> string \<Rightarrow> string \<Rightarrow> string" where
  "deterministicBinaryBytes ident version goos arch = ident @ ''@'' @ version @ '':'' @ goos @ ''-'' @ arch"

definition local_signature :: "crypto \<Rightarrow> string \<Rightarrow> artifact_sig" where
  "local_signature C b = \<lparr>sig_Algorithm = ''ed25519'', sig_Value = cr_sign C b, sig_PublicKeyID = ''local-dev''\<rparr>"

text \<open>\<open>url\<close> is the artifact's URL with the platform filled in.\<close>

definition materializeArtifact :: "crypto \<Rightarrow> (string \<Rightarrow> string) \<Rightarrow> string \<Rightarrow> string \<Rightarrow> artifact \<Rightarrow> string \<Rightarrow> string \<Rightarrow> artifact" where
  "materializeArtifact C platform_url ident version a goos arch =
     (let out = a\<lparr>art_URL := platform_url (art_URL a)\<rparr> in
      if \<not> art_DeterministicBinary out then out
      else let b = deterministicBinaryBytes ident version goos arch in
        out\<lparr>art_SizeBytes := int (length b), art_ChecksumAlgorithm := ''sha256'', art_ChecksumValue := cr_sha256 C b,
          art_Signature := Some (local_signature C b)\<rparr>)"

record resolve_input =
  ri_ID :: string
  ri_Core :: string
  ri_OS :: string
  ri_Arch :: string
  ri_Version :: string

datatype reg_error = ExtensionNotFound | PublisherNotFound | NoCompatibleVersion | SignatureRequired | IDVersionRequired
  | BadType | BadPluginKind | NoFiles | BadFileAlgorithm string | ChecksumRequired string | SessionNotFound | KeyRequired
  | KeyNotStaged | ChecksumMismatch string | SizeMismatch string | RegIO string | NotUploaded | VersionExists string
  | VersionNotFound | EmptySession

text \<open>The versions that \<^verbatim>\<open>Resolve\<close> considers.\<close>

definition eligible :: "resolve_input \<Rightarrow> extension \<Rightarrow> ext_version \<Rightarrow> bool" where
  "eligible i ext v \<longleftrightarrow> TrimSpace (ev_ReleaseStatus v) = ''published'' \<and>
     (TrimSpace (ri_Version i) \<noteq> '''' \<longrightarrow> TrimSpace (ev_Version v) = TrimSpace (ri_Version i)) \<and>
     coreCompatible (TrimSpace (ri_Core i)) (effectiveCoreConstraint v) \<and>
     selectArtifact v (ext_Type ext) (TrimSpace (ri_OS i)) (TrimSpace (ri_Arch i)) \<noteq> None"

definition newer :: "ext_version \<Rightarrow> ext_version \<Rightarrow> bool" where
  "newer a b = (let cmp = compareVersion (ev_Version a) (ev_Version b) in
     if cmp \<noteq> 0 then cmp > 0
     else if ev_PublishedAt a \<noteq> ev_PublishedAt b then str_less (ev_PublishedAt b) (ev_PublishedAt a)
     else str_less (ev_Version b) (ev_Version a))"

record resolve_output =
  ro_Extension :: extension
  ro_Version :: ext_version
  ro_Publisher :: publisher
  ro_Artifact :: artifact

definition Resolve_extension ::
  "crypto \<Rightarrow> (string \<Rightarrow> string) \<Rightarrow> reg_data \<Rightarrow> resolve_input \<Rightarrow> reg_error + resolve_output" where
  "Resolve_extension C platform_url d i = (case map_of (rd_Extensions d) (canonicalID (rd_Extensions d) (TrimSpace (ri_ID i))) of
     None \<Rightarrow> Inl ExtensionNotFound
   | Some ext \<Rightarrow> (case map_of (rd_Publishers d) (ext_PublisherID ext) of
       None \<Rightarrow> Inl PublisherNotFound
     | Some pub \<Rightarrow> let candidates = sort_slice newer (filter (eligible i ext) (map snd (ext_Versions ext))) in
         if candidates = [] then Inl NoCompatibleVersion
         else let picked = hd candidates in
           case selectArtifact picked (ext_Type ext) (TrimSpace (ri_OS i)) (TrimSpace (ri_Arch i)) of
             None \<Rightarrow> Inl NoCompatibleVersion
           | Some a \<Rightarrow> let a' = materializeArtifact C platform_url (ext_ID ext) (ev_Version picked) a (TrimSpace (ri_OS i)) (TrimSpace (ri_Arch i)) in
               if pub_Verified pub \<and> art_Signature a' = None then Inl SignatureRequired
               else Inr \<lparr>ro_Extension = ext, ro_Version = picked, ro_Publisher = pub, ro_Artifact = a'\<rparr>))"


section \<open>Listing\<close>

definition latestPublishedMeta :: "extension \<Rightarrow> string \<times> string" where
  "latestPublishedMeta ext = foldl (\<lambda>(best, since) v.
     if TrimSpace (ev_ReleaseStatus v) \<noteq> ''published'' then (best, since)
     else if best = '''' \<or> compareVersion (ev_Version v) best > 0 then (ev_Version v, TrimSpace (ev_PublishedAt v))
     else (best, since)) ('''', '''') (map snd (ext_Versions ext))"

definition latestPublishedVersion :: "extension \<Rightarrow> string" where
  "latestPublishedVersion ext = fst (latestPublishedMeta ext)"

definition page_number :: "int \<Rightarrow> int" where
  "page_number page = (if page \<le> 0 then 1 else page)"

definition page_size :: "int \<Rightarrow> int" where
  "page_size sz = (let s = (if sz \<le> 0 then 20 else sz) in if s > 100 then 100 else s)"

text \<open>The slice of a page, with 64-bit arithmetic; a slice out of range panics.\<close>

definition page_slice :: "int \<Rightarrow> int \<Rightarrow> 'a list \<Rightarrow> 'a list option" where
  "page_slice page sz items =
     (let total = int (length items);
          start0 = wrap64 ((page_number page - 1) * page_size sz); start = (if start0 > total then total else start0);
          end0 = wrap64 (start + page_size sz); last = (if end0 > total then total else end0)
      in if 0 \<le> start \<and> start \<le> last then Some (take (nat (last - start)) (drop (nat start) items)) else None)"

record list_item =
  li_ID :: string
  li_Name :: string
  li_Type :: string
  li_PluginKind :: string
  li_Description :: string
  li_LatestVersion :: string
  li_PublishedAt :: string
  li_Publisher :: publisher

definition no_publisher :: publisher where
  "no_publisher = \<lparr>pub_ID = '''', pub_Name = '''', pub_Verified = False, pub_Trust = ''''\<rparr>"

definition list_item_of :: "reg_data \<Rightarrow> extension \<Rightarrow> list_item" where
  "list_item_of d ext = (case latestPublishedMeta ext of (version, since) \<Rightarrow>
     \<lparr>li_ID = ext_ID ext, li_Name = ext_Name ext, li_Type = ext_Type ext, li_PluginKind = ext_PluginKind ext,
      li_Description = ext_Description ext, li_LatestVersion = version, li_PublishedAt = since,
      li_Publisher = (case map_of (rd_Publishers d) (ext_PublisherID ext) of None \<Rightarrow> no_publisher | Some p \<Rightarrow> p)\<rparr>)"

definition of_kind :: "string \<Rightarrow> string \<Rightarrow> extension \<Rightarrow> bool" where
  "of_kind typ kind ext \<longleftrightarrow> (typ = '''' \<or> ToLower (ext_Type ext) = typ) \<and> (kind = '''' \<or> ToLower (ext_PluginKind ext) = kind)"

definition search_hit :: "string \<Rightarrow> extension \<Rightarrow> bool" where
  "search_hit q ext \<longleftrightarrow> q = '''' \<or>
     Contains (ToLower (ext_ID ext @ '' '' @ ext_Name ext @ '' '' @ ext_Description ext @ '' '' @ join_with '' '' (ext_Aliases ext))) q"

definition search_less :: "list_item \<Rightarrow> list_item \<Rightarrow> bool" where
  "search_less x y = (if li_ID x \<noteq> li_ID y then str_less (li_ID x) (li_ID y) else str_less (li_LatestVersion y) (li_LatestVersion x))"

text \<open>The whole result, the page of it and the total.\<close>

definition search_all :: "reg_data \<Rightarrow> string \<Rightarrow> string \<Rightarrow> string \<Rightarrow> list_item list" where
  "search_all d query typ kind = sort_slice search_less (map (list_item_of d)
     (filter (\<lambda>ext. of_kind (ToLower (TrimSpace typ)) (ToLower (TrimSpace kind)) ext \<and> search_hit (ToLower (TrimSpace query)) ext)
       (map snd (rd_Extensions d))))"

definition Search_extensions :: "reg_data \<Rightarrow> string \<Rightarrow> string \<Rightarrow> string \<Rightarrow> int \<Rightarrow> int \<Rightarrow> (list_item list \<times> int) option" where
  "Search_extensions d query typ kind page sz = (let items = search_all d query typ kind in
     map_option (\<lambda>xs. (xs, int (length items))) (page_slice page sz items))"

definition sort_key :: "string \<Rightarrow> string" where
  "sort_key s = (let t = ToLower (TrimSpace s) in if t \<noteq> ''id'' \<and> t \<noteq> ''publishedat'' then ''publishedat'' else t)"

definition sort_order :: "string \<Rightarrow> string" where
  "sort_order s = (let t = ToLower (TrimSpace s) in if t \<noteq> ''asc'' \<and> t \<noteq> ''desc'' then ''desc'' else t)"

definition list_less :: "string \<Rightarrow> string \<Rightarrow> list_item \<Rightarrow> list_item \<Rightarrow> bool" where
  "list_less key order x y = (let before = (\<lambda>a b. if order = ''asc'' then str_less a b else str_less b a) in
     if key = ''id'' then
       (if EqualFold (li_ID x) (li_ID y) then before (li_PublishedAt x) (li_PublishedAt y) else before (li_ID x) (li_ID y))
     else if li_PublishedAt x = li_PublishedAt y then before (li_ID x) (li_ID y) else before (li_PublishedAt x) (li_PublishedAt y))"

definition list_all_items :: "reg_data \<Rightarrow> string \<Rightarrow> string \<Rightarrow> string \<Rightarrow> string \<Rightarrow> list_item list" where
  "list_all_items d typ kind key order = sort_slice (list_less (sort_key key) (sort_order order)) (map (list_item_of d)
     (filter (of_kind (ToLower (TrimSpace typ)) (ToLower (TrimSpace kind))) (map snd (rd_Extensions d))))"

definition List_extensions :: "reg_data \<Rightarrow> string \<Rightarrow> string \<Rightarrow> int \<Rightarrow> int \<Rightarrow> string \<Rightarrow> string \<Rightarrow> (list_item list \<times> int) option" where
  "List_extensions d typ kind page sz key order = (let items = list_all_items d typ kind key order in
     map_option (\<lambda>xs. (xs, int (length items))) (page_slice page sz items))"

definition GetExtension :: "reg_data \<Rightarrow> string \<Rightarrow> reg_error + extension \<times> publisher" where
  "GetExtension d ident = (case map_of (rd_Extensions d) (canonicalID (rd_Extensions d) ident) of
     None \<Rightarrow> Inl ExtensionNotFound
   | Some ext \<Rightarrow> (case map_of (rd_Publishers d) (ext_PublisherID ext) of None \<Rightarrow> Inl PublisherNotFound | Some p \<Rightarrow> Inr (ext, p)))"

definition version_before :: "ext_version \<Rightarrow> ext_version \<Rightarrow> bool" where
  "version_before a b = (let cmp = compareVersion (ev_Version a) (ev_Version b) in
     if cmp \<noteq> 0 then cmp > 0 else str_less (ev_PublishedAt b) (ev_PublishedAt a))"

definition ListVersions :: "reg_data \<Rightarrow> string \<Rightarrow> reg_error + ext_version list" where
  "ListVersions d ident = (case map_of (rd_Extensions d) (canonicalID (rd_Extensions d) ident) of
     None \<Rightarrow> Inl ExtensionNotFound
   | Some ext \<Rightarrow> Inr (sort_slice version_before (map snd (ext_Versions ext))))"

definition GetVersion :: "reg_data \<Rightarrow> string \<Rightarrow> string \<Rightarrow> reg_error + ext_version \<times> extension" where
  "GetVersion d ident version = (case map_of (rd_Extensions d) (canonicalID (rd_Extensions d) ident) of
     None \<Rightarrow> Inl ExtensionNotFound
   | Some ext \<Rightarrow> (case map_of (ext_Versions ext) (TrimSpace version) of None \<Rightarrow> Inl VersionNotFound | Some v \<Rightarrow> Inr (v, ext)))"

definition advisory_before :: "advisory \<Rightarrow> advisory \<Rightarrow> bool" where
  "advisory_before a b = (if adv_PublishedAt a \<noteq> adv_PublishedAt b then str_less (adv_PublishedAt b) (adv_PublishedAt a)
     else str_less (adv_ID a) (adv_ID b))"

definition ListAdvisories :: "reg_data \<Rightarrow> string \<Rightarrow> reg_error + advisory list" where
  "ListAdvisories d ident = (let key = canonicalID (rd_Extensions d) ident in
     if key \<notin> fst ` set (rd_Extensions d) then Inl ExtensionNotFound
     else Inr (sort_slice advisory_before (case map_of (rd_Advisories d) key of None \<Rightarrow> [] | Some advs \<Rightarrow> advs)))"

section \<open>Audit log\<close>

text \<open>\<^verbatim>\<open>saveLocked\<close> after a change of the data in memory.\<close>

definition save_data :: "reg_io \<Rightarrow> reg_data \<Rightarrow> registry \<Rightarrow> bool \<times> registry" where
  "save_data io d s = (io_save io, s\<lparr>rg_data := d, rg_db := (if io_save io then Some d else rg_db s)\<rparr>)"

definition recordAuditJSON :: "reg_io \<Rightarrow> audit_event \<Rightarrow> registry \<Rightarrow> bool \<times> registry" where
  "recordAuditJSON io ev s = (let log = rd_AuditLog (rg_data s) @ [ev] in
     save_data io ((rg_data s)\<lparr>rd_AuditLog := (if length log > 5000 then drop (length log - 5000) log else log)\<rparr>) s)"

definition listAuditJSON :: "registry \<Rightarrow> int \<Rightarrow> audit_event list" where
  "listAuditJSON s limit0 = (let limit = (if limit0 \<le> 0 \<or> limit0 > 500 then 100 else limit0); log = rd_AuditLog (rg_data s);
       start0 = int (length log) - limit; start = (if start0 < 0 then 0 else start0)
     in drop (nat start) log)"

end
