(* ===== verification/Registry_Publish.thy ===== *)
theory Registry_Publish
  imports Registry_Store
begin

text \<open>
  The publish workflow of \<^verbatim>\<open>store.go\<close>: stage a session with the checksums of its files, upload the files, finalize
  the session into a version. A session is changed through a pointer, so a change stays in memory when the
  database cannot be written. \<^verbatim>\<open>handleUploads\<close> of \<^verbatim>\<open>server.go\<close> is the only caller of the upload.
\<close>

record publish_file_input =
  pf_Key :: string
  pf_Name :: string
  pf_SizeBytes :: int
  pf_Algorithm :: string
  pf_Checksum :: string

record publish_init_input =
  pi_Publisher :: string
  pi_ID :: string
  pi_Version :: string
  pi_Type :: string
  pi_PluginKind :: string
  pi_Description :: string
  pi_Files :: "publish_file_input list"

definition ext_type :: "string \<Rightarrow> string" where
  "ext_type s = (let t = ToLower (TrimSpace s) in if t = '''' then ''plugin'' else t)"

definition check_init :: "publish_init_input \<Rightarrow> reg_error option" where
  "check_init i =
     (if TrimSpace (pi_ID i) = '''' \<or> TrimSpace (pi_Version i) = '''' then Some IDVersionRequired
      else if ext_type (pi_Type i) \<notin> {''plugin'', ''addon''} then Some BadType
      else if ext_type (pi_Type i) = ''plugin'' \<and> ToLower (TrimSpace (pi_PluginKind i)) \<notin> {''provider'', ''runtime'', ''simulator''}
        then Some BadPluginKind
      else if pi_Files i = [] then Some NoFiles else None)"

text \<open>The loop over the files; a key that comes again replaces the earlier file.\<close>

fun stage_publish_files :: "publish_file_input list \<Rightarrow> (string \<times> session_file) list \<Rightarrow> reg_error + (string \<times> session_file) list" where
  "stage_publish_files [] out = Inr out"
| "stage_publish_files (f # fs) out =
     (let key = (if TrimSpace (pf_Key f) = '''' then ''artifact'' else TrimSpace (pf_Key f));
          alg = (if ToLower (TrimSpace (pf_Algorithm f)) = '''' then ''sha256'' else ToLower (TrimSpace (pf_Algorithm f)));
          chk = ToLower (TrimSpace (pf_Checksum f))
      in if alg \<noteq> ''sha256'' then Inl (BadFileAlgorithm key)
      else if chk = '''' then Inl (ChecksumRequired key)
      else stage_publish_files fs (AList.update key \<lparr>sf_Key = key, sf_Name = TrimSpace (pf_Name f), sf_DeclaredSizeBytes = pf_SizeBytes f,
        sf_DeclaredAlgorithm = alg, sf_DeclaredChecksum = chk, sf_Uploaded = False, sf_UploadedSizeBytes = 0\<rparr> out))"

definition session_id :: "reg_io \<Rightarrow> string" where
  "session_id io = ''pub_local_'' @ itoa (io_nano io)"

definition new_session :: "reg_io \<Rightarrow> publish_init_input \<Rightarrow> (string \<times> session_file) list \<Rightarrow> publish_session" where
  "new_session io i files = \<lparr>ps_ID = session_id io, ps_Status = ''staged'', ps_Publisher = TrimSpace (pi_Publisher i),
     ps_Extension = [(''id'', TrimSpace (pi_ID i)), (''version'', TrimSpace (pi_Version i)), (''type'', ext_type (pi_Type i)),
       (''pluginKind'', TrimSpace (pi_PluginKind i)), (''description'', TrimSpace (pi_Description i))],
     ps_Files = files, ps_CreatedAt = io_now io, ps_UpdatedAt = io_now io, ps_UploadedAt = ''''\<rparr>"

definition put_session :: "publish_session \<Rightarrow> reg_data \<Rightarrow> reg_data" where
  "put_session sess d = d\<lparr>rd_Sessions := AList.update (ps_ID sess) sess (rd_Sessions d)\<rparr>"

definition CreatePublishSession :: "reg_io \<Rightarrow> publish_init_input \<Rightarrow> registry \<Rightarrow> (reg_error + publish_session) \<times> registry" where
  "CreatePublishSession io i s = (case check_init i of Some e \<Rightarrow> (Inl e, s)
   | None \<Rightarrow> (case stage_publish_files (pi_Files i) [] of Inl e \<Rightarrow> (Inl e, s)
     | Inr files \<Rightarrow> let sess = new_session io i files in
         case save_data io (put_session sess (rg_data s)) s of
           (ok, s') \<Rightarrow> (if ok then Inr sess else Inl (RegIO ''save''), s')))"

definition upload_dir :: "string \<Rightarrow> string \<Rightarrow> string" where
  "upload_dir uploads publishID = Join [uploads, publishID]"

definition uploaded_file :: "string \<Rightarrow> session_file \<Rightarrow> session_file" where
  "uploaded_file body f = f\<lparr>sf_Uploaded := True, sf_UploadedSizeBytes := int (length body)\<rparr>"

definition UploadPublishFile ::
  "crypto \<Rightarrow> string \<Rightarrow> reg_io \<Rightarrow> string \<Rightarrow> string \<Rightarrow> string \<Rightarrow> registry \<Rightarrow> reg_error option \<times> registry" where
  "UploadPublishFile C uploads io publishID0 key0 body s = (let publishID = TrimSpace publishID0; key = TrimSpace key0 in
     if publishID = '''' \<or> key = '''' then (Some KeyRequired, s)
     else case map_of (rd_Sessions (rg_data s)) publishID of None \<Rightarrow> (Some SessionNotFound, s)
     | Some sess \<Rightarrow> (case map_of (ps_Files sess) key of None \<Rightarrow> (Some KeyNotStaged, s)
       | Some file \<Rightarrow>
           if \<not> EqualFold (cr_sha256 C body) (sf_DeclaredChecksum file) then (Some (ChecksumMismatch key), s)
           else if sf_DeclaredSizeBytes file > 0 \<and> sf_DeclaredSizeBytes file \<noteq> int (length body) then (Some (SizeMismatch key), s)
           else if \<not> io_mkdir io then (Some (RegIO ''mkdir''), s)
           else case os_WriteFile (io_write io) (Join [upload_dir uploads publishID, key]) body (rg_files s) of (written, fs) \<Rightarrow>
             let s1 = s\<lparr>rg_files := fs\<rparr> in
             if \<not> written then (Some (RegIO ''write''), s1)
             else let sess' = sess\<lparr>ps_Files := AList.update key (uploaded_file body file) (ps_Files sess), ps_Status := ''uploaded'',
                  ps_UpdatedAt := io_now io, ps_UploadedAt := io_now io\<rparr>
             in case save_data io ((rg_data s1)\<lparr>rd_Sessions := AList.update publishID sess' (rd_Sessions (rg_data s1))\<rparr>) s1 of
               (ok, s') \<Rightarrow> (if ok then None else Some (RegIO ''save''), s')))"

definition PublishStatus :: "registry \<Rightarrow> string \<Rightarrow> reg_error + publish_session" where
  "PublishStatus s publishID = (case map_of (rd_Sessions (rg_data s)) (TrimSpace publishID) of
     None \<Rightarrow> Inl SessionNotFound | Some sess \<Rightarrow> Inr sess)"

definition artifactFormatFromName :: "string \<Rightarrow> string" where
  "artifactFormatFromName name = (let lower = ToLower (TrimSpace name) in
     if HasSuffix lower ''.tar.gz'' then ''tar.gz'' else if HasSuffix lower ''.tgz'' then ''tgz''
     else if HasSuffix lower ''.zip'' then ''zip'' else ''executable'')"

definition sess_field :: "publish_session \<Rightarrow> string \<Rightarrow> string" where
  "sess_field sess k = (case map_of (ps_Extension sess) k of None \<Rightarrow> '''' | Some v \<Rightarrow> TrimSpace v)"

text \<open>The extension a session publishes to: the one with its id, whoever publishes it, or a new one.\<close>

definition target_extension :: "reg_data \<Rightarrow> publish_session \<Rightarrow> extension" where
  "target_extension d sess = (let extID = sess_field sess ''id'';
       desc = (if sess_field sess ''description'' = '''' then extID else sess_field sess ''description'')
     in case map_of (rd_Extensions d) extID of Some ext \<Rightarrow> ext
     | None \<Rightarrow> \<lparr>ext_ID = extID, ext_Aliases = [], ext_Name = extID, ext_Type = sess_field sess ''type'',
         ext_PluginKind = sess_field sess ''pluginKind'', ext_Description = desc, ext_PublisherID = ps_Publisher sess, ext_Versions = []\<rparr>)"

definition put_extension :: "extension \<Rightarrow> string \<Rightarrow> reg_data \<Rightarrow> reg_data" where
  "put_extension ext key d = d\<lparr>rd_Extensions := AList.update key ext (rd_Extensions d)\<rparr>"

definition new_artifact :: "crypto \<Rightarrow> reg_data \<Rightarrow> publish_session \<Rightarrow> string \<Rightarrow> session_file \<Rightarrow> string \<Rightarrow> artifact" where
  "new_artifact C d sess key file b = \<lparr>
     art_Type = (if sess_field sess ''type'' = ''plugin'' then ''binary'' else ''addon''),
     art_Format = artifactFormatFromName (sf_Name file),
     art_URL = ''/v1/uploads/'' @ PathEscape (ps_ID sess) @ ''/'' @ PathEscape key,
     art_SizeBytes = int (length b), art_ChecksumAlgorithm = ''sha256'', art_ChecksumValue = sf_DeclaredChecksum file,
     art_Signature = (case map_of (rd_Publishers d) (ps_Publisher sess) of None \<Rightarrow> None
       | Some pub \<Rightarrow> if pub_Verified pub \<and> sess_field sess ''type'' = ''plugin'' then Some (local_signature C b) else None),
     art_OS = '''', art_Arch = '''', art_DeterministicBinary = False\<rparr>"

definition new_version :: "reg_io \<Rightarrow> publish_session \<Rightarrow> artifact \<Rightarrow> ext_version" where
  "new_version io sess a = \<lparr>ev_Version = sess_field sess ''version'', ev_ReleaseStatus = ''published'',
     ev_Description = (if sess_field sess ''description'' = '''' then sess_field sess ''id'' else sess_field sess ''description''),
     ev_CoreConstraint = ''>=0.9.0'', ev_Capabilities = [], ev_Permissions = [], ev_Compatibility = [(''core'', AStr ''>=0.9.0'')],
     ev_Manifest = [], ev_Integrity = [], ev_Install = [], ev_Metadata = [], ev_Artifacts = [a], ev_PublishedAt = io_now io\<rparr>"

text \<open>The end of \<^verbatim>\<open>FinalizePublish\<close>: the version of the file read, the published session, and the database.\<close>

definition commit_version ::
  "crypto \<Rightarrow> reg_io \<Rightarrow> string \<Rightarrow> publish_session \<Rightarrow> extension \<Rightarrow> string \<Rightarrow> session_file \<Rightarrow> string \<Rightarrow> registry \<Rightarrow> bool \<times> registry" where
  "commit_version C io publishID sess ext key file b s =
     (let v = new_version io sess (new_artifact C (rg_data s) sess key file b);
          d = put_extension (ext\<lparr>ext_Versions := AList.update (sess_field sess ''version'') v (ext_Versions ext)\<rparr>) (sess_field sess ''id'') (rg_data s);
          sess' = sess\<lparr>ps_Status := ''published'', ps_UpdatedAt := io_now io\<rparr>
      in save_data io (d\<lparr>rd_Sessions := AList.update publishID sess' (rd_Sessions d)\<rparr>) s)"

text \<open>
  \<^verbatim>\<open>FinalizePublish\<close>. A new extension is in the map before the checks that follow, so it stays, without versions,
  when one of them fails; the check for a missing signature cannot fail and is left out.
\<close>

definition FinalizePublish :: "crypto \<Rightarrow> string \<Rightarrow> reg_io \<Rightarrow> string \<Rightarrow> registry \<Rightarrow> (reg_error + publish_session) \<times> registry" where
  "FinalizePublish C uploads io publishID s = (case map_of (rd_Sessions (rg_data s)) (TrimSpace publishID) of
     None \<Rightarrow> (Inl SessionNotFound, s)
   | Some sess \<Rightarrow>
       if list_ex (\<lambda>(k, f). \<not> sf_Uploaded f) (ps_Files sess) then (Inl NotUploaded, s)
       else let extID = sess_field sess ''id''; ver = sess_field sess ''version''; ext = target_extension (rg_data s) sess;
           s1 = s\<lparr>rg_data := put_extension ext extID (rg_data s)\<rparr>
         in if ver \<in> fst ` set (ext_Versions ext) then (Inl (VersionExists ver), s1)
         else case sort_slice str_less (map fst (ps_Files sess)) of [] \<Rightarrow> (Inl EmptySession, s1)
         | key # keys \<Rightarrow> (case map_of (ps_Files sess) key of None \<Rightarrow> (Inl EmptySession, s1)
           | Some file \<Rightarrow> (case (if io_read io then rg_files s1 (Join [uploads, ps_ID sess, key]) else None) of
               None \<Rightarrow> (Inl (RegIO ''read''), s1)
             | Some b \<Rightarrow> (case commit_version C io (TrimSpace publishID) sess ext key file b s1 of
                 (ok, s') \<Rightarrow> (if ok then Inr (sess\<lparr>ps_Status := ''published'', ps_UpdatedAt := io_now io\<rparr>) else Inl (RegIO ''save''), s')))))"

section \<open>The upload endpoint\<close>

datatype http_method = GET | PUT | POST | PATCH | DELETE

primrec method_name :: "http_method \<Rightarrow> string" where
  "method_name GET = ''GET''"
| "method_name PUT = ''PUT''"
| "method_name POST = ''POST''"
| "method_name PATCH = ''PATCH''"
| "method_name DELETE = ''DELETE''"

datatype upload_reply = BadRequest | UploadError reg_error | Stored | FileNotFound | Content string | MethodNotAllowed

text \<open>Who asks, for the audit log: subject, tenant and request id; an identity without a tenant is an anonymous one here.\<close>

record requester =
  rq_Subject :: string
  rq_Tenant :: string
  rq_Anonymous :: bool
  rq_RequestID :: string

text \<open>\<^verbatim>\<open>Server.audit\<close>: an entry that cannot be saved is dropped without notice.\<close>

definition audit :: "reg_io \<Rightarrow> requester \<Rightarrow> string \<Rightarrow> string \<Rightarrow> anymap \<Rightarrow> registry \<Rightarrow> registry" where
  "audit io rq action status details s = snd (recordAuditJSON io \<lparr>ae_Time = io_now io, ae_Action = action,
     ae_ActorID = (if TrimSpace (rq_Subject rq) \<noteq> '''' then TrimSpace (rq_Subject rq) else if rq_Anonymous rq then ''anonymous'' else ''unknown''),
     ae_TenantID = (if TrimSpace (rq_Tenant rq) \<noteq> '''' then TrimSpace (rq_Tenant rq) else if rq_Anonymous rq then ''public'' else ''unknown''),
     ae_Status = status, ae_RequestID = rq_RequestID rq, ae_Details = details\<rparr> s)"

text \<open>
  \<^verbatim>\<open>handleUploads\<close> on the decoded path of the request; \<^verbatim>\<open>SplitN\<close> splits at the first slash. The body is
  \<^term>\<open>None\<close> when reading it fails. The texts of causes are left out of the audit details.
\<close>

definition handleUploads ::
  "crypto \<Rightarrow> string \<Rightarrow> reg_io \<Rightarrow> requester \<Rightarrow> http_method \<Rightarrow> string \<Rightarrow> string option \<Rightarrow> registry \<Rightarrow> upload_reply \<times> registry" where
  "handleUploads C uploads io rq meth path body s =
     (let rest = TrimPrefix path ''/v1/uploads/''; p0 = takeWhile (\<lambda>c. c \<noteq> CHR ''/'') rest; q = dropWhile (\<lambda>c. c \<noteq> CHR ''/'') rest in
      if q = [] \<or> TrimSpace p0 = '''' \<or> TrimSpace (tl q) = '''' then
        (BadRequest, audit io rq ''publish_upload'' ''error'' [(''path'', AStr path)] s)
      else let publishID = PathUnescape p0; key = PathUnescape (tl q); about = [(''publishId'', AStr publishID), (''key'', AStr key)] in
        if Contains key ''..'' then (BadRequest, s)
        else case meth of
          PUT \<Rightarrow> (case body of None \<Rightarrow> (BadRequest, audit io rq ''publish_upload'' ''error'' about s)
            | Some b0 \<Rightarrow> let b = take (64 * 1024 * 1024) b0 in
                (case UploadPublishFile C uploads io publishID key b s of
                  (Some e, s') \<Rightarrow> (UploadError e, audit io rq ''publish_upload'' ''error'' about s')
                | (None, s') \<Rightarrow> (Stored, audit io rq ''publish_upload'' ''ok'' (about @ [(''sizeBytes'', AInt (int (length b)))]) s')))
        | GET \<Rightarrow> (case (if io_read io then rg_files s (Join [uploads, publishID, key]) else None) of
            None \<Rightarrow> (FileNotFound, audit io rq ''upload_download'' ''error'' about s)
          | Some b \<Rightarrow> (Content b, audit io rq ''upload_download'' ''ok'' (about @ [(''sizeBytes'', AInt (int (length b)))]) s))
        | _ \<Rightarrow> (MethodNotAllowed, audit io rq ''method_not_allowed'' ''error'' [(''method'', AStr (method_name meth))] s))"

end
