(* ===== verification/Registry_Order.thy ===== *)
theory Registry_Order
  imports Registry_Publish
begin

text \<open>
  The order of versions by which the registry resolves is a weak order.
\<close>

section \<open>The order of versions\<close>

lemma weak_order_lex:
  assumes "weak_order p" and "weak_order q"
  shows "weak_order (\<lambda>a b. p a b \<or> \<not> p b a \<and> q a b)"
proof -
  have p: "\<And>x. \<not> p x x" "\<And>x y z. p x y \<Longrightarrow> p y z \<Longrightarrow> p x z" "\<And>x y z. p x z \<Longrightarrow> p x y \<or> p y z"
    and q: "\<And>x. \<not> q x x" "\<And>x y z. q x y \<Longrightarrow> q y z \<Longrightarrow> q x z" "\<And>x y z. q x z \<Longrightarrow> q x y \<or> q y z"
    using assms unfolding weak_order_def by blast+
  show ?thesis unfolding weak_order_def
  proof (intro conjI allI impI)
    show "\<not> (p x x \<or> \<not> p x x \<and> q x x)" for x using p(1) q(1) by blast
    show "p x z \<or> \<not> p z x \<and> q x z" if "p x y \<or> \<not> p y x \<and> q x y" "p y z \<or> \<not> p z y \<and> q y z" for x y z
      using that p(2) [of x y z] p(3) [of z x y] p(3) [of x y z] p(3) [of y z x] q(2) [of x y z] by blast
    show "(p x y \<or> \<not> p y x \<and> q x y) \<or> p y z \<or> \<not> p z y \<and> q y z" if "p x z \<or> \<not> p z x \<and> q x z" for x y z
      using that p(3) [of x z y] p(2) [of y x z] p(2) [of z y x] q(3) [of x z y] p(2) [of z y x] p(3) [of y x z] p(3) [of z y x] by blast
  qed
qed

lemma weak_order_image: "weak_order p \<Longrightarrow> weak_order (\<lambda>a b. p (f a) (f b))"
  unfolding weak_order_def by blast

lemma weak_order_converse: "weak_order p \<Longrightarrow> weak_order (\<lambda>a b. p b a)"
  unfolding weak_order_def by blast

lemma compareVersion_pos:
  "compareVersion a b > 0 \<longleftrightarrow> (case (parseSemver a, parseSemver b) of
     (Some (am, an, ap), Some (bm, bn, bp)) \<Rightarrow> bm < am \<or> bm = am \<and> (bn < an \<or> bn = an \<and> bp < ap)
   | (Some x, None) \<Rightarrow> True | (None, Some y) \<Rightarrow> False | (None, None) \<Rightarrow> str_less b a)"
  using str_less_irrefl by (auto simp: compareVersion_def split: option.split prod.split)

lemma compareVersion_sym: "compareVersion b a = - compareVersion a b"
proof -
  have "\<not> (str_less a b \<and> str_less b a)" using str_less_trans str_less_irrefl by blast
  then show ?thesis using str_less_total [of a b]
    by (auto simp: compareVersion_def sgn_if split: option.split prod.split)
qed

lemma version_weak: "weak_order (\<lambda>a b. compareVersion a b > 0)"
  unfolding weak_order_def
proof (intro conjI allI impI)
  show "\<not> compareVersion x x > 0" for x by (simp add: compareVersion_pos split: option.split)
  show "compareVersion x z > 0" if "compareVersion x y > 0" "compareVersion y z > 0" for x y z
    using that str_less_trans by (auto simp: compareVersion_pos split: option.splits)
  show "compareVersion x y > 0 \<or> compareVersion y z > 0" if "compareVersion x z > 0" for x y z
    using that str_less_cotrans by (auto simp: compareVersion_pos split: option.splits)
qed

lemma newer_weak: "weak_order newer"
proof -
  have s: "weak_order (\<lambda>a b. str_less b a)" by (rule weak_order_converse) (rule str_less_weak)
  have e: "newer = (\<lambda>a b. compareVersion (ev_Version a) (ev_Version b) > 0 \<or>
      \<not> compareVersion (ev_Version b) (ev_Version a) > 0 \<and>
      (str_less (ev_PublishedAt b) (ev_PublishedAt a) \<or> \<not> str_less (ev_PublishedAt a) (ev_PublishedAt b) \<and>
        str_less (ev_Version b) (ev_Version a)))"
  proof (intro ext)
    fix a b
    show "newer a b \<longleftrightarrow> compareVersion (ev_Version a) (ev_Version b) > 0 \<or>
      \<not> compareVersion (ev_Version b) (ev_Version a) > 0 \<and>
      (str_less (ev_PublishedAt b) (ev_PublishedAt a) \<or> \<not> str_less (ev_PublishedAt a) (ev_PublishedAt b) \<and>
        str_less (ev_Version b) (ev_Version a))"
      using compareVersion_sym [of "ev_Version b" "ev_Version a"] str_less_total [of "ev_PublishedAt a" "ev_PublishedAt b"]
      by (auto simp: newer_def Let_def)
  qed
  have w: "weak_order (\<lambda>a b. str_less (ev_PublishedAt b) (ev_PublishedAt a) \<or>
      \<not> str_less (ev_PublishedAt a) (ev_PublishedAt b) \<and> str_less (ev_Version b) (ev_Version a))"
    using weak_order_image [OF s, of ev_PublishedAt] weak_order_image [OF s, of ev_Version] by (rule weak_order_lex)
  show ?thesis unfolding e by (rule weak_order_lex [OF weak_order_image [OF version_weak, of ev_Version] w])
qed

end
