(* ===== verification/Registry_Paths.thy ===== *)
theory Registry_Paths
  imports Registry_Publish
begin

text \<open>Lemmas on splitting and cleaning paths, and on the escapes of path segments.\<close>

definition slashfree :: "string \<Rightarrow> bool" where
  "slashfree p \<longleftrightarrow> CHR ''/'' \<notin> set p"

text \<open>A plain name is one component of a path that cleaning keeps.\<close>

definition plain :: "string \<Rightarrow> bool" where
  "plain p \<longleftrightarrow> p \<noteq> '''' \<and> p \<noteq> ''.'' \<and> p \<noteq> ''..'' \<and> slashfree p"

section \<open>Splitting\<close>

lemma Split_not_Nil [simp]: "Split c s \<noteq> []"
  by (induction s) (auto split: list.split)

lemma Split_Cons: "x \<noteq> c \<Longrightarrow> Split c (x # xs) = (x # hd (Split c xs)) # tl (Split c xs)"
  by (cases "Split c xs") auto

lemma Split_free: "c \<notin> set s \<Longrightarrow> Split c s = [s]"
  by (induction s) auto

lemma Split_append: "c \<notin> set p \<Longrightarrow> Split c (p @ c # s) = p # Split c s"
  by (induction p) auto

lemma Split_append_gen: "Split c (s @ c # t) = Split c s @ Split c t"
proof (induction s)
  case (Cons x s)
  then show ?case by (cases "Split c s") (auto split: list.split)
qed simp

lemma Split_parts: "p \<in> set (Split c s) \<Longrightarrow> c \<notin> set p"
proof (induction s arbitrary: p)
  case (Cons x s)
  then show ?case by (cases "Split c s") (auto split: if_splits)
qed simp

lemma join_with_Cons: "ss \<noteq> [] \<Longrightarrow> join_with sep (s # ss) = s @ sep @ join_with sep ss"
  by (cases ss) auto

lemma Split_join: "ss \<noteq> [] \<Longrightarrow> \<forall>s \<in> set ss. c \<notin> set s \<Longrightarrow> Split c (join_with [c] ss) = ss"
proof (induction ss)
  case (Cons s ss)
  show ?case
  proof (cases "ss = []")
    case True
    with Cons.prems show ?thesis by (simp add: Split_free)
  next
    case False
    with Cons show ?thesis by (simp add: join_with_Cons Split_append)
  qed
qed simp

lemma join_inject:
  assumes "\<forall>s \<in> set ss. slashfree s" "\<forall>s \<in> set ts. slashfree s" "ss \<noteq> []" "ts \<noteq> []"
    and "join_with ''/'' ss = join_with ''/'' ts"
  shows "ss = ts"
  using assms Split_join unfolding slashfree_def by metis

section \<open>Cleaning\<close>

definition ordinary :: "string \<Rightarrow> bool" where
  "ordinary p \<longleftrightarrow> p \<noteq> '''' \<and> p \<noteq> ''.'' \<and> p \<noteq> ''..''"

lemma plain_ordinary: "plain p \<Longrightarrow> ordinary p \<and> slashfree p"
  by (simp add: plain_def ordinary_def)

lemma clean_parts_append: "clean_parts rooted acc (ps @ qs) = clean_parts rooted (rev (clean_parts rooted acc ps)) qs"
  by (induction rooted acc ps rule: clean_parts.induct) (auto split: list.split)

lemma clean_parts_ordinary: "\<forall>p \<in> set ps. ordinary p \<Longrightarrow> clean_parts rooted acc ps = rev acc @ ps"
  by (induction ps arbitrary: acc) (auto simp: ordinary_def)

lemma clean_parts_slashfree:
  assumes "\<forall>p \<in> set ps. slashfree p" "\<forall>p \<in> set acc. slashfree p"
  shows "\<forall>p \<in> set (clean_parts rooted acc ps). slashfree p"
proof -
  have "set (clean_parts rooted acc ps) \<subseteq> insert ''..'' (set acc \<union> set ps)"
  proof (induction ps arbitrary: acc)
    case (Cons p ps)
    show ?case
      using Cons.IH [of acc] Cons.IH [of "p # acc"] Cons.IH [of "''..'' # acc"] Cons.IH [of "tl acc"] Cons.IH [of "[]"] Cons.IH [of "[''..'']"]
      by (cases acc) auto
  qed auto
  moreover have "slashfree ''..''" by (simp add: slashfree_def)
  ultimately show ?thesis using assms by blast
qed

text \<open>What cleaning leaves is clean: ordinary names, behind steps up if the path is relative.\<close>

definition clean_stack :: "bool \<Rightarrow> string list \<Rightarrow> bool" where
  "clean_stack rooted acc \<longleftrightarrow> (\<exists>xs n. acc = xs @ replicate n ''..'' \<and> (\<forall>x \<in> set xs. ordinary x) \<and> (rooted \<longrightarrow> n = 0))"

lemma clean_stack_step:
  "clean_stack rooted [] = True" "ordinary p \<Longrightarrow> clean_stack rooted acc \<Longrightarrow> clean_stack rooted (p # acc)"
  "clean_stack rooted (a # as) \<Longrightarrow> a \<noteq> ''..'' \<Longrightarrow> clean_stack rooted as"
  "clean_stack rooted (''..'' # as) \<Longrightarrow> \<not> rooted \<and> (\<exists>n. as = replicate n ''..'')"
  "\<not> rooted \<Longrightarrow> clean_stack rooted (replicate n ''..'')"
proof -
  show "clean_stack rooted [] = True" by (simp add: clean_stack_def)
  show "clean_stack rooted (p # acc)" if "ordinary p" "clean_stack rooted acc"
  proof -
    from that(2) obtain xs n where "acc = xs @ replicate n ''..''" "\<forall>x \<in> set xs. ordinary x" "rooted \<longrightarrow> n = 0"
      by (auto simp: clean_stack_def)
    with that(1) show ?thesis unfolding clean_stack_def by (intro exI [of _ "p # xs"] exI [of _ n]) simp
  qed
  show "clean_stack rooted as" if "clean_stack rooted (a # as)" "a \<noteq> ''..''"
  proof -
    from that(1) obtain xs n where "a # as = xs @ replicate n ''..''" "\<forall>x \<in> set xs. ordinary x" "rooted \<longrightarrow> n = 0"
      by (auto simp: clean_stack_def)
    with that(2) have "as = tl xs @ replicate n ''..''" by (cases xs; cases n) auto
    moreover have "\<forall>x \<in> set (tl xs). ordinary x" using \<open>\<forall>x \<in> set xs. ordinary x\<close> by (cases xs) auto
    ultimately show ?thesis using \<open>rooted \<longrightarrow> n = 0\<close> unfolding clean_stack_def by blast
  qed
  show "\<not> rooted \<and> (\<exists>n. as = replicate n ''..'')" if "clean_stack rooted (''..'' # as)"
  proof -
    from that obtain xs n where x: "''..'' # as = xs @ replicate n ''..''" "\<forall>x \<in> set xs. ordinary x" "rooted \<longrightarrow> n = 0"
      by (auto simp: clean_stack_def)
    then have "xs = []" by (cases xs) (auto simp: ordinary_def)
    with x show ?thesis by (cases n) auto
  qed
  show "clean_stack rooted (replicate n ''..'')" if "\<not> rooted"
    using that unfolding clean_stack_def by (intro exI [of _ "[]"] exI [of _ n]) simp
qed

lemma clean_parts_stack: "clean_stack rooted acc \<Longrightarrow> clean_stack rooted (rev (clean_parts rooted acc ps))"
proof (induction rooted acc ps rule: clean_parts.induct)
  case (2 rooted acc p ps)
  show ?case
  proof (cases "p = '''' \<or> p = ''.''")
    case True
    with 2 show ?thesis by auto
  next
    case False
    show ?thesis
    proof (cases "p = ''..''")
      case True
      show ?thesis
      proof (cases acc)
        case Nil
        have "clean_stack rooted (if rooted then [] else [''..''])"
          using clean_stack_step(1) clean_stack_step(5) [of rooted 1] by simp
        with 2(2) True Nil show ?thesis by simp
      next
        case (Cons a as)
        have "clean_stack rooted (if a = ''..'' then ''..'' # acc else as)"
        proof (cases "a = ''..''")
          case True
          then obtain n where "\<not> rooted" "as = replicate n ''..''" using 2(5) Cons clean_stack_step(4) by metis
          then show ?thesis using clean_stack_step(5) [of rooted "Suc (Suc n)"] True Cons by simp
        next
          case False
          then show ?thesis using 2(5) Cons clean_stack_step(3) by simp
        qed
        with 2(3) True Cons show ?thesis by (simp split: if_splits)
      qed
    next
      case False
      with \<open>\<not> (p = '''' \<or> p = ''.'')\<close> have "ordinary p" by (simp add: ordinary_def)
      with False 2 clean_stack_step(2) show ?thesis by (auto simp: ordinary_def)
    qed
  qed
qed simp


lemma clean_parts_clean:
  assumes "clean_stack rooted acc"
  shows "clean_parts rooted [] (rev acc) = rev acc"
proof -
  from assms obtain xs n where acc: "acc = xs @ replicate n ''..''" "\<forall>x \<in> set xs. ordinary x" "rooted \<longrightarrow> n = 0"
    by (auto simp: clean_stack_def)
  have ups: "\<not> rooted \<Longrightarrow> clean_parts rooted (replicate m ''..'') (replicate n ''..'') = replicate (m + n) ''..''" for m n
  proof (induction n arbitrary: m)
    case (Suc n)
    have "clean_parts rooted (replicate m ''..'') (replicate (Suc n) ''..'') = clean_parts rooted (replicate (Suc m) ''..'') (replicate n ''..'')"
      using Suc.prems by (cases m) auto
    also have "\<dots> = replicate (Suc m + n) ''..''" using Suc.prems by (rule Suc.IH)
    finally show ?case by simp
  qed simp
  have "clean_parts rooted [] (replicate n ''..'') = replicate n ''..''" using ups [of 0 n] acc(3) by (cases rooted) auto
  moreover have "\<forall>x \<in> set (rev xs). ordinary x" using acc(2) by simp
  ultimately show ?thesis by (simp add: acc(1) clean_parts_append clean_parts_ordinary)
qed

section \<open>Joining\<close>

text \<open>The cleaned components of a directory.\<close>

definition comps :: "string \<Rightarrow> string list" where
  "comps dir = clean_parts (HasPrefix dir ''/'') [] (Split (CHR ''/'') dir)"

definition anchor :: "string \<Rightarrow> string" where
  "anchor dir = (if HasPrefix dir ''/'' then ''/'' else '''')"

lemma comps_slashfree: "\<forall>p \<in> set (comps dir). slashfree p"
  unfolding comps_def by (rule clean_parts_slashfree) (auto simp: slashfree_def dest: Split_parts)

lemma comps_clean: "clean_parts (HasPrefix dir ''/'') [] (comps dir) = comps dir"
  using clean_parts_clean [OF clean_parts_stack, of "HasPrefix dir ''/''" "[]" "Split (CHR ''/'') dir"]
  by (simp add: comps_def clean_stack_step(1))

text \<open>Appending a tail to a directory: the cleaned path, if something ordinary is left.\<close>

lemma Clean_append:
  assumes "dir \<noteq> ''''" and "clean_parts (HasPrefix dir ''/'') [] (comps dir @ Split (CHR ''/'') rest) = ps" and "ps \<noteq> []" "hd ps \<noteq> ''''"
  shows "Clean (dir @ ''/'' @ rest) = anchor dir @ join_with ''/'' ps"
proof -
  have root: "HasPrefix (dir @ ''/'' @ rest) ''/'' = HasPrefix dir ''/''" using assms(1) by (cases dir) auto
  have "clean_parts (HasPrefix dir ''/'') [] (Split (CHR ''/'') (dir @ ''/'' @ rest)) =
      clean_parts (HasPrefix dir ''/'') (rev (comps dir)) (Split (CHR ''/'') rest)"
    by (simp add: Split_append_gen clean_parts_append comps_def)
  also have "\<dots> = ps" using assms(2) by (simp add: clean_parts_append comps_clean)
  finally have parts: "clean_parts (HasPrefix dir ''/'') [] (Split (CHR ''/'') (dir @ ''/'' @ rest)) = ps" .
  have "join_with ''/'' ps \<noteq> ''''" using assms(3,4) by (cases ps; cases "tl ps") (auto simp: join_with_Cons neq_Nil_conv)
  then show ?thesis unfolding Clean_def anchor_def root parts Let_def by simp
qed


lemma clean_parts_down: "''..'' \<notin> set ps \<Longrightarrow> clean_parts rooted acc ps = rev acc @ filter ordinary ps"
  by (induction ps arbitrary: acc) (auto simp: ordinary_def)

lemma comps_ne: "p \<in> set (comps dir) \<Longrightarrow> p \<noteq> ''''"
proof -
  have "clean_stack (HasPrefix dir ''/'') (rev (comps dir))"
    unfolding comps_def by (rule clean_parts_stack) (simp add: clean_stack_step(1))
  then obtain xs n where "rev (comps dir) = xs @ replicate n ''..''" "\<forall>x \<in> set xs. ordinary x" by (auto simp: clean_stack_def)
  moreover assume "p \<in> set (comps dir)"
  ultimately show ?thesis by (metis Un_iff in_set_replicate list.distinct(1) ordinary_def set_append set_rev)
qed

lemma Clean_comps:
  assumes "comps dir \<noteq> []"
  shows "Clean dir = anchor dir @ join_with ''/'' (comps dir)"
proof -
  have "join_with ''/'' (comps dir) \<noteq> ''''"
    using assms comps_ne [of "hd (comps dir)" dir] by (cases "comps dir"; cases "tl (comps dir)") auto
  moreover have "Clean dir = (if HasPrefix dir ''/'' then ''/'' @ join_with ''/'' (comps dir)
      else if join_with ''/'' (comps dir) = '''' then ''.'' else join_with ''/'' (comps dir))"
    by (simp only: Clean_def Let_def comps_def)
  ultimately show ?thesis by (simp add: anchor_def)
qed

text \<open>A path below a directory: its components, and what is left of the rest without steps up.\<close>

lemma Clean_below:
  assumes "dir \<noteq> ''''" and "''..'' \<notin> set (Split (CHR ''/'') rest)" and "filter ordinary (Split (CHR ''/'') rest) \<noteq> []"
  shows "Clean (dir @ ''/'' @ rest) = anchor dir @ join_with ''/'' (comps dir @ filter ordinary (Split (CHR ''/'') rest))"
proof (rule Clean_append)
  let ?ps = "comps dir @ filter ordinary (Split (CHR ''/'') rest)"
  show "clean_parts (HasPrefix dir ''/'') [] (comps dir @ Split (CHR ''/'') rest) = ?ps"
    using assms(2) by (simp add: clean_parts_append clean_parts_down comps_clean)
  show "?ps \<noteq> []" using assms(3) by simp
  show "hd ?ps \<noteq> ''''"
  proof (cases "comps dir")
    case Nil
    have "hd (filter ordinary (Split (CHR ''/'') rest)) \<in> set (filter ordinary (Split (CHR ''/'') rest))" using assms(3) by (rule hd_in_set)
    with Nil show ?thesis by (auto simp: ordinary_def)
  next
    case (Cons c cs)
    then show ?thesis using comps_ne [of c dir] by simp
  qed
qed (rule assms(1))

lemma Split_plain: "plain p \<Longrightarrow> Split (CHR ''/'') p = [p]"
  by (simp add: plain_def slashfree_def Split_free)

lemma Split_plain2: "plain sid \<Longrightarrow> Split (CHR ''/'') (sid @ CHR ''/'' # key) = sid # Split (CHR ''/'') key"
  by (simp add: plain_def slashfree_def Split_append)

lemma plain_filter: "plain p \<Longrightarrow> filter ordinary (p # ps) = p # filter ordinary ps" "plain p \<Longrightarrow> p \<noteq> ''..''"
  by (simp_all add: plain_def ordinary_def)

text \<open>Where the file of a key of a session lies.\<close>

lemma Join_upload:
  assumes "uploads \<noteq> ''''" "plain sid" "''..'' \<notin> set (Split (CHR ''/'') key)"
  shows "Join [uploads, sid, key] = anchor uploads @ join_with ''/'' (comps uploads @ sid # filter ordinary (Split (CHR ''/'') key))"
proof (cases "key = ''''")
  case True
  have "Join [uploads, sid, key] = Clean (uploads @ ''/'' @ sid)" using assms(1,2) True by (simp add: Join_def plain_def)
  also have "\<dots> = anchor uploads @ join_with ''/'' (comps uploads @ filter ordinary (Split (CHR ''/'') sid))"
    using assms plain_filter(2) [OF assms(2)] plain_ordinary [OF assms(2)] by (intro Clean_below) (auto simp: Split_plain)
  moreover have "\<not> ordinary ''''" by (simp add: ordinary_def)
  ultimately show ?thesis using True plain_ordinary [OF assms(2)] Split_plain [OF assms(2)] by simp
next
  case False
  have "Join [uploads, sid, key] = Clean (uploads @ ''/'' @ sid @ ''/'' @ key)" using assms(1,2) False by (simp add: Join_def plain_def)
  also have "\<dots> = anchor uploads @ join_with ''/'' (comps uploads @ filter ordinary (Split (CHR ''/'') (sid @ ''/'' @ key)))"
    using assms plain_filter(2) [OF assms(2)] plain_ordinary [OF assms(2)] by (intro Clean_below) (auto simp: Split_plain2)
  finally show ?thesis using Split_plain2 [OF assms(2), of key] plain_ordinary [OF assms(2)] by simp
qed

lemma upload_path_plain:
  assumes "uploads \<noteq> ''''" "plain sid" "plain key"
  shows "Join [uploads, sid, key] = anchor uploads @ join_with ''/'' (comps uploads @ [sid, key])"
  using Join_upload [OF assms(1,2), of key] plain_filter(2) [OF assms(3)] plain_ordinary [OF assms(3)] Split_plain [OF assms(3)] by simp

lemma upload_path_inj:
  assumes "uploads \<noteq> ''''" "plain sid" "plain key" "plain sid'" "plain key'"
  shows "Join [uploads, sid, key] = Join [uploads, sid', key'] \<longleftrightarrow> sid = sid' \<and> key = key'"
proof -
  have "comps uploads @ [sid, key] = comps uploads @ [sid', key']"
    if "join_with ''/'' (comps uploads @ [sid, key]) = join_with ''/'' (comps uploads @ [sid', key'])"
    using assms comps_slashfree [of uploads] by (intro join_inject that) (auto simp: plain_def)
  then show ?thesis using assms by (auto simp: upload_path_plain)
qed


text \<open>The upload joins the directory of the session and the key; the download joins all three.\<close>

lemma comps_join:
  assumes "clean_stack (HasPrefix dir ''/'') (rev ps)" "ps \<noteq> []" "\<forall>p \<in> set ps. slashfree p \<and> p \<noteq> ''''"
  shows "comps (anchor dir @ join_with ''/'' ps) = ps \<and> anchor (anchor dir @ join_with ''/'' ps) = anchor dir"
proof -
  have split: "Split (CHR ''/'') (join_with ''/'' ps) = ps" using assms(2,3) by (intro Split_join) (auto simp: slashfree_def)
  have first: "join_with ''/'' ps = c # cs \<Longrightarrow> c \<noteq> CHR ''/''" for c cs
    using assms(2,3) by (cases ps; cases "tl ps"; cases "hd ps") (auto simp: join_with_Cons slashfree_def neq_Nil_conv)
  have root: "HasPrefix (anchor dir @ join_with ''/'' ps) ''/'' = HasPrefix dir ''/''"
    using first by (cases "join_with ''/'' ps") (auto simp: anchor_def)
  have clean: "clean_parts (HasPrefix dir ''/'') [] ps = ps" using clean_parts_clean [OF assms(1)] by simp
  have "clean_parts (HasPrefix dir ''/'') [] (Split (CHR ''/'') (anchor dir @ join_with ''/'' ps)) = ps"
    using clean split by (cases "HasPrefix dir ''/''") (simp_all add: anchor_def)
  with root show ?thesis by (simp add: comps_def anchor_def)
qed

lemma comps_stack: "clean_stack (HasPrefix dir ''/'') (rev (comps dir))"
  unfolding comps_def by (rule clean_parts_stack) (simp add: clean_stack_step(1))

lemma Join_dir:
  assumes "uploads \<noteq> ''''" "plain sid" "''..'' \<notin> set (Split (CHR ''/'') key)"
  shows "Join [Join [uploads, sid], key] = Join [uploads, sid, key]"
proof -
  let ?dir = "Join [uploads, sid]"
  have "Join [uploads, sid, ''''] = ?dir" using assms(1,2) by (simp add: Join_def)
  moreover have "\<not> ordinary ''''" by (simp add: ordinary_def)
  ultimately have dir: "?dir = anchor uploads @ join_with ''/'' (comps uploads @ [sid])"
    using Join_upload [OF assms(1,2), of "''''"] by simp
  have "clean_stack (HasPrefix uploads ''/'') (rev (comps uploads @ [sid]))"
    using clean_stack_step(2) [OF _ comps_stack, of sid] plain_ordinary [OF assms(2)] by simp
  moreover have "\<forall>p \<in> set (comps uploads @ [sid]). slashfree p \<and> p \<noteq> ''''"
    using comps_slashfree [of uploads] comps_ne [of _ uploads] assms(2) by (auto simp: plain_def)
  ultimately have D: "comps ?dir = comps uploads @ [sid]" "anchor ?dir = anchor uploads"
    unfolding dir using comps_join [of uploads "comps uploads @ [sid]"] by simp_all
  have ne: "?dir \<noteq> ''''" using D(1) by (auto simp: comps_def)
  show ?thesis
  proof (cases "filter ordinary (Split (CHR ''/'') key) = []")
    case True
    have ps: "comps ?dir \<noteq> []" using D(1) by simp
    then have ps': "hd (comps ?dir) \<noteq> ''''" by (intro comps_ne [of _ ?dir] hd_in_set)
    have self: "clean_parts (HasPrefix ?dir ''/'') [] (comps ?dir @ Split (CHR ''/'') q) = comps ?dir"
      if "''..'' \<notin> set (Split (CHR ''/'') q)" "filter ordinary (Split (CHR ''/'') q) = []" for q
      using that by (simp add: clean_parts_append comps_clean clean_parts_down)
    have key: "Clean (?dir @ ''/'' @ key) = anchor ?dir @ join_with ''/'' (comps ?dir)"
      using Clean_append [OF ne self [OF assms(3) True] ps ps'] .
    have "Join [?dir, key] = anchor ?dir @ join_with ''/'' (comps ?dir)"
    proof (cases "key = ''''")
      case True
      with ne Clean_comps [OF ps] show ?thesis by (simp add: Join_def)
    next
      case False
      with ne key show ?thesis by (simp add: Join_def)
    qed
    then show ?thesis using Join_upload [OF assms] D True by simp
  next
    case False
    have "Join [?dir, key] = Clean (?dir @ ''/'' @ key)"
      using ne False by (cases "key = ''''") (simp_all add: Join_def ordinary_def)
    also have "\<dots> = anchor uploads @ join_with ''/'' (comps uploads @ sid # filter ordinary (Split (CHR ''/'') key))"
      using Clean_below [OF ne assms(3) False] D by simp
    finally show ?thesis using Join_upload [OF assms] by simp
  qed
qed

end
