(* ===== verification/Registry_Upload_Claims.thy ===== *)
theory Registry_Upload_Claims
  imports Registry_Paths
begin

text \<open>
  The publish workflow as a transition system: published versions never change, what is published is what was declared
  and what is served, and uploads stay in the upload directory.
\<close>

section \<open>Escapes\<close>

lemma hex_val_digit: "n < 16 \<Longrightarrow> hex_val (hex_digit n) = Some n"
  by (auto simp: hex_val_def hex_digit_def Let_def)

lemma unescape_char: "unescape (CHR ''%'' # hex_digit ((of_char c :: nat) div 16) # hex_digit ((of_char c :: nat) mod 16) # s)
    = map_option ((#) c) (unescape s)"
proof -
  have "(of_char c :: nat) < 16 * 16" using nat_of_char_less_256 [of c] by simp
  then have "(of_char c :: nat) div 16 < 16" by (rule less_mult_imp_div_less)
  then have "hex_val (hex_digit ((of_char c :: nat) div 16)) = Some (of_char c div 16)"
    "hex_val (hex_digit ((of_char c :: nat) mod 16)) = Some (of_char c mod 16)"
    by (simp_all add: hex_val_digit)
  then show ?thesis by simp
qed

lemma unescape_plain: "CHR ''%'' \<notin> set s \<Longrightarrow> unescape (s @ t) = map_option ((@) s) (unescape t)"
proof (induction s)
  case Nil
  then show ?case by (cases "unescape t") auto
next
  case (Cons c s)
  then show ?case by (cases "unescape t") auto
qed

lemma unescape_PathEscape: "unescape (PathEscape s @ t) = map_option ((@) s) (unescape t)"
proof (induction s)
  case Nil
  then show ?case by (cases "unescape t") (auto simp: PathEscape_def)
next
  case (Cons c s)
  have "unescape (PathEscape (c # s) @ t) = map_option ((#) c) (unescape (PathEscape s @ t))"
  proof (cases "unreserved c")
    case True
    then have "c \<noteq> CHR ''%''" by (auto simp: unreserved_def)
    with True show ?thesis by (simp add: PathEscape_def)
  next
    case False
    then show ?thesis using unescape_char [of c "PathEscape s @ t"] by (simp add: PathEscape_def)
  qed
  with Cons show ?case by (cases "unescape t") auto
qed

section \<open>The transition system\<close>

definition input_key :: "publish_file_input \<Rightarrow> string" where
  "input_key f = (if TrimSpace (pf_Key f) = '''' then ''artifact'' else TrimSpace (pf_Key f))"

text \<open>The requests of the publish workflow: any ones, with any answers of the system.\<close>

inductive reg_request :: "crypto \<Rightarrow> string \<Rightarrow> registry \<Rightarrow> registry \<Rightarrow> bool" for C uploads where
  request_stage: "CreatePublishSession io i s = (r, s') \<Longrightarrow> reg_request C uploads s s'"
| request_upload: "handleUploads C uploads io rq meth path body s = (r, s') \<Longrightarrow> reg_request C uploads s s'"
| request_finalize: "FinalizePublish C uploads io publishID s = (r, s') \<Longrightarrow> reg_request C uploads s s'"
| request_audit: "recordAuditJSON io ev s = (ok, s') \<Longrightarrow> reg_request C uploads s s'"

abbreviation reg_requests :: "crypto \<Rightarrow> string \<Rightarrow> registry \<Rightarrow> registry \<Rightarrow> bool" where
  "reg_requests C uploads \<equiv> (reg_request C uploads)\<^sup>*\<^sup>*"

text \<open>
  The requests for which the files of the upload directory are what the data say of them. Three assumptions: a new
  session does not get the id of another one (the clock advances between two creations), staged keys are plain names,
  and no write of a file fails after the file has been truncated.
\<close>

inductive reg_step :: "crypto \<Rightarrow> string \<Rightarrow> registry \<Rightarrow> registry \<Rightarrow> bool" for C uploads where
  step_stage: "session_id io \<notin> fst ` set (rd_Sessions (rg_data s)) \<Longrightarrow> \<forall>f \<in> set (pi_Files i). plain (input_key f) \<Longrightarrow>
     CreatePublishSession io i s = (r, s') \<Longrightarrow> reg_step C uploads s s'"
| step_upload: "\<forall>n. io_write io \<noteq> PartWritten n \<Longrightarrow> handleUploads C uploads io rq meth path body s = (r, s') \<Longrightarrow> reg_step C uploads s s'"
| step_finalize: "FinalizePublish C uploads io publishID s = (r, s') \<Longrightarrow> reg_step C uploads s s'"
| step_audit: "recordAuditJSON io ev s = (ok, s') \<Longrightarrow> reg_step C uploads s s'"

abbreviation reg_steps :: "crypto \<Rightarrow> string \<Rightarrow> registry \<Rightarrow> registry \<Rightarrow> bool" where
  "reg_steps C uploads \<equiv> (reg_step C uploads)\<^sup>*\<^sup>*"

definition published :: "registry \<Rightarrow> string \<Rightarrow> string \<Rightarrow> ext_version option" where
  "published s x ver = (case map_of (rd_Extensions (rg_data s)) x of None \<Rightarrow> None | Some e \<Rightarrow> map_of (ext_Versions e) ver)"

section \<open>An example\<close>

text \<open>A registry with one verified publisher, to which one session publishes one addon; the hash is the identity.\<close>

definition ex_crypto :: crypto where
  "ex_crypto = \<lparr>cr_sha256 = (\<lambda>b. b), cr_sign = (\<lambda>b. b)\<rparr>"

definition ex_io :: "int \<Rightarrow> reg_io" where
  "ex_io n = \<lparr>io_nano = n, io_now = ''t'', io_mkdir = True, io_write = Written, io_read = True, io_save = True\<rparr>"

definition ex_registry :: registry where
  "ex_registry = \<lparr>rg_data = \<lparr>rd_Publishers = [(''p'', \<lparr>pub_ID = ''p'', pub_Name = ''P'', pub_Verified = True, pub_Trust = ''official''\<rparr>)],
     rd_Extensions = [], rd_Advisories = [], rd_Sessions = [], rd_AuditLog = []\<rparr>, rg_db = None, rg_files = Map.empty\<rparr>"

definition ex_init :: "string \<Rightarrow> string \<Rightarrow> string \<Rightarrow> publish_init_input" where
  "ex_init p typ ver = \<lparr>pi_Publisher = p, pi_ID = ''x'', pi_Version = ver, pi_Type = typ, pi_PluginKind = ''runtime'', pi_Description = '''',
     pi_Files = [\<lparr>pf_Key = ''k'', pf_Name = ''k.zip'', pf_SizeBytes = 3, pf_Algorithm = '''', pf_Checksum = ''abc''\<rparr>]\<rparr>"

definition ex_requester :: requester where
  "ex_requester = \<lparr>rq_Subject = '''', rq_Tenant = '''', rq_Anonymous = True, rq_RequestID = ''r''\<rparr>"

definition ex_staged :: registry where
  "ex_staged = snd (CreatePublishSession (ex_io 1) (ex_init ''p'' ''addon'' ''1.0.0'') ex_registry)"

definition ex_uploaded :: registry where
  "ex_uploaded = snd (handleUploads ex_crypto ''up'' (ex_io 2) ex_requester PUT ''/v1/uploads/pub_local_1/k'' (Some ''abc'') ex_staged)"

definition ex_published :: registry where
  "ex_published = snd (FinalizePublish ex_crypto ''up'' (ex_io 3) ''pub_local_1'' ex_uploaded)"

lemma ex_steps: "reg_steps ex_crypto ''up'' ex_registry ex_uploaded" "reg_steps ex_crypto ''up'' ex_uploaded ex_published"
proof -
  have "session_id (ex_io 1) \<notin> fst ` set (rd_Sessions (rg_data ex_registry))" by (simp add: ex_registry_def)
  moreover have "\<forall>f \<in> set (pi_Files (ex_init ''p'' ''addon'' ''1.0.0'')). plain (input_key f)" by code_simp
  ultimately have "reg_step ex_crypto ''up'' ex_registry ex_staged"
    by (rule step_stage) (simp add: ex_staged_def prod_eq_iff)
  moreover have "reg_step ex_crypto ''up'' ex_staged ex_uploaded"
    by (rule step_upload [of "ex_io 2"]) (simp_all add: ex_io_def ex_uploaded_def prod_eq_iff)
  ultimately show "reg_steps ex_crypto ''up'' ex_registry ex_uploaded" by simp
  show "reg_steps ex_crypto ''up'' ex_uploaded ex_published"
    by (rule r_into_rtranclp, rule step_finalize) (simp add: ex_published_def prod_eq_iff)
qed


lemma take_body: "take (64 * 1024 * 1024) (''abc''::string) = ''abc''" by simp

lemma ex_uploaded_eq: "ex_uploaded = audit (ex_io 2) ex_requester ''publish_upload'' ''ok'' [(''publishId'', AStr ''pub_local_1''), (''key'', AStr ''k''), (''sizeBytes'', AInt 3)]
     (snd (UploadPublishFile ex_crypto ''up'' (ex_io 2) ''pub_local_1'' ''k'' ''abc'' ex_staged))"
proof -
  have "PathUnescape ''pub_local_1'' = ''pub_local_1''" "PathUnescape ''k'' = ''k''" "\<not> Contains ''k'' ''..''" "TrimSpace ''pub_local_1'' \<noteq> ''''" "TrimSpace ''k'' \<noteq> ''''"
    by code_simp+
  moreover obtain s1 where "UploadPublishFile ex_crypto ''up'' (ex_io 2) ''pub_local_1'' ''k'' ''abc'' ex_staged = (None, s1)"
  proof -
    have "fst (UploadPublishFile ex_crypto ''up'' (ex_io 2) ''pub_local_1'' ''k'' ''abc'' ex_staged) = None" by code_simp
    then show ?thesis using that by (metis prod.collapse)
  qed
  moreover have "TrimPrefix ''/v1/uploads/pub_local_1/k'' ''/v1/uploads/'' = ''pub_local_1/k''" by code_simp
  ultimately show ?thesis unfolding ex_uploaded_def handleUploads_def by (simp add: Let_def take_body split: prod.split option.split)
qed


lemma ex_version: "\<exists>v. published ex_published ''x'' ''1.0.0'' = Some v"
proof -
  have "published ex_published ''x'' ''1.0.0'' \<noteq> None" unfolding ex_published_def ex_uploaded_eq by code_simp
  then show ?thesis by simp
qed

lemma ex_before: "published ex_registry ''x'' ''1.0.0'' = None" by (simp add: published_def ex_registry_def)

section \<open>Versions are immutable\<close>

lemma save_data_simps: "save_data io d s = (ok, s') \<Longrightarrow> rg_data s' = d \<and> rg_files s' = rg_files s"
  by (auto simp: save_data_def)

lemma CreatePublishSession_exts: "CreatePublishSession io i s = (r, s') \<Longrightarrow> rd_Extensions (rg_data s') = rd_Extensions (rg_data s)"
  by (auto simp: CreatePublishSession_def Let_def put_session_def save_data_def split: option.splits sum.splits)

lemma UploadPublishFile_exts: "UploadPublishFile C u io p k b s = (r, s') \<Longrightarrow> rd_Extensions (rg_data s') = rd_Extensions (rg_data s)"
  by (auto simp: UploadPublishFile_def os_WriteFile_def Let_def save_data_def split: option.splits if_splits write_result.splits)


lemma map_of_update: "map_of (AList.update k v m) x = (if x = k then Some v else map_of m x)"
  by (simp add: update_conv')

lemma target_versions:
  "published s (sess_field sess ''id'') ver = map_of (ext_Versions (target_extension (rg_data s) sess)) ver"
  by (simp add: published_def target_extension_def Let_def split: option.split)

lemma published_put:
  "published (s\<lparr>rg_data := put_extension e k d\<rparr>) x ver =
    (if x = k then map_of (ext_Versions e) ver else published (s\<lparr>rg_data := d\<rparr>) x ver)"
  by (simp add: published_def put_extension_def map_of_update)

text \<open>A finalized session adds one new version, or changes no version at all.\<close>

lemma FinalizePublish_effect:
  assumes "FinalizePublish C u io p s = (r, s')"
  shows "rg_files s' = rg_files s \<and>
    ((rd_Sessions (rg_data s') = rd_Sessions (rg_data s) \<and> published s' = published s) \<or>
     (\<exists>sess key file b d. map_of (rd_Sessions (rg_data s)) (TrimSpace p) = Some sess \<and> (\<forall>(k, f) \<in> set (ps_Files sess). sf_Uploaded f) \<and>
       map_of (ps_Files sess) key = Some file \<and> rg_files s (Join [u, ps_ID sess, key]) = Some b \<and>
       published s (sess_field sess ''id'') (sess_field sess ''version'') = None \<and>
       published s' = (\<lambda>x ver. if x = sess_field sess ''id'' \<and> ver = sess_field sess ''version''
         then Some (new_version io sess (new_artifact C d sess key file b)) else published s x ver) \<and>
       rd_Sessions (rg_data s') = AList.update (TrimSpace p) (sess\<lparr>ps_Status := ''published'', ps_UpdatedAt := io_now io\<rparr>) (rd_Sessions (rg_data s))))"
proof -
  show ?thesis
  proof (cases "map_of (rd_Sessions (rg_data s)) (TrimSpace p)")
    case None
    with assms show ?thesis by (simp add: FinalizePublish_def)
  next
    case (Some sess)
    let ?id = "sess_field sess ''id''" and ?ver = "sess_field sess ''version''"
    let ?ext = "target_extension (rg_data s) sess"
    define s1 where "s1 = s\<lparr>rg_data := put_extension ?ext ?id (rg_data s)\<rparr>"
    have s1: "rg_files s1 = rg_files s" "rd_Sessions (rg_data s1) = rd_Sessions (rg_data s)" "published s1 = published s"
      by (auto simp: s1_def put_extension_def published_put [unfolded put_extension_def] target_versions intro!: ext)
    have "s' = s \<or> s' = s1 \<or> (\<exists>key file b. (\<forall>(k, f) \<in> set (ps_Files sess). sf_Uploaded f) \<and> ?ver \<notin> fst ` set (ext_Versions ?ext) \<and>
        map_of (ps_Files sess) key = Some file \<and> rg_files s1 (Join [u, ps_ID sess, key]) = Some b \<and>
        s' = snd (commit_version C io (TrimSpace p) sess ?ext key file b s1))"
      using assms unfolding FinalizePublish_def Some Let_def option.case s1_def [symmetric]
      by (auto simp: list_ex_iff split: if_splits list.splits option.splits prod.splits) force+
    then consider "s' = s" | "s' = s1" | (commit) key fl b where "\<forall>(k, f) \<in> set (ps_Files sess). sf_Uploaded f"
      "?ver \<notin> fst ` set (ext_Versions ?ext)" "map_of (ps_Files sess) key = Some fl"
      "rg_files s1 (Join [u, ps_ID sess, key]) = Some b" "s' = snd (commit_version C io (TrimSpace p) sess ?ext key fl b s1)" by blast
    then show ?thesis
    proof cases
      case commit
      let ?v = "new_version io sess (new_artifact C (rg_data s1) sess key fl b)"
      have new: "published s ?id ?ver = None" using commit(2) by (simp add: target_versions map_of_eq_None_iff)
      have "published s' x ver = (if x = ?id \<and> ver = ?ver then Some ?v else published s x ver)" for x ver
      proof -
        have "published s' x ver = published (s1\<lparr>rg_data := put_extension (?ext\<lparr>ext_Versions := AList.update ?ver ?v (ext_Versions ?ext)\<rparr>) ?id (rg_data s1)\<rparr>) x ver"
          by (simp add: commit(5) commit_version_def Let_def save_data_def published_def)
        also have "\<dots> = (if x = ?id \<and> ver = ?ver then Some ?v else published s x ver)"
          using s1(3) by (auto simp: published_put map_of_update target_versions)
        finally show ?thesis .
      qed
      then have "published s' = (\<lambda>x ver. if x = ?id \<and> ver = ?ver then Some ?v else published s x ver)" by blast
      moreover have "rd_Sessions (rg_data s') = AList.update (TrimSpace p) (sess\<lparr>ps_Status := ''published'', ps_UpdatedAt := io_now io\<rparr>) (rd_Sessions (rg_data s))"
        "rg_files s' = rg_files s"
        by (simp_all add: commit(5) commit_version_def Let_def save_data_def put_extension_def s1 [simplified])
      moreover have "rg_files s (Join [u, ps_ID sess, key]) = Some b" using commit(4) s1(1) by simp
      ultimately show ?thesis using commit(1,3) new Some
        by (intro conjI disjI2 exI [of _ sess] exI [of _ key] exI [of _ fl] exI [of _ b] exI [of _ "rg_data s1"]) assumption+
    qed (use s1 in simp_all)
  qed
qed


lemma recordAuditJSON_same:
  "recordAuditJSON io ev s = (ok, s') \<Longrightarrow> rd_Extensions (rg_data s') = rd_Extensions (rg_data s) \<and>
    rd_Sessions (rg_data s') = rd_Sessions (rg_data s) \<and> rg_files s' = rg_files s"
  by (auto simp: recordAuditJSON_def save_data_def Let_def)

lemma audit_same [simp]:
  "rd_Extensions (rg_data (audit io rq act st ds s)) = rd_Extensions (rg_data s)"
  "rd_Sessions (rg_data (audit io rq act st ds s)) = rd_Sessions (rg_data s)"
  "rg_files (audit io rq act st ds s) = rg_files s"
  by (simp_all add: audit_def recordAuditJSON_def save_data_def Let_def)

text \<open>Up to the audit log, a request to the upload endpoint does nothing or one upload.\<close>

definition same_but_audit :: "registry \<Rightarrow> registry \<Rightarrow> bool" where
  "same_but_audit s s' \<longleftrightarrow> rd_Extensions (rg_data s') = rd_Extensions (rg_data s) \<and>
     rd_Sessions (rg_data s') = rd_Sessions (rg_data s) \<and> rg_files s' = rg_files s"

lemma same_but_audit_audit [simp]: "same_but_audit s (audit io rq act st ds s)" "same_but_audit s s"
  by (simp_all add: same_but_audit_def)

lemma handleUploads_cases:
  assumes "handleUploads C u io rq meth path body s = (r, s')"
  shows "same_but_audit s s' \<or> (\<exists>s1 e p k b. \<not> Contains k ''..'' \<and> UploadPublishFile C u io p k b s = (e, s1) \<and> same_but_audit s1 s')"
proof -
  define P where "P t \<longleftrightarrow> same_but_audit s t \<or> (\<exists>s1 e p k b. \<not> Contains k ''..'' \<and> UploadPublishFile C u io p k b s = (e, s1) \<and> same_but_audit s1 t)" for t
  have none: "P t" if "same_but_audit s t" for t using that by (simp add: P_def)
  have up: "P t" if "UploadPublishFile C u io p k b s = (e, s1)" "\<not> Contains k ''..''" "same_but_audit s1 t" for p k e b s1 t
    using that unfolding P_def by blast
  let ?key = "PathUnescape (tl (dropWhile (\<lambda>c. c \<noteq> CHR ''/'') (TrimPrefix path ''/v1/uploads/'')))"
  have "P (snd (handleUploads C u io rq meth path body s))"
  proof (cases "meth = PUT \<and> \<not> Contains ?key ''..'' \<and> body \<noteq> None")
    case False
    then show ?thesis unfolding handleUploads_def Let_def
      by (cases meth) (use False in \<open>auto simp: none split: if_split option.split\<close>)
  next
    case True
    then obtain b where b: "body = Some b" by blast
    show ?thesis unfolding handleUploads_def Let_def using True
      by (simp add: none b split: prod.split option.split) (blast intro: up same_but_audit_audit)
  qed
  with assms show ?thesis by (simp add: P_def)
qed

lemma handleUploads_exts:
  assumes "handleUploads C u io rq meth path body s = (r, s')"
  shows "rd_Extensions (rg_data s') = rd_Extensions (rg_data s)"
  using handleUploads_cases [OF assms] UploadPublishFile_exts by (auto simp: same_but_audit_def)

text \<open>
  C5. Versions are immutable. Whatever requests of the publish workflow the running registry serves, with whatever
  staged keys and session ids, in whatever order and with whatever failures of the system, a version that is
  published stays exactly as it is.
\<close>

theorem published_versions_immutable:
  assumes "reg_requests C uploads s s'" and "published s x ver = Some v"
  shows "published s' x ver = Some v"
  using assms
proof (induction rule: rtranclp_induct)
  case (step s' s'')
  from step.hyps(2) show ?case
  proof cases
    case (request_stage io i r)
    then show ?thesis using step.IH step.prems CreatePublishSession_exts by (simp add: published_def)
  next
    case (request_upload io rq meth path body r)
    then show ?thesis using step.IH step.prems handleUploads_exts by (simp add: published_def)
  next
    case (request_finalize io publishID r)
    from FinalizePublish_effect [OF this] step.IH step.prems show ?thesis by auto
  next
    case (request_audit io ev ok)
    then show ?thesis using step.IH step.prems recordAuditJSON_same by (simp add: published_def)
  qed
qed

theorem published_versions_immutable_witness:
  "\<exists>v. published ex_published ''x'' ''1.0.0'' = Some v \<and>
     published (snd (FinalizePublish ex_crypto ''up'' (ex_io 4) ''pub_local_1'' ex_published)) ''x'' ''1.0.0'' = Some v"
proof -
  from ex_version obtain v where v: "published ex_published ''x'' ''1.0.0'' = Some v" by blast
  have "reg_requests ex_crypto ''up'' ex_published (snd (FinalizePublish ex_crypto ''up'' (ex_io 4) ''pub_local_1'' ex_published))"
    by (rule r_into_rtranclp, rule request_finalize) (simp add: prod_eq_iff)
  from v published_versions_immutable [OF this v] show ?thesis by blast
qed

section \<open>What is published is what was declared\<close>

lemma UploadPublishFile_effect:
  assumes "UploadPublishFile C u io p k b s = (r, s')"
  shows "s' = s \<or> (\<exists>sess n. map_of (rd_Sessions (rg_data s)) (TrimSpace p) = Some sess \<and> io_write io = PartWritten n \<and>
      s' = s\<lparr>rg_files := (rg_files s)(Join [Join [u, TrimSpace p], TrimSpace k] \<mapsto> take n b)\<rparr>) \<or>
    (\<exists>sess fl. map_of (rd_Sessions (rg_data s)) (TrimSpace p) = Some sess \<and> map_of (ps_Files sess) (TrimSpace k) = Some fl \<and>
    EqualFold (cr_sha256 C b) (sf_DeclaredChecksum fl) \<and> rg_files s' = (rg_files s)(Join [Join [u, TrimSpace p], TrimSpace k] \<mapsto> b) \<and>
    rd_Sessions (rg_data s') = AList.update (TrimSpace p) (sess\<lparr>ps_Files := AList.update (TrimSpace k) (uploaded_file b fl) (ps_Files sess),
      ps_Status := ''uploaded'', ps_UpdatedAt := io_now io, ps_UploadedAt := io_now io\<rparr>) (rd_Sessions (rg_data s)))"
  using assms by (auto simp: UploadPublishFile_def os_WriteFile_def Let_def upload_dir_def save_data_def split: option.splits if_splits write_result.splits)

lemma stage_publish_files_keys:
  "stage_publish_files fs out = Inr files \<Longrightarrow> map_of files k = Some f \<Longrightarrow>
    map_of out k = Some f \<or> \<not> sf_Uploaded f \<and> (\<exists>i \<in> set fs. k = input_key i)"
proof (induction fs arbitrary: out)
  case (Cons i fs)
  from Cons.prems(1) obtain f0 where f0: "stage_publish_files fs (AList.update (input_key i) f0 out) = Inr files" "\<not> sf_Uploaded f0"
    unfolding stage_publish_files.simps Let_def input_key_def [symmetric] by (fastforce split: if_split_asm)
  with Cons.IH [OF f0(1) Cons.prems(2)] show ?case by (auto simp: map_of_update split: if_split_asm)
qed simp

text \<open>
  The invariant: a session is stored under its id, its keys are plain, and an uploaded key has its file with the
  declared checksum; every version that is not in the initial data is backed by such a key.
\<close>

definition key_ok :: "crypto \<Rightarrow> string \<Rightarrow> registry \<Rightarrow> string \<Rightarrow> string \<Rightarrow> session_file \<Rightarrow> bool" where
  "key_ok C u s sid key f \<longleftrightarrow> plain key \<and> (sf_Uploaded f \<longrightarrow>
     (\<exists>b. rg_files s (Join [u, sid, key]) = Some b \<and> EqualFold (cr_sha256 C b) (sf_DeclaredChecksum f)))"

definition backed :: "registry \<Rightarrow> ext_version \<Rightarrow> bool" where
  "backed s v \<longleftrightarrow> (\<exists>sid sess key f a. map_of (rd_Sessions (rg_data s)) sid = Some sess \<and> map_of (ps_Files sess) key = Some f \<and>
     sf_Uploaded f \<and> ev_Artifacts v = [a] \<and> art_ChecksumAlgorithm a = ''sha256'' \<and> art_ChecksumValue a = sf_DeclaredChecksum f \<and>
     art_URL a = ''/v1/uploads/'' @ PathEscape sid @ ''/'' @ PathEscape key)"

definition reg_inv :: "crypto \<Rightarrow> string \<Rightarrow> registry \<Rightarrow> registry \<Rightarrow> bool" where
  "reg_inv C u s0 s \<longleftrightarrow>
     (\<forall>sid sess. map_of (rd_Sessions (rg_data s)) sid = Some sess \<longrightarrow> ps_ID sess = sid \<and> plain sid \<and>
        (\<forall>key f. map_of (ps_Files sess) key = Some f \<longrightarrow> key_ok C u s sid key f)) \<and>
     (\<forall>x ver v. published s x ver = Some v \<and> published s0 x ver = None \<longrightarrow> backed s v)"

lemma session_id_plain: "plain (session_id io)"
proof -
  have "CHR ''/'' \<notin> set (utoa n)" for n using utoa_digits [of "CHR ''/''" n] by (auto simp: is_digit_def)
  then show ?thesis by (auto simp: session_id_def plain_def slashfree_def itoa_def)
qed


text \<open>Sessions only grow: files stay declared as they are and stay uploaded.\<close>

definition sessions_grow :: "registry \<Rightarrow> registry \<Rightarrow> bool" where
  "sessions_grow s s' \<longleftrightarrow> (\<forall>sid sess key f. map_of (rd_Sessions (rg_data s)) sid = Some sess \<and> map_of (ps_Files sess) key = Some f \<longrightarrow>
     (\<exists>sess' f'. map_of (rd_Sessions (rg_data s')) sid = Some sess' \<and> map_of (ps_Files sess') key = Some f' \<and>
       sf_DeclaredChecksum f' = sf_DeclaredChecksum f \<and> (sf_Uploaded f \<longrightarrow> sf_Uploaded f')))"

lemma backed_mono: "backed s v \<Longrightarrow> sessions_grow s s' \<Longrightarrow> backed s' v"
  unfolding backed_def sessions_grow_def by metis

lemma reg_invI:
  assumes "\<And>sid sess. map_of (rd_Sessions (rg_data s')) sid = Some sess \<Longrightarrow> ps_ID sess = sid \<and> plain sid \<and>
        (\<forall>key f. map_of (ps_Files sess) key = Some f \<longrightarrow> key_ok C u s' sid key f)"
    and "reg_inv C u s0 s" and "sessions_grow s s'" and "\<And>x ver v. published s' x ver = Some v \<Longrightarrow> published s x ver = Some v \<or> backed s' v"
  shows "reg_inv C u s0 s'"
proof -
  have "backed s' v" if "published s' x ver = Some v" "published s0 x ver = None" for x ver v
    using assms(4) [OF that(1)] assms(2) that(2) backed_mono [OF _ assms(3)] by (auto simp: reg_inv_def)
  with assms(1) show ?thesis unfolding reg_inv_def by blast
qed

lemma stage_inv:
  assumes inv: "reg_inv C u s0 s" and fresh: "session_id io \<notin> fst ` set (rd_Sessions (rg_data s))"
    and plain: "\<forall>f \<in> set (pi_Files i). plain (input_key f)" and step: "CreatePublishSession io i s = (r, s')"
  shows "reg_inv C u s0 s'"
proof (cases "\<exists>files. stage_publish_files (pi_Files i) [] = Inr files \<and> check_init i = None")
  case False
  then have "s' = s" using step by (auto simp: CreatePublishSession_def split: option.splits sum.splits)
  with inv show ?thesis by simp
next
  case True
  then obtain files where files: "stage_publish_files (pi_Files i) [] = Inr files" "check_init i = None" by blast
  let ?sess = "new_session io i files"
  have s': "rd_Sessions (rg_data s') = AList.update (session_id io) ?sess (rd_Sessions (rg_data s))" "rg_files s' = rg_files s"
    "rd_Extensions (rg_data s') = rd_Extensions (rg_data s)"
    using step files by (auto simp: CreatePublishSession_def Let_def put_session_def new_session_def save_data_def)
  have none: "map_of (rd_Sessions (rg_data s)) (session_id io) = None" using fresh by (simp add: map_of_eq_None_iff)
  show ?thesis
  proof (rule reg_invI [OF _ inv])
    show "sessions_grow s s'" using none by (auto simp: sessions_grow_def s' map_of_update)
    show "published s x ver = Some v \<or> backed s' v" if "published s' x ver = Some v" for x ver v
      using that by (simp add: published_def s')
    show "ps_ID sess = sid \<and> plain sid \<and> (\<forall>key f. map_of (ps_Files sess) key = Some f \<longrightarrow> key_ok C u s' sid key f)"
      if "map_of (rd_Sessions (rg_data s')) sid = Some sess" for sid sess
    proof (cases "sid = session_id io")
      case True
      have "key_ok C u s' sid key f" if "map_of files key = Some f" for key f
        using stage_publish_files_keys [OF files(1) that] plain by (auto simp: key_ok_def)
      with True that show ?thesis by (auto simp: s' map_of_update new_session_def session_id_plain)
    next
      case False
      with that have "map_of (rd_Sessions (rg_data s)) sid = Some sess" by (simp add: s' map_of_update)
      with inv show ?thesis by (auto simp: reg_inv_def key_ok_def s')
    qed
  qed
qed

lemma upload_inv:
  assumes inv: "reg_inv C u s0 s" and u: "u \<noteq> ''''" and step: "UploadPublishFile C u io p k b s = (r, s')"
    and whole: "\<forall>n. io_write io \<noteq> PartWritten n"
  shows "reg_inv C u s0 s'"
proof -
  from UploadPublishFile_effect [OF step] whole consider "s' = s" | (stored) sess fl where
      "map_of (rd_Sessions (rg_data s)) (TrimSpace p) = Some sess" "map_of (ps_Files sess) (TrimSpace k) = Some fl"
      "EqualFold (cr_sha256 C b) (sf_DeclaredChecksum fl)" "rg_files s' = (rg_files s)(Join [Join [u, TrimSpace p], TrimSpace k] \<mapsto> b)"
      "rd_Sessions (rg_data s') = AList.update (TrimSpace p) (sess\<lparr>ps_Files := AList.update (TrimSpace k) (uploaded_file b fl) (ps_Files sess),
        ps_Status := ''uploaded'', ps_UpdatedAt := io_now io, ps_UploadedAt := io_now io\<rparr>) (rd_Sessions (rg_data s))" by blast
  then show ?thesis
  proof cases
    case stored
    let ?sid = "TrimSpace p" and ?key = "TrimSpace k"
    have old: "ps_ID x = sid \<and> plain sid \<and> (\<forall>key f. map_of (ps_Files x) key = Some f \<longrightarrow> key_ok C u s sid key f)"
      if "map_of (rd_Sessions (rg_data s)) sid = Some x" for sid x using inv that by (simp add: reg_inv_def)
    have pl: "plain ?sid" "plain ?key" "ps_ID sess = ?sid" using old [OF stored(1)] stored(2) by (auto simp: key_ok_def)
    have files: "rg_files s' = (rg_files s)(Join [u, ?sid, ?key] \<mapsto> b)"
      using stored(4) Join_dir [OF u pl(1), of ?key] Split_plain [OF pl(2)] plain_filter(2) [OF pl(2)] by simp
    have keep: "rg_files s' (Join [u, sid, key]) = rg_files s (Join [u, sid, key])"
      if "plain sid" "plain key" "sid \<noteq> ?sid \<or> key \<noteq> ?key" for sid key
      using that upload_path_inj [OF u that(1,2) pl(1,2)] by (auto simp: files)
    have same_key: "key_ok C u s' ?sid ?key (uploaded_file b fl)"
      using pl stored(3) by (simp add: key_ok_def files uploaded_file_def)
    have keys: "key_ok C u s' sid key f" if "key_ok C u s sid key f" "plain sid" "sid \<noteq> ?sid \<or> key \<noteq> ?key" for sid key f
      using that keep [OF that(2)] by (auto simp: key_ok_def)
    show ?thesis
    proof (rule reg_invI [OF _ inv])
      show "sessions_grow s s'" using stored(1,2) by (auto simp: sessions_grow_def stored(5) map_of_update uploaded_file_def)
      have "rd_Extensions (rg_data s') = rd_Extensions (rg_data s)" using UploadPublishFile_exts [OF step] .
      then show "published s x ver = Some v \<or> backed s' v" if "published s' x ver = Some v" for x ver v
        using that by (simp add: published_def)
      show "ps_ID x = sid \<and> plain sid \<and> (\<forall>key f. map_of (ps_Files x) key = Some f \<longrightarrow> key_ok C u s' sid key f)"
        if "map_of (rd_Sessions (rg_data s')) sid = Some x" for sid x
      proof (cases "sid = ?sid")
        case True
        with that old [OF stored(1)] pl same_key keys show ?thesis by (auto simp: stored(5) map_of_update split: if_splits)
      next
        case False
        with that old [of sid x] keys [of sid] show ?thesis by (auto simp: stored(5) map_of_update)
      qed
    qed
  qed (use inv in simp)
qed


lemma finalize_inv:
  assumes inv: "reg_inv C u s0 s" and step: "FinalizePublish C u io p s = (r, s')"
  shows "reg_inv C u s0 s'"
proof -
  note effect = FinalizePublish_effect [OF step]
  from effect have files: "rg_files s' = rg_files s" by blast
  have old: "ps_ID x = sid \<and> plain sid \<and> (\<forall>key f. map_of (ps_Files x) key = Some f \<longrightarrow> key_ok C u s' sid key f)"
    if "map_of (rd_Sessions (rg_data s)) sid = Some x" for sid x using inv that by (simp add: reg_inv_def key_ok_def files)
  from effect consider "rd_Sessions (rg_data s') = rd_Sessions (rg_data s)" "published s' = published s"
    | (commit) sess key fl b d where "map_of (rd_Sessions (rg_data s)) (TrimSpace p) = Some sess"
      "\<forall>(k, f) \<in> set (ps_Files sess). sf_Uploaded f" "map_of (ps_Files sess) key = Some fl"
      "published s' = (\<lambda>x ver. if x = sess_field sess ''id'' \<and> ver = sess_field sess ''version''
         then Some (new_version io sess (new_artifact C d sess key fl b)) else published s x ver)"
      "rd_Sessions (rg_data s') = AList.update (TrimSpace p) (sess\<lparr>ps_Status := ''published'', ps_UpdatedAt := io_now io\<rparr>) (rd_Sessions (rg_data s))"
    by blast
  then show ?thesis
  proof cases
    case 1
    then show ?thesis using old by (intro reg_invI [OF _ inv]) (auto simp: sessions_grow_def)
  next
    case commit
    show ?thesis
    proof (rule reg_invI [OF _ inv])
      show "sessions_grow s s'" using commit(1) by (auto simp: sessions_grow_def commit(5) map_of_update)
      show "ps_ID x = sid \<and> plain sid \<and> (\<forall>key f. map_of (ps_Files x) key = Some f \<longrightarrow> key_ok C u s' sid key f)"
        if "map_of (rd_Sessions (rg_data s')) sid = Some x" for sid x
        using that old [of sid] commit(1) by (auto simp: commit(5) map_of_update split: if_splits)
      let ?v = "new_version io sess (new_artifact C d sess key fl b)"
      have "sf_Uploaded fl" using commit(2,3) by (auto dest: map_of_SomeD)
      moreover have "ps_ID sess = TrimSpace p" using old [OF commit(1)] by simp
      ultimately have "backed s' ?v" using commit(1,3) unfolding backed_def
        by (intro exI [of _ "TrimSpace p"] exI [of _ "sess\<lparr>ps_Status := ''published'', ps_UpdatedAt := io_now io\<rparr>"] exI [of _ key]
            exI [of _ fl] exI [of _ "new_artifact C d sess key fl b"]) (simp add: commit(5) map_of_update new_version_def new_artifact_def)
      then show "published s x ver = Some v \<or> backed s' v" if "published s' x ver = Some v" for x ver v
        using that by (auto simp: commit(4) split: if_splits)
    qed
  qed
qed

lemma same_inv: "reg_inv C u s0 s \<Longrightarrow> same_but_audit s s' \<Longrightarrow> reg_inv C u s0 s'"
  by (rule reg_invI [where s = s]) (auto simp: reg_inv_def key_ok_def sessions_grow_def published_def same_but_audit_def)

lemma reg_steps_inv:
  assumes "reg_steps C u s0 s" and "u \<noteq> ''''" and "rd_Sessions (rg_data s0) = []"
  shows "reg_inv C u s0 s"
  using assms(1)
proof (induction rule: rtranclp_induct)
  case base
  show ?case using assms(3) by (auto simp: reg_inv_def)
next
  case (step s s')
  from step.hyps(2) show ?case
  proof cases
    case (step_stage io i r)
    then show ?thesis using stage_inv [OF step.IH] by blast
  next
    case (step_upload io rq meth path body r)
    from handleUploads_cases [OF this(2)] show ?thesis using step.IH upload_inv [OF step.IH assms(2) _ step_upload(1)] same_inv by blast
  next
    case (step_finalize io publishID r)
    then show ?thesis using finalize_inv [OF step.IH] by blast
  next
    case (step_audit io ev ok)
    from recordAuditJSON_same [OF this] show ?thesis by (intro same_inv [OF step.IH]) (simp add: same_but_audit_def)
  qed
qed

text \<open>
  C12. What is published is what was declared and what is served. Suppose that the registry starts without sessions, that
  every staged key is a plain name, that no two sessions get the same id, and that no write of an uploaded file fails
  after the file has been truncated. Then, whatever requests of the publish workflow are served with whatever
  other failures, the one artifact of every version published since then records a SHA-256 checksum, and the file
  in the upload directory that its URL names has this checksum; the URL decodes to the session and key, and if
  these are not blank, neither has a percent sign and the key has no two dots in a row, a download from it returns that file
  when the file can be read.
\<close>

theorem published_content:
  assumes "reg_steps C u s0 s" and "u \<noteq> ''''" and "rd_Sessions (rg_data s0) = []"
    and "published s x ver = Some v" and "published s0 x ver = None"
  shows "\<exists>sid key a b. ev_Artifacts v = [a] \<and> art_ChecksumAlgorithm a = ''sha256'' \<and>
    rg_files s (Join [u, sid, key]) = Some b \<and> EqualFold (cr_sha256 C b) (art_ChecksumValue a) \<and>
    unescape (art_URL a) = Some (''/v1/uploads/'' @ sid @ ''/'' @ key) \<and>
    (CHR ''%'' \<notin> set (sid @ key) \<and> \<not> Contains key ''..'' \<and> TrimSpace sid \<noteq> '''' \<and> TrimSpace key \<noteq> '''' \<and> io_read io \<longrightarrow>
      fst (handleUploads C u io rq GET (''/v1/uploads/'' @ sid @ ''/'' @ key) body s) = Content b)"
proof -
  have inv: "reg_inv C u s0 s" using reg_steps_inv [OF assms(1-3)] .
  then obtain sid sess key f a where k: "map_of (rd_Sessions (rg_data s)) sid = Some sess" "map_of (ps_Files sess) key = Some f"
    "sf_Uploaded f" "ev_Artifacts v = [a]" "art_ChecksumAlgorithm a = ''sha256''" "art_ChecksumValue a = sf_DeclaredChecksum f"
    "art_URL a = ''/v1/uploads/'' @ PathEscape sid @ ''/'' @ PathEscape key"
    using assms(4,5) unfolding reg_inv_def backed_def by blast
  from inv k(1,2) have pl: "plain sid" and ok: "key_ok C u s sid key f" unfolding reg_inv_def by blast+
  from ok k(3) obtain b where b: "rg_files s (Join [u, sid, key]) = Some b" "EqualFold (cr_sha256 C b) (sf_DeclaredChecksum f)"
    by (auto simp: key_ok_def)
  have "unescape (PathEscape key) = Some key" using unescape_PathEscape [of key "[]"] by simp
  then have "unescape (PathEscape sid @ ''/'' @ PathEscape key) = Some (sid @ ''/'' @ key)"
    using unescape_PathEscape [of sid "''/'' @ PathEscape key"] by simp
  then have url: "unescape (art_URL a) = Some (''/v1/uploads/'' @ sid @ ''/'' @ key)"
    using unescape_plain [of "''/v1/uploads/''" "PathEscape sid @ ''/'' @ PathEscape key"] by (simp add: k(7))
  have free: "\<forall>c \<in> set sid. c \<noteq> CHR ''/''" using pl by (auto simp: plain_def slashfree_def)
  have same: "PathUnescape q = q" if "CHR ''%'' \<notin> set q" for q
    using unescape_plain [OF that, of "[]"] by (simp add: PathUnescape_def)
  have parts: "takeWhile (\<lambda>c. c \<noteq> CHR ''/'') (sid @ CHR ''/'' # key) = sid" "dropWhile (\<lambda>c. c \<noteq> CHR ''/'') (sid @ CHR ''/'' # key) = CHR ''/'' # key"
    using free by (simp_all add: takeWhile_append dropWhile_append)
  have prefix: "TrimPrefix (''/v1/uploads/'' @ q) ''/v1/uploads/'' = q" for q
    by (simp add: TrimPrefix_def)
  have "fst (handleUploads C u io rq GET (''/v1/uploads/'' @ sid @ ''/'' @ key) body s) = Content b"
    if "CHR ''%'' \<notin> set (sid @ key)" "\<not> Contains key ''..''" "TrimSpace sid \<noteq> ''''" "TrimSpace key \<noteq> ''''" "io_read io"
    using that b(1) parts same [of sid] same [of key] unfolding handleUploads_def prefix by (simp add: Let_def)
  then show ?thesis using k b url by metis
qed


theorem published_content_witness:
  "\<exists>v sid key a b. published ex_published ''x'' ''1.0.0'' = Some v \<and> ev_Artifacts v = [a] \<and>
     rg_files ex_published (Join [''up'', sid, key]) = Some b \<and> EqualFold (cr_sha256 ex_crypto b) (art_ChecksumValue a)"
proof -
  from ex_version obtain v where v: "published ex_published ''x'' ''1.0.0'' = Some v" by blast
  have "reg_steps ex_crypto ''up'' ex_registry ex_published" using ex_steps by (rule rtranclp_trans)
  from published_content [OF this _ _ v ex_before] v show ?thesis by (simp add: ex_registry_def) blast
qed


section \<open>Where uploads go\<close>

definition infix_of :: "string \<Rightarrow> string \<Rightarrow> bool" where
  "infix_of p s \<longleftrightarrow> (\<exists>a b. s = a @ p @ b)"

lemma Contains_iff: "Contains s p \<longleftrightarrow> infix_of p s"
proof (induction s)
  case Nil
  then show ?case by (auto simp: Contains.simps [of "[]"] HasPrefix_iff infix_of_def)
next
  case (Cons c s)
  have "infix_of p (c # s) \<longleftrightarrow> HasPrefix (c # s) p \<or> infix_of p s"
    unfolding infix_of_def HasPrefix_iff by (metis append_Cons append_eq_Cons_conv)
  with Cons show ?case by (simp add: Contains.simps [of "c # s"])
qed

lemma Split_infix: "p \<in> set (Split c s) \<Longrightarrow> infix_of p s"
proof (induction s arbitrary: p)
  case (Cons x s)
  have tail: "infix_of q s \<Longrightarrow> infix_of q (x # s)" for q unfolding infix_of_def by (metis append_Cons)
  obtain q qs where q: "Split c s = q # qs" by (cases "Split c s") auto
  have head: "\<exists>b. s = q @ b" using q
  proof (induction s arbitrary: q qs)
    case (Cons y s)
    then show ?case by (cases "Split c s") (auto split: if_splits)
  qed simp
  have empty: "infix_of [] t" for t unfolding infix_of_def by (metis append_Nil)
  show ?case
  proof (cases "x = c \<or> p \<in> set qs")
    case True
    with Cons.prems q have "p = [] \<or> p \<in> set (Split c s)" by (auto split: if_splits)
    with Cons.IH tail empty show ?thesis by blast
  next
    case False
    with Cons.prems q have "p = x # q" by auto
    with head show ?thesis unfolding infix_of_def by (metis append_Cons append_Nil)
  qed
qed (auto simp: infix_of_def)

lemma TrimSpace_infix: "infix_of (TrimSpace s) s"
proof -
  have "s = takeWhile is_space s @ dropWhile is_space s" by simp
  moreover have "dropWhile is_space s = TrimSpace s @ rev (takeWhile is_space (rev (dropWhile is_space s)))"
    unfolding TrimSpace_def by (metis rev_append rev_rev_ident takeWhile_dropWhile_id)
  ultimately show ?thesis unfolding infix_of_def by metis
qed

lemma infix_trans: "infix_of p q \<Longrightarrow> infix_of q s \<Longrightarrow> infix_of p s"
  unfolding infix_of_def by (metis append.assoc)

lemma UploadPublishFile_stored:
  assumes "UploadPublishFile C u io p k b s = (r, s')" and "s' \<noteq> s"
  shows "\<exists>sess c. map_of (rd_Sessions (rg_data s)) (TrimSpace p) = Some sess \<and>
    rg_files s' = (rg_files s)(Join [Join [u, TrimSpace p], TrimSpace k] \<mapsto> c) \<and>
    (\<forall>t. t \<noteq> TrimSpace p \<longrightarrow> map_of (rd_Sessions (rg_data s')) t = map_of (rd_Sessions (rg_data s)) t)"
  using UploadPublishFile_effect [OF assms(1)] assms(2) by (auto simp: map_of_update)

text \<open>
  C18. Uploads stay where they belong. Session ids being plain, as all ids given out are, a request to the upload endpoint
  changes no extension and writes at most one file; it lies in the directory of a staged session below the upload
  directory, whatever key was staged, and no session other than that one is changed.
\<close>

theorem uploads_confined:
  assumes "handleUploads C u io rq meth path body s = (r, s')" and "u \<noteq> ''''"
    and "\<forall>sid \<in> fst ` set (rd_Sessions (rg_data s)). plain sid"
  shows "same_but_audit s s' \<or> (\<exists>sid rest b. sid \<in> fst ` set (rd_Sessions (rg_data s)) \<and> ''..'' \<notin> set rest \<and>
    rg_files s' = (rg_files s)(anchor u @ join_with ''/'' (comps u @ sid # rest) \<mapsto> b) \<and>
    rd_Extensions (rg_data s') = rd_Extensions (rg_data s) \<and>
    (\<forall>t. t \<noteq> sid \<longrightarrow> map_of (rd_Sessions (rg_data s')) t = map_of (rd_Sessions (rg_data s)) t))"
proof -
  from handleUploads_cases [OF assms(1)] consider "same_but_audit s s'"
    | (upload) e p k b s1 where "\<not> Contains k ''..''" "UploadPublishFile C u io p k b s = (e, s1)" "s1 \<noteq> s" "same_but_audit s1 s'" by blast
  then show ?thesis
  proof cases
    case upload
    let ?sid = "TrimSpace p" and ?key = "TrimSpace k"
    from UploadPublishFile_stored [OF upload(2,3)] obtain sess c where sid: "map_of (rd_Sessions (rg_data s)) ?sid = Some sess"
      and files: "rg_files s1 = (rg_files s)(Join [Join [u, ?sid], ?key] \<mapsto> c)"
      and sessions: "\<And>t. t \<noteq> ?sid \<Longrightarrow> map_of (rd_Sessions (rg_data s1)) t = map_of (rd_Sessions (rg_data s)) t" by blast
    have dots: "''..'' \<notin> set (Split (CHR ''/'') ?key)"
      using upload(1) Split_infix TrimSpace_infix infix_trans by (metis Contains_iff)
    have mem: "?sid \<in> fst ` set (rd_Sessions (rg_data s))" using sid by (metis domI dom_map_of_conv_image_fst)
    with assms(3) have "plain ?sid" by blast
    from Join_dir [OF assms(2) this dots] Join_upload [OF assms(2) this dots]
    have "rg_files s1 = (rg_files s)(anchor u @ join_with ''/'' (comps u @ ?sid # filter ordinary (Split (CHR ''/'') ?key)) \<mapsto> c)"
      using files by simp
    moreover have "''..'' \<notin> set (filter ordinary (Split (CHR ''/'') ?key))" using dots by simp
    moreover have "map_of (rd_Sessions (rg_data s1)) t = map_of (rd_Sessions (rg_data s)) t" if "t \<noteq> ?sid" for t
      using that by (rule sessions)
    moreover have "rd_Extensions (rg_data s1) = rd_Extensions (rg_data s)" using UploadPublishFile_exts [OF upload(2)] .
    ultimately show ?thesis using mem upload(4) unfolding same_but_audit_def
      by (intro disjI2 exI [of _ ?sid] exI [of _ "filter ordinary (Split (CHR ''/'') ?key)"] exI [of _ c]) simp
  qed simp
qed

theorem uploads_confined_witness:
  "\<exists>sid rest b. sid \<in> fst ` set (rd_Sessions (rg_data ex_staged)) \<and> ''..'' \<notin> set rest \<and>
    rg_files ex_uploaded = (rg_files ex_staged)(anchor ''up'' @ join_with ''/'' (comps ''up'' @ sid # rest) \<mapsto> b)"
proof -
  let ?r = "handleUploads ex_crypto ''up'' (ex_io 2) ex_requester PUT ''/v1/uploads/pub_local_1/k'' (Some ''abc'') ex_staged"
  have r: "?r = (fst ?r, ex_uploaded)" by (simp add: ex_uploaded_def)
  have ids: "map fst (rd_Sessions (rg_data ex_staged)) = [''pub_local_1'']" by code_simp
  have "plain ''pub_local_1''" by code_simp
  then have "\<forall>sid \<in> fst ` set (rd_Sessions (rg_data ex_staged)). plain sid" using ids by (simp flip: set_map)
  note c = uploads_confined [OF r _ this]
  have "rg_files ex_staged ''up/pub_local_1/k'' = None" by code_simp
  moreover have "rg_files ex_uploaded ''up/pub_local_1/k'' = Some ''abc''" unfolding ex_uploaded_eq by code_simp
  ultimately have "\<not> same_but_audit ex_staged ex_uploaded" by (auto simp: same_but_audit_def)
  with c show ?thesis by blast
qed

end
