(* ===== verification/Registry_Claims.thy ===== *)
theory Registry_Claims
  imports Registry_Order Registry_Upload_Claims
begin

text \<open>
  What the registry resolves and lists, with example runs, and what the endpoints let through.
\<close>

section \<open>Resolution\<close>

text \<open>
  The extensions a request may mean: the one with the requested id, or else one with an alias that is the
  requested id up to case. And the versions of an extension that fit and are not older than another one that fits.
\<close>

definition asked_for :: "(string \<times> extension) list \<Rightarrow> resolve_input \<Rightarrow> string \<Rightarrow> bool" where
  "asked_for exts i key \<longleftrightarrow> (if TrimSpace (ri_ID i) \<in> fst ` set exts then key = TrimSpace (ri_ID i)
     else TrimSpace (ri_ID i) \<noteq> '''' \<and> (\<exists>(k, e) \<in> set exts. k = key \<and> (\<exists>n \<in> set (ext_Aliases e). EqualFold (TrimSpace n) (TrimSpace (ri_ID i)))))"

definition newest_fit :: "resolve_input \<Rightarrow> extension \<Rightarrow> ext_version \<Rightarrow> bool" where
  "newest_fit i ext v \<longleftrightarrow> v \<in> snd ` set (ext_Versions ext) \<and> eligible i ext v \<and>
     (\<forall>w \<in> snd ` set (ext_Versions ext). eligible i ext w \<longrightarrow> \<not> newer w v)"

lemma canonicalID_cases:
  fixes exts i
  defines "key \<equiv> canonicalID exts (TrimSpace (ri_ID i))"
  shows "(\<forall>k. \<not> asked_for exts i k) \<and> map_of exts key = None \<or> asked_for exts i key \<and> map_of exts key \<noteq> None"
proof (cases "TrimSpace (ri_ID i) = '''' \<or> TrimSpace (ri_ID i) \<in> fst ` set exts")
  case True
  then show ?thesis by (auto simp: key_def canonicalID_def asked_for_def Let_def map_of_eq_None_iff)
next
  case False
  let ?named = "\<lambda>(key::string, e). list_ex (\<lambda>n. EqualFold (TrimSpace n) (TrimSpace (ri_ID i))) (ext_Aliases e)"
  show ?thesis
  proof (cases "List.find ?named exts")
    case None
    then have "\<not> asked_for exts i k" for k using False by (auto simp: find_None_iff asked_for_def list_ex_iff)
    with None False show ?thesis by (simp add: key_def canonicalID_def map_of_eq_None_iff)
  next
    case (Some p)
    then have "p \<in> set exts" "?named p" by (auto simp: find_Some_iff simp del: split_paired_All) (metis nth_mem)
    with False have "asked_for exts i (fst p)" "map_of exts (fst p) \<noteq> None"
      by (force simp: asked_for_def list_ex_iff, force simp: map_of_eq_None_iff)
    with Some False show ?thesis by (auto simp: key_def canonicalID_def split: prod.split)
  qed
qed

text \<open>
  C24. Resolution picks the newest version that fits, and its errors say what is missing. The extension is the one
  with the requested id or, if there is none, one with that alias. A resolved version is published, is the pinned one
  if there is a pin, its constraint admits the core, it has an artifact for the platform, and no other such version of the
  extension is newer; the artifact is that one, and it is signed if the publisher is verified. The result is
  an error exactly in these cases: no extension has the id or alias; the publisher of the extension is unknown;
  no version of it fits; or the publisher is verified and the artifact of the newest version that fits lacks a signature.
\<close>

theorem Resolve_picks_newest:
  "case Resolve_extension C u d i of
     Inr out \<Rightarrow> (\<exists>key a. asked_for (rd_Extensions d) i key \<and> map_of (rd_Extensions d) key = Some (ro_Extension out) \<and>
        map_of (rd_Publishers d) (ext_PublisherID (ro_Extension out)) = Some (ro_Publisher out) \<and>
        newest_fit i (ro_Extension out) (ro_Version out) \<and>
        selectArtifact (ro_Version out) (ext_Type (ro_Extension out)) (TrimSpace (ri_OS i)) (TrimSpace (ri_Arch i)) = Some a \<and>
        ro_Artifact out = materializeArtifact C u (ext_ID (ro_Extension out)) (ev_Version (ro_Version out)) a (TrimSpace (ri_OS i)) (TrimSpace (ri_Arch i)) \<and>
        (pub_Verified (ro_Publisher out) \<longrightarrow> art_Signature (ro_Artifact out) \<noteq> None))
   | Inl e \<Rightarrow> e = ExtensionNotFound \<and> (\<forall>key. \<not> asked_for (rd_Extensions d) i key) \<or>
       (\<exists>key ext. asked_for (rd_Extensions d) i key \<and> map_of (rd_Extensions d) key = Some ext \<and>
          (case map_of (rd_Publishers d) (ext_PublisherID ext) of
             None \<Rightarrow> e = PublisherNotFound
           | Some pub \<Rightarrow> e = NoCompatibleVersion \<and> (\<forall>v \<in> snd ` set (ext_Versions ext). \<not> eligible i ext v) \<or>
               e = SignatureRequired \<and> pub_Verified pub \<and> (\<exists>v a. newest_fit i ext v \<and>
                 selectArtifact v (ext_Type ext) (TrimSpace (ri_OS i)) (TrimSpace (ri_Arch i)) = Some a \<and>
                 art_Signature (materializeArtifact C u (ext_ID ext) (ev_Version v) a (TrimSpace (ri_OS i)) (TrimSpace (ri_Arch i))) = None)))"
proof -
  let ?key = "canonicalID (rd_Extensions d) (TrimSpace (ri_ID i))"
  note canon = canonicalID_cases [of "rd_Extensions d" i]
  consider (none) "map_of (rd_Extensions d) ?key = None"
    | (nopub) ext where "map_of (rd_Extensions d) ?key = Some ext" "map_of (rd_Publishers d) (ext_PublisherID ext) = None"
    | (found) ext pub where "map_of (rd_Extensions d) ?key = Some ext" "map_of (rd_Publishers d) (ext_PublisherID ext) = Some pub"
    by (metis option.exhaust)
  then show ?thesis
  proof cases
    case none
    with canon show ?thesis by (simp add: Resolve_extension_def)
  next
    case nopub
    with canon have "asked_for (rd_Extensions d) i ?key" by simp
    with nopub show ?thesis by (auto simp: Resolve_extension_def intro!: exI [of _ ?key])
  next
    case found
    with canon have key: "asked_for (rd_Extensions d) i ?key" by simp
    let ?fit = "filter (eligible i ext) (map snd (ext_Versions ext))"
    show ?thesis
    proof (cases "?fit = []")
      case True
      then have "\<forall>v \<in> snd ` set (ext_Versions ext). \<not> eligible i ext v" by (simp add: filter_empty_conv)
      with found True key show ?thesis by (auto simp: Resolve_extension_def Let_def intro!: exI [of _ ?key])
    next
      case False
      define v where "v = hd (sort_slice newer ?fit)"
      have "v \<in> set ?fit" using False unfolding v_def by (metis hd_in_set set_sort_slice sort_slice_eq_Nil)
      then have v: "v \<in> snd ` set (ext_Versions ext)" "eligible i ext v" by auto
      have best: "\<not> newer w v" if "w \<in> snd ` set (ext_Versions ext)" "eligible i ext w" for w
        unfolding v_def using newer_weak by (rule sort_slice_hd_least) (use that in auto)
      have newest: "newest_fit i ext v" using v best by (simp add: newest_fit_def)
      obtain a where a: "selectArtifact v (ext_Type ext) (TrimSpace (ri_OS i)) (TrimSpace (ri_Arch i)) = Some a"
        using v(2) by (auto simp: eligible_def)
      let ?a = "materializeArtifact C u (ext_ID ext) (ev_Version v) a (TrimSpace (ri_OS i)) (TrimSpace (ri_Arch i))"
      have "Resolve_extension C u d i = (if pub_Verified pub \<and> art_Signature ?a = None then Inl SignatureRequired
          else Inr \<lparr>ro_Extension = ext, ro_Version = v, ro_Publisher = pub, ro_Artifact = ?a\<rparr>)"
        using found False a by (simp add: Resolve_extension_def Let_def v_def [symmetric])
      then show ?thesis using found key newest a
        by (cases "pub_Verified pub \<and> art_Signature ?a = None") (auto intro!: exI [of _ ?key] exI [of _ v])
    qed
  qed
qed

definition ex_version_of :: "string \<Rightarrow> string \<Rightarrow> string \<times> ext_version" where
  "ex_version_of ver status = (ver, \<lparr>ev_Version = ver, ev_ReleaseStatus = status, ev_Description = '''', ev_CoreConstraint = ''>=0.9.0, <2.0.0'',
     ev_Capabilities = [], ev_Permissions = [], ev_Compatibility = [], ev_Manifest = [], ev_Integrity = [], ev_Install = [], ev_Metadata = [],
     ev_Artifacts = [\<lparr>art_Type = ''addon'', art_Format = ''zip'', art_URL = ''/x'', art_SizeBytes = 3,
       art_ChecksumAlgorithm = ''sha256'', art_ChecksumValue = ''abc'', art_Signature = Some (local_signature ex_crypto ''abc''),
       art_OS = '''', art_Arch = '''', art_DeterministicBinary = False\<rparr>], ev_PublishedAt = ''t''\<rparr>)"

definition ex_extension :: extension where
  "ex_extension = \<lparr>ext_ID = ''x'', ext_Aliases = [''ex''], ext_Name = ''X'', ext_Type = ''addon'', ext_PluginKind = '''', ext_Description = '''',
     ext_PublisherID = ''p'', ext_Versions = [ex_version_of ''1.9.0'' ''published'', ex_version_of ''1.10.0'' ''published'', ex_version_of ''3.0.0'' ''draft'']\<rparr>"

definition ex_input :: "string \<Rightarrow> resolve_input" where
  "ex_input ver = \<lparr>ri_ID = ''Ex'', ri_Core = ''1.4.2'', ri_OS = ''linux'', ri_Arch = ''amd64'', ri_Version = ver\<rparr>"

definition ex_data :: reg_data where
  "ex_data = (rg_data ex_registry)\<lparr>rd_Extensions := [(''x'', ex_extension)]\<rparr>"

definition resolved_version :: "reg_error + resolve_output \<Rightarrow> string" where
  "resolved_version r = (case r of Inl e \<Rightarrow> '''' | Inr out \<Rightarrow> ev_Version (ro_Version out))"

lemma ex_resolved: "resolved_version (Resolve_extension ex_crypto (\<lambda>u. u) ex_data (ex_input '''')) = ''1.10.0''" by code_simp

lemma ex_pinned: "resolved_version (Resolve_extension ex_crypto (\<lambda>u. u) ex_data (ex_input ''1.9.0'')) = ''1.9.0''" by code_simp

theorem Resolve_picks_newest_witness:
  "\<exists>out. Resolve_extension ex_crypto (\<lambda>u. u) ex_data (ex_input '''') = Inr out \<and> eligible (ex_input '''') ex_extension (ro_Version out) \<and>
     \<not> newer (snd (ex_version_of ''1.9.0'' ''published'')) (ro_Version out) \<and> art_Signature (ro_Artifact out) \<noteq> None"
proof -
  obtain out where out: "Resolve_extension ex_crypto (\<lambda>u. u) ex_data (ex_input '''') = Inr out"
    using ex_resolved by (auto simp: resolved_version_def split: sum.splits)
  obtain key ext where k: "map_of (rd_Extensions ex_data) key = Some ext" "map_of (rd_Publishers ex_data) (ext_PublisherID ext) = Some (ro_Publisher out)"
    "newest_fit (ex_input '''') ext (ro_Version out)"
    "pub_Verified (ro_Publisher out) \<longrightarrow> art_Signature (ro_Artifact out) \<noteq> None"
    using Resolve_picks_newest [where C = ex_crypto and u = "\<lambda>u. u" and d = ex_data and i = "ex_input ''''"] unfolding out by auto
  have ext: "ext = ex_extension" using k(1) by (simp add: ex_data_def split: if_splits)
  have "snd (ex_version_of ''1.9.0'' ''published'') \<in> snd ` set (ext_Versions ext)" by (simp add: ext ex_extension_def)
  moreover have "eligible (ex_input '''') ext (snd (ex_version_of ''1.9.0'' ''published''))" unfolding ext by code_simp
  moreover have "pub_Verified (ro_Publisher out)" using k(2) by (simp add: ext ex_extension_def ex_data_def ex_registry_def) (erule subst, simp)
  ultimately show ?thesis using out k(3,4) ext unfolding newest_fit_def by blast
qed

text \<open>Whatever follows the first dash is dropped: a prerelease published after its release is resolved instead of it.\<close>

lemma prerelease_wins:
  "compareVersion ''2.0.0-beta'' ''2.0.0'' = 0"
  "newer ((snd (ex_version_of ''2.0.0-beta'' ''published''))\<lparr>ev_PublishedAt := ''u''\<rparr>) (snd (ex_version_of ''2.0.0'' ''published''))"
  by code_simp+

section \<open>Publishing\<close>

text \<open>The signature that resolution demands of a verified publisher is only made for plugins.\<close>

lemma verified_addon_unresolvable:
  "Resolve_extension ex_crypto (\<lambda>u. u) (rg_data ex_published) ((ex_input '''')\<lparr>ri_ID := ''x''\<rparr>) = Inl SignatureRequired"
  unfolding ex_published_def ex_uploaded_eq by code_simp

text \<open>Another publisher adds a version to the plugin of the verified one, which then cannot be resolved.\<close>

definition ex_publish :: "string \<Rightarrow> string \<Rightarrow> int \<Rightarrow> registry \<Rightarrow> registry" where
  "ex_publish p ver n s0 = (let s1 = snd (CreatePublishSession (ex_io n) (ex_init p ''plugin'' ver) s0);
       s2 = snd (UploadPublishFile ex_crypto ''up'' (ex_io n) (session_id (ex_io n)) ''k'' ''abc'' s1)
     in snd (FinalizePublish ex_crypto ''up'' (ex_io n) (session_id (ex_io n)) s2))"

lemma foreign_version_blocks:
  "resolved_version (Resolve_extension ex_crypto (\<lambda>u. u) (rg_data (ex_publish ''p'' ''1.0.0'' 1 ex_registry)) ((ex_input '''')\<lparr>ri_ID := ''x''\<rparr>)) = ''1.0.0''"
  "Resolve_extension ex_crypto (\<lambda>u. u) (rg_data (ex_publish ''q'' ''1.1.0'' 2 (ex_publish ''p'' ''1.0.0'' 1 ex_registry))) ((ex_input '''')\<lparr>ri_ID := ''x''\<rparr>) = Inl SignatureRequired"
  by code_simp+

text \<open>The keys \<open>a\<close> and \<open>a/\<close> are one file: the version records the checksum declared for one and holds the other.\<close>

definition ex_two_keys :: registry where
  "ex_two_keys = (let i = ex_init ''q'' ''addon'' ''1.0.0'';
       f = (\<lambda>k c. \<lparr>pf_Key = k, pf_Name = k, pf_SizeBytes = 0, pf_Algorithm = '''', pf_Checksum = c\<rparr>);
       s1 = snd (CreatePublishSession (ex_io 1) (i\<lparr>pi_Files := [f ''a'' ''one'', f ''a/'' ''two'']\<rparr>) ex_registry);
       s2 = snd (UploadPublishFile ex_crypto ''up'' (ex_io 2) ''pub_local_1'' ''a'' ''one'' s1);
       s3 = snd (UploadPublishFile ex_crypto ''up'' (ex_io 3) ''pub_local_1'' ''a/'' ''two'' s2)
     in snd (FinalizePublish ex_crypto ''up'' (ex_io 4) ''pub_local_1'' s3))"

lemma wrong_content_published:
  "map_option (\<lambda>v. map art_ChecksumValue (ev_Artifacts v)) (published ex_two_keys ''x'' ''1.0.0'') = Some [''one'']"
  "rg_files ex_two_keys ''up/pub_local_1/a'' = Some ''two''"
  by code_simp+

text \<open>
  An upload to a published session writes the published file again: when this fails after the file has been truncated, the
  version stays published with its checksum and its file is lost.
\<close>

definition ex_truncated :: registry where
  "ex_truncated = snd (UploadPublishFile ex_crypto ''up'' ((ex_io 4)\<lparr>io_write := PartWritten 0\<rparr>) ''pub_local_1'' ''k'' ''abc'' ex_published)"

lemma failed_upload_truncates:
  "map_option (\<lambda>v. map art_ChecksumValue (ev_Artifacts v)) (published ex_truncated ''x'' ''1.0.0'') = Some [''abc'']"
  "rg_files ex_truncated ''up/pub_local_1/k'' = Some ''''"
  unfolding ex_truncated_def ex_published_def ex_uploaded_eq by code_simp+

section \<open>The upload endpoint\<close>

text \<open>
  Downloads are not confined. The check for two dots does not cover the session part of the path, which is decoded
  once more: the session part of two escaped dots reaches the files beside the upload directory, in
  the default layout the database of the registry, without authentication.
\<close>

theorem download_escapes:
  "Join [''data/uploads'', ''..'', ''registry.db.json''] = ''data/registry.db.json'' \<and>
   fst (handleUploads C ''data/uploads'' (ex_io n) rq GET ''/v1/uploads/%2e%2e/registry.db.json'' body s) =
     (case rg_files s ''data/registry.db.json'' of None \<Rightarrow> FileNotFound | Some b \<Rightarrow> Content b)"
proof -
  have parts: "TrimPrefix ''/v1/uploads/%2e%2e/registry.db.json'' ''/v1/uploads/'' = ''%2e%2e/registry.db.json''" "PathUnescape ''%2e%2e'' = ''..''"
    "PathUnescape ''registry.db.json'' = ''registry.db.json''" "\<not> Contains ''registry.db.json'' ''..''" "TrimSpace ''%2e%2e'' \<noteq> ''''"
    "TrimSpace ''registry.db.json'' \<noteq> ''''" "Join [''data/uploads'', ''..'', ''registry.db.json''] = ''data/registry.db.json''"
    by code_simp+
  then show ?thesis unfolding handleUploads_def by (simp add: Let_def ex_io_def split: option.split)
qed

text \<open>The path is decoded twice, so a key with a percent sign cannot be uploaded under the path of its artifact.\<close>

lemma percent_key_lost:
  "unescape (PathEscape ''a%41'') = Some ''a%41''" "PathUnescape ''a%41'' = ''aA''"
  by code_simp+

section \<open>Pages\<close>

lemma page_slice_exact:
  assumes "0 < sz" and "sz \<le> 100" and "0 < page" and "page < 2 ^ 56" and "length xs < 2 ^ 62"
  shows "page_slice page sz xs = Some (take (nat sz) (drop (nat ((page - 1) * sz)) xs))"
proof -
  let ?start = "(page - 1) * sz" and ?n = "int (length xs)"
  have "?start \<le> 2 ^ 56 * 100" using assms by (intro mult_mono) auto
  moreover have pos: "0 \<le> ?start" using assms by simp
  ultimately have start: "wrap64 ?start = ?start" by (intro wrap64_id) auto
  have n: "?n < 2 ^ 62" using assms(5) by simp
  have "wrap64 (min ?start ?n + sz) = min ?start ?n + sz"
    using assms(1,2) pos n by (intro wrap64_id) (auto simp: min_def)
  with start pos assms(1-4) show ?thesis
    by (auto simp: page_slice_def Let_def page_number_def page_size_def min_def nat_le_iff split: if_splits)
qed

text \<open>
  A page is the slice it should be: for a page size of at most a hundred and a page number below 2 to the 56, a
  page of a listing holds the items from its first to its last position, with the total.
\<close>

theorem List_extensions_page:
  assumes "0 < sz" and "sz \<le> 100" and "0 < page" and "page < 2 ^ 56" and "length (list_all_items d typ kind key order) < 2 ^ 62"
  shows "List_extensions d typ kind page sz key order =
      Some (take (nat sz) (drop (nat ((page - 1) * sz)) (list_all_items d typ kind key order)), int (length (list_all_items d typ kind key order)))"
  using page_slice_exact [OF assms] by (simp add: List_extensions_def Let_def)

theorem List_extensions_page_witness:
  "map_option (map li_ID \<circ> fst) (List_extensions ex_data ''addon'' '''' 1 20 ''id'' ''asc'') = Some [''x'']"
proof -
  have "list_all_items ex_data ''addon'' '''' ''id'' ''asc'' = [list_item_of ex_data ex_extension]" by code_simp
  then show ?thesis using List_extensions_page [of 20 1 ex_data "''addon''" "''''" "''id''" "''asc''"]
    by (simp add: list_item_of_def ex_extension_def split: prod.split)
qed

text \<open>A page number close to the limit of the integers makes the product overflow, and the slice panics.\<close>

lemma huge_page_panics: "List_extensions d typ kind 461168601842738792 20 key order = None"
  by (simp add: List_extensions_def page_slice_def page_number_def page_size_def wrap64_def Let_def)

end
