(* ===== verification/Registry_Packages.thy ===== *)
theory Registry_Packages
  imports Registry_Store
begin

text \<open>
  The package registry (\<^verbatim>\<open>apps/registry/internal/store/packages.go\<close>) and its organizations
  (\<^verbatim>\<open>organizations.go\<close>) on the JSON backend. Maps are lists of entries in iteration order without nil values. A record
  is changed through a pointer, so a change stays in memory when the database file cannot be written (\<open>io_save\<close>);
  the file always gets the whole memory.
\<close>

section \<open>Data\<close>

record reg_package =
  pk_ID :: string
  pk_TenantID :: string
  pk_Namespace :: string
  pk_Name :: string
  pk_LatestVersion :: string
  pk_Visibility :: string
  pk_CreatedBy :: string
  pk_CreatedAt :: string
  pk_UpdatedAt :: string

record pkg_version =
  pkv_ID :: string
  pkv_PackageID :: string
  pkv_TenantID :: string
  pkv_Version :: string
  pkv_Manifest :: anymap
  pkv_ArtifactKey :: string
  pkv_Checksum :: string
  pkv_SizeBytes :: int
  pkv_PublishedBy :: string
  pkv_PublishedAt :: string

record api_key =
  ak_ID :: string
  ak_KeyHash :: string
  ak_UserID :: string
  ak_TenantID :: string
  ak_Roles :: "string list"
  ak_ExpiresAt :: string
  ak_RevokedAt :: string
  ak_CreatedAt :: string

record org_member =
  om_UserID :: string
  om_Email :: string
  om_Role :: string

record organization =
  og_ID :: string
  og_Slug :: string
  og_Name :: string
  og_Description :: string
  og_Visibility :: string
  og_CreatedBy :: string
  og_CreatedAt :: string
  og_UpdatedAt :: string
  og_Members :: "org_member list"

record pkg_data =
  pd_Packages :: "(string \<times> reg_package) list"
  pd_Versions :: "(string \<times> (string \<times> pkg_version) list) list"
  pd_APIKeys :: "(string \<times> api_key) list"
  pd_Orgs :: "(string \<times> organization) list"

datatype pkg_error = PkgFieldsRequired | PkgBadVisibility | PkgExists | PkgNotFound | PkgTenantMismatch | PkgVersionExists
  | PkgVersionNotFound | PkgSaveFailed | KeyNotFound | KeyRevoked | KeyExpired
  | OrgFieldsRequired | OrgExists | OrgNotFound | OrgBadRole | OrgLastOwner | OrgMemberNotFound

section \<open>API keys\<close>

definition HashAPIKey :: "crypto \<Rightarrow> string \<Rightarrow> string" where
  "HashAPIKey C raw = cr_sha256 C (TrimSpace raw)"

text \<open>\<open>expired\<close> tells of an expiry time whether it parses and has passed.\<close>

definition FindAPIKey :: "crypto \<Rightarrow> (string \<Rightarrow> bool) \<Rightarrow> string \<Rightarrow> pkg_data \<Rightarrow> pkg_error + api_key" where
  "FindAPIKey C expired raw d = (case map_of (pd_APIKeys d) (HashAPIKey C raw) of None \<Rightarrow> Inl KeyNotFound
   | Some rec \<Rightarrow> if TrimSpace (ak_RevokedAt rec) \<noteq> '''' then Inl KeyRevoked
       else if TrimSpace (ak_ExpiresAt rec) \<noteq> '''' \<and> expired (ak_ExpiresAt rec) then Inl KeyExpired
       else Inr rec)"

section \<open>Packages\<close>

definition normalizeSegment :: "string \<Rightarrow> string" where
  "normalizeSegment v = ToLower (TrimSpace v)"

definition normalizeVisibility :: "string \<Rightarrow> string" where
  "normalizeVisibility v = (let t = ToLower (TrimSpace v) in
     if t = ''public'' then ''public'' else if t = ''tenant'' \<or> t = '''' then ''tenant'' else '''')"

definition pkg_named :: "string \<Rightarrow> string \<Rightarrow> string \<Rightarrow> reg_package \<Rightarrow> bool" where
  "pkg_named tenant namespace name p \<longleftrightarrow> pk_TenantID p = TrimSpace tenant \<and>
     EqualFold (pk_Namespace p) (normalizeSegment namespace) \<and> EqualFold (pk_Name p) (normalizeSegment name)"

text \<open>The entry found, with its key in the map.\<close>

definition findPackage :: "(string \<times> reg_package) list \<Rightarrow> string \<Rightarrow> string \<Rightarrow> string \<Rightarrow> (string \<times> reg_package) option" where
  "findPackage pkgs tenant namespace name = List.find (pkg_named tenant namespace name \<circ> snd) pkgs"

definition pkgVisibleTo :: "reg_package \<Rightarrow> string \<Rightarrow> bool \<Rightarrow> bool \<Rightarrow> bool" where
  "pkgVisibleTo p tenant includePublic publicOnly =
     (if publicOnly then pk_Visibility p = ''public''
      else if TrimSpace tenant \<noteq> '''' \<and> pk_TenantID p = TrimSpace tenant then True
      else includePublic \<and> pk_Visibility p = ''public'')"

record pkg_filter =
  pq_TenantID :: string
  pq_IncludePublic :: bool
  pq_PublicOnly :: bool
  pq_Namespace :: string
  pq_Query :: string

definition pkg_selected :: "pkg_filter \<Rightarrow> reg_package \<Rightarrow> bool" where
  "pkg_selected f p = (let q = ToLower (TrimSpace (pq_Query f)); ns = ToLower (TrimSpace (pq_Namespace f)) in
     pkgVisibleTo p (pq_TenantID f) (pq_IncludePublic f) (pq_PublicOnly f) \<and> (ns = '''' \<or> ToLower (pk_Namespace p) = ns) \<and>
     (q = '''' \<or> Contains (ToLower (pk_Namespace p @ ''/'' @ pk_Name p)) q))"

definition pkg_before :: "reg_package \<Rightarrow> reg_package \<Rightarrow> bool" where
  "pkg_before a b = (if pk_UpdatedAt a \<noteq> pk_UpdatedAt b then str_less (pk_UpdatedAt b) (pk_UpdatedAt a)
     else if pk_Namespace a \<noteq> pk_Namespace b then str_less (pk_Namespace a) (pk_Namespace b)
     else str_less (pk_Name a) (pk_Name b))"

definition ListVisiblePackages :: "pkg_filter \<Rightarrow> pkg_data \<Rightarrow> reg_package list" where
  "ListVisiblePackages f d = sort_slice pkg_before (filter (pkg_selected f) (map snd (pd_Packages d)))"

text \<open>The loop over the public packages of all tenants; the one updated last wins.\<close>

definition public_candidate :: "string \<Rightarrow> string \<Rightarrow> reg_package option \<Rightarrow> reg_package \<Rightarrow> reg_package option" where
  "public_candidate namespace name best p =
     (if \<not> EqualFold (pk_Namespace p) (TrimSpace namespace) \<or> \<not> EqualFold (pk_Name p) (TrimSpace name) \<or> pk_Visibility p \<noteq> ''public'' then best
      else case best of None \<Rightarrow> Some p | Some b \<Rightarrow> if str_less (pk_UpdatedAt b) (pk_UpdatedAt p) then Some p else best)"

definition GetVisiblePackage :: "string \<Rightarrow> string \<Rightarrow> string \<Rightarrow> bool \<Rightarrow> pkg_data \<Rightarrow> pkg_error + reg_package" where
  "GetVisiblePackage tenant namespace name includePublic d = (case findPackage (pd_Packages d) tenant namespace name of
     Some (key, p) \<Rightarrow> Inr p
   | None \<Rightarrow> if \<not> includePublic then Inl PkgNotFound
       else case foldl (public_candidate namespace name) None (map snd (pd_Packages d)) of None \<Rightarrow> Inl PkgNotFound | Some p \<Rightarrow> Inr p)"

definition saved :: "reg_io \<Rightarrow> 'a \<Rightarrow> pkg_data \<Rightarrow> (pkg_error + 'a) \<times> pkg_data" where
  "saved io x d = (if io_save io then Inr x else Inl PkgSaveFailed, d)"

definition package_id :: "reg_io \<Rightarrow> string" where
  "package_id io = ''pkg_'' @ itoa (io_nano io)"

definition CreatePackage :: "reg_io \<Rightarrow> string \<Rightarrow> string \<Rightarrow> string \<Rightarrow> string \<Rightarrow> string \<Rightarrow> pkg_data \<Rightarrow> (pkg_error + reg_package) \<times> pkg_data" where
  "CreatePackage io tenant0 namespace0 name0 visibility0 actor0 d =
     (let tenant = TrimSpace tenant0; namespace = normalizeSegment namespace0; name = normalizeSegment name0;
          visibility = normalizeVisibility visibility0; actor = TrimSpace actor0
      in if tenant = '''' \<or> namespace = '''' \<or> name = '''' \<or> actor = '''' then (Inl PkgFieldsRequired, d)
      else if visibility = '''' then (Inl PkgBadVisibility, d)
      else if findPackage (pd_Packages d) tenant namespace name \<noteq> None then (Inl PkgExists, d)
      else let p = \<lparr>pk_ID = package_id io, pk_TenantID = tenant, pk_Namespace = namespace, pk_Name = name, pk_LatestVersion = '''',
             pk_Visibility = visibility, pk_CreatedBy = actor, pk_CreatedAt = io_now io, pk_UpdatedAt = io_now io\<rparr>
        in saved io p (d\<lparr>pd_Packages := AList.update (pk_ID p) p (pd_Packages d)\<rparr>))"

definition pickLatestVersion :: "string \<Rightarrow> string \<Rightarrow> string" where
  "pickLatestVersion current incoming =
     (if TrimSpace current = '''' then TrimSpace incoming
      else if compareVersion (TrimSpace incoming) (TrimSpace current) > 0 then TrimSpace incoming else TrimSpace current)"

definition canonicalArtifactKey :: "string \<Rightarrow> string \<Rightarrow> string \<Rightarrow> string \<Rightarrow> string" where
  "canonicalArtifactKey tenant namespace name version =
     ''tenants/'' @ TrimSpace tenant @ ''/packages/'' @ normalizeSegment namespace @ ''/'' @ normalizeSegment name @ ''/'' @
       TrimSpace version @ ''/artifact.tar.gz''"

record publish_version_input =
  pvi_TenantID :: string
  pvi_Namespace :: string
  pvi_Name :: string
  pvi_Version :: string
  pvi_Manifest :: anymap
  pvi_ArtifactKey :: string
  pvi_Checksum :: string
  pvi_SizeBytes :: int
  pvi_PublishedBy :: string

definition versions_of :: "pkg_data \<Rightarrow> string \<Rightarrow> (string \<times> pkg_version) list" where
  "versions_of d pid = (case map_of (pd_Versions d) pid of None \<Rightarrow> [] | Some vs \<Rightarrow> vs)"

definition PublishPackageVersion :: "reg_io \<Rightarrow> publish_version_input \<Rightarrow> pkg_data \<Rightarrow> (pkg_error + pkg_version) \<times> pkg_data" where
  "PublishPackageVersion io i d =
     (let tenant = TrimSpace (pvi_TenantID i); namespace = normalizeSegment (pvi_Namespace i); name = normalizeSegment (pvi_Name i);
          version = TrimSpace (pvi_Version i); actor = TrimSpace (pvi_PublishedBy i)
      in if tenant = '''' \<or> namespace = '''' \<or> name = '''' \<or> version = '''' \<or> actor = '''' then (Inl PkgFieldsRequired, d)
      else case findPackage (pd_Packages d) tenant namespace name of None \<Rightarrow> (Inl PkgNotFound, d)
      | Some (key, p) \<Rightarrow>
          if pk_TenantID p \<noteq> tenant then (Inl PkgTenantMismatch, d)
          else let vs = versions_of d (pk_ID p); d1 = d\<lparr>pd_Versions := AList.update (pk_ID p) vs (pd_Versions d)\<rparr> in
            if version \<in> fst ` set vs then (Inl PkgVersionExists, d1)
            else let v = \<lparr>pkv_ID = ''pkgv_'' @ itoa (io_nano io), pkv_PackageID = pk_ID p, pkv_TenantID = tenant, pkv_Version = version,
                   pkv_Manifest = pvi_Manifest i, pkv_ArtifactKey = canonicalArtifactKey tenant namespace name version,
                   pkv_Checksum = TrimSpace (pvi_Checksum i), pkv_SizeBytes = pvi_SizeBytes i, pkv_PublishedBy = actor, pkv_PublishedAt = io_now io\<rparr>;
                 p' = p\<lparr>pk_LatestVersion := pickLatestVersion (pk_LatestVersion p) version, pk_UpdatedAt := io_now io\<rparr>
              in saved io v (d1\<lparr>pd_Versions := AList.update (pk_ID p) (AList.update version v vs) (pd_Versions d1),
                   pd_Packages := AList.update key p' (pd_Packages d)\<rparr>))"

definition pkg_version_before :: "pkg_version \<Rightarrow> pkg_version \<Rightarrow> bool" where
  "pkg_version_before a b = (let cmp = compareVersion (pkv_Version a) (pkv_Version b) in
     if cmp \<noteq> 0 then cmp > 0 else str_less (pkv_PublishedAt b) (pkv_PublishedAt a))"

definition ListPackageVersions :: "string \<Rightarrow> pkg_data \<Rightarrow> pkg_version list" where
  "ListPackageVersions pid d = sort_slice pkg_version_before (map snd (versions_of d (TrimSpace pid)))"

definition GetPackageVersion :: "string \<Rightarrow> string \<Rightarrow> pkg_data \<Rightarrow> pkg_error + pkg_version" where
  "GetPackageVersion pid version d = (case map_of (versions_of d (TrimSpace pid)) (TrimSpace version) of
     None \<Rightarrow> Inl PkgVersionNotFound | Some v \<Rightarrow> Inr v)"

definition UpdatePackageVisibility :: "reg_io \<Rightarrow> string \<Rightarrow> string \<Rightarrow> string \<Rightarrow> string \<Rightarrow> pkg_data \<Rightarrow> (pkg_error + reg_package) \<times> pkg_data" where
  "UpdatePackageVisibility io tenant0 namespace0 name0 visibility0 d =
     (let tenant = TrimSpace tenant0; namespace = normalizeSegment namespace0; name = normalizeSegment name0;
          visibility = normalizeVisibility visibility0
      in if tenant = '''' \<or> namespace = '''' \<or> name = '''' then (Inl PkgFieldsRequired, d)
      else if visibility = '''' then (Inl PkgBadVisibility, d)
      else case findPackage (pd_Packages d) tenant namespace name of None \<Rightarrow> (Inl PkgNotFound, d)
      | Some (key, p) \<Rightarrow>
          if pk_TenantID p \<noteq> tenant then (Inl PkgTenantMismatch, d)
          else let p' = p\<lparr>pk_Visibility := visibility, pk_UpdatedAt := io_now io\<rparr> in
            saved io p' (d\<lparr>pd_Packages := AList.update key p' (pd_Packages d)\<rparr>))"

definition DeletePackage :: "reg_io \<Rightarrow> string \<Rightarrow> string \<Rightarrow> string \<Rightarrow> pkg_data \<Rightarrow> (pkg_error + unit) \<times> pkg_data" where
  "DeletePackage io tenant0 namespace0 name0 d =
     (let tenant = TrimSpace tenant0; namespace = normalizeSegment namespace0; name = normalizeSegment name0
      in if tenant = '''' \<or> namespace = '''' \<or> name = '''' then (Inl PkgFieldsRequired, d)
      else case findPackage (pd_Packages d) tenant namespace name of None \<Rightarrow> (Inl PkgNotFound, d)
      | Some (key, p) \<Rightarrow>
          if pk_TenantID p \<noteq> tenant then (Inl PkgTenantMismatch, d)
          else saved io () (d\<lparr>pd_Versions := AList.delete (pk_ID p) (pd_Versions d), pd_Packages := AList.delete (pk_ID p) (pd_Packages d)\<rparr>))"

section \<open>Organizations\<close>

definition normalizeOrgRole :: "string \<Rightarrow> string" where
  "normalizeOrgRole role = (let r = ToLower (TrimSpace role) in
     if r = ''owner'' then ''owner'' else if r = ''admin'' then ''admin''
     else if r = ''developer'' \<or> r = ''member'' \<or> r = '''' then ''developer'' else '''')"

definition slug_char :: "char \<Rightarrow> string" where
  "slug_char c = (let n = (of_char c :: nat) in
     if 97 \<le> n \<and> n \<le> 122 \<or> 48 \<le> n \<and> n \<le> 57 \<or> c = CHR ''-'' then [c] else if c = CHR '' '' \<or> c = CHR ''_'' then ''-'' else [])"

definition normalizeOrgSlug :: "string \<Rightarrow> string" where
  "normalizeOrgSlug slug = (let s = concat (map slug_char (ToLower (TrimSpace slug)));
       dash = (\<lambda>c. c = CHR ''-'') in rev (dropWhile dash (rev (dropWhile dash s))))"

definition memberRole :: "organization \<Rightarrow> string \<Rightarrow> string" where
  "memberRole org user = (case List.find (\<lambda>m. om_UserID m = TrimSpace user) (og_Members org) of None \<Rightarrow> '''' | Some m \<Rightarrow> om_Role m)"

record create_org_input =
  coi_Slug :: string
  coi_Name :: string
  coi_Description :: string
  coi_Visibility :: string
  coi_CreatedBy :: string
  coi_CreatedByEmail :: string

definition CreateOrganization :: "reg_io \<Rightarrow> create_org_input \<Rightarrow> pkg_data \<Rightarrow> (pkg_error + organization) \<times> pkg_data" where
  "CreateOrganization io i d =
     (let slug = normalizeOrgSlug (coi_Slug i); name = (if TrimSpace (coi_Name i) = '''' then slug else TrimSpace (coi_Name i));
          actor = TrimSpace (coi_CreatedBy i);
          visibility = (if normalizeVisibility (coi_Visibility i) = '''' then ''public'' else normalizeVisibility (coi_Visibility i))
      in if slug = '''' \<or> actor = '''' then (Inl OrgFieldsRequired, d)
      else if map_of (pd_Orgs d) slug \<noteq> None then (Inl OrgExists, d)
      else let org = \<lparr>og_ID = ''org_'' @ itoa (io_nano io), og_Slug = slug, og_Name = name, og_Description = TrimSpace (coi_Description i),
             og_Visibility = visibility, og_CreatedBy = actor, og_CreatedAt = io_now io, og_UpdatedAt = io_now io,
             og_Members = [\<lparr>om_UserID = actor, om_Email = TrimSpace (coi_CreatedByEmail i), om_Role = ''owner''\<rparr>]\<rparr>
        in saved io org (d\<lparr>pd_Orgs := AList.update slug org (pd_Orgs d)\<rparr>))"

definition ListOrganizations :: "string \<Rightarrow> pkg_data \<Rightarrow> organization list" where
  "ListOrganizations user d = sort_slice (\<lambda>a b. str_less (og_Slug a) (og_Slug b))
     (filter (\<lambda>org. TrimSpace user = '''' \<or> memberRole org (TrimSpace user) \<noteq> '''') (map snd (pd_Orgs d)))"

definition GetOrganization :: "string \<Rightarrow> pkg_data \<Rightarrow> pkg_error + organization" where
  "GetOrganization slug d = (case map_of (pd_Orgs d) (normalizeOrgSlug slug) of None \<Rightarrow> Inl OrgNotFound | Some org \<Rightarrow> Inr org)"

text \<open>The first member with the id gets the role, and the email if one is given; without one a member is added.\<close>

fun put_member :: "string \<Rightarrow> string \<Rightarrow> string \<Rightarrow> org_member list \<Rightarrow> org_member list" where
  "put_member user email role [] = [\<lparr>om_UserID = user, om_Email = email, om_Role = role\<rparr>]"
| "put_member user email role (m # ms) =
     (if om_UserID m = user then m\<lparr>om_Role := role, om_Email := (if email \<noteq> '''' then email else om_Email m)\<rparr> # ms
      else m # put_member user email role ms)"

definition put_org :: "reg_io \<Rightarrow> string \<Rightarrow> organization \<Rightarrow> org_member list \<Rightarrow> pkg_data \<Rightarrow> (pkg_error + organization) \<times> pkg_data" where
  "put_org io slug org members d = (let org' = org\<lparr>og_Members := members, og_UpdatedAt := io_now io\<rparr> in
     saved io org' (d\<lparr>pd_Orgs := AList.update slug org' (pd_Orgs d)\<rparr>))"

definition AddOrganizationMember :: "reg_io \<Rightarrow> string \<Rightarrow> string \<Rightarrow> string \<Rightarrow> string \<Rightarrow> pkg_data \<Rightarrow> (pkg_error + organization) \<times> pkg_data" where
  "AddOrganizationMember io slug0 user0 email role0 d =
     (let slug = normalizeOrgSlug slug0; user = TrimSpace user0; role = normalizeOrgRole role0
      in if slug = '''' \<or> user = '''' then (Inl OrgFieldsRequired, d)
      else if role = '''' then (Inl OrgBadRole, d)
      else case map_of (pd_Orgs d) slug of None \<Rightarrow> (Inl OrgNotFound, d)
      | Some org \<Rightarrow> put_org io slug org (put_member user (TrimSpace email) role (og_Members org)) d)"

definition owners :: "organization \<Rightarrow> nat" where
  "owners org = length (filter (\<lambda>m. om_Role m = ''owner'') (og_Members org))"

text \<open>An owner among the members removed stops the loop when it is the only owner; nothing has changed then.\<close>

definition RemoveOrganizationMember :: "reg_io \<Rightarrow> string \<Rightarrow> string \<Rightarrow> pkg_data \<Rightarrow> (pkg_error + organization) \<times> pkg_data" where
  "RemoveOrganizationMember io slug0 user0 d =
     (let slug = normalizeOrgSlug slug0; user = TrimSpace user0 in
      case map_of (pd_Orgs d) slug of None \<Rightarrow> (Inl OrgNotFound, d)
      | Some org \<Rightarrow>
          if owners org \<le> 1 \<and> list_ex (\<lambda>m. om_UserID m = user \<and> om_Role m = ''owner'') (og_Members org) then (Inl OrgLastOwner, d)
          else if \<not> list_ex (\<lambda>m. om_UserID m = user) (og_Members org) then (Inl OrgMemberNotFound, d)
          else put_org io slug org (filter (\<lambda>m. om_UserID m \<noteq> user) (og_Members org)) d)"

end
