(* ===== verification/Registry_Access.thy ===== *)
theory Registry_Access
  imports Registry_Packages Config_Resolve
begin

text \<open>
  Who may do what in the registry server (\<^verbatim>\<open>apps/registry/internal/server\<close>): roles and policies
  (\<^verbatim>\<open>policy_engine.go\<close>), identities from tokens (\<^verbatim>\<open>identity.go\<close>, \<^verbatim>\<open>jwks.go\<close>, \<^verbatim>\<open>oidc_config.go\<close>), signed artifact
  URLs (\<^verbatim>\<open>artifacts.go\<close>) and rate limits (\<^verbatim>\<open>server.go\<close>). Decoding, signatures and key servers are parameters.
\<close>

section \<open>Policies\<close>

type_synonym table3 = "(string \<times> (string \<times> (string \<times> bool) list) list) list"

definition lookup_list :: "(string \<times> 'a list) list \<Rightarrow> string \<Rightarrow> 'a list" where
  "lookup_list m k = (case map_of m k of None \<Rightarrow> [] | Some xs \<Rightarrow> xs)"

definition put3 :: "string \<Rightarrow> string \<Rightarrow> string \<Rightarrow> bool \<Rightarrow> table3 \<Rightarrow> table3" where
  "put3 a b c v m = (let m2 = lookup_list m a; m3 = lookup_list m2 b in AList.update a (AList.update b (AList.update c v m3) m2) m)"

definition get3 :: "table3 \<Rightarrow> string \<Rightarrow> string \<Rightarrow> string \<Rightarrow> bool" where
  "get3 m a b c \<longleftrightarrow> map_of (lookup_list (lookup_list m a) b) c = Some True"

text \<open>\<open>pe_allow\<close> by role, object and action, \<open>pe_bind\<close> by subject, tenant and role.\<close>

record policy_engine =
  pe_allow :: table3
  pe_bind :: table3

definition defaultPolicyAllowMap :: table3 where
  "defaultPolicyAllowMap =
    [(''admin'', [(''package'', [(''package:read'', True), (''package:publish'', True), (''package:delete'', True), (''package:manage_visibility'', True)]),
        (''registry'', [(''registry:audit:read'', True)])]),
     (''publisher'', [(''package'', [(''package:read'', True), (''package:publish'', True), (''package:manage_visibility'', True)])]),
     (''reader'', [(''package'', [(''package:read'', True)])]),
     (''anonymous'', [(''package'', [(''package:read'', True)])])]"

definition defaultTenantBindings :: table3 where
  "defaultTenantBindings =
    [(''runfabric-dev'', [(''tenant_runfabric'', [(''admin'', True)])]),
     (''runfabric-official'', [(''tenant_runfabric'', [(''publisher'', True)])]),
     (''ci-bot'', [(''tenant_runfabric'', [(''admin'', True)])])]"

definition policy_line :: "string \<Rightarrow> table3 \<times> table3 \<Rightarrow> table3 \<times> table3" where
  "policy_line line0 tables = (case tables of (allow, bind) \<Rightarrow>
     let line = TrimSpace line0; parts = map TrimSpace (Split (CHR '','') line); low = map ToLower parts in
     if line = '''' \<or> HasPrefix line ''#'' \<or> length parts < 4 then (allow, bind)
     else if low ! 0 = ''p'' then
       (let role = low ! 1; long = length parts \<ge> 5;
            object0 = (if long then low ! 2 else ''*''); action = (if long then low ! 3 else low ! 2);
            effect = (if long then low ! 4 else low ! 3); object = (if object0 = '''' then ''*'' else object0)
        in if role = '''' \<or> action = '''' then (allow, bind) else (put3 role object action (effect = ''allow'') allow, bind))
     else if low ! 0 = ''g'' then
       (let subject = parts ! 1; role = low ! 2; tenant = parts ! 3 in
        if subject = '''' \<or> role = '''' \<or> tenant = '''' then (allow, bind) else (allow, put3 subject tenant role True bind))
     else (allow, bind))"

text \<open>Without a path the defaults; the lines are \<^term>\<open>None\<close> when the file cannot be read to its end.\<close>

definition newPolicyEngine :: "string \<Rightarrow> string list option \<Rightarrow> policy_engine option" where
  "newPolicyEngine path lines =
     (if TrimSpace path = '''' then Some \<lparr>pe_allow = defaultPolicyAllowMap, pe_bind = defaultTenantBindings\<rparr>
      else case lines of None \<Rightarrow> None
      | Some ls \<Rightarrow> (case fold policy_line ls ([], []) of (allow, bind) \<Rightarrow>
          Some \<lparr>pe_allow = (if allow = [] then defaultPolicyAllowMap else allow),
                pe_bind = (if bind = [] then defaultTenantBindings else bind)\<rparr>))"

definition boundRoles :: "policy_engine \<Rightarrow> string \<Rightarrow> string \<Rightarrow> string list" where
  "boundRoles P subject tenant =
     (if TrimSpace subject = '''' \<or> TrimSpace tenant = '''' then []
      else map fst (lookup_list (lookup_list (pe_bind P) (TrimSpace subject)) (TrimSpace tenant)))"

definition subjectHasBindings :: "policy_engine \<Rightarrow> string \<Rightarrow> bool" where
  "subjectHasBindings P subject \<longleftrightarrow> TrimSpace subject \<noteq> '''' \<and> lookup_list (pe_bind P) (TrimSpace subject) \<noteq> []"

definition allowRole :: "policy_engine \<Rightarrow> string \<Rightarrow> string \<Rightarrow> string \<Rightarrow> bool" where
  "allowRole P role0 object0 action0 =
     (let role = ToLower (TrimSpace role0); object = ToLower (TrimSpace object0); action = ToLower (TrimSpace action0)
      in role \<noteq> '''' \<and> action \<noteq> '''' \<and> (object \<noteq> '''' \<and> get3 (pe_allow P) role object action \<or> get3 (pe_allow P) role ''*'' action))"

record identity =
  id_SubjectID :: string
  id_TenantID :: string
  id_Roles :: "string list"
  id_AuthType :: string
  id_IsAnonymous :: bool

definition Allow :: "policy_engine \<Rightarrow> identity \<Rightarrow> string \<Rightarrow> string \<Rightarrow> bool" where
  "Allow P i object action0 = (let action = ToLower (TrimSpace action0); bound = boundRoles P (id_SubjectID i) (id_TenantID i) in
     if action = '''' then False
     else if bound = [] then \<not> subjectHasBindings P (id_SubjectID i) \<and> list_ex (\<lambda>r. allowRole P r object action) (id_Roles i)
     else list_ex (\<lambda>r. allowRole P r object action) bound)"

definition authorize :: "policy_engine option \<Rightarrow> identity \<Rightarrow> string \<Rightarrow> string \<Rightarrow> bool" where
  "authorize P i object action = (case P of None \<Rightarrow> False | Some p \<Rightarrow> Allow p i object action)"

section \<open>Claims\<close>

definition dedupeRoles :: "string list \<Rightarrow> string list" where
  "dedupeRoles rs = rev (remdups (rev rs))"

definition normalizeRoles :: "string list \<Rightarrow> string list" where
  "normalizeRoles rs = (let out = filter (\<lambda>r. r \<noteq> '''') (map (\<lambda>r. ToLower (TrimSpace r)) rs) in
     if out = [] then [''reader''] else dedupeRoles out)"

definition firstClaimString :: "anymap \<Rightarrow> string list \<Rightarrow> string" where
  "firstClaimString claims ks = (case List.find (\<lambda>k. case aget claims k of AStr v \<Rightarrow> TrimSpace v \<noteq> '''' | _ \<Rightarrow> False) ks of
     None \<Rightarrow> '''' | Some k \<Rightarrow> (case aget claims k of AStr v \<Rightarrow> TrimSpace v | _ \<Rightarrow> ''''))"

definition parseClaimPaths :: "string \<Rightarrow> string list" where
  "parseClaimPaths raw = filter (\<lambda>p. p \<noteq> '''') (map TrimSpace (Split (CHR '','') (TrimSpace raw)))"

fun claim_walk :: "any \<Rightarrow> string list \<Rightarrow> any option" where
  "claim_walk v [] = Some v"
| "claim_walk v (p # ps) = (case v of AMap m \<Rightarrow> (case map_of m (TrimSpace p) of None \<Rightarrow> None | Some w \<Rightarrow> claim_walk w ps) | _ \<Rightarrow> None)"

definition claimValueByPath :: "anymap \<Rightarrow> string \<Rightarrow> any option" where
  "claimValueByPath claims path0 = (let path = TrimSpace path0 in
     if path = '''' then None
     else case map_of claims path of Some v \<Rightarrow> Some v
     | None \<Rightarrow> let parts = Split (CHR ''.'') path in if length parts = 1 then None else claim_walk (AMap claims) parts)"

definition claimStringByPaths :: "anymap \<Rightarrow> string \<Rightarrow> string list \<Rightarrow> string" where
  "claimStringByPaths claims configured fallbacks =
     (let paths = (if parseClaimPaths configured = [] then fallbacks else parseClaimPaths configured);
          vals = map (\<lambda>p. case claimValueByPath claims p of Some (AStr v) \<Rightarrow> TrimSpace v | _ \<Rightarrow> '''') paths
      in case List.find (\<lambda>v. v \<noteq> '''') vals of None \<Rightarrow> '''' | Some v \<Rightarrow> v)"

fun any_strings :: "any list \<Rightarrow> string list" where
  "any_strings [] = []"
| "any_strings (AStr s # vs) = (if TrimSpace s \<noteq> '''' then TrimSpace s # any_strings vs else any_strings vs)"
| "any_strings (_ # vs) = any_strings vs"

definition extractRolesFromValue :: "any \<Rightarrow> string list" where
  "extractRolesFromValue raw = (case raw of
     AList vs \<Rightarrow> dedupeRoles (map ToLower (any_strings vs))
   | AStr s \<Rightarrow> (if TrimSpace s = '''' then [] else
       dedupeRoles (FieldsFunc (\<lambda>c. c = CHR '' '' \<or> c = CHR '','') (ToLower (TrimSpace s))))
   | _ \<Rightarrow> [])"

definition scope_roles :: "string \<Rightarrow> string list" where
  "scope_roles scope = (let s = ToLower (TrimSpace scope) in
     if s = ''registry:write'' then [''publisher''] else if s = ''registry:admin'' then [''admin'', ''publisher''] else [])"

definition scopeToRoles :: "anymap \<Rightarrow> string list" where
  "scopeToRoles claims =
     (let s1 = (case claimValueByPath claims ''scope'' of Some (AStr s) \<Rightarrow> s | _ \<Rightarrow> '''');
          s2 = (if TrimSpace s1 \<noteq> '''' then s1 else case claimValueByPath claims ''scp'' of
             Some (AStr s) \<Rightarrow> s | Some (AList vs) \<Rightarrow> join_with '' '' (any_strings vs) | _ \<Rightarrow> s1)
      in if TrimSpace s2 = '''' then [] else dedupeRoles (''reader'' # concat (map scope_roles (Fields (TrimSpace s2)))))"

section \<open>Configuration of tokens\<close>

record oidc_config =
  oc_Issuer :: string
  oc_Audience :: string
  oc_AudienceMode :: string
  oc_JWKSURL :: string
  oc_HS256Secret :: string
  oc_SubjectClaim :: string
  oc_TenantClaim :: string
  oc_RolesClaim :: string
  oc_RoleModes :: "string list"
  oc_RoleClientID :: string
  oc_AllowedAlgs :: "string list"

definition defaultString :: "string \<Rightarrow> string \<Rightarrow> string" where
  "defaultString v fallback = (if TrimSpace v = '''' then fallback else TrimSpace v)"

definition normalizeAudienceMode :: "string \<Rightarrow> string" where
  "normalizeAudienceMode raw = (let m = ToLower (TrimSpace raw) in if m = ''includes'' \<or> m = ''skip'' then m else ''exact'')"

definition parseRoleModes :: "string \<Rightarrow> string list" where
  "parseRoleModes raw0 = (let raw = (if TrimSpace raw0 = '''' then ''roles,realm_access.roles,resource_access.<client>.roles,scope'' else TrimSpace raw0);
       out = filter (\<lambda>m. m \<noteq> '''') (map (\<lambda>p. TrimSpace (ToLower p)) (Split (CHR '','') raw))
     in if out = [] then [''roles'', ''scope''] else out)"

definition jwt_algs :: "string list" where
  "jwt_algs = [''RS256'', ''RS384'', ''RS512'', ''ES256'', ''ES384'', ''ES512'', ''HS256'', ''HS384'', ''HS512'']"

definition parseAllowedJWTAlgorithms :: "string \<Rightarrow> string list" where
  "parseAllowedJWTAlgorithms raw0 = (let raw = (if TrimSpace raw0 = '''' then ''RS256,ES256'' else TrimSpace raw0);
       out = filter (\<lambda>a. a \<in> set jwt_algs) (map (\<lambda>p. ToUpper (TrimSpace p)) (Split (CHR '','') raw))
     in if out = [] then [''RS256''] else out)"

definition mode_roles :: "oidc_config \<Rightarrow> anymap \<Rightarrow> string \<Rightarrow> string list" where
  "mode_roles cfg claims mode =
     (let by_path = (\<lambda>path. case claimValueByPath claims path of None \<Rightarrow> [] | Some raw \<Rightarrow> extractRolesFromValue raw) in
      if mode = ''roles'' then by_path (defaultString (oc_RolesClaim cfg) ''roles'')
      else if mode = ''realm_access.roles'' then by_path ''realm_access.roles''
      else if mode = ''scope'' then scopeToRoles claims
      else if \<not> HasPrefix mode ''resource_access.'' \<or> \<not> HasSuffix mode ''.roles'' then []
      else if Contains mode ''<client>'' then
        (let client = (if TrimSpace (oc_RoleClientID cfg) = '''' then TrimSpace (oc_Audience cfg) else TrimSpace (oc_RoleClientID cfg))
         in if client = '''' then [] else by_path (ReplaceAll mode ''<client>'' client))
      else by_path mode)"

definition claimRoles :: "oidc_config \<Rightarrow> anymap \<Rightarrow> string list" where
  "claimRoles cfg claims = (case List.find (\<lambda>rs. rs \<noteq> []) (map (mode_roles cfg claims) (oc_RoleModes cfg)) of
     None \<Rightarrow> [''reader''] | Some rs \<Rightarrow> rs)"


section \<open>Tokens\<close>

text \<open>
  What token checks take from outside: base64 and JSON decoding, the time in seconds, the key address an issuer announces,
  the keys at an address (\<^term>\<open>None\<close> if they cannot be had), and the signature functions.
\<close>

record 'k jwt_env =
  je_base64 :: "string \<Rightarrow> string option"
  je_json :: "string \<Rightarrow> anymap option"
  je_now :: int
  je_discover :: "string \<Rightarrow> string option"
  je_keys :: "string \<Rightarrow> (string \<times> 'k) list option"
  je_verify :: "string \<Rightarrow> 'k \<Rightarrow> string \<Rightarrow> string \<Rightarrow> bool"
  je_hmac :: "string \<Rightarrow> string \<Rightarrow> string \<Rightarrow> string"

definition claimInt64 :: "anymap \<Rightarrow> string \<Rightarrow> int option" where
  "claimInt64 claims k = (case aget claims k of AFloat f _ \<Rightarrow> Some (f64_to_int f) | AInt n \<Rightarrow> Some n | _ \<Rightarrow> None)"

fun audience_in :: "string \<Rightarrow> string \<Rightarrow> any list \<Rightarrow> bool" where
  "audience_in audience mode [] = False"
| "audience_in audience mode (AStr s # vs) \<longleftrightarrow> TrimSpace s = audience \<or> mode = ''includes'' \<and> Contains (TrimSpace s) audience \<or> audience_in audience mode vs"
| "audience_in audience mode (_ # vs) = audience_in audience mode vs"

definition claimAudienceContains :: "anymap \<Rightarrow> string \<Rightarrow> string \<Rightarrow> bool" where
  "claimAudienceContains claims audience0 mode = (let audience = TrimSpace audience0 in case aget claims ''aud'' of
     AStr s \<Rightarrow> let val = TrimSpace s in mode = ''includes'' \<and> Contains val audience \<or> val = audience \<or>
       list_ex (\<lambda>p. TrimSpace p = audience) (FieldsFunc (\<lambda>c. c = CHR '' '' \<or> c = CHR '','') val)
   | AList vs \<Rightarrow> audience_in audience mode vs
   | _ \<Rightarrow> False)"

definition verifyStandardClaims :: "'k jwt_env \<Rightarrow> oidc_config \<Rightarrow> anymap \<Rightarrow> bool" where
  "verifyStandardClaims E cfg claims \<longleftrightarrow>
     (case claimInt64 claims ''exp'' of None \<Rightarrow> True | Some e \<Rightarrow> je_now E < e) \<and>
     (case claimInt64 claims ''nbf'' of None \<Rightarrow> True | Some n \<Rightarrow> n \<le> je_now E) \<and>
     (TrimSpace (oc_Issuer cfg) = '''' \<or> TrimSpace (firstClaimString claims [''iss'']) = TrimSpace (oc_Issuer cfg)) \<and>
     (TrimSpace (oc_Audience cfg) = '''' \<or> normalizeAudienceMode (oc_AudienceMode cfg) = ''skip'' \<or>
       claimAudienceContains claims (TrimSpace (oc_Audience cfg)) (normalizeAudienceMode (oc_AudienceMode cfg)))"

text \<open>The empty address when neither an address nor an issuer is configured.\<close>

definition effectiveJWKSURL :: "'k jwt_env \<Rightarrow> oidc_config \<Rightarrow> string option" where
  "effectiveJWKSURL E cfg =
     (if TrimSpace (oc_JWKSURL cfg) \<noteq> '''' then Some (TrimSpace (oc_JWKSURL cfg))
      else if TrimSpace (oc_Issuer cfg) = '''' then Some ''''
      else case je_discover E (TrimSpace (oc_Issuer cfg)) of None \<Rightarrow> None
      | Some u \<Rightarrow> if TrimSpace u = '''' then None else Some (TrimSpace u))"

text \<open>\<^verbatim>\<open>pickJWKSKeyLocked\<close>: the key with the id, or else any key.\<close>

definition pickJWKSKey :: "(string \<times> 'k) list \<Rightarrow> string \<Rightarrow> 'k option" where
  "pickJWKSKey keys kid = (case (if TrimSpace kid \<noteq> '''' then map_of keys (TrimSpace kid) else None) of
     Some k \<Rightarrow> Some k | None \<Rightarrow> (case keys of [] \<Rightarrow> None | (i, k) # ks \<Rightarrow> Some k))"

definition lookupJWKSKey :: "'k jwt_env \<Rightarrow> string \<Rightarrow> string \<Rightarrow> 'k option" where
  "lookupJWKSKey E url kid = (case je_keys E url of None \<Rightarrow> None | Some keys \<Rightarrow> pickJWKSKey keys kid)"

definition hashForAlgorithm :: "string \<Rightarrow> bool" where
  "hashForAlgorithm alg \<longleftrightarrow> ToUpper (TrimSpace alg) \<in> set jwt_algs"

definition verifyHMACSignature :: "'k jwt_env \<Rightarrow> string \<Rightarrow> string \<Rightarrow> string \<Rightarrow> string \<Rightarrow> bool" where
  "verifyHMACSignature E alg secret input sig \<longleftrightarrow> hashForAlgorithm alg \<and> je_hmac E alg secret input = sig"

definition decode_json :: "'k jwt_env \<Rightarrow> string \<Rightarrow> anymap option" where
  "decode_json E part = (case je_base64 E part of None \<Rightarrow> None | Some raw \<Rightarrow> je_json E raw)"

definition token_alg :: "anymap \<Rightarrow> string" where
  "token_alg header = (let alg = ToUpper (TrimSpace (firstClaimString header [''alg''])) in if alg = '''' then ''RS256'' else alg)"

text \<open>The part of \<^verbatim>\<open>parseVerifiedJWTClaims\<close> that checks the signature.\<close>

definition check_signature :: "'k jwt_env \<Rightarrow> oidc_config \<Rightarrow> anymap \<Rightarrow> string \<Rightarrow> string \<Rightarrow> string \<Rightarrow> bool" where
  "check_signature E cfg header url input part = (let alg = token_alg header in
     if alg \<notin> set (oc_AllowedAlgs cfg) then False
     else if HasPrefix alg ''HS'' then TrimSpace (oc_HS256Secret cfg) \<noteq> '''' \<and>
       (case je_base64 E part of None \<Rightarrow> False | Some sig \<Rightarrow> verifyHMACSignature E alg (oc_HS256Secret cfg) input sig)
     else (case lookupJWKSKey E url (TrimSpace (firstClaimString header [''kid''])) of None \<Rightarrow> False
       | Some k \<Rightarrow> (case je_base64 E part of None \<Rightarrow> False | Some sig \<Rightarrow> je_verify E alg k input sig)))"

definition parseVerifiedJWTClaims :: "'k jwt_env \<Rightarrow> oidc_config \<Rightarrow> string \<Rightarrow> anymap option" where
  "parseVerifiedJWTClaims E cfg token = (case Split (CHR ''.'') (TrimSpace token) of
     [p0, p1, p2] \<Rightarrow> (case (decode_json E p0, decode_json E p1, effectiveJWKSURL E cfg) of
       (Some header, Some claims, Some url) \<Rightarrow>
         if verifyStandardClaims E cfg claims \<and> (TrimSpace url = '''' \<or> check_signature E cfg header url (p0 @ ''.'' @ p1) p2)
         then Some claims else None
     | _ \<Rightarrow> None)
   | _ \<Rightarrow> None)"

definition anonymousIdentity :: identity where
  "anonymousIdentity = \<lparr>id_SubjectID = ''anonymous'', id_TenantID = '''', id_Roles = [''anonymous''], id_AuthType = ''anonymous'', id_IsAnonymous = True\<rparr>"

definition authenticatedIdentity :: "string \<Rightarrow> string \<Rightarrow> string list \<Rightarrow> string \<Rightarrow> identity option" where
  "authenticatedIdentity subject tenant roles authType =
     (if TrimSpace subject = '''' \<or> TrimSpace tenant = '''' then None
      else Some \<lparr>id_SubjectID = TrimSpace subject, id_TenantID = TrimSpace tenant, id_Roles = normalizeRoles roles,
        id_AuthType = TrimSpace authType, id_IsAnonymous = False\<rparr>)"

definition resolveBearerIdentity :: "'k jwt_env \<Rightarrow> oidc_config \<Rightarrow> string \<Rightarrow> identity option" where
  "resolveBearerIdentity E cfg token0 = (let token = TrimSpace token0 in
     if token = '''' then None
     else if EqualFold token ''local-dev-token'' then
       authenticatedIdentity ''runfabric-dev'' ''tenant_runfabric'' [''admin'', ''publisher'', ''reader''] ''jwt''
     else if HasPrefix (ToLower token) ''official-'' then
       authenticatedIdentity ''runfabric-official'' ''tenant_runfabric'' [''publisher'', ''reader''] ''jwt''
     else case parseVerifiedJWTClaims E cfg token of None \<Rightarrow> None
     | Some claims \<Rightarrow> let sub = claimStringByPaths claims (oc_SubjectClaim cfg) [''sub'', ''user_id'', ''subject''];
           tenant = claimStringByPaths claims (oc_TenantClaim cfg) [''tenant_id'']
         in if sub = '''' \<or> tenant = '''' then None else authenticatedIdentity sub tenant (claimRoles cfg claims) ''jwt'')"

definition resolveIdentity :: "crypto \<Rightarrow> 'k jwt_env \<Rightarrow> oidc_config \<Rightarrow> (string \<Rightarrow> bool) \<Rightarrow> pkg_data \<Rightarrow> string \<Rightarrow> identity option" where
  "resolveIdentity C E cfg expired d header = (let auth = TrimSpace header in
     if auth = '''' then Some anonymousIdentity
     else if HasPrefix (ToLower auth) ''bearer '' then resolveBearerIdentity E cfg (TrimSpace (drop 7 auth))
     else if HasPrefix (ToLower auth) ''apikey '' then
       (case FindAPIKey C expired (TrimSpace (drop 7 auth)) d of Inl e \<Rightarrow> None
        | Inr rec \<Rightarrow> let sub = (if TrimSpace (ak_UserID rec) = '''' then ''apikey:'' @ TrimSpace (ak_ID rec) else TrimSpace (ak_UserID rec))
            in authenticatedIdentity sub (TrimSpace (ak_TenantID rec)) (normalizeRoles (ak_Roles rec)) ''api_key'')
     else None)"

definition publisherFromIdentity :: "identity \<Rightarrow> string" where
  "publisherFromIdentity i = (if EqualFold (TrimSpace (id_TenantID i)) ''tenant_runfabric'' then ''runfabric'' else ''community'')"

section \<open>Signed artifact URLs\<close>

definition artifact_payload :: "string \<Rightarrow> string \<Rightarrow> string \<Rightarrow> string" where
  "artifact_payload key meth until = ToUpper (TrimSpace meth) @ ''|'' @ TrimSpace key @ ''|'' @ TrimSpace until"

definition signArtifactToken :: "crypto \<Rightarrow> string \<Rightarrow> string \<Rightarrow> string \<Rightarrow> string \<Rightarrow> string" where
  "signArtifactToken C secret key meth until = cr_sha256 C (secret @ ''|'' @ artifact_payload key meth until)"

record url_query =
  uq_exp :: string
  uq_sig :: string
  uq_method :: string

text \<open>\<open>passed\<close> tells of a Unix time whether it has passed.\<close>

definition verifyArtifactToken :: "crypto \<Rightarrow> string \<Rightarrow> (int \<Rightarrow> bool) \<Rightarrow> string \<Rightarrow> url_query \<Rightarrow> string \<Rightarrow> bool" where
  "verifyArtifactToken C secret passed reqMethod q key =
     (let until = TrimSpace (uq_exp q); sig = TrimSpace (uq_sig q); meth = ToUpper (TrimSpace (uq_method q)) in
      if until = '''' \<or> sig = '''' \<or> meth = '''' then False
      else case Atoi until of None \<Rightarrow> False
      | Some sec \<Rightarrow> \<not> passed sec \<and> meth = ToUpper (TrimSpace reqMethod) \<and>
          ToLower sig = ToLower (signArtifactToken C secret key meth until))"

definition artifactPath :: "string \<Rightarrow> string \<Rightarrow> string option" where
  "artifactPath uploads key =
     (let base = Join [uploads, ''artifacts'']; rel = TrimPrefix (Clean (''/'' @ key)) ''/'' in
      if rel = '''' \<or> rel = ''.'' then None
      else let path = Join [base, rel] in
        if \<not> HasPrefix path (Clean base @ ''/'') \<and> path \<noteq> Clean base then None else Some path)"

section \<open>Rate limits\<close>

text \<open>A window per key: the requests counted and the start of the window.\<close>

type_synonym rate_table = "string \<Rightarrow> (int \<times> int) option"

definition rate_Allow :: "string \<Rightarrow> int \<Rightarrow> int \<Rightarrow> int \<Rightarrow> rate_table \<Rightarrow> bool \<times> rate_table" where
  "rate_Allow key limit window now tab = (case tab key of
     None \<Rightarrow> (True, tab(key \<mapsto> (1, now)))
   | Some (cnt, start) \<Rightarrow>
       if now - start \<ge> window then (True, tab(key \<mapsto> (1, now)))
       else if cnt \<ge> limit then (False, tab)
       else (True, tab(key \<mapsto> (cnt + 1, start))))"

end
