(* ===== verification/Registry_Server.thy ===== *)
theory Registry_Server
  imports Registry_Access Registry_Publish
begin

text \<open>
  The HTTP handlers of the registry server (\<^verbatim>\<open>apps/registry/internal/server\<close>): the response cache
  (\<^verbatim>\<open>cache_helpers.go\<close>, the in-memory cache of \<^verbatim>\<open>cache.go\<close>), packages (\<^verbatim>\<open>packages.go\<close>), organizations
  (\<^verbatim>\<open>organizations.go\<close>) and artifacts (\<^verbatim>\<open>artifacts.go\<close>). A handler takes one request and its answers from the
  system and returns the reply and the server after it. JSON bodies are decoded by functions of the configuration; a
  response is its value before encoding, an error its code and the error of the store; the Redis cache is not used.
\<close>

section \<open>Requests, replies and the server\<close>

record http_request =
  hq_Method :: http_method
  hq_Path :: string
  hq_RawQuery :: string
  hq_Host :: string
  hq_TLS :: bool
  hq_Authorization :: string
  hq_RequestID :: string
  hq_RemoteAddr :: string
  hq_Body :: "string option"

record package_body =
  pb_Namespace :: string
  pb_Name :: string
  pb_Visibility :: string

record version_body =
  vb_Version :: string
  vb_Manifest :: anymap
  vb_ArtifactKey :: string
  vb_Checksum :: string
  vb_SizeBytes :: int

record org_body =
  ob_Slug :: string
  ob_Name :: string
  ob_Description :: string
  ob_Visibility :: string

record member_body =
  mb_UserID :: string
  mb_Email :: string
  mb_Role :: string

datatype fault = NoFault | PkgFault pkg_error | RegFault reg_error

datatype payload = ApiError string fault | PackageItems "reg_package list" bool | PackageInfo reg_package "pkg_version list"
  | OnePackage reg_package | OneVersion pkg_version | PackageVersion reg_package pkg_version | Deleted
  | SignedURL string string string int | OrgItems "organization list" | OneOrg organization | MemberItems "org_member list"
  | ArtifactStored string int | ArtifactContent string
  | Resolved resolve_input resolve_output string | ItemPage "list_item list" int | ExtensionInfo extension publisher string
  | ExtensionVersions string "ext_version list" | VersionInfo ext_version extension publisher | Advisories string "advisory list"
  | SessionStarted string string "(string \<times> string) list" | SessionState string string | SessionFiles string string "(string \<times> bool \<times> int) list"
  | AuditEvents "audit_event list" | PlainText string | UploadReply upload_reply | Aborted

type_synonym reply = "nat \<times> payload"

record server =
  sv_pkgs :: pkg_data
  sv_reg :: registry
  sv_cache :: "string \<Rightarrow> (payload \<times> int) option"
  sv_epoch :: nat
  sv_rates :: rate_table

record 'k server_config =
  sc_crypto :: crypto
  sc_jwt :: "'k jwt_env"
  sc_oidc :: oidc_config
  sc_expired :: "int \<Rightarrow> string \<Rightarrow> bool"
  sc_policy :: "policy_engine option"
  sc_anonymousRead :: bool
  sc_secret :: string
  sc_uploads :: string
  sc_presignS3 :: "string \<Rightarrow> string \<Rightarrow> string option"
  sc_s3Base :: string
  sc_absolute :: "string \<Rightarrow> bool"
  sc_package :: "string \<Rightarrow> package_body option"
  sc_version :: "string \<Rightarrow> version_body option"
  sc_org :: "string \<Rightarrow> org_body option"
  sc_member :: "string \<Rightarrow> member_body option"
  sc_init :: "string \<Rightarrow> (anymap \<times> publish_file_input list) option"
  sc_finalize :: "string \<Rightarrow> string option"
  sc_platform_url :: "string \<Rightarrow> string"

text \<open>A body that cannot be read does not decode.\<close>

definition decode_body :: "(string \<Rightarrow> 'b option) \<Rightarrow> http_request \<Rightarrow> 'b option" where
  "decode_body f r = (case hq_Body r of None \<Rightarrow> None | Some b \<Rightarrow> f b)"

text \<open>The time of a request in seconds.\<close>

definition unix_now :: "reg_io \<Rightarrow> int" where
  "unix_now io = io_nano io div 1000000000"

section \<open>Queries\<close>

definition QueryUnescape :: "string \<Rightarrow> string option" where
  "QueryUnescape s = unescape (map (\<lambda>c. if c = CHR ''+'' then CHR '' '' else c) s)"

text \<open>\<^verbatim>\<open>URL.Query().Get\<close>: the first value of the key; parts with a semicolon or a bad escape are dropped.\<close>

definition query_pair :: "string \<Rightarrow> (string \<times> string) option" where
  "query_pair part =
     (if part = '''' \<or> CHR '';'' \<in> set part then None
      else case (QueryUnescape (takeWhile (\<lambda>c. c \<noteq> CHR ''='') part), QueryUnescape (drop 1 (dropWhile (\<lambda>c. c \<noteq> CHR ''='') part))) of
        (Some k, Some v) \<Rightarrow> Some (k, v) | _ \<Rightarrow> None)"

definition QueryGet :: "http_request \<Rightarrow> string \<Rightarrow> string" where
  "QueryGet r k = (case map_of (List.map_filter query_pair (Split (CHR ''&'') (hq_RawQuery r))) k of None \<Rightarrow> '''' | Some v \<Rightarrow> v)"

definition url_query_of :: "http_request \<Rightarrow> url_query" where
  "url_query_of r = \<lparr>uq_exp = QueryGet r ''exp'', uq_sig = QueryGet r ''sig'', uq_method = QueryGet r ''method''\<rparr>"

section \<open>Identities, errors and the audit log\<close>

definition identity_of :: "'k server_config \<Rightarrow> reg_io \<Rightarrow> http_request \<Rightarrow> server \<Rightarrow> identity option" where
  "identity_of cfg io r s = resolveIdentity (sc_crypto cfg) ((sc_jwt cfg)\<lparr>je_now := unix_now io\<rparr>) (sc_oidc cfg) (sc_expired cfg (io_nano io))
     (sv_pkgs s) (hq_Authorization r)"

definition identityForAudit :: "'k server_config \<Rightarrow> reg_io \<Rightarrow> http_request \<Rightarrow> server \<Rightarrow> identity" where
  "identityForAudit cfg io r s = (case identity_of cfg io r s of Some i \<Rightarrow> i
   | None \<Rightarrow> if TrimSpace (hq_Authorization r) = '''' then anonymousIdentity
       else \<lparr>id_SubjectID = ''unknown'', id_TenantID = ''unknown'', id_Roles = [], id_AuthType = ''unknown'', id_IsAnonymous = False\<rparr>)"

definition requester_of :: "'k server_config \<Rightarrow> reg_io \<Rightarrow> http_request \<Rightarrow> server \<Rightarrow> requester" where
  "requester_of cfg io r s = (let i = identityForAudit cfg io r s in
     \<lparr>rq_Subject = id_SubjectID i, rq_Tenant = id_TenantID i, rq_Anonymous = id_IsAnonymous i, rq_RequestID = hq_RequestID r\<rparr>)"

definition log_event :: "'k server_config \<Rightarrow> reg_io \<Rightarrow> http_request \<Rightarrow> string \<Rightarrow> string \<Rightarrow> anymap \<Rightarrow> server \<Rightarrow> server" where
  "log_event cfg io r action status details s = s\<lparr>sv_reg := audit io (requester_of cfg io r s) action status details (sv_reg s)\<rparr>"

definition unauthorized :: reply where
  "unauthorized = (401, ApiError ''UNAUTHORIZED'' NoFault)"

definition forbidden :: reply where
  "forbidden = (403, ApiError ''FORBIDDEN'' NoFault)"

definition invalid_request :: reply where
  "invalid_request = (400, ApiError ''INVALID_REQUEST'' NoFault)"

definition handleNotFound :: "'k server_config \<Rightarrow> reg_io \<Rightarrow> http_request \<Rightarrow> server \<Rightarrow> reply \<times> server" where
  "handleNotFound cfg io r s = ((404, ApiError ''NOT_FOUND'' NoFault), log_event cfg io r ''not_found'' ''error'' [] s)"

definition methodNotAllowed :: "'k server_config \<Rightarrow> reg_io \<Rightarrow> http_request \<Rightarrow> server \<Rightarrow> reply \<times> server" where
  "methodNotAllowed cfg io r s = ((405, ApiError ''INVALID_REQUEST'' NoFault),
     log_event cfg io r ''method_not_allowed'' ''error'' [(''method'', AStr (method_name (hq_Method r)))] s)"

definition actorFromIdentity :: "identity \<Rightarrow> string" where
  "actorFromIdentity i = (if id_IsAnonymous i then ''anonymous'' else if TrimSpace (id_SubjectID i) = '''' then id_AuthType i else id_SubjectID i)"

section \<open>The response cache\<close>

definition cacheKey :: "crypto \<Rightarrow> nat \<Rightarrow> http_request \<Rightarrow> string \<Rightarrow> string" where
  "cacheKey C epoch r scope =
     (let q = (if TrimSpace (hq_RawQuery r) = '''' then ''-'' else TrimSpace (hq_RawQuery r)); auth = TrimSpace (hq_Authorization r);
          a = (if auth = '''' then ''-'' else take 16 (cr_sha256 C auth))
      in ''v:'' @ itoa (int epoch) @ ''|h:'' @ TrimSpace (hq_Host r) @ ''|s:'' @ scope @ ''|p:'' @ hq_Path r @ ''|q:'' @ q @ ''|a:'' @ a)"

text \<open>An entry that has expired is removed.\<close>

definition readCachedJSON :: "'k server_config \<Rightarrow> reg_io \<Rightarrow> http_request \<Rightarrow> string \<Rightarrow> server \<Rightarrow> payload option \<times> server" where
  "readCachedJSON cfg io r scope s = (let key = cacheKey (sc_crypto cfg) (sv_epoch s) r scope in
     case sv_cache s key of None \<Rightarrow> (None, s)
     | Some (p, until) \<Rightarrow> if io_nano io > until then (None, s\<lparr>sv_cache := (sv_cache s)(key := None)\<rparr>) else (Some p, s))"

definition writeAndCacheJSON :: "'k server_config \<Rightarrow> reg_io \<Rightarrow> http_request \<Rightarrow> payload \<Rightarrow> string \<Rightarrow> int \<Rightarrow> server \<Rightarrow> reply \<times> server" where
  "writeAndCacheJSON cfg io r p scope ttl s =
     ((200, p), s\<lparr>sv_cache := (sv_cache s)(cacheKey (sc_crypto cfg) (sv_epoch s) r scope \<mapsto> (p, io_nano io + ttl * 1000000000))\<rparr>)"

definition invalidateCacheScope :: "server \<Rightarrow> server" where
  "invalidateCacheScope s = s\<lparr>sv_epoch := Suc (sv_epoch s)\<rparr>"

section \<open>Packages\<close>

definition with_pkgs :: "pkg_data \<Rightarrow> server \<Rightarrow> server" where
  "with_pkgs d s = s\<lparr>sv_pkgs := d\<rparr>"

definition validation_failed :: "pkg_error \<Rightarrow> reply" where
  "validation_failed e = (400, ApiError ''VALIDATION_FAILED'' (PkgFault e))"

definition package_filter :: "http_request \<Rightarrow> identity \<Rightarrow> pkg_filter" where
  "package_filter r i = \<lparr>pq_TenantID = id_TenantID i, pq_IncludePublic = True, pq_PublicOnly = id_IsAnonymous i,
     pq_Namespace = TrimSpace (QueryGet r ''namespace''), pq_Query = TrimSpace (QueryGet r ''q'')\<rparr>"

definition list_packages :: "'k server_config \<Rightarrow> reg_io \<Rightarrow> http_request \<Rightarrow> identity \<Rightarrow> server \<Rightarrow> reply \<times> server" where
  "list_packages cfg io r i s = (case readCachedJSON cfg io r ''packages_list'' s of
     (Some p, s1) \<Rightarrow> ((200, p), s1)
   | (None, s1) \<Rightarrow>
       if id_IsAnonymous i \<and> \<not> sc_anonymousRead cfg then (unauthorized, s1)
       else let items = ListVisiblePackages (package_filter r i) (sv_pkgs s1) in
         case writeAndCacheJSON cfg io r (PackageItems items (id_IsAnonymous i)) ''packages_list'' 20 s1 of
           (rep, s2) \<Rightarrow> (rep, log_event cfg io r ''packages_list'' ''ok''
             [(''count'', AInt (int (length items))), (''actor'', AStr (actorFromIdentity i))] s2))"

text \<open>A change of packages needs an identity that the policy allows the action.\<close>

definition may_change :: "'k server_config \<Rightarrow> identity \<Rightarrow> string \<Rightarrow> reply option" where
  "may_change cfg i action =
     (if id_IsAnonymous i then Some unauthorized
      else if \<not> authorize (sc_policy cfg) i ''package'' action then Some forbidden else None)"

definition create_package :: "'k server_config \<Rightarrow> reg_io \<Rightarrow> http_request \<Rightarrow> identity \<Rightarrow> server \<Rightarrow> reply \<times> server" where
  "create_package cfg io r i s = (case may_change cfg i ''package:publish'' of Some rep \<Rightarrow> (rep, s)
   | None \<Rightarrow> (case decode_body (sc_package cfg) r of None \<Rightarrow> (invalid_request, s)
     | Some b \<Rightarrow> (case CreatePackage io (id_TenantID i) (pb_Namespace b) (pb_Name b) (pb_Visibility b) (id_SubjectID i) (sv_pkgs s) of
         (Inl e, d) \<Rightarrow> (validation_failed e, log_event cfg io r ''package_create'' ''error''
           [(''namespace'', AStr (pb_Namespace b)), (''name'', AStr (pb_Name b))] (with_pkgs d s))
       | (Inr p, d) \<Rightarrow> ((201, OnePackage p), log_event cfg io r ''package_create'' ''ok''
           [(''id'', AStr (pk_ID p)), (''namespace'', AStr (pk_Namespace p)), (''name'', AStr (pk_Name p)), (''tenant'', AStr (pk_TenantID p))]
           (invalidateCacheScope (with_pkgs d s))))))"

definition handlePackagesRoot :: "'k server_config \<Rightarrow> reg_io \<Rightarrow> http_request \<Rightarrow> server \<Rightarrow> reply \<times> server" where
  "handlePackagesRoot cfg io r s = (case identity_of cfg io r s of None \<Rightarrow> (unauthorized, s)
   | Some i \<Rightarrow> (case hq_Method r of
       GET \<Rightarrow> list_packages cfg io r i s
     | POST \<Rightarrow> create_package cfg io r i s
     | _ \<Rightarrow> methodNotAllowed cfg io r s))"

definition package_not_found :: reply where
  "package_not_found = (404, ApiError ''PACKAGE_NOT_FOUND'' NoFault)"

definition get_package :: "'k server_config \<Rightarrow> reg_io \<Rightarrow> http_request \<Rightarrow> identity \<Rightarrow> string \<Rightarrow> string \<Rightarrow> server \<Rightarrow> reply \<times> server" where
  "get_package cfg io r i namespace name s = (case readCachedJSON cfg io r ''package_get'' s of
     (Some p, s1) \<Rightarrow> ((200, p), s1)
   | (None, s1) \<Rightarrow>
       if id_IsAnonymous i \<and> \<not> sc_anonymousRead cfg then (unauthorized, s1)
       else case GetVisiblePackage (id_TenantID i) namespace name True (sv_pkgs s1) of
         Inl e \<Rightarrow> (package_not_found, log_event cfg io r ''package_get'' ''error'' [(''namespace'', AStr namespace), (''name'', AStr name)] s1)
       | Inr p \<Rightarrow> (case writeAndCacheJSON cfg io r (PackageInfo p (ListPackageVersions (pk_ID p) (sv_pkgs s1))) ''package_get'' 20 s1 of
           (rep, s2) \<Rightarrow> (rep, log_event cfg io r ''package_get'' ''ok'' [(''id'', AStr (pk_ID p)), (''tenant'', AStr (pk_TenantID p))] s2)))"

definition patch_package :: "'k server_config \<Rightarrow> reg_io \<Rightarrow> http_request \<Rightarrow> identity \<Rightarrow> string \<Rightarrow> string \<Rightarrow> server \<Rightarrow> reply \<times> server" where
  "patch_package cfg io r i namespace name s = (case may_change cfg i ''package:manage_visibility'' of Some rep \<Rightarrow> (rep, s)
   | None \<Rightarrow> (case decode_body (sc_package cfg) r of None \<Rightarrow> (invalid_request, s)
     | Some b \<Rightarrow> (case UpdatePackageVisibility io (id_TenantID i) namespace name (pb_Visibility b) (sv_pkgs s) of
         (Inl e, d) \<Rightarrow> (validation_failed e, log_event cfg io r ''package_patch'' ''error'' [(''namespace'', AStr namespace), (''name'', AStr name)] (with_pkgs d s))
       | (Inr p, d) \<Rightarrow> ((200, OnePackage p), log_event cfg io r ''package_patch'' ''ok''
           [(''id'', AStr (pk_ID p)), (''visibility'', AStr (pk_Visibility p))] (invalidateCacheScope (with_pkgs d s))))))"

definition delete_package :: "'k server_config \<Rightarrow> reg_io \<Rightarrow> http_request \<Rightarrow> identity \<Rightarrow> string \<Rightarrow> string \<Rightarrow> server \<Rightarrow> reply \<times> server" where
  "delete_package cfg io r i namespace name s = (case may_change cfg i ''package:delete'' of Some rep \<Rightarrow> (rep, s)
   | None \<Rightarrow> (case DeletePackage io (id_TenantID i) namespace name (sv_pkgs s) of
       (Inl e, d) \<Rightarrow> (validation_failed e, log_event cfg io r ''package_delete'' ''error'' [(''namespace'', AStr namespace), (''name'', AStr name)] (with_pkgs d s))
     | (Inr u, d) \<Rightarrow> ((200, Deleted), log_event cfg io r ''package_delete'' ''ok''
         [(''namespace'', AStr namespace), (''name'', AStr name), (''tenant'', AStr (id_TenantID i))] (invalidateCacheScope (with_pkgs d s)))))"

definition handlePackageRootByName :: "'k server_config \<Rightarrow> reg_io \<Rightarrow> http_request \<Rightarrow> identity \<Rightarrow> string \<Rightarrow> string \<Rightarrow> server \<Rightarrow> reply \<times> server" where
  "handlePackageRootByName cfg io r i namespace name s = (case hq_Method r of
     GET \<Rightarrow> get_package cfg io r i namespace name s
   | PATCH \<Rightarrow> patch_package cfg io r i namespace name s
   | DELETE \<Rightarrow> delete_package cfg io r i namespace name s
   | _ \<Rightarrow> methodNotAllowed cfg io r s)"

section \<open>Versions of packages\<close>

definition list_versions :: "'k server_config \<Rightarrow> reg_io \<Rightarrow> http_request \<Rightarrow> identity \<Rightarrow> string \<Rightarrow> string \<Rightarrow> server \<Rightarrow> reply \<times> server" where
  "list_versions cfg io r i namespace name s = (case readCachedJSON cfg io r ''package_versions'' s of
     (Some p, s1) \<Rightarrow> ((200, p), s1)
   | (None, s1) \<Rightarrow>
       if id_IsAnonymous i \<and> \<not> sc_anonymousRead cfg then (unauthorized, s1)
       else case GetVisiblePackage (id_TenantID i) namespace name True (sv_pkgs s1) of Inl e \<Rightarrow> (package_not_found, s1)
       | Inr p \<Rightarrow> writeAndCacheJSON cfg io r (PackageInfo p (ListPackageVersions (pk_ID p) (sv_pkgs s1))) ''package_versions'' 20 s1)"

definition publish_version :: "'k server_config \<Rightarrow> reg_io \<Rightarrow> http_request \<Rightarrow> identity \<Rightarrow> string \<Rightarrow> string \<Rightarrow> server \<Rightarrow> reply \<times> server" where
  "publish_version cfg io r i namespace name s = (case may_change cfg i ''package:publish'' of Some rep \<Rightarrow> (rep, s)
   | None \<Rightarrow> (case GetVisiblePackage (id_TenantID i) namespace name False (sv_pkgs s) of Inl e \<Rightarrow> (package_not_found, s)
     | Inr p \<Rightarrow>
         if pk_TenantID p \<noteq> id_TenantID i then (forbidden, s)
         else case decode_body (sc_version cfg) r of None \<Rightarrow> (invalid_request, s)
         | Some b \<Rightarrow>
             if vb_Version b = '''' then ((400, ApiError ''VALIDATION_FAILED'' NoFault), s)
             else case PublishPackageVersion io \<lparr>pvi_TenantID = id_TenantID i, pvi_Namespace = namespace, pvi_Name = name,
                 pvi_Version = vb_Version b, pvi_Manifest = vb_Manifest b, pvi_ArtifactKey = vb_ArtifactKey b, pvi_Checksum = vb_Checksum b,
                 pvi_SizeBytes = vb_SizeBytes b, pvi_PublishedBy = id_SubjectID i\<rparr> (sv_pkgs s) of
               (Inl e, d) \<Rightarrow> (validation_failed e, with_pkgs d s)
             | (Inr v, d) \<Rightarrow> ((201, OneVersion v), log_event cfg io r ''package_publish_version'' ''ok''
                 [(''packageId'', AStr (pk_ID p)), (''version'', AStr (pkv_Version v)), (''tenant'', AStr (pkv_TenantID v))]
                 (invalidateCacheScope (with_pkgs d s)))))"

text \<open>\<^verbatim>\<open>packageArtifactKeyFor\<close>\<close>

definition packageArtifactKeyFor :: "string \<Rightarrow> string \<Rightarrow> string \<Rightarrow> string \<Rightarrow> string" where
  "packageArtifactKeyFor tenant namespace name version =
     ''tenants/'' @ TrimSpace tenant @ ''/packages/'' @ ToLower (TrimSpace namespace) @ ''/'' @ ToLower (TrimSpace name) @ ''/'' @
       TrimSpace version @ ''/artifact.tar.gz''"

definition absoluteURL :: "'k server_config \<Rightarrow> http_request \<Rightarrow> string \<Rightarrow> string" where
  "absoluteURL cfg r raw0 = (let raw = TrimSpace raw0 in
     if raw = '''' then ''''
     else if sc_absolute cfg raw then raw
     else (if hq_TLS r then ''https'' else ''http'') @ ''://'' @ hq_Host r @ (if HasPrefix raw ''/'' then raw else ''/'' @ raw))"

text \<open>The method is one of two constants, which need no escapes.\<close>

definition presign_query :: "'k server_config \<Rightarrow> reg_io \<Rightarrow> string \<Rightarrow> string \<Rightarrow> string" where
  "presign_query cfg io key meth =
     (let until = itoa (unix_now io + 900); sig = signArtifactToken (sc_crypto cfg) (sc_secret cfg) key meth until
      in ''method='' @ ToUpper (TrimSpace meth) @ ''&exp='' @ until @ ''&sig='' @ sig)"

definition presignArtifactURL :: "'k server_config \<Rightarrow> reg_io \<Rightarrow> http_request \<Rightarrow> string \<Rightarrow> string \<Rightarrow> string" where
  "presignArtifactURL cfg io r key meth =
     absoluteURL cfg r (''/artifacts/'' @ PathEscape (TrimSpace key)) @ ''?'' @ presign_query cfg io key meth"

definition artifact_url :: "'k server_config \<Rightarrow> reg_io \<Rightarrow> http_request \<Rightarrow> string \<Rightarrow> string \<Rightarrow> string" where
  "artifact_url cfg io r key meth = (case sc_presignS3 cfg key meth of Some u \<Rightarrow> u
   | None \<Rightarrow> if TrimSpace (sc_s3Base cfg) \<noteq> '''' then sc_s3Base cfg @ ''/'' @ PathEscape key else presignArtifactURL cfg io r key meth)"

definition upload_url :: "'k server_config \<Rightarrow> reg_io \<Rightarrow> http_request \<Rightarrow> identity \<Rightarrow> reg_package \<Rightarrow> pkg_version \<Rightarrow> server \<Rightarrow> reply \<times> server" where
  "upload_url cfg io r i p v s =
     (if hq_Method r \<noteq> POST then methodNotAllowed cfg io r s
      else case may_change cfg i ''package:publish'' of Some rep \<Rightarrow> (rep, s)
      | None \<Rightarrow>
          if pk_TenantID p \<noteq> id_TenantID i then (forbidden, s)
          else if TrimSpace (pkv_ArtifactKey v) \<noteq> packageArtifactKeyFor (pk_TenantID p) (pk_Namespace p) (pk_Name p) (pkv_Version v) then (forbidden, s)
          else ((200, SignedURL ''PUT'' (artifact_url cfg io r (pkv_ArtifactKey v) ''PUT'') (pkv_ArtifactKey v) 900),
            log_event cfg io r ''artifact_upload_url'' ''ok''
              [(''artifactKey'', AStr (pkv_ArtifactKey v)), (''packageId'', AStr (pk_ID p)), (''version'', AStr (pkv_Version v))] s))"

definition download_url :: "'k server_config \<Rightarrow> reg_io \<Rightarrow> http_request \<Rightarrow> identity \<Rightarrow> reg_package \<Rightarrow> pkg_version \<Rightarrow> server \<Rightarrow> reply \<times> server" where
  "download_url cfg io r i p v s =
     (if hq_Method r \<noteq> GET then methodNotAllowed cfg io r s
      else if id_IsAnonymous i \<and> \<not> sc_anonymousRead cfg then (unauthorized, s)
      else if TrimSpace (pkv_ArtifactKey v) \<noteq> packageArtifactKeyFor (pk_TenantID p) (pk_Namespace p) (pk_Name p) (pkv_Version v) then (forbidden, s)
      else ((200, SignedURL ''GET'' (artifact_url cfg io r (pkv_ArtifactKey v) ''GET'') (pkv_ArtifactKey v) 900),
        log_event cfg io r ''artifact_download_url'' ''ok''
          [(''artifactKey'', AStr (pkv_ArtifactKey v)), (''packageId'', AStr (pk_ID p)), (''version'', AStr (pkv_Version v))] s))"

definition get_version :: "'k server_config \<Rightarrow> reg_io \<Rightarrow> http_request \<Rightarrow> identity \<Rightarrow> reg_package \<Rightarrow> pkg_version \<Rightarrow> server \<Rightarrow> reply \<times> server" where
  "get_version cfg io r i p v s =
     (if hq_Method r \<noteq> GET then methodNotAllowed cfg io r s
      else case readCachedJSON cfg io r ''package_version_get'' s of
        (Some c, s1) \<Rightarrow> ((200, c), s1)
      | (None, s1) \<Rightarrow>
          if id_IsAnonymous i \<and> \<not> sc_anonymousRead cfg \<and> pk_Visibility p = ''public'' then (unauthorized, s1)
          else case writeAndCacheJSON cfg io r (PackageVersion p v) ''package_version_get'' 20 s1 of
            (rep, s2) \<Rightarrow> (rep, log_event cfg io r ''package_version_get'' ''ok'' [(''packageId'', AStr (pk_ID p)), (''version'', AStr (pkv_Version v))] s2))"

definition handlePackageVersionsRoutes ::
  "'k server_config \<Rightarrow> reg_io \<Rightarrow> http_request \<Rightarrow> identity \<Rightarrow> string \<Rightarrow> string \<Rightarrow> string list \<Rightarrow> server \<Rightarrow> reply \<times> server" where
  "handlePackageVersionsRoutes cfg io r i namespace name rest s = (case rest of
     [] \<Rightarrow> (case hq_Method r of
         GET \<Rightarrow> list_versions cfg io r i namespace name s
       | POST \<Rightarrow> publish_version cfg io r i namespace name s
       | _ \<Rightarrow> methodNotAllowed cfg io r s)
   | v0 # tail \<Rightarrow> (let version = PathUnescape v0 in
       if TrimSpace version = '''' then handleNotFound cfg io r s
       else case GetVisiblePackage (id_TenantID i) namespace name True (sv_pkgs s) of Inl e \<Rightarrow> (package_not_found, s)
       | Inr p \<Rightarrow> (case GetPackageVersion (pk_ID p) version (sv_pkgs s) of Inl e \<Rightarrow> ((404, ApiError ''VERSION_NOT_FOUND'' NoFault), s)
         | Inr v \<Rightarrow> (case tail of
             [] \<Rightarrow> get_version cfg io r i p v s
           | op # others \<Rightarrow>
               if op = ''upload-url'' then upload_url cfg io r i p v s
               else if op = ''download-url'' then download_url cfg io r i p v s
               else handleNotFound cfg io r s))))"

definition splitPath :: "string \<Rightarrow> string list" where
  "splitPath path = filter (\<lambda>p. p \<noteq> '''') (map TrimSpace (Split (CHR ''/'') (TrimSpace path)))"

definition handlePackagesRoutes :: "'k server_config \<Rightarrow> reg_io \<Rightarrow> http_request \<Rightarrow> server \<Rightarrow> reply \<times> server" where
  "handlePackagesRoutes cfg io r s = (case identity_of cfg io r s of None \<Rightarrow> (unauthorized, s)
   | Some i \<Rightarrow> (case splitPath (TrimPrefix (hq_Path r) ''/packages/'') of
       p0 # p1 # others \<Rightarrow> (let namespace = PathUnescape p0; name = PathUnescape p1 in
         if namespace = '''' \<or> name = '''' then handleNotFound cfg io r s
         else case others of
           [] \<Rightarrow> handlePackageRootByName cfg io r i namespace name s
         | what # rest \<Rightarrow> if what = ''versions'' then handlePackageVersionsRoutes cfg io r i namespace name rest s else handleNotFound cfg io r s)
     | _ \<Rightarrow> handleNotFound cfg io r s))"

section \<open>Organizations\<close>

definition org_error :: "pkg_error \<Rightarrow> reply" where
  "org_error e = (case e of
     OrgNotFound \<Rightarrow> (404, ApiError ''NOT_FOUND'' (PkgFault e))
   | OrgMemberNotFound \<Rightarrow> (404, ApiError ''NOT_FOUND'' (PkgFault e))
   | OrgExists \<Rightarrow> (409, ApiError ''CONFLICT'' (PkgFault e))
   | OrgFieldsRequired \<Rightarrow> (400, ApiError ''BAD_REQUEST'' (PkgFault e))
   | OrgBadRole \<Rightarrow> (400, ApiError ''BAD_REQUEST'' (PkgFault e))
   | OrgLastOwner \<Rightarrow> (400, ApiError ''BAD_REQUEST'' (PkgFault e))
   | _ \<Rightarrow> (500, ApiError ''INTERNAL'' (PkgFault e)))"

definition bad_body :: reply where
  "bad_body = (400, ApiError ''BAD_REQUEST'' NoFault)"

definition org_method_error :: reply where
  "org_method_error = (405, ApiError ''METHOD_NOT_ALLOWED'' NoFault)"

definition create_org :: "'k server_config \<Rightarrow> reg_io \<Rightarrow> http_request \<Rightarrow> identity \<Rightarrow> server \<Rightarrow> reply \<times> server" where
  "create_org cfg io r i s =
     (if id_IsAnonymous i then (unauthorized, s)
      else case decode_body (sc_org cfg) r of None \<Rightarrow> (bad_body, s)
      | Some b \<Rightarrow> (case CreateOrganization io \<lparr>coi_Slug = ob_Slug b, coi_Name = ob_Name b, coi_Description = ob_Description b,
            coi_Visibility = ob_Visibility b, coi_CreatedBy = id_SubjectID i, coi_CreatedByEmail = ''''\<rparr> (sv_pkgs s) of
          (Inl e, d) \<Rightarrow> (org_error e, with_pkgs d s)
        | (Inr org, d) \<Rightarrow> ((201, OneOrg org), log_event cfg io r ''org_create'' ''ok'' [(''slug'', AStr (og_Slug org))] (with_pkgs d s))))"

definition handleOrgsRoot :: "'k server_config \<Rightarrow> reg_io \<Rightarrow> http_request \<Rightarrow> server \<Rightarrow> reply \<times> server" where
  "handleOrgsRoot cfg io r s = (case identity_of cfg io r s of None \<Rightarrow> (unauthorized, s)
   | Some i \<Rightarrow> (case hq_Method r of
       GET \<Rightarrow> ((200, OrgItems (if id_IsAnonymous i then [] else ListOrganizations (id_SubjectID i) (sv_pkgs s))), s)
     | POST \<Rightarrow> create_org cfg io r i s
     | _ \<Rightarrow> (org_method_error, s)))"

text \<open>The handlers use their own copy of \<^verbatim>\<open>memberRole\<close>, \<^verbatim>\<open>orgMemberRole\<close>.\<close>

definition add_member :: "'k server_config \<Rightarrow> reg_io \<Rightarrow> http_request \<Rightarrow> string \<Rightarrow> server \<Rightarrow> reply \<times> server" where
  "add_member cfg io r slug s = (case decode_body (sc_member cfg) r of None \<Rightarrow> (bad_body, s)
   | Some b \<Rightarrow> (case AddOrganizationMember io slug (mb_UserID b) (mb_Email b) (mb_Role b) (sv_pkgs s) of
       (Inl e, d) \<Rightarrow> (org_error e, with_pkgs d s)
     | (Inr org, d) \<Rightarrow> ((200, OneOrg org),
         log_event cfg io r ''org_member_add'' ''ok'' [(''slug'', AStr slug), (''member'', AStr (mb_UserID b))] (with_pkgs d s))))"

definition remove_member :: "'k server_config \<Rightarrow> reg_io \<Rightarrow> http_request \<Rightarrow> string \<Rightarrow> string \<Rightarrow> server \<Rightarrow> reply \<times> server" where
  "remove_member cfg io r slug user s = (case RemoveOrganizationMember io slug user (sv_pkgs s) of
     (Inl e, d) \<Rightarrow> (org_error e, with_pkgs d s)
   | (Inr org, d) \<Rightarrow> ((200, OneOrg org),
       log_event cfg io r ''org_member_remove'' ''ok'' [(''slug'', AStr slug), (''member'', AStr user)] (with_pkgs d s)))"

definition handleOrgMembers :: "'k server_config \<Rightarrow> reg_io \<Rightarrow> http_request \<Rightarrow> identity \<Rightarrow> string \<Rightarrow> string list \<Rightarrow> server \<Rightarrow> reply \<times> server" where
  "handleOrgMembers cfg io r i slug rest s = (case GetOrganization slug (sv_pkgs s) of Inl e \<Rightarrow> (org_error e, s)
   | Inr org \<Rightarrow>
       if rest = [] \<and> hq_Method r = GET then ((200, MemberItems (og_Members org)), s)
       else if memberRole org (id_SubjectID i) \<noteq> ''owner'' \<and> memberRole org (id_SubjectID i) \<noteq> ''admin'' then (forbidden, s)
       else (case rest of
         [] \<Rightarrow> if hq_Method r = POST then add_member cfg io r slug s else (org_method_error, s)
       | [user] \<Rightarrow> if hq_Method r = DELETE then remove_member cfg io r slug user s else (org_method_error, s)
       | _ \<Rightarrow> (org_method_error, s)))"

definition trim_slashes :: "string \<Rightarrow> string" where
  "trim_slashes s = (let sl = (\<lambda>c. c = CHR ''/'') in rev (dropWhile sl (rev (dropWhile sl s))))"

definition handleOrgRoutes :: "'k server_config \<Rightarrow> reg_io \<Rightarrow> http_request \<Rightarrow> server \<Rightarrow> reply \<times> server" where
  "handleOrgRoutes cfg io r s = (case identity_of cfg io r s of None \<Rightarrow> (unauthorized, s)
   | Some i \<Rightarrow> (case Split (CHR ''/'') (trim_slashes (TrimPrefix (hq_Path r) ''/v1/orgs/'')) of
       [] \<Rightarrow> ((404, ApiError ''NOT_FOUND'' NoFault), s)
     | slug # parts \<Rightarrow>
         if slug = '''' then ((404, ApiError ''NOT_FOUND'' NoFault), s)
         else (case parts of
           [] \<Rightarrow> if hq_Method r \<noteq> GET then (org_method_error, s)
               else (case GetOrganization slug (sv_pkgs s) of Inl e \<Rightarrow> (org_error e, s) | Inr org \<Rightarrow> ((200, OneOrg org), s))
         | what # rest \<Rightarrow> if what = ''members'' then handleOrgMembers cfg io r i slug rest s else ((404, ApiError ''NOT_FOUND'' NoFault), s))))"

section \<open>Artifacts\<close>

definition store_artifact :: "'k server_config \<Rightarrow> reg_io \<Rightarrow> http_request \<Rightarrow> string \<Rightarrow> server \<Rightarrow> reply \<times> server" where
  "store_artifact cfg io r key s = (case hq_Body r of None \<Rightarrow> (invalid_request, s)
   | Some b0 \<Rightarrow> (case artifactPath (sc_uploads cfg) key of None \<Rightarrow> (invalid_request, s)
     | Some path \<Rightarrow> let b = take (256 * 1024 * 1024) b0 in
         if \<not> io_mkdir io then ((500, ApiError ''INTERNAL'' NoFault), s)
         else (case os_WriteFile (io_write io) path b (rg_files (sv_reg s)) of (written, fs) \<Rightarrow>
           (if written then (200, ArtifactStored key (int (length b))) else (500, ApiError ''INTERNAL'' NoFault),
            s\<lparr>sv_reg := (sv_reg s)\<lparr>rg_files := fs\<rparr>\<rparr>))))"

definition load_artifact :: "'k server_config \<Rightarrow> reg_io \<Rightarrow> string \<Rightarrow> server \<Rightarrow> reply" where
  "load_artifact cfg io key s = (case artifactPath (sc_uploads cfg) key of None \<Rightarrow> invalid_request
   | Some path \<Rightarrow> (case (if io_read io then rg_files (sv_reg s) path else None) of
       None \<Rightarrow> (404, ApiError ''NOT_FOUND'' NoFault) | Some b \<Rightarrow> (200, ArtifactContent b)))"

definition handleArtifacts :: "'k server_config \<Rightarrow> reg_io \<Rightarrow> http_request \<Rightarrow> server \<Rightarrow> reply \<times> server" where
  "handleArtifacts cfg io r s = (let key = TrimSpace (TrimPrefix (hq_Path r) ''/artifacts/'') in
     if key = '''' then handleNotFound cfg io r s
     else if Contains key ''..'' then (invalid_request, s)
     else if \<not> verifyArtifactToken (sc_crypto cfg) (sc_secret cfg) (\<lambda>sec. io_nano io > sec * 1000000000) (method_name (hq_Method r)) (url_query_of r) key
       then (unauthorized, s)
     else case hq_Method r of
       PUT \<Rightarrow> store_artifact cfg io r key s
     | GET \<Rightarrow> (load_artifact cfg io key s, s)
     | _ \<Rightarrow> methodNotAllowed cfg io r s)"

end
