(* ===== verification/Registry_Endpoints.thy ===== *)
theory Registry_Endpoints
  imports Registry_Server
begin

text \<open>
  The remaining handlers of \<^verbatim>\<open>server.go\<close>: resolution, listing and details of extensions, the publish workflow, the audit log,
  and the entry point with the rate limits and the routes. Status pages, the UI configuration and the frontend are left out;
  a panic in a handler aborts the request without a reply.
\<close>

section \<open>Extensions\<close>

definition strconvAtoiDefault :: "string \<Rightarrow> int \<Rightarrow> int" where
  "strconvAtoiDefault raw def = (if TrimSpace raw = '''' then def else case Atoi (TrimSpace raw) of None \<Rightarrow> def | Some v \<Rightarrow> v)"

definition handleResolve :: "'k server_config \<Rightarrow> reg_io \<Rightarrow> http_request \<Rightarrow> server \<Rightarrow> reply \<times> server" where
  "handleResolve cfg io r s =
     (if hq_Method r \<noteq> GET then methodNotAllowed cfg io r s
      else case readCachedJSON cfg io r ''extensions_resolve'' s of
        (Some p, s1) \<Rightarrow> ((200, p), s1)
      | (None, s1) \<Rightarrow>
          let q = (\<lambda>k. TrimSpace (QueryGet r k)); missing = filter (\<lambda>k. q k = '''') [''id'', ''core'', ''os'', ''arch''];
              i = \<lparr>ri_ID = q ''id'', ri_Core = q ''core'', ri_OS = q ''os'', ri_Arch = q ''arch'', ri_Version = q ''version''\<rparr>
          in if missing \<noteq> [] then (invalid_request, log_event cfg io r ''resolve'' ''error'' [(''missing'', AList (map AStr missing))] s1)
          else case Resolve_extension (sc_crypto cfg) (sc_platform_url cfg) (rg_data (sv_reg s1)) i of
            Inl e \<Rightarrow> ((404, ApiError ''EXTENSION_NOT_FOUND'' NoFault), log_event cfg io r ''resolve'' ''error'' [(''id'', AStr (ri_ID i))] s1)
          | Inr out \<Rightarrow> (case writeAndCacheJSON cfg io r (Resolved i out (absoluteURL cfg r (art_URL (ro_Artifact out)))) ''extensions_resolve'' 60 s1 of
              (rep, s2) \<Rightarrow> (rep, log_event cfg io r ''resolve'' ''ok''
                [(''id'', AStr (ext_ID (ro_Extension out))), (''version'', AStr (ev_Version (ro_Version out)))] s2)))"

definition item_page :: "'k server_config \<Rightarrow> reg_io \<Rightarrow> http_request \<Rightarrow> string \<Rightarrow> string \<Rightarrow> anymap \<Rightarrow> (list_item list \<times> int) option \<Rightarrow> server \<Rightarrow> reply \<times> server" where
  "item_page cfg io r scope action about out s = (case out of None \<Rightarrow> ((0, Aborted), s)
   | Some (items, n) \<Rightarrow> (case writeAndCacheJSON cfg io r (ItemPage items n) scope 20 s of
       (rep, s2) \<Rightarrow> (rep, log_event cfg io r action ''ok'' (about @ [(''total'', AInt n)]) s2)))"

definition handleSearch :: "'k server_config \<Rightarrow> reg_io \<Rightarrow> http_request \<Rightarrow> server \<Rightarrow> reply \<times> server" where
  "handleSearch cfg io r s =
     (if hq_Method r \<noteq> GET then methodNotAllowed cfg io r s
      else case readCachedJSON cfg io r ''extensions_search'' s of
        (Some p, s1) \<Rightarrow> ((200, p), s1)
      | (None, s1) \<Rightarrow> let q = (\<lambda>k. TrimSpace (QueryGet r k)) in
          item_page cfg io r ''extensions_search'' ''search'' [(''q'', AStr (q ''q''))]
            (Search_extensions (rg_data (sv_reg s1)) (q ''q'') (q ''type'') (q ''pluginKind'')
              (strconvAtoiDefault (QueryGet r ''page'') 1) (strconvAtoiDefault (QueryGet r ''pageSize'') 20)) s1)"

definition handleList :: "'k server_config \<Rightarrow> reg_io \<Rightarrow> http_request \<Rightarrow> server \<Rightarrow> reply \<times> server" where
  "handleList cfg io r s =
     (if hq_Method r \<noteq> GET then methodNotAllowed cfg io r s
      else case readCachedJSON cfg io r ''extensions_list'' s of
        (Some p, s1) \<Rightarrow> ((200, p), s1)
      | (None, s1) \<Rightarrow> let q = (\<lambda>k. TrimSpace (QueryGet r k)) in
          if q ''q'' \<noteq> '''' then (invalid_request, log_event cfg io r ''list'' ''error'' [(''cause'', AStr ''unsupported q'')] s1)
          else item_page cfg io r ''extensions_list'' ''list'' [(''type'', AStr (q ''type'')), (''pluginKind'', AStr (q ''pluginKind''))]
            (List_extensions (rg_data (sv_reg s1)) (q ''type'') (q ''pluginKind'')
              (strconvAtoiDefault (QueryGet r ''page'') 1) (strconvAtoiDefault (QueryGet r ''pageSize'') 20) (q ''sortBy'') (q ''order'')) s1)"

definition extension_not_found :: reply where
  "extension_not_found = (404, ApiError ''EXTENSION_NOT_FOUND'' NoFault)"

text \<open>The frame of the detail handlers: a \<open>GET\<close>, the cache, an error with its audit entry, or the answer stored for a while.\<close>

definition cached_view ::
  "'k server_config \<Rightarrow> reg_io \<Rightarrow> http_request \<Rightarrow> string \<Rightarrow> int \<Rightarrow> (server \<Rightarrow> (reply \<times> anymap) + (payload \<times> anymap)) \<Rightarrow> server \<Rightarrow> reply \<times> server" where
  "cached_view cfg io r scope ttl view s =
     (if hq_Method r \<noteq> GET then methodNotAllowed cfg io r s
      else case readCachedJSON cfg io r scope s of
        (Some p, s1) \<Rightarrow> ((200, p), s1)
      | (None, s1) \<Rightarrow> (case view s1 of
          Inl (rep, about) \<Rightarrow> (rep, log_event cfg io r scope ''error'' about s1)
        | Inr (p, about) \<Rightarrow> (case writeAndCacheJSON cfg io r p scope ttl s1 of (rep, s2) \<Rightarrow> (rep, log_event cfg io r scope ''ok'' about s2))))"

definition handleExtensionDetail :: "'k server_config \<Rightarrow> reg_io \<Rightarrow> http_request \<Rightarrow> string \<Rightarrow> server \<Rightarrow> reply \<times> server" where
  "handleExtensionDetail cfg io r ident = cached_view cfg io r ''extension_detail'' 60 (\<lambda>s. case GetExtension (rg_data (sv_reg s)) ident of
     Inl e \<Rightarrow> Inl (extension_not_found, [(''id'', AStr ident)])
   | Inr (ext, pub) \<Rightarrow> Inr (ExtensionInfo ext pub (case ListVersions (rg_data (sv_reg s)) ident of Inr (v # vs) \<Rightarrow> ev_Version v | _ \<Rightarrow> ''''),
       [(''id'', AStr (ext_ID ext))]))"

definition handleExtensionVersions :: "'k server_config \<Rightarrow> reg_io \<Rightarrow> http_request \<Rightarrow> string \<Rightarrow> server \<Rightarrow> reply \<times> server" where
  "handleExtensionVersions cfg io r ident = cached_view cfg io r ''extension_versions'' 60 (\<lambda>s. case ListVersions (rg_data (sv_reg s)) ident of
     Inl e \<Rightarrow> Inl (extension_not_found, [(''id'', AStr ident)])
   | Inr vs \<Rightarrow> Inr (ExtensionVersions ident vs, [(''id'', AStr ident), (''count'', AInt (int (length vs)))]))"

definition withAbsoluteURLs :: "'k server_config \<Rightarrow> http_request \<Rightarrow> anymap \<Rightarrow> anymap" where
  "withAbsoluteURLs cfg r = map (\<lambda>(k, v). (k, case v of
     AStr s \<Rightarrow> if HasPrefix s ''/'' \<or> HasPrefix (ToLower s) ''http'' then AStr (absoluteURL cfg r s) else v | _ \<Rightarrow> v))"

text \<open>An empty compatibility map stands for nil.\<close>

definition version_view :: "'k server_config \<Rightarrow> http_request \<Rightarrow> ext_version \<Rightarrow> ext_version" where
  "version_view cfg r v = v\<lparr>ev_Manifest := withAbsoluteURLs cfg r (ev_Manifest v), ev_Integrity := withAbsoluteURLs cfg r (ev_Integrity v),
     ev_Compatibility := (if ev_Compatibility v = [] then [(''core'', AStr (ev_CoreConstraint v))] else ev_Compatibility v),
     ev_Artifacts := map (\<lambda>a. a\<lparr>art_URL := absoluteURL cfg r (art_URL a)\<rparr>) (ev_Artifacts v)\<rparr>"

definition handleExtensionAdvisories :: "'k server_config \<Rightarrow> reg_io \<Rightarrow> http_request \<Rightarrow> string \<Rightarrow> server \<Rightarrow> reply \<times> server" where
  "handleExtensionAdvisories cfg io r ident = cached_view cfg io r ''extension_advisories'' 20 (\<lambda>s. case ListAdvisories (rg_data (sv_reg s)) ident of
     Inl e \<Rightarrow> Inl (extension_not_found, [(''id'', AStr ident)])
   | Inr advs \<Rightarrow> Inr (Advisories ident advs, [(''id'', AStr ident), (''count'', AInt (int (length advs)))]))"

definition handleExtensionVersionDetail :: "'k server_config \<Rightarrow> reg_io \<Rightarrow> http_request \<Rightarrow> string \<Rightarrow> string \<Rightarrow> server \<Rightarrow> reply \<times> server" where
  "handleExtensionVersionDetail cfg io r ident version = cached_view cfg io r ''extension_version_detail'' 120 (\<lambda>s.
     let d = rg_data (sv_reg s) in case GetVersion d ident version of
       Inl e \<Rightarrow> Inl ((404, ApiError ''VERSION_NOT_FOUND'' NoFault), [(''id'', AStr ident), (''version'', AStr version)])
     | Inr (v, ext) \<Rightarrow> Inr (VersionInfo (version_view cfg r v) ext (case map_of (rd_Publishers d) (ext_PublisherID ext) of None \<Rightarrow> no_publisher | Some p \<Rightarrow> p),
         [(''id'', AStr (ext_ID ext)), (''version'', AStr (ev_Version v))]))"

definition handleExtensionRoutes :: "'k server_config \<Rightarrow> reg_io \<Rightarrow> http_request \<Rightarrow> server \<Rightarrow> reply \<times> server" where
  "handleExtensionRoutes cfg io r s = (let path = TrimPrefix (hq_Path r) ''/v1/extensions/''; parts = Split (CHR ''/'') path; ident = PathUnescape (parts ! 0) in
     if TrimSpace path = '''' \<or> ident = '''' then handleNotFound cfg io r s
     else if length parts = 1 then handleExtensionDetail cfg io r ident s
     else if parts ! 1 = ''versions'' \<and> length parts = 2 then handleExtensionVersions cfg io r ident s
     else if parts ! 1 = ''versions'' \<and> length parts = 3 then handleExtensionVersionDetail cfg io r ident (PathUnescape (parts ! 2)) s
     else if parts ! 1 = ''advisories'' \<and> length parts = 2 then handleExtensionAdvisories cfg io r ident s
     else handleNotFound cfg io r s)"

section \<open>Publishing\<close>

definition publish_refused :: "'k server_config \<Rightarrow> reg_io \<Rightarrow> http_request \<Rightarrow> string \<Rightarrow> server \<Rightarrow> identity + (reply \<times> server)" where
  "publish_refused cfg io r action s =
     (if hq_Method r \<noteq> POST then Inr (methodNotAllowed cfg io r s)
      else case identity_of cfg io r s of None \<Rightarrow> Inr (unauthorized, log_event cfg io r action ''error'' [(''reason'', AStr ''unauthorized'')] s)
      | Some i \<Rightarrow>
          if id_IsAnonymous i then Inr (unauthorized, log_event cfg io r action ''error'' [(''reason'', AStr ''anonymous'')] s)
          else if \<not> authorize (sc_policy cfg) i ''package'' ''package:publish'' then
            Inr (forbidden, log_event cfg io r action ''error'' [(''reason'', AStr ''forbidden''), (''roles'', AList (map AStr (id_Roles i)))] s)
          else Inl i)"

definition any_string :: "any \<Rightarrow> string" where
  "any_string v = (case v of AStr s \<Rightarrow> s | _ \<Rightarrow> '''')"

definition with_reg :: "registry \<Rightarrow> server \<Rightarrow> server" where
  "with_reg g s = s\<lparr>sv_reg := g\<rparr>"

definition handlePublishInit :: "'k server_config \<Rightarrow> reg_io \<Rightarrow> http_request \<Rightarrow> server \<Rightarrow> reply \<times> server" where
  "handlePublishInit cfg io r s = (case publish_refused cfg io r ''publish_init'' s of Inr out \<Rightarrow> out
   | Inl i \<Rightarrow> (case decode_body (sc_init cfg) r of None \<Rightarrow> (invalid_request, log_event cfg io r ''publish_init'' ''error'' [] s)
     | Some (ext, files) \<Rightarrow>
         let field = (\<lambda>k. any_string (aget ext k)); about = [(''id'', AStr (field ''id'')), (''version'', AStr (field ''version''))] in
         case CreatePublishSession io \<lparr>pi_Publisher = publisherFromIdentity i, pi_ID = field ''id'', pi_Version = field ''version'', pi_Type = field ''type'',
             pi_PluginKind = field ''pluginKind'', pi_Description = field ''description'', pi_Files = files\<rparr> (sv_reg s) of
           (Inl e, g) \<Rightarrow> ((400, ApiError ''VALIDATION_FAILED'' (RegFault e)), log_event cfg io r ''publish_init'' ''error'' about (with_reg g s))
         | (Inr sess, g) \<Rightarrow> ((200, SessionStarted (ps_ID sess) (ps_Status sess)
               (map (\<lambda>key. (key, absoluteURL cfg r (''/v1/uploads/'' @ PathEscape (ps_ID sess) @ ''/'' @ PathEscape key)))
                 (sort_slice str_less (map fst (ps_Files sess))))),
             log_event cfg io r ''publish_init'' ''ok'' ((''publishId'', AStr (ps_ID sess)) # about) (with_reg g s))))"

definition handlePublishFinalize :: "'k server_config \<Rightarrow> reg_io \<Rightarrow> http_request \<Rightarrow> server \<Rightarrow> reply \<times> server" where
  "handlePublishFinalize cfg io r s = (case publish_refused cfg io r ''publish_finalize'' s of Inr out \<Rightarrow> out
   | Inl i \<Rightarrow> (case decode_body (sc_finalize cfg) r of None \<Rightarrow> (invalid_request, log_event cfg io r ''publish_finalize'' ''error'' [] s)
     | Some publishID \<Rightarrow> (case FinalizePublish (sc_crypto cfg) (sc_uploads cfg) io publishID (sv_reg s) of
         (Inl e, g) \<Rightarrow> ((400, ApiError ''VALIDATION_FAILED'' (RegFault e)),
           log_event cfg io r ''publish_finalize'' ''error'' [(''publishId'', AStr publishID)] (with_reg g s))
       | (Inr sess, g) \<Rightarrow> ((200, SessionState (ps_ID sess) (ps_Status sess)),
           log_event cfg io r ''publish_finalize'' ''ok'' [(''publishId'', AStr (ps_ID sess))] (invalidateCacheScope (with_reg g s))))))"

definition handlePublishStatus :: "'k server_config \<Rightarrow> reg_io \<Rightarrow> http_request \<Rightarrow> server \<Rightarrow> reply \<times> server" where
  "handlePublishStatus cfg io r s = (let publishID = TrimSpace (TrimPrefix (hq_Path r) ''/v1/publish/'') in
     if hq_Method r \<noteq> GET then methodNotAllowed cfg io r s
     else if publishID = '''' then ((400, ApiError ''VALIDATION_FAILED'' NoFault), log_event cfg io r ''publish_status'' ''error'' [] s)
     else case PublishStatus (sv_reg s) publishID of
       Inl e \<Rightarrow> ((404, ApiError ''PUBLISH_NOT_FOUND'' NoFault), log_event cfg io r ''publish_status'' ''error'' [(''publishId'', AStr publishID)] s)
     | Inr sess \<Rightarrow> ((200, SessionFiles (ps_ID sess) (ps_Status sess)
           (map (\<lambda>key. case map_of (ps_Files sess) key of None \<Rightarrow> (key, False, 0) | Some f \<Rightarrow> (sf_Key f, sf_Uploaded f, sf_UploadedSizeBytes f))
             (sort_slice str_less (map fst (ps_Files sess))))),
         log_event cfg io r ''publish_status'' ''ok'' [(''publishId'', AStr (ps_ID sess)), (''status'', AStr (ps_Status sess))] s))"

definition handle_upload :: "'k server_config \<Rightarrow> reg_io \<Rightarrow> http_request \<Rightarrow> server \<Rightarrow> reply \<times> server" where
  "handle_upload cfg io r s = (case handleUploads (sc_crypto cfg) (sc_uploads cfg) io (requester_of cfg io r s) (hq_Method r) (hq_Path r) (hq_Body r) (sv_reg s) of
     (up, g) \<Rightarrow> ((case up of Stored \<Rightarrow> 200 | Content b \<Rightarrow> 200 | FileNotFound \<Rightarrow> 404 | MethodNotAllowed \<Rightarrow> 405 | _ \<Rightarrow> 400, UploadReply up), with_reg g s))"

section \<open>The audit log\<close>

definition handleAudit :: "'k server_config \<Rightarrow> reg_io \<Rightarrow> http_request \<Rightarrow> server \<Rightarrow> reply \<times> server" where
  "handleAudit cfg io r s =
     (if hq_Method r \<noteq> GET then methodNotAllowed cfg io r s
      else case identity_of cfg io r s of None \<Rightarrow> (unauthorized, s)
      | Some i \<Rightarrow>
          if id_IsAnonymous i \<or> \<not> authorize (sc_policy cfg) i ''registry'' ''registry:audit:read'' then (forbidden, s)
          else ((200, AuditEvents (filter (\<lambda>ev. TrimSpace (ae_TenantID ev) = TrimSpace (id_TenantID i))
            (listAuditJSON (sv_reg s) (strconvAtoiDefault (QueryGet r ''limit'') 100)))), s))"

definition handleDeterministicBin :: "'k server_config \<Rightarrow> reg_io \<Rightarrow> http_request \<Rightarrow> server \<Rightarrow> reply \<times> server" where
  "handleDeterministicBin cfg io r s =
     (if hq_Method r \<noteq> GET then methodNotAllowed cfg io r s
      else let q = (\<lambda>k. TrimSpace (QueryGet r k)) in
        ((200, PlainText (q ''id'' @ ''@'' @ q ''version'' @ '':'' @ q ''os'' @ ''-'' @ q ''arch'')), s))"

section \<open>Rate limits\<close>

definition bearerToken :: "http_request \<Rightarrow> string" where
  "bearerToken r = (let auth = TrimSpace (hq_Authorization r) in
     if HasPrefix (ToLower auth) ''bearer '' then TrimSpace (drop 7 auth) else '''')"

text \<open>The limit per minute and the group of a request.\<close>

definition classifyRateLimit :: "http_request \<Rightarrow> int \<times> string" where
  "classifyRateLimit r = (let path = hq_Path r in
     if path = ''/packages'' then (if hq_Method r = GET then (120, ''packages_list'') else (40, ''packages_write''))
     else if HasPrefix path ''/packages/'' then (if hq_Method r = GET then (120, ''packages_read'') else (40, ''packages_write''))
     else if HasPrefix path ''/artifacts/'' \<and> hq_Method r = PUT then (30, ''artifact_put'')
     else if HasPrefix path ''/artifacts/'' then (120, ''artifact_get'')
     else if path = ''/v1/extensions/resolve'' then (120, ''resolve'')
     else if path = ''/v1/extensions/list'' then (60, ''list'')
     else if path = ''/v1/extensions/search'' then (60, ''search'')
     else if path = ''/v1/extensions/publish/init'' then (10, ''publish_init'')
     else if path = ''/v1/extensions/publish/finalize'' then (10, ''publish_finalize'')
     else if HasPrefix path ''/v1/publish/'' then (30, ''publish_status'')
     else if HasPrefix path ''/v1/uploads/'' \<and> hq_Method r = PUT then (30, ''upload_put'')
     else if HasPrefix path ''/v1/uploads/'' then (120, ''upload_get'')
     else if HasPrefix path ''/v1/extensions/'' then (120, ''extensions_read'')
     else (120, ''default''))"

definition rate_key :: "http_request \<Rightarrow> string" where
  "rate_key r = snd (classifyRateLimit r) @ '':'' @ (if bearerToken r = '''' then hq_RemoteAddr r else bearerToken r)"

section \<open>The entry point\<close>

text \<open>The routes of the multiplexer: an exact path, or the longest prefix that ends in a slash.\<close>

definition route :: "'k server_config \<Rightarrow> reg_io \<Rightarrow> http_request \<Rightarrow> server \<Rightarrow> reply \<times> server" where
  "route cfg io r s = (let path = hq_Path r in
     if path = ''/v1/extensions/resolve'' then handleResolve cfg io r s
     else if path = ''/v1/extensions/list'' then handleList cfg io r s
     else if path = ''/v1/extensions/search'' then handleSearch cfg io r s
     else if path = ''/v1/extensions/publish/init'' then handlePublishInit cfg io r s
     else if path = ''/v1/extensions/publish/finalize'' then handlePublishFinalize cfg io r s
     else if HasPrefix path ''/v1/extensions/'' then handleExtensionRoutes cfg io r s
     else if HasPrefix path ''/v1/publish/'' then handlePublishStatus cfg io r s
     else if HasPrefix path ''/v1/uploads/'' then handle_upload cfg io r s
     else if path = ''/v1/audit'' then handleAudit cfg io r s
     else if path = ''/v1/orgs'' then handleOrgsRoot cfg io r s
     else if HasPrefix path ''/v1/orgs/'' then handleOrgRoutes cfg io r s
     else if path = ''/packages'' then handlePackagesRoot cfg io r s
     else if HasPrefix path ''/packages/'' then handlePackagesRoutes cfg io r s
     else if HasPrefix path ''/artifacts/'' then handleArtifacts cfg io r s
     else if path = ''/bin'' then handleDeterministicBin cfg io r s
     else handleNotFound cfg io r s)"

definition serve :: "'k server_config \<Rightarrow> reg_io \<Rightarrow> http_request \<Rightarrow> server \<Rightarrow> reply \<times> server" where
  "serve cfg io r s = (case rate_Allow (rate_key r) (fst (classifyRateLimit r)) 60000000000 (io_nano io) (sv_rates s) of
     (ok, rates) \<Rightarrow> let s1 = s\<lparr>sv_rates := rates\<rparr> in
       if ok then route cfg io r s1
       else ((429, ApiError ''RATE_LIMITED'' NoFault), log_event cfg io r ''rate_limit'' ''rejected''
         [(''group'', AStr (snd (classifyRateLimit r))), (''limit'', AInt (fst (classifyRateLimit r)))] s1))"

end
