(* ===== verification/Registry_Package_Claims.thy ===== *)
theory Registry_Package_Claims
  imports Registry_Packages Registry_Order
begin

text \<open>
  The package store refines a map from tenant, namespace and name to a package with its versions: every operation
  updates at most the entry it names, and published versions stay. Organizations keep an owner unless one is demoted.
\<close>

section \<open>The invariant\<close>

lemma normalizeSegment_idem [simp]: "normalizeSegment (normalizeSegment s) = normalizeSegment s"
  by (simp add: normalizeSegment_def TrimSpace_ToLower)

lemma ToLower_normalizeSegment [simp]: "ToLower (normalizeSegment s) = normalizeSegment s"
  by (simp add: normalizeSegment_def)

type_synonym pkg_key = "string \<times> string \<times> string"

definition pkg_key_of :: "reg_package \<Rightarrow> pkg_key" where
  "pkg_key_of p = (pk_TenantID p, pk_Namespace p, pk_Name p)"

definition norm_key :: "string \<Rightarrow> string \<Rightarrow> string \<Rightarrow> pkg_key" where
  "norm_key tenant namespace name = (TrimSpace tenant, normalizeSegment namespace, normalizeSegment name)"

text \<open>The latest version is one of the versions and none is newer.\<close>

definition latest_ok :: "string \<Rightarrow> (string \<times> pkg_version) list \<Rightarrow> bool" where
  "latest_ok latest vs \<longleftrightarrow> (if vs = [] then latest = '''' else latest \<in> fst ` set vs \<and> latest \<noteq> '''' \<and> TrimSpace latest = latest \<and>
     (\<forall>ver \<in> fst ` set vs. \<not> compareVersion ver latest > 0))"

definition entry_ok :: "string \<Rightarrow> reg_package \<Rightarrow> (string \<times> pkg_version) list \<Rightarrow> bool" where
  "entry_ok k p vs \<longleftrightarrow> pk_ID p = k \<and> ToLower (pk_Namespace p) = pk_Namespace p \<and> ToLower (pk_Name p) = pk_Name p \<and>
     TrimSpace k = k \<and> pk_TenantID p \<noteq> '''' \<and> pk_Visibility p \<in> {''public'', ''tenant''} \<and> latest_ok (pk_LatestVersion p) vs \<and>
     (\<forall>(ver, v) \<in> set vs. pkv_Version v = ver \<and> pkv_PackageID v = k \<and> pkv_TenantID v = pk_TenantID p \<and>
        pkv_ArtifactKey v = canonicalArtifactKey (pk_TenantID p) (pk_Namespace p) (pk_Name p) ver)"

definition pkg_inv :: "pkg_data \<Rightarrow> bool" where
  "pkg_inv d \<longleftrightarrow> distinct (map fst (pd_Packages d)) \<and> distinct (map (pkg_key_of \<circ> snd) (pd_Packages d)) \<and>
     (\<forall>(k, p) \<in> set (pd_Packages d). entry_ok k p (versions_of d k)) \<and> fst ` set (pd_Versions d) \<subseteq> fst ` set (pd_Packages d)"

definition pkg_by_key :: "pkg_data \<Rightarrow> pkg_key \<Rightarrow> reg_package option" where
  "pkg_by_key d = map_of (map (\<lambda>(k, p). (pkg_key_of p, p)) (pd_Packages d))"

text \<open>What the store holds, as a map.\<close>

definition pkg_abs :: "pkg_data \<Rightarrow> pkg_key \<Rightarrow> (reg_package \<times> (string \<Rightarrow> pkg_version option)) option" where
  "pkg_abs d key = map_option (\<lambda>p. (p, map_of (versions_of d (pk_ID p)))) (pkg_by_key d key)"

lemma keys_pkg: "map fst (map (\<lambda>(k, p). (pkg_key_of p, p)) xs) = map (pkg_key_of \<circ> snd) xs"
  by auto

lemma pkg_by_key_iff: "pkg_inv d \<Longrightarrow> pkg_by_key d key = Some p \<longleftrightarrow> (pk_ID p, p) \<in> set (pd_Packages d) \<and> pkg_key_of p = key"
proof -
  assume inv: "pkg_inv d"
  then have "distinct (map fst (map (\<lambda>(k, p). (pkg_key_of p, p)) (pd_Packages d)))" by (simp only: keys_pkg) (simp add: pkg_inv_def)
  then have "pkg_by_key d key = Some p \<longleftrightarrow> (key, p) \<in> set (map (\<lambda>(k, p). (pkg_key_of p, p)) (pd_Packages d))"
    unfolding pkg_by_key_def by (rule map_of_eq_Some_iff)
  also have "\<dots> \<longleftrightarrow> (pk_ID p, p) \<in> set (pd_Packages d) \<and> pkg_key_of p = key" using inv by (force simp: pkg_inv_def entry_ok_def)
  finally show ?thesis .
qed

lemma pkg_named_iff:
  "pkg_inv d \<Longrightarrow> (k, p) \<in> set (pd_Packages d) \<Longrightarrow> pkg_named tenant namespace name p \<longleftrightarrow> pkg_key_of p = norm_key tenant namespace name"
  by (auto simp: pkg_inv_def entry_ok_def pkg_named_def pkg_key_of_def norm_key_def EqualFold_def)

lemma findPackage_eq:
  assumes "pkg_inv d"
  shows "findPackage (pd_Packages d) tenant namespace name = map_option (\<lambda>p. (pk_ID p, p)) (pkg_by_key d (norm_key tenant namespace name))"
proof (cases "findPackage (pd_Packages d) tenant namespace name")
  case None
  then have "\<not> (\<exists>k p. (k, p) \<in> set (pd_Packages d) \<and> pkg_named tenant namespace name p)" by (auto simp: findPackage_def find_None_iff)
  then have "pkg_by_key d (norm_key tenant namespace name) = None"
    using pkg_by_key_iff [OF assms] pkg_named_iff [OF assms] by (metis option.exhaust)
  with None show ?thesis by simp
next
  case (Some kp)
  then obtain k p where kp: "kp = (k, p)" "(k, p) \<in> set (pd_Packages d)" "pkg_named tenant namespace name p"
    unfolding findPackage_def by (metis comp_apply find_Some_iff nth_mem prod.collapse)
  then have "pkg_by_key d (norm_key tenant namespace name) = Some p" "pk_ID p = k"
    using pkg_by_key_iff [OF assms] pkg_named_iff [OF assms kp(2)] assms by (auto simp: pkg_inv_def entry_ok_def)
  with Some kp show ?thesis by simp
qed

section \<open>The abstract operations\<close>

datatype pkg_op = CreateOp reg_io string string string string string | PublishOp reg_io publish_version_input
  | VisibilityOp reg_io string string string string | DeleteOp reg_io string string string

primrec pkg_run :: "pkg_op \<Rightarrow> pkg_data \<Rightarrow> pkg_data" where
  "pkg_run (CreateOp io t n m v a) d = snd (CreatePackage io t n m v a d)"
| "pkg_run (PublishOp io i) d = snd (PublishPackageVersion io i d)"
| "pkg_run (VisibilityOp io t n m v) d = snd (UpdatePackageVisibility io t n m v d)"
| "pkg_run (DeleteOp io t n m) d = snd (DeletePackage io t n m d)"

primrec op_key :: "pkg_op \<Rightarrow> pkg_key" where
  "op_key (CreateOp io t n m v a) = norm_key t n m"
| "op_key (PublishOp io i) = norm_key (pvi_TenantID i) (pvi_Namespace i) (pvi_Name i)"
| "op_key (VisibilityOp io t n m v) = norm_key t n m"
| "op_key (DeleteOp io t n m) = norm_key t n m"

definition key_given :: "pkg_key \<Rightarrow> bool" where
  "key_given key \<longleftrightarrow> (case key of (t, n, m) \<Rightarrow> t \<noteq> '''' \<and> n \<noteq> '''' \<and> m \<noteq> '''')"

primrec op_valid :: "pkg_op \<Rightarrow> bool" where
  "op_valid (CreateOp io t n m v a) = (key_given (norm_key t n m) \<and> TrimSpace a \<noteq> '''' \<and> normalizeVisibility v \<noteq> '''')"
| "op_valid (PublishOp io i) = (key_given (norm_key (pvi_TenantID i) (pvi_Namespace i) (pvi_Name i)) \<and> TrimSpace (pvi_Version i) \<noteq> '''' \<and>
     TrimSpace (pvi_PublishedBy i) \<noteq> '''')"
| "op_valid (VisibilityOp io t n m v) = (key_given (norm_key t n m) \<and> normalizeVisibility v \<noteq> '''')"
| "op_valid (DeleteOp io t n m) = key_given (norm_key t n m)"

definition new_pkg_version :: "reg_io \<Rightarrow> publish_version_input \<Rightarrow> string \<Rightarrow> pkg_version" where
  "new_pkg_version io i pid = \<lparr>pkv_ID = ''pkgv_'' @ itoa (io_nano io), pkv_PackageID = pid, pkv_TenantID = TrimSpace (pvi_TenantID i),
     pkv_Version = TrimSpace (pvi_Version i), pkv_Manifest = pvi_Manifest i,
     pkv_ArtifactKey = canonicalArtifactKey (pvi_TenantID i) (pvi_Namespace i) (pvi_Name i) (pvi_Version i),
     pkv_Checksum = TrimSpace (pvi_Checksum i), pkv_SizeBytes = pvi_SizeBytes i, pkv_PublishedBy = TrimSpace (pvi_PublishedBy i), pkv_PublishedAt = io_now io\<rparr>"

text \<open>What an operation does to the entry it names.\<close>

fun op_effect :: "pkg_op \<Rightarrow> (reg_package \<times> (string \<Rightarrow> pkg_version option)) option \<Rightarrow> (reg_package \<times> (string \<Rightarrow> pkg_version option)) option" where
  "op_effect (CreateOp io t n m v a) None = Some (\<lparr>pk_ID = package_id io, pk_TenantID = TrimSpace t, pk_Namespace = normalizeSegment n,
     pk_Name = normalizeSegment m, pk_LatestVersion = '''', pk_Visibility = normalizeVisibility v, pk_CreatedBy = TrimSpace a,
     pk_CreatedAt = io_now io, pk_UpdatedAt = io_now io\<rparr>, Map.empty)"
| "op_effect (PublishOp io i) (Some (p, vs)) = (if vs (TrimSpace (pvi_Version i)) \<noteq> None then Some (p, vs)
     else Some (p\<lparr>pk_LatestVersion := pickLatestVersion (pk_LatestVersion p) (TrimSpace (pvi_Version i)), pk_UpdatedAt := io_now io\<rparr>,
       vs(TrimSpace (pvi_Version i) \<mapsto> new_pkg_version io i (pk_ID p))))"
| "op_effect (VisibilityOp io t n m v) (Some (p, vs)) = Some (p\<lparr>pk_Visibility := normalizeVisibility v, pk_UpdatedAt := io_now io\<rparr>, vs)"
| "op_effect (DeleteOp io t n m) _ = None"
| "op_effect _ cur = cur"

text \<open>The clock: a created package does not get the id of another one.\<close>

primrec op_fresh :: "pkg_op \<Rightarrow> pkg_data \<Rightarrow> bool" where
  "op_fresh (CreateOp io t n m v a) d = (package_id io \<notin> fst ` set (pd_Packages d))"
| "op_fresh (PublishOp io i) d = True"
| "op_fresh (VisibilityOp io t n m v) d = True"
| "op_fresh (DeleteOp io t n m) d = True"


section \<open>The store refines the map\<close>

lemma update_fresh: "k \<notin> fst ` set al \<Longrightarrow> AList.update k v al = al @ [(k, v)]"
  by (induction al) auto

lemma map_update_same: "map_of al k = Some p \<Longrightarrow> f p' = f p \<Longrightarrow> map (f \<circ> snd) (AList.update k p' al) = map (f \<circ> snd) al"
  by (induction al) (auto split: if_splits)

lemma set_update_distinct: "distinct (map fst al) \<Longrightarrow> set (AList.update k v al) = insert (k, v) {(j, w) \<in> set al. j \<noteq> k}"
  by (induction al) force+

lemma pkg_inv_memD:
  assumes "pkg_inv d" and "(k, p) \<in> set (pd_Packages d)"
  shows "entry_ok k p (versions_of d k)" and "map_of (pd_Packages d) k = Some p" and "pk_ID p = k"
  using assms unfolding pkg_inv_def entry_ok_def by (auto simp: case_prod_beta)

lemma pkg_abs_iff:
  "pkg_inv d \<Longrightarrow> pkg_abs d key = Some (p, vs) \<longleftrightarrow> (pk_ID p, p) \<in> set (pd_Packages d) \<and> pkg_key_of p = key \<and> vs = map_of (versions_of d (pk_ID p))"
  using pkg_by_key_iff [of d key] by (auto simp: pkg_abs_def)

lemma pkg_abs_eqI:
  assumes "pkg_inv d" and "\<And>key p vs. (pk_ID p, p) \<in> set (pd_Packages d) \<and> pkg_key_of p = key \<and> vs = map_of (versions_of d (pk_ID p)) \<longleftrightarrow> f key = Some (p, vs)"
  shows "pkg_abs d = f"
proof
  fix key
  show "pkg_abs d key = f key" using assms(2) [of _ key] pkg_abs_iff [OF assms(1), of key] by (metis option.exhaust prod.exhaust)
qed

text \<open>Replacing a package by one with the same names, and its versions.\<close>

lemma pkg_replace:
  assumes inv: "pkg_inv d" and mem: "(k, p) \<in> set (pd_Packages d)"
    and d': "pd_Packages d' = AList.update k p' (pd_Packages d)" "versions_of d' = (versions_of d)(k := vs')"
      "fst ` set (pd_Versions d') \<subseteq> insert k (fst ` set (pd_Versions d))"
    and p': "pkg_key_of p' = pkg_key_of p" "entry_ok k p' vs'"
  shows "pkg_inv d' \<and> pkg_abs d' = (pkg_abs d)(pkg_key_of p \<mapsto> (p', map_of vs'))"
proof
  have dist: "distinct (map fst (pd_Packages d))" using inv by (simp add: pkg_inv_def)
  note set' = set_update_distinct [OF dist, of k p']
  have "distinct (map (pkg_key_of \<circ> snd) (pd_Packages d'))"
    using map_update_same [OF pkg_inv_memD(2) [OF inv mem], of pkg_key_of p'] p'(1) inv by (simp add: d'(1) pkg_inv_def)
  moreover have "fst ` set (pd_Versions d') \<subseteq> fst ` set (pd_Packages d')"
  proof -
    have k: "k \<in> fst ` set (pd_Packages d)" using mem by (metis fst_conv image_eqI)
    then have keys: "fst ` set (pd_Packages d') = fst ` set (pd_Packages d)" unfolding d'(1) by (metis list.set_map update_keys)
    have "fst ` set (pd_Versions d) \<subseteq> fst ` set (pd_Packages d)" using inv by (simp add: pkg_inv_def)
    with k have "insert k (fst ` set (pd_Versions d)) \<subseteq> fst ` set (pd_Packages d)" by simp
    with d'(3) show ?thesis unfolding keys by (rule subset_trans)
  qed
  moreover have "entry_ok j q (versions_of d' j)" if "(j, q) \<in> set (pd_Packages d')" for j q
    using that p'(2) pkg_inv_memD(1) [OF inv, of j q] unfolding d'(1,2) set' by auto
  moreover have "distinct (map fst (pd_Packages d'))" unfolding d'(1) using dist by (rule distinct_update)
  ultimately show inv': "pkg_inv d'" unfolding pkg_inv_def by auto
  show "pkg_abs d' = (pkg_abs d)(pkg_key_of p \<mapsto> (p', map_of vs'))"
  proof (rule pkg_abs_eqI [OF inv'])
    fix key q vs
    have id: "pk_ID p' = k" using p'(2) by (simp add: entry_ok_def)
    have other: "pk_ID q = k" if "(pk_ID q, q) \<in> set (pd_Packages d)" "pkg_key_of q = pkg_key_of p"
      using that mem pkg_by_key_iff [OF inv, of "pkg_key_of p"] pkg_inv_memD(3) [OF inv mem] by (metis option.inject)
    show "(pk_ID q, q) \<in> set (pd_Packages d') \<and> pkg_key_of q = key \<and> vs = map_of (versions_of d' (pk_ID q)) \<longleftrightarrow>
      ((pkg_abs d)(pkg_key_of p \<mapsto> (p', map_of vs'))) key = Some (q, vs)"
    proof (cases "key = pkg_key_of p")
      case True
      with other show ?thesis unfolding d'(1,2) set' using id p'(1) by auto
    next
      case False
      have "pkg_key_of q = pkg_key_of p" if "(k, q) \<in> set (pd_Packages d)"
        using that pkg_inv_memD(2) [OF inv] mem by (metis option.inject)
      with False show ?thesis unfolding d'(1,2) set' using pkg_abs_iff [OF inv, of key q vs] p'(1) by auto
    qed
  qed
qed


lemma pkg_insert:
  assumes inv: "pkg_inv d" and fresh: "k \<notin> fst ` set (pd_Packages d)" "pkg_by_key d (pkg_key_of p) = None"
    and p: "entry_ok k p []" and d': "d' = d\<lparr>pd_Packages := AList.update k p (pd_Packages d)\<rparr>"
  shows "pkg_inv d' \<and> pkg_abs d' = (pkg_abs d)(pkg_key_of p \<mapsto> (p, Map.empty))"
proof
  have upd: "pd_Packages d' = pd_Packages d @ [(k, p)]" by (simp add: d' update_fresh [OF fresh(1)])
  have vs: "versions_of d' = versions_of d" by (simp add: d' versions_of_def fun_eq_iff)
  have "k \<notin> fst ` set (pd_Versions d)" using inv fresh(1) by (auto simp: pkg_inv_def)
  then have "map_of (pd_Versions d) k = None" by (simp add: map_of_eq_None_iff)
  then have empty: "versions_of d k = []" by (simp add: versions_of_def)
  have id: "pk_ID p = k" using p by (simp add: entry_ok_def)
  have new: "pkg_key_of p \<noteq> pkg_key_of q" if "(j, q) \<in> set (pd_Packages d)" for j q
    using that fresh(2) pkg_by_key_iff [OF inv, of "pkg_key_of p" q] pkg_inv_memD(3) [OF inv that] by auto
  have "distinct (map (pkg_key_of \<circ> snd) (pd_Packages d'))"
  proof -
    have "pkg_key_of p \<notin> set (map (pkg_key_of \<circ> snd) (pd_Packages d))" using new by fastforce
    moreover have "distinct (map (pkg_key_of \<circ> snd) (pd_Packages d))" using inv by (simp add: pkg_inv_def)
    ultimately show ?thesis by (simp add: upd)
  qed
  moreover have "distinct (map fst (pd_Packages d'))" using inv fresh(1) by (auto simp: upd pkg_inv_def)
  moreover have "entry_ok j q (versions_of d' j)" if "(j, q) \<in> set (pd_Packages d')" for j q
    using that p empty pkg_inv_memD(1) [OF inv, of j q] by (auto simp: upd vs)
  moreover have "fst ` set (pd_Versions d') \<subseteq> fst ` set (pd_Packages d')" using inv by (auto simp: d' update_fresh [OF fresh(1)] pkg_inv_def)
  ultimately show inv': "pkg_inv d'" unfolding pkg_inv_def by auto
  show "pkg_abs d' = (pkg_abs d)(pkg_key_of p \<mapsto> (p, Map.empty))"
  proof (rule pkg_abs_eqI [OF inv'])
    fix key q ws
    have "(k, q) \<notin> set (pd_Packages d)" for q using fresh(1) by (metis fst_conv image_eqI)
    moreover have "pkg_key_of q \<noteq> pkg_key_of p" if "(pk_ID q, q) \<in> set (pd_Packages d)" using new [OF that] by simp
    ultimately show "(pk_ID q, q) \<in> set (pd_Packages d') \<and> pkg_key_of q = key \<and> ws = map_of (versions_of d' (pk_ID q)) \<longleftrightarrow>
      ((pkg_abs d)(pkg_key_of p \<mapsto> (p, Map.empty))) key = Some (q, ws)"
      using pkg_abs_iff [OF inv, of key q ws] id empty by (cases "key = pkg_key_of p") (auto simp: upd vs)
  qed
qed

lemma pkg_remove:
  assumes inv: "pkg_inv d" and mem: "(k, p) \<in> set (pd_Packages d)"
    and d': "d' = d\<lparr>pd_Versions := AList.delete k (pd_Versions d), pd_Packages := AList.delete k (pd_Packages d)\<rparr>"
  shows "pkg_inv d' \<and> pkg_abs d' = (pkg_abs d)(pkg_key_of p := None)"
proof
  have pkgs: "pd_Packages d' = filter (\<lambda>(j, q). k \<noteq> j) (pd_Packages d)" by (simp add: d' AList.delete_eq)
  have vs: "versions_of d' j = versions_of d j" if "j \<noteq> k" for j using that by (simp add: d' versions_of_def delete_conv')
  have "distinct (map (pkg_key_of \<circ> snd) (pd_Packages d'))" "distinct (map fst (pd_Packages d'))"
    using inv unfolding pkgs pkg_inv_def by (auto intro: distinct_map_filter)
  moreover have "entry_ok j q (versions_of d' j)" if "(j, q) \<in> set (pd_Packages d')" for j q
    using that vs pkg_inv_memD(1) [OF inv, of j q] by (auto simp: pkgs)
  moreover have "fst ` set (pd_Versions d') \<subseteq> fst ` set (pd_Packages d')" 
  proof -
    have keys: "fst ` set (AList.delete k al) = fst ` set al - {k}" for al :: "(string \<times> 'b) list"
      by (metis delete_keys list.set_map set_removeAll)
    have "fst ` set (pd_Versions d) \<subseteq> fst ` set (pd_Packages d)" using inv by (simp add: pkg_inv_def)
    then have "fst ` set (AList.delete k (pd_Versions d)) \<subseteq> fst ` set (AList.delete k (pd_Packages d))"
      unfolding keys by (rule Diff_mono) simp
    then show ?thesis by (simp add: d')
  qed
  ultimately show inv': "pkg_inv d'" unfolding pkg_inv_def by auto
  show "pkg_abs d' = (pkg_abs d)(pkg_key_of p := None)"
  proof (rule pkg_abs_eqI [OF inv'])
    fix key q ws
    have "pk_ID q = k \<longleftrightarrow> pkg_key_of q = pkg_key_of p" if "(pk_ID q, q) \<in> set (pd_Packages d)"
      using that mem pkg_by_key_iff [OF inv, of "pkg_key_of p"] pkg_inv_memD(2,3) [OF inv] by (metis option.inject)
    then show "(pk_ID q, q) \<in> set (pd_Packages d') \<and> pkg_key_of q = key \<and> ws = map_of (versions_of d' (pk_ID q)) \<longleftrightarrow>
      ((pkg_abs d)(pkg_key_of p := None)) key = Some (q, ws)"
      using pkg_abs_iff [OF inv, of key q ws] vs by (auto simp: pkgs)
  qed
qed


section \<open>Every operation is one update of the map\<close>

lemma norm_key_idem [simp]: "norm_key (TrimSpace t) (normalizeSegment n) (normalizeSegment m) = norm_key t n m"
  by (simp add: norm_key_def)

lemma pickLatest_ok:
  assumes "latest_ok l vs" and "ver \<noteq> ''''" "TrimSpace ver = ver" and "ver \<notin> fst ` set vs"
  shows "latest_ok (pickLatestVersion l ver) (AList.update ver v vs)"
proof -
  have irrefl: "\<not> compareVersion x x > 0" and trans: "compareVersion x y > 0 \<Longrightarrow> compareVersion y z > 0 \<Longrightarrow> compareVersion x z > 0" for x y z
    using version_weak unfolding weak_order_def by blast+
  have nil: "TrimSpace '''' = ''''" by code_simp
  show ?thesis
  proof (cases "vs = []")
    case True
    with assms(1,2,3) irrefl nil show ?thesis by (simp add: latest_ok_def pickLatestVersion_def)
  next
    case False
    with assms(1) have l: "l \<in> fst ` set vs" "l \<noteq> ''''" "TrimSpace l = l" "\<forall>w \<in> fst ` set vs. \<not> compareVersion w l > 0"
      by (auto simp: latest_ok_def)
    have "\<not> compareVersion w ver > 0" if "compareVersion ver l > 0" "w \<in> fst ` set vs" for w
      using that l(4) trans by blast
    with l assms(2,3) irrefl show ?thesis
      by (auto simp: latest_ok_def pickLatestVersion_def update_fresh [OF assms(4)])
  qed
qed

lemma package_id_trim: "TrimSpace (package_id io) = package_id io"
proof (rule TrimSpace_ends)
  have "\<not> is_space c" if "is_digit c" for c using that by (auto simp: is_digit_def is_space_def Let_def)
  then have "\<not> is_space (last (utoa n))" for n by (simp add: utoa_digits [of _ n])
  then show "\<not> is_space (last (package_id io))" by (simp add: package_id_def itoa_def)
qed (simp_all add: package_id_def is_space_def)


definition op_refined :: "pkg_op \<Rightarrow> pkg_data \<Rightarrow> bool" where
  "op_refined op d \<longleftrightarrow> pkg_inv (pkg_run op d) \<and> pkg_abs (pkg_run op d) =
    (if op_valid op then (pkg_abs d)(op_key op := op_effect op (pkg_abs d (op_key op))) else pkg_abs d)"

lemma create_refines:
  assumes inv: "pkg_inv d" and fresh: "package_id io \<notin> fst ` set (pd_Packages d)"
  shows "op_refined (CreateOp io t n m v a) d"
proof (cases "op_valid (CreateOp io t n m v a) \<and> pkg_by_key d (norm_key t n m) = None")
  case True
  define p where "p = \<lparr>pk_ID = package_id io, pk_TenantID = TrimSpace t, pk_Namespace = normalizeSegment n, pk_Name = normalizeSegment m,
    pk_LatestVersion = '''', pk_Visibility = normalizeVisibility v, pk_CreatedBy = TrimSpace a, pk_CreatedAt = io_now io, pk_UpdatedAt = io_now io\<rparr>"
  have key: "pkg_key_of p = norm_key t n m" by (simp add: p_def pkg_key_of_def norm_key_def)
  have valid: "TrimSpace t \<noteq> ''''" "normalizeSegment n \<noteq> ''''" "normalizeSegment m \<noteq> ''''" "TrimSpace a \<noteq> ''''" "normalizeVisibility v \<noteq> ''''"
    using True by (auto simp: key_given_def norm_key_def)
  have "normalizeVisibility v \<in> {''public'', ''tenant''}" using valid(5) by (auto simp: normalizeVisibility_def Let_def split: if_splits)
  then have ok: "entry_ok (package_id io) p []" using valid package_id_trim by (simp add: entry_ok_def p_def latest_ok_def)
  have "pkg_run (CreateOp io t n m v a) d = d\<lparr>pd_Packages := AList.update (package_id io) p (pd_Packages d)\<rparr>"
    using True valid by (simp add: op_refined_def CreatePackage_def Let_def findPackage_eq [OF inv] saved_def p_def)
  from pkg_insert [OF inv fresh _ ok this] True key show ?thesis by (simp add: op_refined_def pkg_abs_def p_def)
next
  case False
  then have "pkg_run (CreateOp io t n m v a) d = d"
    by (auto simp: CreatePackage_def Let_def findPackage_eq [OF inv] key_given_def norm_key_def)
  moreover have "op_effect (CreateOp io t n m v a) (pkg_abs d (op_key (CreateOp io t n m v a))) = pkg_abs d (op_key (CreateOp io t n m v a))" if "op_valid (CreateOp io t n m v a)"
    using that False by (auto simp: pkg_abs_def)
  ultimately show ?thesis using inv by (simp add: op_refined_def fun_upd_idem)
qed

lemma delete_refines:
  assumes inv: "pkg_inv d"
  shows "op_refined (DeleteOp io t n m) d"
proof (cases "op_valid (DeleteOp io t n m) \<and> pkg_by_key d (norm_key t n m) \<noteq> None")
  case True
  then obtain p where p: "pkg_by_key d (norm_key t n m) = Some p" by blast
  then have mem: "(pk_ID p, p) \<in> set (pd_Packages d)" and key: "pkg_key_of p = norm_key t n m" using pkg_by_key_iff [OF inv] by auto
  have "pkg_run (DeleteOp io t n m) d = d\<lparr>pd_Versions := AList.delete (pk_ID p) (pd_Versions d), pd_Packages := AList.delete (pk_ID p) (pd_Packages d)\<rparr>"
    using True p key by (auto simp: DeletePackage_def Let_def findPackage_eq [OF inv] saved_def key_given_def norm_key_def pkg_key_of_def)
  from pkg_remove [OF inv mem this] True key show ?thesis by (simp add: op_refined_def)
next
  case False
  then have "pkg_run (DeleteOp io t n m) d = d"
    by (auto simp: DeletePackage_def Let_def findPackage_eq [OF inv] key_given_def norm_key_def)
  moreover have "op_effect (DeleteOp io t n m) (pkg_abs d (op_key (DeleteOp io t n m))) = pkg_abs d (op_key (DeleteOp io t n m))" if "op_valid (DeleteOp io t n m)"
    using that False by (auto simp: pkg_abs_def)
  ultimately show ?thesis using inv by (simp add: op_refined_def fun_upd_idem)
qed

lemma visibility_refines:
  assumes inv: "pkg_inv d"
  shows "op_refined (VisibilityOp io t n m v) d"
proof (cases "op_valid (VisibilityOp io t n m v) \<and> pkg_by_key d (norm_key t n m) \<noteq> None")
  case True
  then obtain p where p: "pkg_by_key d (norm_key t n m) = Some p" by blast
  then have mem: "(pk_ID p, p) \<in> set (pd_Packages d)" and key: "pkg_key_of p = norm_key t n m" using pkg_by_key_iff [OF inv] by auto
  let ?p = "p\<lparr>pk_Visibility := normalizeVisibility v, pk_UpdatedAt := io_now io\<rparr>"
  have run: "pkg_run (VisibilityOp io t n m v) d = d\<lparr>pd_Packages := AList.update (pk_ID p) ?p (pd_Packages d)\<rparr>"
    using True p key by (auto simp: UpdatePackageVisibility_def Let_def findPackage_eq [OF inv] saved_def key_given_def norm_key_def pkg_key_of_def)
  have "normalizeVisibility v \<in> {''public'', ''tenant''}" using True by (auto simp: normalizeVisibility_def Let_def split: if_splits)
  then have ok: "entry_ok (pk_ID p) ?p (versions_of d (pk_ID p))" using pkg_inv_memD(1) [OF inv mem] by (simp add: entry_ok_def)
  have "pkg_inv (pkg_run (VisibilityOp io t n m v) d) \<and> pkg_abs (pkg_run (VisibilityOp io t n m v) d) = (pkg_abs d)(pkg_key_of p \<mapsto> (?p, map_of (versions_of d (pk_ID p))))"
    by (rule pkg_replace [OF inv mem _ _ _ _ ok]) (auto simp: run [simplified] versions_of_def fun_eq_iff pkg_key_of_def)
  with True p key show ?thesis by (simp add: op_refined_def pkg_abs_def)
next
  case False
  then have "pkg_run (VisibilityOp io t n m v) d = d"
    by (auto simp: UpdatePackageVisibility_def Let_def findPackage_eq [OF inv] key_given_def norm_key_def)
  moreover have "op_effect (VisibilityOp io t n m v) (pkg_abs d (op_key (VisibilityOp io t n m v))) = pkg_abs d (op_key (VisibilityOp io t n m v))" if "op_valid (VisibilityOp io t n m v)"
    using that False by (auto simp: pkg_abs_def)
  ultimately show ?thesis using inv by (simp add: op_refined_def fun_upd_idem)
qed


lemma canonicalArtifactKey_norm [simp]:
  "canonicalArtifactKey (TrimSpace t) (normalizeSegment n) (normalizeSegment m) (TrimSpace v) = canonicalArtifactKey t n m v"
  by (simp add: canonicalArtifactKey_def)

lemma new_version_ok:
  assumes ok: "entry_ok k p vs" and key: "pkg_key_of p = norm_key (pvi_TenantID i) (pvi_Namespace i) (pvi_Name i)"
    and ver: "TrimSpace (pvi_Version i) \<noteq> ''''" "TrimSpace (pvi_Version i) \<notin> fst ` set vs"
  shows "entry_ok k (p\<lparr>pk_LatestVersion := pickLatestVersion (pk_LatestVersion p) (TrimSpace (pvi_Version i)), pk_UpdatedAt := io_now io\<rparr>)
    (AList.update (TrimSpace (pvi_Version i)) (new_pkg_version io i k) vs)"
proof -
  have names: "pk_TenantID p = TrimSpace (pvi_TenantID i)" "pk_Namespace p = normalizeSegment (pvi_Namespace i)"
    "pk_Name p = normalizeSegment (pvi_Name i)" using key by (auto simp: pkg_key_of_def norm_key_def)
  have "latest_ok (pickLatestVersion (pk_LatestVersion p) (TrimSpace (pvi_Version i)))
      (AList.update (TrimSpace (pvi_Version i)) (new_pkg_version io i k) vs)"
    using ok by (intro pickLatest_ok ver) (simp_all add: entry_ok_def)
  then show ?thesis using ok by (auto simp: entry_ok_def names new_pkg_version_def update_fresh [OF ver(2)] canonicalArtifactKey_def)
qed

lemma publish_refines:
  assumes inv: "pkg_inv d"
  shows "op_refined (PublishOp io i) d"
proof (cases "op_valid (PublishOp io i) \<and> pkg_by_key d (norm_key (pvi_TenantID i) (pvi_Namespace i) (pvi_Name i)) \<noteq> None")
  case True
  let ?ver = "TrimSpace (pvi_Version i)"
  obtain p where p: "pkg_by_key d (norm_key (pvi_TenantID i) (pvi_Namespace i) (pvi_Name i)) = Some p" using True by blast
  then have mem: "(pk_ID p, p) \<in> set (pd_Packages d)" and key: "pkg_key_of p = norm_key (pvi_TenantID i) (pvi_Namespace i) (pvi_Name i)"
    using pkg_by_key_iff [OF inv] by auto
  let ?k = "pk_ID p" and ?vs = "versions_of d (pk_ID p)"
  let ?p = "p\<lparr>pk_LatestVersion := pickLatestVersion (pk_LatestVersion p) ?ver, pk_UpdatedAt := io_now io\<rparr>"
  note ok = pkg_inv_memD(1) [OF inv mem]
  have abs: "pkg_abs d (op_key (PublishOp io i)) = Some (p, map_of ?vs)" by (simp add: pkg_abs_def p)
  have found: "findPackage (pd_Packages d) (pvi_TenantID i) (pvi_Namespace i) (pvi_Name i) = Some (?k, p)"
    by (simp add: findPackage_eq [OF inv] p)
  have valid: "TrimSpace (pvi_TenantID i) \<noteq> ''''" "normalizeSegment (pvi_Namespace i) \<noteq> ''''" "normalizeSegment (pvi_Name i) \<noteq> ''''"
    "?ver \<noteq> ''''" "TrimSpace (pvi_PublishedBy i) \<noteq> ''''" "pk_TenantID p = TrimSpace (pvi_TenantID i)"
    using True key by (auto simp: key_given_def norm_key_def pkg_key_of_def)
  have same: "findPackage pkgs (TrimSpace t) (normalizeSegment n) (normalizeSegment m) = findPackage pkgs t n m" for pkgs t n m
    by (simp add: findPackage_def pkg_named_def [abs_def])
  show ?thesis
  proof (cases "?ver \<in> fst ` set ?vs")
    case old: True
    have run: "pkg_run (PublishOp io i) d = d\<lparr>pd_Versions := AList.update ?k ?vs (pd_Versions d)\<rparr>"
      using valid old by (simp add: PublishPackageVersion_def Let_def same found)
    have "pkg_inv (pkg_run (PublishOp io i) d) \<and> pkg_abs (pkg_run (PublishOp io i) d) = (pkg_abs d)(pkg_key_of p \<mapsto> (p, map_of ?vs))"
      by (rule pkg_replace [OF inv mem _ _ _ _ ok])
        (auto simp: run [simplified] versions_of_def fun_eq_iff update_conv' update_triv [OF pkg_inv_memD(2) [OF inv mem]] dom_update)
    moreover have "map_of ?vs ?ver \<noteq> None" using old by (simp add: map_of_eq_None_iff)
    ultimately show ?thesis using True key abs by (simp add: op_refined_def)
  next
    case new: False
    have run: "pkg_run (PublishOp io i) d = d\<lparr>pd_Versions := AList.update ?k (AList.update ?ver (new_pkg_version io i ?k) ?vs) (AList.update ?k ?vs (pd_Versions d)),
        pd_Packages := AList.update ?k ?p (pd_Packages d)\<rparr>"
      using valid new by (simp add: PublishPackageVersion_def Let_def same found saved_def new_pkg_version_def)
    have "pkg_inv (pkg_run (PublishOp io i) d) \<and>
        pkg_abs (pkg_run (PublishOp io i) d) = (pkg_abs d)(pkg_key_of p \<mapsto> (?p, map_of (AList.update ?ver (new_pkg_version io i ?k) ?vs)))"
      by (rule pkg_replace [OF inv mem _ _ _ _ new_version_ok [OF ok key valid(4) new]])
        (auto simp: run [simplified] versions_of_def fun_eq_iff update_conv' pkg_key_of_def dom_update)
    moreover have "map_of ?vs ?ver = None" using new by (simp add: map_of_eq_None_iff)
    ultimately show ?thesis using True key abs by (simp add: op_refined_def update_conv')
  qed
next
  case False
  have same: "findPackage pkgs (TrimSpace t) (normalizeSegment n) (normalizeSegment m) = findPackage pkgs t n m" for pkgs t n m
    by (simp add: findPackage_def pkg_named_def [abs_def])
  from False have "pkg_run (PublishOp io i) d = d"
    by (auto simp: PublishPackageVersion_def Let_def same findPackage_eq [OF inv] key_given_def norm_key_def)
  moreover have "op_effect (PublishOp io i) (pkg_abs d (op_key (PublishOp io i))) = pkg_abs d (op_key (PublishOp io i))" if "op_valid (PublishOp io i)"
    using that False by (auto simp: pkg_abs_def)
  ultimately show ?thesis using inv by (simp add: op_refined_def fun_upd_idem)
qed


section \<open>Reachable stores\<close>

inductive pkg_reach :: "pkg_data \<Rightarrow> bool" where
  reach_empty: "pd_Packages d = [] \<Longrightarrow> pd_Versions d = [] \<Longrightarrow> pkg_reach d"
| reach_op: "pkg_reach d \<Longrightarrow> op_fresh op d \<Longrightarrow> pkg_reach (pkg_run op d)"

lemma op_refines: "pkg_inv d \<Longrightarrow> op_fresh op d \<Longrightarrow> op_refined op d"
  by (cases op) (simp_all add: create_refines publish_refines visibility_refines delete_refines)

lemma pkg_reach_inv: "pkg_reach d \<Longrightarrow> pkg_inv d"
proof (induction rule: pkg_reach.induct)
  case (reach_op d op)
  then show ?case using op_refines by (simp add: op_refined_def)
qed (simp add: pkg_inv_def)

text \<open>
  C7. The package store is a map. In every store that requests can lead to, an operation with valid fields changes the
  one entry of its tenant, namespace and name as its abstract effect says, and every other operation changes
  nothing: no request of a tenant touches a package of another one, a published version is only lost with its
  package, and creating a package twice or publishing a version twice has no effect, saved or not.
\<close>

theorem packages_refine:
  assumes "pkg_reach d" and "op_fresh op d"
  shows "pkg_abs (pkg_run op d) = (if op_valid op then (pkg_abs d)(op_key op := op_effect op (pkg_abs d (op_key op))) else pkg_abs d)"
  using op_refines [OF pkg_reach_inv [OF assms(1)] assms(2)] by (simp add: op_refined_def)

definition ex_pkg_io :: "int \<Rightarrow> reg_io" where
  "ex_pkg_io n = \<lparr>io_nano = n, io_now = itoa n, io_mkdir = True, io_write = Written, io_read = True, io_save = True\<rparr>"

definition ex_no_packages :: pkg_data where
  "ex_no_packages = \<lparr>pd_Packages = [], pd_Versions = [], pd_APIKeys = [], pd_Orgs = []\<rparr>"

definition ex_package :: pkg_data where
  "ex_package = pkg_run (CreateOp (ex_pkg_io 1) ''t1'' ''Acme'' ''tool'' ''public'' ''u1'') ex_no_packages"

definition ex_publish_pkg :: "string \<Rightarrow> publish_version_input" where
  "ex_publish_pkg ver = \<lparr>pvi_TenantID = ''t1'', pvi_Namespace = ''acme'', pvi_Name = ''Tool'', pvi_Version = ver, pvi_Manifest = [],
     pvi_ArtifactKey = '''', pvi_Checksum = ''abc'', pvi_SizeBytes = 3, pvi_PublishedBy = ''u1''\<rparr>"

lemma ex_package_reach: "pkg_reach ex_package"
  unfolding ex_package_def by (rule reach_op, rule reach_empty) (simp_all add: ex_no_packages_def)

theorem packages_refine_witness:
  "pkg_abs (pkg_run (PublishOp (ex_pkg_io 2) (ex_publish_pkg ''1.0.0'')) ex_package) =
    (pkg_abs ex_package)((''t1'', ''acme'', ''tool'') := op_effect (PublishOp (ex_pkg_io 2) (ex_publish_pkg ''1.0.0'')) (pkg_abs ex_package (''t1'', ''acme'', ''tool'')))"
proof -
  have "op_key (PublishOp (ex_pkg_io 2) (ex_publish_pkg ''1.0.0'')) = (''t1'', ''acme'', ''tool'')"
    "op_valid (PublishOp (ex_pkg_io 2) (ex_publish_pkg ''1.0.0''))" by code_simp+
  with packages_refine [OF ex_package_reach, of "PublishOp (ex_pkg_io 2) (ex_publish_pkg ''1.0.0'')"] show ?thesis by simp
qed

text \<open>
  C25. Stored packages are well-formed. In every store that requests can lead to, a package has the key its id says, no two
  packages share tenant, namespace and name, its visibility is one of the two, its latest version is one of its
  versions and none is newer, and each version belongs to it and has the artifact key of its tenant.
\<close>

theorem packages_well_formed:
  assumes "pkg_reach d" and "(k, p) \<in> set (pd_Packages d)"
  shows "pk_ID p = k \<and> pk_Visibility p \<in> {''public'', ''tenant''} \<and>
    (\<forall>j q. (j, q) \<in> set (pd_Packages d) \<and> pkg_key_of q = pkg_key_of p \<longrightarrow> j = k \<and> q = p) \<and>
    (versions_of d k \<noteq> [] \<longrightarrow> pk_LatestVersion p \<in> fst ` set (versions_of d k) \<and>
       (\<forall>ver \<in> fst ` set (versions_of d k). \<not> compareVersion ver (pk_LatestVersion p) > 0)) \<and>
    (\<forall>(ver, v) \<in> set (versions_of d k). pkv_Version v = ver \<and> pkv_PackageID v = k \<and> pkv_TenantID v = pk_TenantID p \<and>
       pkv_ArtifactKey v = canonicalArtifactKey (pk_TenantID p) (pk_Namespace p) (pk_Name p) ver)"
proof -
  note inv = pkg_reach_inv [OF assms(1)]
  note ok = pkg_inv_memD [OF inv assms(2)]
  have "j = k \<and> q = p" if "(j, q) \<in> set (pd_Packages d)" "pkg_key_of q = pkg_key_of p" for j q
    using that assms(2) pkg_by_key_iff [OF inv, of "pkg_key_of p"] pkg_inv_memD(3) [OF inv] by (metis option.inject)
  with ok(1) show ?thesis by (auto simp: entry_ok_def latest_ok_def)
qed

theorem packages_well_formed_witness:
  "\<exists>k p. (k, p) \<in> set (pd_Packages ex_package) \<and> pk_ID p = k \<and> pk_Visibility p \<in> {''public'', ''tenant''}"
proof -
  have "pd_Packages ex_package \<noteq> []" by code_simp
  then obtain k p where "(k, p) \<in> set (pd_Packages ex_package)" by (metis list.set_intros(1) neq_Nil_conv prod.collapse)
  with packages_well_formed [OF ex_package_reach this] show ?thesis by blast
qed


section \<open>Organizations\<close>

lemma owners_filter:
  assumes ids: "distinct (map om_UserID ms)" and owner: "m \<in> set ms" "om_Role m = ''owner''"
    and more: "\<not> (length (filter (\<lambda>m. om_Role m = ''owner'') ms) \<le> 1 \<and> list_ex (\<lambda>m. om_UserID m = u \<and> om_Role m = ''owner'') ms)"
  shows "\<exists>m \<in> set ms. om_Role m = ''owner'' \<and> om_UserID m \<noteq> u"
proof (rule ccontr)
  assume "\<not> ?thesis"
  then have all: "\<forall>x \<in> set (filter (\<lambda>m. om_Role m = ''owner'') ms). om_UserID x = u" by auto
  have "om_UserID m = u" using all owner by simp
  then have "list_ex (\<lambda>m. om_UserID m = u \<and> om_Role m = ''owner'') ms" using owner by (auto simp: list_ex_iff)
  moreover have "length (filter (\<lambda>m. om_Role m = ''owner'') ms) \<le> 1"
  proof -
    let ?ids = "map om_UserID (filter (\<lambda>m. om_Role m = ''owner'') ms)"
    have "card (set ?ids) \<le> card {u}" using all by (intro card_mono) auto
    moreover have "card (set ?ids) = length ?ids" using ids by (intro distinct_card distinct_map_filter)
    ultimately show ?thesis by simp
  qed
  ultimately show False using more by simp
qed

lemma put_member_ids: "map om_UserID (put_member u e r ms) = (if u \<in> om_UserID ` set ms then map om_UserID ms else map om_UserID ms @ [u])"
  by (induction ms) auto

lemma put_member_owners:
  "distinct (map om_UserID ms) \<Longrightarrow> m \<in> set ms \<Longrightarrow> om_Role m = ''owner'' \<Longrightarrow> om_UserID m \<noteq> u \<or> r = ''owner'' \<Longrightarrow>
    1 \<le> length (filter (\<lambda>m. om_Role m = ''owner'') (put_member u e r ms))"
  by (induction ms) (auto simp: Suc_le_eq filter_empty_conv)

definition org_ok :: "organization \<Rightarrow> bool" where
  "org_ok org \<longleftrightarrow> distinct (map om_UserID (og_Members org)) \<and> 1 \<le> owners org"

lemma CreateOrganization_owner:
  "CreateOrganization io i d = (Inr org, d') \<Longrightarrow> map_of (pd_Orgs d') (og_Slug org) = Some org \<and> org_ok org"
  by (auto simp: CreateOrganization_def Let_def saved_def update_conv' org_ok_def owners_def split: if_splits)

text \<open>
  C33. An organization keeps an owner, with one exception. If the ids of the members are distinct and there is an owner,
  as in a created organization, removing a member from any organization keeps this; adding a member or
  changing a role keeps it unless the only owner is given another role, which is accepted.
\<close>

theorem organization_owner:
  assumes "map_of (pd_Orgs d) slug = Some org" and "org_ok org"
  shows "(\<exists>org'. map_of (pd_Orgs (snd (RemoveOrganizationMember io other user d))) slug = Some org' \<and> org_ok org') \<and>
    (\<exists>org'. map_of (pd_Orgs (snd (AddOrganizationMember io other user email role d))) slug = Some org' \<and>
      (org_ok org' \<or> normalizeOrgSlug other = slug \<and> normalizeOrgRole role \<noteq> ''owner'' \<and>
        (\<forall>m \<in> set (og_Members org). om_Role m = ''owner'' \<longrightarrow> om_UserID m = TrimSpace user)))"
proof -
  let ?keep = "filter (\<lambda>m. om_UserID m \<noteq> TrimSpace user) (og_Members org)"
  have owner: "\<exists>m \<in> set (og_Members org). om_Role m = ''owner''"
    using assms(2) by (auto simp: org_ok_def owners_def Suc_le_eq filter_empty_conv)
  have ids: "distinct (map om_UserID (og_Members org))" using assms(2) by (simp add: org_ok_def)
  have "org_ok (org\<lparr>og_Members := ?keep, og_UpdatedAt := io_now io\<rparr>)"
    if more: "\<not> (owners org \<le> 1 \<and> list_ex (\<lambda>m. om_UserID m = TrimSpace user \<and> om_Role m = ''owner'') (og_Members org))"
  proof -
    obtain m where "m \<in> set (og_Members org)" "om_Role m = ''owner''" "om_UserID m \<noteq> TrimSpace user"
      using owner owners_filter [OF ids _ _ more [unfolded owners_def]] by blast
    then have "m \<in> set (filter (\<lambda>m. om_Role m = ''owner'') ?keep)" by simp
    then have "1 \<le> length (filter (\<lambda>m. om_Role m = ''owner'') ?keep)" by (metis One_nat_def Suc_leI length_pos_if_in_set)
    then show ?thesis using ids by (simp add: org_ok_def owners_def distinct_map_filter)
  qed
  with assms have kept: "\<exists>org'. map_of (pd_Orgs (snd (RemoveOrganizationMember io other user d))) slug = Some org' \<and> org_ok org'"
    by (auto simp: RemoveOrganizationMember_def put_org_def saved_def Let_def update_conv' split: option.split)
  let ?put = "put_member (TrimSpace user) (TrimSpace email) (normalizeOrgRole role) (og_Members org)"
  have "distinct (map om_UserID ?put)" using ids by (simp add: put_member_ids)
  then have "org_ok (org\<lparr>og_Members := ?put, og_UpdatedAt := io_now io\<rparr>)"
    if "m \<in> set (og_Members org)" "om_Role m = ''owner''" "om_UserID m \<noteq> TrimSpace user \<or> normalizeOrgRole role = ''owner''" for m
    using put_member_owners [OF ids that(1,2,3)] by (simp add: org_ok_def owners_def)
  with owner have "org_ok (org\<lparr>og_Members := ?put, og_UpdatedAt := io_now io\<rparr>) \<or> normalizeOrgRole role \<noteq> ''owner'' \<and>
      (\<forall>m \<in> set (og_Members org). om_Role m = ''owner'' \<longrightarrow> om_UserID m = TrimSpace user)" by blast
  then have "\<exists>org'. map_of (pd_Orgs (snd (AddOrganizationMember io other user email role d))) slug = Some org' \<and>
      (org_ok org' \<or> normalizeOrgSlug other = slug \<and> normalizeOrgRole role \<noteq> ''owner'' \<and>
        (\<forall>m \<in> set (og_Members org). om_Role m = ''owner'' \<longrightarrow> om_UserID m = TrimSpace user))"
    using assms by (auto simp: AddOrganizationMember_def put_org_def saved_def Let_def update_conv' split: option.split)
  with kept show ?thesis by (rule conjI)
qed

definition ex_org :: pkg_data where
  "ex_org = snd (AddOrganizationMember (ex_pkg_io 2) ''acme'' ''u2'' '''' ''admin''
     (snd (CreateOrganization (ex_pkg_io 1) \<lparr>coi_Slug = ''Acme'', coi_Name = '''', coi_Description = '''', coi_Visibility = '''',
       coi_CreatedBy = ''u1'', coi_CreatedByEmail = ''''\<rparr> ex_no_packages)))"

definition org_roles :: "pkg_data \<Rightarrow> string \<Rightarrow> (string \<times> string) list" where
  "org_roles d slug = (case map_of (pd_Orgs d) slug of None \<Rightarrow> [] | Some org \<Rightarrow> map (\<lambda>m. (om_UserID m, om_Role m)) (og_Members org))"

theorem organization_owner_witness:
  "\<exists>org'. map_of (pd_Orgs (snd (RemoveOrganizationMember (ex_pkg_io 3) ''acme'' ''u2'' ex_org))) ''acme'' = Some org' \<and> org_ok org'"
proof -
  have "map_option org_ok (map_of (pd_Orgs ex_org) ''acme'') = Some True" by code_simp
  then obtain org where "map_of (pd_Orgs ex_org) ''acme'' = Some org" "org_ok org" by auto
  from organization_owner [OF this] show ?thesis by (rule conjunct1)
qed

text \<open>The guard of the last owner is passed by changing the owner's role: no owner is left, here by the admin's hand.\<close>

lemma last_owner_demoted:
  "org_roles (snd (RemoveOrganizationMember (ex_pkg_io 3) ''acme'' ''u1'' ex_org)) ''acme'' = [(''u1'', ''owner''), (''u2'', ''admin'')]"
  "org_roles (snd (AddOrganizationMember (ex_pkg_io 3) ''acme'' ''u1'' '''' ''developer'' ex_org)) ''acme'' = [(''u1'', ''developer''), (''u2'', ''admin'')]"
  by code_simp+

section \<open>Names\<close>

text \<open>A public package of another tenant with the same name replaces the one that anonymous readers got before.\<close>

lemma public_name_taken_over:
  "map_sum id pk_TenantID (GetVisiblePackage '''' ''acme'' ''tool'' True ex_package) = Inr ''t1''"
  "map_sum id pk_TenantID (GetVisiblePackage '''' ''acme'' ''tool'' True
     (pkg_run (CreateOp (ex_pkg_io 2) ''t2'' ''acme'' ''tool'' ''public'' ''u9'') ex_package)) = Inr ''t2''"
  by code_simp+

text \<open>Slashes in names make the artifact keys of two packages equal.\<close>

lemma artifact_key_collision:
  "canonicalArtifactKey ''t'' ''a/b'' ''c'' ''1.0.0'' = canonicalArtifactKey ''t'' ''a'' ''b/c'' ''1.0.0''"
  by code_simp

end
