(* ===== verification/Registry_Access_Claims.thy ===== *)
theory Registry_Access_Claims
  imports Registry_Access Registry_Paths
begin

text \<open>
  Identities come from verified tokens, signed URLs name one artifact in the artifact directory, and rate limits bound the
  requests of any interval.
\<close>

section \<open>Artifact paths\<close>

definition rooted_parts :: "string \<Rightarrow> string list" where
  "rooted_parts key = clean_parts True [] (Split (CHR ''/'') (''/'' @ key))"

lemma rooted_parts_ordinary: "p \<in> set (rooted_parts key) \<Longrightarrow> ordinary p \<and> slashfree p"
proof -
  assume p: "p \<in> set (rooted_parts key)"
  have "clean_stack True (rev (rooted_parts key))" unfolding rooted_parts_def by (rule clean_parts_stack) (simp add: clean_stack_step(1))
  moreover have "\<forall>q \<in> set (rooted_parts key). slashfree q"
    unfolding rooted_parts_def by (rule clean_parts_slashfree) (simp_all add: slashfree_def Split_parts)
  ultimately show ?thesis using p by (auto simp: clean_stack_def)
qed

lemma Clean_rooted: "Clean (''/'' @ key) = ''/'' @ join_with ''/'' (rooted_parts key)"
  by (simp add: Clean_def rooted_parts_def Let_def HasPrefix_iff)

lemma join_ordinary:
  assumes "ps \<noteq> []" and "\<forall>p \<in> set ps. ordinary p \<and> slashfree p"
  shows "Split (CHR ''/'') (join_with ''/'' ps) = ps" and "''..'' \<notin> set ps" and "filter ordinary ps = ps" and "join_with ''/'' ps \<noteq> ''''"
    and "join_with ''/'' ps \<noteq> ''.''"
proof -
  show split: "Split (CHR ''/'') (join_with ''/'' ps) = ps" using assms by (intro Split_join) (auto simp: slashfree_def)
  show "''..'' \<notin> set ps" "filter ordinary ps = ps" using assms(2) by (auto simp: ordinary_def)
  have "join_with ''/'' ps \<noteq> q" if "Split (CHR ''/'') q = [q]" "\<not> ordinary q" for q
  proof
    assume "join_with ''/'' ps = q"
    with split that(1) have "ps = [q]" by simp
    with assms(2) that(2) show False by simp
  qed
  from this [of "''''"] this [of "''.''"] show "join_with ''/'' ps \<noteq> ''''" "join_with ''/'' ps \<noteq> ''.''"
    by (simp_all add: ordinary_def)
qed

lemma base_path: "u \<noteq> '''' \<Longrightarrow> Join [u, ''artifacts''] = anchor u @ join_with ''/'' (comps u @ [''artifacts''])"
  using Join_upload [of u "''artifacts''" "''''"] by (simp add: plain_def slashfree_def ordinary_def Join_def)

lemma artifactPath_parts:
  assumes "u \<noteq> ''''"
  shows "artifactPath u key = (if rooted_parts key = [] then None
      else Some (anchor u @ join_with ''/'' (comps u @ ''artifacts'' # rooted_parts key)))"
proof -
  let ?ps = "rooted_parts key" and ?base = "Join [u, ''artifacts'']"
  have rel: "TrimPrefix (Clean (''/'' @ key)) ''/'' = join_with ''/'' ?ps" unfolding Clean_rooted by (simp add: TrimPrefix_def HasPrefix_iff)
  have plain: "plain ''artifacts''" by (simp add: plain_def slashfree_def)
  show ?thesis
  proof (cases "?ps = []")
    case True
    then show ?thesis using rel by (simp add: artifactPath_def Let_def)
  next
    case False
    note ps = join_ordinary [OF False, OF ballI, OF rooted_parts_ordinary]
    have "Join [?base, join_with ''/'' ?ps] = anchor u @ join_with ''/'' (comps u @ ''artifacts'' # ?ps)"
      using Join_dir [OF assms plain, of "join_with ''/'' ?ps"] Join_upload [OF assms plain, of "join_with ''/'' ?ps"] ps(1-3) by simp
    moreover have "Clean ?base = ?base"
    proof -
      have c: "comps ?base = comps u @ [''artifacts''] \<and> anchor ?base = anchor u" unfolding base_path [OF assms]
        using comps_stack [of u] comps_slashfree [of u] comps_ne [of _ u] clean_stack_step(2) [of "''artifacts''"] plain plain_ordinary
        by (intro comps_join) (auto simp: ordinary_def)
      then have "comps ?base \<noteq> []" by simp
      from Clean_comps [OF this] c show ?thesis by (simp add: base_path [OF assms])
    qed
    moreover have "anchor u @ join_with ''/'' (comps u @ ''artifacts'' # ?ps) = ?base @ ''/'' @ join_with ''/'' ?ps"
    proof -
      have "join_with ''/'' (xs @ x # ?ps) = join_with ''/'' (xs @ [x]) @ ''/'' @ join_with ''/'' ?ps" for xs x
        using False by (induction xs) (simp_all add: join_with_Cons)
      then show ?thesis by (simp add: base_path [OF assms])
    qed
    ultimately show ?thesis using False ps(4,5) rel by (simp add: artifactPath_def Let_def HasPrefix_iff)
  qed
qed

text \<open>
  An artifact lies in the artifact directory. Whatever the key, its path is the artifact directory below the upload
  directory followed by the parts that remain of the key when it is cleaned as an absolute path; no part is empty
  or a dot name, there is no path for a key without parts, and the check of the prefix never fires.
\<close>

theorem artifactPath_eq:
  assumes "u \<noteq> ''''"
  shows "artifactPath u key = (if rooted_parts key = [] then None
      else Some (anchor u @ join_with ''/'' (comps u @ ''artifacts'' # rooted_parts key))) \<and>
    (\<forall>p \<in> set (rooted_parts key). p \<noteq> '''' \<and> p \<noteq> ''.'' \<and> p \<noteq> ''..'' \<and> CHR ''/'' \<notin> set p)"
  using artifactPath_parts [OF assms] rooted_parts_ordinary [of _ key] by (auto simp: ordinary_def slashfree_def)

theorem artifactPath_eq_witness:
  "artifactPath ''up'' ''../tenants/./t//x/../y'' = Some ''up/artifacts/tenants/t/y''"
proof -
  have "rooted_parts ''../tenants/./t//x/../y'' = [''tenants'', ''t'', ''y'']" "anchor ''up'' = ''''" "comps ''up'' = [''up'']" by code_simp+
  with artifactPath_eq [of "''up''" "''../tenants/./t//x/../y''"] show ?thesis by simp
qed


section \<open>Signed URLs\<close>

lemma bar_split: "c \<notin> set a \<Longrightarrow> c \<notin> set a' \<Longrightarrow> a @ c # x = a' @ c # x' \<longleftrightarrow> a = a' \<and> x = x'"
proof (induction a arbitrary: a')
  case Nil
  then show ?case by (cases a') auto
next
  case (Cons b a)
  then show ?case by (cases a') auto
qed

lemma bar_split_last:
  assumes "c \<notin> set b" and "c \<notin> set b'"
  shows "x @ c # b = x' @ c # b' \<longleftrightarrow> x = x' \<and> b = b'"
proof
  assume "x @ c # b = x' @ c # b'"
  then have "rev (x @ c # b) = rev (x' @ c # b')" by simp
  then have "rev b @ c # rev x = rev b' @ c # rev x'" by simp
  with assms show "x = x' \<and> b = b'" by (simp add: bar_split)
qed simp

lemma set_TrimSpace: "x \<in> set (TrimSpace s) \<Longrightarrow> x \<in> set s"
  unfolding TrimSpace_def by (auto dest!: set_dropWhileD)

lemma upper_char_facts: "is_space (upper_char c) = is_space c" "upper_char (upper_char c) = upper_char c"
  by (auto simp: is_space_def upper_char_def Let_def of_char_of)

lemma TrimSpace_ToUpper: "TrimSpace (ToUpper s) = ToUpper (TrimSpace s)"
  by (simp add: TrimSpace_def ToUpper_def dropWhile_map rev_map comp_def upper_char_facts)

lemma ToUpper_idem: "ToUpper (ToUpper s) = ToUpper s"
  by (simp add: ToUpper_def comp_def upper_char_facts)

lemma upper_bar: "upper_char c = CHR ''|'' \<Longrightarrow> c = CHR ''|''"
proof -
  assume c: "upper_char c = CHR ''|''"
  have "(of_char (upper_char c) :: nat) = 124" unfolding c by simp
  moreover have "(of_char (upper_char c) :: nat) \<noteq> 124" if "97 \<le> (of_char c :: nat)" "(of_char c :: nat) \<le> 122"
    using that by (simp add: upper_char_def Let_def of_char_of)
  ultimately have "upper_char c = c" by (auto simp: upper_char_def Let_def)
  with c show ?thesis by simp
qed

lemma ToUpper_bar: "CHR ''|'' \<notin> set s \<Longrightarrow> CHR ''|'' \<notin> set (ToUpper s)"
  using upper_bar by (force simp: ToUpper_def)

text \<open>
  C19. A signed URL is good for one method, one artifact and one expiry. If a request is accepted with the signature issued
  for a method, key and expiry (none of them with a bar but the key), and the hash does not collide on
  the two payloads, then it is a request with this method, for this key, before this expiry.
\<close>

theorem artifact_token_bound:
  assumes "verifyArtifactToken C secret passed reqMethod q key"
    and "TrimSpace (uq_sig q) = signArtifactToken C secret key' meth' until'"
    and "ToLower (signArtifactToken C secret key (uq_method q) (uq_exp q)) = ToLower (signArtifactToken C secret key' meth' until') \<longrightarrow>
      artifact_payload key (uq_method q) (uq_exp q) = artifact_payload key' meth' until'"
    and "CHR ''|'' \<notin> set (uq_method q @ meth' @ uq_exp q @ until')"
  shows "ToUpper (TrimSpace reqMethod) = ToUpper (TrimSpace meth') \<and> TrimSpace key = TrimSpace key' \<and> TrimSpace (uq_exp q) = TrimSpace until' \<and>
    (\<exists>sec. Atoi (TrimSpace until') = Some sec \<and> \<not> passed sec)"
proof -
  let ?m = "ToUpper (TrimSpace (uq_method q))" and ?m' = "ToUpper (TrimSpace meth')"
  have "signArtifactToken C secret key ?m (TrimSpace (uq_exp q)) = signArtifactToken C secret key (uq_method q) (uq_exp q)"
    by (simp add: signArtifactToken_def artifact_payload_def TrimSpace_ToUpper ToUpper_idem)
  then obtain sec where v: "Atoi (TrimSpace (uq_exp q)) = Some sec" "\<not> passed sec" "?m = ToUpper (TrimSpace reqMethod)"
    "ToLower (TrimSpace (uq_sig q)) = ToLower (signArtifactToken C secret key (uq_method q) (uq_exp q))"
    using assms(1) by (auto simp: verifyArtifactToken_def Let_def split: if_splits option.splits)
  with assms(2,3) have same: "artifact_payload key (uq_method q) (uq_exp q) = artifact_payload key' meth' until'" by simp
  have bars: "CHR ''|'' \<notin> set ?m" "CHR ''|'' \<notin> set ?m'" "CHR ''|'' \<notin> set (TrimSpace (uq_exp q))" "CHR ''|'' \<notin> set (TrimSpace until')"
    using assms(4) set_TrimSpace ToUpper_bar by auto
  from same have "?m = ?m' \<and> TrimSpace key @ CHR ''|'' # TrimSpace (uq_exp q) = TrimSpace key' @ CHR ''|'' # TrimSpace until'"
    by (simp add: artifact_payload_def bar_split [OF bars(1,2)])
  then have "?m = ?m'" "TrimSpace key = TrimSpace key'" "TrimSpace (uq_exp q) = TrimSpace until'"
    by (simp_all add: bar_split_last [OF bars(3,4)])
  with v show ?thesis by simp
qed

definition ex_hash :: crypto where
  "ex_hash = \<lparr>cr_sha256 = (\<lambda>b. b), cr_sign = (\<lambda>b. b)\<rparr>"

definition ex_query :: url_query where
  "ex_query = \<lparr>uq_exp = ''900'', uq_sig = signArtifactToken ex_hash ''s'' ''tenants/t/a'' ''GET'' ''900'', uq_method = ''GET''\<rparr>"

theorem artifact_token_bound_witness:
  "\<exists>sec. Atoi (TrimSpace ''900'') = Some sec \<and> \<not> (\<lambda>n. n < 800) sec"
proof -
  have "verifyArtifactToken ex_hash ''s'' (\<lambda>n. n < 800) ''get'' ex_query ''tenants/t/a''"
    "TrimSpace (uq_sig ex_query) = signArtifactToken ex_hash ''s'' ''tenants/t/a'' ''GET'' ''900''" by code_simp+
  from artifact_token_bound [OF this] show ?thesis by (simp add: ex_query_def)
qed

section \<open>Rate limits\<close>

text \<open>The requests of one key that are accepted, of a sequence of requests with their times.\<close>

fun rate_accepted :: "int \<Rightarrow> int \<Rightarrow> string \<Rightarrow> rate_table \<Rightarrow> (string \<times> int) list \<Rightarrow> nat" where
  "rate_accepted limit window key tab [] = 0"
| "rate_accepted limit window key tab ((k, t) # reqs) = (case rate_Allow k limit window t tab of
     (ok, tab') \<Rightarrow> (if ok \<and> k = key then 1 else 0) + rate_accepted limit window key tab' reqs)"

lemma rate_other: "k \<noteq> key \<Longrightarrow> snd (rate_Allow k limit window t tab) key = tab key"
  by (auto simp: rate_Allow_def split: option.split)

lemma rate_in_window:
  assumes "tab key = Some (cnt, start)" and "cnt \<le> limit" and "\<forall>(k, t) \<in> set reqs. t - start < window"
  shows "int (rate_accepted limit window key tab reqs) \<le> limit - cnt"
  using assms
proof (induction reqs arbitrary: tab cnt)
  case (Cons r reqs)
  obtain k t where r: "r = (k, t)" by fastforce
  obtain ok tab' where step: "rate_Allow k limit window t tab = (ok, tab')" by fastforce
  have acc: "rate_accepted limit window key tab (r # reqs) = (if ok \<and> k = key then 1 else 0) + rate_accepted limit window key tab' reqs"
    by (simp add: r step)
  show ?case
  proof (cases "k = key \<and> cnt < limit")
    case True
    then have "ok" "tab' key = Some (cnt + 1, start)" using step Cons.prems r by (auto simp: rate_Allow_def split: if_splits)
    with Cons.IH [of tab' "cnt + 1"] Cons.prems True show ?thesis by (simp add: acc)
  next
    case False
    have "(k = key \<longrightarrow> \<not> ok) \<and> tab' key = tab key"
    proof (cases "k = key")
      case True
      with False step Cons.prems r show ?thesis by (auto simp: rate_Allow_def)
    next
      case other: False
      with step rate_other [OF other, of limit window t tab] show ?thesis by simp
    qed
    with Cons.IH [of tab' cnt] Cons.prems show ?thesis by (auto simp: acc)
  qed
qed simp

text \<open>
  C29. Rate limits hold. In any interval of the length of the window, for any requests in any order and whatever was counted
  before, at most twice the limit of the requests of a key are accepted.
\<close>

theorem rate_limit_bound:
  assumes "1 \<le> limit" and "\<forall>(k, t) \<in> set reqs. a \<le> t \<and> t < a + window" and "\<forall>k cnt start. tab k = Some (cnt, start) \<longrightarrow> 1 \<le> cnt \<and> cnt \<le> limit"
  shows "int (rate_accepted limit window key tab reqs) \<le> 2 * limit"
proof -
  have "int (rate_accepted limit window key tab reqs) \<le> (case tab key of None \<Rightarrow> limit | Some (cnt, start) \<Rightarrow> limit - cnt + limit)"
    if "\<forall>cnt start. tab key = Some (cnt, start) \<longrightarrow> 1 \<le> cnt \<and> cnt \<le> limit" "\<forall>(k, t) \<in> set reqs. a \<le> t \<and> t < a + window" for reqs tab
    using that
  proof (induction reqs arbitrary: tab)
    case Nil
    then show ?case using assms(1) by (auto split: option.split)
  next
    case (Cons r reqs)
    obtain k t where r: "r = (k, t)" by fastforce
    obtain ok tab' where step: "rate_Allow k limit window t tab = (ok, tab')" by fastforce
    have acc: "rate_accepted limit window key tab (r # reqs) = (if ok \<and> k = key then 1 else 0) + rate_accepted limit window key tab' reqs"
      by (simp add: r step)
    have rest: "\<forall>(k, t) \<in> set reqs. a \<le> t \<and> t < a + window" using Cons.prems(2) by simp
    have new: "int (rate_accepted limit window key tab' reqs) \<le> limit - 1" if "tab' key = Some (1, t)"
      using that assms(1) Cons.prems(2) r by (intro rate_in_window [of _ _ 1 t]) auto
    show ?case
    proof (cases "k = key")
      case False
      then have "tab' key = tab key" using step rate_other [of k key limit window t tab] by simp
      with Cons.IH [of tab'] Cons.prems(1) rest False show ?thesis by (simp add: acc)
    next
      case True
      show ?thesis
      proof (cases "tab key")
        case None
        then have "tab' key = Some (1, t)" using step True by (auto simp: rate_Allow_def)
        with new None show ?thesis by (simp add: acc)
      next
        case (Some cs)
        then obtain cnt start where cs: "tab key = Some (cnt, start)" by (cases cs) auto
        with Cons.prems(1) have cnt: "1 \<le> cnt" "cnt \<le> limit" by auto
        consider "t - start \<ge> window" | "\<not> t - start \<ge> window" "cnt \<ge> limit" | "\<not> t - start \<ge> window" "cnt < limit" by linarith
        then show ?thesis
        proof cases
          case 1
          then have "tab' key = Some (1, t)" using step True cs by (auto simp: rate_Allow_def)
          with new cs cnt show ?thesis by (simp add: acc)
        next
          case 2
          then have "\<not> ok" "tab' = tab" using step True cs by (auto simp: rate_Allow_def)
          with Cons.IH [of tab] Cons.prems(1) rest cs show ?thesis by (simp add: acc)
        next
          case 3
          then have "tab' key = Some (cnt + 1, start)" using step True cs by (auto simp: rate_Allow_def)
          with Cons.IH [of tab'] rest cs cnt 3 show ?thesis by (auto simp: acc)
        qed
      qed
    qed
  qed
  from this [of tab reqs] assms show ?thesis by (force split: option.splits)
qed


theorem rate_limit_bound_witness:
  "int (rate_accepted 2 60 ''k'' [''k'' \<mapsto> (2, 0)] [(''k'', 50), (''j'', 50), (''k'', 60), (''k'', 61), (''k'', 62)]) \<le> 4"
proof -
  let ?reqs = "[(''k'', 50 :: int), (''j'', 50), (''k'', 60), (''k'', 61), (''k'', 62)]"
  have "\<forall>(k, t) \<in> set ?reqs. 50 \<le> t \<and> t < 50 + 60" by simp
  from rate_limit_bound [OF _ this, of 2 "[''k'' \<mapsto> (2, 0)]" "''k''"] show ?thesis by simp
qed

section \<open>Identities\<close>

text \<open>The signature of a token was checked with an allowed algorithm and a key of the configured source.\<close>

definition token_signed :: "'k jwt_env \<Rightarrow> oidc_config \<Rightarrow> string \<Rightarrow> string \<Rightarrow> bool" where
  "token_signed E cfg input part \<longleftrightarrow> (\<exists>alg sig. alg \<in> set (oc_AllowedAlgs cfg) \<and> je_base64 E part = Some sig \<and>
     (if HasPrefix alg ''HS'' then TrimSpace (oc_HS256Secret cfg) \<noteq> '''' \<and> je_hmac E alg (oc_HS256Secret cfg) input = sig
      else \<exists>url keys k. effectiveJWKSURL E cfg = Some url \<and> je_keys E url = Some keys \<and> k \<in> snd ` set keys \<and> je_verify E alg k input sig))"

lemma pickJWKSKey_in: "pickJWKSKey keys kid = Some k \<Longrightarrow> k \<in> snd ` set keys"
  by (auto simp: pickJWKSKey_def split: if_splits option.splits list.splits dest!: map_of_SomeD) force+

lemma check_signature_signed:
  assumes "check_signature E cfg header url input part" and "effectiveJWKSURL E cfg = Some url"
  shows "token_signed E cfg input part"
proof -
  let ?alg = "token_alg header"
  obtain sig where sig: "je_base64 E part = Some sig" "?alg \<in> set (oc_AllowedAlgs cfg)"
    using assms(1) by (auto simp: check_signature_def Let_def split: if_splits option.splits)
  have "if HasPrefix ?alg ''HS'' then TrimSpace (oc_HS256Secret cfg) \<noteq> [] \<and> je_hmac E ?alg (oc_HS256Secret cfg) input = sig
      else \<exists>url keys k. effectiveJWKSURL E cfg = Some url \<and> je_keys E url = Some keys \<and> k \<in> snd ` set keys \<and> je_verify E ?alg k input sig"
    using assms sig by (auto simp: check_signature_def Let_def verifyHMACSignature_def lookupJWKSKey_def split: if_splits option.splits dest!: pickJWKSKey_in)
  with sig show ?thesis unfolding token_signed_def by blast
qed

lemma parseVerifiedJWTClaims_Some:
  "parseVerifiedJWTClaims E cfg token = Some claims \<Longrightarrow>
    \<exists>p0 p1 p2 url. Split (CHR ''.'') (TrimSpace token) = [p0, p1, p2] \<and> decode_json E p1 = Some claims \<and> verifyStandardClaims E cfg claims \<and>
      effectiveJWKSURL E cfg = Some url \<and> (TrimSpace url = '''' \<or> token_signed E cfg (p0 @ ''.'' @ p1) p2)"
  by (auto simp: parseVerifiedJWTClaims_def split: list.splits option.splits if_splits intro: check_signature_signed)

lemma effectiveJWKSURL_empty: "effectiveJWKSURL E cfg = Some url \<Longrightarrow> TrimSpace url = '''' \<Longrightarrow> TrimSpace (oc_JWKSURL cfg) = '''' \<and> TrimSpace (oc_Issuer cfg) = ''''"
  by (auto simp: effectiveJWKSURL_def split: if_splits option.splits)

text \<open>
  C13. Whom a token speaks for. An identity from a bearer token is never anonymous and has a subject and a tenant; it is that
  of a built-in token, in the tenant of the project, or the token consists of three parts whose claims are in
  force and for the configured issuer and audience, and its signature was checked with an allowed algorithm
  and a key of the configured source, unless neither a key address nor an issuer is configured.
\<close>

theorem bearer_identity_verified:
  assumes "resolveBearerIdentity E cfg token = Some i"
  shows "\<not> id_IsAnonymous i \<and> id_SubjectID i \<noteq> '''' \<and> id_TenantID i \<noteq> '''' \<and>
    (id_TenantID i = ''tenant_runfabric'' \<and> (ToLower (TrimSpace token) = ''local-dev-token'' \<or> HasPrefix (ToLower (TrimSpace token)) ''official-'') \<or>
     (\<exists>p0 p1 p2 claims. Split (CHR ''.'') (TrimSpace token) = [p0, p1, p2] \<and> decode_json E p1 = Some claims \<and> verifyStandardClaims E cfg claims \<and>
        id_TenantID i = TrimSpace (claimStringByPaths claims (oc_TenantClaim cfg) [''tenant_id'']) \<and>
        (TrimSpace (oc_JWKSURL cfg) = '''' \<and> TrimSpace (oc_Issuer cfg) = '''' \<or> token_signed E cfg (p0 @ ''.'' @ p1) p2)))"
proof -
  have auth: "\<not> id_IsAnonymous i \<and> id_SubjectID i \<noteq> '''' \<and> id_TenantID i \<noteq> '''' \<and> id_TenantID i = TrimSpace tenant"
    if "authenticatedIdentity sub tenant roles kd = Some i" for sub tenant roles kd
    using that by (auto simp: authenticatedIdentity_def split: if_splits)
  have own: "TrimSpace ''tenant_runfabric'' = ''tenant_runfabric''" "ToLower ''local-dev-token'' = ''local-dev-token''" by code_simp+
  consider "EqualFold (TrimSpace token) ''local-dev-token'' \<or> HasPrefix (ToLower (TrimSpace token)) ''official-''"
    | (jwt) claims where "parseVerifiedJWTClaims E cfg (TrimSpace token) = Some claims"
      "authenticatedIdentity (claimStringByPaths claims (oc_SubjectClaim cfg) [''sub'', ''user_id'', ''subject''])
        (claimStringByPaths claims (oc_TenantClaim cfg) [''tenant_id'']) (claimRoles cfg claims) ''jwt'' = Some i"
    using assms by (auto simp: resolveBearerIdentity_def Let_def split: if_splits option.splits)
  then show ?thesis
  proof cases
    case 1
    then obtain sub roles where "authenticatedIdentity sub ''tenant_runfabric'' roles ''jwt'' = Some i"
      using assms by (auto simp: resolveBearerIdentity_def Let_def split: if_splits)
    from auth [OF this] 1 own show ?thesis by (auto simp: EqualFold_def)
  next
    case jwt
    from parseVerifiedJWTClaims_Some [OF jwt(1)] effectiveJWKSURL_empty auth [OF jwt(2)] show ?thesis by auto blast+
  qed
qed

definition ex_token_env :: "unit jwt_env" where
  "ex_token_env = \<lparr>je_base64 = Some,
     je_json = (\<lambda>s. Some (if s = ''h'' then [(''alg'', AStr ''HS256'')] else [(''sub'', AStr ''alice''), (''tenant_id'', AStr ''acme''), (''exp'', AInt 100)])),
     je_now = 10, je_discover = (\<lambda>i. None), je_keys = (\<lambda>u. None), je_verify = (\<lambda>a k i s. False),
     je_hmac = (\<lambda>a s i. s @ filter (\<lambda>c. c \<noteq> CHR ''.'') i)\<rparr>"

definition ex_oidc :: "string \<Rightarrow> oidc_config" where
  "ex_oidc url = \<lparr>oc_Issuer = '''', oc_Audience = '''', oc_AudienceMode = ''exact'', oc_JWKSURL = url, oc_HS256Secret = ''key'',
     oc_SubjectClaim = ''sub'', oc_TenantClaim = ''tenant_id'', oc_RolesClaim = ''roles'', oc_RoleModes = [''roles''], oc_RoleClientID = '''',
     oc_AllowedAlgs = [''HS256'']\<rparr>"

lemma ex_identity:
  "resolveBearerIdentity ex_token_env (ex_oidc ''https://keys'') ''h.c.keyhc'' =
    Some \<lparr>id_SubjectID = ''alice'', id_TenantID = ''acme'', id_Roles = [''reader''], id_AuthType = ''jwt'', id_IsAnonymous = False\<rparr>"
  "resolveBearerIdentity ex_token_env (ex_oidc ''https://keys'') ''h.c.forged'' = None"
  by code_simp+

theorem bearer_identity_verified_witness:
  "\<exists>claims. verifyStandardClaims ex_token_env (ex_oidc ''https://keys'') claims \<and>
     ''acme'' = TrimSpace (claimStringByPaths claims ''tenant_id'' [''tenant_id'']) \<and> token_signed ex_token_env (ex_oidc ''https://keys'') ''h.c'' ''keyhc''"
proof -
  have own: "''acme'' \<noteq> ''tenant_runfabric''" "TrimSpace (oc_JWKSURL (ex_oidc ''https://keys'')) \<noteq> ''''"
    "Split (CHR ''.'') (TrimSpace ''h.c.keyhc'') = [''h'', ''c'', ''keyhc'']" "oc_TenantClaim (ex_oidc ''https://keys'') = ''tenant_id''" by code_simp+
  from bearer_identity_verified [OF ex_identity(1)] own show ?thesis by auto
qed

text \<open>Without a key address and an issuer a token is not checked at all, although a shared secret is configured.\<close>

lemma unsigned_token_accepted:
  "resolveBearerIdentity ex_token_env (ex_oidc '''') ''h.c.forged'' =
    Some \<lparr>id_SubjectID = ''alice'', id_TenantID = ''acme'', id_Roles = [''reader''], id_AuthType = ''jwt'', id_IsAnonymous = False\<rparr>"
  by code_simp

text \<open>A line of a policy file that denies an action on an object does not take back that the action is allowed on every object.\<close>

lemma deny_does_not_override:
  "authorize (newPolicyEngine ''policy.csv'' (Some [''p, reader, *, package:delete, allow'', ''p, reader, package, package:delete, deny'']))
     (\<lparr>id_SubjectID = ''alice'', id_TenantID = ''acme'', id_Roles = [''reader''], id_AuthType = ''jwt'', id_IsAnonymous = False\<rparr>) ''package'' ''package:delete''"
  by code_simp

end
