(* ===== verification/Registry_Server_Claims.thy ===== *)
theory Registry_Server_Claims
  imports Registry_Endpoints Registry_Package_Claims Registry_Access_Claims
begin

text \<open>
  What a request can do to the registry server: every handler either reads, or runs one operation on packages for an identity
  that the policy allows, or changes an organization (\<open>handled\<close>). From this follow that changes are authorized and stay in
  their tenant, and that the response cache never answers anything else than the handler would.
\<close>

section \<open>What an answer from the cache should be\<close>

definition path_names :: "http_request \<Rightarrow> (string \<times> string \<times> string list) option" where
  "path_names r = (case splitPath (TrimPrefix (hq_Path r) ''/packages/'') of
     p0 # p1 # others \<Rightarrow> Some (PathUnescape p0, PathUnescape p1, others) | _ \<Rightarrow> None)"

text \<open>The successful answer of a read on the data, without a cache.\<close>

definition package_view :: "'k server_config \<Rightarrow> string \<Rightarrow> http_request \<Rightarrow> identity \<Rightarrow> pkg_data \<Rightarrow> payload option" where
  "package_view cfg scope r i d =
     (let closed = (id_IsAnonymous i \<and> \<not> sc_anonymousRead cfg) in
      if scope = ''packages_list'' then
        (if closed then None else Some (PackageItems (ListVisiblePackages (package_filter r i) d) (id_IsAnonymous i)))
      else case path_names r of None \<Rightarrow> None
      | Some (namespace, name, others) \<Rightarrow> (case GetVisiblePackage (id_TenantID i) namespace name True d of Inl e \<Rightarrow> None
        | Inr p \<Rightarrow>
            if scope = ''package_get'' \<or> scope = ''package_versions'' then
              (if closed then None else Some (PackageInfo p (ListPackageVersions (pk_ID p) d)))
            else (case others of what # v0 # rest \<Rightarrow> (case GetPackageVersion (pk_ID p) (PathUnescape v0) d of Inl e \<Rightarrow> None
                | Inr v \<Rightarrow> if closed \<and> pk_Visibility p = ''public'' then None else Some (PackageVersion p v))
              | _ \<Rightarrow> None)))"

definition package_scopes :: "string set" where
  "package_scopes = {''packages_list'', ''package_get'', ''package_versions'', ''package_version_get''}"

section \<open>The effects of a request\<close>

text \<open>What the reads and the identities see of the data.\<close>

definition same_packages :: "pkg_data \<Rightarrow> pkg_data \<Rightarrow> bool" where
  "same_packages d d' \<longleftrightarrow> pd_Packages d' = pd_Packages d \<and> versions_of d' = versions_of d \<and> pd_APIKeys d' = pd_APIKeys d"

definition cache_step :: "'k server_config \<Rightarrow> reg_io \<Rightarrow> http_request \<Rightarrow> server \<Rightarrow> server \<Rightarrow> bool" where
  "cache_step cfg io r s s' \<longleftrightarrow> (\<forall>key. sv_cache s' key = sv_cache s key \<or> sv_cache s' key = None \<or>
     (\<exists>p u scope. key = cacheKey (sc_crypto cfg) (sv_epoch s) r scope \<and> CHR ''|'' \<notin> set scope \<and> sv_cache s' key = Some (p, u) \<and>
        (scope \<in> package_scopes \<longrightarrow> (\<exists>i. identity_of cfg io r s = Some i \<and> package_view cfg scope r i (sv_pkgs s) = Some p))))"

primrec op_tenant :: "pkg_op \<Rightarrow> string" where
  "op_tenant (CreateOp io t n m v a) = t"
| "op_tenant (PublishOp io i) = pvi_TenantID i"
| "op_tenant (VisibilityOp io t n m v) = t"
| "op_tenant (DeleteOp io t n m) = t"

primrec op_io :: "pkg_op \<Rightarrow> reg_io" where
  "op_io (CreateOp io t n m v a) = io"
| "op_io (PublishOp io i) = io"
| "op_io (VisibilityOp io t n m v) = io"
| "op_io (DeleteOp io t n m) = io"

definition method_action :: "http_method \<Rightarrow> string" where
  "method_action m = (case m of POST \<Rightarrow> ''package:publish'' | PATCH \<Rightarrow> ''package:manage_visibility'' | _ \<Rightarrow> ''package:delete'')"

text \<open>A change of the organizations: a new one with its creator as owner, or one of whose owners or admins the subject is.\<close>

definition orgs_changed_by :: "identity \<Rightarrow> pkg_data \<Rightarrow> pkg_data \<Rightarrow> bool" where
  "orgs_changed_by i d d' \<longleftrightarrow> pd_Packages d' = pd_Packages d \<and> pd_Versions d' = pd_Versions d \<and> pd_APIKeys d' = pd_APIKeys d \<and>
     (\<forall>slug. map_of (pd_Orgs d') slug \<noteq> map_of (pd_Orgs d) slug \<longrightarrow>
       (case map_of (pd_Orgs d) slug of
         None \<Rightarrow> \<not> id_IsAnonymous i \<and> (\<exists>org. map_of (pd_Orgs d') slug = Some org \<and> map om_UserID (og_Members org) = [TrimSpace (id_SubjectID i)])
       | Some org \<Rightarrow> memberRole org (id_SubjectID i) \<in> {''owner'', ''admin''} \<and> map_of (pd_Orgs d') slug \<noteq> None))"

inductive handled :: "'k server_config \<Rightarrow> reg_io \<Rightarrow> http_request \<Rightarrow> server \<Rightarrow> server \<Rightarrow> bool" for cfg io r s where
  handled_read: "sv_pkgs s' = sv_pkgs s \<Longrightarrow> sv_epoch s' = sv_epoch s \<Longrightarrow> cache_step cfg io r s s' \<Longrightarrow> handled cfg io r s s'"
| handled_packages: "identity_of cfg io r s = Some i \<Longrightarrow> \<not> id_IsAnonymous i \<Longrightarrow> authorize (sc_policy cfg) i ''package'' (method_action (hq_Method r)) \<Longrightarrow>
    hq_Method r \<in> {POST, PATCH, DELETE} \<Longrightarrow> op_tenant op = id_TenantID i \<Longrightarrow> op_io op = io \<Longrightarrow> sv_pkgs s' = pkg_run op (sv_pkgs s) \<Longrightarrow> sv_cache s' = sv_cache s \<Longrightarrow>
    sv_epoch s' = Suc (sv_epoch s) \<or> sv_epoch s' = sv_epoch s \<and> (io_save io \<longrightarrow> same_packages (sv_pkgs s) (sv_pkgs s')) \<Longrightarrow> handled cfg io r s s'"
| handled_orgs: "identity_of cfg io r s = Some i \<Longrightarrow> orgs_changed_by i (sv_pkgs s) (sv_pkgs s') \<Longrightarrow> sv_cache s' = sv_cache s \<Longrightarrow> sv_epoch s' = sv_epoch s \<Longrightarrow>
    handled cfg io r s s'"
| handled_epoch: "sv_pkgs s' = sv_pkgs s \<Longrightarrow> sv_epoch s' = Suc (sv_epoch s) \<Longrightarrow> sv_cache s' = sv_cache s \<Longrightarrow> handled cfg io r s s'"

text \<open>Only the data, the cache and the epoch count.\<close>

lemma handled_cong:
  assumes "handled cfg io r s s1" and "sv_pkgs s2 = sv_pkgs s1" "sv_epoch s2 = sv_epoch s1" "sv_cache s2 = sv_cache s1"
  shows "handled cfg io r s s2"
  using assms(1)
proof cases
  case handled_read
  then show ?thesis using assms(2-4) by (intro handled.handled_read) (simp_all add: cache_step_def)
next
  case (handled_packages i op)
  then show ?thesis using assms(2-4) by (intro handled.handled_packages [of _ _ _ _ i op]) simp_all
next
  case (handled_orgs i)
  then show ?thesis using assms(2-4) by (intro handled.handled_orgs [of _ _ _ _ i]) simp_all
next
  case handled_epoch
  then show ?thesis using assms(2-4) by (intro handled.handled_epoch) simp_all
qed

lemma log_event_simps [simp]: "sv_pkgs (log_event cfg io r a st ds s) = sv_pkgs s" "sv_epoch (log_event cfg io r a st ds s) = sv_epoch s"
  "sv_cache (log_event cfg io r a st ds s) = sv_cache s" "sv_rates (log_event cfg io r a st ds s) = sv_rates s"
  by (simp_all add: log_event_def)

lemma handled_log [intro]: "handled cfg io r s s1 \<Longrightarrow> handled cfg io r s (log_event cfg io r' a st ds s1)"
  by (rule handled_cong) simp_all

lemma handled_refl [intro, simp]: "handled cfg io r s s"
  by (rule handled.handled_read) (simp_all add: cache_step_def)

lemma handled_with_reg [intro]: "handled cfg io r s s1 \<Longrightarrow> handled cfg io r s (with_reg g s1)"
  by (rule handled_cong) (simp_all add: with_reg_def)

lemma handled_reg [intro]: "handled cfg io r s (s\<lparr>sv_reg := g\<rparr>)"
  by (rule handled_cong [OF handled_refl]) simp_all

lemma handled_errors [intro, simp]: "handled cfg io r s (snd (handleNotFound cfg io r s))" "handled cfg io r s (snd (methodNotAllowed cfg io r s))"
  by (auto simp: handleNotFound_def methodNotAllowed_def)

section \<open>Reads\<close>

text \<open>The frame of every cached read: the cache first, then the handler on the server with an expired entry removed.\<close>

definition cached :: "'k server_config \<Rightarrow> reg_io \<Rightarrow> http_request \<Rightarrow> string \<Rightarrow> (server \<Rightarrow> reply \<times> server) \<Rightarrow> server \<Rightarrow> reply \<times> server" where
  "cached cfg io r scope f s = (case readCachedJSON cfg io r scope s of (Some p, s1) \<Rightarrow> ((200, p), s1) | (None, s1) \<Rightarrow> f s1)"

lemma readCached_cases:
  obtains (hit) p u where "readCachedJSON cfg io r scope s = (Some p, s)" "sv_cache s (cacheKey (sc_crypto cfg) (sv_epoch s) r scope) = Some (p, u)"
  | (miss) c where "readCachedJSON cfg io r scope s = (None, s\<lparr>sv_cache := c\<rparr>)" "\<And>key. c key = sv_cache s key \<or> c key = None"
proof (cases "sv_cache s (cacheKey (sc_crypto cfg) (sv_epoch s) r scope)")
  case None
  then show ?thesis by (intro miss [of "sv_cache s"]) (simp_all add: readCachedJSON_def)
next
  case (Some pu)
  obtain p u where pu: "pu = (p, u)" by (cases pu)
  show ?thesis
  proof (cases "u < io_nano io")
    case True
    with Some pu show ?thesis
      by (intro miss [of "(sv_cache s)(cacheKey (sc_crypto cfg) (sv_epoch s) r scope := None)"]) (simp_all add: readCachedJSON_def Let_def)
  next
    case False
    with Some pu show ?thesis by (intro hit [of p u]) (simp_all add: readCachedJSON_def Let_def)
  qed
qed

lemma identity_of_pkgs: "sv_pkgs s1 = sv_pkgs s \<Longrightarrow> identity_of cfg io r s1 = identity_of cfg io r s"
  by (simp add: identity_of_def)

text \<open>A read that stores what it answers, unless it fails.\<close>

definition answers :: "'k server_config \<Rightarrow> reg_io \<Rightarrow> http_request \<Rightarrow> string \<Rightarrow> (payload \<Rightarrow> bool) \<Rightarrow> server \<Rightarrow> reply \<times> server \<Rightarrow> bool" where
  "answers cfg io r scope ok s out \<longleftrightarrow> sv_pkgs (snd out) = sv_pkgs s \<and> sv_epoch (snd out) = sv_epoch s \<and>
     (sv_cache (snd out) = sv_cache s \<or>
      (\<exists>p u. ok p \<and> sv_cache (snd out) = (sv_cache s)(cacheKey (sc_crypto cfg) (sv_epoch s) r scope \<mapsto> (p, u))))"

lemma handled_cached:
  assumes "CHR ''|'' \<notin> set scope"
    and "\<And>c. answers cfg io r scope ok (s\<lparr>sv_cache := c\<rparr>) (f (s\<lparr>sv_cache := c\<rparr>))"
    and "\<And>p. scope \<in> package_scopes \<Longrightarrow> ok p \<Longrightarrow> \<exists>i. identity_of cfg io r s = Some i \<and> package_view cfg scope r i (sv_pkgs s) = Some p"
  shows "handled cfg io r s (snd (cached cfg io r scope f s))"
proof (cases rule: readCached_cases [of cfg io r scope s])
  case (hit p u)
  then show ?thesis by (simp add: cached_def)
next
  case (miss c)
  let ?out = "f (s\<lparr>sv_cache := c\<rparr>)" and ?key = "cacheKey (sc_crypto cfg) (sv_epoch s) r scope"
  note out = assms(2) [of c]
  have "cache_step cfg io r s (snd ?out)"
  proof (cases "sv_cache (snd ?out) = c")
    case True
    with miss(2) show ?thesis by (simp add: cache_step_def) metis
  next
    case False
    then obtain p u where pu: "ok p" "sv_cache (snd ?out) = c(?key \<mapsto> (p, u))" using out by (auto simp: answers_def)
    show ?thesis unfolding cache_step_def
    proof
      fix key
      show "sv_cache (snd ?out) key = sv_cache s key \<or> sv_cache (snd ?out) key = None \<or>
        (\<exists>p u scope. key = cacheKey (sc_crypto cfg) (sv_epoch s) r scope \<and> CHR ''|'' \<notin> set scope \<and> sv_cache (snd ?out) key = Some (p, u) \<and>
          (scope \<in> package_scopes \<longrightarrow> (\<exists>i. identity_of cfg io r s = Some i \<and> package_view cfg scope r i (sv_pkgs s) = Some p)))"
      proof (cases "key = ?key")
        case True
        with pu assms(1,3) show ?thesis by auto
      next
        case False
        with pu(2) miss(2) [of key] have "sv_cache (snd ?out) key = sv_cache s key \<or> sv_cache (snd ?out) key = None" by simp
        then show ?thesis by blast
      qed
    qed
  qed
  with out miss(1) show ?thesis by (intro handled_read) (simp_all add: cached_def answers_def)
qed

lemma answers_same [simp]: "sv_pkgs (snd out) = sv_pkgs s \<Longrightarrow> sv_epoch (snd out) = sv_epoch s \<Longrightarrow> sv_cache (snd out) = sv_cache s \<Longrightarrow>
    answers cfg io r scope ok s out"
  by (simp add: answers_def)

lemma answers_write: "ok p \<Longrightarrow> answers cfg io r scope ok s (case writeAndCacheJSON cfg io r p scope ttl s of (rep, s2) \<Rightarrow> (rep, log_event cfg io r a st ds s2))"
  "ok p \<Longrightarrow> answers cfg io r scope ok s (writeAndCacheJSON cfg io r p scope ttl s)"
  by (auto simp: answers_def writeAndCacheJSON_def)

lemma handled_list_packages:
  assumes "identity_of cfg io r s = Some i"
  shows "handled cfg io r s (snd (list_packages cfg io r i s))"
  unfolding list_packages_def cached_def [symmetric]
  by (rule handled_cached [where ok = "\<lambda>p. package_view cfg ''packages_list'' r i (sv_pkgs s) = Some p"])
    (auto simp: assms package_view_def Let_def intro!: answers_write)

lemma handled_get_package:
  assumes "identity_of cfg io r s = Some i" and "path_names r = Some (namespace, name, others)"
  shows "handled cfg io r s (snd (get_package cfg io r i namespace name s))"
  unfolding get_package_def cached_def [symmetric]
  by (rule handled_cached [where ok = "\<lambda>p. package_view cfg ''package_get'' r i (sv_pkgs s) = Some p"])
    (auto simp: assms package_view_def Let_def split: sum.split intro!: answers_write)

lemma handled_list_versions:
  assumes "identity_of cfg io r s = Some i" and "path_names r = Some (namespace, name, others)"
  shows "handled cfg io r s (snd (list_versions cfg io r i namespace name s))"
  unfolding list_versions_def cached_def [symmetric]
  by (rule handled_cached [where ok = "\<lambda>p. package_view cfg ''package_versions'' r i (sv_pkgs s) = Some p"])
    (auto simp: assms package_view_def Let_def split: sum.split intro!: answers_write)

lemma handled_get_version:
  assumes "identity_of cfg io r s = Some i" and "path_names r = Some (namespace, name, what # v0 # rest)"
    and "GetVisiblePackage (id_TenantID i) namespace name True (sv_pkgs s) = Inr p" and "GetPackageVersion (pk_ID p) (PathUnescape v0) (sv_pkgs s) = Inr v"
  shows "handled cfg io r s (snd (get_version cfg io r i p v s))"
proof (cases "hq_Method r = GET")
  case True
  then have eq: "get_version cfg io r i p v s = cached cfg io r ''package_version_get'' (\<lambda>s1.
      if id_IsAnonymous i \<and> \<not> sc_anonymousRead cfg \<and> pk_Visibility p = ''public'' then (unauthorized, s1)
      else case writeAndCacheJSON cfg io r (PackageVersion p v) ''package_version_get'' 20 s1 of
        (rep, s2) \<Rightarrow> (rep, log_event cfg io r ''package_version_get'' ''ok'' [(''packageId'', AStr (pk_ID p)), (''version'', AStr (pkv_Version v))] s2)) s"
    by (simp add: get_version_def cached_def)
  show ?thesis unfolding eq
    by (rule handled_cached [where ok = "\<lambda>q. package_view cfg ''package_version_get'' r i (sv_pkgs s) = Some q"])
      (auto simp: assms package_view_def Let_def intro!: answers_write)
qed (simp add: get_version_def)

lemma handled_view: "CHR ''|'' \<notin> set scope \<Longrightarrow> scope \<notin> package_scopes \<Longrightarrow> handled cfg io r s (snd (cached_view cfg io r scope ttl view s))"
  unfolding cached_view_def cached_def [symmetric]
  by (cases "hq_Method r = GET") (auto split: sum.split intro!: answers_write handled_cached [where ok = "\<lambda>p. True"])

lemma handled_item_page: "answers cfg io r scope (\<lambda>p. True) s (item_page cfg io r scope action about out s)"
  unfolding item_page_def by (auto split: option.split intro!: answers_write)

section \<open>Changes of packages\<close>

lemma same_packages_refl [simp]: "same_packages d d"
  by (simp add: same_packages_def)

text \<open>When the database is written, an operation that fails has changed nothing a read sees.\<close>

lemma create_error: "CreatePackage io t n m v a d = (Inl e, d') \<Longrightarrow> io_save io \<Longrightarrow> same_packages d d'"
  by (auto simp: CreatePackage_def Let_def saved_def split: if_splits)

lemma visibility_error: "UpdatePackageVisibility io t n m v d = (Inl e, d') \<Longrightarrow> io_save io \<Longrightarrow> same_packages d d'"
  by (auto simp: UpdatePackageVisibility_def Let_def saved_def split: if_splits option.splits)

lemma delete_error: "DeletePackage io t n m d = (Inl e, d') \<Longrightarrow> io_save io \<Longrightarrow> same_packages d d'"
  by (auto simp: DeletePackage_def Let_def saved_def split: if_splits option.splits)

lemma versions_of_triv: "versions_of (d\<lparr>pd_Versions := AList.update k (versions_of d k) (pd_Versions d)\<rparr>) = versions_of d"
  by (auto simp: versions_of_def fun_eq_iff update_conv')

lemma publish_error: "PublishPackageVersion io i d = (Inl e, d') \<Longrightarrow> io_save io \<Longrightarrow> same_packages d d'"
  by (auto simp: PublishPackageVersion_def Let_def saved_def same_packages_def versions_of_triv split: if_splits option.splits)

lemma may_change_None: "may_change cfg i action = None \<longleftrightarrow> \<not> id_IsAnonymous i \<and> authorize (sc_policy cfg) i ''package'' action"
  by (simp add: may_change_def)

text \<open>One operation, its error and its success with the cache invalidated.\<close>

lemma handled_op:
  assumes "identity_of cfg io r s = Some i" and "may_change cfg i (method_action (hq_Method r)) = None" and "hq_Method r \<in> {POST, PATCH, DELETE}"
    and "op_tenant op = id_TenantID i" and "op_io op = io" and "d = pkg_run op (sv_pkgs s)"
  shows "handled cfg io r s (log_event cfg io r a st ds (invalidateCacheScope (with_pkgs d s)))"
    and "(io_save io \<Longrightarrow> same_packages (sv_pkgs s) d) \<Longrightarrow> handled cfg io r s (with_pkgs d s)"
proof -
  have "handled cfg io r s (invalidateCacheScope (with_pkgs d s))"
    by (rule handled_packages [of cfg io r s i op]) (use assms in \<open>simp_all add: may_change_None invalidateCacheScope_def with_pkgs_def\<close>)
  then show "handled cfg io r s (log_event cfg io r a st ds (invalidateCacheScope (with_pkgs d s)))" by (rule handled_log)
  show "handled cfg io r s (with_pkgs d s)" if "io_save io \<Longrightarrow> same_packages (sv_pkgs s) d"
    by (rule handled_packages [of cfg io r s i op]) (use assms that in \<open>simp_all add: may_change_None with_pkgs_def\<close>)
qed

lemma handled_create_package:
  assumes "identity_of cfg io r s = Some i" and "hq_Method r = POST"
  shows "handled cfg io r s (snd (create_package cfg io r i s))"
proof (cases "may_change cfg i ''package:publish''")
  case None
  then have ok: "may_change cfg i (method_action (hq_Method r)) = None" by (simp add: assms method_action_def)
  show ?thesis
  proof (cases "decode_body (sc_package cfg) r")
    case (Some b)
    obtain res d where run: "CreatePackage io (id_TenantID i) (pb_Namespace b) (pb_Name b) (pb_Visibility b) (id_SubjectID i) (sv_pkgs s) = (res, d)" by fastforce
    let ?op = "CreateOp io (id_TenantID i) (pb_Namespace b) (pb_Name b) (pb_Visibility b) (id_SubjectID i)"
    have d: "d = pkg_run ?op (sv_pkgs s)" by (simp add: run)
    show ?thesis
    proof (cases res)
      case (Inl e)
      with handled_op(2) [OF assms(1) ok _ _ _ d] create_error run show ?thesis by (auto simp: create_package_def None Some assms)
    next
      case (Inr p)
      with handled_op(1) [OF assms(1) ok _ _ _ d] run show ?thesis by (auto simp: create_package_def None Some assms)
    qed
  qed (simp add: create_package_def None)
qed (simp add: create_package_def)

lemma handled_patch_package:
  assumes "identity_of cfg io r s = Some i" and "hq_Method r = PATCH"
  shows "handled cfg io r s (snd (patch_package cfg io r i namespace name s))"
proof (cases "may_change cfg i ''package:manage_visibility''")
  case None
  then have ok: "may_change cfg i (method_action (hq_Method r)) = None" by (simp add: assms method_action_def)
  show ?thesis
  proof (cases "decode_body (sc_package cfg) r")
    case (Some b)
    obtain res d where run: "UpdatePackageVisibility io (id_TenantID i) namespace name (pb_Visibility b) (sv_pkgs s) = (res, d)" by fastforce
    have d: "d = pkg_run (VisibilityOp io (id_TenantID i) namespace name (pb_Visibility b)) (sv_pkgs s)" by (simp add: run)
    show ?thesis
    proof (cases res)
      case (Inl e)
      with handled_op(2) [OF assms(1) ok _ _ _ d] visibility_error run show ?thesis by (auto simp: patch_package_def None Some assms)
    next
      case (Inr p)
      with handled_op(1) [OF assms(1) ok _ _ _ d] run show ?thesis by (auto simp: patch_package_def None Some assms)
    qed
  qed (simp add: patch_package_def None)
qed (simp add: patch_package_def)

lemma handled_delete_package:
  assumes "identity_of cfg io r s = Some i" and "hq_Method r = DELETE"
  shows "handled cfg io r s (snd (delete_package cfg io r i namespace name s))"
proof (cases "may_change cfg i ''package:delete''")
  case None
  then have ok: "may_change cfg i (method_action (hq_Method r)) = None" by (simp add: assms method_action_def)
  obtain res d where run: "DeletePackage io (id_TenantID i) namespace name (sv_pkgs s) = (res, d)" by fastforce
  have d: "d = pkg_run (DeleteOp io (id_TenantID i) namespace name) (sv_pkgs s)" by (simp add: run)
  show ?thesis
  proof (cases res)
    case (Inl e)
    with handled_op(2) [OF assms(1) ok _ _ _ d] delete_error run show ?thesis by (auto simp: delete_package_def None assms)
  next
    case (Inr p)
    with handled_op(1) [OF assms(1) ok _ _ _ d] run show ?thesis by (auto simp: delete_package_def None assms)
  qed
qed (simp add: delete_package_def)

lemma handled_publish_version:
  assumes "identity_of cfg io r s = Some i" and "hq_Method r = POST"
  shows "handled cfg io r s (snd (publish_version cfg io r i namespace name s))"
proof (cases "may_change cfg i ''package:publish''")
  case None
  then have ok: "may_change cfg i (method_action (hq_Method r)) = None" by (simp add: assms method_action_def)
  have "handled cfg io r s (snd (case PublishPackageVersion io j (sv_pkgs s) of
      (Inl e, d) \<Rightarrow> (validation_failed e, with_pkgs d s)
    | (Inr v, d) \<Rightarrow> ((201, OneVersion v), log_event cfg io r ''package_publish_version'' ''ok'' (ds v) (invalidateCacheScope (with_pkgs d s)))))"
    if j: "pvi_TenantID j = id_TenantID i" for j ds
  proof -
    obtain res d where run: "PublishPackageVersion io j (sv_pkgs s) = (res, d)" by fastforce
    have d: "d = pkg_run (PublishOp io j) (sv_pkgs s)" by (simp add: run)
    show ?thesis
    proof (cases res)
      case (Inl e)
      with handled_op(2) [OF assms(1) ok _ _ _ d] publish_error run j show ?thesis by (auto simp: assms)
    next
      case (Inr p)
      with handled_op(1) [OF assms(1) ok _ _ _ d] run j show ?thesis by (auto simp: assms)
    qed
  qed
  then show ?thesis unfolding publish_version_def None by (auto simp: Let_def split: sum.split option.split)
qed (simp add: publish_version_def)

section \<open>Organizations and artifacts\<close>

lemma handled_org_change:
  assumes "identity_of cfg io r s = Some i" and "orgs_changed_by i (sv_pkgs s) d"
  shows "handled cfg io r s (with_pkgs d s)"
  by (rule handled_orgs [OF assms(1)]) (simp_all add: with_pkgs_def assms(2))

lemma orgs_refl [simp]: "orgs_changed_by i d d"
  by (simp add: orgs_changed_by_def)

lemma create_org_changes: "\<not> id_IsAnonymous i \<Longrightarrow> coi_CreatedBy c = id_SubjectID i \<Longrightarrow> orgs_changed_by i d (snd (CreateOrganization io c d))"
  by (auto simp: CreateOrganization_def Let_def saved_def orgs_changed_by_def update_conv')

lemma put_org_changes:
  "map_of (pd_Orgs d) slug = Some org \<Longrightarrow> memberRole org (id_SubjectID i) \<in> {''owner'', ''admin''} \<Longrightarrow> orgs_changed_by i d (snd (put_org io slug org ms d))"
  by (auto simp: put_org_def Let_def saved_def orgs_changed_by_def update_conv')

lemma member_changes:
  assumes "map_of (pd_Orgs d) (normalizeOrgSlug slug) = Some org" and "memberRole org (id_SubjectID i) \<in> {''owner'', ''admin''}"
  shows "orgs_changed_by i d (snd (AddOrganizationMember io slug user email role d))" "orgs_changed_by i d (snd (RemoveOrganizationMember io slug user d))"
  using put_org_changes [OF assms] by (auto simp: AddOrganizationMember_def RemoveOrganizationMember_def Let_def assms(1))

text \<open>The frame of these handlers: the store changes, whether it returns an error or not.\<close>

lemma handled_org_run:
  assumes "identity_of cfg io r s = Some i" and "orgs_changed_by i (sv_pkgs s) (snd out)"
  shows "handled cfg io r s (snd (case out of (Inl e, d) \<Rightarrow> (org_error e, with_pkgs d s)
    | (Inr org, d) \<Rightarrow> ((st, OneOrg org), log_event cfg io r a res (ds org) (with_pkgs d s))))"
  using handled_org_change [OF assms(1), of "snd out"] assms(2) by (cases out; cases "fst out") auto

lemma handled_create_org: "identity_of cfg io r s = Some i \<Longrightarrow> handled cfg io r s (snd (create_org cfg io r i s))"
  unfolding create_org_def by (auto split: option.split intro!: handled_org_run create_org_changes)

lemma handled_org_members:
  assumes "identity_of cfg io r s = Some i"
  shows "handled cfg io r s (snd (handleOrgMembers cfg io r i slug rest s))"
proof (cases "GetOrganization slug (sv_pkgs s)")
  case (Inr org)
  then have org: "map_of (pd_Orgs (sv_pkgs s)) (normalizeOrgSlug slug) = Some org" by (simp add: GetOrganization_def split: option.splits)
  have "handled cfg io r s (snd (add_member cfg io r slug s))" "handled cfg io r s (snd (remove_member cfg io r slug user s))"
    if "memberRole org (id_SubjectID i) \<in> {''owner'', ''admin''}" for user
    unfolding add_member_def remove_member_def using member_changes [OF org that] by (auto split: option.split intro!: handled_org_run [OF assms])
  with Inr show ?thesis unfolding handleOrgMembers_def by (auto split: list.split)
qed (simp add: handleOrgMembers_def)

lemma handled_artifacts: "handled cfg io r s (snd (handleArtifacts cfg io r s))"
  unfolding handleArtifacts_def store_artifact_def os_WriteFile_def
  by (auto simp: Let_def split: http_method.split option.split write_result.split)

section \<open>Every request\<close>

lemma handled_publish_refused: "publish_refused cfg io r action s = Inr out \<Longrightarrow> handled cfg io r s (snd out)"
  by (auto simp: publish_refused_def split: if_splits option.splits intro!: handled_log)

lemma handled_publish_init: "handled cfg io r s (snd (handlePublishInit cfg io r s))"
  unfolding handlePublishInit_def Let_def by (auto split: sum.split option.split prod.split dest!: handled_publish_refused)

lemma handled_publish_finalize: "handled cfg io r s (snd (handlePublishFinalize cfg io r s))"
proof -
  have "handled cfg io r s (invalidateCacheScope (with_reg g s))" for g
    by (rule handled_epoch) (simp_all add: invalidateCacheScope_def with_reg_def)
  then show ?thesis
    unfolding handlePublishFinalize_def Let_def by (auto split: sum.split option.split prod.split dest!: handled_publish_refused)
qed

lemma scopes_plain:
  "CHR ''|'' \<notin> set ''extensions_resolve''" "CHR ''|'' \<notin> set ''extensions_search''" "CHR ''|'' \<notin> set ''extensions_list''"
  "''extensions_resolve'' \<notin> package_scopes" "''extensions_search'' \<notin> package_scopes" "''extensions_list'' \<notin> package_scopes"
  by (simp_all add: package_scopes_def)

lemma handled_extensions:
  "handled cfg io r s (snd (handleResolve cfg io r s))" "handled cfg io r s (snd (handleSearch cfg io r s))"
  "handled cfg io r s (snd (handleList cfg io r s))" "handled cfg io r s (snd (handleExtensionRoutes cfg io r s))"
proof -
  show "handled cfg io r s (snd (handleExtensionRoutes cfg io r s))"
    unfolding handleExtensionRoutes_def handleExtensionDetail_def handleExtensionVersions_def handleExtensionVersionDetail_def handleExtensionAdvisories_def Let_def
    by (auto intro!: handled_view simp: package_scopes_def)
  show "handled cfg io r s (snd (handleResolve cfg io r s))"
    unfolding handleResolve_def cached_def [symmetric]
    by (cases "hq_Method r = GET") (auto simp: Let_def scopes_plain split: sum.split intro!: answers_write handled_cached [where ok = "\<lambda>p. True"])
  show "handled cfg io r s (snd (handleSearch cfg io r s))" "handled cfg io r s (snd (handleList cfg io r s))"
    unfolding handleSearch_def handleList_def cached_def [symmetric]
    by (cases "hq_Method r = GET"; auto simp: Let_def scopes_plain intro!: handled_item_page handled_cached [where ok = "\<lambda>p. True"])+
qed

lemma handled_version_routes:
  assumes "identity_of cfg io r s = Some i" and "path_names r = Some (namespace, name, ''versions'' # rest)"
  shows "handled cfg io r s (snd (handlePackageVersionsRoutes cfg io r i namespace name rest s))"
proof (cases rest)
  case Nil
  then show ?thesis
    using handled_list_versions [OF assms] handled_publish_version [OF assms(1)] by (auto simp: handlePackageVersionsRoutes_def split: http_method.split)
next
  case (Cons v0 tail)
  note get = handled_get_version [OF assms(1) assms(2) [unfolded Cons]]
  have "handled cfg io r s (snd (upload_url cfg io r i p v s))" "handled cfg io r s (snd (download_url cfg io r i p v s))" for p v
    by (auto simp: upload_url_def download_url_def split: option.split)
  then show ?thesis
    using get by (auto simp: Cons handlePackageVersionsRoutes_def Let_def split: list.split sum.split)
qed

lemma handled_packages_root: "handled cfg io r s (snd (handlePackagesRoot cfg io r s))"
  using handled_list_packages handled_create_package by (auto simp: handlePackagesRoot_def split: option.split http_method.split)

lemma handled_package_routes: "handled cfg io r s (snd (handlePackagesRoutes cfg io r s))"
proof (cases "identity_of cfg io r s")
  case (Some i)
  show ?thesis
  proof (cases "splitPath (TrimPrefix (hq_Path r) ''/packages/'')" rule: remdups_adj.cases)
    case (3 p0 p1 others)
    then have path: "path_names r = Some (PathUnescape p0, PathUnescape p1, others)" by (simp add: path_names_def)
    have "handled cfg io r s (snd (handlePackageRootByName cfg io r i (PathUnescape p0) (PathUnescape p1) s))"
      using handled_get_package [OF Some path] handled_patch_package [OF Some] handled_delete_package [OF Some]
      by (auto simp: handlePackageRootByName_def split: http_method.split)
    moreover have "handled cfg io r s (snd (handlePackageVersionsRoutes cfg io r i (PathUnescape p0) (PathUnescape p1) rest s))" if "others = ''versions'' # rest" for rest
      using handled_version_routes [OF Some] path that by simp
    ultimately show ?thesis using Some 3 by (auto simp: handlePackagesRoutes_def Let_def split: list.split)
  qed (simp_all add: handlePackagesRoutes_def Some)
qed (simp add: handlePackagesRoutes_def)

lemma handled_org_routes: "handled cfg io r s (snd (handleOrgsRoot cfg io r s))" "handled cfg io r s (snd (handleOrgRoutes cfg io r s))"
  using handled_create_org handled_org_members
  by (auto simp: handleOrgsRoot_def handleOrgRoutes_def split: option.split http_method.split list.split sum.split)

lemma handled_route: "handled cfg io r s (snd (route cfg io r s))"
proof -
  have "handled cfg io r s (snd (handlePublishStatus cfg io r s))" "handled cfg io r s (snd (handle_upload cfg io r s))"
    "handled cfg io r s (snd (handleAudit cfg io r s))" "handled cfg io r s (snd (handleDeterministicBin cfg io r s))"
    by (auto simp: handlePublishStatus_def handle_upload_def handleAudit_def handleDeterministicBin_def Let_def split: sum.split option.split prod.split)
  then show ?thesis
    by (simp add: route_def Let_def handled_extensions handled_publish_init handled_publish_finalize handled_org_routes handled_packages_root
        handled_package_routes handled_artifacts)
qed

text \<open>The rate limit stands before everything; its table is of no account for what follows.\<close>

lemma serve_handled: "handled cfg io r s (snd (serve cfg io r s))"
proof -
  obtain ok rates where allow: "rate_Allow (rate_key r) (fst (classifyRateLimit r)) 60000000000 (io_nano io) (sv_rates s) = (ok, rates)" by fastforce
  have unlimited: "handled cfg io r s s'" if "handled cfg io r (s\<lparr>sv_rates := rates\<rparr>) s'" for s'
    using that
  proof cases
    case handled_read
    then show ?thesis by (intro handled.handled_read) (simp_all add: cache_step_def identity_of_def)
  next
    case (handled_packages i op)
    then show ?thesis by (intro handled.handled_packages [of cfg io r s i op]) (simp_all add: identity_of_def)
  next
    case (handled_orgs i)
    then show ?thesis by (intro handled.handled_orgs [of cfg io r s i]) (simp_all add: identity_of_def)
  next
    case handled_epoch
    then show ?thesis by (intro handled.handled_epoch) simp_all
  qed
  show ?thesis
  proof (cases ok)
    case True
    with allow unlimited [OF handled_route] show ?thesis by (simp add: serve_def)
  next
    case False
    with allow unlimited [OF handled_log [OF handled_refl]] show ?thesis by (simp add: serve_def)
  qed
qed

section \<open>Changes are authorized\<close>

inductive server_reach :: "'k server_config \<Rightarrow> server \<Rightarrow> bool" for cfg where
  reach_start: "pd_Packages (sv_pkgs s) = [] \<Longrightarrow> pd_Versions (sv_pkgs s) = [] \<Longrightarrow> server_reach cfg s"
| reach_serve: "server_reach cfg s \<Longrightarrow> package_id io \<notin> fst ` set (pd_Packages (sv_pkgs s)) \<Longrightarrow> server_reach cfg (snd (serve cfg io r s))"

lemma op_fresh_io: "package_id (op_io op) \<notin> fst ` set (pd_Packages d) \<Longrightarrow> op_fresh op d"
  by (cases op) simp_all

lemma op_key_tenant: "fst (op_key op) = TrimSpace (op_tenant op)"
  by (cases op) (simp_all add: norm_key_def)

lemma pkg_inv_cong: "pd_Packages d' = pd_Packages d \<Longrightarrow> pd_Versions d' = pd_Versions d \<Longrightarrow> pkg_inv d' = pkg_inv d"
  by (simp add: pkg_inv_def versions_of_def)

lemma server_reach_inv: "server_reach cfg s \<Longrightarrow> pkg_inv (sv_pkgs s)"
proof (induction rule: server_reach.induct)
  case (reach_start s)
  then show ?case by (simp add: pkg_inv_def)
next
  case (reach_serve s io r)
  from serve_handled [of cfg io r s] show ?case
  proof cases
    case (handled_packages i op)
    have "op_fresh op (sv_pkgs s)" by (rule op_fresh_io) (simp add: handled_packages(6) reach_serve.hyps(2))
    from op_refines [OF reach_serve.IH this] handled_packages(7) show ?thesis by (simp add: op_refined_def)
  next
    case (handled_orgs i)
    then have "pkg_inv (sv_pkgs (snd (serve cfg io r s))) = pkg_inv (sv_pkgs s)" by (intro pkg_inv_cong) (simp_all add: orgs_changed_by_def)
    with reach_serve.IH show ?thesis by simp
  qed (use reach_serve in simp_all)
qed

text \<open>
  C8. Packages are changed by their own tenant only, and with permission. When a request changes the entry of a package or
  its versions, on a server that requests led to, it carries an identity that is not anonymous, of the tenant of
  this package, and the policy allows it the action of the method: publishing, managing visibility or deleting.
\<close>

theorem package_changes_authorized:
  assumes "server_reach cfg s" and "package_id io \<notin> fst ` set (pd_Packages (sv_pkgs s))"
    and "pkg_abs (sv_pkgs (snd (serve cfg io r s))) (tenant, namespace, name) \<noteq> pkg_abs (sv_pkgs s) (tenant, namespace, name)"
  shows "\<exists>i. identity_of cfg io r s = Some i \<and> \<not> id_IsAnonymous i \<and> TrimSpace (id_TenantID i) = tenant \<and>
    hq_Method r \<in> {POST, PATCH, DELETE} \<and> authorize (sc_policy cfg) i ''package'' (method_action (hq_Method r))"
  using serve_handled [of cfg io r s]
proof cases
  case (handled_packages i op)
  have "pkg_abs (pkg_run op (sv_pkgs s)) key = pkg_abs (sv_pkgs s) key" if "key \<noteq> op_key op" for key
  proof -
    have "op_fresh op (sv_pkgs s)" by (rule op_fresh_io) (simp add: handled_packages(6) assms(2))
    from op_refines [OF server_reach_inv [OF assms(1)] this] that show ?thesis by (simp add: op_refined_def)
  qed
  then have "op_key op = (tenant, namespace, name)" using assms(3) handled_packages(7) by metis
  then have "TrimSpace (id_TenantID i) = tenant" using op_key_tenant [of op] handled_packages by simp
  with handled_packages show ?thesis by blast
next
  case (handled_orgs i)
  then have "pkg_abs (sv_pkgs (snd (serve cfg io r s))) = pkg_abs (sv_pkgs s)"
    by (simp add: orgs_changed_by_def pkg_abs_def [abs_def] pkg_by_key_def versions_of_def)
  with assms(3) show ?thesis by simp
qed (use assms(3) in simp_all)

lemma pkg_run_orgs: "pd_Orgs (pkg_run op d) = pd_Orgs d"
  by (cases op) (auto simp: CreatePackage_def PublishPackageVersion_def UpdatePackageVisibility_def DeletePackage_def Let_def saved_def split: option.split)

text \<open>
  C34. Organizations are changed by their owners and admins only. When a request changes what is stored for a slug, it carries an
  identity that is an owner or admin of the organization with this slug, which stays, or there was none and the
  identity is not anonymous and the one member of the new organization.
\<close>

theorem organization_changes_authorized:
  assumes "map_of (pd_Orgs (sv_pkgs (snd (serve cfg io r s)))) slug \<noteq> map_of (pd_Orgs (sv_pkgs s)) slug"
  shows "\<exists>i. identity_of cfg io r s = Some i \<and> (case map_of (pd_Orgs (sv_pkgs s)) slug of
      None \<Rightarrow> \<not> id_IsAnonymous i \<and> (\<exists>org. map_of (pd_Orgs (sv_pkgs (snd (serve cfg io r s)))) slug = Some org \<and>
        map om_UserID (og_Members org) = [TrimSpace (id_SubjectID i)])
    | Some org \<Rightarrow> memberRole org (id_SubjectID i) \<in> {''owner'', ''admin''} \<and> map_of (pd_Orgs (sv_pkgs (snd (serve cfg io r s)))) slug \<noteq> None)"
  using serve_handled [of cfg io r s]
proof cases
  case (handled_orgs i)
  with assms show ?thesis by (auto simp: orgs_changed_by_def)
next
  case (handled_packages i op)
  with assms show ?thesis by (simp add: pkg_run_orgs)
qed (use assms in simp_all)

section \<open>The cache answers what the handlers would\<close>

text \<open>
  Requests whose parts do not run into each other in the key: no bars, a query that is not the dash that stands for none, and
  authorizations of a given set.
\<close>

definition plain_request :: "string set \<Rightarrow> http_request \<Rightarrow> bool" where
  "plain_request A r \<longleftrightarrow> CHR ''|'' \<notin> set (hq_Host r) \<and> CHR ''|'' \<notin> set (hq_Path r) \<and> CHR ''|'' \<notin> set (hq_RawQuery r) \<and>
     TrimSpace (hq_RawQuery r) = hq_RawQuery r \<and> hq_RawQuery r \<noteq> ''-'' \<and> (TrimSpace (hq_Authorization r) = '''' \<or> TrimSpace (hq_Authorization r) \<in> A)"

text \<open>The shortened hashes of these authorizations differ.\<close>

definition distinct_hashes :: "crypto \<Rightarrow> string set \<Rightarrow> bool" where
  "distinct_hashes C A \<longleftrightarrow> inj_on (\<lambda>a. take 16 (cr_sha256 C a)) A \<and> ''-'' \<notin> (\<lambda>a. take 16 (cr_sha256 C a)) ` A"

lemma set_TrimSpace_bar: "CHR ''|'' \<notin> set s \<Longrightarrow> CHR ''|'' \<notin> set (TrimSpace s)"
  using set_TrimSpace by blast

lemma itoa_bar: "CHR ''|'' \<notin> set (itoa (int n))"
  using utoa_digits [of "CHR ''|''" n] by (auto simp: itoa_def is_digit_def)

lemma key_parts:
  assumes "\<forall>y \<in> {x, h, sc, p, q, x', h', sc', p', q'}. CHR ''|'' \<notin> set y"
  shows "''v:'' @ x @ ''|h:'' @ h @ ''|s:'' @ sc @ ''|p:'' @ p @ ''|q:'' @ q @ ''|a:'' @ a =
      ''v:'' @ x' @ ''|h:'' @ h' @ ''|s:'' @ sc' @ ''|p:'' @ p' @ ''|q:'' @ q' @ ''|a:'' @ a' \<longleftrightarrow>
    x = x' \<and> h = h' \<and> sc = sc' \<and> p = p' \<and> q = q' \<and> a = a'"
  using assms by (simp add: bar_split)

lemma cacheKey_inject:
  assumes "cacheKey C e r scope = cacheKey C e' r' scope'" and "plain_request A r" "plain_request A r'" and "CHR ''|'' \<notin> set scope" "CHR ''|'' \<notin> set scope'"
    and "distinct_hashes C A"
  shows "e = e' \<and> scope = scope' \<and> hq_Path r = hq_Path r' \<and> hq_RawQuery r = hq_RawQuery r' \<and> TrimSpace (hq_Authorization r) = TrimSpace (hq_Authorization r')"
proof -
  let ?q = "\<lambda>r. if hq_RawQuery r = '''' then ''-'' else hq_RawQuery r" and ?a = "\<lambda>r. if TrimSpace (hq_Authorization r) = '''' then ''-''
    else take 16 (cr_sha256 C (TrimSpace (hq_Authorization r)))"
  have key: "cacheKey C e r scope = ''v:'' @ itoa (int e) @ ''|h:'' @ TrimSpace (hq_Host r) @ ''|s:'' @ scope @ ''|p:'' @ hq_Path r @ ''|q:'' @ ?q r @ ''|a:'' @ ?a r"
    if "plain_request A r" for e r scope
    using that by (simp add: cacheKey_def Let_def plain_request_def)
  have bars: "CHR ''|'' \<notin> set (hq_Path r)" "CHR ''|'' \<notin> set (TrimSpace (hq_Host r))" "CHR ''|'' \<notin> set (?q r)" if "plain_request A r" for r
    using that set_TrimSpace_bar by (auto simp: plain_request_def)
  have parts: "itoa (int e) = itoa (int e') \<and> TrimSpace (hq_Host r) = TrimSpace (hq_Host r') \<and> scope = scope' \<and> hq_Path r = hq_Path r' \<and> ?q r = ?q r' \<and> ?a r = ?a r'"
    using assms(1) unfolding key [OF assms(2)] key [OF assms(3)]
    by (rule key_parts [THEN iffD1, rotated]) (use bars [OF assms(2)] bars [OF assms(3)] assms(4,5) itoa_bar in simp)
  then have "e = e'" by (simp add: itoa_def)
  moreover have "hq_RawQuery r = hq_RawQuery r'" if "?q r = ?q r'" using that assms(2,3) by (auto simp: plain_request_def split: if_splits)
  moreover have "TrimSpace (hq_Authorization r) = TrimSpace (hq_Authorization r')" if "?a r = ?a r'"
    using that assms(2,3,6) by (auto simp: plain_request_def distinct_hashes_def inj_on_def image_iff split: if_splits)
  ultimately show ?thesis using parts by blast
qed

text \<open>Who a header speaks for does not depend on the time it is accepted at.\<close>

lemma resolveIdentity_stable:
  assumes "resolveIdentity C (E\<lparr>je_now := t\<rparr>) oc x d h = Some i" and "resolveIdentity C (E\<lparr>je_now := t'\<rparr>) oc x' d' h' = Some i'"
    and "pd_APIKeys d = pd_APIKeys d'" and "TrimSpace h = TrimSpace h'"
  shows "i = i'"
proof -
  have jwt: "c = c'" if "parseVerifiedJWTClaims (E\<lparr>je_now := t\<rparr>) oc tok = Some c" "parseVerifiedJWTClaims (E\<lparr>je_now := t'\<rparr>) oc tok = Some c'" for tok c c'
    using that by (auto simp: parseVerifiedJWTClaims_def decode_json_def split: list.splits option.splits if_splits)
  have bearer: "i = i'" if "resolveBearerIdentity (E\<lparr>je_now := t\<rparr>) oc tok = Some i" "resolveBearerIdentity (E\<lparr>je_now := t'\<rparr>) oc tok = Some i'" for tok
    using that by (auto simp: resolveBearerIdentity_def Let_def split: if_splits option.splits) (metis jwt option.inject)
  have key: "k = k'" if "FindAPIKey C x tok d = Inr k" "FindAPIKey C x' tok d' = Inr k'" for tok k k'
    using that assms(3) by (auto simp: FindAPIKey_def split: option.splits if_splits)
  show ?thesis
  proof (cases "FindAPIKey C x (TrimSpace (drop 7 (TrimSpace h'))) d")
    case (Inl e)
    with assms bearer show ?thesis by (auto simp: resolveIdentity_def Let_def split: if_splits)
  next
    case (Inr k)
    show ?thesis
    proof (cases "FindAPIKey C x' (TrimSpace (drop 7 (TrimSpace h'))) d'")
      case (Inl e)
      with assms bearer show ?thesis by (auto simp: resolveIdentity_def Let_def split: if_splits)
    next
      case (Inr k')
      with key \<open>FindAPIKey C x (TrimSpace (drop 7 (TrimSpace h'))) d = Inr k\<close> have "k' = k" by blast
      with Inr \<open>FindAPIKey C x (TrimSpace (drop 7 (TrimSpace h'))) d = Inr k\<close> assms bearer show ?thesis
        by (auto simp: resolveIdentity_def Let_def split: if_splits)
    qed
  qed
qed

lemma package_view_request:
  "hq_Path r = hq_Path r' \<Longrightarrow> hq_RawQuery r = hq_RawQuery r' \<Longrightarrow> package_view cfg scope r i d = package_view cfg scope r' i d"
proof -
  assume eq: "hq_Path r = hq_Path r'" "hq_RawQuery r = hq_RawQuery r'"
  then have names: "path_names r = path_names r'" and filter: "package_filter r i = package_filter r' i"
    by (simp_all add: path_names_def package_filter_def QueryGet_def)
  show ?thesis unfolding package_view_def names filter ..
qed

lemma same_packages_view: "same_packages d d' \<Longrightarrow> package_view cfg scope r i d' = package_view cfg scope r i d"
proof -
  assume "same_packages d d'"
  then have eq: "pd_Packages d' = pd_Packages d" "versions_of d' = versions_of d" by (simp_all add: same_packages_def)
  show ?thesis unfolding package_view_def ListVisiblePackages_def GetVisiblePackage_def ListPackageVersions_def GetPackageVersion_def eq ..
qed

lemma same_packages_identity: "same_packages d d' \<Longrightarrow> resolveIdentity C E oc x d' h = resolveIdentity C E oc x d h"
proof -
  assume "same_packages d d'"
  then have eq: "FindAPIKey C x tok d' = FindAPIKey C x tok d" for tok by (simp add: same_packages_def FindAPIKey_def)
  show ?thesis unfolding resolveIdentity_def eq ..
qed

text \<open>An entry of the present epoch for a package is the answer to a request for its key.\<close>

definition good_entry :: "'k server_config \<Rightarrow> string set \<Rightarrow> nat \<Rightarrow> pkg_data \<Rightarrow> string \<Rightarrow> payload \<Rightarrow> bool" where
  "good_entry cfg A epoch d key p \<longleftrightarrow> (\<exists>e r scope. e \<le> epoch \<and> plain_request A r \<and> CHR ''|'' \<notin> set scope \<and> key = cacheKey (sc_crypto cfg) e r scope \<and>
     (e = epoch \<and> scope \<in> package_scopes \<longrightarrow> (\<exists>t x i. resolveIdentity (sc_crypto cfg) ((sc_jwt cfg)\<lparr>je_now := t\<rparr>) (sc_oidc cfg) x d (hq_Authorization r) = Some i \<and>
        package_view cfg scope r i d = Some p)))"

definition cache_ok :: "'k server_config \<Rightarrow> string set \<Rightarrow> server \<Rightarrow> bool" where
  "cache_ok cfg A s \<longleftrightarrow> (\<forall>key p u. sv_cache s key = Some (p, u) \<longrightarrow> good_entry cfg A (sv_epoch s) (sv_pkgs s) key p)"

lemma good_entry_older: "good_entry cfg A e d key p \<Longrightarrow> good_entry cfg A (Suc e) d' key p"
proof -
  assume "good_entry cfg A e d key p"
  then obtain e0 r scope where "e0 \<le> e" "plain_request A r" "CHR ''|'' \<notin> set scope" "key = cacheKey (sc_crypto cfg) e0 r scope"
    unfolding good_entry_def by blast
  then show ?thesis unfolding good_entry_def by (intro exI [of _ e0] exI [of _ r] exI [of _ scope]) simp
qed

lemma good_entry_same: "same_packages d d' \<Longrightarrow> good_entry cfg A e d key p \<Longrightarrow> good_entry cfg A e d' key p"
  unfolding good_entry_def by (simp add: same_packages_view same_packages_identity)

lemma cache_ok_handled:
  assumes "cache_ok cfg A s" and "handled cfg io r s s'" and "plain_request A r" and "io_save io"
  shows "cache_ok cfg A s'"
  unfolding cache_ok_def
proof (intro allI impI)
  fix key p u
  assume new: "sv_cache s' key = Some (p, u)"
  show "good_entry cfg A (sv_epoch s') (sv_pkgs s') key p"
    using assms(2)
  proof cases
    case handled_read
    show ?thesis
    proof (cases "sv_cache s key = Some (p, u)")
      case True
      with assms(1) handled_read show ?thesis by (auto simp: cache_ok_def)
    next
      case False
      then obtain scope where "key = cacheKey (sc_crypto cfg) (sv_epoch s) r scope" "CHR ''|'' \<notin> set scope"
        "scope \<in> package_scopes \<longrightarrow> (\<exists>i. identity_of cfg io r s = Some i \<and> package_view cfg scope r i (sv_pkgs s) = Some p)"
        using handled_read(3) new unfolding cache_step_def by (metis option.distinct(1) option.inject prod.inject)
      with handled_read assms(3) show ?thesis unfolding good_entry_def identity_of_def by (metis order_refl)
    qed
  next
    case (handled_packages i op)
    then have "good_entry cfg A (sv_epoch s) (sv_pkgs s) key p" using assms(1) new by (auto simp: cache_ok_def)
    with handled_packages(9) assms(4) show ?thesis using good_entry_older good_entry_same by metis
  next
    case (handled_orgs i)
    then have "good_entry cfg A (sv_epoch s) (sv_pkgs s) key p" using assms(1) new by (auto simp: cache_ok_def)
    moreover have "same_packages (sv_pkgs s) (sv_pkgs s')"
      using handled_orgs(2) by (simp add: orgs_changed_by_def same_packages_def versions_of_def [abs_def])
    ultimately show ?thesis using good_entry_same handled_orgs(4) by metis
  next
    case handled_epoch
    then have "good_entry cfg A (sv_epoch s) (sv_pkgs s) key p" using assms(1) new by (auto simp: cache_ok_def)
    with handled_epoch(2) show ?thesis using good_entry_older by metis
  qed
qed

lemma cache_hit:
  assumes "cache_ok cfg A s" and "plain_request A r" and "distinct_hashes (sc_crypto cfg) A" and "scope \<in> package_scopes"
    and "sv_cache s (cacheKey (sc_crypto cfg) (sv_epoch s) r scope) = Some (p, u)" and "identity_of cfg io r s = Some i"
  shows "package_view cfg scope r i (sv_pkgs s) = Some p"
proof -
  have plain: "CHR ''|'' \<notin> set scope" using assms(4) by (auto simp: package_scopes_def)
  have "good_entry cfg A (sv_epoch s) (sv_pkgs s) (cacheKey (sc_crypto cfg) (sv_epoch s) r scope) p" using assms(1,5) by (simp add: cache_ok_def)
  then obtain e r0 scope0 where e: "plain_request A r0" "CHR ''|'' \<notin> set scope0"
    "cacheKey (sc_crypto cfg) (sv_epoch s) r scope = cacheKey (sc_crypto cfg) e r0 scope0"
    "e = sv_epoch s \<and> scope0 \<in> package_scopes \<longrightarrow> (\<exists>t x i. resolveIdentity (sc_crypto cfg) ((sc_jwt cfg)\<lparr>je_now := t\<rparr>) (sc_oidc cfg) x (sv_pkgs s) (hq_Authorization r0) = Some i \<and>
        package_view cfg scope0 r0 i (sv_pkgs s) = Some p)"
    unfolding good_entry_def by blast
  note same = cacheKey_inject [OF e(3) assms(2) e(1) plain e(2) assms(3)]
  with e(4) assms(4) obtain t x j where j: "resolveIdentity (sc_crypto cfg) ((sc_jwt cfg)\<lparr>je_now := t\<rparr>) (sc_oidc cfg) x (sv_pkgs s) (hq_Authorization r0) = Some j"
    "package_view cfg scope r0 j (sv_pkgs s) = Some p" by auto
  have "j = i" using resolveIdentity_stable [OF j(1)] assms(6) same unfolding identity_of_def by metis
  with j(2) same package_view_request show ?thesis by metis
qed

section \<open>Equivalence with a server without a cache\<close>

definition no_cache :: "server \<Rightarrow> server" where
  "no_cache s = s\<lparr>sv_cache := (\<lambda>key. None)\<rparr>"

lemma no_cache_simps [simp]: "sv_pkgs (no_cache s) = sv_pkgs s" "sv_epoch (no_cache s) = sv_epoch s" "sv_rates (no_cache s) = sv_rates s"
  "identity_of cfg io r (no_cache s) = identity_of cfg io r s" "sv_reg (no_cache s) = sv_reg s"
  by (simp_all add: no_cache_def identity_of_def)

lemma cached_reply:
  assumes "cache_ok cfg A s" and "plain_request A r" and "distinct_hashes (sc_crypto cfg) A" and "scope \<in> package_scopes" and "identity_of cfg io r s = Some i"
    and "\<And>c p. package_view cfg scope r i (sv_pkgs s) = Some p \<Longrightarrow> fst (f (s\<lparr>sv_cache := c\<rparr>)) = (200, p)"
    and "\<And>c c'. fst (f (s\<lparr>sv_cache := c\<rparr>)) = fst (f (s\<lparr>sv_cache := c'\<rparr>))"
  shows "fst (cached cfg io r scope f s) = fst (cached cfg io r scope f (no_cache s))"
proof -
  have plain: "cached cfg io r scope f (no_cache s) = f (s\<lparr>sv_cache := (\<lambda>key. None)\<rparr>)"
    by (simp add: cached_def readCachedJSON_def no_cache_def)
  show ?thesis
  proof (cases rule: readCached_cases [of cfg io r scope s])
    case (hit p u)
    with cache_hit [OF assms(1-4) hit(2) assms(5)] show ?thesis by (simp add: plain assms(6)) (simp add: cached_def)
  next
    case (miss c)
    then show ?thesis unfolding plain by (simp add: cached_def assms(7))
  qed
qed

lemma reply_write [simp]: "fst (case writeAndCacheJSON cfg io r p scope ttl s of (rep, s2) \<Rightarrow> (rep, g s2)) = (200, p)"
  "fst (writeAndCacheJSON cfg io r p scope ttl s) = (200, p)"
  by (simp_all add: writeAndCacheJSON_def)

lemma plain_replies [simp]:
  "fst (methodNotAllowed cfg io r (no_cache s)) = fst (methodNotAllowed cfg io r s)" "fst (handleNotFound cfg io r (no_cache s)) = fst (handleNotFound cfg io r s)"
  by (simp_all add: methodNotAllowed_def handleNotFound_def)

lemma change_replies:
  "fst (create_package cfg io r i (no_cache s)) = fst (create_package cfg io r i s)"
  "fst (patch_package cfg io r i namespace name (no_cache s)) = fst (patch_package cfg io r i namespace name s)"
  "fst (delete_package cfg io r i namespace name (no_cache s)) = fst (delete_package cfg io r i namespace name s)"
  "fst (publish_version cfg io r i namespace name (no_cache s)) = fst (publish_version cfg io r i namespace name s)"
  "fst (upload_url cfg io r i p v (no_cache s)) = fst (upload_url cfg io r i p v s)"
  "fst (download_url cfg io r i p v (no_cache s)) = fst (download_url cfg io r i p v s)"
  by (auto simp: create_package_def patch_package_def delete_package_def publish_version_def upload_url_def download_url_def Let_def
      split: option.split sum.split prod.split)

lemma read_replies:
  assumes "cache_ok cfg A s" and "plain_request A r" and "distinct_hashes (sc_crypto cfg) A" and "identity_of cfg io r s = Some i"
  shows "fst (list_packages cfg io r i s) = fst (list_packages cfg io r i (no_cache s))"
    and "path_names r = Some (namespace, name, others) \<Longrightarrow> fst (get_package cfg io r i namespace name s) = fst (get_package cfg io r i namespace name (no_cache s))"
    and "path_names r = Some (namespace, name, others) \<Longrightarrow> fst (list_versions cfg io r i namespace name s) = fst (list_versions cfg io r i namespace name (no_cache s))"
proof -
  note reply = cached_reply [OF assms(1-3) _ assms(4)]
  show "fst (list_packages cfg io r i s) = fst (list_packages cfg io r i (no_cache s))"
    unfolding list_packages_def cached_def [symmetric]
    by (rule reply) (auto simp: package_scopes_def package_view_def Let_def split: if_splits)
  show "fst (get_package cfg io r i namespace name s) = fst (get_package cfg io r i namespace name (no_cache s))" if "path_names r = Some (namespace, name, others)"
    unfolding get_package_def cached_def [symmetric]
    by (rule reply) (auto simp: package_scopes_def package_view_def that Let_def split: if_splits sum.splits)
  show "fst (list_versions cfg io r i namespace name s) = fst (list_versions cfg io r i namespace name (no_cache s))" if "path_names r = Some (namespace, name, others)"
    unfolding list_versions_def cached_def [symmetric]
    by (rule reply) (auto simp: package_scopes_def package_view_def that Let_def split: if_splits sum.splits)
qed

lemma get_version_reply:
  assumes "cache_ok cfg A s" and "plain_request A r" and "distinct_hashes (sc_crypto cfg) A" and "identity_of cfg io r s = Some i"
    and "path_names r = Some (namespace, name, what # v0 # rest)"
    and "GetVisiblePackage (id_TenantID i) namespace name True (sv_pkgs s) = Inr p" and "GetPackageVersion (pk_ID p) (PathUnescape v0) (sv_pkgs s) = Inr v"
  shows "fst (get_version cfg io r i p v s) = fst (get_version cfg io r i p v (no_cache s))"
proof (cases "hq_Method r = GET")
  case True
  then have eq: "get_version cfg io r i p v = cached cfg io r ''package_version_get'' (\<lambda>s1.
      if id_IsAnonymous i \<and> \<not> sc_anonymousRead cfg \<and> pk_Visibility p = ''public'' then (unauthorized, s1)
      else case writeAndCacheJSON cfg io r (PackageVersion p v) ''package_version_get'' 20 s1 of
        (rep, s2) \<Rightarrow> (rep, log_event cfg io r ''package_version_get'' ''ok'' [(''packageId'', AStr (pk_ID p)), (''version'', AStr (pkv_Version v))] s2))"
    by (simp add: get_version_def cached_def fun_eq_iff)
  show ?thesis unfolding eq
    by (rule cached_reply [OF assms(1-3) _ assms(4)]) (auto simp: package_scopes_def package_view_def assms Let_def split: if_splits)
qed (simp add: get_version_def)

lemma package_replies:
  assumes "cache_ok cfg A s" and "plain_request A r" and "distinct_hashes (sc_crypto cfg) A"
  shows "fst (handlePackagesRoot cfg io r s) = fst (handlePackagesRoot cfg io r (no_cache s))"
    and "fst (handlePackagesRoutes cfg io r s) = fst (handlePackagesRoutes cfg io r (no_cache s))"
proof -
  note reads = read_replies [OF assms]
  show "fst (handlePackagesRoot cfg io r s) = fst (handlePackagesRoot cfg io r (no_cache s))"
    using reads(1) by (auto simp: handlePackagesRoot_def change_replies split: option.split http_method.split)
  show "fst (handlePackagesRoutes cfg io r s) = fst (handlePackagesRoutes cfg io r (no_cache s))"
  proof (cases "identity_of cfg io r s")
    case (Some i)
    show ?thesis
    proof (cases "splitPath (TrimPrefix (hq_Path r) ''/packages/'')" rule: remdups_adj.cases)
      case (3 p0 p1 others)
      let ?n = "PathUnescape p0" and ?m = "PathUnescape p1"
      from 3 have path: "path_names r = Some (?n, ?m, others)" by (simp add: path_names_def)
      have "fst (handlePackageRootByName cfg io r i ?n ?m s) = fst (handlePackageRootByName cfg io r i ?n ?m (no_cache s))"
        using reads(2) [OF Some path] by (simp add: handlePackageRootByName_def change_replies split: http_method.split)
      moreover have "fst (handlePackageVersionsRoutes cfg io r i ?n ?m rest s) = fst (handlePackageVersionsRoutes cfg io r i ?n ?m rest (no_cache s))"
        if "others = ''versions'' # rest" for rest
      proof (cases rest)
        case Nil
        then show ?thesis using reads(3) [OF Some path] by (simp add: handlePackageVersionsRoutes_def change_replies split: http_method.split)
      next
        case (Cons v0 tail)
        note get = get_version_reply [OF assms Some, of ?n ?m "''versions''" v0 tail]
        show ?thesis using get path that by (simp add: handlePackageVersionsRoutes_def Cons Let_def change_replies split: list.split sum.split)
      qed
      ultimately show ?thesis using Some 3 by (auto simp: handlePackagesRoutes_def Let_def split: list.split)
    qed (simp_all add: handlePackagesRoutes_def Some)
  qed (simp add: handlePackagesRoutes_def)
qed

inductive cached_reach :: "'k server_config \<Rightarrow> string set \<Rightarrow> server \<Rightarrow> bool" for cfg A where
  cached_start: "sv_cache s = (\<lambda>key. None) \<Longrightarrow> cached_reach cfg A s"
| cached_serve: "cached_reach cfg A s \<Longrightarrow> plain_request A r \<Longrightarrow> io_save io \<Longrightarrow> cached_reach cfg A (snd (serve cfg io r s))"

lemma cached_reach_ok: "cached_reach cfg A s \<Longrightarrow> cache_ok cfg A s"
proof (induction rule: cached_reach.induct)
  case (cached_serve s r io)
  then show ?case using cache_ok_handled [OF _ serve_handled] by blast
qed (simp add: cache_ok_def)

lemma route_packages:
  "hq_Path r = ''/packages'' \<Longrightarrow> route cfg io r s = handlePackagesRoot cfg io r s"
  "HasPrefix (hq_Path r) ''/packages/'' \<Longrightarrow> route cfg io r s = handlePackagesRoutes cfg io r s"
  by (auto simp: route_def HasPrefix_iff)

text \<open>
  C9. The response cache is transparent as long as every change is saved. Suppose that a server that started with an empty cache
  has answered requests one after another, and that while it did so every save of its database succeeded; that
  neither these requests nor the next one hold a bar in their host, path or query, a query with blanks at its ends, or the
  single dash as query; and that the hashes, shortened to 16 digits, of the authorizations they carry differ from
  each other and from the dash. Then the reply to the next request, if it is one on packages, is the one an empty cache would
  give: it is not out of date and not meant for another user. Without the saves it is not:
  \<open>cache_hides_unsaved\<close>.
\<close>

theorem cache_transparent:
  assumes "cached_reach cfg A s" and "plain_request A r" and "distinct_hashes (sc_crypto cfg) A"
    and "hq_Path r = ''/packages'' \<or> HasPrefix (hq_Path r) ''/packages/''"
  shows "fst (serve cfg io r s) = fst (serve cfg io r (no_cache s))"
proof -
  obtain ok rates where allow: "rate_Allow (rate_key r) (fst (classifyRateLimit r)) 60000000000 (io_nano io) (sv_rates s) = (ok, rates)" by fastforce
  let ?s = "s\<lparr>sv_rates := rates\<rparr>"
  have none: "(no_cache s)\<lparr>sv_rates := rates\<rparr> = no_cache ?s" by (simp add: no_cache_def)
  have "cache_ok cfg A ?s" using cached_reach_ok [OF assms(1)] by (simp add: cache_ok_def)
  note replies = package_replies [OF this assms(2,3)]
  then have "fst (route cfg io r ?s) = fst (route cfg io r (no_cache ?s))" using assms(4) route_packages by metis
  then show ?thesis by (simp add: serve_def allow none Let_def)
qed

section \<open>A run of the server\<close>

definition ex_server_config :: "unit server_config" where
  "ex_server_config = \<lparr>sc_crypto = ex_hash, sc_jwt = ex_token_env, sc_oidc = ex_oidc ''https://keys'', sc_expired = (\<lambda>t e. False),
     sc_policy = newPolicyEngine '''' None, sc_anonymousRead = True, sc_secret = ''secret'', sc_uploads = ''up'', sc_presignS3 = (\<lambda>k m. None),
     sc_s3Base = '''', sc_absolute = (\<lambda>u. False),
     sc_package = (\<lambda>b. Some \<lparr>pb_Namespace = ''acme'', pb_Name = b, pb_Visibility = ''public''\<rparr>),
     sc_version = (\<lambda>b. Some \<lparr>vb_Version = b, vb_Manifest = [], vb_ArtifactKey = '''', vb_Checksum = ''abc'', vb_SizeBytes = 3\<rparr>),
     sc_org = (\<lambda>b. Some \<lparr>ob_Slug = b, ob_Name = b, ob_Description = '''', ob_Visibility = ''public''\<rparr>),
     sc_member = (\<lambda>b. Some \<lparr>mb_UserID = b, mb_Email = '''', mb_Role = ''admin''\<rparr>), sc_init = (\<lambda>b. None), sc_finalize = (\<lambda>b. None),
     sc_platform_url = (\<lambda>u. u)\<rparr>"

definition ex_request :: "http_method \<Rightarrow> string \<Rightarrow> string \<Rightarrow> string \<Rightarrow> http_request" where
  "ex_request meth path auth b = \<lparr>hq_Method = meth, hq_Path = path, hq_RawQuery = '''', hq_Host = ''reg'', hq_TLS = True, hq_Authorization = auth,
     hq_RequestID = ''r1'', hq_RemoteAddr = ''10.0.0.1'', hq_Body = Some b\<rparr>"

definition ex_server :: server where
  "ex_server = \<lparr>sv_pkgs = ex_no_packages,
     sv_reg = \<lparr>rg_data = \<lparr>rd_Publishers = [], rd_Extensions = [], rd_Advisories = [], rd_Sessions = [], rd_AuditLog = []\<rparr>, rg_db = None, rg_files = (\<lambda>p. None)\<rparr>,
     sv_cache = (\<lambda>key. None), sv_epoch = 0, sv_rates = (\<lambda>k. None)\<rparr>"

definition ex_dev :: string where
  "ex_dev = ''Bearer local-dev-token''"

definition ex_created :: server where
  "ex_created = snd (serve ex_server_config (ex_pkg_io 1) (ex_request POST ''/packages'' ex_dev ''tool'') ex_server)"

lemma ex_server_reach: "server_reach cfg ex_server" "cached_reach cfg A ex_server"
  by (rule reach_start cached_start; simp add: ex_server_def ex_no_packages_def)+

text \<open>The package is created in the tenant of the token; without one nothing is created.\<close>

lemma ex_create:
  "map_option fst (pkg_abs (sv_pkgs ex_created) (''tenant_runfabric'', ''acme'', ''tool'')) = Some \<lparr>pk_ID = ''pkg_1'', pk_TenantID = ''tenant_runfabric'',
     pk_Namespace = ''acme'', pk_Name = ''tool'', pk_LatestVersion = '''', pk_Visibility = ''public'', pk_CreatedBy = ''runfabric-dev'', pk_CreatedAt = ''1'', pk_UpdatedAt = ''1''\<rparr>"
  "fst (serve ex_server_config (ex_pkg_io 1) (ex_request POST ''/packages'' '''' ''tool'') ex_server) = unauthorized"
  by code_simp+

theorem package_changes_authorized_witness:
  "\<exists>i. identity_of ex_server_config (ex_pkg_io 1) (ex_request POST ''/packages'' ex_dev ''tool'') ex_server = Some i \<and> \<not> id_IsAnonymous i \<and>
     TrimSpace (id_TenantID i) = ''tenant_runfabric'' \<and> authorize (sc_policy ex_server_config) i ''package'' ''package:publish''"
proof -
  have "package_id (ex_pkg_io 1) \<notin> fst ` set (pd_Packages (sv_pkgs ex_server))" "pkg_abs (sv_pkgs ex_server) (''tenant_runfabric'', ''acme'', ''tool'') = None"
    by (simp_all add: ex_server_def ex_no_packages_def pkg_abs_def pkg_by_key_def)
  moreover have "pkg_abs (sv_pkgs ex_created) (''tenant_runfabric'', ''acme'', ''tool'') \<noteq> None" using ex_create(1) by (metis option.map_disc_iff option.distinct(1))
  ultimately show ?thesis
    using package_changes_authorized [OF ex_server_reach(1), of "ex_pkg_io 1" ex_server_config "ex_request POST ''/packages'' ex_dev ''tool''"
        "''tenant_runfabric''" "''acme''" "''tool''"]
    by (simp add: ex_created_def ex_request_def method_action_def)
qed

definition ex_org_created :: server where
  "ex_org_created = snd (serve ex_server_config (ex_pkg_io 1) (ex_request POST ''/v1/orgs'' ex_dev ''acme'') ex_server)"

theorem organization_changes_authorized_witness:
  "\<exists>i org. identity_of ex_server_config (ex_pkg_io 1) (ex_request POST ''/v1/orgs'' ex_dev ''acme'') ex_server = Some i \<and> \<not> id_IsAnonymous i \<and>
     map_of (pd_Orgs (sv_pkgs ex_org_created)) ''acme'' = Some org \<and> map om_UserID (og_Members org) = [TrimSpace (id_SubjectID i)]"
proof -
  have old: "map_of (pd_Orgs (sv_pkgs ex_server)) ''acme'' = None" by (simp add: ex_server_def ex_no_packages_def)
  have "map_option og_Slug (map_of (pd_Orgs (sv_pkgs ex_org_created)) ''acme'') = Some ''acme''" by code_simp
  then have "map_of (pd_Orgs (sv_pkgs ex_org_created)) ''acme'' \<noteq> map_of (pd_Orgs (sv_pkgs ex_server)) ''acme''" using old by auto
  from organization_changes_authorized [OF this [unfolded ex_org_created_def]] show ?thesis by (auto simp: old ex_org_created_def)
qed

definition ex_listed :: server where
  "ex_listed = snd (serve ex_server_config (ex_pkg_io 2) (ex_request GET ''/packages'' '''' '''') ex_created)"

text \<open>The second listing of the anonymous user is answered by the cache, as it would be without.\<close>

theorem cache_transparent_witness:
  "fst (serve ex_server_config (ex_pkg_io 3) (ex_request GET ''/packages'' '''' '''') ex_listed) =
     fst (serve ex_server_config (ex_pkg_io 3) (ex_request GET ''/packages'' '''' '''') (no_cache ex_listed)) \<and>
   fst (readCachedJSON ex_server_config (ex_pkg_io 3) (ex_request GET ''/packages'' '''' '''') ''packages_list'' ex_listed) \<noteq> None"
proof -
  have plain: "plain_request {ex_dev} (ex_request m ''/packages'' a b)" if "a = '''' \<or> a = ex_dev" for m a b
  proof -
    have "TrimSpace ex_dev = ex_dev" "TrimSpace '''' = ''''" by code_simp+
    with that show ?thesis by (auto simp: plain_request_def ex_request_def)
  qed
  have "cached_reach ex_server_config {ex_dev} ex_listed"
    unfolding ex_listed_def ex_created_def by (intro cached_serve ex_server_reach plain) (simp_all add: ex_pkg_io_def)
  moreover have "distinct_hashes (sc_crypto ex_server_config) {ex_dev}"
    by (simp add: distinct_hashes_def ex_server_config_def ex_hash_def ex_dev_def)
  ultimately have "fst (serve ex_server_config (ex_pkg_io 3) (ex_request GET ''/packages'' '''' '''') ex_listed) =
     fst (serve ex_server_config (ex_pkg_io 3) (ex_request GET ''/packages'' '''' '''') (no_cache ex_listed))"
    by (intro cache_transparent [of _ "{ex_dev}"] plain) (simp_all add: ex_request_def)
  moreover have "fst (readCachedJSON ex_server_config (ex_pkg_io 3) (ex_request GET ''/packages'' '''' '''') ''packages_list'' ex_listed) \<noteq> None" by code_simp
  ultimately show ?thesis by blast
qed

end
