(* ===== verification/Registry_Artifact_Claims.thy ===== *)
theory Registry_Artifact_Claims
  imports Registry_Server_Claims
begin

text \<open>
  Signed artifact URLs at work: what is uploaded with one is what a download with another one returns. The section on what
  the server does not guarantee has runs of the handlers.
\<close>

section \<open>The query of a signed URL\<close>

definition hex_hashes :: "crypto \<Rightarrow> bool" where
  "hex_hashes C \<longleftrightarrow> (\<forall>x. cr_sha256 C x \<noteq> '''' \<and> set (cr_sha256 C x) \<subseteq> set ''0123456789abcdef'')"

lemma unescape_same: "CHR ''%'' \<notin> set s \<Longrightarrow> unescape s = Some s"
  by (induction s) auto

lemma QueryUnescape_same: "CHR ''%'' \<notin> set s \<Longrightarrow> CHR ''+'' \<notin> set s \<Longrightarrow> QueryUnescape s = Some s"
proof -
  assume s: "CHR ''%'' \<notin> set s" "CHR ''+'' \<notin> set s"
  then have "map (\<lambda>c. if c = CHR ''+'' then CHR '' '' else c) s = s" by (intro map_idI) auto
  with s show ?thesis by (simp add: QueryUnescape_def unescape_same)
qed

text \<open>Strings that a query leaves alone.\<close>

definition query_plain :: "string \<Rightarrow> bool" where
  "query_plain s \<longleftrightarrow> set s \<inter> set ''%+&;='' = {}"

lemma query_pair_plain: "query_plain k \<Longrightarrow> k \<noteq> '''' \<Longrightarrow> query_plain v \<Longrightarrow> query_pair (k @ CHR ''='' # v) = Some (k, v)"
proof -
  assume kv: "query_plain k" "k \<noteq> ''''" "query_plain v"
  then have tw: "takeWhile (\<lambda>c. c \<noteq> CHR ''='') (k @ CHR ''='' # v) = k" "dropWhile (\<lambda>c. c \<noteq> CHR ''='') (k @ CHR ''='' # v) = CHR ''='' # v"
    by (auto simp: query_plain_def takeWhile_append dropWhile_append)
  from kv show ?thesis by (auto simp: query_pair_def tw QueryUnescape_same query_plain_def)
qed

lemma query_three:
  assumes "query_plain a" "query_plain b" "query_plain c"
  shows "List.map_filter query_pair (Split (CHR ''&'') (''method='' @ a @ ''&exp='' @ b @ ''&sig='' @ c)) = [(''method'', a), (''exp'', b), (''sig'', c)]"
proof -
  have amp: "CHR ''&'' \<notin> set a" "CHR ''&'' \<notin> set b" "CHR ''&'' \<notin> set c" using assms by (auto simp: query_plain_def)
  have "Split (CHR ''&'') (''method='' @ a @ ''&exp='' @ b @ ''&sig='' @ c) = [''method='' @ a, ''exp='' @ b, ''sig='' @ c]"
    using amp Split_append [of "CHR ''&''" "''method='' @ a" "''exp='' @ b @ ''&sig='' @ c"] Split_append [of "CHR ''&''" "''exp='' @ b" "''sig='' @ c"]
      Split_free [of "CHR ''&''" "''sig='' @ c"] by simp
  moreover have "query_pair (''method='' @ a) = Some (''method'', a)" "query_pair (''exp='' @ b) = Some (''exp'', b)" "query_pair (''sig='' @ c) = Some (''sig'', c)"
    using query_pair_plain [of "''method''" a] query_pair_plain [of "''exp''" b] query_pair_plain [of "''sig''" c] assms by (simp_all add: query_plain_def)
  ultimately show ?thesis by (simp add: List.map_filter_def)
qed

section \<open>Upload and download\<close>

lemma hex_plain: "hex_hashes C \<Longrightarrow> query_plain (cr_sha256 C x) \<and> TrimSpace (cr_sha256 C x) = cr_sha256 C x \<and> cr_sha256 C x \<noteq> ''''"
proof -
  assume hex: "hex_hashes C"
  then have ne: "cr_sha256 C x \<noteq> ''''" and sub: "set (cr_sha256 C x) \<subseteq> set ''0123456789abcdef''" by (auto simp: hex_hashes_def)
  have "c \<in> set ''0123456789abcdef'' \<Longrightarrow> \<not> is_space c" for c by (auto simp: is_space_def)
  with sub ne have "\<not> is_space (hd (cr_sha256 C x))" "\<not> is_space (last (cr_sha256 C x))" by (meson hd_in_set last_in_set subsetD)+
  with ne sub show ?thesis by (auto simp: query_plain_def TrimSpace_ends)
qed

lemma digit_plain: "is_digit c \<Longrightarrow> \<not> is_space c \<and> c \<notin> set ''%+&;=''"
  by (auto simp: is_space_def is_digit_def Let_def)

lemma digits_plain: "0 \<le> n \<Longrightarrow> query_plain (itoa n) \<and> TrimSpace (itoa n) = itoa n \<and> itoa n \<noteq> ''''"
proof -
  assume "0 \<le> n"
  then have n: "itoa n = utoa (nat n)" by (simp add: itoa_def)
  have digits: "\<And>c. c \<in> set (utoa (nat n)) \<Longrightarrow> is_digit c" by (rule utoa_digits)
  then have "\<And>c. c \<in> set (utoa (nat n)) \<Longrightarrow> \<not> is_space c \<and> c \<notin> set ''%+&;=''" using digit_plain by blast
  then have "\<not> is_space (hd (utoa (nat n)))" "\<not> is_space (last (utoa (nat n)))" "set (utoa (nat n)) \<inter> set ''%+&;='' = {}"
    using utoa_not_Nil [of "nat n"] by (meson hd_in_set, meson last_in_set, blast)
  then show ?thesis by (simp add: n query_plain_def TrimSpace_ends)
qed

lemma Atoi_itoa: "0 \<le> n \<Longrightarrow> in64 n \<Longrightarrow> Atoi (itoa n) = Some n"
proof -
  assume n: "0 \<le> n" "in64 n"
  then have eq: "itoa n = utoa (nat n)" by (simp add: itoa_def)
  have digits: "list_all is_digit (utoa (nat n))" using utoa_digits by (auto simp: list_all_iff)
  have "\<not> HasPrefix (utoa (nat n)) ''-''" "\<not> HasPrefix (utoa (nat n)) ''+''"
    using utoa_digits [of "CHR ''-''" "nat n"] utoa_digits [of "CHR ''+''" "nat n"] by (auto simp: HasPrefix_iff is_digit_def)
  with n digits show ?thesis by (simp add: Atoi_def eq Let_def)
qed

text \<open>A request with the query of a signed URL passes the check until the URL expires.\<close>

lemma presigned_accepted:
  assumes "hex_hashes (sc_crypto cfg)" and "meth \<in> {''PUT'', ''GET''}" and "hq_RawQuery r = presign_query cfg io key meth" and "method_name (hq_Method r) = meth"
    and "0 \<le> io_nano io" "unix_now io + 900 < 2 ^ 63" and "io_nano io' \<le> io_nano io + 899 * 1000000000"
  shows "verifyArtifactToken (sc_crypto cfg) (sc_secret cfg) (\<lambda>sec. io_nano io' > sec * 1000000000) (method_name (hq_Method r)) (url_query_of r) key"
proof -
  let ?n = "unix_now io + 900" and ?sig = "signArtifactToken (sc_crypto cfg) (sc_secret cfg) key meth (itoa (unix_now io + 900))"
  have meth: "ToUpper (TrimSpace meth) = meth" "TrimSpace meth = meth" "ToUpper meth = meth" "query_plain meth" "meth \<noteq> ''''"
    using assms(2) by (auto, (code_simp)+)
  have n: "0 \<le> ?n" "in64 ?n" using assms(5,6) by (simp_all add: unix_now_def in64_def)
  have sig: "query_plain ?sig" "TrimSpace ?sig = ?sig" "?sig \<noteq> ''''" using hex_plain [OF assms(1)] by (simp_all add: signArtifactToken_def)
  have pairs: "List.map_filter query_pair (Split (CHR ''&'') (hq_RawQuery r)) = [(''method'', meth), (''exp'', itoa ?n), (''sig'', ?sig)]"
    unfolding assms(3) presign_query_def Let_def meth using digits_plain [OF n(1)] sig(1) meth(4) by (simp only: query_three)
  have "url_query_of r = \<lparr>uq_exp = itoa ?n, uq_sig = ?sig, uq_method = meth\<rparr>" by (simp add: url_query_of_def QueryGet_def pairs)
  moreover have "io_nano io' \<le> ?n * 1000000000" using assms(7) unfolding unix_now_def by presburger
  ultimately show ?thesis
    using digits_plain [OF n(1)] Atoi_itoa [OF n] sig meth by (simp add: verifyArtifactToken_def Let_def assms(4))
qed

text \<open>
  A put with the URL signed for it stores the body and says so. A body above the limit is cut off at it, and the
  answer is the same: the uploader is not told that the rest is lost.
\<close>

lemma artifact_put:
  assumes "hex_hashes (sc_crypto cfg)" and "TrimSpace key = key" and "\<not> Contains key ''..''" and "key \<noteq> ''''"
    and path: "artifactPath (sc_uploads cfg) key = Some path"
    and "hq_Method put = PUT" "hq_Path put = ''/artifacts/'' @ key" "hq_RawQuery put = presign_query cfg io1 key ''PUT''" "hq_Body put = Some b"
    and "0 \<le> io_nano io1" "unix_now io1 + 900 < 2 ^ 63" "io_nano ioput \<le> io_nano io1 + 899 * 1000000000"
    and "io_mkdir ioput" "io_write ioput = Written"
  shows "handleArtifacts cfg ioput put s = ((200, ArtifactStored key (int (length (take (256 * 1024 * 1024) b)))),
    s\<lparr>sv_reg := (sv_reg s)\<lparr>rg_files := (rg_files (sv_reg s))(path \<mapsto> take (256 * 1024 * 1024) b)\<rparr>\<rparr>)"
proof -
  have prefix: "TrimPrefix (''/artifacts/'' @ key) ''/artifacts/'' = key" by (simp add: TrimPrefix_def HasPrefix_iff)
  have put: "verifyArtifactToken (sc_crypto cfg) (sc_secret cfg) (\<lambda>sec. io_nano ioput > sec * 1000000000) (method_name (hq_Method put)) (url_query_of put) key"
    by (rule presigned_accepted [where meth = "''PUT''" and io = io1]) (use assms in simp_all)
  then show ?thesis using assms(2-4,6,13,14)
    by (simp only: handleArtifacts_def assms(7) prefix Let_def store_artifact_def assms(9) path os_WriteFile_def) simp
qed

text \<open>
  C22. Signed URLs work. Let the hash function return hexadecimal digits, and the key be one without blanks at its ends and
  without two dots in a row. An upload of at most 256 MiB with the URL signed for it, before the URL expires and with
  directory and file written, is answered with its size; and in any later state in which nothing else has written that
  artifact's file, a download with the URL signed for reading, before that one expires and with the file read, returns
  exactly the body that was uploaded.
\<close>

theorem artifact_round_trip:
  assumes "hex_hashes (sc_crypto cfg)" and "TrimSpace key = key" and "\<not> Contains key ''..''" and "key \<noteq> ''''"
    and "artifactPath (sc_uploads cfg) key = Some path" and "length b \<le> 256 * 1024 * 1024"
    and "hq_Method put = PUT" "hq_Path put = ''/artifacts/'' @ key" "hq_RawQuery put = presign_query cfg io1 key ''PUT''" "hq_Body put = Some b"
    and "hq_Method get = GET" "hq_Path get = ''/artifacts/'' @ key" "hq_RawQuery get = presign_query cfg io2 key ''GET''"
    and "0 \<le> io_nano io1" "unix_now io1 + 900 < 2 ^ 63" "0 \<le> io_nano io2" "unix_now io2 + 900 < 2 ^ 63"
    and "io_nano ioput \<le> io_nano io1 + 899 * 1000000000" "io_nano ioget \<le> io_nano io2 + 899 * 1000000000"
    and "io_mkdir ioput" "io_write ioput = Written" "io_read ioget"
    and "rg_files (sv_reg later) path = rg_files (sv_reg (snd (handleArtifacts cfg ioput put s))) path"
  shows "fst (handleArtifacts cfg ioput put s) = (200, ArtifactStored key (int (length b))) \<and>
    fst (handleArtifacts cfg ioget get later) = (200, ArtifactContent b)"
proof -
  have body: "take (256 * 1024 * 1024) b = b" using assms(6) by simp
  note put = artifact_put [OF assms(1-5,7-10,14,15,18,20,21), where s = s, unfolded body]
  have prefix: "TrimPrefix (''/artifacts/'' @ key) ''/artifacts/'' = key" by (simp add: TrimPrefix_def HasPrefix_iff)
  have get: "verifyArtifactToken (sc_crypto cfg) (sc_secret cfg) (\<lambda>sec. io_nano ioget > sec * 1000000000) (method_name (hq_Method get)) (url_query_of get) key"
    by (rule presigned_accepted [where meth = "''GET''" and io = io2]) (use assms in simp_all)
  have "rg_files (sv_reg later) path = Some b" using assms(23) by (simp add: put)
  with get assms(2-4,11,22) have "fst (handleArtifacts cfg ioget get later) = (200, ArtifactContent b)"
    by (simp only: handleArtifacts_def assms(12) prefix Let_def load_artifact_def assms(5)) simp
  with put show ?thesis by simp
qed

definition ex_signing :: "unit server_config" where
  "ex_signing = ex_server_config\<lparr>sc_crypto := \<lparr>cr_sha256 = (\<lambda>x. ''ab''), cr_sign = (\<lambda>x. x)\<rparr>\<rparr>"

definition ex_artifact_request :: "http_method \<Rightarrow> string \<Rightarrow> http_request" where
  "ex_artifact_request meth key = (ex_request meth (''/artifacts/'' @ key) '''' ''content'')\<lparr>hq_RawQuery := presign_query ex_signing (ex_pkg_io 5) key (method_name meth)\<rparr>"

theorem artifact_round_trip_witness:
  "fst (handleArtifacts ex_signing (ex_pkg_io 7) (ex_artifact_request GET ''t/x'')
    (snd (handleArtifacts ex_signing (ex_pkg_io 6) (ex_artifact_request PUT ''t/x'') ex_server))) = (200, ArtifactContent ''content'')"
proof -
  have key: "TrimSpace ''t/x'' = ''t/x''" "\<not> Contains ''t/x'' ''..''" "''t/x'' \<noteq> ''''" by code_simp+
  have "artifactPath (sc_uploads ex_signing) ''t/x'' \<noteq> None" by code_simp
  then obtain path where path: "artifactPath (sc_uploads ex_signing) ''t/x'' = Some path" by blast
  have "hex_hashes (sc_crypto ex_signing)" by (simp add: hex_hashes_def ex_signing_def)
  from artifact_round_trip [OF this key path, of "''content''" "ex_artifact_request PUT ''t/x''" "ex_pkg_io 5" "ex_artifact_request GET ''t/x''" "ex_pkg_io 5" "ex_pkg_io 6" "ex_pkg_io 7"
      "snd (handleArtifacts ex_signing (ex_pkg_io 6) (ex_artifact_request PUT ''t/x'') ex_server)" ex_server]
  show ?thesis by (simp add: ex_artifact_request_def ex_request_def ex_pkg_io_def unix_now_def)
qed

section \<open>What the server does not guarantee\<close>

text \<open>The store accepts a version with two dots in a row, for whose artifact the server signs a URL that it then refuses.\<close>

lemma dotted_version_refused:
  "fst (handleArtifacts ex_signing (ex_pkg_io 6) (ex_artifact_request PUT (canonicalArtifactKey ''t'' ''acme'' ''tool'' ''1.0..2'')) ex_server) = invalid_request"
proof -
  let ?key = "canonicalArtifactKey ''t'' ''acme'' ''tool'' ''1.0..2''"
  have "TrimSpace (TrimPrefix (''/artifacts/'' @ ?key) ''/artifacts/'') = ?key" "Contains ?key ''..''" "?key \<noteq> ''''" by code_simp+
  then show ?thesis by (simp add: handleArtifacts_def ex_artifact_request_def ex_request_def)
qed

text \<open>The anonymous subject is a user like any other: as a member of an organization every request without a token acts for it.\<close>

definition ex_acme :: "org_member list \<Rightarrow> server" where
  "ex_acme ms = ex_server\<lparr>sv_pkgs := ex_no_packages\<lparr>pd_Orgs := [(''acme'', \<lparr>og_ID = ''org_1'', og_Slug = ''acme'', og_Name = ''Acme'', og_Description = '''',
     og_Visibility = ''public'', og_CreatedBy = ''u1'', og_CreatedAt = ''1'', og_UpdatedAt = ''1'', og_Members = ms\<rparr>)]\<rparr>\<rparr>"

definition ex_dev_owner :: org_member where
  "ex_dev_owner = \<lparr>om_UserID = ''runfabric-dev'', om_Email = ''dev@acme.org'', om_Role = ''owner''\<rparr>"

lemma anonymous_admin:
  "org_roles (sv_pkgs (snd (handleOrgRoutes ex_server_config (ex_pkg_io 2) (ex_request POST ''/v1/orgs/acme/members'' ex_dev ''anonymous'') (ex_acme [ex_dev_owner])))) ''acme'' =
    [(''runfabric-dev'', ''owner''), (''anonymous'', ''admin'')]"
  "org_roles (sv_pkgs (snd (handleOrgRoutes ex_server_config (ex_pkg_io 3) (ex_request POST ''/v1/orgs/acme/members'' '''' ''mallory'')
     (ex_acme [ex_dev_owner, \<lparr>om_UserID = ''anonymous'', om_Email = '''', om_Role = ''admin''\<rparr>])))) ''acme'' =
    [(''runfabric-dev'', ''owner''), (''anonymous'', ''admin''), (''mallory'', ''admin'')]"
  by code_simp+

text \<open>Everybody can read the members of an organization and their addresses.\<close>

lemma members_public:
  "fst (handleOrgRoutes ex_server_config (ex_pkg_io 3) (ex_request GET ''/v1/orgs/acme/members'' '''' '''') (ex_acme [ex_dev_owner])) =
    (200, MemberItems [\<lparr>om_UserID = ''runfabric-dev'', om_Email = ''dev@acme.org'', om_Role = ''owner''\<rparr>])"
  by code_simp

text \<open>A package that could not be saved is in memory and is missing from the cached list: the assumption on saves is needed.\<close>

definition ex_list :: http_request where
  "ex_list = ex_request GET ''/packages'' '''' ''''"

definition ex_unsaved :: server where
  "ex_unsaved = snd (handlePackagesRoot ex_server_config ((ex_pkg_io 3)\<lparr>io_save := False\<rparr>) (ex_request POST ''/packages'' ex_dev ''other'')
     (snd (handlePackagesRoot ex_server_config (ex_pkg_io 2) ex_list ex_server)))"

fun listed_names :: "payload \<Rightarrow> string list" where
  "listed_names (PackageItems ps anon) = map pk_Name ps"
| "listed_names p = []"

lemma cache_hides_unsaved:
  "listed_names (snd (fst (handlePackagesRoot ex_server_config (ex_pkg_io 4) ex_list ex_unsaved))) = []"
  "listed_names (snd (fst (handlePackagesRoot ex_server_config (ex_pkg_io 4) ex_list (no_cache ex_unsaved)))) = [''other'']"
  by code_simp+

end
