(* ===== verification/MCP_Config.thy ===== *)
theory MCP_Config
  imports Config_Resolve
begin

text \<open>
  \<^verbatim>\<open>platform/core/model/config/mcp.go\<close>: the MCP servers of the section \<^verbatim>\<open>integrations.mcp\<close> and the
  rules of the section \<^verbatim>\<open>policies.mcp\<close>, as they are read from the decoded configuration. Both
  sections are dynamic values, \<open>None\<close> when the section is missing; an error is its text.
\<close>

record mcp_server_config =
  msc_URL :: string

record mcp_integrations =
  mi_Servers :: "(string \<times> mcp_server_config) list"

record mcp_rule_set =
  mrs_Servers :: "string list"
  mrs_Tools :: "string list"
  mrs_Resources :: "string list"
  mrs_Prompts :: "string list"

record mcp_provider_rule =
  mpr_RequiredRegion :: string
  mpr_RequiredAuth :: string
  mpr_DenyCrossRegion :: bool
  mpr_DenyRegions :: "string list"
  mpr_Models :: "(string \<times> string) list"

record mcp_policy =
  mp_DefaultDeny :: bool
  mp_Allow :: mcp_rule_set
  mp_Deny :: mcp_rule_set
  mp_Providers :: "(string \<times> mcp_provider_rule) list"

definition empty_rules :: mcp_rule_set where
  "empty_rules = \<lparr>mrs_Servers = [], mrs_Tools = [], mrs_Resources = [], mrs_Prompts = []\<rparr>"

definition empty_mcp_policy :: mcp_policy where
  "empty_mcp_policy = \<lparr>mp_DefaultDeny = False, mp_Allow = empty_rules, mp_Deny = empty_rules, mp_Providers = []\<rparr>"

text \<open>\<^verbatim>\<open>%q\<close> of a text without quotes, backslashes and control characters.\<close>

definition quoted :: "string \<Rightarrow> string" where
  "quoted s = ''\"'' @ s @ ''\"''"

lemma TrimSpace_Nil: "TrimSpace [] = []"
  by (simp add: TrimSpace_def)

section \<open>Readers\<close>

definition asString :: "any \<Rightarrow> string" where
  "asString v = (case v of AStr s \<Rightarrow> TrimSpace s | _ \<Rightarrow> '''')"

definition element_path :: "string \<Rightarrow> int \<Rightarrow> string" where
  "element_path path i = path @ ''['' @ itoa i @ '']''"

fun read_strings :: "string \<Rightarrow> int \<Rightarrow> any list \<Rightarrow> string + string list" where
  "read_strings path i [] = Inr []"
| "read_strings path i (item # rest) =
     (case item of
        AStr s \<Rightarrow>
          if TrimSpace s = '''' then Inl (element_path path i @ '' must be a non-empty string'')
          else andThen (read_strings path (i + 1) rest) (\<lambda>out. Inr (TrimSpace s # out))
      | _ \<Rightarrow> Inl (element_path path i @ '' must be a non-empty string''))"

definition readStringList :: "anymap \<Rightarrow> string \<Rightarrow> string \<Rightarrow> string + string list" where
  "readStringList obj key path =
     (case aget obj key of
        ANil \<Rightarrow> Inr []
      | AList items \<Rightarrow> read_strings (path @ ''.'' @ key) 0 items
      | _ \<Rightarrow> Inl (path @ ''.'' @ key @ '' must be an array''))"

definition parseMCPPolicyRuleSet :: "string \<Rightarrow> anymap \<Rightarrow> string + mcp_rule_set" where
  "parseMCPPolicyRuleSet path raw =
     andThen (readStringList raw ''servers'' path) (\<lambda>servers.
     andThen (readStringList raw ''tools'' path) (\<lambda>tools.
     andThen (readStringList raw ''resources'' path) (\<lambda>resources.
     andThen (readStringList raw ''prompts'' path) (\<lambda>prompts.
     Inr \<lparr>mrs_Servers = servers, mrs_Tools = tools, mrs_Resources = resources, mrs_Prompts = prompts\<rparr>))))"

text \<open>An optional object of a section: what is read from it, or a default where it is missing.\<close>

definition optional_object :: "string \<Rightarrow> any \<Rightarrow> 'a \<Rightarrow> (anymap \<Rightarrow> string + 'a) \<Rightarrow> string + 'a" where
  "optional_object path v dflt f =
     (if v = ANil then Inr dflt
      else case asMap v of None \<Rightarrow> Inl (path @ '' must be an object'') | Some m \<Rightarrow> f m)"

section \<open>Servers\<close>

fun parse_servers :: "anymap \<Rightarrow> mcp_integrations \<Rightarrow> string + mcp_integrations" where
  "parse_servers [] out = Inr out"
| "parse_servers ((name, entry) # rest) out =
     (let sname = TrimSpace name in
      if sname = '''' then Inl ''integrations.mcp.servers contains empty server name''
      else case asMap entry of
        None \<Rightarrow> Inl (''integrations.mcp.servers.'' @ sname @ '' must be an object'')
      | Some server \<Rightarrow>
          let url = asString (aget server ''url'') in
          if url = '''' then Inl (''integrations.mcp.servers.'' @ sname @ ''.url is required'')
          else parse_servers rest (out\<lparr>mi_Servers := AList.update sname \<lparr>msc_URL = url\<rparr> (mi_Servers out)\<rparr>))"

definition ParseMCPIntegrations :: "anymap option \<Rightarrow> string + mcp_integrations" where
  "ParseMCPIntegrations integrations =
     (let out = \<lparr>mi_Servers = []\<rparr> in
      case integrations of
        None \<Rightarrow> Inr out
      | Some m \<Rightarrow>
          optional_object ''integrations.mcp'' (aget m ''mcp'') out (\<lambda>obj.
          optional_object ''integrations.mcp.servers'' (aget obj ''servers'') out (\<lambda>servers.
          parse_servers servers out)))"

section \<open>Rules of a provider\<close>

definition normalizeMCPProviderPolicyKey :: "string \<Rightarrow> string + string" where
  "normalizeMCPProviderPolicyKey raw =
     (let provider = ToLower (TrimSpace raw);
          unsupported = (\<lambda>use. Inl (''policies.mcp.providers.'' @ raw @ '' is not supported; use '' @ quoted use))
      in if provider = ''aws'' then unsupported ''aws-lambda''
         else if provider = ''gcp'' then unsupported ''gcp-functions''
         else if provider = ''azure'' then unsupported ''azure-functions''
         else Inr provider)"

fun parse_models :: "string \<Rightarrow> anymap \<Rightarrow> (string \<times> string) list \<Rightarrow> string + (string \<times> string) list" where
  "parse_models path [] out = Inr out"
| "parse_models path ((stepKind, v) # rest) out =
     (let kind = ToLower (TrimSpace stepKind);
          bad = Inl (path @ ''.models.'' @ kind @ '' must be a non-empty string'')
      in if kind = '''' then Inl (path @ ''.models contains empty key'')
         else case v of
           AStr model \<Rightarrow>
             if TrimSpace model = '''' then bad
             else parse_models path rest (AList.update kind (TrimSpace model) out)
         | _ \<Rightarrow> bad)"

definition parse_provider_rule :: "string \<Rightarrow> anymap \<Rightarrow> string + mcp_provider_rule" where
  "parse_provider_rule path obj =
     andThen (readStringList obj ''denyRegions'' path) (\<lambda>regions.
     andThen (optional_object (path @ ''.models'') (aget obj ''models'') [] (\<lambda>models. parse_models path models [])) (\<lambda>models.
     Inr \<lparr>mpr_RequiredRegion = asString (aget obj ''requiredRegion''),
          mpr_RequiredAuth = asString (aget obj ''requiredAuth''),
          mpr_DenyCrossRegion = (aget obj ''denyCrossRegion'' = ABool True),
          mpr_DenyRegions = regions, mpr_Models = models\<rparr>))"

fun parse_providers :: "anymap \<Rightarrow> (string \<times> mcp_provider_rule) list \<Rightarrow> string + (string \<times> mcp_provider_rule) list" where
  "parse_providers [] out = Inr out"
| "parse_providers ((provName, provRaw) # rest) out =
     andThen (normalizeMCPProviderPolicyKey provName) (\<lambda>key.
       if key = '''' then Inl ''policies.mcp.providers contains empty provider name''
       else case asMap provRaw of
         None \<Rightarrow> Inl (''policies.mcp.providers.'' @ provName @ '' must be an object'')
       | Some obj \<Rightarrow>
           andThen (parse_provider_rule (''policies.mcp.providers.'' @ provName) obj) (\<lambda>rule.
           parse_providers rest (AList.update key rule out)))"

section \<open>The policy\<close>

definition parse_default_deny :: "any \<Rightarrow> string + bool" where
  "parse_default_deny v =
     (case v of ANil \<Rightarrow> Inr False | ABool d \<Rightarrow> Inr d | _ \<Rightarrow> Inl ''policies.mcp.defaultDeny must be a boolean'')"

definition ParseMCPPolicy :: "anymap option \<Rightarrow> string + mcp_policy" where
  "ParseMCPPolicy policies =
     (case policies of
        None \<Rightarrow> Inr empty_mcp_policy
      | Some m \<Rightarrow>
          optional_object ''policies.mcp'' (aget m ''mcp'') empty_mcp_policy (\<lambda>obj.
          andThen (parse_default_deny (aget obj ''defaultDeny'')) (\<lambda>d.
          andThen (optional_object ''policies.mcp.allow'' (aget obj ''allow'') empty_rules
            (parseMCPPolicyRuleSet ''policies.mcp.allow'')) (\<lambda>allow.
          andThen (optional_object ''policies.mcp.deny'' (aget obj ''deny'') empty_rules
            (parseMCPPolicyRuleSet ''policies.mcp.deny'')) (\<lambda>deny.
          andThen (optional_object ''policies.mcp.providers'' (aget obj ''providers'') []
            (\<lambda>providers. parse_providers providers [])) (\<lambda>providers.
          Inr \<lparr>mp_DefaultDeny = d, mp_Allow = allow, mp_Deny = deny, mp_Providers = providers\<rparr>))))))"

section \<open>Validation\<close>

definition serverExists :: "mcp_integrations \<Rightarrow> string \<Rightarrow> bool" where
  "serverExists integrations name \<longleftrightarrow>
     TrimSpace name = ''*'' \<or> map_of (mi_Servers integrations) (TrimSpace name) \<noteq> None"

fun validateServers :: "mcp_integrations \<Rightarrow> string \<Rightarrow> int \<Rightarrow> string list \<Rightarrow> string option" where
  "validateServers integrations path i [] = None"
| "validateServers integrations path i (s # rest) =
     (let v = TrimSpace s in
      if v = '''' then Some (element_path path i @ '' must not be empty'')
      else if \<not> serverExists integrations v
      then Some (element_path path i @ '' references unknown MCP server '' @ quoted v)
      else validateServers integrations path (i + 1) rest)"

definition ValidateMCPConfig :: "anymap option \<Rightarrow> anymap option \<Rightarrow> string option" where
  "ValidateMCPConfig integrations policies =
     (case ParseMCPIntegrations integrations of
        Inl e \<Rightarrow> Some e
      | Inr servers \<Rightarrow>
          (case ParseMCPPolicy policies of
             Inl e \<Rightarrow> Some e
           | Inr policy \<Rightarrow>
               (case validateServers servers ''policies.mcp.allow.servers'' 0 (mrs_Servers (mp_Allow policy)) of
                  Some e \<Rightarrow> Some e
                | None \<Rightarrow> validateServers servers ''policies.mcp.deny.servers'' 0 (mrs_Servers (mp_Deny policy)))))"

end
