(* ===== verification/Step_Models.thy ===== *)
theory Step_Models
  imports Go_Values Workflow_Runtime
begin

text \<open>
  What the AI steps choose by provider (\<^verbatim>\<open>platform/workflow/runtime/workflow_model_selector.go\<close>,
  \<^verbatim>\<open>workflow_prompt_renderers.go\<close>, \<^verbatim>\<open>workflow_tool_mappers.go\<close>, \<^verbatim>\<open>workflow_model_shapers.go\<close>,
  \<^verbatim>\<open>workflow_cost_trackers.go\<close>, \<^verbatim>\<open>workflow_cache_keyers.go\<close>): the model, the text of the prompt, the form of tool
  results and outputs, the ledger of costs and the keys of cached calls; and the readers of step inputs. Each interface of the source with its
  implementations is a datatype.
\<close>

section \<open>Inputs of a step\<close>

definition jget :: "gomap \<Rightarrow> string \<Rightarrow> json" where
  "jget m k = (case map_of m k of None \<Rightarrow> JNull | Some v \<Rightarrow> v)"

definition jput :: "string \<Rightarrow> json \<Rightarrow> gomap \<Rightarrow> gomap" where
  "jput k v m = AList.update k v m"

definition asInputString :: "gomap option \<Rightarrow> string \<Rightarrow> string" where
  "asInputString obj key = (case obj of None \<Rightarrow> ''''
     | Some m \<Rightarrow> (case jget m key of JStr s \<Rightarrow> TrimSpace s | _ \<Rightarrow> ''''))"

definition jobject :: "json \<Rightarrow> gomap option" where
  "jobject v = (case v of JObj m \<Rightarrow> Some m | _ \<Rightarrow> None)"

text \<open>
  \<^verbatim>\<open>strconv.ParseFloat(s, 64)\<close> on decimal numbers: an optional sign, digits with an optional point, an
  optional exponent; a number beyond the doubles is an error. Hexadecimal numbers, infinities and NaN, which Go
  also accepts, are outside the model of floats.
\<close>

definition parse_exponent :: "string \<Rightarrow> int option" where
  "parse_exponent s =
     (case s of
        [] \<Rightarrow> Some 0
      | c # t \<Rightarrow>
          if c \<noteq> CHR ''e'' \<and> c \<noteq> CHR ''E'' then None
          else (let ds = (if HasPrefix t ''-'' \<or> HasPrefix t ''+'' then tl t else t) in
                if ds = [] \<or> \<not> list_all is_digit ds then None
                else Some (if HasPrefix t ''-'' then - digits_val ds else digits_val ds)))"

definition pow10 :: "int \<Rightarrow> rat" where
  "pow10 k = (if 0 \<le> k then 10 ^ nat k else 1 / 10 ^ nat (- k))"

definition ParseFloat :: "string \<Rightarrow> f64 option" where
  "ParseFloat s =
     (let t = (if HasPrefix s ''-'' \<or> HasPrefix s ''+'' then tl s else s);
          whole = takeWhile is_digit t; r1 = dropWhile is_digit t;
          frac = (if HasPrefix r1 ''.'' then takeWhile is_digit (tl r1) else []);
          r2 = (if HasPrefix r1 ''.'' then dropWhile is_digit (tl r1) else r1)
      in if whole @ frac = [] then None
         else case parse_exponent r2 of
           None \<Rightarrow> None
         | Some e \<Rightarrow>
             let v = rnd (of_int (digits_val (whole @ frac)) * pow10 (e - int (length frac))) in
             if v \<ge> 2 ^ 1024 then None else Some (if HasPrefix s ''-'' then - v else v))"

definition asFloat :: "json \<Rightarrow> f64 option" where
  "asFloat v = (case v of JNum q \<Rightarrow> Some q | JStr s \<Rightarrow> ParseFloat (TrimSpace s) | _ \<Rightarrow> None)"

section \<open>Scores\<close>

definition clampScore :: "f64 \<Rightarrow> f64" where
  "clampScore score = (if score < 0 then 0 else if score > 1 then 1 else score)"

text \<open>The first match of \<^verbatim>\<open>\d+\.?\d*\<close>, the empty string if there is none.\<close>

definition first_number :: "string \<Rightarrow> string" where
  "first_number text =
     (let t = dropWhile (\<lambda>c. \<not> is_digit c) text; whole = takeWhile is_digit t; r = dropWhile is_digit t
      in if HasPrefix r ''.'' then whole @ ''.'' @ takeWhile is_digit (tl r) else whole)"

definition parseEvalScore :: "string \<Rightarrow> f64 option" where
  "parseEvalScore text =
     (case ParseFloat (TrimSpace text) of
        Some score \<Rightarrow> Some (clampScore score)
      | None \<Rightarrow>
          let m = first_number text in
          if m = '''' then None else map_option clampScore (ParseFloat m))"

section \<open>Providers\<close>

definition normalizedProviderID :: "string \<Rightarrow> string" where
  "normalizedProviderID provider = ToLower (TrimSpace provider)"

datatype cloud = AWS | GCP | Azure | OtherCloud

definition cloud_of :: "string \<Rightarrow> cloud" where
  "cloud_of provider =
     (let p = normalizedProviderID provider in
      if p = ''aws-lambda'' then AWS else if p = ''gcp-functions'' then GCP
      else if p = ''azure-functions'' then Azure else OtherCloud)"

section \<open>Models\<close>

datatype model_selector = DefaultModelSelector | AWSModelSelector | GCPModelSelector | AzureModelSelector
  | ConfigurableModelSelector "model_selector option" "(string \<times> string) list"

definition awsSonnetRegions :: "string list" where
  "awsSonnetRegions = [''us-east-1'', ''us-west-2'', ''eu-west-1'', ''ap-northeast-1'']"

definition str_get :: "(string \<times> string) list \<Rightarrow> string \<Rightarrow> string" where
  "str_get m k = (case map_of m k of None \<Rightarrow> '''' | Some s \<Rightarrow> s)"

fun SelectModel :: "model_selector \<Rightarrow> string \<Rightarrow> string \<Rightarrow> string" where
  "SelectModel DefaultModelSelector kind region =
     (if kind = ''ai-eval'' \<or> kind = ''ai-retrieval'' then ''gpt-4o-mini'' else ''gpt-4o'')"
| "SelectModel AWSModelSelector kind region =
     (if kind = ''ai-eval'' \<or> kind = ''ai-structured'' then ''anthropic.claude-3-haiku''
      else if ToLower (TrimSpace region) \<in> set awsSonnetRegions then ''anthropic.claude-3-sonnet''
      else ''anthropic.claude-3-haiku'')"
| "SelectModel GCPModelSelector kind region =
     (if kind = ''ai-eval'' \<or> kind = ''ai-retrieval'' then ''gemini-flash'' else ''gemini-pro'')"
| "SelectModel AzureModelSelector kind region =
     (if kind = ''ai-eval'' \<or> kind = ''ai-retrieval'' then ''gpt-4o-mini'' else ''gpt-4o'')"
| "SelectModel (ConfigurableModelSelector base overrides) kind region =
     (let m1 = TrimSpace (str_get overrides (ToLower (TrimSpace kind)));
          m2 = TrimSpace (str_get overrides ''default'')
      in if m1 \<noteq> '''' then m1 else if m2 \<noteq> '''' then m2
         else case base of None \<Rightarrow> '''' | Some b \<Rightarrow> SelectModel b kind region)"

definition WithModelSelectorOverrides :: "model_selector \<Rightarrow> (string \<times> string) list \<Rightarrow> model_selector" where
  "WithModelSelectorOverrides base overrides =
     (if overrides = [] then base else ConfigurableModelSelector (Some base) overrides)"

definition ProviderModelSelector :: "string \<Rightarrow> model_selector" where
  "ProviderModelSelector provider = (case cloud_of provider of AWS \<Rightarrow> AWSModelSelector | GCP \<Rightarrow> GCPModelSelector
     | Azure \<Rightarrow> AzureModelSelector | OtherCloud \<Rightarrow> DefaultModelSelector)"

definition providerEnvKey :: "string \<Rightarrow> string" where
  "providerEnvKey provider =
     ReplaceAll1 (ReplaceAll1 (ToUpper (TrimSpace provider)) (CHR ''-'') (CHR ''_'')) (CHR ''.'') (CHR ''_'')"

definition collectEnvModelOverride ::
  "(string \<Rightarrow> string) \<Rightarrow> string \<Rightarrow> string \<Rightarrow> (string \<times> string) list \<Rightarrow> (string \<times> string) list" where
  "collectEnvModelOverride env kind envKey overrides =
     (let model = TrimSpace (env envKey) in if model \<noteq> '''' then AList.update kind model overrides else overrides)"

text \<open>The five variables with a prefix, later ones over earlier ones.\<close>

definition collect_prefix :: "(string \<Rightarrow> string) \<Rightarrow> string \<Rightarrow> (string \<times> string) list \<Rightarrow> (string \<times> string) list" where
  "collect_prefix env prefix overrides =
     foldl (\<lambda>m (kind, suffix). collectEnvModelOverride env kind (prefix @ suffix) m) overrides
       [(''default'', ''DEFAULT''), (''ai-retrieval'', ''AI_RETRIEVAL''), (''ai-generate'', ''AI_GENERATE''),
        (''ai-structured'', ''AI_STRUCTURED''), (''ai-eval'', ''AI_EVAL'')]"

definition EnvModelSelectorOverrides :: "(string \<Rightarrow> string) \<Rightarrow> string \<Rightarrow> (string \<times> string) list" where
  "EnvModelSelectorOverrides env provider =
     (let global = collect_prefix env ''RUNFABRIC_MODEL_'' []; p = providerEnvKey provider in
      if p = '''' then global else collect_prefix env (''RUNFABRIC_MODEL_'' @ p @ ''_'') global)"

section \<open>Prompts\<close>

record prompt_input =
  pi_BasePrompt :: string
  pi_MCPPrompt :: string
  pi_Step :: step_run
  pi_Run :: "wf_run option"

datatype prompt_renderer = DeterministicPromptRenderer | AWSBedrockPromptRenderer | GCPVertexPromptRenderer
  | AzureOpenAIPromptRenderer

definition newline :: string where "newline = [char_of (10 :: nat)]"

fun join_parts :: "string \<Rightarrow> string list \<Rightarrow> string" where
  "join_parts sep [] = ''''"
| "join_parts sep [s] = s"
| "join_parts sep (s # ss) = s @ sep @ join_parts sep ss"

text \<open>A labelled part of a prompt, left out when its text is blank.\<close>

definition labelled :: "string \<Rightarrow> string \<Rightarrow> string list" where
  "labelled label s = (if TrimSpace s \<noteq> '''' then [label @ newline @ TrimSpace s] else [])"

definition render_deterministic :: "prompt_input \<Rightarrow> string" where
  "render_deterministic p =
     join_parts (newline @ newline)
       (labelled ''MCP Prompt:'' (pi_MCPPrompt p) @ labelled ''Base Prompt:'' (pi_BasePrompt p) @
        [''Step Context:'' @ newline @ ''stepId='' @ TrimSpace (sr_StepID (pi_Step p)) @ newline @ ''kind='' @ TrimSpace (sr_Kind (pi_Step p))] @
        (case pi_Run p of None \<Rightarrow> [] | Some run \<Rightarrow>
           [''Run Context:'' @ newline @ ''runId='' @ TrimSpace (run_RunID run) @ newline @ ''workflowHash='' @ TrimSpace (run_WorkflowHash run)]))"

definition run_tag :: "wf_run option \<Rightarrow> string" where
  "run_tag r = (case r of None \<Rightarrow> '''' | Some run \<Rightarrow> '' run:'' @ run_RunID run @ '' workflow:'' @ run_WorkflowHash run)"

definition context_then_base :: "string \<Rightarrow> prompt_input \<Rightarrow> string" where
  "context_then_base label p =
     (if TrimSpace (pi_MCPPrompt p) \<noteq> '''' then label @ newline @ TrimSpace (pi_MCPPrompt p) @ newline @ newline else '''') @
     (if TrimSpace (pi_BasePrompt p) \<noteq> '''' then TrimSpace (pi_BasePrompt p) else '''')"

definition render_bedrock :: "prompt_input \<Rightarrow> string" where
  "render_bedrock p =
     ''[system]'' @ newline @ ''[provider:bedrock model:claude]'' @ run_tag (pi_Run p) @
     '' step:'' @ sr_StepID (pi_Step p) @ '' kind:'' @ sr_Kind (pi_Step p) @
     newline @ ''[user]'' @ newline @ TrimSpace (context_then_base ''Context:'' p)"

definition render_vertex :: "prompt_input \<Rightarrow> string" where
  "render_vertex p =
     join_parts (newline @ newline)
       ((''[provider:vertex model:gemini]'' @ (case pi_Run p of None \<Rightarrow> '''' | Some run \<Rightarrow> '' run:'' @ run_RunID run) @
         '' step:'' @ sr_StepID (pi_Step p) @ '' kind:'' @ sr_Kind (pi_Step p)) #
        labelled ''[context]'' (pi_MCPPrompt p) @ labelled ''[instruction]'' (pi_BasePrompt p))"

definition render_azure :: "prompt_input \<Rightarrow> string" where
  "render_azure p =
     ''[system] [provider:azure-openai model:gpt-4o]'' @ run_tag (pi_Run p) @ newline @ ''[user] '' @
     TrimSpace (context_then_base ''Additional context:'' p @
       newline @ newline @ ''[step:'' @ sr_StepID (pi_Step p) @ '' kind:'' @ sr_Kind (pi_Step p) @ '']'')"

definition Render :: "prompt_renderer \<Rightarrow> prompt_input \<Rightarrow> string" where
  "Render r = (case r of DeterministicPromptRenderer \<Rightarrow> render_deterministic | AWSBedrockPromptRenderer \<Rightarrow> render_bedrock
     | GCPVertexPromptRenderer \<Rightarrow> render_vertex | AzureOpenAIPromptRenderer \<Rightarrow> render_azure)"

definition ProviderPromptRenderer :: "string \<Rightarrow> prompt_renderer" where
  "ProviderPromptRenderer provider = (case cloud_of provider of AWS \<Rightarrow> AWSBedrockPromptRenderer
     | GCP \<Rightarrow> GCPVertexPromptRenderer | Azure \<Rightarrow> AzureOpenAIPromptRenderer | OtherCloud \<Rightarrow> DeterministicPromptRenderer)"

section \<open>Tool results\<close>

text \<open>\<^verbatim>\<open>copyMap\<close> of a nil map is an empty map; the copies are values here.\<close>

definition copyMap :: "gomap option \<Rightarrow> gomap" where
  "copyMap m = (case m of None \<Rightarrow> [] | Some kvs \<Rightarrow> kvs)"

datatype tool_mapper = NoopToolResultMapper | AWSToolResultMapper | GCPToolResultMapper | AzureToolResultMapper

definition bedrock_text :: "gomap \<Rightarrow> string option" where
  "bedrock_text raw =
     (case jget raw ''toolResult'' of
        JObj tr \<Rightarrow> (case jget tr ''content'' of
          JArr (JObj first # _) \<Rightarrow> (case jget first ''text'' of JStr t \<Rightarrow> Some t | _ \<Rightarrow> None)
        | _ \<Rightarrow> None)
      | _ \<Rightarrow> None)"

definition map_bedrock :: "gomap \<Rightarrow> gomap" where
  "map_bedrock raw =
     (let out = (case bedrock_text raw of Some t \<Rightarrow> jput ''result'' (JStr t) raw | None \<Rightarrow> raw) in
      jput ''provider'' (JStr ''aws-lambda'') out)"

definition map_vertex :: "gomap \<Rightarrow> gomap" where
  "map_vertex raw =
     (let out = (case jget raw ''functionResponse'' of
        JObj fr \<Rightarrow>
          (let o1 = (case map_of fr ''response'' of Some resp \<Rightarrow> jput ''result'' resp raw | None \<Rightarrow> raw) in
           case jget fr ''name'' of
             JStr n \<Rightarrow> if jget o1 ''name'' = JNull then jput ''name'' (JStr n) o1 else o1
           | _ \<Rightarrow> o1)
      | _ \<Rightarrow> raw) in jput ''provider'' (JStr ''gcp-functions'') out)"

definition map_openai :: "gomap \<Rightarrow> gomap" where
  "map_openai raw =
     (let out = (case jget raw ''content'' of JStr t \<Rightarrow> jput ''result'' (JStr t) raw | _ \<Rightarrow> raw) in
      jput ''provider'' (JStr ''azure-functions'') out)"

definition MapToolResult :: "tool_mapper \<Rightarrow> gomap option \<Rightarrow> gomap option" where
  "MapToolResult m raw = (case m of NoopToolResultMapper \<Rightarrow> raw | AWSToolResultMapper \<Rightarrow> Some (map_bedrock (copyMap raw))
     | GCPToolResultMapper \<Rightarrow> Some (map_vertex (copyMap raw)) | AzureToolResultMapper \<Rightarrow> Some (map_openai (copyMap raw)))"

definition ProviderToolResultMapper :: "string \<Rightarrow> tool_mapper" where
  "ProviderToolResultMapper provider = (case cloud_of provider of AWS \<Rightarrow> AWSToolResultMapper
     | GCP \<Rightarrow> GCPToolResultMapper | Azure \<Rightarrow> AzureToolResultMapper | OtherCloud \<Rightarrow> NoopToolResultMapper)"

section \<open>Outputs\<close>

fun string_tokens :: "(string \<times> json) \<Rightarrow> nat" where
  "string_tokens (k, JStr s) = length s div 4"
| "string_tokens (k, v) = 0"

definition estimateTokens :: "gomap \<Rightarrow> nat" where
  "estimateTokens raw = (let n = sum_list (map string_tokens raw) in if n < 1 then 1 else n)"

definition estimateOutputTokens :: "gomap \<Rightarrow> nat" where
  "estimateOutputTokens raw =
     (case jget raw ''text'' of JStr t \<Rightarrow> (if length t div 4 < 1 then 1 else length t div 4) | _ \<Rightarrow> 10)"

definition jnat :: "nat \<Rightarrow> json" where
  "jnat n = JNum (of_nat n)"

definition resolvedModelForOutput :: "gomap \<Rightarrow> string \<Rightarrow> string" where
  "resolvedModelForOutput raw fallback =
     (case jget raw ''model'' of JStr m \<Rightarrow> (if TrimSpace m \<noteq> '''' then TrimSpace m else fallback) | _ \<Rightarrow> fallback)"

datatype output_shaper = DefaultModelOutputShaper | AWSBedrockOutputShaper | GCPVertexOutputShaper | AzureOpenAIOutputShaper

text \<open>The provider, the model, the usage unless the output carries one, the reason of the end.\<close>

definition shape_with :: "string \<Rightarrow> string \<Rightarrow> gomap \<Rightarrow> string \<Rightarrow> string \<Rightarrow> gomap \<Rightarrow> gomap" where
  "shape_with provider usage_key usage reason_key reason raw =
     (let o1 = jput ''model'' (JStr (resolvedModelForOutput raw ''model-default'')) (jput ''provider'' (JStr provider) raw);
          o2 = (if map_of o1 usage_key = None then jput usage_key (JObj usage) o1 else o1)
      in jput reason_key (JStr reason) o2)"

definition ShapeOutput :: "output_shaper \<Rightarrow> gomap \<Rightarrow> gomap" where
  "ShapeOutput s raw =
     (let i = estimateTokens raw; n = estimateOutputTokens raw in
      case s of
        DefaultModelOutputShaper \<Rightarrow> raw
      | AWSBedrockOutputShaper \<Rightarrow> shape_with ''aws-lambda'' ''usage''
          [(''inputTokens'', jnat i), (''outputTokens'', jnat n)] ''stopReason'' ''end_turn'' raw
      | GCPVertexOutputShaper \<Rightarrow> shape_with ''gcp-functions'' ''usageMetadata''
          [(''promptTokenCount'', jnat i), (''candidatesTokenCount'', jnat n), (''totalTokenCount'', jnat (i + n))]
          ''finishReason'' ''STOP'' raw
      | AzureOpenAIOutputShaper \<Rightarrow> shape_with ''azure-functions'' ''usage''
          [(''prompt_tokens'', jnat i), (''completion_tokens'', jnat n), (''total_tokens'', jnat (i + n))]
          ''finish_reason'' ''stop'' raw)"

definition ProviderModelOutputShaper :: "string \<Rightarrow> output_shaper" where
  "ProviderModelOutputShaper provider = (case cloud_of provider of AWS \<Rightarrow> AWSBedrockOutputShaper
     | GCP \<Rightarrow> GCPVertexOutputShaper | Azure \<Rightarrow> AzureOpenAIOutputShaper | OtherCloud \<Rightarrow> DefaultModelOutputShaper)"

section \<open>Costs\<close>

record cost_bucket =
  cb_InputTokens :: int
  cb_OutputTokens :: int
  cb_CallCount :: int
  cb_CostUSD :: f64

type_synonym ledger = "(string \<times> cost_bucket) list"

datatype cost_tracker = NoopCostTracker | AWSCostTracker | GCPCostTracker | AzureCostTracker

definition record_cost :: "string \<Rightarrow> string \<Rightarrow> nat \<Rightarrow> nat \<Rightarrow> f64 \<Rightarrow> f64 \<Rightarrow> ledger \<Rightarrow> ledger" where
  "record_cost provider model inputTokens outputTokens costPerInput costPerOutput buckets =
     (let cost = f64_add (f64_mul (f64_of_int (int inputTokens)) costPerInput)
                   (f64_mul (f64_of_int (int outputTokens)) costPerOutput);
          key = provider @ ''/'' @ model;
          b = (case map_of buckets key of Some b \<Rightarrow> b
               | None \<Rightarrow> \<lparr>cb_InputTokens = 0, cb_OutputTokens = 0, cb_CallCount = 0, cb_CostUSD = 0\<rparr>)
      in AList.update key \<lparr>cb_InputTokens = cb_InputTokens b + int inputTokens,
           cb_OutputTokens = cb_OutputTokens b + int outputTokens,
           cb_CallCount = cb_CallCount b + 1, cb_CostUSD = f64_add (cb_CostUSD b) cost\<rparr> buckets)"

text \<open>Prices in dollars for a token, the doubles nearest to the decimal literals.\<close>

definition price :: "rat \<Rightarrow> f64" where
  "price per_million = rnd (per_million / 1000000)"

definition RecordCost :: "cost_tracker \<Rightarrow> string \<Rightarrow> nat \<Rightarrow> nat \<Rightarrow> ledger \<Rightarrow> ledger" where
  "RecordCost t model inTok outTok =
     (case t of
        NoopCostTracker \<Rightarrow> (\<lambda>buckets. buckets)
      | AWSCostTracker \<Rightarrow>
          (if Contains model ''sonnet'' then record_cost ''aws'' model inTok outTok (price 3) (price 15)
           else record_cost ''aws'' model inTok outTok (price (1/4)) (price (5/4)))
      | GCPCostTracker \<Rightarrow>
          (if Contains model ''flash'' then record_cost ''gcp'' model inTok outTok (price (3/40)) (price (3/10))
           else record_cost ''gcp'' model inTok outTok (price (5/4)) (price 5))
      | AzureCostTracker \<Rightarrow>
          (if Contains model ''mini'' then record_cost ''azure'' model inTok outTok (price (3/20)) (price (3/5))
           else record_cost ''azure'' model inTok outTok (price 5) (price 15)))"

text \<open>The sums run over the buckets in the order of the map's iteration.\<close>

definition TotalCostUSD :: "ledger \<Rightarrow> f64" where
  "TotalCostUSD buckets = foldl (\<lambda>n (k, b). f64_add n (cb_CostUSD b)) 0 buckets"

definition bucket_provider :: "string \<Rightarrow> string" where
  "bucket_provider key = takeWhile (\<lambda>c. c \<noteq> CHR ''/'') key"

record cost_report =
  cr_totalCostUSD :: f64
  cr_perProvider :: "(string \<times> f64) list"
  cr_recordCount :: int

definition Summary :: "ledger \<Rightarrow> cost_report" where
  "Summary buckets = foldl (\<lambda>s (key, b).
     let p = bucket_provider key; before = (case map_of (cr_perProvider s) p of Some c \<Rightarrow> c | None \<Rightarrow> 0) in
     \<lparr>cr_totalCostUSD = f64_add (cr_totalCostUSD s) (cb_CostUSD b),
      cr_perProvider = AList.update p (f64_add before (cb_CostUSD b)) (cr_perProvider s),
      cr_recordCount = cr_recordCount s + cb_CallCount b\<rparr>)
     \<lparr>cr_totalCostUSD = 0, cr_perProvider = [], cr_recordCount = 0\<rparr> buckets"

definition ProviderCostTracker :: "string \<Rightarrow> cost_tracker" where
  "ProviderCostTracker provider = (case cloud_of provider of AWS \<Rightarrow> AWSCostTracker | GCP \<Rightarrow> GCPCostTracker
     | Azure \<Rightarrow> AzureCostTracker | OtherCloud \<Rightarrow> NoopCostTracker)"

section \<open>Cache keys\<close>

text \<open>\<open>sha\<close> stands for the hexadecimal SHA-256 of a byte sequence.\<close>

datatype cache_keyer = DefaultCacheKeyGenerator | AWSCacheKeyGenerator string | GCPCacheKeyGenerator string
  | AzureCacheKeyGenerator string string

definition argsKey :: "gomap \<Rightarrow> string" where
  "argsKey args = (if args = [] then ''''
     else ''args['' @ join_parts '','' (sort_slice str_less (map fst args)) @ '']'')"

definition hashCacheKey :: "(string \<Rightarrow> string) \<Rightarrow> string list \<Rightarrow> string" where
  "hashCacheKey sha parts = take 16 (sha (concat (map (\<lambda>p. p @ [char_of (0 :: nat)]) parts)))"

definition or_fallback :: "string \<Rightarrow> string \<Rightarrow> string" where
  "or_fallback s dflt = (if TrimSpace s = '''' then dflt else TrimSpace s)"

definition CacheKey :: "(string \<Rightarrow> string) \<Rightarrow> cache_keyer \<Rightarrow> string \<Rightarrow> string \<Rightarrow> string \<Rightarrow> gomap \<Rightarrow> string" where
  "CacheKey sha g server action target args =
     hashCacheKey sha
       ((case g of
           DefaultCacheKeyGenerator \<Rightarrow> []
         | AWSCacheKeyGenerator region \<Rightarrow> [''aws'', or_fallback region ''us-east-1'']
         | GCPCacheKeyGenerator project \<Rightarrow> [''gcp'', or_fallback project ''default-project'']
         | AzureCacheKeyGenerator sub region \<Rightarrow> [''azure'', or_fallback sub ''default-sub'', TrimSpace region]) @
        [server, action, target, argsKey args])"

definition ProviderCacheKeyGenerator :: "string \<Rightarrow> string \<Rightarrow> string \<Rightarrow> string \<Rightarrow> cache_keyer" where
  "ProviderCacheKeyGenerator provider region project subscription = (case cloud_of provider of
     AWS \<Rightarrow> AWSCacheKeyGenerator region | GCP \<Rightarrow> GCPCacheKeyGenerator project
     | Azure \<Rightarrow> AzureCacheKeyGenerator subscription region | OtherCloud \<Rightarrow> DefaultCacheKeyGenerator)"

end
