(* ===== verification/MCP_Runtime.thy ===== *)
theory MCP_Runtime
  imports MCP_Config Step_Models
begin

text \<open>
  \<^verbatim>\<open>platform/workflow/runtime/workflow_mcp_runtime.go\<close> and \<^verbatim>\<open>workflow_retry_strategies.go\<close>: calls of
  MCP tools, resources and prompts by a workflow step, the policy they are checked against, the
  metadata they leave and the retries. The clients, the context's cancellation and the random
  source are parameters.
\<close>

section \<open>The world of a step\<close>

text \<open>
  \<open>sw_Metadata\<close> is the metadata map of the step, which is updated in place; the other fields record what
  left the process: the calls of the MCP client with their replies, the calls of the model client,
  the waits before a retry in nanoseconds; \<open>sw_Costs\<close> is the ledger of the cost tracker.
\<close>

datatype mcp_action = McpTool | McpResource | McpPrompt

fun action_str :: "mcp_action \<Rightarrow> string" where
  "action_str McpTool = ''tool''"
| "action_str McpResource = ''resource''"
| "action_str McpPrompt = ''prompt''"

record mcp_call =
  mc_Action :: mcp_action
  mc_Server :: string
  mc_Target :: string
  mc_Args :: "gomap option"
  mc_Reply :: "string + gomap option"

datatype llm_request = LLMGenerate string string | LLMGenerateJSON string string gomap | LLMEvaluate string string string

record step_world =
  sw_Metadata :: gomap
  sw_Calls :: "mcp_call list"
  sw_LLM :: "llm_request list"
  sw_Sleeps :: "int list"
  sw_Costs :: ledger

datatype step_error = MCPPolicyError mcp_action string string string | StepError string

type_synonym 'a step_act = "(step_world, step_error, 'a) act"

definition step_error_str :: "step_error \<Rightarrow> string" where
  "step_error_str e = (case e of
     MCPPolicyError action server target reason \<Rightarrow>
       ''mcp '' @ action_str action @ '' '' @ quoted target @ '' on server '' @ quoted server @ '' denied: '' @ reason
   | StepError s \<Rightarrow> s)"

text \<open>
  \<open>se_Tool\<close>, \<open>se_Resource\<close> and \<open>se_Prompt\<close> are the client's operations; they are given the number of
  calls made before. \<open>se_Rand k n\<close> is the \<open>k\<close>-th value of \<^verbatim>\<open>rand.Int63n(n)\<close>, and \<open>se_Sleep k d\<close> tells
  whether the context ended during the \<open>k\<close>-th wait.
\<close>

record step_env =
  se_Tool :: "nat \<Rightarrow> string \<Rightarrow> string \<Rightarrow> gomap option \<Rightarrow> string + gomap option"
  se_Resource :: "nat \<Rightarrow> string \<Rightarrow> string \<Rightarrow> string + gomap option"
  se_Prompt :: "nat \<Rightarrow> string \<Rightarrow> string \<Rightarrow> gomap option \<Rightarrow> string + gomap option"
  se_Rand :: "nat \<Rightarrow> int \<Rightarrow> int"
  se_Sleep :: "nat \<Rightarrow> int \<Rightarrow> ctx_err option"

record mcp_runtime =
  mr_Integrations :: mcp_integrations
  mr_Policy :: mcp_policy
  mr_Provider :: string
  mr_ActiveRegion :: string

section \<open>Bindings\<close>

record mcp_binding =
  mb_Server :: string
  mb_Tool :: string
  mb_ToolArgs :: "gomap option"
  mb_Resource :: string
  mb_Prompt :: string
  mb_PromptArgs :: "gomap option"

definition ParseMCPBinding :: "gomap option \<Rightarrow> mcp_binding option" where
  "ParseMCPBinding input =
     (case input of None \<Rightarrow> None
      | Some m \<Rightarrow> (case jget m ''mcp'' of
          JObj obj \<Rightarrow> Some
            \<lparr>mb_Server = asInputString (Some obj) ''server'', mb_Tool = asInputString (Some obj) ''tool'',
             mb_ToolArgs = jobject (jget obj ''toolArgs''),
             mb_Resource = asInputString (Some obj) ''resource'', mb_Prompt = asInputString (Some obj) ''prompt'',
             mb_PromptArgs = jobject (jget obj ''promptArgs'')\<rparr>
        | _ \<Rightarrow> None))"

section \<open>Wildcards\<close>

text \<open>
  The two-pointer loop of \<^verbatim>\<open>globMatch\<close>: \<open>star\<close> holds \<^verbatim>\<open>starIdx\<close> and \<^verbatim>\<open>sTmp\<close> once a star has been seen.
  A run that never ended would be \<open>None\<close>.
\<close>

fun skip_stars :: "string \<Rightarrow> string" where
  "skip_stars (c # p) = (if c = CHR ''*'' then skip_stars p else c # p)"
| "skip_stars [] = []"

partial_function (option) glob_loop :: "string \<Rightarrow> string \<Rightarrow> nat \<Rightarrow> nat \<Rightarrow> (nat \<times> nat) option \<Rightarrow> bool option" where
  "glob_loop pattern s sIdx pIdx star =
     (if sIdx < length s then
        if pIdx < length pattern \<and> pattern ! pIdx = s ! sIdx
        then glob_loop pattern s (sIdx + 1) (pIdx + 1) star
        else if pIdx < length pattern \<and> pattern ! pIdx = CHR ''*''
        then glob_loop pattern s sIdx (pIdx + 1) (Some (pIdx, sIdx))
        else case star of
          Some (starIdx, sTmp) \<Rightarrow> glob_loop pattern s (sTmp + 1) (starIdx + 1) (Some (starIdx, sTmp + 1))
        | None \<Rightarrow> Some False
      else Some (skip_stars (drop pIdx pattern) = []))"

declare glob_loop.simps [code]

definition mcpGlobMatch :: "string \<Rightarrow> string \<Rightarrow> bool option" where
  "mcpGlobMatch pattern s = glob_loop pattern s 0 0 None"

definition wildcardMatch :: "string \<Rightarrow> string \<Rightarrow> bool" where
  "wildcardMatch pattern v =
     (let p = TrimSpace pattern in p \<noteq> '''' \<and> mcpGlobMatch p (TrimSpace v) = Some True)"

fun firstMatch :: "string list \<Rightarrow> string \<Rightarrow> string option" where
  "firstMatch [] v = None"
| "firstMatch (p # ps) v = (if wildcardMatch p v then Some (TrimSpace p) else firstMatch ps v)"

section \<open>Audit metadata\<close>

definition json_type :: "json \<Rightarrow> string" where
  "json_type v = (case v of JNull \<Rightarrow> ''<nil>'' | JBool b \<Rightarrow> ''bool'' | JNum q \<Rightarrow> ''float64'' | JStr s \<Rightarrow> ''string''
     | JArr vs \<Rightarrow> ''[]interface {}'' | JObj m \<Rightarrow> ''map[string]interface {}'')"

definition appendMetadataRecord :: "string \<Rightarrow> gomap \<Rightarrow> unit step_act" where
  "appendMetadataRecord key rec =
     bindE (getE (\<lambda>w. jget (sw_Metadata w) key)) (\<lambda>raw.
     case raw of
       JNull \<Rightarrow> modifyE (sw_Metadata_update (jput key (JArr [JObj rec])))
     | JArr arr \<Rightarrow> modifyE (sw_Metadata_update (jput key (JArr (arr @ [JObj rec]))))
     | v \<Rightarrow> throwE (StepError (''metadata['' @ key @ ''] has unexpected type '' @ json_type v)))"

definition policy_record :: "mcp_action \<Rightarrow> string \<Rightarrow> string \<Rightarrow> string \<Rightarrow> string \<Rightarrow> gomap" where
  "policy_record action server target outcome reason =
     [(''action'', JStr (action_str action)), (''server'', JStr server), (''target'', JStr target),
      (''outcome'', JStr outcome), (''reason'', JStr reason)]"

definition appendMCPPolicyDecision :: "mcp_action \<Rightarrow> string \<Rightarrow> string \<Rightarrow> string \<Rightarrow> string \<Rightarrow> unit step_act" where
  "appendMCPPolicyDecision action server target outcome reason =
     appendMetadataRecord ''mcpPolicy'' (policy_record action server target outcome reason)"

definition correlation_record :: "mcp_action \<Rightarrow> string \<Rightarrow> string \<Rightarrow> wf_run \<Rightarrow> step_run \<Rightarrow> gomap" where
  "correlation_record action server target run step =
     [(''type'', JStr (action_str action)), (''server'', JStr server), (''target'', JStr target),
      (''runId'', JStr (run_RunID run)), (''stepId'', JStr (sr_StepID step)),
      (''workflowHash'', JStr (run_WorkflowHash run))]"

definition appendMCPCorrelation :: "mcp_action \<Rightarrow> string \<Rightarrow> string \<Rightarrow> wf_run \<Rightarrow> step_run \<Rightarrow> unit step_act" where
  "appendMCPCorrelation action server target run step =
     appendMetadataRecord ''mcpCalls'' (correlation_record action server target run step)"

section \<open>The policy\<close>

definition ruleSetByAction :: "mcp_rule_set \<Rightarrow> mcp_action \<Rightarrow> string list" where
  "ruleSetByAction rules action = (case action of McpTool \<Rightarrow> mrs_Tools rules | McpResource \<Rightarrow> mrs_Resources rules
     | McpPrompt \<Rightarrow> mrs_Prompts rules)"

definition denyDecision :: "mcp_action \<Rightarrow> string \<Rightarrow> string \<Rightarrow> string \<Rightarrow> unit step_act" where
  "denyDecision action server target reason =
     bindE (appendMCPPolicyDecision action server target ''denied'' reason) (\<lambda>_.
     throwE (MCPPolicyError action server target reason))"

definition enforceProviderPolicy ::
  "mcp_runtime \<Rightarrow> string \<Rightarrow> string \<Rightarrow> mcp_action \<Rightarrow> mcp_provider_rule \<Rightarrow> unit step_act" where
  "enforceProviderPolicy r server target action pp =
     (if mpr_DenyCrossRegion pp \<and> mr_ActiveRegion r \<noteq> '''' \<and> mpr_RequiredRegion pp \<noteq> '''' \<and>
         mr_ActiveRegion r \<noteq> mpr_RequiredRegion pp
      then denyDecision action server target
        (''cross-region call denied (active:'' @ mr_ActiveRegion r @ '' required:'' @ mpr_RequiredRegion pp @ '')'')
      else if mr_ActiveRegion r \<noteq> '''' \<and> (\<exists>dr \<in> set (mpr_DenyRegions pp). wildcardMatch dr (mr_ActiveRegion r))
      then denyDecision action server target (''region '' @ quoted (mr_ActiveRegion r) @ '' is in provider deny list'')
      else if mpr_RequiredAuth pp \<noteq> ''''
      then appendMCPPolicyDecision action server target ''require'' (''auth-required:'' @ mpr_RequiredAuth pp)
      else returnE ())"

definition provider_check :: "mcp_runtime \<Rightarrow> mcp_action \<Rightarrow> string \<Rightarrow> string \<Rightarrow> unit step_act" where
  "provider_check r action server target =
     (if mr_Provider r = '''' then returnE ()
      else case map_of (mp_Providers (mr_Policy r)) (mr_Provider r) of
        None \<Rightarrow> returnE ()
      | Some pp \<Rightarrow> enforceProviderPolicy r server target action pp)"

definition allow_check :: "mcp_runtime \<Rightarrow> mcp_action \<Rightarrow> string \<Rightarrow> string \<Rightarrow> unit step_act" where
  "allow_check r action server target =
     (let allow = mp_Allow (mr_Policy r) in
      case firstMatch (mrs_Servers allow) server of
        Some pattern \<Rightarrow> appendMCPPolicyDecision action server target ''allowed''
          (''matched policies.mcp.allow.servers ('' @ pattern @ '')'')
      | None \<Rightarrow>
          (case firstMatch (ruleSetByAction allow action) (server @ ''.'' @ target) of
             Some pattern \<Rightarrow> appendMCPPolicyDecision action server target ''allowed''
               (''matched policies.mcp.allow.'' @ action_str action @ ''s ('' @ pattern @ '')'')
           | None \<Rightarrow>
               if mp_DefaultDeny (mr_Policy r)
               then denyDecision action server target ''denied by policies.mcp.defaultDeny''
               else appendMCPPolicyDecision action server target ''allowed''
                 ''allowed by default (defaultDeny=false)''))"

definition ensureAllowed :: "mcp_runtime \<Rightarrow> mcp_action \<Rightarrow> string \<Rightarrow> string \<Rightarrow> unit step_act" where
  "ensureAllowed r action server0 target0 =
     (let server = TrimSpace server0; target = TrimSpace target0; deny = mp_Deny (mr_Policy r) in
      if server = '''' then denyDecision action server target ''server is required''
      else if target = '''' then denyDecision action server target ''target is required''
      else if map_of (mi_Servers (mr_Integrations r)) server = None
      then denyDecision action server target ''server is not configured under integrations.mcp.servers''
      else case firstMatch (mrs_Servers deny) server of
        Some pattern \<Rightarrow> denyDecision action server target (''matched policies.mcp.deny.servers ('' @ pattern @ '')'')
      | None \<Rightarrow>
          (case firstMatch (ruleSetByAction deny action) (server @ ''.'' @ target) of
             Some pattern \<Rightarrow> denyDecision action server target
               (''matched policies.mcp.deny.'' @ action_str action @ ''s ('' @ pattern @ '')'')
           | None \<Rightarrow>
               bindE (provider_check r action server target) (\<lambda>_.
               allow_check r action server target)))"

section \<open>Retries\<close>

record retry_strategy =
  ry_ShouldRetry :: "int \<Rightarrow> string \<Rightarrow> bool"
  ry_Backoff :: "int \<Rightarrow> int"

definition millisecond :: int where "millisecond = 10 ^ 6"
definition second :: int where "second = 10 ^ 9"

definition attempts_or :: "int \<Rightarrow> int \<Rightarrow> int" where
  "attempts_or maxAttempts dflt = (if maxAttempts \<le> 0 then dflt else maxAttempts)"

definition DefaultRetryStrategy :: "int \<Rightarrow> int \<Rightarrow> retry_strategy" where
  "DefaultRetryStrategy maxAttempts baseBackoff =
     \<lparr>ry_ShouldRetry = (\<lambda>attempt err. attempt < attempts_or maxAttempts 3),
      ry_Backoff = (\<lambda>attempt. wrap64 ((if baseBackoff \<le> 0 then 100 * millisecond else baseBackoff) * attempt))\<rparr>"

text \<open>\<^verbatim>\<open>d * (1 << uint(attempt-1))\<close> of a duration, cut off at a limit.\<close>

definition exponential :: "int \<Rightarrow> int \<Rightarrow> int \<Rightarrow> int" where
  "exponential unit_d limit attempt =
     (let d = wrap64 (unit_d * wrap64 (2 ^ nat (attempt - 1))) in if d > limit then limit else d)"

definition transient :: "int \<Rightarrow> string list \<Rightarrow> int \<Rightarrow> string \<Rightarrow> bool" where
  "transient limit markers attempt err \<longleftrightarrow> attempt < limit \<and> list_ex (Contains err) markers"

definition AWSRetryStrategy :: "int \<Rightarrow> retry_strategy" where
  "AWSRetryStrategy maxAttempts =
     \<lparr>ry_ShouldRetry = transient (attempts_or maxAttempts 5)
        [''ThrottlingException'', ''ServiceUnavailableException'', ''TooManyRequestsException'', ''throttl''],
      ry_Backoff = exponential (100 * millisecond) (10 * second)\<rparr>"

definition GCPRetryStrategy :: "int \<Rightarrow> retry_strategy" where
  "GCPRetryStrategy maxAttempts =
     \<lparr>ry_ShouldRetry = transient (attempts_or maxAttempts 4)
        [''RESOURCE_EXHAUSTED'', ''UNAVAILABLE'', ''DEADLINE_EXCEEDED'', ''quota''],
      ry_Backoff = exponential second (32 * second)\<rparr>"

definition AzureRetryStrategy :: "int \<Rightarrow> retry_strategy" where
  "AzureRetryStrategy maxAttempts =
     \<lparr>ry_ShouldRetry = transient (attempts_or maxAttempts 4)
        [''429'', ''RateLimitError'', ''ServiceBusy'', ''rate limit''],
      ry_Backoff = (\<lambda>attempt. wrap64 (20 * second + attempt * 10 * second))\<rparr>"

definition ProviderRetryStrategy :: "string \<Rightarrow> retry_strategy" where
  "ProviderRetryStrategy provider =
     (let p = ToLower (TrimSpace provider) in
      if p = ''aws-lambda'' then AWSRetryStrategy 0
      else if p = ''gcp-functions'' then GCPRetryStrategy 0
      else if p = ''azure-functions'' then AzureRetryStrategy 0
      else DefaultRetryStrategy 0 0)"

definition maxRetryAttempts :: int where "maxRetryAttempts = 50"

text \<open>Full jitter between half of the duration and the duration; a wait that is not positive does not wait.\<close>

definition withJitter :: "step_env \<Rightarrow> int \<Rightarrow> step_world \<Rightarrow> int" where
  "withJitter E d w =
     (if d \<le> 0 then d else let half = d div 2 in half + se_Rand E (length (sw_Sleeps w)) (half + 1))"

definition sleepCtx :: "step_env \<Rightarrow> int \<Rightarrow> unit step_act" where
  "sleepCtx E d = (\<lambda>w.
     let d' = withJitter E d w; w' = w\<lparr>sw_Sleeps := sw_Sleeps w @ [d']\<rparr> in
     case se_Sleep E (length (sw_Sleeps w)) d' of
       Some e \<Rightarrow> (Inl (StepError (ctx_err_str e)), w')
     | None \<Rightarrow> (Inr (), w'))"

type_synonym client_fn = "step_world \<Rightarrow> (string + gomap option) \<times> step_world"

text \<open>\<open>attempts\<close> is \<^verbatim>\<open>callWithRetry\<close>'s loop from an attempt on.\<close>

function attempts :: "step_env \<Rightarrow> retry_strategy option \<Rightarrow> client_fn \<Rightarrow> int \<Rightarrow> gomap option step_act" where
  "attempts E retry fn attempt =
     (\<lambda>w. case fn w of
        (Inr v, w1) \<Rightarrow> (Inr v, w1)
      | (Inl err, w1) \<Rightarrow>
          (case retry of
             None \<Rightarrow> (Inl (StepError err), w1)
           | Some s \<Rightarrow>
               if \<not> ry_ShouldRetry s attempt err \<or> attempt \<ge> maxRetryAttempts then (Inl (StepError err), w1)
               else bindE (sleepCtx E (ry_Backoff s attempt)) (\<lambda>_. attempts E retry fn (attempt + 1)) w1))"
  by pat_completeness auto
termination
  by (relation "measure (\<lambda>(E, retry, fn, attempt). nat (maxRetryAttempts - attempt))") (auto simp: maxRetryAttempts_def)

declare attempts.simps [simp del]

definition callWithRetry :: "step_env \<Rightarrow> retry_strategy option \<Rightarrow> client_fn \<Rightarrow> gomap option step_act" where
  "callWithRetry E retry fn = attempts E retry fn 1"

section \<open>Calls\<close>

definition client_call :: "mcp_action \<Rightarrow> string \<Rightarrow> string \<Rightarrow> gomap option \<Rightarrow> (nat \<Rightarrow> string + gomap option) \<Rightarrow> client_fn" where
  "client_call action server target args f = (\<lambda>w.
     let reply = f (length (sw_Calls w)) in
     (reply, w\<lparr>sw_Calls := sw_Calls w @
        [\<lparr>mc_Action = action, mc_Server = server, mc_Target = target, mc_Args = args, mc_Reply = reply\<rparr>]\<rparr>))"

definition mcp_operation ::
  "step_env \<Rightarrow> mcp_runtime \<Rightarrow> wf_run \<Rightarrow> step_run \<Rightarrow> mcp_action \<Rightarrow> string \<Rightarrow> string \<Rightarrow> client_fn \<Rightarrow> retry_strategy option \<Rightarrow>
   gomap option step_act" where
  "mcp_operation E r run step action server target fn retry =
     bindE (ensureAllowed r action server target) (\<lambda>_.
     bindE (callWithRetry E retry fn) (\<lambda>res.
     bindE (appendMCPCorrelation action server target run step) (\<lambda>_.
     returnE res)))"

definition CallTool ::
  "step_env \<Rightarrow> mcp_runtime \<Rightarrow> wf_run \<Rightarrow> step_run \<Rightarrow> mcp_binding \<Rightarrow> retry_strategy option \<Rightarrow> gomap option step_act" where
  "CallTool E r run step b retry =
     mcp_operation E r run step McpTool (mb_Server b) (mb_Tool b)
       (client_call McpTool (mb_Server b) (mb_Tool b) (mb_ToolArgs b)
          (\<lambda>k. se_Tool E k (mb_Server b) (mb_Tool b) (mb_ToolArgs b))) retry"

definition ReadResource ::
  "step_env \<Rightarrow> mcp_runtime \<Rightarrow> wf_run \<Rightarrow> step_run \<Rightarrow> mcp_binding \<Rightarrow> retry_strategy option \<Rightarrow> gomap option step_act" where
  "ReadResource E r run step b retry =
     mcp_operation E r run step McpResource (mb_Server b) (mb_Resource b)
       (client_call McpResource (mb_Server b) (mb_Resource b) None
          (\<lambda>k. se_Resource E k (mb_Server b) (mb_Resource b))) retry"

definition GetPrompt ::
  "step_env \<Rightarrow> mcp_runtime \<Rightarrow> wf_run \<Rightarrow> step_run \<Rightarrow> mcp_binding \<Rightarrow> retry_strategy option \<Rightarrow> gomap option step_act" where
  "GetPrompt E r run step b retry =
     mcp_operation E r run step McpPrompt (mb_Server b) (mb_Prompt b)
       (client_call McpPrompt (mb_Server b) (mb_Prompt b) (mb_PromptArgs b)
          (\<lambda>k. se_Prompt E k (mb_Server b) (mb_Prompt b) (mb_PromptArgs b))) retry"

end
