(* ===== verification/Step_Kinds.thy ===== *)
theory Step_Kinds
  imports MCP_Runtime
begin

text \<open>
  \<^verbatim>\<open>platform/workflow/runtime/workflow_typed_steps.go\<close> and \<^verbatim>\<open>workflow_ai_runtime.go\<close>: the step handler of
  workflow runs, which executes a step by its kind: code, the four AI kinds, human approval. The model client is a
  parameter; the telemetry hook only observes and is left out.
\<close>

section \<open>Runners\<close>

text \<open>
  A runner is given the run, the step and the output map made so far; the metadata map is in the world. The model
  client is given the number of model calls made before.
\<close>

type_synonym step_runner = "wf_run \<Rightarrow> step_run \<Rightarrow> gomap \<Rightarrow> step_result option step_act"

record llm_client =
  lc_Generate :: "nat \<Rightarrow> string \<Rightarrow> string \<Rightarrow> string + string"
  lc_GenerateJSON :: "nat \<Rightarrow> string \<Rightarrow> string \<Rightarrow> gomap \<Rightarrow> string + gomap option"
  lc_Evaluate :: "nat \<Rightarrow> string \<Rightarrow> string \<Rightarrow> string \<Rightarrow> string + f64"

record ai_runner =
  ar_Env :: step_env
  ar_MCPRuntime :: mcp_runtime
  ar_PromptRenderer :: prompt_renderer
  ar_LLMClient :: "llm_client option"
  ar_ToolMapper :: "tool_mapper option"
  ar_OutputShaper :: "output_shaper option"
  ar_ModelSelector :: "model_selector option"
  ar_RetryStrategy :: "retry_strategy option"
  ar_CostTracker :: "cost_tracker option"

definition result_of :: "gomap \<Rightarrow> step_result option step_act" where
  "result_of output = (\<lambda>w. (Inr (Some \<lparr>res_Output = Some output, res_Metadata = Some (sw_Metadata w),
     res_Pause = False, res_PauseReason = ''''\<rparr>), w))"

definition step_fails :: "step_run \<Rightarrow> string \<Rightarrow> 'a step_act" where
  "step_fails step msg = throwE (StepError (''step '' @ sr_StepID step @ '' '' @ msg))"

section \<open>Code and approval\<close>

definition jmap :: "gomap option \<Rightarrow> json" where
  "jmap m = (case m of None \<Rightarrow> JNull | Some kvs \<Rightarrow> JObj kvs)"

definition DefaultCodeStepRunner :: step_runner where
  "DefaultCodeStepRunner run step output =
     result_of (jput ''input'' (jmap (sr_Input step)) (jput ''result'' (JStr ''code_executed'') output))"

definition approval_verdict :: "string \<Rightarrow> string" where
  "approval_verdict decision = (if HasPrefix decision ''reject'' then ''rejected'' else ''approved'')"

definition DefaultApprovalStepRunner :: step_runner where
  "DefaultApprovalStepRunner run step output =
     (let decision = ToLower (TrimSpace (asInputString (sr_Input step) ''approvalDecision'')) in
      if decision = '''' then
        (\<lambda>w. (Inr (Some \<lparr>res_Output = Some (jput ''status'' (JStr ''awaiting_approval'') output),
           res_Metadata = Some (sw_Metadata w), res_Pause = True, res_PauseReason = ''awaiting human approval''\<rparr>), w))
      else if decision \<notin> set [''approve'', ''approved'', ''reject'', ''rejected'']
      then step_fails step (''human approval decision '' @ quoted decision @
        '' is invalid (use approve/approved/reject/rejected)'')
      else result_of
        (jput ''runId'' (JStr (run_RunID run))
        (jput ''reviewer'' (JStr (asInputString (sr_Input step) ''approvalReviewer''))
        (jput ''decision'' (JStr decision)
        (jput ''status'' (JStr (approval_verdict decision)) output)))))"

section \<open>AI steps\<close>

definition selected_model :: "gomap \<Rightarrow> string" where
  "selected_model metadata = (case jget metadata ''selectedModel'' of JStr m \<Rightarrow> m | _ \<Rightarrow> '''')"

definition withSelectedModel :: "gomap \<Rightarrow> gomap \<Rightarrow> gomap" where
  "withSelectedModel rawOut metadata =
     (let m = TrimSpace (selected_model metadata) in if m \<noteq> '''' then jput ''model'' (JStr m) rawOut else rawOut)"

definition model_output :: "ai_runner \<Rightarrow> gomap \<Rightarrow> gomap \<Rightarrow> gomap" where
  "model_output r rawOut metadata =
     (let raw = withSelectedModel rawOut metadata in
      case ar_OutputShaper r of None \<Rightarrow> raw | Some s \<Rightarrow> ShapeOutput s raw)"

text \<open>The end of every AI step: the shaped output of the model is added and the result returned.\<close>

definition finish_ai :: "ai_runner \<Rightarrow> gomap \<Rightarrow> gomap \<Rightarrow> step_result option step_act" where
  "finish_ai r rawOut output = (\<lambda>w.
     result_of (jput ''modelOutput'' (JObj (model_output r rawOut (sw_Metadata w))) output) w)"

definition map_result :: "ai_runner \<Rightarrow> gomap option \<Rightarrow> gomap option" where
  "map_result r res = (case ar_ToolMapper r of None \<Rightarrow> res | Some m \<Rightarrow> MapToolResult m res)"

definition optional_call :: "bool \<Rightarrow> gomap option step_act \<Rightarrow> gomap option option step_act" where
  "optional_call b m = (if b then bindE m (\<lambda>res. returnE (Some res)) else returnE None)"

definition read_binding ::
  "ai_runner \<Rightarrow> wf_run \<Rightarrow> step_run \<Rightarrow> mcp_binding \<Rightarrow> gomap option option step_act" where
  "read_binding r run step b = optional_call (mb_Resource b \<noteq> '''')
     (ReadResource (ar_Env r) (ar_MCPRuntime r) run step b (ar_RetryStrategy r))"

definition tool_binding ::
  "ai_runner \<Rightarrow> wf_run \<Rightarrow> step_run \<Rightarrow> mcp_binding \<Rightarrow> gomap option option step_act" where
  "tool_binding r run step b = optional_call (mb_Tool b \<noteq> '''')
     (CallTool (ar_Env r) (ar_MCPRuntime r) run step b (ar_RetryStrategy r))"

definition prompt_binding ::
  "ai_runner \<Rightarrow> wf_run \<Rightarrow> step_run \<Rightarrow> mcp_binding \<Rightarrow> gomap option option step_act" where
  "prompt_binding r run step b = optional_call (mb_Prompt b \<noteq> '''')
     (GetPrompt (ar_Env r) (ar_MCPRuntime r) run step b (ar_RetryStrategy r))"

definition mapped_docs :: "ai_runner \<Rightarrow> gomap option option \<Rightarrow> json list" where
  "mapped_docs r res = (case res of None \<Rightarrow> [] | Some v \<Rightarrow> [jmap (map_result r v)])"

definition retrieve_docs :: "ai_runner \<Rightarrow> wf_run \<Rightarrow> step_run \<Rightarrow> json list step_act" where
  "retrieve_docs r run step =
     (case ParseMCPBinding (sr_Input step) of
        None \<Rightarrow> returnE []
      | Some b \<Rightarrow>
          bindE (read_binding r run step b) (\<lambda>resource.
          bindE (tool_binding r run step b) (\<lambda>tool.
          returnE (mapped_docs r resource @ mapped_docs r tool))))"

definition executeAIRetrieval :: "ai_runner \<Rightarrow> step_runner" where
  "executeAIRetrieval r run step output =
     (let query = asInputString (sr_Input step) ''query'' in
      if query = '''' then step_fails step ''kind ai-retrieval requires input.query''
      else bindE (retrieve_docs r run step) (\<lambda>docs.
        finish_ai r [(''type'', JStr ''retrieval''), (''documents'', JArr docs)]
          (jput ''documents'' (JArr docs) (jput ''query'' (JStr query) output))))"

text \<open>The text of the MCP prompt and the output with the results of the prompt and the tool.\<close>

definition generate_context :: "ai_runner \<Rightarrow> wf_run \<Rightarrow> step_run \<Rightarrow> gomap \<Rightarrow> (string \<times> gomap) step_act" where
  "generate_context r run step output =
     (case ParseMCPBinding (sr_Input step) of
        None \<Rightarrow> returnE ('''', output)
      | Some b \<Rightarrow>
          bindE (prompt_binding r run step b) (\<lambda>p.
          let text = (case p of Some (Some m) \<Rightarrow> (case jget m ''text'' of JStr t \<Rightarrow> t | _ \<Rightarrow> '''') | _ \<Rightarrow> '''');
              o1 = (case p of Some v \<Rightarrow> jput ''mcpPrompt'' (jmap v) output | None \<Rightarrow> output) in
          bindE (tool_binding r run step b) (\<lambda>t.
          returnE (text, case t of None \<Rightarrow> o1
            | Some v \<Rightarrow> let res = jmap (map_result r v) in
                jput ''toolResults'' (JArr [res]) (jput ''mcpTool'' res o1)))))"

definition needs_llm :: "ai_runner \<Rightarrow> step_run \<Rightarrow> string \<Rightarrow> llm_client step_act" where
  "needs_llm r step what = (case ar_LLMClient r of
     None \<Rightarrow> step_fails step (''kind '' @ what @
       '' requires an LLMClient: set RUNFABRIC_LLM_ENDPOINT or configure a cloud provider'')
   | Some c \<Rightarrow> returnE c)"

definition llm_call :: "step_run \<Rightarrow> string \<Rightarrow> llm_request \<Rightarrow> (nat \<Rightarrow> string + 'a) \<Rightarrow> 'a step_act" where
  "llm_call step kind c f = (\<lambda>w. let w' = w\<lparr>sw_LLM := sw_LLM w @ [c]\<rparr> in
     case f (length (sw_LLM w)) of
       Inl e \<Rightarrow> (Inl (StepError (''step '' @ sr_StepID step @ '' '' @ kind @ '': '' @ e)), w')
     | Inr v \<Rightarrow> (Inr v, w'))"

definition get_model :: "string step_act" where
  "get_model = getE (\<lambda>w. selected_model (sw_Metadata w))"

definition executeAIGenerate :: "ai_runner \<Rightarrow> step_runner" where
  "executeAIGenerate r run step output =
     (let prompt = asInputString (sr_Input step) ''prompt'' in
      if prompt = '''' then step_fails step ''kind ai-generate requires input.prompt''
      else bindE (generate_context r run step output) (\<lambda>(mcpText, o1).
        let rendered = Render (ar_PromptRenderer r)
          \<lparr>pi_BasePrompt = prompt, pi_MCPPrompt = mcpText, pi_Step = step, pi_Run = Some run\<rparr> in
        bindE (needs_llm r step ''ai-generate'') (\<lambda>c.
        bindE get_model (\<lambda>model.
        bindE (llm_call step ''ai-generate'' (LLMGenerate model rendered) (\<lambda>k. lc_Generate c k model rendered)) (\<lambda>text.
        finish_ai r [(''type'', JStr ''text''), (''text'', JStr text)] (jput ''text'' (JStr text) o1))))))"

definition executeAIStructured :: "ai_runner \<Rightarrow> step_runner" where
  "executeAIStructured r run step output =
     (let schema = (case sr_Input step of None \<Rightarrow> JNull | Some m \<Rightarrow> jget m ''schema'');
          prompt0 = asInputString (sr_Input step) ''prompt'';
          prompt = (if prompt0 = '''' then ''Generate a structured response that matches the provided JSON schema.'' else prompt0)
      in case schema of
        JObj (kv # kvs) \<Rightarrow>
          bindE (needs_llm r step ''ai-structured'') (\<lambda>c.
          bindE get_model (\<lambda>model.
          bindE (llm_call step ''ai-structured'' (LLMGenerateJSON model prompt (kv # kvs))
             (\<lambda>k. lc_GenerateJSON c k model prompt (kv # kvs))) (\<lambda>obj.
          finish_ai r [(''type'', JStr ''object''), (''object'', jmap obj)]
            (jput ''schema'' schema (jput ''object'' (jmap obj) output)))))
      | _ \<Rightarrow> step_fails step ''kind ai-structured requires input.schema object'')"

definition eval_threshold :: "gomap option \<Rightarrow> f64" where
  "eval_threshold input =
     (case asFloat (case input of None \<Rightarrow> JNull | Some m \<Rightarrow> jget m ''threshold'') of Some t \<Rightarrow> t | None \<Rightarrow> 1/2)"

definition finish_eval :: "ai_runner \<Rightarrow> f64 \<Rightarrow> f64 \<Rightarrow> gomap \<Rightarrow> step_result option step_act" where
  "finish_eval r score threshold output =
     (let pass = JBool (score \<ge> threshold) in
      finish_ai r [(''type'', JStr ''eval''), (''pass'', pass), (''score'', JNum score), (''threshold'', JNum threshold)]
        (jput ''pass'' pass (jput ''threshold'' (JNum threshold) (jput ''score'' (JNum score) output))))"

definition executeAIEval :: "ai_runner \<Rightarrow> step_runner" where
  "executeAIEval r run step output =
     (let input = sr_Input step; threshold = eval_threshold input in
      case (case input of None \<Rightarrow> None | Some m \<Rightarrow> map_of m ''score'') of
        Some rawScore \<Rightarrow>
          (case asFloat rawScore of
             None \<Rightarrow> step_fails step ''kind ai-eval requires numeric input.score''
           | Some score \<Rightarrow> finish_eval r score threshold output)
      | None \<Rightarrow>
          let content = asInputString input ''content'';
              criteria0 = asInputString input ''criteria'';
              criteria = (if criteria0 = '''' then ''quality, accuracy, and relevance'' else criteria0) in
          if content = '''' then step_fails step ''kind ai-eval requires input.score (direct mode) or input.content (llm mode)''
          else
            bindE (needs_llm r step ''ai-eval with content'') (\<lambda>c.
            bindE get_model (\<lambda>model.
            bindE (llm_call step ''ai-eval'' (LLMEvaluate model content criteria)
               (\<lambda>k. lc_Evaluate c k model content criteria)) (\<lambda>score.
            finish_eval r score threshold output))))"

definition select_model :: "ai_runner \<Rightarrow> string \<Rightarrow> step_run \<Rightarrow> unit step_act" where
  "select_model r kind step =
     (let explicit = asInputString (sr_Input step) ''model'' in
      if explicit \<noteq> '''' then modifyE (sw_Metadata_update (jput ''selectedModel'' (JStr explicit)))
      else case ar_ModelSelector r of
        None \<Rightarrow> returnE ()
      | Some s \<Rightarrow> modifyE (sw_Metadata_update
          (jput ''selectedModel'' (JStr (SelectModel s kind (mr_ActiveRegion (ar_MCPRuntime r)))))))"

definition record_step_cost :: "ai_runner \<Rightarrow> step_run \<Rightarrow> step_result option \<Rightarrow> unit step_act" where
  "record_step_cost r step res =
     (case ar_CostTracker r of
        None \<Rightarrow> returnE ()
      | Some t \<Rightarrow> modifyE (\<lambda>w. w\<lparr>sw_Costs := RecordCost t (selected_model (sw_Metadata w))
          (estimateTokens (copyMap (sr_Input step)))
          (case res of None \<Rightarrow> 10 | Some x \<Rightarrow> estimateOutputTokens (copyMap (res_Output x))) (sw_Costs w)\<rparr>))"

definition AIExecuteStep :: "ai_runner \<Rightarrow> step_runner" where
  "AIExecuteStep r run step output =
     (let kind = ToLower (TrimSpace (sr_Kind step)) in
      bindE (select_model r kind step) (\<lambda>_.
      bindE (if kind = ''ai-retrieval'' then executeAIRetrieval r run step output
             else if kind = ''ai-generate'' then executeAIGenerate r run step output
             else if kind = ''ai-structured'' then executeAIStructured r run step output
             else if kind = ''ai-eval'' then executeAIEval r run step output
             else throwE (StepError (''unsupported ai step kind '' @ quoted (sr_Kind step)))) (\<lambda>res.
      bindE (record_step_cost r step res) (\<lambda>_. returnE res))))"

section \<open>The handler\<close>

record typed_handler =
  th_AIRunner :: "step_runner option"
  th_CodeRunner :: "step_runner option"
  th_ApprovalRunner :: "step_runner option"

definition step_metadata :: "string \<Rightarrow> wf_run \<Rightarrow> step_run \<Rightarrow> gomap" where
  "step_metadata kind run step =
     [(''kind'', JStr kind),
      (''correlation'', JObj [(''runId'', JStr (run_RunID run)), (''stepId'', JStr (sr_StepID step)),
         (''workflowHash'', JStr (run_WorkflowHash run))])]"

definition run_with :: "string \<Rightarrow> step_runner option \<Rightarrow> step_runner" where
  "run_with what runner run step output = (case runner of
     None \<Rightarrow> throwE (StepError (what @ '' step runner is not configured''))
   | Some f \<Rightarrow> f run step output)"

definition aiKinds :: "string list" where
  "aiKinds = [''ai-retrieval'', ''ai-generate'', ''ai-structured'', ''ai-eval'']"

definition step_kind :: "step_run \<Rightarrow> string" where
  "step_kind step = (let kind = ToLower (TrimSpace (sr_Kind step)) in if kind = '''' then ''code'' else kind)"

definition TypedExecuteStep :: "typed_handler \<Rightarrow> wf_run \<Rightarrow> step_run \<Rightarrow> step_result option step_act" where
  "TypedExecuteStep h run step =
     (let kind = step_kind step;
          output = [(''kind'', JStr kind), (''stepId'', JStr (sr_StepID step))] in
      bindE (modifyE (\<lambda>w. w\<lparr>sw_Metadata := step_metadata kind run step\<rparr>)) (\<lambda>_.
      if kind = ''code'' then run_with ''code'' (th_CodeRunner h) run step output
      else if kind \<in> set aiKinds then run_with ''ai'' (th_AIRunner h) run step output
      else if kind = ''human-approval'' then run_with ''approval'' (th_ApprovalRunner h) run step output
      else throwE (StepError (''unsupported workflow step kind '' @ quoted (sr_Kind step) @
        '' (allowed: code, ai-retrieval, ai-generate, ai-structured, ai-eval, human-approval)''))))"

definition NewDefaultAIStepRunner :: "step_env \<Rightarrow> mcp_runtime \<Rightarrow> prompt_renderer \<Rightarrow> ai_runner" where
  "NewDefaultAIStepRunner E r renderer =
     \<lparr>ar_Env = E, ar_MCPRuntime = r, ar_PromptRenderer = renderer, ar_LLMClient = None, ar_ToolMapper = None,
      ar_OutputShaper = None, ar_ModelSelector = None, ar_RetryStrategy = None, ar_CostTracker = None\<rparr>"

definition NewTypedStepHandler :: "ai_runner \<Rightarrow> typed_handler" where
  "NewTypedStepHandler runner =
     \<lparr>th_AIRunner = Some (AIExecuteStep runner), th_CodeRunner = Some DefaultCodeStepRunner,
      th_ApprovalRunner = Some DefaultApprovalStepRunner\<rparr>"

text \<open>
  The runner of a configuration: without a provider it has no model client and nothing of a provider. \<open>llm\<close> is
  \<^verbatim>\<open>ProviderLLMClient\<close> and \<open>env\<close> the environment.
\<close>

definition configured_runner ::
  "step_env \<Rightarrow> (string \<Rightarrow> string) \<Rightarrow> (string \<Rightarrow> string \<Rightarrow> llm_client option) \<Rightarrow> mcp_integrations \<Rightarrow> mcp_policy \<Rightarrow> string \<Rightarrow> string \<Rightarrow>
   ai_runner" where
  "configured_runner E env llm integrations policy provider region =
     (let plain = \<lparr>mr_Integrations = integrations, mr_Policy = policy, mr_Provider = '''', mr_ActiveRegion = ''''\<rparr> in
      if provider = '''' then NewDefaultAIStepRunner E plain DeterministicPromptRenderer
      else
        \<lparr>ar_Env = E, ar_MCPRuntime = plain\<lparr>mr_Provider := provider, mr_ActiveRegion := region\<rparr>,
         ar_PromptRenderer = ProviderPromptRenderer provider, ar_LLMClient = llm provider region,
         ar_ToolMapper = Some (ProviderToolResultMapper provider),
         ar_OutputShaper = Some (ProviderModelOutputShaper provider),
         ar_ModelSelector = Some (WithModelSelectorOverrides
           (WithModelSelectorOverrides (ProviderModelSelector provider) (EnvModelSelectorOverrides env provider))
           (case map_of (mp_Providers policy) provider of None \<Rightarrow> [] | Some pp \<Rightarrow> mpr_Models pp)),
         ar_RetryStrategy = Some (ProviderRetryStrategy provider),
         ar_CostTracker = Some (ProviderCostTracker provider)\<rparr>)"

definition NewTypedStepHandlerFromConfig ::
  "step_env \<Rightarrow> (string \<Rightarrow> string) \<Rightarrow> (string \<Rightarrow> string \<Rightarrow> llm_client option) \<Rightarrow> anymap option \<Rightarrow> anymap option \<Rightarrow>
   provider_config \<Rightarrow> string + typed_handler" where
  "NewTypedStepHandlerFromConfig E env llm integrations policies provider =
     andThen (ParseMCPIntegrations integrations) (\<lambda>servers.
     andThen (ParseMCPPolicy policies) (\<lambda>policy.
     Inr (NewTypedStepHandler (configured_runner E env llm servers policy
       (ToLower (TrimSpace (pv_Name provider))) (TrimSpace (pv_Region provider))))))"

text \<open>
  The handler in a run: its \<open>k\<close>-th execution starts with empty logs; \<open>ctxerr\<close> is the state of the
  execution's context when it returns.
\<close>

definition as_handler ::
  "(nat \<Rightarrow> typed_handler) \<Rightarrow> (nat \<Rightarrow> ctx_err option) \<Rightarrow> nat \<Rightarrow> wf_run \<Rightarrow> step_run \<Rightarrow> handler_reply" where
  "as_handler h ctxerr k run step =
     (case fst (TypedExecuteStep (h k) run step
         \<lparr>sw_Metadata = [], sw_Calls = [], sw_LLM = [], sw_Sleeps = [], sw_Costs = []\<rparr>) of
        Inl e \<Rightarrow> \<lparr>hr_res = None, hr_err = Some (step_error_str e), hr_ctxerr = ctxerr k\<rparr>
      | Inr res \<Rightarrow> \<lparr>hr_res = res, hr_err = None, hr_ctxerr = ctxerr k\<rparr>)"

end
