(* ===== verification/MCP_Glob_Claims.thy ===== *)
theory MCP_Glob_Claims
  imports MCP_Runtime
begin

text \<open>
  The wildcard matcher of MCP policies (\<^verbatim>\<open>globMatch\<close> in \<^verbatim>\<open>workflow_mcp_runtime.go\<close>): its loop always ends, what it
  accepts is in the language of the pattern, and it accepts the whole language on values without a star.
\<close>

section \<open>The language of a pattern\<close>

text \<open>A star stands for any text, every other character for itself.\<close>

definition wild_piece :: "char \<Rightarrow> string \<Rightarrow> bool" where
  "wild_piece c part \<longleftrightarrow> c = CHR ''*'' \<or> part = [c]"

definition in_wild :: "string \<Rightarrow> string \<Rightarrow> bool" where
  "in_wild p s \<longleftrightarrow> (\<exists>parts. list_all2 wild_piece p parts \<and> concat parts = s)"

lemma in_wild_Nil [simp]: "in_wild [] s \<longleftrightarrow> s = []"
  by (auto simp: in_wild_def)

lemma in_wild_Cons: "in_wild (c # p) s \<longleftrightarrow> (\<exists>part t. wild_piece c part \<and> s = part @ t \<and> in_wild p t)"
  by (fastforce simp: in_wild_def list_all2_Cons1)

lemma in_wild_star: "in_wild (CHR ''*'' # p) s \<longleftrightarrow> (\<exists>part t. s = part @ t \<and> in_wild p t)"
  by (simp add: in_wild_Cons wild_piece_def)

lemma in_wild_char: "c \<noteq> CHR ''*'' \<Longrightarrow> in_wild (c # p) s \<longleftrightarrow> (\<exists>t. s = c # t \<and> in_wild p t)"
  by (auto simp: in_wild_Cons wild_piece_def)

lemma in_wild_same: "in_wild p t \<Longrightarrow> in_wild (c # p) (c # t)"
  by (auto simp: in_wild_Cons wild_piece_def)

lemma in_wild_suffix: "in_wild (CHR ''*'' # p) t \<Longrightarrow> in_wild (CHR ''*'' # p) (u @ t)"
  unfolding in_wild_star by (metis append.assoc)

lemma in_wild_literal:
  "CHR ''*'' \<notin> set l \<Longrightarrow> in_wild (l @ p) s \<longleftrightarrow> (\<exists>t. s = l @ t \<and> in_wild p t)"
  by (induction l arbitrary: s) (auto simp: in_wild_char)

lemma in_wild_end: "in_wild p [] \<longleftrightarrow> skip_stars p = []"
  by (induction p) (auto simp: in_wild_Cons wild_piece_def)

section \<open>The loop\<close>

definition star_rank :: "string \<Rightarrow> (nat \<times> nat) option \<Rightarrow> nat" where
  "star_rank s star = (case star of None \<Rightarrow> Suc (length s) | Some (a, t) \<Rightarrow> length s - t)"

lemma glob_loop_induct [consumes 1, case_names stop match star wider fail]:
  assumes "\<And>a t. star = Some (a, t) \<Longrightarrow> t \<le> i"
    and stop: "\<And>i j star. (\<And>a t. star = Some (a, t) \<Longrightarrow> t \<le> i) \<Longrightarrow> \<not> i < length s \<Longrightarrow> P i j star"
    and match: "\<And>i j star. (\<And>a t. star = Some (a, t) \<Longrightarrow> t \<le> i) \<Longrightarrow> i < length s \<Longrightarrow> j < length p \<Longrightarrow> p ! j = s ! i \<Longrightarrow>
        P (i + 1) (j + 1) star \<Longrightarrow> P i j star"
    and star: "\<And>i j star. (\<And>a t. star = Some (a, t) \<Longrightarrow> t \<le> i) \<Longrightarrow> i < length s \<Longrightarrow> j < length p \<Longrightarrow> p ! j \<noteq> s ! i \<Longrightarrow>
        p ! j = CHR ''*'' \<Longrightarrow> P i (j + 1) (Some (j, i)) \<Longrightarrow> P i j star"
    and wider: "\<And>i j a t. t \<le> i \<Longrightarrow> i < length s \<Longrightarrow> (j < length p \<Longrightarrow> p ! j \<noteq> s ! i) \<Longrightarrow>
        (j < length p \<Longrightarrow> p ! j \<noteq> CHR ''*'') \<Longrightarrow> P (t + 1) (a + 1) (Some (a, t + 1)) \<Longrightarrow> P i j (Some (a, t))"
    and fail: "\<And>i j. i < length s \<Longrightarrow> (j < length p \<Longrightarrow> p ! j \<noteq> s ! i) \<Longrightarrow> (j < length p \<Longrightarrow> p ! j \<noteq> CHR ''*'') \<Longrightarrow> P i j None"
  shows "P i j star"
  using assms(1)
proof (induction "(star_rank s star, length p - j)" arbitrary: i j star
    rule: wf_induct_rule [OF wf_lex_prod [OF wf_less_than wf_less_than]])
  case 1
  note IH = "1.hyps" and inv = "1.prems"
  consider "\<not> i < length s" | "i < length s" "j < length p" "p ! j = s ! i"
    | "i < length s" "j < length p" "p ! j \<noteq> s ! i" "p ! j = CHR ''*''"
    | "i < length s" "j < length p \<Longrightarrow> p ! j \<noteq> s ! i" "j < length p \<Longrightarrow> p ! j \<noteq> CHR ''*''" by blast
  then show ?case
  proof cases
    case 1
    show ?thesis by (rule stop) (use inv 1 in auto)
  next
    case 2
    have "P (i + 1) (j + 1) star" using inv 2 by (intro IH) (auto intro: le_SucI)
    then show ?thesis by (intro match [of star i j]) (use inv 2 in auto)
  next
    case 3
    have "star_rank s (Some (j, i)) \<le> star_rank s star"
      using inv 3(1) by (cases star) (auto simp: star_rank_def intro: diff_le_mono2)
    then have "P i (j + 1) (Some (j, i))" using 3 by (intro IH) auto
    then show ?thesis by (intro star [of star i j]) (use inv 3 in auto)
  next
    case 4
    show ?thesis
    proof (cases star)
      case None then show ?thesis using fail 4 by blast
    next
      case (Some q)
      then obtain a t where st: "star = Some (a, t)" by (cases q) auto
      have t: "t \<le> i" by (rule inv [OF st])
      have "P (t + 1) (a + 1) (Some (a, t + 1))"
        using 4(1) t by (intro IH) (auto simp: st star_rank_def)
      then show ?thesis unfolding st by (intro wider [of t i j a]) (use t 4 in auto)
    qed
  qed
qed

lemma glob_loop_stop: "\<not> i < length s \<Longrightarrow> glob_loop p s i j star = Some (skip_stars (drop j p) = [])"
  by (subst glob_loop.simps) simp

lemma glob_loop_match:
  "i < length s \<Longrightarrow> j < length p \<Longrightarrow> p ! j = s ! i \<Longrightarrow> glob_loop p s i j star = glob_loop p s (i + 1) (j + 1) star"
  by (subst glob_loop.simps) simp

lemma glob_loop_star:
  "i < length s \<Longrightarrow> j < length p \<Longrightarrow> p ! j \<noteq> s ! i \<Longrightarrow> p ! j = CHR ''*'' \<Longrightarrow>
   glob_loop p s i j star = glob_loop p s i (j + 1) (Some (j, i))"
  by (subst glob_loop.simps) simp

lemma glob_loop_back:
  "i < length s \<Longrightarrow> (j < length p \<Longrightarrow> p ! j \<noteq> s ! i) \<Longrightarrow> (j < length p \<Longrightarrow> p ! j \<noteq> CHR ''*'') \<Longrightarrow>
   glob_loop p s i j (Some (a, t)) = glob_loop p s (t + 1) (a + 1) (Some (a, t + 1))"
  by (subst glob_loop.simps) auto

lemma glob_loop_fail:
  "i < length s \<Longrightarrow> (j < length p \<Longrightarrow> p ! j \<noteq> s ! i) \<Longrightarrow> (j < length p \<Longrightarrow> p ! j \<noteq> CHR ''*'') \<Longrightarrow>
   glob_loop p s i j None = Some False"
  by (subst glob_loop.simps) auto

lemmas glob_steps = glob_loop_stop glob_loop_match glob_loop_star glob_loop_back glob_loop_fail

lemma glob_loop_ends:
  "(\<And>a t. star = Some (a, t) \<Longrightarrow> t \<le> i) \<Longrightarrow> \<exists>b. glob_loop p s i j star = Some b"
  by (induction i j star rule: glob_loop_induct [where p = p and s = s]) (auto simp: glob_steps)

lemma drop_step: "i < length xs \<Longrightarrow> drop i xs = xs ! i # drop (i + 1) xs"
  by (simp add: Cons_nth_drop_Suc)

text \<open>Whatever rest is still to be matched, matching it would match the whole.\<close>

definition sound_at :: "string \<Rightarrow> string \<Rightarrow> nat \<Rightarrow> nat \<Rightarrow> (nat \<times> nat) option \<Rightarrow> bool" where
  "sound_at p s i j star \<longleftrightarrow> (in_wild (drop j p) (drop i s) \<longrightarrow> in_wild p s) \<and>
     (\<forall>a t. star = Some (a, t) \<longrightarrow> (\<forall>k \<ge> t. in_wild (drop (a + 1) p) (drop k s) \<longrightarrow> in_wild p s))"

lemma glob_loop_sound:
  "(\<And>a t. star = Some (a, t) \<Longrightarrow> t \<le> i) \<Longrightarrow> sound_at p s i j star \<Longrightarrow> glob_loop p s i j star = Some True \<Longrightarrow> in_wild p s"
proof (induction i j star rule: glob_loop_induct [where p = p and s = s])
  case (stop i j star)
  then show ?case by (auto simp: glob_loop_stop sound_at_def in_wild_end)
next
  case (match i j star)
  have "sound_at p s (i + 1) (j + 1) star"
    using match.prems(1) in_wild_same [of "drop (j + 1) p" "drop (i + 1) s" "s ! i"] match.hyps
    by (auto simp: sound_at_def drop_step [OF match.hyps(2)] drop_step [OF match.hyps(3)])
  with match show ?case by (simp add: glob_loop_match)
next
  case (star i j star)
  have all: "in_wild (drop j p) (drop i s)" if "in_wild (drop (j + 1) p) (drop k s)" "i \<le> k" for k
  proof -
    have "drop i s = take (k - i) (drop i s) @ drop k s"
      using that(2) by (metis append_take_drop_id drop_drop le_add_diff_inverse2)
    then show ?thesis
      using that(1) unfolding drop_step [OF star.hyps(3)] star.hyps(5) in_wild_star by blast
  qed
  then have "sound_at p s i (j + 1) (Some (j, i))" using star.prems(1) by (auto simp: sound_at_def)
  with star show ?case by (simp add: glob_loop_star)
next
  case (wider i j a t)
  have all: "in_wild p s" if "t \<le> k" "in_wild (drop (a + 1) p) (drop k s)" for k
    using wider.prems(1) that by (auto simp: sound_at_def)
  have "sound_at p s (t + 1) (a + 1) (Some (a, t + 1))"
    using all [of "t + 1"] all [OF Suc_leD] by (auto simp: sound_at_def)
  with wider show ?case by (simp add: glob_loop_back)
next
  case (fail i j)
  then show ?case by (simp add: glob_loop_fail)
qed

section \<open>Completeness\<close>

text \<open>
  For a value without a star: the configuration of the loop decides the whole, and behind the last star the
  pattern has been followed literally.
\<close>

definition exact_at :: "string \<Rightarrow> string \<Rightarrow> nat \<Rightarrow> nat \<Rightarrow> (nat \<times> nat) option \<Rightarrow> bool" where
  "exact_at p s i j star \<longleftrightarrow> (case star of
       None \<Rightarrow> in_wild p s = in_wild (drop j p) (drop i s)
     | Some (a, t) \<Rightarrow> (\<exists>l. CHR ''*'' \<notin> set l \<and> drop t s = l @ drop i s \<and> drop a p = CHR ''*'' # l @ drop j p \<and>
         in_wild p s = in_wild (CHR ''*'' # l @ drop j p) (l @ drop i s)))"

lemma exact_match:
  assumes "exact_at p s i j star" and "i < length s" "j < length p" "p ! j = s ! i" and ns: "CHR ''*'' \<notin> set s"
  shows "exact_at p s (i + 1) (j + 1) star"
proof -
  have d: "drop i s = s ! i # drop (i + 1) s" "drop j p = s ! i # drop (j + 1) p"
    using assms by (simp_all add: drop_step)
  have c: "s ! i \<noteq> CHR ''*''" using ns assms(2) nth_mem by metis
  show ?thesis
  proof (cases star)
    case None then show ?thesis using assms(1) c unfolding exact_at_def d by (simp add: in_wild_char)
  next
    case (Some q)
    then obtain a t where st: "star = Some (a, t)" by (cases q) auto
    obtain l where "CHR ''*'' \<notin> set l" "drop t s = l @ drop i s" "drop a p = CHR ''*'' # l @ drop j p"
      "in_wild p s = in_wild (CHR ''*'' # l @ drop j p) (l @ drop i s)"
      using assms(1) by (auto simp: exact_at_def st)
    then show ?thesis unfolding exact_at_def st d using c by (auto intro!: exI [of _ "l @ [s ! i]"])
  qed
qed

lemma in_wild_later_star:
  assumes "CHR ''*'' \<notin> set l"
  shows "in_wild (CHR ''*'' # l @ CHR ''*'' # r) (l @ y) = in_wild (CHR ''*'' # r) y"
proof
  assume "in_wild (CHR ''*'' # l @ CHR ''*'' # r) (l @ y)"
  then obtain u z where eq: "l @ y = u @ l @ z" and z: "in_wild (CHR ''*'' # r) z"
    unfolding in_wild_star [of "l @ CHR ''*'' # r"] in_wild_literal [OF assms] by auto
  have "length z \<le> length y" using arg_cong [OF eq, of length] by simp
  moreover have "drop (length (l @ y) - length z) (l @ y) = z" using eq by simp
  ultimately have "drop (length y - length z) y = z" by simp
  then show "in_wild (CHR ''*'' # r) y"
    using in_wild_suffix [OF z, of "take (length y - length z) y"] by (metis append_take_drop_id)
next
  assume "in_wild (CHR ''*'' # r) y"
  then have "in_wild (l @ CHR ''*'' # r) (l @ y)" unfolding in_wild_literal [OF assms] by auto
  then show "in_wild (CHR ''*'' # l @ CHR ''*'' # r) (l @ y)"
    unfolding in_wild_star [of "l @ CHR ''*'' # r"] by (metis append_Nil)
qed

lemma exact_star:
  assumes "exact_at p s i j star" and "i < length s" "j < length p" "p ! j = CHR ''*''"
  shows "exact_at p s i (j + 1) (Some (j, i))"
proof -
  have d: "drop j p = CHR ''*'' # drop (j + 1) p" using assms by (simp add: drop_step)
  have "in_wild p s = in_wild (drop j p) (drop i s)"
    using assms(1) by (auto simp: exact_at_def d in_wild_later_star split: option.splits prod.splits)
  then show ?thesis by (auto simp: exact_at_def d intro!: exI [of _ "[]"])
qed

lemma exact_back:
  assumes "exact_at p s i j (Some (a, t))" and "t \<le> i" "i < length s" "j < length p \<Longrightarrow> p ! j \<noteq> s ! i"
    "j < length p \<Longrightarrow> p ! j \<noteq> CHR ''*''"
  shows "exact_at p s (t + 1) (a + 1) (Some (a, t + 1))"
proof -
  obtain l where l: "CHR ''*'' \<notin> set l" "drop t s = l @ drop i s" "drop a p = CHR ''*'' # l @ drop j p"
    "in_wild p s = in_wild (CHR ''*'' # l @ drop j p) (l @ drop i s)"
    using assms(1) by (auto simp: exact_at_def)
  have a: "drop (a + 1) p = l @ drop j p" using l(3) by (metis drop_Suc drop_tl list.sel(3) Suc_eq_plus1)
  have "\<not> in_wild (drop j p) (drop i s)"
  proof (cases "j < length p")
    case True
    then show ?thesis using assms(3-5) by (simp add: drop_step [of j] drop_step [of i] in_wild_char)
  next
    case False then show ?thesis using assms(3) by simp
  qed
  then have no: "\<not> in_wild (drop (a + 1) p) (drop t s)"
    unfolding a l(2) in_wild_literal [OF l(1)] by simp
  have "drop t s = s ! t # drop (t + 1) s" using assms(2,3) by (intro drop_step) simp
  then have "in_wild (CHR ''*'' # drop (a + 1) p) (drop t s) = in_wild (CHR ''*'' # drop (a + 1) p) (drop (t + 1) s)"
    using no unfolding in_wild_star by (metis append_Cons append_Nil neq_Nil_conv list.sel(3) append.simps)
  then show ?thesis using l(3,4) unfolding a [symmetric] l(2) [symmetric] by (auto simp: exact_at_def intro!: exI [of _ "[]"])
qed

lemma exact_stop:
  assumes "exact_at p s i j star" and "\<not> i < length s"
  shows "in_wild p s = (skip_stars (drop j p) = [])"
proof (cases star)
  case None then show ?thesis using assms by (simp add: exact_at_def in_wild_end)
next
  case (Some q)
  then obtain l where l: "CHR ''*'' \<notin> set l" "in_wild p s = in_wild (CHR ''*'' # l @ drop j p) l"
    using assms by (cases q) (auto simp: exact_at_def)
  have "(\<exists>part t. l = part @ l @ t \<and> in_wild (drop j p) t) \<longleftrightarrow> in_wild (drop j p) []"
  proof
    assume "\<exists>part t. l = part @ l @ t \<and> in_wild (drop j p) t"
    then obtain part t where "l = part @ l @ t" and t: "in_wild (drop j p) t" by blast
    then have "length l = length part + (length l + length t)" by (metis length_append)
    then show "in_wild (drop j p) []" using t by simp
  qed (auto intro!: exI [of _ "[]"])
  then have "in_wild (CHR ''*'' # l @ drop j p) l = in_wild (drop j p) []"
    unfolding in_wild_star in_wild_literal [OF l(1)] by blast
  then show ?thesis by (simp add: l(2) in_wild_end)
qed

lemma glob_loop_exact:
  "(\<And>a t. star = Some (a, t) \<Longrightarrow> t \<le> i) \<Longrightarrow> CHR ''*'' \<notin> set s \<Longrightarrow> exact_at p s i j star \<Longrightarrow>
   glob_loop p s i j star = Some (in_wild p s)"
proof (induction i j star rule: glob_loop_induct [where p = p and s = s])
  case (stop i j star)
  then show ?case by (simp add: glob_loop_stop exact_stop)
next
  case (match i j star)
  then show ?case by (simp add: glob_loop_match exact_match [simplified])
next
  case (star i j star)
  then show ?case by (simp add: glob_loop_star exact_star [simplified])
next
  case (wider i j a t)
  then show ?case using exact_back [of p s i j a t] by (simp add: glob_loop_back)
next
  case (fail i j)
  have "\<not> in_wild (drop j p) (drop i s)"
    using fail.hyps by (cases "j < length p") (simp_all add: drop_step [of j] drop_step [of i] in_wild_char)
  with fail show ?case by (simp add: glob_loop_fail exact_at_def)
qed

section \<open>The matcher\<close>

text \<open>
  C20. The wildcard matcher of the MCP policies returns for every pattern and value. It accepts only values in the
  language of the pattern, where a star stands for any text, and on values without a star it accepts all of them.
\<close>

theorem mcpGlobMatch_language:
  "\<exists>b. mcpGlobMatch p s = Some b \<and> (b \<longrightarrow> in_wild p s) \<and> (CHR ''*'' \<notin> set s \<longrightarrow> in_wild p s \<longrightarrow> b)"
proof -
  have start: "exact_at p s 0 0 None" "sound_at p s 0 0 None" by (simp_all add: exact_at_def sound_at_def)
  obtain b where b: "mcpGlobMatch p s = Some b"
    using glob_loop_ends [of None 0 p s 0] by (auto simp: mcpGlobMatch_def)
  have "in_wild p s" if b using glob_loop_sound [OF _ start(2)] b that by (simp add: mcpGlobMatch_def)
  moreover have "b = in_wild p s" if "CHR ''*'' \<notin> set s"
    using glob_loop_exact [OF _ that start(1)] b by (simp add: mcpGlobMatch_def)
  ultimately show ?thesis using b by auto
qed

lemma glob_run: "mcpGlobMatch ''db.*.rm'' ''db.x.rm'' = Some True" "mcpGlobMatch ''db.*'' ''db.*x'' = Some False"
  by (simp_all add: mcpGlobMatch_def glob_loop.simps)

theorem mcpGlobMatch_language_witness: "mcpGlobMatch ''db.*.rm'' ''db.x.rm'' = Some True \<and> in_wild ''db.*.rm'' ''db.x.rm''"
  using mcpGlobMatch_language [of "''db.*.rm''" "''db.x.rm''"] by (auto simp: glob_run)

text \<open>A star in the value is taken for the star of the pattern: the value is in the language and not accepted.\<close>

lemma star_in_value_escapes: "in_wild ''db.*'' ''db.*x'' \<and> mcpGlobMatch ''db.*'' ''db.*x'' = Some False"
  by (auto simp: glob_run in_wild_char in_wild_star)

text \<open>What a policy's pattern matches, in terms of its language.\<close>

lemma wildcardMatch_sound: "wildcardMatch p v \<Longrightarrow> TrimSpace p \<noteq> '''' \<and> in_wild (TrimSpace p) (TrimSpace v)"
  using glob_loop_sound [of None 0 "TrimSpace p" "TrimSpace v" 0] by (simp add: wildcardMatch_def Let_def mcpGlobMatch_def sound_at_def)

lemma wildcardMatch_iff:
  "CHR ''*'' \<notin> set (TrimSpace v) \<Longrightarrow> wildcardMatch p v \<longleftrightarrow> TrimSpace p \<noteq> '''' \<and> in_wild (TrimSpace p) (TrimSpace v)"
  using glob_loop_exact [of None 0 "TrimSpace v" "TrimSpace p" 0]
  by (simp add: wildcardMatch_def Let_def mcpGlobMatch_def exact_at_def)

end
