(* ===== verification/MCP_Config_Claims.thy ===== *)
theory MCP_Config_Claims
  imports MCP_Config
begin

text \<open>What the sections of MCP servers and MCP policies are like once they have been read.\<close>

definition clean :: "string \<Rightarrow> bool" where
  "clean s \<longleftrightarrow> s \<noteq> '''' \<and> TrimSpace s = s"

definition clean_servers :: "mcp_integrations \<Rightarrow> bool" where
  "clean_servers m \<longleftrightarrow> distinct (map fst (mi_Servers m)) \<and> (\<forall>(n, s) \<in> set (mi_Servers m). clean n \<and> clean (msc_URL s))"

definition clean_rules :: "mcp_rule_set \<Rightarrow> bool" where
  "clean_rules r \<longleftrightarrow> list_all clean (mrs_Servers r @ mrs_Tools r @ mrs_Resources r @ mrs_Prompts r)"

definition clean_provider :: "string \<times> mcp_provider_rule \<Rightarrow> bool" where
  "clean_provider kp \<longleftrightarrow> fst kp \<noteq> '''' \<and> ToLower (fst kp) = fst kp \<and> fst kp \<notin> set [''aws'', ''gcp'', ''azure''] \<and>
     list_all clean (mpr_DenyRegions (snd kp)) \<and>
     TrimSpace (mpr_RequiredRegion (snd kp)) = mpr_RequiredRegion (snd kp) \<and>
     (\<forall>(kind, model) \<in> set (mpr_Models (snd kp)). kind \<noteq> '''' \<and> ToLower kind = kind \<and> clean model)"

definition clean_policy :: "mcp_policy \<Rightarrow> bool" where
  "clean_policy p \<longleftrightarrow> clean_rules (mp_Allow p) \<and> clean_rules (mp_Deny p) \<and> distinct (map fst (mp_Providers p)) \<and>
     list_all clean_provider (mp_Providers p)"

lemma andThen_eq_Inr: "andThen m f = Inr b \<longleftrightarrow> (\<exists>a. m = Inr a \<and> f a = Inr b)"
  by (auto simp: andThen_def split: sum.split)

lemma update_elem: "x \<in> set (AList.update k v xs) \<Longrightarrow> x = (k, v) \<or> x \<in> set xs"
  by (induction xs) (auto split: if_splits)

lemma clean_TrimSpace: "TrimSpace s \<noteq> '''' \<Longrightarrow> clean (TrimSpace s)"
  by (simp add: clean_def)

lemma asString_trimmed: "TrimSpace (asString v) = asString v"
  by (cases v) (simp_all add: asString_def TrimSpace_Nil)

lemma read_strings_clean: "read_strings path i vs = Inr ss \<Longrightarrow> list_all clean ss"
  by (induction path i vs arbitrary: ss rule: read_strings.induct)
    (auto simp: andThen_eq_Inr clean_TrimSpace split: any.splits if_splits)

lemma readStringList_clean: "readStringList obj key path = Inr ss \<Longrightarrow> list_all clean ss"
  by (auto simp: readStringList_def read_strings_clean split: any.splits)

lemma rules_clean: "parseMCPPolicyRuleSet path raw = Inr r \<Longrightarrow> clean_rules r"
  by (auto simp: parseMCPPolicyRuleSet_def andThen_eq_Inr clean_rules_def dest: readStringList_clean)

lemma optional_object_Inr:
  "optional_object path v dflt f = Inr x \<Longrightarrow> x = dflt \<or> (\<exists>m. f m = Inr x)"
  by (auto simp: optional_object_def split: if_splits option.splits)

lemma clean_insert: "clean_servers m \<Longrightarrow> clean n \<Longrightarrow> clean u \<Longrightarrow>
  clean_servers (m\<lparr>mi_Servers := AList.update n \<lparr>msc_URL = u\<rparr> (mi_Servers m)\<rparr>)"
  by (auto simp: clean_servers_def distinct_update dest!: update_elem)

lemma parse_servers_clean: "parse_servers obj out = Inr m \<Longrightarrow> clean_servers out \<Longrightarrow> clean_servers m"
proof (induction obj out rule: parse_servers.induct)
  case (2 name entry rest out)
  from 2(2) obtain server where ok: "TrimSpace name \<noteq> ''''" "asMap entry = Some server" "asString (aget server ''url'') \<noteq> ''''"
    and rest: "parse_servers rest (out\<lparr>mi_Servers := AList.update (TrimSpace name) \<lparr>msc_URL = asString (aget server ''url'')\<rparr> (mi_Servers out)\<rparr>) = Inr m"
    by (auto simp: Let_def split: if_splits option.splits)
  have "clean (asString (aget server ''url''))" using ok(3) by (simp add: clean_def asString_trimmed)
  then show ?case using 2(1) [OF refl ok(1,2) refl ok(3) rest] clean_insert [OF 2(3) clean_TrimSpace [OF ok(1)]] by blast
qed simp

lemma ParseMCPIntegrations_clean: "ParseMCPIntegrations i = Inr m \<Longrightarrow> clean_servers m"
proof -
  have e: "clean_servers \<lparr>mi_Servers = []\<rparr>" by (simp add: clean_servers_def)
  assume "ParseMCPIntegrations i = Inr m"
  then show ?thesis using e parse_servers_clean
    by (auto simp: ParseMCPIntegrations_def Let_def split: option.splits dest!: optional_object_Inr)
qed

lemma parse_models_clean:
  "parse_models path obj out = Inr ms \<Longrightarrow> \<forall>(kind, model) \<in> set out. kind \<noteq> '''' \<and> ToLower kind = kind \<and> clean model \<Longrightarrow>
   \<forall>(kind, model) \<in> set ms. kind \<noteq> '''' \<and> ToLower kind = kind \<and> clean model"
proof (induction path obj out rule: parse_models.induct)
  case (2 path stepKind v rest out)
  let ?k = "ToLower (TrimSpace stepKind)"
  from 2(2) obtain model where ok: "?k \<noteq> ''''" "v = AStr model" "TrimSpace model \<noteq> ''''"
    and rest: "parse_models path rest (AList.update ?k (TrimSpace model) out) = Inr ms"
    by (auto simp: Let_def split: if_splits any.splits)
  have "\<forall>(kind, model) \<in> set (AList.update ?k (TrimSpace model) out). kind \<noteq> '''' \<and> ToLower kind = kind \<and> clean model"
    using 2(3) ok by (auto simp: clean_TrimSpace dest!: update_elem)
  then show ?case using 2(1) [OF refl refl ok(1,2,3) rest] by blast
qed simp

lemma provider_rule_clean:
  assumes "parse_provider_rule path obj = Inr rule" and "normalizeMCPProviderPolicyKey raw = Inr key" and "key \<noteq> ''''"
  shows "clean_provider (key, rule)"
proof -
  obtain regions models where r: "readStringList obj ''denyRegions'' path = Inr regions"
    "optional_object (path @ ''.models'') (aget obj ''models'') [] (\<lambda>ms. parse_models path ms []) = Inr models"
    "mpr_DenyRegions rule = regions" "mpr_Models rule = models" "mpr_RequiredRegion rule = asString (aget obj ''requiredRegion'')"
    using assms(1) by (auto simp: parse_provider_rule_def andThen_eq_Inr)
  have "\<forall>(kind, model) \<in> set models. kind \<noteq> '''' \<and> ToLower kind = kind \<and> clean model"
    using optional_object_Inr [OF r(2)] parse_models_clean [of path _ "[]" models] by auto
  moreover have "ToLower key = key" "key \<notin> set [''aws'', ''gcp'', ''azure'']"
    using assms(2) by (auto simp: normalizeMCPProviderPolicyKey_def Let_def split: if_splits)
  ultimately show ?thesis
    using assms(3) readStringList_clean [OF r(1)] by (simp add: clean_provider_def r(3-5) asString_trimmed)
qed

lemma parse_providers_clean:
  "parse_providers obj out = Inr ps \<Longrightarrow> distinct (map fst out) \<and> list_all clean_provider out \<Longrightarrow>
   distinct (map fst ps) \<and> list_all clean_provider ps"
proof (induction obj out rule: parse_providers.induct)
  case (2 provName provRaw rest out)
  from 2(2) obtain key obj rule where ok: "normalizeMCPProviderPolicyKey provName = Inr key" "key \<noteq> ''''" "asMap provRaw = Some obj"
      "parse_provider_rule (''policies.mcp.providers.'' @ provName) obj = Inr rule"
    and rest: "parse_providers rest (AList.update key rule out) = Inr ps"
    by (auto simp: andThen_eq_Inr split: if_splits option.splits)
  have "distinct (map fst (AList.update key rule out)) \<and> list_all clean_provider (AList.update key rule out)"
    using 2(3) provider_rule_clean [OF ok(4,1,2)]
    by (auto simp: distinct_update list_all_iff dest!: update_elem)
  with rest show ?case using 2(1) [OF ok(2,3), of rule] by blast
qed simp

lemma ParseMCPPolicy_clean: "ParseMCPPolicy p = Inr policy \<Longrightarrow> clean_policy policy"
proof -
  have e: "clean_rules empty_rules" "clean_policy empty_mcp_policy"
    by (simp_all add: clean_rules_def empty_rules_def clean_policy_def empty_mcp_policy_def)
  have ps: "optional_object path v [] (\<lambda>m. parse_providers m []) = Inr ps \<Longrightarrow> distinct (map fst ps) \<and> list_all clean_provider ps"
    for path v ps using parse_providers_clean [of _ "[]" ps] by (auto dest!: optional_object_Inr)
  have rs: "optional_object path v empty_rules (parseMCPPolicyRuleSet path') = Inr r \<Longrightarrow> clean_rules r" for path path' v r
    using e(1) rules_clean by (auto dest!: optional_object_Inr)
  assume p: "ParseMCPPolicy p = Inr policy"
  show ?thesis
  proof (cases p)
    case None then show ?thesis using p e by (simp add: ParseMCPPolicy_def)
  next
    case (Some m)
    from optional_object_Inr [OF p [unfolded ParseMCPPolicy_def Some option.case]]
    show ?thesis using e rs ps by (auto simp: andThen_eq_Inr clean_policy_def)
  qed
qed

text \<open>
  C28. The MCP sections that are read without an error are in normal form: each server has one entry under a trimmed
  name with an address, no pattern and no region of a rule is blank, so that every rule can match, and the rules of
  providers are kept under lower-case ids, once for each, never under the refused names aws, gcp and azure.
\<close>

theorem mcp_config_normal:
  assumes "ParseMCPIntegrations integrations = Inr servers" and "ParseMCPPolicy policies = Inr policy"
  shows "clean_servers servers \<and> clean_policy policy"
  using ParseMCPIntegrations_clean [OF assms(1)] ParseMCPPolicy_clean [OF assms(2)] by simp

definition ex_integrations :: anymap where
  "ex_integrations = [(''mcp'', AMap [(''servers'', AMap [('' db '', AMap [(''url'', AStr '' http://db'')])])])]"

definition ex_policies :: anymap where
  "ex_policies = [(''mcp'', AMap [(''allow'', AMap [(''tools'', AList [AStr '' db.* ''])]),
     (''providers'', AMap [(''AWS-Lambda'', AMap [(''denyRegions'', AList [AStr ''us-*''])])])])]"

lemma ex_parsed:
  "ParseMCPIntegrations (Some ex_integrations) = Inr \<lparr>mi_Servers = [(''db'', \<lparr>msc_URL = ''http://db''\<rparr>)]\<rparr>"
  "ParseMCPPolicy (Some ex_policies) = Inr \<lparr>mp_DefaultDeny = False, mp_Allow = empty_rules\<lparr>mrs_Tools := [''db.*'']\<rparr>, mp_Deny = empty_rules,
     mp_Providers = [(''aws-lambda'', \<lparr>mpr_RequiredRegion = '''', mpr_RequiredAuth = '''', mpr_DenyCrossRegion = False,
       mpr_DenyRegions = [''us-*''], mpr_Models = []\<rparr>)]\<rparr>"
  by code_simp+

theorem mcp_config_normal_witness:
  "clean_servers \<lparr>mi_Servers = [(''db'', \<lparr>msc_URL = ''http://db''\<rparr>)]\<rparr> \<and>
   clean_policy \<lparr>mp_DefaultDeny = False, mp_Allow = empty_rules\<lparr>mrs_Tools := [''db.*'']\<rparr>, mp_Deny = empty_rules,
     mp_Providers = [(''aws-lambda'', \<lparr>mpr_RequiredRegion = '''', mpr_RequiredAuth = '''', mpr_DenyCrossRegion = False,
       mpr_DenyRegions = [''us-*''], mpr_Models = []\<rparr>)]\<rparr>"
  by (rule mcp_config_normal [OF ex_parsed])

end
