(* ===== verification/Step_Claims.thy ===== *)
theory Step_Claims
  imports Step_Kinds MCP_Glob_Claims MCP_Config_Claims
begin

text \<open>
  Properties of the step handler: which MCP calls leave the process, how often and after which waits, what the
  metadata of a step says of them.
\<close>

section \<open>What a policy permits\<close>

text \<open>What the checks compare, with the matcher of the code.\<close>

definition matches_any :: "string list \<Rightarrow> string \<Rightarrow> bool" where
  "matches_any ps v \<longleftrightarrow> (\<exists>p \<in> set ps. wildcardMatch p v)"

definition region_denied :: "mcp_runtime \<Rightarrow> bool" where
  "region_denied r \<longleftrightarrow> mr_Provider r \<noteq> '''' \<and> mr_ActiveRegion r \<noteq> '''' \<and>
     (case map_of (mp_Providers (mr_Policy r)) (mr_Provider r) of
        None \<Rightarrow> False
      | Some pp \<Rightarrow>
          (mpr_DenyCrossRegion pp \<and> mpr_RequiredRegion pp \<noteq> '''' \<and> mr_ActiveRegion r \<noteq> mpr_RequiredRegion pp) \<or>
          matches_any (mpr_DenyRegions pp) (mr_ActiveRegion r))"

definition permitted :: "mcp_runtime \<Rightarrow> mcp_action \<Rightarrow> string \<Rightarrow> string \<Rightarrow> bool" where
  "permitted r action server target \<longleftrightarrow>
     (let policy = mr_Policy r; compound = server @ ''.'' @ target in
      clean server \<and> clean target \<and> map_of (mi_Servers (mr_Integrations r)) server \<noteq> None \<and>
      \<not> matches_any (mrs_Servers (mp_Deny policy)) server \<and>
      \<not> matches_any (ruleSetByAction (mp_Deny policy) action) compound \<and>
      \<not> region_denied r \<and>
      (matches_any (mrs_Servers (mp_Allow policy)) server \<or>
       matches_any (ruleSetByAction (mp_Allow policy) action) compound \<or> \<not> mp_DefaultDeny policy))"

lemma firstMatch_None: "firstMatch ps v = None \<longleftrightarrow> \<not> matches_any ps v"
  by (induction ps) (auto simp: matches_any_def)

lemma matches_iff: "matches_any ps v \<longleftrightarrow> firstMatch ps v \<noteq> None"
  by (simp add: firstMatch_None)

lemma appendMetadataRecord_cases:
  "appendMetadataRecord key rec w =
     (case jget (sw_Metadata w) key of
        JNull \<Rightarrow> (Inr (), sw_Metadata_update (jput key (JArr [JObj rec])) w)
      | JArr arr \<Rightarrow> (Inr (), sw_Metadata_update (jput key (JArr (arr @ [JObj rec]))) w)
      | v \<Rightarrow> (Inl (StepError (''metadata['' @ key @ ''] has unexpected type '' @ json_type v)), w))"
  by (simp add: appendMetadataRecord_def bindE_apply split: json.split)

lemma jget_jput [simp]: "jget (jput k v m) k' = (if k' = k then v else jget m k')"
  by (auto simp: jget_def jput_def update_conv')

text \<open>The part of a step's metadata that audits its calls is a list of records, or missing.\<close>

definition audit_list :: "gomap \<Rightarrow> string \<Rightarrow> bool" where
  "audit_list md key \<longleftrightarrow> (case jget md key of JNull \<Rightarrow> True | JArr arr \<Rightarrow> True | _ \<Rightarrow> False)"

definition audit_records :: "gomap \<Rightarrow> string \<Rightarrow> json list" where
  "audit_records md key = (case jget md key of JArr arr \<Rightarrow> arr | _ \<Rightarrow> [])"

lemma append_record:
  assumes "audit_list (sw_Metadata w) key"
  obtains w' where "appendMetadataRecord key rec w = (Inr (), w')" and "audit_list (sw_Metadata w') key"
    and "audit_records (sw_Metadata w') key = audit_records (sw_Metadata w) key @ [JObj rec]"
    and "\<And>k. k \<noteq> key \<Longrightarrow> jget (sw_Metadata w') k = jget (sw_Metadata w) k"
    and "sw_Calls w' = sw_Calls w" "sw_Sleeps w' = sw_Sleeps w"
  using assms by (cases "jget (sw_Metadata w) key")
    (auto simp: appendMetadataRecord_cases audit_list_def audit_records_def)

lemma append_record_Inr:
  assumes "appendMetadataRecord key rec w = (Inr u, w')"
  shows "audit_list (sw_Metadata w) key"
  using assms by (auto simp: appendMetadataRecord_cases audit_list_def split: json.splits)

lemma deny_fails: "fst (denyDecision action server target reason w) \<noteq> Inr u"
  by (auto simp: denyDecision_def bindE_apply split: prod.splits sum.splits)

lemma provider_check_Inr:
  assumes "provider_check r action server target w = (Inr u, w')" shows "\<not> region_denied r"
  using assms deny_fails [of action server target _ w]
  by (auto simp: provider_check_def enforceProviderPolicy_def region_denied_def matches_any_def
      split: if_splits option.splits) (metis fst_conv)+

lemma ensureAllowed_Inr:
  assumes "ensureAllowed r action server target w = (Inr u, w')"
  shows "permitted r action (TrimSpace server) (TrimSpace target)"
proof -
  let ?s = "TrimSpace server" and ?t = "TrimSpace target"
  have no: "denyDecision action ?s ?t reason w1 \<noteq> (Inr u, w')" for reason w1
    using deny_fails [of action ?s ?t reason w1 u] by (metis fst_conv)
  have guards: "?s \<noteq> ''''" "?t \<noteq> ''''" "map_of (mi_Servers (mr_Integrations r)) ?s \<noteq> None"
      "firstMatch (mrs_Servers (mp_Deny (mr_Policy r))) ?s = None"
      "firstMatch (ruleSetByAction (mp_Deny (mr_Policy r)) action) (?s @ ''.'' @ ?t) = None"
    using assms no unfolding ensureAllowed_def Let_def by (auto split: if_splits option.splits)
  then obtain w1 where p: "provider_check r action ?s ?t w = (Inr (), w1)"
    and a: "allow_check r action ?s ?t w1 = (Inr u, w')"
    using assms no unfolding ensureAllowed_def Let_def by (auto split: if_splits elim!: bindE_Inr_E)
  have "matches_any (mrs_Servers (mp_Allow (mr_Policy r))) ?s \<or>
      matches_any (ruleSetByAction (mp_Allow (mr_Policy r)) action) (?s @ ''.'' @ ?t) \<or> \<not> mp_DefaultDeny (mr_Policy r)"
    using a no unfolding allow_check_def Let_def
    by (auto split: if_splits option.splits simp: matches_iff)
  then show ?thesis
    using guards provider_check_Inr [OF p] by (simp add: permitted_def Let_def firstMatch_None clean_def)
qed

section \<open>What an action sends out\<close>

text \<open>
  \<open>effects r W k m\<close>: whatever its outcome, \<open>m\<close> makes at most \<open>k\<close> calls of the MCP client, all permitted by \<open>r\<close>, and at
  most \<open>k\<close> waits, all satisfying \<open>W\<close>.
\<close>

definition call_permitted :: "mcp_runtime \<Rightarrow> mcp_call \<Rightarrow> bool" where
  "call_permitted r c \<longleftrightarrow> permitted r (mc_Action c) (mc_Server c) (mc_Target c)"

definition effects :: "mcp_runtime \<Rightarrow> (int \<Rightarrow> bool) \<Rightarrow> nat \<Rightarrow> 'a step_act \<Rightarrow> bool" where
  "effects r W k m \<longleftrightarrow> (\<forall>w. \<exists>cs ds. sw_Calls (snd (m w)) = sw_Calls w @ cs \<and> sw_Sleeps (snd (m w)) = sw_Sleeps w @ ds \<and>
     length cs \<le> k \<and> length ds \<le> k \<and> list_all (call_permitted r) cs \<and> list_all W ds)"

lemma effectsD:
  assumes "effects r W k m" and "m w = (x, w')"
  obtains cs ds where "sw_Calls w' = sw_Calls w @ cs" "sw_Sleeps w' = sw_Sleeps w @ ds" "length cs \<le> k" "length ds \<le> k"
    "list_all (call_permitted r) cs" "list_all W ds"
  using assms unfolding effects_def by (metis snd_conv)

lemma effects_quiet:
  "(\<And>w. sw_Calls (snd (m w)) = sw_Calls w \<and> sw_Sleeps (snd (m w)) = sw_Sleeps w) \<Longrightarrow> effects r W k m"
  unfolding effects_def by (intro allI exI [of _ "[]"]) simp

lemma effects_mono: "effects r W k m \<Longrightarrow> k \<le> l \<Longrightarrow> effects r W l m"
  unfolding effects_def by (meson le_trans)

lemma effects_bind:
  assumes "effects r W k m" and "\<And>a. effects r W l (f a)"
  shows "effects r W (k + l) (bindE m f)"
  unfolding effects_def
proof
  fix w
  obtain x w1 where m: "m w = (x, w1)" by (cases "m w") auto
  obtain cs ds where 1: "sw_Calls w1 = sw_Calls w @ cs" "sw_Sleeps w1 = sw_Sleeps w @ ds" "length cs \<le> k" "length ds \<le> k"
      "list_all (call_permitted r) cs" "list_all W ds"
    by (rule effectsD [OF assms(1) m])
  show "\<exists>cs ds. sw_Calls (snd (bindE m f w)) = sw_Calls w @ cs \<and> sw_Sleeps (snd (bindE m f w)) = sw_Sleeps w @ ds \<and>
      length cs \<le> k + l \<and> length ds \<le> k + l \<and> list_all (call_permitted r) cs \<and> list_all W ds"
  proof (cases x)
    case (Inl e)
    then show ?thesis using 1 by (auto simp: bindE_apply m intro!: exI [of _ cs] exI [of _ ds])
  next
    case (Inr a)
    obtain y w2 where f: "f a w1 = (y, w2)" by (cases "f a w1") auto
    obtain cs' ds' where 2: "sw_Calls w2 = sw_Calls w1 @ cs'" "sw_Sleeps w2 = sw_Sleeps w1 @ ds'" "length cs' \<le> l" "length ds' \<le> l"
        "list_all (call_permitted r) cs'" "list_all W ds'"
      by (rule effectsD [OF assms(2) f])
    show ?thesis using 1 2 by (auto simp: bindE_apply m Inr f intro!: exI [of _ "cs @ cs'"] exI [of _ "ds @ ds'"])
  qed
qed

lemma effects_bind0: "effects r W 0 m \<Longrightarrow> (\<And>a. effects r W l (f a)) \<Longrightarrow> effects r W l (bindE m f)"
  using effects_bind [of r W 0 m l f] by simp

lemma effects_then: "effects r W k m \<Longrightarrow> (\<And>a. effects r W 0 (f a)) \<Longrightarrow> effects r W k (bindE m f)"
  using effects_bind [of r W k m 0 f] by simp

named_theorems quiet \<open>actions that make no calls and no waits\<close>

lemma quiet_return [quiet]: "effects r W k (returnE a)" by (rule effects_quiet) simp
lemma quiet_throw [quiet]: "effects r W k (throwE e)" by (rule effects_quiet) simp
lemma quiet_fails [quiet]: "effects r W k (step_fails step msg)" by (simp add: step_fails_def quiet)
lemma quiet_get [quiet]: "effects r W k (getE f)" by (rule effects_quiet) simp

lemma quiet_append [quiet]: "effects r W k (appendMetadataRecord key rec)"
  by (rule effects_quiet) (simp add: appendMetadataRecord_cases split: json.split)

lemma quiet_decision [quiet]: "effects r W k (appendMCPPolicyDecision action server target outcome reason)"
  by (simp add: appendMCPPolicyDecision_def quiet)

lemma quiet_deny [quiet]: "effects r W k (denyDecision action server target reason)"
  unfolding denyDecision_def by (intro effects_bind0 quiet)

lemma quiet_correlation [quiet]: "effects r W k (appendMCPCorrelation action server target run step)"
  by (simp add: appendMCPCorrelation_def quiet)

lemma quiet_provider [quiet]: "effects r W k (provider_check r' action server target)"
  by (auto simp: provider_check_def enforceProviderPolicy_def quiet split: option.split)

lemma quiet_allow [quiet]: "effects r W k (allow_check r' action server target)"
  by (auto simp: allow_check_def Let_def quiet split: option.split)

lemma quiet_ensure [quiet]: "effects r W k (ensureAllowed r' action server target)"
  by (auto simp: ensureAllowed_def Let_def quiet intro!: effects_bind0 split: option.split)

lemma quiet_result [quiet]: "effects r W k (result_of output)"
  by (rule effects_quiet) (simp add: result_of_def)

lemma quiet_finish [quiet]: "effects r W k (finish_ai a raw output)"
  by (rule effects_quiet) (simp add: finish_ai_def result_of_def)

lemma quiet_eval [quiet]: "effects r W k (finish_eval a score threshold output)"
  by (simp add: finish_eval_def Let_def quiet)

lemma quiet_needs [quiet]: "effects r W k (needs_llm a step what)"
  by (auto simp: needs_llm_def quiet split: option.split)

lemma quiet_model [quiet]: "effects r W k get_model"
  by (simp add: get_model_def quiet)

lemma quiet_llm [quiet]: "effects r W k (llm_call step kind c f)"
  by (rule effects_quiet) (simp add: llm_call_def Let_def split: sum.split)

lemma quiet_select [quiet]: "effects r W k (select_model a kind step)"
  by (rule effects_quiet) (simp add: select_model_def Let_def split: option.split)

lemma quiet_cost [quiet]: "effects r W k (record_step_cost a step res)"
  by (rule effects_quiet) (simp add: record_step_cost_def split: option.split)

section \<open>Retries\<close>

text \<open>
  \<open>retries E W L retry\<close>: the strategy asks for another attempt only below \<open>L\<close>, after a wait satisfying \<open>W\<close>.
\<close>

definition retries :: "step_env \<Rightarrow> (int \<Rightarrow> bool) \<Rightarrow> int \<Rightarrow> retry_strategy option \<Rightarrow> bool" where
  "retries E W L retry \<longleftrightarrow> (\<forall>s a e w. retry = Some s \<longrightarrow> 1 \<le> a \<longrightarrow> a < maxRetryAttempts \<longrightarrow> ry_ShouldRetry s a e \<longrightarrow>
     a < L \<and> W (withJitter E (ry_Backoff s a) w))"

lemma effects_client:
  "permitted r action server target \<Longrightarrow>
   \<exists>cs. sw_Calls (snd (client_call action server target args f w)) = sw_Calls w @ cs \<and> length cs = 1 \<and>
     list_all (call_permitted r) cs \<and> sw_Sleeps (snd (client_call action server target args f w)) = sw_Sleeps w"
  by (simp add: client_call_def Let_def call_permitted_def)

lemma effects_attempts:
  assumes ok: "permitted r action server target" and retry: "retries E W L retry"
  shows "1 \<le> a \<Longrightarrow> a \<le> L \<Longrightarrow> effects r W (nat (L - a + 1)) (attempts E retry (client_call action server target args f) a)"
proof (induction "nat (maxRetryAttempts - a)" arbitrary: a rule: less_induct)
  case less
  let ?fn = "client_call action server target args f"
  let ?k = "nat (L - a + 1)"
  show ?case unfolding effects_def
  proof
    fix w
    obtain reply w1 where fn: "?fn w = (reply, w1)" by (cases "?fn w") auto
    obtain c where c: "sw_Calls w1 = sw_Calls w @ c" "length c = 1" "list_all (call_permitted r) c" "sw_Sleeps w1 = sw_Sleeps w"
      using effects_client [OF ok, of args f w] unfolding fn by auto
    have k: "1 \<le> ?k" using less.prems by simp
    note unfold = attempts.simps [of E retry ?fn a] fn
    show "\<exists>cs ds. sw_Calls (snd (attempts E retry ?fn a w)) = sw_Calls w @ cs \<and>
        sw_Sleeps (snd (attempts E retry ?fn a w)) = sw_Sleeps w @ ds \<and> length cs \<le> ?k \<and> length ds \<le> ?k \<and>
        list_all (call_permitted r) cs \<and> list_all W ds"
    proof (cases "\<exists>err s. reply = Inl err \<and> retry = Some s \<and> ry_ShouldRetry s a err \<and> a < maxRetryAttempts")
      case False
      then have "snd (attempts E retry ?fn a w) = w1" by (auto simp: unfold split: sum.split option.split)
      then show ?thesis using c k by (intro exI [of _ c] exI [of _ "[]"]) simp
    next
      case True
      then obtain err s where again: "reply = Inl err" "retry = Some s" "ry_ShouldRetry s a err" "a < maxRetryAttempts"
        by blast
      obtain x w2 where sl: "sleepCtx E (ry_Backoff s a) w1 = (x, w2)" by (cases "sleepCtx E (ry_Backoff s a) w1") auto
      define d where "d = withJitter E (ry_Backoff s a) w1"
      have d: "a < L" "W d" using retry again less.prems by (auto simp: retries_def d_def)
      have w2: "sw_Calls w2 = sw_Calls w @ c" "sw_Sleeps w2 = sw_Sleeps w @ [d]"
        using sl c by (auto simp: sleepCtx_def Let_def d_def split: option.splits)
      have step: "attempts E retry ?fn a w = bindE (sleepCtx E (ry_Backoff s a)) (\<lambda>_. attempts E retry ?fn (a + 1)) w1"
        using again by (simp add: attempts.simps [of E "Some s" ?fn a] fn)
      show ?thesis
      proof (cases x)
        case (Inl e)
        then show ?thesis using w2 c k d by (intro exI [of _ c] exI [of _ "[d]"]) (simp add: step bindE_apply sl)
      next
        case (Inr u)
        have "effects r W (nat (L - (a + 1) + 1)) (attempts E retry ?fn (a + 1))"
          by (rule less.hyps) (use less.prems d again in auto)
        moreover obtain y w3 where run: "attempts E retry ?fn (a + 1) w2 = (y, w3)"
          by (cases "attempts E retry ?fn (a + 1) w2") auto
        ultimately obtain cs ds where "sw_Calls w3 = sw_Calls w2 @ cs" "sw_Sleeps w3 = sw_Sleeps w2 @ ds"
          "length cs \<le> nat (L - (a + 1) + 1)" "length ds \<le> nat (L - (a + 1) + 1)"
          "list_all (call_permitted r) cs" "list_all W ds" by (rule effectsD)
        then show ?thesis using w2 c d
          by (intro exI [of _ "c @ cs"] exI [of _ "d # ds"]) (auto simp: step bindE_apply sl Inr run)
      qed
    qed
  qed
qed

lemma effects_operation:
  assumes "retries E W L retry" and "1 \<le> L" and "TrimSpace server = server" and "TrimSpace target = target"
  shows "effects r W (nat L) (mcp_operation E r run step action server target (client_call action server target args f) retry)"
proof -
  have tail: "effects r W (nat L) (bindE (callWithRetry E retry (client_call action server target args f)) (\<lambda>res.
      bindE (appendMCPCorrelation action server target run step) (\<lambda>_. returnE res)))"
    if "permitted r action server target"
    unfolding callWithRetry_def
    using effects_attempts [OF that assms(1) order_refl assms(2)] by (intro effects_then effects_bind0 quiet) simp
  show ?thesis
    unfolding effects_def
  proof
    fix w
    obtain x w1 where e: "ensureAllowed r action server target w = (x, w1)" by (cases "ensureAllowed r action server target w") auto
    have same: "sw_Calls w1 = sw_Calls w" "sw_Sleeps w1 = sw_Sleeps w"
      using effectsD [OF quiet_ensure [of r W 0 r action server target] e] by auto
    show "\<exists>cs ds. sw_Calls (snd (mcp_operation E r run step action server target (client_call action server target args f) retry w)) = sw_Calls w @ cs \<and>
        sw_Sleeps (snd (mcp_operation E r run step action server target (client_call action server target args f) retry w)) = sw_Sleeps w @ ds \<and>
        length cs \<le> nat L \<and> length ds \<le> nat L \<and> list_all (call_permitted r) cs \<and> list_all W ds"
    proof (cases x)
      case (Inl err)
      then show ?thesis by (simp add: mcp_operation_def bindE_apply e same)
    next
      case (Inr u)
      then have "permitted r action server target" using ensureAllowed_Inr [of r action server target w u w1] e assms(3,4) by simp
      from tail [OF this, unfolded effects_def, rule_format, of w1] show ?thesis
        by (simp add: mcp_operation_def bindE_apply e Inr same)
    qed
  qed
qed

section \<open>Steps\<close>

lemma asInputString_trimmed [simp]: "TrimSpace (asInputString obj key) = asInputString obj key"
  by (simp add: asInputString_def TrimSpace_Nil split: option.split json.split)

lemma binding_trimmed:
  "ParseMCPBinding input = Some b \<Longrightarrow> TrimSpace (mb_Server b) = mb_Server b \<and> TrimSpace (mb_Tool b) = mb_Tool b \<and>
     TrimSpace (mb_Resource b) = mb_Resource b \<and> TrimSpace (mb_Prompt b) = mb_Prompt b"
  by (auto simp: ParseMCPBinding_def split: option.splits json.splits)

lemma effects_optional: "effects r W k m \<Longrightarrow> effects r W k (optional_call b m)"
  by (auto simp: optional_call_def quiet intro: effects_then)

lemma effects_bindings:
  assumes "retries (ar_Env a) W L (ar_RetryStrategy a)" and "1 \<le> L" and b: "ParseMCPBinding input = Some b"
  shows "effects (ar_MCPRuntime a) W (nat L) (read_binding a run step b)"
    and "effects (ar_MCPRuntime a) W (nat L) (tool_binding a run step b)"
    and "effects (ar_MCPRuntime a) W (nat L) (prompt_binding a run step b)"
  using binding_trimmed [OF b] assms(1,2)
  by (auto simp: read_binding_def tool_binding_def prompt_binding_def ReadResource_def CallTool_def GetPrompt_def
      intro!: effects_optional effects_operation)

lemma effects_retrieve:
  assumes "retries (ar_Env a) W L (ar_RetryStrategy a)" and "1 \<le> L"
  shows "effects (ar_MCPRuntime a) W (nat L + nat L) (retrieve_docs a run step)"
proof (cases "ParseMCPBinding (sr_Input step)")
  case None then show ?thesis by (simp add: retrieve_docs_def quiet)
next
  case (Some b)
  show ?thesis
    unfolding retrieve_docs_def Some option.case
    by (rule effects_bind [OF effects_bindings(1) [OF assms Some] effects_then [OF effects_bindings(2) [OF assms Some] quiet_return]])
qed

lemma effects_generate:
  assumes "retries (ar_Env a) W L (ar_RetryStrategy a)" and "1 \<le> L"
  shows "effects (ar_MCPRuntime a) W (nat L + nat L) (generate_context a run step output)"
proof (cases "ParseMCPBinding (sr_Input step)")
  case None then show ?thesis by (simp add: generate_context_def quiet)
next
  case (Some b)
  show ?thesis
    unfolding generate_context_def Some option.case Let_def
    by (rule effects_bind [OF effects_bindings(3) [OF assms Some] effects_then [OF effects_bindings(2) [OF assms Some] quiet_return]])
qed

lemma effects_AIExecuteStep:
  assumes "retries (ar_Env a) W L (ar_RetryStrategy a)" and "1 \<le> L"
  shows "effects (ar_MCPRuntime a) W (nat L + nat L) (AIExecuteStep a run step output)"
proof -
  let ?E = "effects (ar_MCPRuntime a) W (nat L + nat L)"
  have "?E (executeAIRetrieval a run step output)"
    using effects_retrieve [OF assms] by (auto simp: executeAIRetrieval_def Let_def quiet intro: effects_then)
  moreover have "?E (executeAIGenerate a run step output)"
    unfolding executeAIGenerate_def Let_def
    by (auto simp: quiet intro!: effects_then [OF effects_generate [OF assms]] effects_bind0 quiet split: prod.split)
  moreover have "?E (executeAIStructured a run step output)"
    by (auto simp: executeAIStructured_def Let_def quiet intro!: effects_bind0 quiet split: json.split list.split)
  moreover have "?E (executeAIEval a run step output)"
    by (auto simp: executeAIEval_def Let_def quiet intro!: effects_bind0 quiet split: option.split)
  ultimately show ?thesis
    unfolding AIExecuteStep_def Let_def
    by (intro effects_bind0 [OF quiet_select] effects_then) (auto simp: quiet intro!: effects_bind0 quiet)
qed

lemma effects_TypedExecuteStep:
  assumes "retries (ar_Env a) W L (ar_RetryStrategy a)" and "1 \<le> L"
  shows "effects (ar_MCPRuntime a) W (nat L + nat L) (TypedExecuteStep (NewTypedStepHandler a) run step)"
proof -
  have set_md: "effects (ar_MCPRuntime a) W 0 (modifyE (\<lambda>w. w\<lparr>sw_Metadata := md\<rparr>))" for md
    by (rule effects_quiet) simp
  have pause: "effects (ar_MCPRuntime a) W k (\<lambda>w. (Inr (f w), w))" for k f
    by (rule effects_quiet) simp
  show ?thesis
    unfolding TypedExecuteStep_def Let_def
    by (intro effects_bind0 [OF set_md])
      (auto simp: NewTypedStepHandler_def run_with_def effects_AIExecuteStep [OF assms] DefaultCodeStepRunner_def
        DefaultApprovalStepRunner_def Let_def quiet pause)
qed

section \<open>The configured handler\<close>

lemma withJitter_range:
  assumes "\<And>k n. 0 < n \<Longrightarrow> 0 \<le> se_Rand E k n \<and> se_Rand E k n < n" and "0 < d"
  shows "d div 2 \<le> withJitter E d w \<and> withJitter E d w \<le> d"
proof -
  have "0 \<le> se_Rand E k (d div 2 + 1) \<and> se_Rand E k (d div 2 + 1) \<le> d div 2" for k
    using assms(1) [of "d div 2 + 1" k] assms(2) by simp
  then have "0 \<le> se_Rand E (length (sw_Sleeps w)) (d div 2 + 1)" "se_Rand E (length (sw_Sleeps w)) (d div 2 + 1) \<le> d div 2"
    by blast+
  moreover have "2 * (d div 2) \<le> d" by simp
  ultimately show ?thesis using assms(2) unfolding withJitter_def Let_def by auto
qed

lemma provider_retries: 
  assumes "1 \<le> a" and "a < maxRetryAttempts" and "ry_ShouldRetry (ProviderRetryStrategy p) a e"
  shows "a < 5 \<and> 0 < ry_Backoff (ProviderRetryStrategy p) a \<and> ry_Backoff (ProviderRetryStrategy p) a \<le> 50 * second"
proof -
  have "a < 5" using assms(3)
    by (auto simp: ProviderRetryStrategy_def Let_def AWSRetryStrategy_def GCPRetryStrategy_def AzureRetryStrategy_def
        DefaultRetryStrategy_def transient_def attempts_or_def split: if_splits)
  then have "a = 1 \<or> a = 2 \<or> a = 3 \<or> a = 4" using assms(1) by auto
  with assms(3) show ?thesis
    by (elim disjE) (auto simp: ProviderRetryStrategy_def transient_def attempts_or_def Let_def AWSRetryStrategy_def GCPRetryStrategy_def AzureRetryStrategy_def
        DefaultRetryStrategy_def exponential_def second_def millisecond_def wrap64_def split: if_splits)
qed

lemma configured_retries:
  "retries (ar_Env a) (\<lambda>_. True) 5 (ar_RetryStrategy a)"
  if "a = configured_runner E env llm servers policy provider region"
  using provider_retries by (auto simp: that configured_runner_def retries_def NewDefaultAIStepRunner_def Let_def)

text \<open>The rules a configuration sets for its calls.\<close>

definition configured_mcp :: "mcp_integrations \<Rightarrow> mcp_policy \<Rightarrow> provider_config \<Rightarrow> mcp_runtime" where
  "configured_mcp servers policy p =
     (let provider = ToLower (TrimSpace (pv_Name p)) in
      \<lparr>mr_Integrations = servers, mr_Policy = policy, mr_Provider = provider,
       mr_ActiveRegion = (if provider = '''' then '''' else TrimSpace (pv_Region p))\<rparr>)"

lemma configured_handler:
  assumes "NewTypedStepHandlerFromConfig E env llm integrations policies p = Inr h"
  obtains servers policy a where "ParseMCPIntegrations integrations = Inr servers" "ParseMCPPolicy policies = Inr policy"
    "h = NewTypedStepHandler a" "ar_MCPRuntime a = configured_mcp servers policy p" "ar_Env a = E"
    "ar_RetryStrategy a \<in> insert None (range (Some \<circ> ProviderRetryStrategy))"
proof -
  obtain servers policy where ok: "ParseMCPIntegrations integrations = Inr servers" "ParseMCPPolicy policies = Inr policy"
    and h: "h = NewTypedStepHandler (configured_runner E env llm servers policy (ToLower (TrimSpace (pv_Name p))) (TrimSpace (pv_Region p)))"
    using assms by (auto simp: NewTypedStepHandlerFromConfig_def andThen_def split: sum.splits)
  show ?thesis
    by (rule that [OF ok h])
      (simp_all add: configured_runner_def configured_mcp_def NewDefaultAIStepRunner_def Let_def)
qed

lemma configured_effects:
  assumes h: "NewTypedStepHandlerFromConfig E env llm integrations policies p = Inr h"
    and W: "\<And>q a e w. 1 \<le> a \<Longrightarrow> a < maxRetryAttempts \<Longrightarrow> ry_ShouldRetry (ProviderRetryStrategy q) a e \<Longrightarrow>
      W (withJitter E (ry_Backoff (ProviderRetryStrategy q) a) w)"
  obtains servers policy where "ParseMCPIntegrations integrations = Inr servers" "ParseMCPPolicy policies = Inr policy"
    "effects (configured_mcp servers policy p) W 10 (TypedExecuteStep h run step)"
proof (rule configured_handler [OF h])
  fix servers policy a
  assume ok: "ParseMCPIntegrations integrations = Inr servers" "ParseMCPPolicy policies = Inr policy"
    and a: "h = NewTypedStepHandler a" "ar_MCPRuntime a = configured_mcp servers policy p" "ar_Env a = E"
      "ar_RetryStrategy a \<in> insert None (range (Some \<circ> ProviderRetryStrategy))"
  have "retries (ar_Env a) W 5 (ar_RetryStrategy a)"
    using a(3,4) W provider_retries by (auto simp: retries_def)
  from effects_TypedExecuteStep [OF this, of run step] show ?thesis
    using that [OF ok] unfolding a(1,2) by simp
qed

section \<open>Authorization\<close>

text \<open>A configuration with one server, whose tools but one are denied, and a step that reads from it.\<close>

definition demo_provider_config :: provider_config where
  "demo_provider_config = \<lparr>pv_Name = ''aws-lambda'', pv_Runtime = ''nodejs'', pv_Region = ''eu-west-1'', pv_Source = '''',
     pv_Version = '''', pv_ServiceType = '''', pv_Image = '''', pv_Namespace = '''', pv_Backend = None\<rparr>"

definition demo_integrations :: anymap where
  "demo_integrations = [(''mcp'', AMap [(''servers'', AMap [(''db'', AMap [(''url'', AStr ''http://db'')])])])]"

definition demo_policies :: anymap where
  "demo_policies = [(''mcp'', AMap [(''deny'', AMap [(''tools'', AList [AStr ''db.*.rm''])])])]"

definition step_demo_env :: step_env where
  "step_demo_env = \<lparr>se_Tool = (\<lambda>k s t args. Inr (Some [])),
     se_Resource = (\<lambda>k s t. if k = 0 then Inl ''ThrottlingException'' else Inr (Some [])),
     se_Prompt = (\<lambda>k s t args. Inr (Some [])), se_Rand = (\<lambda>k n. 0), se_Sleep = (\<lambda>k d. None)\<rparr>"

definition demo_step :: "string \<Rightarrow> step_run" where
  "demo_step tool = \<lparr>sr_StepID = ''s1'', sr_Kind = ''ai-retrieval'',
     sr_Input = Some [(''query'', JStr ''q''), (''mcp'', JObj [(''server'', JStr ''db''), (''resource'', JStr ''r''), (''tool'', JStr tool)])],
     sr_Status = StepStatusRunning, sr_AttemptCount = 1, sr_MaxAttempts = 1, sr_TimeoutMs = 0, sr_BackoffMs = 0,
     sr_StartedAt = NoStamp, sr_EndedAt = NoStamp, sr_DurationMs = 0, sr_Error = '''', sr_Output = None, sr_Metadata = None\<rparr>"

definition demo_wf_run :: wf_run where
  "demo_wf_run = \<lparr>run_RunID = ''r1'', run_Service = ''svc'', run_Stage = ''dev'', run_Provider = '''', run_WorkflowName = ''wf'',
     run_WorkflowHash = ''h'', run_Entrypoint = '''', run_Status = RunStatusRunning, run_StartedAt = NoStamp, run_EndedAt = NoStamp,
     run_UpdatedAt = NoStamp, run_DurationMs = 0, run_CancelRequested = False, run_ReplayFromStep = '''', run_Checkpoint = None,
     run_Steps = [], run_Nodes = [], run_TotalInputTokens = 0, run_TotalOutputTokens = 0, run_EstimatedCostUSD = 0\<rparr>"

definition fresh_step_world :: step_world where
  "fresh_step_world = \<lparr>sw_Metadata = [], sw_Calls = [], sw_LLM = [], sw_Sleeps = [], sw_Costs = []\<rparr>"

definition step_demo_handler :: typed_handler where
  "step_demo_handler = (case NewTypedStepHandlerFromConfig step_demo_env (\<lambda>v. '''') (\<lambda>p r. None) (Some demo_integrations)
     (Some demo_policies) demo_provider_config of Inr h \<Rightarrow> h)"

text \<open>A text in the language of one of the patterns, where a star stands for any text.\<close>

definition in_any :: "string list \<Rightarrow> string \<Rightarrow> bool" where
  "in_any ps v \<longleftrightarrow> (\<exists>p \<in> set ps. in_wild p v)"

lemma clean_compound: "clean s \<Longrightarrow> clean t \<Longrightarrow> TrimSpace (s @ ''.'' @ t) = s @ ''.'' @ t"
  using trimmed_ends [of s] trimmed_ends [of t] by (intro TrimSpace_ends) (auto simp: clean_def)

lemma matches_in_any: "list_all clean ps \<Longrightarrow> TrimSpace v = v \<Longrightarrow> matches_any ps v \<Longrightarrow> in_any ps v"
  using wildcardMatch_sound by (fastforce simp: matches_any_def in_any_def list_all_iff clean_def)

lemma in_any_matches: "list_all clean ps \<Longrightarrow> TrimSpace v = v \<Longrightarrow> CHR ''*'' \<notin> set v \<Longrightarrow> in_any ps v \<Longrightarrow> matches_any ps v"
  by (fastforce simp: matches_any_def in_any_def list_all_iff clean_def wildcardMatch_iff)

lemma clean_rule_set: "clean_rules rules \<Longrightarrow> list_all clean (mrs_Servers rules) \<and> list_all clean (ruleSetByAction rules action)"
  by (cases action) (simp_all add: clean_rules_def ruleSetByAction_def)

text \<open>What the comparisons of the code come to, in terms of the languages of the patterns.\<close>

lemma permitted_meaning:
  assumes "permitted (configured_mcp servers policy p) action s t" and "clean_policy policy"
  shows "map_of (mi_Servers servers) s \<noteq> None"
    and "CHR ''*'' \<notin> set (s @ t) \<Longrightarrow> \<not> in_any (mrs_Servers (mp_Deny policy)) s \<and> \<not> in_any (ruleSetByAction (mp_Deny policy) action) (s @ ''.'' @ t)"
    and "in_any (mrs_Servers (mp_Allow policy)) s \<or> in_any (ruleSetByAction (mp_Allow policy) action) (s @ ''.'' @ t) \<or> \<not> mp_DefaultDeny policy"
proof -
  note p = assms(1) [unfolded permitted_def Let_def configured_mcp_def]
  have trim: "TrimSpace s = s" "TrimSpace (s @ ''.'' @ t) = s @ ''.'' @ t"
    using p clean_compound by (simp_all add: clean_def)
  have rules: "clean_rules (mp_Deny policy)" "clean_rules (mp_Allow policy)" using assms(2) by (simp_all add: clean_policy_def)
  show "map_of (mi_Servers servers) s \<noteq> None" using p by simp
  show "\<not> in_any (mrs_Servers (mp_Deny policy)) s \<and> \<not> in_any (ruleSetByAction (mp_Deny policy) action) (s @ ''.'' @ t)" if "CHR ''*'' \<notin> set (s @ t)"
    using p in_any_matches [OF _ trim(1)] in_any_matches [OF _ trim(2)] clean_rule_set [OF rules(1), of action] that by auto
  show "in_any (mrs_Servers (mp_Allow policy)) s \<or> in_any (ruleSetByAction (mp_Allow policy) action) (s @ ''.'' @ t) \<or> \<not> mp_DefaultDeny policy"
    using p matches_in_any [OF _ trim(1)] matches_in_any [OF _ trim(2)] clean_rule_set [OF rules(2), of action] by auto
qed

lemma permitted_region:
  assumes "permitted (configured_mcp servers policy p) action s t" and "clean_policy policy"
    and "map_of (mp_Providers policy) (ToLower (TrimSpace (pv_Name p))) = Some rule" and "TrimSpace (pv_Region p) \<noteq> ''''"
  shows "mpr_DenyCrossRegion rule \<Longrightarrow> mpr_RequiredRegion rule \<noteq> '''' \<Longrightarrow> TrimSpace (pv_Region p) = mpr_RequiredRegion rule"
    and "CHR ''*'' \<notin> set (TrimSpace (pv_Region p)) \<Longrightarrow> \<not> in_any (mpr_DenyRegions rule) (TrimSpace (pv_Region p))"
proof -
  have c: "clean_provider (ToLower (TrimSpace (pv_Name p)), rule)"
    using assms(2) map_of_SomeD [OF assms(3)] by (auto simp: clean_policy_def list_all_iff)
  then have "ToLower (TrimSpace (pv_Name p)) \<noteq> ''''" by (simp add: clean_provider_def)
  then have no: "\<not> (mpr_DenyCrossRegion rule \<and> mpr_RequiredRegion rule \<noteq> '''' \<and> TrimSpace (pv_Region p) \<noteq> mpr_RequiredRegion rule)"
      "\<not> matches_any (mpr_DenyRegions rule) (TrimSpace (pv_Region p))"
    using assms(1,3,4) by (auto simp: permitted_def Let_def region_denied_def configured_mcp_def)
  then show "mpr_DenyCrossRegion rule \<Longrightarrow> mpr_RequiredRegion rule \<noteq> '''' \<Longrightarrow> TrimSpace (pv_Region p) = mpr_RequiredRegion rule" by blast
  show "CHR ''*'' \<notin> set (TrimSpace (pv_Region p)) \<Longrightarrow> \<not> in_any (mpr_DenyRegions rule) (TrimSpace (pv_Region p))"
    using no(2) in_any_matches [of "mpr_DenyRegions rule" "TrimSpace (pv_Region p)"] c by (auto simp: clean_provider_def)
qed

lemma step_calls_permitted:
  assumes "NewTypedStepHandlerFromConfig E env llm integrations policies p = Inr h"
    and "ParseMCPIntegrations integrations = Inr servers" and "ParseMCPPolicy policies = Inr policy"
    and "c \<in> set (drop (length (sw_Calls w)) (sw_Calls (snd (TypedExecuteStep h run step w))))"
  shows "permitted (configured_mcp servers policy p) (mc_Action c) (mc_Server c) (mc_Target c)"
proof (rule configured_effects [OF assms(1), of "\<lambda>_. True" run step])
  fix servers' policy'
  assume ok: "ParseMCPIntegrations integrations = Inr servers'" "ParseMCPPolicy policies = Inr policy'"
    and e: "effects (configured_mcp servers' policy' p) (\<lambda>_. True) 10 (TypedExecuteStep h run step)"
  obtain cs where "sw_Calls (snd (TypedExecuteStep h run step w)) = sw_Calls w @ cs"
      "list_all (call_permitted (configured_mcp servers' policy' p)) cs"
    by (rule effectsD [OF e, of w "fst (TypedExecuteStep h run step w)" "snd (TypedExecuteStep h run step w)"]) auto
  then show ?thesis using ok assms(2-4) by (auto simp: list_all_iff call_permitted_def)
qed simp

text \<open>
  C6. The MCP policy holds. Take the handler of a configuration that names a region without a star in it, and whose rule
  for the provider, if there is one, sets \<open>denyCrossRegion\<close> if it sets \<open>requiredRegion\<close>. Every call of an MCP tool, resource or prompt that a step makes
  through it - also a retried call, and a call of a step that then fails - goes to a server the configuration
  lists; its server and target are in the language of no deny pattern, provided that they hold no star
  themselves; the region is the one the rule of the provider requires, if any, and in the language of none
  that it denies; and the call is in the language of an allow pattern unless calls are allowed by default. In
  the language of a pattern a star stands for any text. For names with a star, an unknown region and a
  required region alone, the documented policy is not enforced: see \<open>star_in_value_escapes\<close> and \<open>region_unchecked\<close>.
\<close>

theorem mcp_calls_authorized:
  assumes "NewTypedStepHandlerFromConfig E env llm integrations policies p = Inr h"
    and "ParseMCPIntegrations integrations = Inr servers" and "ParseMCPPolicy policies = Inr policy"
    and "region = TrimSpace (pv_Region p)" and "region \<noteq> ''''" and "CHR ''*'' \<notin> set region"
    and "\<forall>rule. map_of (mp_Providers policy) (ToLower (TrimSpace (pv_Name p))) = Some rule \<and> mpr_RequiredRegion rule \<noteq> '''' \<longrightarrow> mpr_DenyCrossRegion rule"
  shows "\<forall>c \<in> set (drop (length (sw_Calls w)) (sw_Calls (snd (TypedExecuteStep h run step w)))).
    let s = mc_Server c; name = mc_Server c @ ''.'' @ mc_Target c in
      map_of (mi_Servers servers) s \<noteq> None \<and>
      (CHR ''*'' \<notin> set name \<longrightarrow> \<not> in_any (mrs_Servers (mp_Deny policy)) s \<and> \<not> in_any (ruleSetByAction (mp_Deny policy) (mc_Action c)) name) \<and>
      (case map_of (mp_Providers policy) (ToLower (TrimSpace (pv_Name p))) of
         None \<Rightarrow> True
       | Some rule \<Rightarrow> mpr_RequiredRegion rule \<in> {'''', region} \<and> \<not> in_any (mpr_DenyRegions rule) region) \<and>
      (in_any (mrs_Servers (mp_Allow policy)) s \<or> in_any (ruleSetByAction (mp_Allow policy) (mc_Action c)) name \<or> \<not> mp_DefaultDeny policy)"
proof
  fix c
  assume "c \<in> set (drop (length (sw_Calls w)) (sw_Calls (snd (TypedExecuteStep h run step w))))"
  note ok = step_calls_permitted [OF assms(1-3) this] ParseMCPPolicy_clean [OF assms(3)]
  note meaning = permitted_meaning [OF ok]
  have "mpr_RequiredRegion rule \<in> {'''', region} \<and> \<not> in_any (mpr_DenyRegions rule) region"
    if "map_of (mp_Providers policy) (ToLower (TrimSpace (pv_Name p))) = Some rule" for rule
    using permitted_region [OF ok that] assms(4-7) that by (cases "mpr_RequiredRegion rule = []") auto
  then have "case map_of (mp_Providers policy) (ToLower (TrimSpace (pv_Name p))) of None \<Rightarrow> True
       | Some rule \<Rightarrow> mpr_RequiredRegion rule \<in> {'''', region} \<and> \<not> in_any (mpr_DenyRegions rule) region" by (simp split: option.split)
  with meaning show "let s = mc_Server c; name = mc_Server c @ ''.'' @ mc_Target c in
      map_of (mi_Servers servers) s \<noteq> None \<and>
      (CHR ''*'' \<notin> set name \<longrightarrow> \<not> in_any (mrs_Servers (mp_Deny policy)) s \<and> \<not> in_any (ruleSetByAction (mp_Deny policy) (mc_Action c)) name) \<and>
      (case map_of (mp_Providers policy) (ToLower (TrimSpace (pv_Name p))) of
         None \<Rightarrow> True
       | Some rule \<Rightarrow> mpr_RequiredRegion rule \<in> {'''', region} \<and> \<not> in_any (mpr_DenyRegions rule) region) \<and>
      (in_any (mrs_Servers (mp_Allow policy)) s \<or> in_any (ruleSetByAction (mp_Allow policy) (mc_Action c)) name \<or> \<not> mp_DefaultDeny policy)"
    by (simp add: Let_def)
qed

text \<open>
  A required region without \<open>denyCrossRegion\<close> is not checked, and with it only if the active region is known: what the comment at
  \<^verbatim>\<open>RequiredRegion\<close> and the reference promise is not enforced.
\<close>

definition region_rule :: "bool \<Rightarrow> mcp_provider_rule" where
  "region_rule cross = \<lparr>mpr_RequiredRegion = ''us-east-1'', mpr_RequiredAuth = '''', mpr_DenyCrossRegion = cross, mpr_DenyRegions = [], mpr_Models = []\<rparr>"

definition region_runtime :: "bool \<Rightarrow> string \<Rightarrow> mcp_runtime" where
  "region_runtime cross region = configured_mcp \<lparr>mi_Servers = []\<rparr> (empty_mcp_policy\<lparr>mp_Providers := [(''aws-lambda'', region_rule cross)]\<rparr>)
     (demo_provider_config\<lparr>pv_Region := region\<rparr>)"

lemma region_unchecked:
  "fst (provider_check (region_runtime False ''eu-west-1'') McpTool ''db'' ''ls'' fresh_step_world) = Inr ()"
  "fst (provider_check (region_runtime True '''') McpTool ''db'' ''ls'' fresh_step_world) = Inr ()"
  "fst (provider_check (region_runtime True ''eu-west-1'') McpTool ''db'' ''ls'' fresh_step_world) \<noteq> Inr ()"
  by code_simp+

lemma demo_run:
  "map mc_Target (sw_Calls (snd (TypedExecuteStep step_demo_handler demo_wf_run (demo_step ''x.rm'') fresh_step_world))) = [''r'', ''r'']"
  "map mc_Target (sw_Calls (snd (TypedExecuteStep step_demo_handler demo_wf_run (demo_step ''ls'') fresh_step_world))) = [''r'', ''r'', ''ls'']"
  by code_simp+

lemma demo_configured:
  "NewTypedStepHandlerFromConfig step_demo_env (\<lambda>v. '''') (\<lambda>p r. None) (Some demo_integrations) (Some demo_policies) demo_provider_config
     = Inr step_demo_handler"
proof -
  have "(case NewTypedStepHandlerFromConfig step_demo_env (\<lambda>v. '''') (\<lambda>p r. None) (Some demo_integrations) (Some demo_policies)
      demo_provider_config of Inl e \<Rightarrow> False | Inr h \<Rightarrow> True)" by code_simp
  then show ?thesis unfolding step_demo_handler_def by (simp split: sum.splits)
qed

text \<open>The last of the three calls of the step is one of a tool: it goes to the configured server and is not in the language of the deny pattern.\<close>

theorem mcp_calls_authorized_witness:
  "\<exists>c. c \<in> set (sw_Calls (snd (TypedExecuteStep step_demo_handler demo_wf_run (demo_step ''ls'') fresh_step_world))) \<and>
     mc_Server c = ''db'' \<and> mc_Target c = ''ls'' \<and> \<not> in_wild ''db.*.rm'' (mc_Server c @ ''.'' @ mc_Target c)"
proof -
  define calls where "calls = sw_Calls (snd (TypedExecuteStep step_demo_handler demo_wf_run (demo_step ''ls'') fresh_step_world))"
  have ok: "ParseMCPIntegrations (Some demo_integrations) = Inr \<lparr>mi_Servers = [(''db'', \<lparr>msc_URL = ''http://db''\<rparr>)]\<rparr>"
      "ParseMCPPolicy (Some demo_policies) = Inr (empty_mcp_policy\<lparr>mp_Deny := empty_rules\<lparr>mrs_Tools := [''db.*.rm'']\<rparr>\<rparr>)"
    by code_simp+
  have region: "''eu-west-1'' = TrimSpace (pv_Region demo_provider_config)" by code_simp
  have "map mc_Target calls = [''r'', ''r'', ''ls'']" unfolding calls_def by (rule demo_run(2))
  then have "''ls'' \<in> mc_Target ` set calls" by (metis list.set_intros set_map)
  then obtain c where c: "c \<in> set calls" "mc_Target c = ''ls''" by auto
  have actions: "map (\<lambda>c. (mc_Target c, action_str (mc_Action c))) calls = [(''r'', ''resource''), (''r'', ''resource''), (''ls'', ''tool'')]"
    unfolding calls_def by code_simp
  have "(mc_Target c, action_str (mc_Action c)) \<in> set (map (\<lambda>c. (mc_Target c, action_str (mc_Action c))) calls)" using c(1) by auto
  then have "action_str (mc_Action c) = ''tool''" using c(2) unfolding actions by simp
  then have tool: "mc_Action c = McpTool" by (cases "mc_Action c") simp_all
  have none: "sw_Calls fresh_step_world = []" by (simp add: fresh_step_world_def)
  have "\<forall>c \<in> set calls. let s = mc_Server c; name = mc_Server c @ ''.'' @ mc_Target c; policy = empty_mcp_policy\<lparr>mp_Deny := empty_rules\<lparr>mrs_Tools := [''db.*.rm'']\<rparr>\<rparr> in
      map_of [(''db'', \<lparr>msc_URL = ''http://db''\<rparr>)] s \<noteq> None \<and> (CHR ''*'' \<notin> set name \<longrightarrow> \<not> in_any (ruleSetByAction (mp_Deny policy) (mc_Action c)) name)"
    using mcp_calls_authorized [OF demo_configured ok region, of fresh_step_world demo_wf_run "demo_step ''ls''", folded calls_def]
    by (simp add: Let_def empty_mcp_policy_def none)
  with c(1) have "mc_Server c = ''db''" "CHR ''*'' \<notin> set (mc_Server c @ ''.'' @ mc_Target c) \<Longrightarrow> \<not> in_any [''db.*.rm''] (mc_Server c @ ''.'' @ mc_Target c)"
    by (auto simp: tool empty_mcp_policy_def empty_rules_def ruleSetByAction_def Let_def split: if_splits)
  with c have "mc_Server c = ''db''" "\<not> in_wild ''db.*.rm'' (mc_Server c @ ''.'' @ mc_Target c)" by (simp_all add: in_any_def)
  with c show ?thesis unfolding calls_def by blast
qed

section \<open>Retries of a step\<close>

text \<open>
  C27. With the retry strategy of any provider a step makes at most ten MCP calls and at most ten waits between them,
  each of at most fifty seconds, whatever the client answers.
\<close>

theorem mcp_retries_bounded:
  assumes "NewTypedStepHandlerFromConfig E env llm integrations policies p = Inr h"
    and "\<And>k n. 0 < n \<Longrightarrow> 0 \<le> se_Rand E k n \<and> se_Rand E k n < n"
  shows "length (sw_Calls (snd (TypedExecuteStep h run step w))) \<le> length (sw_Calls w) + 10 \<and>
    length (sw_Sleeps (snd (TypedExecuteStep h run step w))) \<le> length (sw_Sleeps w) + 10 \<and>
    (\<forall>d \<in> set (drop (length (sw_Sleeps w)) (sw_Sleeps (snd (TypedExecuteStep h run step w)))). 0 \<le> d \<and> d \<le> 50 * second)"
proof (rule configured_effects [OF assms(1), of "\<lambda>d. 0 \<le> d \<and> d \<le> 50 * second" run step])
  fix q a e w
  assume r: "1 \<le> a" "a < maxRetryAttempts" "ry_ShouldRetry (ProviderRetryStrategy q) a e"
  show "0 \<le> withJitter E (ry_Backoff (ProviderRetryStrategy q) a) w \<and> withJitter E (ry_Backoff (ProviderRetryStrategy q) a) w \<le> 50 * second"
    using withJitter_range [OF assms(2), of "ry_Backoff (ProviderRetryStrategy q) a" w] provider_retries [OF r] by auto
next
  fix servers policy
  assume e: "effects (configured_mcp servers policy p) (\<lambda>d. 0 \<le> d \<and> d \<le> 50 * second) 10 (TypedExecuteStep h run step)"
  obtain cs ds where "sw_Calls (snd (TypedExecuteStep h run step w)) = sw_Calls w @ cs"
      "sw_Sleeps (snd (TypedExecuteStep h run step w)) = sw_Sleeps w @ ds" "length cs \<le> 10" "length ds \<le> 10"
      "list_all (\<lambda>d. 0 \<le> d \<and> d \<le> 50 * second) ds"
    by (rule effectsD [OF e, of w "fst (TypedExecuteStep h run step w)" "snd (TypedExecuteStep h run step w)"]) auto
  then show ?thesis by (auto simp: list_all_iff)
qed

lemma demo_waits: "sw_Sleeps (snd (TypedExecuteStep step_demo_handler demo_wf_run (demo_step ''ls'') fresh_step_world)) = [50000000]"
  by code_simp

theorem mcp_retries_bounded_witness:
  "length (sw_Calls (snd (TypedExecuteStep step_demo_handler demo_wf_run (demo_step ''ls'') fresh_step_world))) \<le> 10 \<and>
   0 \<le> (50000000 :: int) \<and> (50000000 :: int) \<le> 50 * second"
  using mcp_retries_bounded [OF demo_configured, of demo_wf_run "demo_step ''ls''" fresh_step_world]
  by (simp add: demo_waits step_demo_env_def) (simp add: fresh_step_world_def)

end
