(* ===== verification/Step_Audit_Claims.thy ===== *)
theory Step_Audit_Claims
  imports Step_Claims
begin

text \<open>What the metadata of a successful step say of its MCP calls, and what the approval of a person does to a run.\<close>

section \<open>The audit\<close>

text \<open>The metadata tell of an allowed decision and of a call.\<close>

definition audited :: "gomap \<Rightarrow> wf_run \<Rightarrow> step_run \<Rightarrow> mcp_call \<Rightarrow> bool" where
  "audited md run step c \<longleftrightarrow>
     (\<exists>reason. JObj (policy_record (mc_Action c) (mc_Server c) (mc_Target c) ''allowed'' reason) \<in> set (audit_records md ''mcpPolicy'')) \<and>
     JObj (correlation_record (mc_Action c) (mc_Server c) (mc_Target c) run step) \<in> set (audit_records md ''mcpCalls'')"

definition keeps_audit :: "gomap \<Rightarrow> gomap \<Rightarrow> bool" where
  "keeps_audit md md' \<longleftrightarrow> set (audit_records md ''mcpPolicy'') \<subseteq> set (audit_records md' ''mcpPolicy'') \<and>
     set (audit_records md ''mcpCalls'') \<subseteq> set (audit_records md' ''mcpCalls'')"

lemma keeps_audit_trans: "keeps_audit a b \<Longrightarrow> keeps_audit b c \<Longrightarrow> keeps_audit a c"
  by (auto simp: keeps_audit_def)

lemma keeps_audited: "keeps_audit md md' \<Longrightarrow> audited md run step c \<Longrightarrow> audited md' run step c"
  by (auto simp: keeps_audit_def audited_def)

text \<open>A successful action audits the calls it makes and keeps the records there are.\<close>

definition audits :: "wf_run \<Rightarrow> step_run \<Rightarrow> 'a step_act \<Rightarrow> bool" where
  "audits run step m \<longleftrightarrow> (\<forall>w a w'. m w = (Inr a, w') \<longrightarrow> keeps_audit (sw_Metadata w) (sw_Metadata w') \<and>
     (\<exists>cs. sw_Calls w' = sw_Calls w @ cs \<and> list_all (audited (sw_Metadata w') run step) cs))"

lemma audits_quiet:
  "(\<And>w a w'. m w = (Inr a, w') \<Longrightarrow> keeps_audit (sw_Metadata w) (sw_Metadata w') \<and> sw_Calls w' = sw_Calls w) \<Longrightarrow> audits run step m"
  unfolding audits_def by (intro allI impI conjI exI [of _ "[]"]) auto

lemma audits_bind:
  assumes "audits run step m" and "\<And>a. audits run step (f a)"
  shows "audits run step (bindE m f)"
  unfolding audits_def
proof (intro allI impI)
  fix w b w'
  assume "bindE m f w = (Inr b, w')"
  then obtain a w1 where m: "m w = (Inr a, w1)" and f: "f a w1 = (Inr b, w')" by (rule bindE_Inr_E)
  obtain cs where 1: "keeps_audit (sw_Metadata w) (sw_Metadata w1)" "sw_Calls w1 = sw_Calls w @ cs"
      "list_all (audited (sw_Metadata w1) run step) cs"
    using assms(1) m unfolding audits_def by blast
  obtain cs' where 2: "keeps_audit (sw_Metadata w1) (sw_Metadata w')" "sw_Calls w' = sw_Calls w1 @ cs'"
      "list_all (audited (sw_Metadata w') run step) cs'"
    using assms(2) f unfolding audits_def by blast
  show "keeps_audit (sw_Metadata w) (sw_Metadata w') \<and> (\<exists>cs. sw_Calls w' = sw_Calls w @ cs \<and> list_all (audited (sw_Metadata w') run step) cs)"
    using 1 2 keeps_audit_trans [OF 1(1) 2(1)] keeps_audited [OF 2(1)] by (auto simp: list_all_iff intro!: exI [of _ "cs @ cs'"])
qed

lemma audits_keeps: "audits run step m \<Longrightarrow> m w = (Inr a, w') \<Longrightarrow> keeps_audit (sw_Metadata w) (sw_Metadata w')"
  by (auto simp: audits_def)

lemma audit_lists_append:
  assumes "appendMetadataRecord key rec w = (Inr u, w')"
  shows "keeps_audit (sw_Metadata w) (sw_Metadata w')" and "JObj rec \<in> set (audit_records (sw_Metadata w') key)"
    and "sw_Calls w' = sw_Calls w"
proof -
  obtain w1 where w1: "appendMetadataRecord key rec w = (Inr (), w1)"
    "audit_records (sw_Metadata w1) key = audit_records (sw_Metadata w) key @ [JObj rec]"
    "\<And>k. k \<noteq> key \<Longrightarrow> jget (sw_Metadata w1) k = jget (sw_Metadata w) k" "sw_Calls w1 = sw_Calls w"
    by (rule append_record [OF append_record_Inr [OF assms]]) blast
  have eq: "w1 = w'" using w1(1) assms by simp
  have other: "k \<noteq> key \<Longrightarrow> audit_records (sw_Metadata w') k = audit_records (sw_Metadata w) k" for k
    using w1(3) by (simp add: audit_records_def eq)
  show "keeps_audit (sw_Metadata w) (sw_Metadata w')"
    using w1(2) other unfolding keeps_audit_def eq by (metis Un_upper1 dual_order.refl set_append)
  show "JObj rec \<in> set (audit_records (sw_Metadata w') key)" using w1(2) by (simp add: eq)
  show "sw_Calls w' = sw_Calls w" using w1(4) by (simp add: eq)
qed

named_theorems audit \<open>actions that audit what they call\<close>

lemma audit_return [audit]: "audits run step (returnE a)"
  by (rule audits_quiet) (auto simp: keeps_audit_def)

lemma audit_throw [audit]: "audits run step (throwE e)"
  by (rule audits_quiet) simp

lemma audit_fails [audit]: "audits run step (step_fails s msg)"
  by (simp add: step_fails_def audit)

lemma audit_get [audit]: "audits run step (getE f)"
  by (rule audits_quiet) (auto simp: keeps_audit_def)

lemma audit_append [audit]: "audits run step (appendMetadataRecord key rec)"
  using audit_lists_append by (intro audits_quiet) blast

lemma audit_decision [audit]: "audits run step (appendMCPPolicyDecision action server target outcome reason)"
  by (simp add: appendMCPPolicyDecision_def audit)

lemma audit_deny [audit]: "audits run step (denyDecision action server target reason)"
  unfolding denyDecision_def by (intro audits_bind audit)

lemma audit_provider [audit]: "audits run step (provider_check r action server target)"
  by (auto simp: provider_check_def enforceProviderPolicy_def audit split: option.split)

lemma audit_result [audit]: "audits run step (result_of output)"
  by (rule audits_quiet) (auto simp: result_of_def keeps_audit_def)

lemma audit_finish [audit]: "audits run step (finish_ai a raw output)"
  by (rule audits_quiet) (auto simp: finish_ai_def result_of_def keeps_audit_def)

lemma audit_eval [audit]: "audits run step (finish_eval a score threshold output)"
  by (simp add: finish_eval_def Let_def audit)

lemma audit_needs [audit]: "audits run step (needs_llm a s what)"
  by (auto simp: needs_llm_def audit split: option.split)

lemma audit_model [audit]: "audits run step get_model"
  by (simp add: get_model_def audit)

lemma audit_llm [audit]: "audits run step (llm_call s kind c f)"
  by (rule audits_quiet) (auto simp: llm_call_def Let_def keeps_audit_def split: sum.splits)

lemma audit_select [audit]: "audits run step (select_model a kind s)"
  by (rule audits_quiet) (auto simp: select_model_def Let_def keeps_audit_def audit_records_def split: option.splits if_splits)

lemma audit_cost [audit]: "audits run step (record_step_cost a s res)"
  by (rule audits_quiet) (auto simp: record_step_cost_def keeps_audit_def split: option.splits)

text \<open>Where the check succeeds, the last decision it records is that the call is allowed.\<close>

lemma allow_check_Inr:
  assumes "allow_check r action server target w = (Inr u, w')"
  shows "\<exists>reason. appendMCPPolicyDecision action server target ''allowed'' reason w = (Inr u, w')"
  using assms deny_fails [of action server target _ w u]
  unfolding allow_check_def Let_def by (auto split: if_splits option.splits) (metis fst_conv)

lemma ensureAllowed_audits:
  assumes "ensureAllowed r action server target w = (Inr u, w')" and "TrimSpace server = server" and "TrimSpace target = target"
  shows "keeps_audit (sw_Metadata w) (sw_Metadata w') \<and> sw_Calls w' = sw_Calls w \<and>
    (\<exists>reason. JObj (policy_record action server target ''allowed'' reason) \<in> set (audit_records (sw_Metadata w') ''mcpPolicy''))"
proof -
  have no: "denyDecision action server target reason w1 \<noteq> (Inr u, w')" for reason w1
    using deny_fails [of action server target reason w1 u] by (metis fst_conv)
  have "bindE (provider_check r action server target) (\<lambda>_. allow_check r action server target) w = (Inr u, w')"
    using assms no unfolding ensureAllowed_def Let_def by (auto split: if_splits option.splits)
  then obtain v w1 where p: "provider_check r action server target w = (Inr v, w1)"
    and a: "allow_check r action server target w1 = (Inr u, w')" by (rule bindE_Inr_E)
  obtain reason where d: "appendMetadataRecord ''mcpPolicy'' (policy_record action server target ''allowed'' reason) w1 = (Inr u, w')"
    using allow_check_Inr [OF a] by (auto simp: appendMCPPolicyDecision_def)
  have 1: "keeps_audit (sw_Metadata w) (sw_Metadata w1)" by (rule audits_keeps [OF audit_provider p])
  have 2: "sw_Calls w1 = sw_Calls w" using effectsD [OF quiet_provider [of r "\<lambda>_. True" 0] p] by auto
  note 3 = audit_lists_append [OF d]
  show ?thesis using keeps_audit_trans [OF 1 3(1)] 2 3(2,3) by auto
qed

text \<open>The client changes no metadata, and all its calls are for the server and the target it is given.\<close>

lemma attempts_calls:
  "attempts E retry (client_call action server target args f) a w = (x, w') \<Longrightarrow>
   sw_Metadata w' = sw_Metadata w \<and> (\<exists>cs. sw_Calls w' = sw_Calls w @ cs \<and>
     list_all (\<lambda>c. mc_Action c = action \<and> mc_Server c = server \<and> mc_Target c = target) cs)"
proof (induction "nat (maxRetryAttempts - a)" arbitrary: a w rule: less_induct)
  case less
  let ?fn = "client_call action server target args f"
  obtain reply w1 where fn: "?fn w = (reply, w1)" by (cases "?fn w") auto
  obtain c where c: "sw_Metadata w1 = sw_Metadata w" "sw_Calls w1 = sw_Calls w @ [c]"
    "mc_Action c = action" "mc_Server c = server" "mc_Target c = target"
    using fn by (auto simp: client_call_def Let_def)
  show ?case
  proof (cases "\<exists>err s. reply = Inl err \<and> retry = Some s \<and> ry_ShouldRetry s a err \<and> a < maxRetryAttempts")
    case False
    then have "w' = w1" using less.prems
      by (auto simp: attempts.simps [of E retry ?fn a] fn split: sum.splits option.splits if_splits)
    then show ?thesis using c by auto
  next
    case True
    then obtain err s where again: "reply = Inl err" "retry = Some s" "ry_ShouldRetry s a err" "a < maxRetryAttempts" by blast
    obtain y w2 where sl: "sleepCtx E (ry_Backoff s a) w1 = (y, w2)" by (cases "sleepCtx E (ry_Backoff s a) w1") auto
    have w2: "sw_Metadata w2 = sw_Metadata w" "sw_Calls w2 = sw_Calls w @ [c]"
      using sl c by (auto simp: sleepCtx_def Let_def split: option.splits)
    have step: "bindE (sleepCtx E (ry_Backoff s a)) (\<lambda>_. attempts E retry ?fn (a + 1)) w1 = (x, w')"
      using less.prems again by (simp add: attempts.simps [of E "Some s" ?fn a] fn)
    show ?thesis
    proof (cases y)
      case (Inl e) then show ?thesis using step w2 c by (auto simp: bindE_apply sl)
    next
      case (Inr u)
      then have "attempts E retry ?fn (a + 1) w2 = (x, w')" using step by (simp add: bindE_apply sl)
      from less.hyps [OF _ this] again obtain cs where "sw_Metadata w' = sw_Metadata w2" "sw_Calls w' = sw_Calls w2 @ cs"
        "list_all (\<lambda>c. mc_Action c = action \<and> mc_Server c = server \<and> mc_Target c = target) cs" by auto
      then show ?thesis using w2 c by (auto intro!: exI [of _ "c # cs"])
    qed
  qed
qed

lemma audit_operation:
  assumes "TrimSpace server = server" and "TrimSpace target = target"
  shows "audits run step (mcp_operation E r run step action server target (client_call action server target args f) retry)"
  unfolding audits_def
proof (intro allI impI)
  fix w res w'
  assume "mcp_operation E r run step action server target (client_call action server target args f) retry w = (Inr res, w')"
  then obtain u w1 w2 v where e: "ensureAllowed r action server target w = (Inr u, w1)"
    and a: "attempts E retry (client_call action server target args f) 1 w1 = (Inr res, w2)"
    and c: "appendMCPCorrelation action server target run step w2 = (Inr v, w')"
    unfolding mcp_operation_def callWithRetry_def by (auto elim!: bindE_Inr_E)
  note 1 = ensureAllowed_audits [OF e assms]
  obtain cs where 2: "sw_Metadata w2 = sw_Metadata w1" "sw_Calls w2 = sw_Calls w1 @ cs"
      "list_all (\<lambda>c. mc_Action c = action \<and> mc_Server c = server \<and> mc_Target c = target) cs"
    using attempts_calls [OF a] by blast
  note 3 = audit_lists_append [OF c [unfolded appendMCPCorrelation_def]]
  have "keeps_audit (sw_Metadata w) (sw_Metadata w')" using 1 2(1) 3(1) keeps_audit_trans by auto
  moreover have "list_all (audited (sw_Metadata w') run step) cs"
    using 1 2 3 unfolding audited_def keeps_audit_def by (fastforce simp: list_all_iff)
  ultimately show "keeps_audit (sw_Metadata w) (sw_Metadata w') \<and>
      (\<exists>cs. sw_Calls w' = sw_Calls w @ cs \<and> list_all (audited (sw_Metadata w') run step) cs)"
    using 1 2 3(3) by auto
qed

lemma audit_optional: "audits run step m \<Longrightarrow> audits run step (optional_call b m)"
  by (auto simp: optional_call_def intro!: audits_bind audit)

lemma audit_bindings:
  assumes b: "ParseMCPBinding input = Some b"
  shows "audits run step (read_binding a run step b)" and "audits run step (tool_binding a run step b)"
    and "audits run step (prompt_binding a run step b)"
  using binding_trimmed [OF b]
  by (auto simp: read_binding_def tool_binding_def prompt_binding_def ReadResource_def CallTool_def GetPrompt_def
      intro!: audit_optional audit_operation)

lemma audit_retrieve [audit]: "audits run step (retrieve_docs a run step)"
proof (cases "ParseMCPBinding (sr_Input step)")
  case None then show ?thesis by (simp add: retrieve_docs_def audit)
next
  case (Some b)
  show ?thesis unfolding retrieve_docs_def Some option.case
    by (intro audits_bind audit_bindings [OF Some] audit_return)
qed

lemma audit_generate [audit]: "audits run step (generate_context a run step output)"
proof (cases "ParseMCPBinding (sr_Input step)")
  case None then show ?thesis by (simp add: generate_context_def audit)
next
  case (Some b)
  show ?thesis unfolding generate_context_def Some option.case Let_def
    by (intro audits_bind audit_bindings [OF Some] audit_return)
qed

lemma audit_AIExecuteStep: "audits run step (AIExecuteStep a run step output)"
proof -
  have "audits run step (executeAIRetrieval a run step output)"
    by (auto simp: executeAIRetrieval_def Let_def audit intro!: audits_bind)
  moreover have "audits run step (executeAIGenerate a run step output)"
    by (auto simp: executeAIGenerate_def Let_def audit intro!: audits_bind split: prod.split)
  moreover have "audits run step (executeAIStructured a run step output)"
    by (auto simp: executeAIStructured_def Let_def audit intro!: audits_bind split: json.split list.split)
  moreover have "audits run step (executeAIEval a run step output)"
    by (auto simp: executeAIEval_def Let_def audit intro!: audits_bind split: option.split)
  ultimately show ?thesis
    unfolding AIExecuteStep_def Let_def by (intro audits_bind audit) (auto simp: audit)
qed

text \<open>The metadata of a result are those the step has at its end.\<close>

definition returns_metadata :: "step_result option step_act \<Rightarrow> bool" where
  "returns_metadata m \<longleftrightarrow> (\<forall>w res w'. m w = (Inr (Some res), w') \<longrightarrow> res_Metadata res = Some (sw_Metadata w'))"

lemma returns_bind: "(\<And>a. returns_metadata (f a)) \<Longrightarrow> returns_metadata (bindE m f)"
  by (force simp: returns_metadata_def elim!: bindE_Inr_E)

lemma returns_ends: "returns_metadata (result_of output)" "returns_metadata (finish_ai a raw output)"
  "returns_metadata (finish_eval a score threshold output)" "returns_metadata (step_fails step msg)" "returns_metadata (throwE e)"
  by (auto simp: returns_metadata_def result_of_def finish_ai_def finish_eval_def Let_def step_fails_def)

lemma returns_AI: "returns_metadata (AIExecuteStep a run step output)"
proof -
  have cost: "returns_metadata (bindE m (\<lambda>res. bindE (record_step_cost a step res) (\<lambda>_. returnE res)))"
    if "returns_metadata m" for m
    using that by (fastforce simp: returns_metadata_def record_step_cost_def split: option.splits elim!: bindE_Inr_E)
  have "returns_metadata (executeAIRetrieval a run step output)" "returns_metadata (executeAIGenerate a run step output)"
    by (auto simp: executeAIRetrieval_def executeAIGenerate_def Let_def returns_ends intro!: returns_bind split: prod.split)
  moreover have "returns_metadata (executeAIStructured a run step output)" "returns_metadata (executeAIEval a run step output)"
    by (auto simp: executeAIStructured_def executeAIEval_def Let_def returns_ends intro!: returns_bind
        split: json.split list.split option.split)
  ultimately show ?thesis unfolding AIExecuteStep_def Let_def by (intro returns_bind cost) (auto simp: returns_ends)
qed

lemma returns_Typed: "returns_metadata (TypedExecuteStep (NewTypedStepHandler a) run step)"
proof -
  have pause: "returns_metadata (\<lambda>w. (Inr (Some \<lparr>res_Output = out, res_Metadata = Some (sw_Metadata w), res_Pause = True, res_PauseReason = why\<rparr>), w))"
    for out why by (simp add: returns_metadata_def)
  show ?thesis
    unfolding TypedExecuteStep_def Let_def
    by (intro returns_bind)
      (auto simp: NewTypedStepHandler_def run_with_def returns_AI DefaultCodeStepRunner_def DefaultApprovalStepRunner_def
        Let_def returns_ends pause)
qed

lemma Typed_calls:
  assumes "TypedExecuteStep (NewTypedStepHandler a) run step w = (Inr res, w')"
  shows "\<exists>cs. sw_Calls w' = sw_Calls w @ cs \<and> list_all (audited (sw_Metadata w') run step) cs"
proof -
  have pause: "audits run step (\<lambda>w. (Inr (f w), w))" for f
    by (rule audits_quiet) (auto simp: keeps_audit_def)
  let ?kind = "step_kind step"
  let ?out = "[(''kind'', JStr ?kind), (''stepId'', JStr (sr_StepID step))]"
  have "audits run step
     (if ?kind = ''code'' then run_with ''code'' (th_CodeRunner (NewTypedStepHandler a)) run step ?out
      else if ?kind \<in> set aiKinds then run_with ''ai'' (th_AIRunner (NewTypedStepHandler a)) run step ?out
      else if ?kind = ''human-approval'' then run_with ''approval'' (th_ApprovalRunner (NewTypedStepHandler a)) run step ?out
      else throwE (StepError (''unsupported workflow step kind '' @ quoted (sr_Kind step) @
        '' (allowed: code, ai-retrieval, ai-generate, ai-structured, ai-eval, human-approval)'')))"
    by (auto simp: NewTypedStepHandler_def run_with_def audit_AIExecuteStep DefaultCodeStepRunner_def
        DefaultApprovalStepRunner_def Let_def audit pause)
  from this [unfolded audits_def, rule_format, of "w\<lparr>sw_Metadata := step_metadata ?kind run step\<rparr>" res w'] assms
  show ?thesis unfolding TypedExecuteStep_def Let_def by (simp add: bindE_apply)
qed

text \<open>
  C21. When a step succeeds, the metadata of its result hold for every MCP call it has made the decision that the call
  was allowed and the call with the ids of the run and the step and the hash of the workflow.
\<close>

theorem successful_calls_audited:
  assumes "NewTypedStepHandlerFromConfig E env llm integrations policies p = Inr h"
    and "TypedExecuteStep h run step w = (Inr (Some res), w')"
  shows "\<exists>md. res_Metadata res = Some md \<and>
    (\<forall>c \<in> set (drop (length (sw_Calls w)) (sw_Calls w')). audited md run step c)"
proof (rule configured_handler [OF assms(1)])
  fix servers policy a
  assume h: "h = NewTypedStepHandler a"
  have "res_Metadata res = Some (sw_Metadata w')"
    using returns_Typed [of a run step] assms(2) unfolding h returns_metadata_def by blast
  then show ?thesis using Typed_calls [OF assms(2) [unfolded h]] by (auto simp: list_all_iff)
qed

definition demo_outcome :: "(step_error + step_result option) \<times> step_world" where
  "demo_outcome = TypedExecuteStep step_demo_handler demo_wf_run (demo_step ''ls'') fresh_step_world"

lemma demo_succeeds: "(case fst demo_outcome of Inr (Some res) \<Rightarrow> True | _ \<Rightarrow> False)"
  unfolding demo_outcome_def by code_simp

theorem successful_calls_audited_witness:
  "\<exists>res md. fst demo_outcome = Inr (Some res) \<and> res_Metadata res = Some md \<and> length (sw_Calls (snd demo_outcome)) = 3 \<and>
     (\<forall>c \<in> set (sw_Calls (snd demo_outcome)). audited md demo_wf_run (demo_step ''ls'') c)"
proof -
  obtain res where res: "fst demo_outcome = Inr (Some res)" using demo_succeeds by (auto split: sum.splits option.splits)
  then have run: "TypedExecuteStep step_demo_handler demo_wf_run (demo_step ''ls'') fresh_step_world = (Inr (Some res), snd demo_outcome)"
    unfolding demo_outcome_def by (metis prod.collapse)
  have "length (sw_Calls (snd demo_outcome)) = 3"
    using arg_cong [OF demo_run(2), of length] by (simp add: demo_outcome_def)
  then show ?thesis
    using successful_calls_audited [OF demo_configured run] res by (auto simp: fresh_step_world_def)
qed

section \<open>Approval\<close>

text \<open>What a step of kind human-approval does, by the decision in its input.\<close>

definition approval_outcome :: "wf_run \<Rightarrow> step_run \<Rightarrow> step_error + bool \<times> string" where
  "approval_outcome run step =
     (let d = ToLower (asInputString (sr_Input step) ''approvalDecision'') in
      if d = '''' then Inr (True, ''awaiting_approval'')
      else if d = ''approve'' \<or> d = ''approved'' then Inr (False, ''approved'')
      else if d = ''reject'' \<or> d = ''rejected'' then Inr (False, ''rejected'')
      else Inl (StepError (''step '' @ sr_StepID step @ '' human approval decision '' @ quoted d @
        '' is invalid (use approve/approved/reject/rejected)'')))"

definition seen_outcome :: "step_error + step_result option \<Rightarrow> step_error + bool \<times> string" where
  "seen_outcome x = (case x of Inl e \<Rightarrow> Inl e | Inr None \<Rightarrow> Inr (False, '''')
     | Inr (Some res) \<Rightarrow> Inr (res_Pause res, case jget (copyMap (res_Output res)) ''status'' of JStr s \<Rightarrow> s | _ \<Rightarrow> ''''))"

text \<open>
  A step of kind human-approval pauses the run exactly while its input has no decision; a decision other than
  approve, approved, reject and rejected is an error, and a rejection lets the step succeed with the status rejected.
  No call leaves the process.
\<close>

theorem human_approval_outcomes:
  assumes "NewTypedStepHandlerFromConfig E env llm integrations policies p = Inr h"
    and "ToLower (TrimSpace (sr_Kind step)) = ''human-approval''"
  shows "seen_outcome (fst (TypedExecuteStep h run step w)) = approval_outcome run step \<and>
    sw_Calls (snd (TypedExecuteStep h run step w)) = sw_Calls w \<and> sw_LLM (snd (TypedExecuteStep h run step w)) = sw_LLM w"
proof (rule configured_handler [OF assms(1)])
  fix servers policy a
  assume h: "h = NewTypedStepHandler a"
  have k: "step_kind step = ''human-approval''" by (simp add: step_kind_def assms(2))
  show ?thesis
    by (simp add: h TypedExecuteStep_def k NewTypedStepHandler_def run_with_def aiKinds_def DefaultApprovalStepRunner_def bindE_apply
        Let_def approval_outcome_def seen_outcome_def result_of_def step_fails_def copyMap_def approval_verdict_def)
qed

definition approval_step :: "string \<Rightarrow> step_run" where
  "approval_step decision = (demo_step '''')\<lparr>sr_Kind := ''human-approval'', sr_Input := Some [(''approvalDecision'', JStr decision)]\<rparr>"

theorem human_approval_outcomes_witness:
  "seen_outcome (fst (TypedExecuteStep step_demo_handler demo_wf_run (approval_step ''Rejected'') fresh_step_world)) = Inr (False, ''rejected'') \<and>
   seen_outcome (fst (TypedExecuteStep step_demo_handler demo_wf_run (approval_step '''') fresh_step_world)) = Inr (True, ''awaiting_approval'')"
proof -
  have k: "ToLower (TrimSpace (sr_Kind (approval_step d))) = ''human-approval''" for d
    unfolding approval_step_def by simp code_simp
  have "approval_outcome demo_wf_run (approval_step ''Rejected'') = Inr (False, ''rejected'')"
    "approval_outcome demo_wf_run (approval_step '''') = Inr (True, ''awaiting_approval'')" by code_simp+
  then show ?thesis using human_approval_outcomes [OF demo_configured k] by simp
qed

end
