(* ===== verification/Spec2Isabelle.thy ===== *)
theory Spec2Isabelle
  imports Runtime_Claims Runtime_Progress Run_Claims Deploy_Claims Router_Claims Router_Restore_Claims Policy_Claims
    Compose_Claims Locks_Claims Config_Check_Claims Registry_Claims Registry_Upload_Claims
    Registry_Artifact_Claims Step_Audit_Claims MCP_Config_Claims
begin

text \<open>
  Verification library of runfabric, a tool that deploys serverless functions to several clouds, runs
  workflows and steers DNS between the deployments. The model follows the Go sources under \<^verbatim>\<open>src/\<close>.

  \<^bold>\<open>Conventions.\<close> A Go function with effects is a function from a world to an error or a value and
  the world it leaves (\<open>act\<close> in \<open>Prelude\<close>); effects made before an error stay made, and \<^verbatim>\<open>defer\<close> is
  \<open>finallyE\<close>. Time, file errors, crashes and the answers of handlers and plugins are read from
  streams in the world or from parameters, so a theorem about all worlds covers all of them. Strings are
  byte lists, integers are unbounded where the code only counts, wrapped at 64 bits (\<open>wrap64\<close>) where it
  can overflow, and floating point is exact rounding to doubles (\<open>Float64\<close>).

  \<^bold>\<open>Workflow runs\<close> (\<^verbatim>\<open>platform/core/state/core/runs.go\<close>, \<^verbatim>\<open>state/runstore/local.go\<close>,
  \<^verbatim>\<open>platform/workflow/runtime/workflow_runtime.go\<close>). \<open>Run_State\<close> has the run, step and checkpoint
  records and the run files; \<open>Run_Store\<close> the local store with its compare-and-swap and the locale
  \<open>run_store\<close> of what the runtime needs from a store, interpreted on both backends; \<open>Workflow_Runtime\<close>
  every operation of the runtime: create, start, resume, cancel, replay, approve. \<open>Runtime_Invariant\<close>
  states the invariant of stored runs in the locale \<open>durable_runtime\<close>; \<open>Runtime_Safety\<close>,
  \<open>Runtime_Results\<close>, \<open>Runtime_Calls\<close>, \<open>Runtime_Cases\<close> and \<open>Runtime_Progress\<close> show in turn that every
  operation keeps it, what is returned on every path, how often handlers are called, the cases of
  crashes, cancels and replays, and that an undisturbed run succeeds. \<open>Runtime_Claims\<close> and
  \<open>Run_Claims\<close> hold the properties, over the reachable worlds of an inductive step relation.

  \<^bold>\<open>Deploys\<close> (\<^verbatim>\<open>platform/core/state/transactions\<close>, \<^verbatim>\<open>platform/deploy/exec\<close>,
  \<^verbatim>\<open>platform/deploy/controlplane/cluster\<close>, \<^verbatim>\<open>extensions/states/local/journaling.go\<close>). \<open>Journal\<close> models
  the transaction journal, its checksum and its backends, \<open>Deploy_Engine\<close> the engine of phases, the
  universal deploy, the coordinator's choice of a journal, backoff and retries. \<open>Journal_Claims\<close> has the
  locales \<open>journal_store\<close> and \<open>strict_store\<close>, interpreted on the file backend and (the weaker one only)
  on the local state extension; \<open>Deploy_Claims\<close> the properties of the engine.

  \<^bold>\<open>Router\<close> (\<^verbatim>\<open>platform/workflow/app/router_*.go\<close>, \<^verbatim>\<open>platform/core/state/core/router_sync.go\<close>,
  \<^verbatim>\<open>internal/cli/router/router.go\<close>). \<open>Go_Values\<close> has dynamic configuration values; \<open>Router_Routing\<close> the
  routing configuration generated from a fabric state, weights, DNS and load balancer plans, and the
  printed guide; \<open>Router_Weights\<close> shows that rebalancing reaches its target; \<open>Router_Simulation\<close> the
  simulated traffic and the failover check; \<open>Router_Policy\<close> the sync policy of a stage;
  \<open>Router_History\<close> snapshots and their analysis; \<open>Router_Sync\<close> the sync, the gates and commands of the
  CLI and the operations of the daemon, with a log of every plugin call. \<open>Router_Dry\<close> tells which
  operations can reach the plugin with a mutating call; \<open>Router_Claims\<close>, \<open>Router_Sync_Claims\<close> and
  \<open>Router_Restore_Claims\<close> hold the properties.

  \<^bold>\<open>Secrets\<close> (\<^verbatim>\<open>platform/core/policy/secrets\<close>). \<open>Secrets\<close> models placeholders, chains of references and
  the checks; \<open>Policy_Claims\<close> holds its properties and those of the sync policy.

  \<^bold>\<open>Compose files\<close> (\<^verbatim>\<open>platform/workflow/core/compose_file.go\<close>, \<^verbatim>\<open>compose.go\<close>,
  \<^verbatim>\<open>platform/workflow/app/compose.go\<close>). \<open>Compose\<close> models the depth-first order of the services, its
  cycle check, and deployment and removal in that order with the binding variables; \<open>Compose_Claims\<close>
  shows the order correct. Reading the file, \<^verbatim>\<open>Deploy\<close>, \<^verbatim>\<open>Remove\<close> and receipts are parameters.

  \<^bold>\<open>Lock files and leases\<close> (\<^verbatim>\<open>platform/state/locking\<close>, \<^verbatim>\<open>internal/state/types\<close>, \<^verbatim>\<open>internal/lease\<close>,
  \<^verbatim>\<open>platform/workflow/app/unlock.go\<close>). \<open>Locks\<close> models acquiring, reading, renewing and releasing a lock
  file as programs over system calls, which run either alone or interleaved with other processes, the
  handle, the heartbeat and the managed lease. \<open>Locks_Claims\<close> shows mutual exclusion by an invariant over
  the interleavings, the races that the assumptions of that theorem exclude, and every outcome of a call
  that runs alone.

  \<^bold>\<open>Configuration\<close> (\<^verbatim>\<open>platform/core/model/config\<close>). \<open>Config_Types\<close> has the document, \<open>Config_Resolve\<close>
  its normalization, the placeholders, stage patterns and stage overrides of \<^verbatim>\<open>Resolve\<close>, and the bindings
  of addons and resources; \<open>Config_Validate\<close> the checks. \<open>Config_Claims\<close> and \<open>Config_Check_Claims\<close> show the
  matcher equal to its language, the precedence of stages, and what normalized and accepted documents
  guarantee.

  \<^bold>\<open>Workflow steps\<close> (\<^verbatim>\<open>platform/workflow/runtime/workflow_*.go\<close>, \<^verbatim>\<open>platform/core/model/config/mcp.go\<close>).
  \<open>MCP_Config\<close> reads the MCP servers and policies of a configuration; \<open>Step_Models\<close> has what a provider
  decides: models, prompts, result mappers, output shapes, costs and cache keys; \<open>MCP_Runtime\<close> the bindings,
  wildcards, policy checks, audit metadata and retries of MCP calls, with a log of every call and wait;
  \<open>Step_Kinds\<close> the handler that executes a step by its kind, which can be the handler of \<open>Workflow_Runtime\<close>
  (\<open>as_handler\<close>). \<open>MCP_Config_Claims\<close> shows the normal form of what is read, \<open>MCP_Glob_Claims\<close> the language of the
  matcher, \<open>Step_Claims\<close> which calls leave a step and how many, \<open>Step_Audit_Claims\<close> that the calls of a
  successful step are audited, and what an approval does.

  \<^bold>\<open>Registry\<close> (\<^verbatim>\<open>apps/registry/internal/store\<close>, \<^verbatim>\<open>apps/registry/internal/server\<close>).
  \<open>Registry_Text\<close> has the string, path and escape functions of Go that it uses; \<open>Registry_Store\<close> the data,
  version order, resolution, listings and audit log; \<open>Registry_Publish\<close> the publish workflow and the upload
  endpoint; a write of a file can fail before or after it has truncated the file (\<open>os_WriteFile\<close>). \<open>Registry_Order\<close> and \<open>Registry_Paths\<close> hold the laws of versions and paths, \<open>Registry_Claims\<close> the
  properties of resolution and pages, \<open>Registry_Upload_Claims\<close> those of published versions and uploads over all
  sequences of requests. \<open>Registry_Packages\<close> models the store of packages, versions and organizations, and
  \<open>Registry_Package_Claims\<close> shows that it refines a map and keeps its owners; \<open>Registry_Access\<close> the policies,
  identities, bearer tokens, signed URLs and rate limits, with their properties in \<open>Registry_Access_Claims\<close>.
  \<open>Registry_Server\<close> has the handlers of packages, versions, organizations and artifacts and the response cache,
  \<open>Registry_Endpoints\<close> the other handlers, the routes and the whole server (\<open>serve\<close>). \<open>Registry_Server_Claims\<close>
  shows over all sequences of requests who can change packages and organizations, and that the cache does not
  show as long as changes are saved;
  \<open>Registry_Artifact_Claims\<close> the round trip of an artifact through its signed URLs. Hashes and signatures are
  parameters.

  \<^bold>\<open>Bounds and fuel.\<close> Every function is total. Loops with a bound in the code recurse on it (attempts of
  a step or of an MCP call, depth of a secret chain, size of a policy object); the correction loop of the weights
  has the code's own attempt counter and its measure; the loop of the MCP matcher is a partial function, shown to
  return for all arguments; nothing runs on fuel.

  \<^bold>\<open>Not modelled.\<close> Sleeping itself (its outcome is a parameter), and the distributed locker of the router beyond its
  answers; YAML and JSON decoding; the JSON encoding itself (records are stored as values, in their normal form);
  the order of ties in \<^verbatim>\<open>sort.Slice\<close> on more than twelve elements; weights beyond 64 bits; \<^verbatim>\<open>url.Parse\<close> and
  RFC 3339 parsing, which are inputs; infinite and NaN floats; failures of \<^verbatim>\<open>os.Setenv\<close>; reading the
  configuration and the fabric state, which precedes the modelled operations; nil receivers; printing. Of the
  registry, its remote metadata stores, the Redis cache, S3 signatures, the fetching of signing keys, the redirects
  of \<^verbatim>\<open>ServeMux\<close>, the frontend and the status pages. The clients of cloud services, language models and MCP servers,
  telemetry, the plugin protocol, the daemon's HTTP server and project generation are interaction with the outside
  and are left out.
\<close>

end
